(* ===== verification/Prelude.thy ===== *)
theory Prelude
  imports Main "HOL-Library.Word"
begin

text \<open>
  Shared vocabulary of the development: the JavaScript idioms the server's code is
  written in (\<open>a || b\<close>, \<open>a ?? b\<close>, \<open>!!a\<close>, \<open>x | 0\<close>, \<open>x >>> 0\<close>, \<open>Array.findIndex\<close>,
  \<open>Array.splice\<close>, in-place mutation of a found element), the error values every fallible
  operation returns, and the list lemmas the component theories share.

  An absent property (\<open>undefined\<close> or \<open>null\<close>) is \<open>None\<close>; JavaScript numbers that hold
  identifiers, counts and bit fields are \<open>int\<close>; bytes are 8-bit words.
\<close>

named_theorems frame \<open>what an operation leaves unchanged\<close>
named_theorems room_simps \<open>field projections of the room operations\<close>

type_synonym byte = "8 word"
type_synonym bytes = "8 word list"

section \<open>JavaScript idioms\<close>

text \<open>\<open>a || b\<close> on numbers, strings and booleans: \<open>0\<close>, the empty string, \<open>false\<close> and a missing
  value are falsy.\<close>

definition or_num :: "int option \<Rightarrow> int \<Rightarrow> int" where
  "or_num x d = (case x of None \<Rightarrow> d | Some v \<Rightarrow> if v = 0 then d else v)"

definition or_str :: "string option \<Rightarrow> string \<Rightarrow> string" where
  "or_str x d = (case x of None \<Rightarrow> d | Some v \<Rightarrow> if v = [] then d else v)"

definition int_or :: "int \<Rightarrow> int \<Rightarrow> int" where
  "int_or a b = (if a = 0 then b else a)"

definition str_or :: "string \<Rightarrow> string \<Rightarrow> string" where
  "str_or a b = (if a = [] then b else a)"

definition truthy :: "bool option \<Rightarrow> bool" where
  "truthy x = (x = Some True)"

text \<open>\<open>a ?? b\<close>: only a missing value is replaced.\<close>

definition nullish :: "'a option \<Rightarrow> 'a \<Rightarrow> 'a" where
  "nullish x d = (case x of None \<Rightarrow> d | Some v \<Rightarrow> v)"

text \<open>\<open>x | 0\<close> (ToInt32) and \<open>x >>> 0\<close> (ToUint32).\<close>

definition to_int32 :: "int \<Rightarrow> int" where
  "to_int32 x = (x + 2 ^ 31) mod 2 ^ 32 - 2 ^ 31"

definition to_uint32 :: "int \<Rightarrow> int" where
  "to_uint32 x = x mod 2 ^ 32"

text \<open>\<open>Math.ceil (n / 2)\<close>.\<close>

definition ceil_half :: "int \<Rightarrow> int" where
  "ceil_half n = (n + 1) div 2"

lemma to_int32_id: "- (2 ^ 31) \<le> x \<Longrightarrow> x < 2 ^ 31 \<Longrightarrow> to_int32 x = x"
  by (simp add: to_int32_def)

lemma to_int32_range: "- (2 ^ 31) \<le> to_int32 x \<and> to_int32 x < 2 ^ 31"
  by (simp add: to_int32_def)

lemma to_uint32_range: "0 \<le> to_uint32 x \<and> to_uint32 x < 2 ^ 32"
  by (simp add: to_uint32_def)

section \<open>Lists as JavaScript arrays\<close>

fun find_index :: "('a \<Rightarrow> bool) \<Rightarrow> 'a list \<Rightarrow> nat option" where
  "find_index P [] = None"
| "find_index P (x # xs) = (if P x then Some 0 else map_option Suc (find_index P xs))"

text \<open>\<open>xs.splice(i, 1)\<close>.\<close>

definition splice_out :: "nat \<Rightarrow> 'a list \<Rightarrow> 'a list" where
  "splice_out i xs = take i xs @ drop (Suc i) xs"

text \<open>\<open>const m = xs.find(P); mutate m\<close>: the first element that satisfies \<open>P\<close> is changed in place.\<close>

fun update_first :: "('a \<Rightarrow> bool) \<Rightarrow> ('a \<Rightarrow> 'a) \<Rightarrow> 'a list \<Rightarrow> 'a list" where
  "update_first P f [] = []"
| "update_first P f (x # xs) = (if P x then f x # xs else x # update_first P f xs)"

lemma find_index_Some:
  "find_index P xs = Some i \<Longrightarrow> i < length xs \<and> P (xs ! i)"
  by (induction xs arbitrary: i) (auto split: if_splits)

lemma find_index_None: "find_index P xs = None \<longleftrightarrow> (\<forall>x \<in> set xs. \<not> P x)"
  by (induction xs) auto

lemma find_index_ex: "x \<in> set xs \<Longrightarrow> P x \<Longrightarrow> \<exists>i. find_index P xs = Some i"
  by (metis find_index_None not_None_eq)

lemma set_splice_out: "set (splice_out i xs) \<subseteq> set xs"
  by (auto simp: splice_out_def dest: in_set_takeD in_set_dropD)

lemma map_splice_out: "map f (splice_out i xs) = splice_out i (map f xs)"
  by (simp add: splice_out_def take_map drop_map)

lemma distinct_splice_out: "distinct xs \<Longrightarrow> distinct (splice_out i xs)"
proof -
  assume d: "distinct xs"
  have "set (take i xs) \<inter> set (drop (Suc i) xs) = {}"
    using d set_take_disj_set_drop_if_distinct [of xs i "Suc i"] by simp
  with d show ?thesis
    by (simp add: splice_out_def)
qed

lemma length_splice_out: "i < length xs \<Longrightarrow> length (splice_out i xs) = length xs - 1"
  by (simp add: splice_out_def)

lemma splice_out_removes:
  assumes "distinct xs" and "i < length xs"
  shows "set (splice_out i xs) = set xs - {xs ! i}"
proof -
  have x: "xs = take i xs @ xs ! i # drop (Suc i) xs"
    using assms(2) by (rule id_take_nth_drop)
  then have "xs ! i \<notin> set (take i xs) \<union> set (drop (Suc i) xs)"
    using assms(1) by (metis distinct_append distinct.simps(2) Un_iff disjoint_iff list.set_intros(1))
  moreover have "set xs = insert (xs ! i) (set (take i xs) \<union> set (drop (Suc i) xs))"
    by (subst x) auto
  ultimately show ?thesis
    by (auto simp: splice_out_def)
qed

lemma length_update_first [simp]: "length (update_first P f xs) = length xs"
  by (induction xs) auto

lemma map_update_first:
  "(\<And>x. P x \<Longrightarrow> g (f x) = g x) \<Longrightarrow> map g (update_first P f xs) = map g xs"
  by (induction xs) auto

lemma set_update_first:
  "set (update_first P f xs) \<subseteq> set xs \<union> f ` {x \<in> set xs. P x}"
  by (induction xs) auto

lemma update_first_none: "\<forall>x \<in> set xs. \<not> P x \<Longrightarrow> update_first P f xs = xs"
  by (induction xs) auto

lemma find_Some_set: "find P xs = Some x \<Longrightarrow> x \<in> set xs \<and> P x"
  by (induction xs) (auto split: if_splits)

lemma find_map_inj:
  "find (\<lambda>x. g x = k) xs = Some x \<Longrightarrow> k \<in> g ` set xs"
  by (auto dest: find_Some_set)

section \<open>Errors as values\<close>

text \<open>
  A thrown JavaScript error is a value: a \<open>RoomError\<close> carries a code of the client's
  \<open>ERoom.ErrCode\<close> enum, every other \<open>Error\<close> its message.
\<close>

datatype room_error =
    NOROOM | REACHMAXMEMBERS | ALREADYINROOM | NOTINROOM | ROOMINGAME | CANNOTCREATEROOM
  | INVALIDCODE | CANNOTKICK | NOTOWNER | CREATEROOMFAIL | SEATOCCUPIED | CANNOTSWITCHSEAT

fun errcode :: "room_error \<Rightarrow> int" where
  "errcode NOROOM = 1"
| "errcode REACHMAXMEMBERS = 2"
| "errcode ALREADYINROOM = 4"
| "errcode NOTINROOM = 5"
| "errcode ROOMINGAME = 6"
| "errcode CANNOTCREATEROOM = 8"
| "errcode INVALIDCODE = 10"
| "errcode CANNOTKICK = 11"
| "errcode NOTOWNER = 12"
| "errcode CREATEROOMFAIL = 15"
| "errcode SEATOCCUPIED = 18"
| "errcode CANNOTSWITCHSEAT = 19"

datatype exn = RoomErr room_error | Thrown string

lemma errcode_inj: "errcode a = errcode b \<Longrightarrow> a = b"
  by (cases a; cases b) simp_all

lemma errcode_pos: "0 < errcode e"
  by (cases e) simp_all

end
