(* ===== verification/Documents.thy ===== *)
theory Documents
  imports Prelude Complex_Main
begin

text \<open>
  The documents the server stores: the rich player document of \<open>src/db/player.js\<close> (the
  \<open>state\<close> column of the accounts table), the custom-room record of \<open>src/tcp/rooms.js\<close>, the
  matchmaker's queue entry and the per-match settings of \<open>src/tcp/handlers/RoomStart.js\<close>,
  and the values the Redis hashes and string keys hold. A stored JSON text is represented
  by the value it is the text of.
\<close>

section \<open>The player document\<close>

record skill =
  sk_skill_id :: int
  sk_slot_id :: int

record profile =
  pf_avatar_id :: int
  pf_clothes :: "int list"
  pf_skills :: "skill list"
  pf_is_selected :: bool
  pf_skin_color :: int
  pf_unlocked_level :: int

record emote =
  em_slot_id :: int
  em_emote_id :: int

record selected_items =
  si_avatar_id :: int
  si_skin_color :: int
  si_clothes :: "int list"
  si_banner_id :: int
  si_head_pic :: int
  si_loadouts :: "int list"
  si_slots :: "int list"
  si_shows :: "int list"
  si_emotes :: "emote list option"

record item =
  it_id :: int
  it_cnt :: int

record mail =
  ml_mail_id :: int
  ml_type :: int
  ml_title :: string
  ml_content :: string
  ml_receive_time :: int
  ml_status :: int
  ml_source :: int
  ml_action_type :: int

record clan =
  cl_id :: int
  cl_name :: "string option"
  cl_role :: string
  cl_rank :: int
  cl_points :: int
  cl_members :: "int list"
  cl_announcement :: "string option"
  cl_slogan :: "string option"

record wallet =
  wl_coins :: int
  wl_gems :: int

record account =
  acc_uid :: int
  acc_account_id :: int
  acc_open_id :: "string option"
  acc_open_id_type :: "string option"
  acc_nickname :: string
  acc_device_id :: "string option"
  acc_client_version :: "string option"
  acc_token :: "string option"
  acc_token_created_at :: int
  acc_banned :: bool
  acc_ban_reason :: "string option"
  acc_account_type :: int
  acc_region :: "string option"
  acc_language :: "string option"
  acc_level :: int
  acc_exp :: int
  acc_rank :: int
  acc_cs_rank :: int
  acc_ranking_points :: int
  acc_coins :: int
  acc_gems :: int
  acc_role :: int
  acc_pin_id :: int
  acc_skateboard_id :: int
  acc_elite_pass :: bool
  acc_ep_badge_count :: int
  acc_ep_badge_id :: int
  acc_show_rank :: "bool option"
  acc_game_server_id :: string
  acc_wallet :: wallet
  acc_profiles :: "profile list"
  acc_selected :: selected_items
  acc_items :: "item list"
  acc_friends :: "int list"
  acc_requests :: "int list"
  acc_mails :: "mail list"
  acc_clan :: clan
  acc_created_at :: int
  acc_last_login_at :: int

section \<open>Custom rooms\<close>

record member =
  mb_account_id :: int
  mb_account_role :: int
  mb_nickname :: string
  mb_head_pic :: int
  mb_banner_id :: int
  mb_role :: int
  mb_group_id :: int
  mb_seat :: int
  mb_ready :: bool
  mb_rank :: int
  mb_cs_rank :: int

datatype room_state = WAITING | STARTING | INGAME

record room =
  rm_id :: int
  rm_name :: string
  rm_owner :: int
  rm_code :: string
  rm_map_id :: int
  rm_game_mode :: int
  rm_group_mode :: int
  rm_max_member_num :: int
  rm_max_spectator_num :: int
  rm_state :: room_state
  rm_room_type :: int
  rm_enable_death_spectate :: bool
  rm_level_visual_style :: int
  rm_room_setting :: int
  rm_room_setting2 :: int
  rm_is_cs_advanced :: bool
  rm_cs_advanced :: bytes
  rm_members :: "member list"
  rm_createdAt :: int

section \<open>Matchmaking\<close>

record mode =
  md_match_mode :: int
  md_game_mode :: int
  md_map_id :: int
  md_difficulty :: int

record queue_entry =
  qe_node :: string
  qe_mode :: mode
  qe_joinedAt :: int

section \<open>Values held by Redis\<close>

text \<open>
  A hash field holds the JSON text of a room or a queue entry, the decimal text of a
  number, or some other text; a string key holds a lock token, a node name or the JSON text
  of a match's settings.
\<close>

datatype hval = HRoom room | HEntry queue_entry | HNum int | HText string

fun parse_room :: "hval \<Rightarrow> room option" where
  "parse_room (HRoom rm) = Some rm"
| "parse_room _ = None"

fun parse_entry :: "hval \<Rightarrow> queue_entry option" where
  "parse_entry (HEntry e) = Some e"
| "parse_entry _ = None"

text \<open>\<open>Number(v) || 0\<close> on the text of a hash field (\<open>NaN\<close> is falsy).\<close>

fun num_of_hval :: "hval option \<Rightarrow> int" where
  "num_of_hval (Some (HNum n)) = n"
| "num_of_hval _ = 0"

record shop_item =
  sh_item_id :: int
  sh_price :: int
  sh_filter :: int
  sh_limitation :: int
  sh_bonus :: bool
  sh_ammo :: int
  sh_slot_kind :: string

record match_settings =
  ms_flags :: "(string \<times> bool) list"
  ms_max_hp :: "int option"
  ms_room_setting :: "int option"
  ms_room_setting2 :: "int option"
  ms_speed_mul :: "rat option"
  ms_jump_mul :: "rat option"
  ms_shop_items :: "shop_item list option"
  ms_events :: "(string \<times> int) list option"
  ms_round_count :: "int option"
  ms_economy :: "int list option"

datatype sval = SText string | SSettings match_settings

end
