(* ===== verification/Redis.thy ===== *)
theory Redis
  imports Documents "HOL-Library.AList"
begin

text \<open>
  The Redis client the server calls and the \<open>Bus\<close> class of \<open>src/bus/index.js\<close> built on it.

  Redis is a service: its commands are a parameter, a record of operations over an abstract
  state, and the locale \<open>redis_laws\<close> states the documented behaviour the server relies on
  (what a read returns after a write, what \<open>SET NX\<close> does on a held key, what the passing of
  time does to a key with a time to live). Every definition of the server takes the record as
  an argument; every theorem about Redis state has \<open>redis_laws R\<close> as a hypothesis, and
  \<open>map_redis\<close> at the end is a concrete keyspace that satisfies it.

  Keys: the literal key strings of the source are constructors. \<open>RoomTable\<close> is \<open>rooms\<close>,
  \<open>RoomMembers\<close> is \<open>room:members\<close>, \<open>MMQueue\<close> is \<open>mmqueue\<close>; \<open>RoomLock i\<close> is \<open>room:lock:<i>\<close>,
  \<open>MMLeader\<close> is \<open>mm:leader\<close>, \<open>Presence u\<close> is \<open>presence:<u>\<close>, \<open>MatchSettings i\<close> is
  \<open>match:<i>:settings\<close>; \<open>RoomSeq\<close> is \<open>room:seq\<close> and \<open>MatchSeq\<close> is \<open>mm:matchseq\<close>. Hash fields are
  \<open>String(id)\<close> of a number, written as the number.
\<close>

datatype hkey = RoomTable | RoomMembers | MMQueue
datatype skey = RoomLock int | MMLeader | Presence int | MatchSettings int
datatype ckey = RoomSeq | MatchSeq

record 'r redis =
  rd_hget :: "'r \<Rightarrow> hkey \<Rightarrow> int \<Rightarrow> hval option"
  rd_hset :: "'r \<Rightarrow> hkey \<Rightarrow> int \<Rightarrow> hval \<Rightarrow> 'r"
  rd_hdel :: "'r \<Rightarrow> hkey \<Rightarrow> int list \<Rightarrow> 'r"
  rd_hgetall :: "'r \<Rightarrow> hkey \<Rightarrow> (int \<times> hval) list"
  rd_incr :: "'r \<Rightarrow> ckey \<Rightarrow> int \<times> 'r"
  rd_count :: "'r \<Rightarrow> ckey \<Rightarrow> int"
  rd_get :: "'r \<Rightarrow> skey \<Rightarrow> sval option"
  rd_pttl :: "'r \<Rightarrow> skey \<Rightarrow> nat"
  rd_set_px :: "'r \<Rightarrow> skey \<Rightarrow> sval \<Rightarrow> nat \<Rightarrow> 'r"
  rd_set_nx_px :: "'r \<Rightarrow> skey \<Rightarrow> sval \<Rightarrow> nat \<Rightarrow> bool \<times> 'r"
  rd_pexpire :: "'r \<Rightarrow> skey \<Rightarrow> nat \<Rightarrow> 'r"
  rd_del :: "'r \<Rightarrow> skey \<Rightarrow> 'r"
  rd_elapse :: "nat \<Rightarrow> 'r \<Rightarrow> 'r"

section \<open>The Bus class\<close>

text \<open>Generic helpers: each is one client call.\<close>

definition bus_hset :: "'r redis \<Rightarrow> hkey \<Rightarrow> int \<Rightarrow> hval \<Rightarrow> 'r \<Rightarrow> 'r" where
  "bus_hset R key field val r = rd_hset R r key field val"

definition bus_hget :: "'r redis \<Rightarrow> hkey \<Rightarrow> int \<Rightarrow> 'r \<Rightarrow> hval option" where
  "bus_hget R key field r = rd_hget R r key field"

definition bus_setKey :: "'r redis \<Rightarrow> skey \<Rightarrow> sval \<Rightarrow> nat \<Rightarrow> 'r \<Rightarrow> 'r" where
  "bus_setKey R key val ttlSec r = rd_set_px R r key val (1000 * ttlSec)"

definition bus_getKey :: "'r redis \<Rightarrow> skey \<Rightarrow> 'r \<Rightarrow> sval option" where
  "bus_getKey R key r = rd_get R r key"

definition bus_hdel :: "'r redis \<Rightarrow> hkey \<Rightarrow> int list \<Rightarrow> 'r \<Rightarrow> 'r" where
  "bus_hdel R key fs r = rd_hdel R r key fs"

definition bus_hgetall :: "'r redis \<Rightarrow> hkey \<Rightarrow> 'r \<Rightarrow> (int \<times> hval) list" where
  "bus_hgetall R key r = rd_hgetall R r key"

definition bus_hlen :: "'r redis \<Rightarrow> hkey \<Rightarrow> 'r \<Rightarrow> nat" where
  "bus_hlen R key r = length (rd_hgetall R r key)"

definition bus_incr :: "'r redis \<Rightarrow> ckey \<Rightarrow> 'r \<Rightarrow> int \<times> 'r" where
  "bus_incr R key r = rd_incr R r key"

text \<open>Presence: \<open>presence:<uid> = node\<close> with a time to live in seconds.\<close>

definition setPresence :: "'r redis \<Rightarrow> string \<Rightarrow> int \<Rightarrow> nat \<Rightarrow> 'r \<Rightarrow> 'r" where
  "setPresence R node accountId ttlSec r =
     rd_set_px R r (Presence accountId) (SText node) (1000 * ttlSec)"

definition clearPresence :: "'r redis \<Rightarrow> int \<Rightarrow> 'r \<Rightarrow> 'r" where
  "clearPresence R accountId r = rd_del R r (Presence accountId)"

definition getNode :: "'r redis \<Rightarrow> int \<Rightarrow> 'r \<Rightarrow> string option" where
  "getNode R accountId r =
     (case rd_get R r (Presence accountId) of Some (SText n) \<Rightarrow> Some n | _ \<Rightarrow> None)"

text \<open>\<open>getNodes\<close> returns an object with the online ids only (\<open>if (vals[i]) out[id] = vals[i]\<close>;
  the empty text is falsy); a later duplicate id overwrites the same entry.\<close>

definition getNodes :: "'r redis \<Rightarrow> int list \<Rightarrow> 'r \<Rightarrow> int \<Rightarrow> string option" where
  "getNodes R accountIds r = (\<lambda>i.
     if i \<in> set accountIds
     then (case getNode R i r of Some n \<Rightarrow> if n = [] then None else Some n | None \<Rightarrow> None)
     else None)"

definition refreshPresence :: "'r redis \<Rightarrow> string \<Rightarrow> int list \<Rightarrow> nat \<Rightarrow> 'r \<Rightarrow> 'r" where
  "refreshPresence R node accountIds ttlSec r =
     fold (\<lambda>i s. setPresence R node i ttlSec s) accountIds r"

text \<open>
  The lease: \<open>SET key token PX ttl NX\<close>, and the two Lua scripts, each an atomic
  compare-and-act on the token.
\<close>

definition acquireLock :: "'r redis \<Rightarrow> skey \<Rightarrow> string \<Rightarrow> nat \<Rightarrow> 'r \<Rightarrow> bool \<times> 'r" where
  "acquireLock R key token ttlMs r = rd_set_nx_px R r key (SText token) ttlMs"

definition renewLock :: "'r redis \<Rightarrow> skey \<Rightarrow> string \<Rightarrow> nat \<Rightarrow> 'r \<Rightarrow> bool \<times> 'r" where
  "renewLock R key token ttlMs r =
     (if rd_get R r key = Some (SText token) then (True, rd_pexpire R r key ttlMs)
      else (False, r))"

definition releaseLock :: "'r redis \<Rightarrow> skey \<Rightarrow> string \<Rightarrow> 'r \<Rightarrow> bool \<times> 'r" where
  "releaseLock R key token r =
     (if rd_get R r key = Some (SText token) then (True, rd_del R r key) else (False, r))"

section \<open>What the server relies on\<close>

locale redis_laws =
  fixes R :: "'r redis"
  assumes hget_hset:
      "rd_hget R (rd_hset R r k f v) k' f' = (if k' = k \<and> f' = f then Some v else rd_hget R r k' f')"
    and hget_hdel:
      "rd_hget R (rd_hdel R r k fs) k' f' = (if k' = k \<and> f' \<in> set fs then None else rd_hget R r k' f')"
    and hgetall_distinct: "distinct (map fst (rd_hgetall R r k))"
    and hgetall_hget: "map_of (rd_hgetall R r k) = rd_hget R r k"
    and incr_fst: "fst (rd_incr R r c) = rd_count R r c + 1"
    and count_incr:
      "rd_count R (snd (rd_incr R r c)) c' = (if c' = c then rd_count R r c + 1 else rd_count R r c')"
    and get_set_px:
      "0 < d \<Longrightarrow> rd_get R (rd_set_px R r s w d) s' = (if s' = s then Some w else rd_get R r s')"
    and pttl_set_px:
      "0 < d \<Longrightarrow> rd_pttl R (rd_set_px R r s w d) s' = (if s' = s then d else rd_pttl R r s')"
    and set_nx_held: "rd_get R r s \<noteq> None \<Longrightarrow> rd_set_nx_px R r s w d = (False, r)"
    and set_nx_free: "rd_get R r s = None \<Longrightarrow> rd_set_nx_px R r s w d = (True, rd_set_px R r s w d)"
    and get_pexpire: "0 < d \<Longrightarrow> rd_get R (rd_pexpire R r s d) s' = rd_get R r s'"
    and pttl_pexpire:
      "0 < d \<Longrightarrow> rd_get R r s \<noteq> None \<Longrightarrow>
         rd_pttl R (rd_pexpire R r s d) s' = (if s' = s then d else rd_pttl R r s')"
    and get_del: "rd_get R (rd_del R r s) s' = (if s' = s then None else rd_get R r s')"
    and pttl_del: "s' \<noteq> s \<Longrightarrow> rd_pttl R (rd_del R r s) s' = rd_pttl R r s'"
    and get_elapse:
      "rd_get R (rd_elapse R d r) s = (if rd_pttl R r s \<le> d then None else rd_get R r s)"
    and pttl_elapse: "rd_pttl R (rd_elapse R d r) s = rd_pttl R r s - d"
    and get_pttl: "rd_get R r s \<noteq> None \<Longrightarrow> 0 < rd_pttl R r s"
    and hash_frame:
      "rd_hget R (snd (rd_incr R r c)) = rd_hget R r"
      "rd_hget R (rd_set_px R r s w d) = rd_hget R r"
      "rd_hget R (rd_pexpire R r s d) = rd_hget R r"
      "rd_hget R (rd_del R r s) = rd_hget R r"
      "rd_hget R (rd_elapse R d r) = rd_hget R r"
    and count_frame:
      "rd_count R (rd_hset R r k f v) = rd_count R r"
      "rd_count R (rd_hdel R r k fs) = rd_count R r"
      "rd_count R (rd_set_px R r s w d) = rd_count R r"
      "rd_count R (rd_pexpire R r s d) = rd_count R r"
      "rd_count R (rd_del R r s) = rd_count R r"
      "rd_count R (rd_elapse R d r) = rd_count R r"
    and string_frame:
      "rd_get R (rd_hset R r k f v) = rd_get R r"
      "rd_get R (rd_hdel R r k fs) = rd_get R r"
      "rd_get R (snd (rd_incr R r c)) = rd_get R r"
      "rd_pttl R (rd_hset R r k f v) = rd_pttl R r"
      "rd_pttl R (rd_hdel R r k fs) = rd_pttl R r"
      "rd_pttl R (snd (rd_incr R r c)) = rd_pttl R r"
begin

lemmas hash_simps = hget_hset hget_hdel hash_frame
lemmas count_simps = incr_fst count_incr count_frame
lemmas string_simps = get_set_px get_pexpire get_del string_frame

text \<open>The lock operations never touch a hash or a counter.\<close>

lemma acquireLock_hash: "rd_hget R (snd (acquireLock R k t d r)) = rd_hget R r"
  by (cases "rd_get R r k") (simp_all add: acquireLock_def set_nx_held set_nx_free hash_frame)

lemma acquireLock_count: "rd_count R (snd (acquireLock R k t d r)) = rd_count R r"
  by (cases "rd_get R r k") (simp_all add: acquireLock_def set_nx_held set_nx_free count_frame)

lemma releaseLock_hash: "rd_hget R (snd (releaseLock R k t r)) = rd_hget R r"
  by (simp add: releaseLock_def hash_frame)

lemma releaseLock_count: "rd_count R (snd (releaseLock R k t r)) = rd_count R r"
  by (simp add: releaseLock_def count_frame)

lemma renewLock_hash: "rd_hget R (snd (renewLock R k t d r)) = rd_hget R r"
  by (simp add: renewLock_def hash_frame)

text \<open>The lease protocol.\<close>

lemma acquire_iff_free: "fst (acquireLock R k t d r) \<longleftrightarrow> rd_get R r k = None"
  by (cases "rd_get R r k") (simp_all add: acquireLock_def set_nx_held set_nx_free)

lemma acquire_holds:
  "0 < d \<Longrightarrow> acquireLock R k t d r = (True, r') \<Longrightarrow> rd_get R r' k = Some (SText t)"
  by (cases "rd_get R r k") (auto simp: acquireLock_def set_nx_held set_nx_free get_set_px)

lemma renew_iff_holder: "fst (renewLock R k t d r) \<longleftrightarrow> rd_get R r k = Some (SText t)"
  by (simp add: renewLock_def)

lemma release_frees:
  "rd_get R r k = Some (SText t) \<Longrightarrow> rd_get R (snd (releaseLock R k t r)) k = None"
  by (simp add: releaseLock_def get_del)

lemma release_other:
  "rd_get R r k \<noteq> Some (SText t) \<Longrightarrow> releaseLock R k t r = (False, r)"
  by (simp add: releaseLock_def)

lemma hgetall_mem: "(f, v) \<in> set (rd_hgetall R r k) \<longleftrightarrow> rd_hget R r k f = Some v"
  using hgetall_distinct [of r k] hgetall_hget [of r k] by (metis map_of_eq_Some_iff)

lemma refreshPresence_get:
  "0 < ttl \<Longrightarrow> rd_get R (refreshPresence R node ids ttl r) s =
     (if s \<in> Presence ` set ids then Some (SText node) else rd_get R r s)"
  unfolding refreshPresence_def
  by (induction ids arbitrary: r) (auto simp: setPresence_def get_set_px)

lemma refreshPresence_pttl:
  "0 < ttl \<Longrightarrow> i \<in> set ids \<Longrightarrow> rd_pttl R (refreshPresence R node ids ttl r) (Presence i) = 1000 * ttl"
proof -
  assume ttl: "0 < ttl"
  have "rd_pttl R (fold (\<lambda>i s. setPresence R node i ttl s) ids r) (Presence i) =
      (if i \<in> set ids then 1000 * ttl else rd_pttl R r (Presence i))"
    using ttl by (induction ids arbitrary: r) (auto simp: setPresence_def pttl_set_px)
  then show "i \<in> set ids \<Longrightarrow> ?thesis"
    by (simp add: refreshPresence_def)
qed

end

section \<open>A keyspace that satisfies the laws\<close>

text \<open>
  Hashes as association lists, counters as functions, string keys with the remaining time to
  live in milliseconds (a live key has a positive one). The theorems hold for every client
  that satisfies \<open>redis_laws\<close>; witnesses evaluate the server on this one.
\<close>

record keyspace =
  ks_hash :: "hkey \<Rightarrow> (int \<times> hval) list"
  ks_count :: "ckey \<Rightarrow> int"
  ks_str :: "skey \<Rightarrow> (sval \<times> nat) option"

definition ks_live :: "keyspace \<Rightarrow> skey \<Rightarrow> (sval \<times> nat) option" where
  "ks_live r s = (case ks_str r s of None \<Rightarrow> None | Some p \<Rightarrow> if 0 < snd p then Some p else None)"

definition empty_keyspace :: keyspace where
  "empty_keyspace = \<lparr>ks_hash = (\<lambda>_. []), ks_count = (\<lambda>_. 0), ks_str = (\<lambda>_. None)\<rparr>"

definition map_redis :: "keyspace redis" where
  "map_redis = \<lparr>
     rd_hget = (\<lambda>r k f. map_of (ks_hash r k) f),
     rd_hset = (\<lambda>r k f v. r\<lparr>ks_hash := (ks_hash r)(k := (f, v) # ks_hash r k)\<rparr>),
     rd_hdel = (\<lambda>r k fs. r\<lparr>ks_hash := (ks_hash r)(k := filter (\<lambda>p. fst p \<notin> set fs) (ks_hash r k))\<rparr>),
     rd_hgetall = (\<lambda>r k. AList.clearjunk (ks_hash r k)),
     rd_incr = (\<lambda>r c. (ks_count r c + 1, r\<lparr>ks_count := (ks_count r)(c := ks_count r c + 1)\<rparr>)),
     rd_count = (\<lambda>r c. ks_count r c),
     rd_get = (\<lambda>r s. map_option fst (ks_live r s)),
     rd_pttl = (\<lambda>r s. case ks_live r s of Some p \<Rightarrow> snd p | None \<Rightarrow> 0),
     rd_set_px = (\<lambda>r s v d. r\<lparr>ks_str := (ks_str r)(s \<mapsto> (v, d))\<rparr>),
     rd_set_nx_px = (\<lambda>r s v d. if ks_live r s = None
        then (True, r\<lparr>ks_str := (ks_str r)(s \<mapsto> (v, d))\<rparr>) else (False, r)),
     rd_pexpire = (\<lambda>r s d. case ks_live r s of
        Some p \<Rightarrow> r\<lparr>ks_str := (ks_str r)(s \<mapsto> (fst p, d))\<rparr> | None \<Rightarrow> r),
     rd_del = (\<lambda>r s. r\<lparr>ks_str := (ks_str r)(s := None)\<rparr>),
     rd_elapse = (\<lambda>d r. r\<lparr>ks_str := (\<lambda>s. map_option (\<lambda>p. (fst p, snd p - d)) (ks_str r s))\<rparr>)\<rparr>"

lemma map_of_drop_keys:
  "map_of (filter (\<lambda>p. fst p \<notin> A) xs) f = (if f \<in> A then None else map_of xs f)"
  by (induction xs) auto

interpretation kr: redis_laws map_redis
proof (unfold_locales, goal_cases)
  case (2 r k fs k' f')
  then show ?case by (simp add: map_redis_def map_of_drop_keys)
next
  case (3 r k)
  then show ?case by (simp add: map_redis_def distinct_clearjunk)
next
  case (4 r k)
  then show ?case by (simp add: map_redis_def map_of_clearjunk)
qed (auto simp: map_redis_def ks_live_def split: option.splits if_splits)

end
