(* ===== verification/Rooms.thy ===== *)
theory Rooms
  imports Redis
begin

text \<open>
  The custom-room store of \<open>src/tcp/rooms.js\<close>: the record of a room, the lock that serialises
  the read-modify-write of one room, and the operations (create, list, join, leave, kick,
  change, setReady, switchSeat, startMatch, reenter, get, roomIdOf).

  An operation is a function from the Redis state to its result and the new state; a thrown
  error is \<open>Inl\<close> and keeps the writes made before it. A gateway node (\<open>node\<close>) has its bus
  (\<open>None\<close> when \<open>REDIS_URL\<close> is unset), its lock token, and \<open>nd_env\<close>, the effect the other nodes
  have on Redis while this one awaits: it is applied where an operation yields outside the
  room lock (after the membership check of \<open>create\<close>, before the first attempt to take the
  lock and in every 20 ms sleep between attempts). Under the lock the body is one atomic
  step. A theorem about an operation quantifies over \<open>nd_env\<close>.
\<close>

section \<open>Requests and nodes\<close>

text \<open>The fields the room requests carry; an absent one is \<open>None\<close>. Each handler reads its own.\<close>

record room_req =
  rq_room_id :: "int option"
  rq_room_name :: "string option"
  rq_code :: "string option"
  rq_map_id :: "int option"
  rq_game_mode :: "int option"
  rq_group_mode :: "int option"
  rq_max_member_num :: "int option"
  rq_max_spectator_num :: "int option"
  rq_room_type :: "int option"
  rq_enable_death_spectate :: "bool option"
  rq_level_visual_style :: "int option"
  rq_room_setting :: "int option"
  rq_room_setting2 :: "int option"
  rq_is_cs_advanced :: "bool option"
  rq_cs_advanced_setting :: "bytes option"
  rq_ready :: "bool option"
  rq_kick_account_id :: "int option"
  rq_to_room_pos :: "int option"
  rq_to_group_pos :: "int option"
  rq_count_down_seconds :: "int option"

record 'r node =
  nd_bus :: "'r redis option"
  nd_token :: string
  nd_env :: "'r \<Rightarrow> 'r"

type_synonym ('r, 'a) op = "'r \<Rightarrow> (exn + 'a) \<times> 'r"

definition ROLE_MEMBER :: int where "ROLE_MEMBER = 1"
definition DEFAULT_MAX_MEMBERS :: int where "DEFAULT_MAX_MEMBERS = 8"
definition NUM_TEAMS :: int where "NUM_TEAMS = 2"

section \<open>Store primitives\<close>

definition loadRoom :: "'r redis \<Rightarrow> int \<Rightarrow> 'r \<Rightarrow> room option" where
  "loadRoom R roomId r =
     (case bus_hget R RoomTable roomId r of None \<Rightarrow> None | Some raw \<Rightarrow> parse_room raw)"

definition saveRoom :: "'r redis \<Rightarrow> room \<Rightarrow> 'r \<Rightarrow> 'r" where
  "saveRoom R rm r = bus_hset R RoomTable (rm_id rm) (HRoom rm) r"

definition deleteRoom :: "'r redis \<Rightarrow> int \<Rightarrow> 'r \<Rightarrow> 'r" where
  "deleteRoom R roomId r = bus_hdel R RoomTable [roomId] r"

text \<open>\<open>for (let i = 0; i < 50; i += 1)\<close>: take the lease and run the body, else sleep and retry.\<close>

fun lock_attempts ::
  "'r redis \<Rightarrow> 'r node \<Rightarrow> int \<Rightarrow> ('r, 'a) op \<Rightarrow> nat \<Rightarrow> ('r, 'a) op" where
  "lock_attempts R N roomId fn 0 r = (Inl (Thrown ''lock timeout''), r)"
| "lock_attempts R N roomId fn (Suc n) r =
     (case acquireLock R (RoomLock roomId) (nd_token N) 3000 r of (ok, r1) \<Rightarrow>
        if ok
        then (case fn r1 of (res, r2) \<Rightarrow>
               (res, snd (releaseLock R (RoomLock roomId) (nd_token N) r2)))
        else lock_attempts R N roomId fn n (nd_env N r1))"

definition withRoomLock :: "'r redis \<Rightarrow> 'r node \<Rightarrow> int \<Rightarrow> ('r, 'a) op \<Rightarrow> ('r, 'a) op" where
  "withRoomLock R N roomId fn r = lock_attempts R N roomId fn 50 (nd_env N r)"

section \<open>Seats and teams\<close>

definition accountNum :: "account \<Rightarrow> int" where
  "accountNum a = int_or (acc_uid a) (acc_account_id a)"

definition memberFromAccount :: "account \<Rightarrow> int \<Rightarrow> int \<Rightarrow> int \<Rightarrow> member" where
  "memberFromAccount a groupId seat role = \<lparr>
     mb_account_id = accountNum a,
     mb_account_role = acc_role a,
     mb_nickname = str_or (acc_nickname a) ''Player'',
     mb_head_pic = si_head_pic (acc_selected a),
     mb_banner_id = si_banner_id (acc_selected a),
     mb_role = role,
     mb_group_id = groupId,
     mb_seat = seat,
     mb_ready = False,
     mb_rank = acc_rank a,
     mb_cs_rank = acc_cs_rank a\<rparr>"

text \<open>\<open>m.group_id || 1\<close>.\<close>

definition group_of :: "member \<Rightarrow> int" where
  "group_of m = int_or (mb_group_id m) 1"

definition team_count :: "room \<Rightarrow> int \<Rightarrow> nat" where
  "team_count rm gid = length (filter (\<lambda>m. group_of m = gid) (rm_members rm))"

text \<open>The emptier of the two teams, ties to team 1.\<close>

definition pickTeam :: "room \<Rightarrow> int" where
  "pickTeam rm = (if team_count rm 2 < team_count rm 1 then 2 else 1)"

definition perTeamCap :: "room \<Rightarrow> int" where
  "perTeamCap rm = max 1 (ceil_half (int_or (rm_max_member_num rm) DEFAULT_MAX_MEMBERS))"

definition freeSeat :: "room \<Rightarrow> int \<Rightarrow> int" where
  "freeSeat rm groupId =
     (let taken = map mb_seat (filter (\<lambda>m. group_of m = groupId) (rm_members rm))
      in case find (\<lambda>s. s \<notin> set taken) [0..perTeamCap rm - 1] of None \<Rightarrow> -1 | Some s \<Rightarrow> s)"

section \<open>Operations\<close>

fun hval_truthy :: "hval option \<Rightarrow> bool" where
  "hval_truthy None = False"
| "hval_truthy (Some (HText t)) = (t \<noteq> [])"
| "hval_truthy (Some _) = True"

definition new_room :: "int \<Rightarrow> account \<Rightarrow> room_req \<Rightarrow> int \<Rightarrow> room" where
  "new_room rid a req now = \<lparr>
     rm_id = rid,
     rm_name = or_str (rq_room_name req) (str_or (acc_nickname a) ''Player'' @ [CHR 0x27] @ ''s room''),
     rm_owner = accountNum a,
     rm_code = or_str (rq_code req) [],
     rm_map_id = or_num (rq_map_id req) 0,
     rm_game_mode = or_num (rq_game_mode req) 0,
     rm_group_mode = or_num (rq_group_mode req) 0,
     rm_max_member_num = or_num (rq_max_member_num req) DEFAULT_MAX_MEMBERS,
     rm_max_spectator_num = or_num (rq_max_spectator_num req) 0,
     rm_state = WAITING,
     rm_room_type = or_num (rq_room_type req) 0,
     rm_enable_death_spectate = truthy (rq_enable_death_spectate req),
     rm_level_visual_style = or_num (rq_level_visual_style req) 0,
     rm_room_setting = or_num (rq_room_setting req) 0,
     rm_room_setting2 = or_num (rq_room_setting2 req) 0,
     rm_is_cs_advanced = truthy (rq_is_cs_advanced req),
     rm_cs_advanced = nullish (rq_cs_advanced_setting req) [],
     rm_members = [memberFromAccount a 1 0 ROLE_MEMBER],
     rm_createdAt = now\<rparr>"

definition create :: "'r node \<Rightarrow> account \<Rightarrow> room_req \<Rightarrow> int \<Rightarrow> ('r, room) op" where
  "create N a req now r =
     (case nd_bus N of
        None \<Rightarrow> (Inl (RoomErr CANNOTCREATEROOM), r)
      | Some R \<Rightarrow>
          (let accountId = accountNum a
           in if hval_truthy (bus_hget R RoomMembers accountId r)
              then (Inl (RoomErr ALREADYINROOM), r)
              else (case bus_incr R RoomSeq (nd_env N r) of (rid, r1) \<Rightarrow>
                     (let rm = new_room rid a req now;
                          r2 = saveRoom R rm r1;
                          r3 = bus_hset R RoomMembers accountId (HNum rid) r2
                      in (Inr rm, r3)))))"

fun parsed_rooms :: "(int \<times> hval) list \<Rightarrow> room list" where
  "parsed_rooms [] = []"
| "parsed_rooms ((f, raw) # rest) =
     (case parse_room raw of None \<Rightarrow> parsed_rooms rest | Some rm \<Rightarrow> rm # parsed_rooms rest)"

text \<open>The rooms \<open>list\<close> shows, before their projection to \<open>RoomBasicInfo\<close>.\<close>

definition waiting_rooms :: "'r node \<Rightarrow> 'r \<Rightarrow> room list" where
  "waiting_rooms N r =
     (case nd_bus N of
        None \<Rightarrow> []
      | Some R \<Rightarrow> filter (\<lambda>rm. rm_state rm = WAITING) (parsed_rooms (bus_hgetall R RoomTable r)))"

definition resolve_room :: "'r redis \<Rightarrow> room_req \<Rightarrow> 'r \<Rightarrow> int" where
  "resolve_room R req r =
     (let roomId = or_num (rq_room_id req) 0; code = or_str (rq_code req) []
      in if roomId = 0 \<and> code \<noteq> []
         then (case find (\<lambda>rm. rm_code rm \<noteq> [] \<and> rm_code rm = code)
                      (parsed_rooms (bus_hgetall R RoomTable r)) of
                 None \<Rightarrow> 0 | Some rm \<Rightarrow> rm_id rm)
         else roomId)"

definition join_body :: "'r redis \<Rightarrow> account \<Rightarrow> room_req \<Rightarrow> int \<Rightarrow> ('r, room \<times> member) op" where
  "join_body R a req roomId r =
     (let accountId = accountNum a; code = or_str (rq_code req) [] in
      case loadRoom R roomId r of
        None \<Rightarrow> (Inl (RoomErr NOROOM), r)
      | Some rm \<Rightarrow>
          if rm_state rm \<noteq> WAITING then (Inl (RoomErr ROOMINGAME), r)
          else if code \<noteq> [] \<and> rm_code rm \<noteq> [] \<and> code \<noteq> rm_code rm then (Inl (RoomErr INVALIDCODE), r)
          else if accountId \<in> mb_account_id ` set (rm_members rm) then (Inl (RoomErr ALREADYINROOM), r)
          else if int (length (rm_members rm)) \<ge> rm_max_member_num rm
               then (Inl (RoomErr REACHMAXMEMBERS), r)
          else
            (let groupId = pickTeam rm;
                 seat = freeSeat rm groupId;
                 joiner = memberFromAccount a groupId (if seat \<ge> 0 then seat else 0) ROLE_MEMBER;
                 rm' = rm\<lparr>rm_members := rm_members rm @ [joiner]\<rparr>;
                 r1 = saveRoom R rm' r;
                 r2 = bus_hset R RoomMembers accountId (HNum (rm_id rm)) r1
             in (Inr (rm', joiner), r2)))"

definition join :: "'r node \<Rightarrow> account \<Rightarrow> room_req \<Rightarrow> ('r, room \<times> member) op" where
  "join N a req r =
     (case nd_bus N of
        None \<Rightarrow> (Inl (RoomErr NOROOM), r)
      | Some R \<Rightarrow>
          (let roomId = resolve_room R req r
           in if roomId = 0 then (Inl (RoomErr NOROOM), r)
              else withRoomLock R N roomId (join_body R a req roomId) r))"

text \<open>The result of \<open>leave\<close> when the account was in a room.\<close>

record leave_result =
  lv_room :: room
  lv_leaver :: "member option"
  lv_dismissed :: bool
  lv_members :: "member list"

definition leave_body :: "'r redis \<Rightarrow> int \<Rightarrow> int \<Rightarrow> ('r, leave_result option) op" where
  "leave_body R accountId roomId r =
     (let loaded = loadRoom R roomId r; r1 = bus_hdel R RoomMembers [accountId] r in
      case loaded of
        None \<Rightarrow> (Inr None, r1)
      | Some rm \<Rightarrow>
          (let idx = find_index (\<lambda>m. mb_account_id m = accountId) (rm_members rm);
               leaver = map_option (\<lambda>i. rm_members rm ! i) idx
           in if rm_owner rm = accountId \<or> length (rm_members rm) \<le> 1
              then (let r2 = deleteRoom R (rm_id rm) r1;
                        r3 = fold (\<lambda>m s. if mb_account_id m \<noteq> accountId
                                     then bus_hdel R RoomMembers [mb_account_id m] s else s)
                               (rm_members rm) r2
                    in (Inr (Some \<lparr>lv_room = rm, lv_leaver = leaver, lv_dismissed = True,
                                    lv_members = rm_members rm\<rparr>), r3))
              else (let rm' = (case idx of
                                 None \<Rightarrow> rm
                               | Some i \<Rightarrow> rm\<lparr>rm_members := splice_out i (rm_members rm)\<rparr>)
                    in (Inr (Some \<lparr>lv_room = rm', lv_leaver = leaver, lv_dismissed = False,
                                    lv_members = []\<rparr>),
                        saveRoom R rm' r1))))"

definition leave :: "'r node \<Rightarrow> int \<Rightarrow> ('r, leave_result option) op" where
  "leave N accountId r =
     (case nd_bus N of
        None \<Rightarrow> (Inr None, r)
      | Some R \<Rightarrow>
          (let roomId = num_of_hval (bus_hget R RoomMembers accountId r)
           in if roomId = 0 then (Inr None, r)
              else withRoomLock R N roomId (leave_body R accountId roomId) r))"

definition kick_body :: "'r redis \<Rightarrow> int \<Rightarrow> int \<Rightarrow> int \<Rightarrow> ('r, room \<times> member) op" where
  "kick_body R ownerId roomId targetId r =
     (case loadRoom R roomId r of
        None \<Rightarrow> (Inl (RoomErr NOROOM), r)
      | Some rm \<Rightarrow>
          if rm_owner rm \<noteq> ownerId then (Inl (RoomErr NOTOWNER), r)
          else if targetId = ownerId then (Inl (RoomErr CANNOTKICK), r)
          else (case find_index (\<lambda>m. mb_account_id m = targetId) (rm_members rm) of
                  None \<Rightarrow> (Inl (RoomErr NOTINROOM), r)
                | Some idx \<Rightarrow>
                    (let target = rm_members rm ! idx;
                         rm' = rm\<lparr>rm_members := splice_out idx (rm_members rm)\<rparr>;
                         r1 = saveRoom R rm' r;
                         r2 = bus_hdel R RoomMembers [targetId] r1
                     in (Inr (rm', target), r2))))"

definition kick :: "'r node \<Rightarrow> int \<Rightarrow> int \<Rightarrow> int \<Rightarrow> ('r, room \<times> member) op" where
  "kick N ownerId roomId targetId r =
     (case nd_bus N of
        None \<Rightarrow> (Inl (RoomErr NOROOM), r)
      | Some R \<Rightarrow> withRoomLock R N roomId (kick_body R ownerId roomId targetId) r)"

text \<open>The owner-tunable fields, each guarded as the code guards it.\<close>

definition changed_room :: "room \<Rightarrow> room_req \<Rightarrow> room" where
  "changed_room rm req =
     (let rm1 = rm\<lparr>
          rm_name := or_str (rq_room_name req) (rm_name rm),
          rm_map_id := nullish (rq_map_id req) (rm_map_id rm),
          rm_game_mode := nullish (rq_game_mode req) (rm_game_mode rm),
          rm_max_member_num := or_num (rq_max_member_num req) (rm_max_member_num rm),
          rm_max_spectator_num := nullish (rq_max_spectator_num req) (rm_max_spectator_num rm),
          rm_enable_death_spectate := nullish (rq_enable_death_spectate req) (rm_enable_death_spectate rm),
          rm_level_visual_style := nullish (rq_level_visual_style req) (rm_level_visual_style rm),
          rm_room_setting := or_num (rq_room_setting req) 0,
          rm_room_setting2 := or_num (rq_room_setting2 req) 0\<rparr>
      in case rq_cs_advanced_setting req of
           None \<Rightarrow> rm1
         | Some blob \<Rightarrow>
             if blob = [] then rm1 else rm1\<lparr>rm_cs_advanced := blob, rm_is_cs_advanced := True\<rparr>)"

definition change_body :: "'r redis \<Rightarrow> account \<Rightarrow> room_req \<Rightarrow> int \<Rightarrow> ('r, room) op" where
  "change_body R a req roomId r =
     (case loadRoom R roomId r of
        None \<Rightarrow> (Inl (RoomErr NOROOM), r)
      | Some rm \<Rightarrow>
          if rm_owner rm \<noteq> accountNum a then (Inl (RoomErr NOTOWNER), r)
          else if rm_state rm \<noteq> WAITING then (Inl (RoomErr ROOMINGAME), r)
          else (let rm' = changed_room rm req in (Inr rm', saveRoom R rm' r)))"

definition change :: "'r node \<Rightarrow> account \<Rightarrow> room_req \<Rightarrow> ('r, room) op" where
  "change N a req r =
     (case nd_bus N of
        None \<Rightarrow> (Inl (RoomErr NOROOM), r)
      | Some R \<Rightarrow>
          (let roomId = or_num (rq_room_id req) 0
           in withRoomLock R N roomId (change_body R a req roomId) r))"

definition setReady_body :: "'r redis \<Rightarrow> int \<Rightarrow> bool \<Rightarrow> int \<Rightarrow> ('r, room) op" where
  "setReady_body R accountId ready roomId r =
     (case loadRoom R roomId r of
        None \<Rightarrow> (Inl (RoomErr NOTINROOM), r)
      | Some rm \<Rightarrow>
          (case find (\<lambda>m. mb_account_id m = accountId) (rm_members rm) of
             None \<Rightarrow> (Inl (RoomErr NOTINROOM), r)
           | Some _ \<Rightarrow>
               (let rm' = rm\<lparr>rm_members := update_first (\<lambda>m. mb_account_id m = accountId)
                               (\<lambda>m. m\<lparr>mb_ready := ready\<rparr>) (rm_members rm)\<rparr>
                in (Inr rm', saveRoom R rm' r))))"

definition setReady :: "'r node \<Rightarrow> account \<Rightarrow> bool \<Rightarrow> ('r, room) op" where
  "setReady N a ready r =
     (case nd_bus N of
        None \<Rightarrow> (Inl (RoomErr NOTINROOM), r)
      | Some R \<Rightarrow>
          (let accountId = accountNum a;
               roomId = num_of_hval (bus_hget R RoomMembers accountId r)
           in if roomId = 0 then (Inl (RoomErr NOTINROOM), r)
              else withRoomLock R N roomId (setReady_body R accountId ready roomId) r))"

definition switchSeat_body ::
  "'r redis \<Rightarrow> int \<Rightarrow> int \<Rightarrow> int \<Rightarrow> int \<Rightarrow> ('r, room) op" where
  "switchSeat_body R accountId toTeam toSeat roomId r =
     (case loadRoom R roomId r of
        None \<Rightarrow> (Inl (RoomErr NOROOM), r)
      | Some rm \<Rightarrow>
          if rm_state rm \<noteq> WAITING then (Inl (RoomErr ROOMINGAME), r)
          else (case find (\<lambda>m. mb_account_id m = accountId) (rm_members rm) of
                  None \<Rightarrow> (Inl (RoomErr NOTINROOM), r)
                | Some _ \<Rightarrow>
                    (let targetGroup = toTeam + 1
                     in if targetGroup < 1 \<or> NUM_TEAMS < targetGroup \<or> toSeat < 0 \<or> perTeamCap rm \<le> toSeat
                        then (Inl (RoomErr CANNOTSWITCHSEAT), r)
                        else if list_ex (\<lambda>x. mb_account_id x \<noteq> accountId \<and>
                                  group_of x = targetGroup \<and> mb_seat x = toSeat) (rm_members rm)
                        then (Inl (RoomErr SEATOCCUPIED), r)
                        else (let rm' = rm\<lparr>rm_members :=
                                   update_first (\<lambda>m. mb_account_id m = accountId)
                                     (\<lambda>m. m\<lparr>mb_group_id := targetGroup, mb_seat := toSeat\<rparr>)
                                     (rm_members rm)\<rparr>
                              in (Inr rm', saveRoom R rm' r)))))"

definition switchSeat :: "'r node \<Rightarrow> account \<Rightarrow> room_req \<Rightarrow> ('r, room) op" where
  "switchSeat N a req r =
     (case nd_bus N of
        None \<Rightarrow> (Inl (RoomErr NOROOM), r)
      | Some R \<Rightarrow>
          (let accountId = accountNum a;
               roomId = int_or (or_num (rq_room_id req) 0)
                          (num_of_hval (bus_hget R RoomMembers accountId r))
           in if roomId = 0 then (Inl (RoomErr NOTINROOM), r)
              else withRoomLock R N roomId
                     (switchSeat_body R accountId (or_num (rq_to_room_pos req) 0)
                        (or_num (rq_to_group_pos req) 0) roomId) r))"

definition startMatch_body :: "'r redis \<Rightarrow> int \<Rightarrow> int \<Rightarrow> ('r, room) op" where
  "startMatch_body R ownerId roomId r =
     (case loadRoom R roomId r of
        None \<Rightarrow> (Inl (RoomErr NOROOM), r)
      | Some rm \<Rightarrow>
          if rm_owner rm \<noteq> ownerId then (Inl (RoomErr NOTOWNER), r)
          else if rm_state rm \<noteq> WAITING then (Inl (RoomErr ROOMINGAME), r)
          else (let rm' = rm\<lparr>rm_state := INGAME\<rparr> in (Inr rm', saveRoom R rm' r)))"

definition startMatch :: "'r node \<Rightarrow> int \<Rightarrow> int \<Rightarrow> ('r, room) op" where
  "startMatch N ownerId roomId r =
     (case nd_bus N of
        None \<Rightarrow> (Inl (RoomErr NOROOM), r)
      | Some R \<Rightarrow> withRoomLock R N roomId (startMatch_body R ownerId roomId) r)"

definition reenter_body :: "'r redis \<Rightarrow> int \<Rightarrow> ('r, room option) op" where
  "reenter_body R roomId r =
     (case loadRoom R roomId r of
        None \<Rightarrow> (Inr None, r)
      | Some rm \<Rightarrow>
          if rm_state rm = INGAME
          then (let rm' = rm\<lparr>rm_state := WAITING\<rparr> in (Inr (Some rm'), saveRoom R rm' r))
          else (Inr (Some rm), r))"

definition reenter :: "'r node \<Rightarrow> int \<Rightarrow> ('r, room option) op" where
  "reenter N roomId r =
     (case nd_bus N of
        None \<Rightarrow> (Inr None, r)
      | Some R \<Rightarrow> withRoomLock R N roomId (reenter_body R roomId) r)"

definition get_room :: "'r node \<Rightarrow> int \<Rightarrow> 'r \<Rightarrow> room option" where
  "get_room N roomId r = (case nd_bus N of None \<Rightarrow> None | Some R \<Rightarrow> loadRoom R roomId r)"

definition roomIdOf :: "'r node \<Rightarrow> int \<Rightarrow> 'r \<Rightarrow> int" where
  "roomIdOf N accountId r =
     (case nd_bus N of
        None \<Rightarrow> 0
      | Some R \<Rightarrow> num_of_hval (bus_hget R RoomMembers accountId r))"

end
