(* ===== verification/RoomInvariant.thy ===== *)
theory RoomInvariant
  imports Rooms
begin

text \<open>
  The invariant of the custom-room store and its preservation by every operation.
  \<open>room_wf\<close> is the well-formedness of one record: every account once, every seat once, teams 1
  and 2 only, the owner a member. \<open>rooms_inv\<close> adds the store: a record is filed under its own
  id, ids stay below the sequence counter, and the reverse index \<open>room:members\<close> only points at
  rooms that list the account.
\<close>

section \<open>Well-formed rooms\<close>

definition member_ids :: "room \<Rightarrow> int list" where
  "member_ids rm = map mb_account_id (rm_members rm)"

definition positions :: "room \<Rightarrow> (int \<times> int) list" where
  "positions rm = map (\<lambda>m. (group_of m, mb_seat m)) (rm_members rm)"

definition room_wf :: "room \<Rightarrow> bool" where
  "room_wf rm \<longleftrightarrow> distinct (member_ids rm) \<and> distinct (positions rm) \<and>
     (\<forall>m \<in> set (rm_members rm). group_of m \<in> {1, 2} \<and> 0 \<le> mb_seat m) \<and>
     rm_owner rm \<in> set (member_ids rm)"

lemma pickTeam_12: "pickTeam rm = 1 \<or> pickTeam rm = 2"
  by (simp add: pickTeam_def)

lemma team_counts: "team_count rm 1 + team_count rm 2 \<le> length (rm_members rm)"
  unfolding team_count_def
proof (induction "rm_members rm" arbitrary: rm)
  case Nil
  then show ?case by simp
next
  case (Cons m ms)
  have "length (filter (\<lambda>m. group_of m = 1) ms) + length (filter (\<lambda>m. group_of m = 2) ms) \<le> length ms"
    using Cons.hyps(1) [of "rm\<lparr>rm_members := ms\<rparr>"] by simp
  then show ?case
    by (simp add: Cons.hyps(2) [symmetric])
qed

lemma pickTeam_half: "2 * team_count rm (pickTeam rm) \<le> length (rm_members rm)"
  using team_counts [of rm] by (auto simp: pickTeam_def)

text \<open>A free seat is returned exactly when one exists below the team's capacity.\<close>

lemma freeSeat_cases:
  "freeSeat rm g = -1 \<and> (\<forall>s. 0 \<le> s \<and> s < perTeamCap rm \<longrightarrow>
      (\<exists>m \<in> set (rm_members rm). group_of m = g \<and> mb_seat m = s)) \<or>
   (0 \<le> freeSeat rm g \<and> freeSeat rm g < perTeamCap rm \<and>
      (\<forall>m \<in> set (rm_members rm). group_of m = g \<longrightarrow> mb_seat m \<noteq> freeSeat rm g))"
proof (cases "find (\<lambda>s. s \<notin> set (map mb_seat (filter (\<lambda>m. group_of m = g) (rm_members rm))))
                [0..perTeamCap rm - 1]")
  case None
  then have "\<forall>s. 0 \<le> s \<and> s < perTeamCap rm \<longrightarrow>
      s \<in> mb_seat ` {m \<in> set (rm_members rm). group_of m = g}"
    by (auto simp: find_None_iff)
  moreover have "freeSeat rm g = -1"
    using None by (simp add: freeSeat_def)
  ultimately show ?thesis by auto
next
  case (Some s)
  then have "freeSeat rm g = s"
    by (simp add: freeSeat_def)
  moreover have "0 \<le> s \<and> s < perTeamCap rm"
    using find_Some_set [OF Some] by auto
  moreover have "\<forall>m \<in> set (rm_members rm). group_of m = g \<longrightarrow> mb_seat m \<noteq> s"
    using find_Some_set [OF Some] by force
  ultimately show ?thesis by simp
qed

lemma freeSeat_exists:
  assumes "int (length (rm_members rm)) < rm_max_member_num rm"
  shows "0 \<le> freeSeat rm (pickTeam rm)"
proof (rule ccontr)
  assume "\<not> 0 \<le> freeSeat rm (pickTeam rm)"
  with freeSeat_cases [of rm "pickTeam rm"]
  have all: "\<And>s. 0 \<le> s \<Longrightarrow> s < perTeamCap rm \<Longrightarrow>
      s \<in> mb_seat ` set (filter (\<lambda>m. group_of m = pickTeam rm) (rm_members rm))"
    by auto
  let ?T = "filter (\<lambda>m. group_of m = pickTeam rm) (rm_members rm)"
  have "{0..<perTeamCap rm} \<subseteq> mb_seat ` set ?T"
    using all by auto
  then have "card {0..<perTeamCap rm} \<le> card (mb_seat ` set ?T)"
    by (intro card_mono) auto
  also have "\<dots> \<le> length ?T"
    by (meson List.finite_set card_image_le card_length le_trans)
  finally have "nat (perTeamCap rm) \<le> team_count rm (pickTeam rm)"
    by (simp add: team_count_def)
  with pickTeam_half [of rm] have "2 * perTeamCap rm \<le> int (length (rm_members rm))"
    by simp
  moreover have "ceil_half (rm_max_member_num rm) \<le> perTeamCap rm"
    using assms by (simp add: perTeamCap_def int_or_def)
  ultimately show False
    using assms unfolding ceil_half_def by linarith
qed

lemma freeSeat_free:
  "0 \<le> freeSeat rm g \<Longrightarrow> (g, freeSeat rm g) \<notin> set (positions rm) \<and> freeSeat rm g < perTeamCap rm"
  using freeSeat_cases [of rm g] by (auto simp: positions_def)

lemma group_of_memberFromAccount [simp]:
  "g = 1 \<or> g = 2 \<Longrightarrow> group_of (memberFromAccount a g s ro) = g"
  by (auto simp: group_of_def memberFromAccount_def int_or_def)

lemma memberFromAccount_sel [simp]:
  "mb_account_id (memberFromAccount a g s ro) = accountNum a"
  "mb_seat (memberFromAccount a g s ro) = s"
  by (simp_all add: memberFromAccount_def)

lemma new_room_wf: "room_wf (new_room rid a req now)"
  by (simp add: room_wf_def new_room_def member_ids_def positions_def)

lemma add_member_wf:
  assumes "room_wf rm" and "accountNum a \<notin> set (member_ids rm)"
    and "g = 1 \<or> g = 2" and "0 \<le> s" and "(g, s) \<notin> set (positions rm)"
  shows "room_wf (rm\<lparr>rm_members := rm_members rm @ [memberFromAccount a g s ROLE_MEMBER]\<rparr>)"
  using assms by (auto simp: room_wf_def member_ids_def positions_def)

lemma remove_member_wf:
  assumes "room_wf rm" and "i < length (rm_members rm)"
    and "mb_account_id (rm_members rm ! i) \<noteq> rm_owner rm"
  shows "room_wf (rm\<lparr>rm_members := splice_out i (rm_members rm)\<rparr>)"
proof -
  have "rm_owner rm \<in> set (splice_out i (member_ids rm))"
    using assms splice_out_removes [of "member_ids rm" i]
    by (auto simp: room_wf_def member_ids_def)
  then show ?thesis
    using assms(1) set_splice_out [of i "rm_members rm"]
    by (auto simp: room_wf_def member_ids_def positions_def map_splice_out distinct_splice_out)
qed

lemma room_wf_cong:
  "rm_members rm' = rm_members rm \<Longrightarrow> rm_owner rm' = rm_owner rm \<Longrightarrow> room_wf rm' = room_wf rm"
  by (simp add: room_wf_def member_ids_def positions_def)

lemma set_state_wf [simp]: "room_wf (rm\<lparr>rm_state := st\<rparr>) = room_wf rm"
  by (rule room_wf_cong) simp_all

lemma changed_room_frame [simp]:
  "rm_members (changed_room rm req) = rm_members rm"
  "rm_owner (changed_room rm req) = rm_owner rm"
  "rm_id (changed_room rm req) = rm_id rm"
  "rm_code (changed_room rm req) = rm_code rm"
  "rm_state (changed_room rm req) = rm_state rm"
  "rm_group_mode (changed_room rm req) = rm_group_mode rm"
  "rm_room_type (changed_room rm req) = rm_room_type rm"
  by (auto simp: changed_room_def Let_def split: option.splits)

lemma changed_room_wf [simp]: "room_wf (changed_room rm req) = room_wf rm"
  by (rule room_wf_cong) simp_all

lemma set_ready_wf:
  assumes "room_wf rm"
  shows "room_wf (rm\<lparr>rm_members :=
    update_first (\<lambda>m. mb_account_id m = a) (\<lambda>m. m\<lparr>mb_ready := b\<rparr>) (rm_members rm)\<rparr>)"
proof -
  let ?ms = "update_first (\<lambda>m. mb_account_id m = a) (\<lambda>m. m\<lparr>mb_ready := b\<rparr>) (rm_members rm)"
  have m: "map mb_account_id ?ms = map mb_account_id (rm_members rm)"
    "map (\<lambda>m. (group_of m, mb_seat m)) ?ms = map (\<lambda>m. (group_of m, mb_seat m)) (rm_members rm)"
    by (rule map_update_first, simp add: group_of_def)+
  have "\<forall>m \<in> set ?ms. group_of m \<in> {1, 2} \<and> 0 \<le> mb_seat m"
    using set_update_first [of "\<lambda>m. mb_account_id m = a" "\<lambda>m. m\<lparr>mb_ready := b\<rparr>" "rm_members rm"] assms
    unfolding room_wf_def group_of_def by fastforce
  with assms m show ?thesis
    by (simp add: room_wf_def member_ids_def positions_def)
qed

text \<open>Moving the one member \<open>a\<close> to a seat nobody else has keeps the seats distinct.\<close>

lemma distinct_update_seat:
  assumes "distinct (map f xs)" and "distinct (map p xs)"
    and "\<And>x. f (h x) = f x" and "\<And>x. x \<in> set xs \<Longrightarrow> f x \<noteq> a \<Longrightarrow> p x \<noteq> q" and "\<And>x. p (h x) = q"
  shows "distinct (map p (update_first (\<lambda>x. f x = a) h xs))"
  using assms(1,2,4)
proof (induction xs)
  case Nil
  then show ?case by simp
next
  case (Cons x xs)
  show ?case
  proof (cases "f x = a")
    case True
    moreover have "f x \<notin> f ` set xs"
      using Cons.prems(1) by simp
    ultimately have "\<forall>y \<in> set xs. f y \<noteq> a"
      by (metis imageI)
    with True Cons.prems show ?thesis
      by (auto simp: assms(5))
  next
    case False
    have "set (map p (update_first (\<lambda>x. f x = a) h xs)) \<subseteq> set (map p xs) \<union> {q}"
      using set_update_first [of "\<lambda>x. f x = a" h xs] assms(5) by auto
    moreover have "p x \<noteq> q"
      using Cons.prems(3) [of x] False by simp
    ultimately show ?thesis
      using False Cons by auto
  qed
qed

lemma switch_seat_wf:
  assumes wf: "room_wf rm" and g: "g = 1 \<or> g = 2" and s: "0 \<le> s"
    and free: "\<not> list_ex (\<lambda>x. mb_account_id x \<noteq> a \<and> group_of x = g \<and> mb_seat x = s) (rm_members rm)"
  shows "room_wf (rm\<lparr>rm_members := update_first (\<lambda>m. mb_account_id m = a)
           (\<lambda>m. m\<lparr>mb_group_id := g, mb_seat := s\<rparr>) (rm_members rm)\<rparr>)"
proof -
  let ?h = "\<lambda>m. m\<lparr>mb_group_id := g, mb_seat := s\<rparr>"
  let ?ms = "update_first (\<lambda>m. mb_account_id m = a) ?h (rm_members rm)"
  have gh: "group_of (?h m) = g" for m
    using g by (auto simp: group_of_def int_or_def)
  have ids: "map mb_account_id ?ms = map mb_account_id (rm_members rm)"
    by (rule map_update_first) simp
  have "distinct (map (\<lambda>m. (group_of m, mb_seat m)) ?ms)"
    by (rule distinct_update_seat [where q = "(g, s)"])
      (use wf free gh in \<open>auto simp: room_wf_def member_ids_def positions_def list_ex_iff\<close>)
  moreover have "\<forall>m \<in> set ?ms. group_of m \<in> {1, 2} \<and> 0 \<le> mb_seat m"
    using set_update_first [of "\<lambda>m. mb_account_id m = a" ?h "rm_members rm"] wf g s gh
    by (fastforce simp: room_wf_def)
  ultimately show ?thesis
    using wf ids by (simp add: room_wf_def member_ids_def positions_def)
qed

section \<open>The store invariant\<close>

definition rooms_inv :: "'r redis \<Rightarrow> 'r \<Rightarrow> bool" where
  "rooms_inv R r \<longleftrightarrow> 0 \<le> rd_count R r RoomSeq \<and>
     (\<forall>i v. rd_hget R r RoomTable i = Some v \<longrightarrow>
        (\<exists>rm. v = HRoom rm \<and> rm_id rm = i \<and> 0 < i \<and> i \<le> rd_count R r RoomSeq \<and> room_wf rm)) \<and>
     (\<forall>a v. rd_hget R r RoomMembers a = Some v \<longrightarrow>
        (\<exists>i rm. v = HNum i \<and> rd_hget R r RoomTable i = Some (HRoom rm) \<and> a \<in> set (member_ids rm)))"

lemma rooms_invD:
  assumes "rooms_inv R r" and "rd_hget R r RoomTable i = Some v"
  obtains rm where "v = HRoom rm" and "rm_id rm = i" and "0 < i"
    and "i \<le> rd_count R r RoomSeq" and "room_wf rm"
  using assms unfolding rooms_inv_def by blast

lemma rooms_inv_index:
  assumes "rooms_inv R r" and "rd_hget R r RoomMembers a = Some v"
  obtains i rm where "v = HNum i" and "rd_hget R r RoomTable i = Some (HRoom rm)"
    and "a \<in> set (member_ids rm)"
  using assms unfolding rooms_inv_def by blast

text \<open>The invariant looks at the hashes and the counter only.\<close>

lemma rooms_inv_cong:
  "rd_hget R r' = rd_hget R r \<Longrightarrow> rd_count R r' = rd_count R r \<Longrightarrow> rooms_inv R r' = rooms_inv R r"
  by (simp add: rooms_inv_def)

text \<open>An environment is fair to a store when the other nodes keep the invariant too.\<close>

definition env_ok :: "'r redis \<Rightarrow> 'r node \<Rightarrow> bool" where
  "env_ok R N \<longleftrightarrow> (\<forall>r. rooms_inv R r \<longrightarrow> rooms_inv R (nd_env N r))"

context redis_laws
begin

lemma loadRoom_Some:
  assumes "rooms_inv R r" and "loadRoom R i r = Some rm"
  shows "rd_hget R r RoomTable i = Some (HRoom rm)" and "rm_id rm = i" and "room_wf rm"
    and "0 < i" and "i \<le> rd_count R r RoomSeq"
proof -
  from assms(2) obtain v where v: "rd_hget R r RoomTable i = Some v" "parse_room v = Some rm"
    by (auto simp: loadRoom_def bus_hget_def split: option.splits)
  from assms(1) v(1) obtain rm' where "v = HRoom rm'" "rm_id rm' = i" "0 < i"
      "i \<le> rd_count R r RoomSeq" "room_wf rm'"
    by (rule rooms_invD)
  with v show "rd_hget R r RoomTable i = Some (HRoom rm)" "rm_id rm = i" "room_wf rm"
      "0 < i" "i \<le> rd_count R r RoomSeq"
    by auto
qed

lemma loadRoom_None:
  "rooms_inv R r \<Longrightarrow> loadRoom R i r = None \<Longrightarrow> rd_hget R r RoomTable i = None"
  by (cases "rd_hget R r RoomTable i")
    (auto simp: loadRoom_def bus_hget_def elim!: rooms_invD split: option.splits)

lemma loadRoom_saveRoom:
  "loadRoom R i (saveRoom R rm r) = (if i = rm_id rm then Some rm else loadRoom R i r)"
  by (simp add: loadRoom_def saveRoom_def bus_hget_def bus_hset_def hget_hset)

text \<open>Saving a well-formed room over itself, with at least the members it had.\<close>

lemma save_inv:
  assumes inv: "rooms_inv R r" and old: "rd_hget R r RoomTable (rm_id rm) = Some (HRoom rm0)"
    and wf: "room_wf rm"
    and idx: "\<And>a. a \<in> set (member_ids rm0) \<Longrightarrow> a \<notin> set (member_ids rm) \<Longrightarrow>
                rd_hget R r RoomMembers a \<noteq> Some (HNum (rm_id rm))"
  shows "rooms_inv R (saveRoom R rm r)"
proof -
  have b: "0 < rm_id rm" "rm_id rm \<le> rd_count R r RoomSeq"
    using inv old by (auto elim!: rooms_invD)
  show ?thesis
    unfolding rooms_inv_def saveRoom_def bus_hset_def
  proof (intro conjI allI impI)
    show "0 \<le> rd_count R (rd_hset R r RoomTable (rm_id rm) (HRoom rm)) RoomSeq"
      using inv by (simp add: rooms_inv_def count_frame)
  next
    fix i v
    assume "rd_hget R (rd_hset R r RoomTable (rm_id rm) (HRoom rm)) RoomTable i = Some v"
    then have "i = rm_id rm \<and> v = HRoom rm \<or> rd_hget R r RoomTable i = Some v"
      by (auto simp: hget_hset split: if_splits)
    then show "\<exists>rma. v = HRoom rma \<and> rm_id rma = i \<and> 0 < i \<and>
        i \<le> rd_count R (rd_hset R r RoomTable (rm_id rm) (HRoom rm)) RoomSeq \<and> room_wf rma"
      using b wf inv by (auto simp: count_frame elim!: rooms_invD)
  next
    fix a v
    assume "rd_hget R (rd_hset R r RoomTable (rm_id rm) (HRoom rm)) RoomMembers a = Some v"
    then have h: "rd_hget R r RoomMembers a = Some v"
      by (simp add: hget_hset)
    from inv h obtain i rm1 where i: "v = HNum i" "rd_hget R r RoomTable i = Some (HRoom rm1)"
        "a \<in> set (member_ids rm1)"
      by (rule rooms_inv_index)
    have "i = rm_id rm \<Longrightarrow> a \<in> set (member_ids rm)"
      using i h old idx [of a] by auto
    then show "\<exists>i rma. v = HNum i \<and>
        rd_hget R (rd_hset R r RoomTable (rm_id rm) (HRoom rm)) RoomTable i = Some (HRoom rma) \<and>
        a \<in> set (member_ids rma)"
      using i by (auto simp: hget_hset)
  qed
qed

text \<open>Indexing an account under a room that lists it; dropping index entries.\<close>

lemma index_inv:
  assumes inv: "rooms_inv R r" and "rd_hget R r RoomTable i = Some (HRoom rm)"
    and "a \<in> set (member_ids rm)"
  shows "rooms_inv R (rd_hset R r RoomMembers a (HNum i))"
  using assms unfolding rooms_inv_def by (auto simp: hget_hset count_frame)

lemma unindex_inv: "rooms_inv R r \<Longrightarrow> rooms_inv R (rd_hdel R r RoomMembers as)"
  unfolding rooms_inv_def by (auto simp: hget_hdel count_frame)

text \<open>\<open>withRoomLock\<close> keeps the invariant when the body and the other nodes do.\<close>

lemma lock_attempts_inv:
  assumes "env_ok R N" and "\<And>r. rooms_inv R r \<Longrightarrow> rooms_inv R (snd (fn r))"
  shows "rooms_inv R r \<Longrightarrow> rooms_inv R (snd (lock_attempts R N i fn n r))"
proof (induction n arbitrary: r)
  case 0
  then show ?case by simp
next
  case (Suc n)
  obtain ok r1 where a: "acquireLock R (RoomLock i) (nd_token N) 3000 r = (ok, r1)"
    by fastforce
  have inv1: "rooms_inv R r1"
    using Suc.prems acquireLock_hash [of "RoomLock i" "nd_token N" 3000 r]
      acquireLock_count [of "RoomLock i" "nd_token N" 3000 r] a rooms_inv_cong [of R r1 r] by simp
  obtain res r2 where f: "fn r1 = (res, r2)"
    by fastforce
  have "rooms_inv R r2"
    using assms(2) [OF inv1] f by simp
  then have "rooms_inv R (snd (releaseLock R (RoomLock i) (nd_token N) r2))"
    using rooms_inv_cong [OF releaseLock_hash releaseLock_count] by blast
  moreover have "rooms_inv R (nd_env N r1)"
    using assms(1) inv1 by (simp add: env_ok_def)
  ultimately show ?case
    using Suc.IH by (simp add: a f)
qed

lemma withRoomLock_inv:
  assumes "env_ok R N" and "\<And>r. rooms_inv R r \<Longrightarrow> rooms_inv R (snd (fn r))" and "rooms_inv R r"
  shows "rooms_inv R (snd (withRoomLock R N i fn r))"
proof -
  have "rooms_inv R (nd_env N r)"
    using assms(1,3) by (simp add: env_ok_def)
  from lock_attempts_inv [OF assms(1,2) this] show ?thesis
    by (simp add: withRoomLock_def)
qed

section \<open>Every operation keeps the invariant\<close>

lemma create_inv:
  assumes N: "nd_bus N = Some R" "env_ok R N" and inv: "rooms_inv R r"
  shows "rooms_inv R (snd (create N a req now r))"
proof (cases "hval_truthy (bus_hget R RoomMembers (accountNum a) r)")
  case True
  with N inv show ?thesis by (simp add: create_def)
next
  case False
  define r0 where "r0 = nd_env N r"
  have inv0: "rooms_inv R r0"
    using N(2) inv by (simp add: env_ok_def r0_def)
  obtain i r1 where i: "rd_incr R r0 RoomSeq = (i, r1)"
    by fastforce
  have ci: "i = rd_count R r0 RoomSeq + 1" "rd_count R r1 RoomSeq = i" "rd_hget R r1 = rd_hget R r0"
    using i incr_fst [of r0 RoomSeq] count_incr [of r0 RoomSeq RoomSeq] hash_frame(1) [of r0 RoomSeq]
    by simp_all
  let ?rm = "new_room i a req now"
  have idi: "rm_id ?rm = i"
    by (simp add: new_room_def)
  have inv2: "rooms_inv R (rd_hset R r1 RoomTable i (HRoom ?rm))"
    unfolding rooms_inv_def
  proof (intro conjI allI impI)
    show "0 \<le> rd_count R (rd_hset R r1 RoomTable i (HRoom ?rm)) RoomSeq"
      using inv0 ci by (simp add: rooms_inv_def count_frame)
  next
    fix j v
    assume "rd_hget R (rd_hset R r1 RoomTable i (HRoom ?rm)) RoomTable j = Some v"
    then have "j = i \<and> v = HRoom ?rm \<or> rd_hget R r0 RoomTable j = Some v"
      by (auto simp: hget_hset ci(3) split: if_splits)
    moreover have "0 \<le> rd_count R r0 RoomSeq"
      using inv0 by (simp add: rooms_inv_def)
    ultimately show "\<exists>rm. v = HRoom rm \<and> rm_id rm = j \<and> 0 < j \<and>
        j \<le> rd_count R (rd_hset R r1 RoomTable i (HRoom ?rm)) RoomSeq \<and> room_wf rm"
      using ci inv0 idi new_room_wf [of i a req now] by (auto simp: count_frame elim!: rooms_invD)
  next
    fix b v
    assume "rd_hget R (rd_hset R r1 RoomTable i (HRoom ?rm)) RoomMembers b = Some v"
    then have "rd_hget R r0 RoomMembers b = Some v"
      by (simp add: hget_hset ci(3))
    with inv0 obtain j rm1 where j: "v = HNum j" "rd_hget R r0 RoomTable j = Some (HRoom rm1)"
        "b \<in> set (member_ids rm1)"
      by (rule rooms_inv_index)
    from inv0 j(2) have "j \<le> rd_count R r0 RoomSeq"
      by (rule rooms_invD)
    then have "j \<noteq> i"
      using ci by simp
    with j show "\<exists>j rm. v = HNum j \<and>
        rd_hget R (rd_hset R r1 RoomTable i (HRoom ?rm)) RoomTable j = Some (HRoom rm) \<and>
        b \<in> set (member_ids rm)"
      by (auto simp: hget_hset ci(3))
  qed
  have "rooms_inv R (rd_hset R (rd_hset R r1 RoomTable i (HRoom ?rm)) RoomMembers (accountNum a) (HNum i))"
    by (rule index_inv [OF inv2, of i ?rm]) (auto simp: hget_hset member_ids_def new_room_def)
  with False N i idi show ?thesis
    by (simp add: create_def bus_incr_def saveRoom_def bus_hset_def Let_def r0_def)
qed

lemma join_body_inv:
  assumes inv: "rooms_inv R r"
  shows "rooms_inv R (snd (join_body R a req i r))"
proof (cases "loadRoom R i r")
  case None
  with inv show ?thesis by (simp add: join_body_def)
next
  case (Some rm)
  note ld = loadRoom_Some [OF inv Some]
  let ?g = "pickTeam rm" and ?s = "freeSeat rm (pickTeam rm)"
  let ?rm' = "rm\<lparr>rm_members := rm_members rm @ [memberFromAccount a ?g ?s ROLE_MEMBER]\<rparr>"
  show ?thesis
  proof (cases "accountNum a \<notin> mb_account_id ` set (rm_members rm) \<and>
      int (length (rm_members rm)) < rm_max_member_num rm")
    case False
    with inv Some show ?thesis by (auto simp: join_body_def Let_def)
  next
    case True
    then have s: "0 \<le> ?s"
      using freeSeat_exists by simp
    have wf: "room_wf ?rm'"
      by (rule add_member_wf [OF ld(3)])
        (use True s freeSeat_free [OF s] pickTeam_12 in \<open>auto simp: member_ids_def\<close>)
    have ids: "set (member_ids ?rm') = insert (accountNum a) (set (member_ids rm))"
      by (simp add: member_ids_def)
    have inv1: "rooms_inv R (saveRoom R ?rm' r)"
      by (rule save_inv [OF inv, of _ rm]) (use ld wf ids in simp_all)
    have "rooms_inv R (rd_hset R (saveRoom R ?rm' r) RoomMembers (accountNum a) (HNum i))"
      by (rule index_inv [OF inv1, of i ?rm'])
        (use ld ids in \<open>simp_all add: saveRoom_def bus_hset_def hget_hset\<close>)
    with inv Some ld s show ?thesis
      by (simp add: join_body_def Let_def bus_hset_def)
  qed
qed

lemma join_inv:
  "nd_bus N = Some R \<Longrightarrow> env_ok R N \<Longrightarrow> rooms_inv R r \<Longrightarrow> rooms_inv R (snd (join N a req r))"
  by (auto simp: join_def Let_def intro!: withRoomLock_inv join_body_inv)

lemma fold_unindex:
  "fold (\<lambda>m s. if mb_account_id m \<noteq> a then bus_hdel R RoomMembers [mb_account_id m] s else s) ms r = r'
   \<Longrightarrow> rd_hget R r' k f =
     (if k = RoomMembers \<and> f \<in> mb_account_id ` set ms - {a} then None else rd_hget R r k f) \<and>
       rd_count R r' = rd_count R r"
proof (induction ms arbitrary: r)
  case Nil
  then show ?case by simp
next
  case (Cons m ms)
  then show ?case
    by (auto simp: bus_hdel_def hget_hdel count_frame)
qed

text \<open>Deleting a room together with the index entries of all its members.\<close>

lemma dismiss_inv:
  assumes inv: "rooms_inv R r" and room: "rd_hget R r RoomTable i = Some (HRoom rm)"
    and hash: "\<And>k f. rd_hget R r' k f =
      (if k = RoomTable \<and> f = i \<or> k = RoomMembers \<and> f \<in> A then None else rd_hget R r k f)"
    and cnt: "rd_count R r' = rd_count R r" and A: "set (member_ids rm) \<subseteq> A"
  shows "rooms_inv R r'"
  unfolding rooms_inv_def
proof (intro conjI allI impI)
  show "0 \<le> rd_count R r' RoomSeq"
    using inv cnt by (simp add: rooms_inv_def)
next
  fix j v
  assume "rd_hget R r' RoomTable j = Some v"
  then have "rd_hget R r RoomTable j = Some v"
    by (simp add: hash split: if_splits)
  then show "\<exists>rm. v = HRoom rm \<and> rm_id rm = j \<and> 0 < j \<and> j \<le> rd_count R r' RoomSeq \<and> room_wf rm"
    using inv cnt by (auto elim!: rooms_invD)
next
  fix b v
  assume "rd_hget R r' RoomMembers b = Some v"
  then have b: "rd_hget R r RoomMembers b = Some v" "b \<notin> A"
    by (simp_all add: hash split: if_splits)
  from inv b(1) obtain j rm1 where j: "v = HNum j" "rd_hget R r RoomTable j = Some (HRoom rm1)"
      "b \<in> set (member_ids rm1)"
    by (rule rooms_inv_index)
  have "j \<noteq> i"
    using j room A b(2) by auto
  with j show "\<exists>j rm. v = HNum j \<and> rd_hget R r' RoomTable j = Some (HRoom rm) \<and> b \<in> set (member_ids rm)"
    by (auto simp: hash)
qed

lemma leave_body_inv:
  assumes inv: "rooms_inv R r"
  shows "rooms_inv R (snd (leave_body R a i r))"
proof (cases "loadRoom R i r")
  case None
  with unindex_inv [OF inv] show ?thesis by (simp add: leave_body_def bus_hdel_def Let_def)
next
  case (Some rm)
  note ld = loadRoom_Some [OF inv Some]
  let ?r1 = "rd_hdel R r RoomMembers [a]"
  have inv1: "rooms_inv R ?r1"
    by (rule unindex_inv [OF inv])
  show ?thesis
  proof (cases "rm_owner rm = a \<or> length (rm_members rm) \<le> 1")
    case True
    let ?r2 = "rd_hdel R ?r1 RoomTable [i]"
    define r3 where "r3 = fold (\<lambda>m s. if mb_account_id m \<noteq> a
        then bus_hdel R RoomMembers [mb_account_id m] s else s) (rm_members rm) ?r2"
    note f = fold_unindex [of a "rm_members rm" ?r2 r3, folded r3_def, OF refl]
    have "rooms_inv R r3"
      by (rule dismiss_inv [OF inv ld(1), where A = "insert a (set (member_ids rm))"])
        (use f in \<open>auto simp: hget_hdel count_frame member_ids_def\<close>)
    with Some True ld(2) show ?thesis
      by (simp add: leave_body_def Let_def deleteRoom_def bus_hdel_def [of R RoomMembers "[a]"]
          bus_hdel_def [of R RoomTable] r3_def)
  next
    case False
    show ?thesis
    proof (cases "find_index (\<lambda>m. mb_account_id m = a) (rm_members rm)")
      case None
      have "rooms_inv R (saveRoom R rm ?r1)"
        by (rule save_inv [OF inv1, of _ rm]) (use ld in \<open>simp_all add: hget_hdel\<close>)
      with Some False None show ?thesis
        by (simp add: leave_body_def Let_def bus_hdel_def)
    next
      case (Some k)
      note k = find_index_Some [OF Some]
      let ?rm' = "rm\<lparr>rm_members := splice_out k (rm_members rm)\<rparr>"
      have "room_wf ?rm'"
        by (rule remove_member_wf [OF ld(3)]) (use k False in auto)
      moreover have "set (member_ids rm) - set (member_ids ?rm') \<subseteq> {a}"
        using k ld(3) splice_out_removes [of "member_ids rm" k]
        by (auto simp: room_wf_def member_ids_def map_splice_out)
      ultimately have "rooms_inv R (saveRoom R ?rm' ?r1)"
        by (intro save_inv [OF inv1, of _ rm]) (use ld in \<open>auto simp: hget_hdel\<close>)
      with \<open>loadRoom R i r = Some rm\<close> False Some show ?thesis
        by (simp add: leave_body_def Let_def bus_hdel_def)
    qed
  qed
qed

lemma leave_inv:
  "nd_bus N = Some R \<Longrightarrow> env_ok R N \<Longrightarrow> rooms_inv R r \<Longrightarrow> rooms_inv R (snd (leave N a r))"
  by (auto simp: leave_def Let_def intro!: withRoomLock_inv leave_body_inv)

lemma kick_body_inv:
  assumes inv: "rooms_inv R r"
  shows "rooms_inv R (snd (kick_body R own i t r))"
proof (cases "loadRoom R i r")
  case None
  with inv show ?thesis by (simp add: kick_body_def)
next
  case (Some rm)
  note ld = loadRoom_Some [OF inv Some]
  show ?thesis
  proof (cases "find_index (\<lambda>m. mb_account_id m = t) (rm_members rm)")
    case None
    with inv Some show ?thesis by (simp add: kick_body_def)
  next
    case (Some k)
    note k = find_index_Some [OF Some]
    let ?rm' = "rm\<lparr>rm_members := splice_out k (rm_members rm)\<rparr>"
    let ?r' = "rd_hdel R (saveRoom R ?rm' r) RoomMembers [t]"
    show ?thesis
    proof (cases "rm_owner rm = own \<and> t \<noteq> own")
      case False
      with inv Some \<open>loadRoom R i r = Some rm\<close> show ?thesis
        by (auto simp: kick_body_def)
    next
      case True
      have wf: "room_wf ?rm'"
        by (rule remove_member_wf [OF ld(3)]) (use k True in auto)
      have ids: "set (member_ids rm) - set (member_ids ?rm') \<subseteq> {t}"
        using k ld(3) splice_out_removes [of "member_ids rm" k]
        by (auto simp: room_wf_def member_ids_def map_splice_out)
      have inv1: "rooms_inv R (rd_hdel R r RoomMembers [t])"
        by (rule unindex_inv [OF inv])
      have "rooms_inv R (saveRoom R ?rm' (rd_hdel R r RoomMembers [t]))"
        by (rule save_inv [OF inv1, of _ rm]) (use ld wf ids in \<open>auto simp: hget_hdel\<close>)
      moreover have "rd_hget R ?r' = rd_hget R (saveRoom R ?rm' (rd_hdel R r RoomMembers [t]))"
        by (auto simp: fun_eq_iff saveRoom_def bus_hset_def hget_hdel hget_hset)
      moreover have "rd_count R ?r' = rd_count R (saveRoom R ?rm' (rd_hdel R r RoomMembers [t]))"
        by (simp add: saveRoom_def bus_hset_def count_frame)
      ultimately have "rooms_inv R ?r'"
        using rooms_inv_cong [of R ?r' "saveRoom R ?rm' (rd_hdel R r RoomMembers [t])"] by simp
      with True Some \<open>loadRoom R i r = Some rm\<close> show ?thesis
        by (simp add: kick_body_def Let_def bus_hdel_def)
    qed
  qed
qed

lemma kick_inv:
  "nd_bus N = Some R \<Longrightarrow> env_ok R N \<Longrightarrow> rooms_inv R r \<Longrightarrow> rooms_inv R (snd (kick N own i t r))"
  by (auto simp: kick_def intro!: withRoomLock_inv kick_body_inv)

text \<open>The operations that rewrite the room under unchanged membership.\<close>

lemma save_same_members:
  assumes inv: "rooms_inv R r" and ld: "loadRoom R i r = Some rm"
    and "room_wf rm'" and "rm_id rm' = rm_id rm" and "member_ids rm' = member_ids rm"
  shows "rooms_inv R (saveRoom R rm' r)"
  using save_inv [OF inv, of rm' rm] loadRoom_Some [OF inv ld] assms by simp

lemma change_body_inv: "rooms_inv R r \<Longrightarrow> rooms_inv R (snd (change_body R a req i r))"
proof (cases "loadRoom R i r")
  case (Some rm)
  assume inv: "rooms_inv R r"
  have "rooms_inv R (saveRoom R (changed_room rm req) r)"
    by (rule save_same_members [OF inv Some])
      (simp_all add: loadRoom_Some(3) [OF inv Some] member_ids_def)
  with inv Some show ?thesis by (simp add: change_body_def Let_def)
qed (simp add: change_body_def)

lemma change_inv:
  "nd_bus N = Some R \<Longrightarrow> env_ok R N \<Longrightarrow> rooms_inv R r \<Longrightarrow> rooms_inv R (snd (change N a req r))"
  by (auto simp: change_def Let_def intro!: withRoomLock_inv change_body_inv)

lemma setReady_body_inv:
  assumes inv: "rooms_inv R r"
  shows "rooms_inv R (snd (setReady_body R u b i r))"
proof (cases "loadRoom R i r")
  case None
  with inv show ?thesis by (simp add: setReady_body_def)
next
  case (Some rm)
  let ?rm' = "rm\<lparr>rm_members := update_first (\<lambda>m. mb_account_id m = u)
                 (\<lambda>m. m\<lparr>mb_ready := b\<rparr>) (rm_members rm)\<rparr>"
  have "rooms_inv R (saveRoom R ?rm' r)"
  proof (rule save_same_members [OF inv Some])
    show "room_wf ?rm'"
      by (rule set_ready_wf [OF loadRoom_Some(3) [OF inv Some]])
    show "member_ids ?rm' = member_ids rm"
      by (simp add: member_ids_def map_update_first)
  qed simp
  with inv Some show ?thesis
    by (simp add: setReady_body_def Let_def split: option.split)
qed

lemma setReady_inv:
  "nd_bus N = Some R \<Longrightarrow> env_ok R N \<Longrightarrow> rooms_inv R r \<Longrightarrow> rooms_inv R (snd (setReady N a b r))"
  by (auto simp: setReady_def Let_def intro!: withRoomLock_inv setReady_body_inv)

lemma switchSeat_body_inv:
  assumes inv: "rooms_inv R r"
  shows "rooms_inv R (snd (switchSeat_body R u t s i r))"
proof (cases "loadRoom R i r")
  case None
  with inv show ?thesis by (simp add: switchSeat_body_def)
next
  case (Some rm)
  let ?rm' = "rm\<lparr>rm_members := update_first (\<lambda>m. mb_account_id m = u)
                 (\<lambda>m. m\<lparr>mb_group_id := t + 1, mb_seat := s\<rparr>) (rm_members rm)\<rparr>"
  have "rooms_inv R (saveRoom R ?rm' r)"
    if "t + 1 = 1 \<or> t + 1 = 2" "0 \<le> s"
      "\<not> list_ex (\<lambda>x. mb_account_id x \<noteq> u \<and> group_of x = t + 1 \<and> mb_seat x = s) (rm_members rm)"
  proof (rule save_same_members [OF inv Some])
    show "room_wf ?rm'"
      by (rule switch_seat_wf [OF loadRoom_Some(3) [OF inv Some] that])
    show "member_ids ?rm' = member_ids rm"
      by (simp add: member_ids_def map_update_first)
  qed simp
  moreover have "\<not> (t + 1 < 1 \<or> NUM_TEAMS < t + 1 \<or> s < 0 \<or> perTeamCap rm \<le> s) \<Longrightarrow>
      (t + 1 = 1 \<or> t + 1 = 2) \<and> 0 \<le> s"
    by (simp add: NUM_TEAMS_def) linarith
  ultimately show ?thesis
    using inv Some by (simp add: switchSeat_body_def Let_def split: option.split)
qed

lemma switchSeat_inv:
  "nd_bus N = Some R \<Longrightarrow> env_ok R N \<Longrightarrow> rooms_inv R r \<Longrightarrow> rooms_inv R (snd (switchSeat N a req r))"
  by (auto simp: switchSeat_def Let_def intro!: withRoomLock_inv switchSeat_body_inv)

lemma save_state_inv:
  "rooms_inv R r \<Longrightarrow> loadRoom R i r = Some rm \<Longrightarrow> rooms_inv R (saveRoom R (rm\<lparr>rm_state := st\<rparr>) r)"
  by (rule save_same_members) (simp_all add: loadRoom_Some(3) member_ids_def)

lemma startMatch_body_inv: "rooms_inv R r \<Longrightarrow> rooms_inv R (snd (startMatch_body R own i r))"
  by (cases "loadRoom R i r") (simp_all add: startMatch_body_def Let_def save_state_inv)

lemma startMatch_inv:
  "nd_bus N = Some R \<Longrightarrow> env_ok R N \<Longrightarrow> rooms_inv R r \<Longrightarrow> rooms_inv R (snd (startMatch N own i r))"
  by (auto simp: startMatch_def intro!: withRoomLock_inv startMatch_body_inv)

lemma reenter_body_inv: "rooms_inv R r \<Longrightarrow> rooms_inv R (snd (reenter_body R i r))"
  by (cases "loadRoom R i r") (simp_all add: reenter_body_def Let_def save_state_inv)

lemma reenter_inv:
  "nd_bus N = Some R \<Longrightarrow> env_ok R N \<Longrightarrow> rooms_inv R r \<Longrightarrow> rooms_inv R (snd (reenter N i r))"
  by (auto simp: reenter_def intro!: withRoomLock_inv reenter_body_inv)

lemmas room_ops_inv =
  create_inv join_inv leave_inv kick_inv change_inv setReady_inv switchSeat_inv startMatch_inv reenter_inv

end

end
