(* ===== verification/RoomWire.thy ===== *)
theory RoomWire
  imports Rooms
begin

text \<open>
  The wire side of \<open>src/tcp/rooms.js\<close>: the projection of a room record onto the client's
  \<open>tcp.RoomInfo\<close> (one padded panel of seats per team) and \<open>tcp.RoomBasicInfo\<close>, the
  notification builders and the presence-routed broadcasts. A message is the object handed to
  the protobuf encoder (a library); a push is the \<open>GatewayPush\<close> published for one account.
\<close>

section \<open>Projection\<close>

record player_info =
  pi_group_id :: int
  pi_account_id :: int
  pi_nickname :: string
  pi_head_pic :: int
  pi_banner_id :: int
  pi_ready :: bool
  pi_role :: int
  pi_pin_id :: int
  pi_rank :: int
  pi_ranking_points :: int
  pi_cs_rank :: int
  pi_cs_ranking_points :: int
  pi_available_maps :: "int list"

text \<open>A member record has no \<open>pin_id\<close>, so \<open>m.pin_id || 0\<close> is 0.\<close>

definition playerInfo :: "member \<Rightarrow> int option \<Rightarrow> player_info" where
  "playerInfo m mapId = \<lparr>
     pi_group_id = mb_group_id m,
     pi_account_id = mb_account_id m,
     pi_nickname = mb_nickname m,
     pi_head_pic = mb_head_pic m,
     pi_banner_id = mb_banner_id m,
     pi_ready = True,
     pi_role = (if mb_account_role m = 100 then 100 else int_or (mb_role m) ROLE_MEMBER),
     pi_pin_id = (if mb_account_role m = 100 then 100 else 0),
     pi_rank = mb_rank m,
     pi_ranking_points = 0,
     pi_cs_rank = mb_cs_rank m,
     pi_cs_ranking_points = 0,
     pi_available_maps = (case mapId of None \<Rightarrow> [] | Some i \<Rightarrow> if i = 0 then [] else [i])\<rparr>"

text \<open>A seat of a team panel: the placeholder \<open>{account_id: 0, group_id}\<close> or a player.\<close>

datatype seat = EmptySeat int | Filled player_info

fun seat_account :: "seat \<Rightarrow> int" where
  "seat_account (EmptySeat g) = 0"
| "seat_account (Filled p) = pi_account_id p"

definition seat_index :: "nat \<Rightarrow> member \<Rightarrow> seat list \<Rightarrow> nat" where
  "seat_index perTeam m seats =
     (if 0 \<le> mb_seat m \<and> mb_seat m < int perTeam \<and> seat_account (seats ! nat (mb_seat m)) = 0
      then nat (mb_seat m)
      else (case find_index (\<lambda>x. seat_account x = 0) seats of
              None \<Rightarrow> 0
            | Some s \<Rightarrow> if perTeam \<le> s then 0 else s))"

fun place_members :: "nat \<Rightarrow> int \<Rightarrow> int \<Rightarrow> member list \<Rightarrow> seat list \<Rightarrow> seat list" where
  "place_members perTeam mapId gid [] seats = seats"
| "place_members perTeam mapId gid (m # ms) seats =
     (if group_of m \<noteq> gid then place_members perTeam mapId gid ms seats
      else place_members perTeam mapId gid ms
             (seats[seat_index perTeam m seats := Filled (playerInfo m (Some mapId))]))"

record group_info =
  gr_id :: int
  gr_name :: string
  gr_abbr_name :: string
  gr_members :: "seat list"

definition team_panel :: "room \<Rightarrow> int \<Rightarrow> seat list" where
  "team_panel rm gid =
     (let perTeam = nat (perTeamCap rm)
      in place_members perTeam (rm_map_id rm) gid (rm_members rm) (replicate perTeam (EmptySeat gid)))"

record room_info =
  ri_id :: int
  ri_name :: string
  ri_owner :: int
  ri_map_id :: int
  ri_game_mode :: int
  ri_group_mode :: int
  ri_max_member_num :: int
  ri_max_spectator_num :: int
  ri_state :: room_state
  ri_code :: string
  ri_groups :: "group_info list"
  ri_enable_death_spectate :: bool
  ri_room_type :: int
  ri_match_times :: int
  ri_level_visual_style :: int
  ri_room_setting :: int
  ri_room_setting2 :: int
  ri_is_cs_advanced :: bool
  ri_cs_advanced_setting :: bytes
  ri_enough_room_card :: bool
  ri_owner_online :: bool

text \<open>The record has no \<open>match_times\<close>, so \<open>room.match_times || 0\<close> is 0; \<open>NUM_TEAMS\<close> is 2.\<close>

definition toRoomInfo :: "room \<Rightarrow> room_info" where
  "toRoomInfo rm = \<lparr>
     ri_id = rm_id rm,
     ri_name = rm_name rm,
     ri_owner = rm_owner rm,
     ri_map_id = rm_map_id rm,
     ri_game_mode = rm_game_mode rm,
     ri_group_mode = rm_group_mode rm,
     ri_max_member_num = rm_max_member_num rm,
     ri_max_spectator_num = rm_max_spectator_num rm,
     ri_state = rm_state rm,
     ri_code = rm_code rm,
     ri_groups = [\<lparr>gr_id = 1, gr_name = ''Team 1'', gr_abbr_name = ''T1'', gr_members = team_panel rm 1\<rparr>,
                  \<lparr>gr_id = 2, gr_name = ''Team 2'', gr_abbr_name = ''T2'', gr_members = team_panel rm 2\<rparr>],
     ri_enable_death_spectate = rm_enable_death_spectate rm,
     ri_room_type = rm_room_type rm,
     ri_match_times = 0,
     ri_level_visual_style = rm_level_visual_style rm,
     ri_room_setting = rm_room_setting rm,
     ri_room_setting2 = rm_room_setting2 rm,
     ri_is_cs_advanced = rm_is_cs_advanced rm,
     ri_cs_advanced_setting = rm_cs_advanced rm,
     ri_enough_room_card = True,
     ri_owner_online = True\<rparr>"

record basic_info =
  bi_id :: int
  bi_name :: string
  bi_map_id :: int
  bi_game_mode :: int
  bi_group_mode :: int
  bi_cur_member_num :: nat
  bi_max_member_num :: int
  bi_cur_spectator_num :: nat
  bi_max_spectator_num :: int
  bi_state :: room_state
  bi_need_code :: bool
  bi_room_type :: int
  bi_level_visual_style :: int
  bi_is_cs_advanced :: bool
  bi_room_setting :: int

definition toBasicInfo :: "room \<Rightarrow> basic_info" where
  "toBasicInfo rm = \<lparr>
     bi_id = rm_id rm,
     bi_name = rm_name rm,
     bi_map_id = rm_map_id rm,
     bi_game_mode = rm_game_mode rm,
     bi_group_mode = rm_group_mode rm,
     bi_cur_member_num = length (rm_members rm),
     bi_max_member_num = rm_max_member_num rm,
     bi_cur_spectator_num = 0,
     bi_max_spectator_num = rm_max_spectator_num rm,
     bi_state = rm_state rm,
     bi_need_code = (rm_code rm \<noteq> []),
     bi_room_type = rm_room_type rm,
     bi_level_visual_style = rm_level_visual_style rm,
     bi_is_cs_advanced = rm_is_cs_advanced rm,
     bi_room_setting = rm_room_setting rm\<rparr>"

definition list_rooms :: "'r node \<Rightarrow> 'r \<Rightarrow> basic_info list" where
  "list_rooms N r = map toBasicInfo (waiting_rooms N r)"

section \<open>Notifications and pushes\<close>

record suss_ntf =
  sn_match_id :: int
  sn_server_addr :: string
  sn_secret :: string
  sn_prepare_token :: string
  sn_sleep_ms :: int
  sn_map_id :: int
  sn_game_mode :: int
  sn_group_mode :: int
  sn_match_mode :: int
  sn_level_visual_style :: int
  sn_difficulty :: int
  sn_use_cache :: bool
  sn_first_login :: bool

datatype message =
    MRoomInfo room_info
  | MRoomJoinNtf "player_info list" room_info
  | MRoomLeaveNtf "player_info option" room_info
  | MRoomKickNtf player_info room_info
  | MRoomSetReadyNtf int "player_info list"
  | MRoomDismissNtf int int int
  | MRoomCountDownNtf int
  | MMatchmakingSussNtf suss_ntf

record push =
  ps_target :: int
  ps_protocol :: int
  ps_cmd :: int
  ps_msg :: message

text \<open>The subcommands of \<open>tcp.ERoom.Proto\<close> and the base protocols the code names.\<close>

definition PROTO_MATCHMAKING :: int where "PROTO_MATCHMAKING = 3"
definition PROTO_ROOM :: int where "PROTO_ROOM = 14"

datatype room_cmd =
    ROOMLIST | CREATE | JOIN | JOIN_NTF | LEAVE | LEAVE_NTF | DISMISS_NTF | KICK | KICK_NTF | START
  | ROOMINFO | CHANGE | CHANGE_NTF | MATCHMAKINGSUSS_NTF | SWITCHSEAT | SWITCHSEAT_NTF | SETREADY
  | SETREADY_NTF | ROOM_CREATE_RULE | COUNTDOWN | COUNTDOWN_NTF

fun room_cmd_num :: "room_cmd \<Rightarrow> int" where
  "room_cmd_num ROOMLIST = 1"
| "room_cmd_num CREATE = 2"
| "room_cmd_num JOIN = 3"
| "room_cmd_num JOIN_NTF = 5"
| "room_cmd_num LEAVE = 6"
| "room_cmd_num LEAVE_NTF = 7"
| "room_cmd_num DISMISS_NTF = 8"
| "room_cmd_num KICK = 9"
| "room_cmd_num KICK_NTF = 10"
| "room_cmd_num START = 11"
| "room_cmd_num ROOMINFO = 12"
| "room_cmd_num CHANGE = 13"
| "room_cmd_num CHANGE_NTF = 14"
| "room_cmd_num MATCHMAKINGSUSS_NTF = 16"
| "room_cmd_num SWITCHSEAT = 20"
| "room_cmd_num SWITCHSEAT_NTF = 21"
| "room_cmd_num SETREADY = 24"
| "room_cmd_num SETREADY_NTF = 25"
| "room_cmd_num ROOM_CREATE_RULE = 32"
| "room_cmd_num COUNTDOWN = 39"
| "room_cmd_num COUNTDOWN_NTF = 40"

definition pushToAccount :: "'r node \<Rightarrow> int \<Rightarrow> room_cmd \<Rightarrow> message \<Rightarrow> push list" where
  "pushToAccount N accountId cmd msg =
     (case nd_bus N of
        None \<Rightarrow> []
      | Some R \<Rightarrow> [\<lparr>ps_target = accountId, ps_protocol = PROTO_ROOM,
                     ps_cmd = room_cmd_num cmd, ps_msg = msg\<rparr>])"

text \<open>\<open>Number(null)\<close> is 0: without an excepted account only the account id 0 is skipped.\<close>

definition broadcast :: "'r node \<Rightarrow> member list \<Rightarrow> int option \<Rightarrow> room_cmd \<Rightarrow> message \<Rightarrow> push list" where
  "broadcast N members exceptId cmd msg =
     concat (map (\<lambda>m. if mb_account_id m = nullish exceptId 0 then []
                      else pushToAccount N (mb_account_id m) cmd msg) members)"

definition joinNtf :: "room \<Rightarrow> member \<Rightarrow> message" where
  "joinNtf rm joiner = MRoomJoinNtf [playerInfo joiner (Some (rm_map_id rm))] (toRoomInfo rm)"

definition leaveNtf :: "room \<Rightarrow> member option \<Rightarrow> message" where
  "leaveNtf rm leaver = MRoomLeaveNtf (map_option (\<lambda>m. playerInfo m None) leaver) (toRoomInfo rm)"

definition kickNtf :: "room \<Rightarrow> member \<Rightarrow> message" where
  "kickNtf rm target = MRoomKickNtf (playerInfo target None) (toRoomInfo rm)"

text \<open>\<open>room.members.map(playerInfo)\<close>: \<open>Array.map\<close> passes the index as the second argument, so the
  index of the member is what \<open>playerInfo\<close> takes for the map id.\<close>

definition setReadyNtf :: "room \<Rightarrow> message" where
  "setReadyNtf rm = MRoomSetReadyNtf (rm_id rm)
     (map (\<lambda>(i, m). playerInfo m (Some (int i))) (enumerate 0 (rm_members rm)))"

definition dismissNtf :: "room \<Rightarrow> int \<Rightarrow> int \<Rightarrow> message" where
  "dismissNtf rm leaverId reason = MRoomDismissNtf leaverId (rm_id rm) reason"

definition DISMISS_OFFLINE :: int where "DISMISS_OFFLINE = 2"

text \<open>\<open>handleDisconnect\<close>: leave on socket close and tell the survivors; a thrown error is logged.\<close>

definition handleDisconnect :: "'r node \<Rightarrow> int \<Rightarrow> 'r \<Rightarrow> push list \<times> 'r" where
  "handleDisconnect N accountId r =
     (case leave N accountId r of
        (Inl e, r') \<Rightarrow> ([], r')
      | (Inr None, r') \<Rightarrow> ([], r')
      | (Inr (Some res), r') \<Rightarrow>
          (if lv_dismissed res
           then broadcast N (lv_members res) (Some accountId) DISMISS_NTF
                  (dismissNtf (lv_room res) accountId DISMISS_OFFLINE)
           else broadcast N (rm_members (lv_room res)) (Some accountId) LEAVE_NTF
                  (leaveNtf (lv_room res) (lv_leaver res)), r'))"

section \<open>The panels\<close>

lemma seat_index_less: "length seats = n \<Longrightarrow> 0 < n \<Longrightarrow> seat_index n m seats < n"
  by (auto simp: seat_index_def nat_less_iff split: option.split)

lemma length_place_members [simp]:
  "length (place_members n mp g ms seats) = length seats"
  by (induction n mp g ms seats rule: place_members.induct) simp_all

lemma length_team_panel: "length (team_panel rm g) = nat (perTeamCap rm)"
  by (simp add: team_panel_def Let_def)

lemma other_seat:
  assumes "distinct (map (\<lambda>m. (group_of m, mb_seat m)) (x # ms))"
    and "y \<in> set ms" and "group_of y = group_of x"
  shows "mb_seat y \<noteq> mb_seat x"
proof
  assume "mb_seat y = mb_seat x"
  with assms(2,3) have "(group_of x, mb_seat x) \<in> (\<lambda>m. (group_of m, mb_seat m)) ` set ms"
    by (intro image_eqI [of _ _ y]) simp_all
  with assms(1) show False by simp
qed

lemma place_members_keep:
  assumes "length seats = n" and "s < n" and "seat_account (seats ! s) \<noteq> 0"
    and "\<And>m. m \<in> set ms \<Longrightarrow> group_of m = g \<Longrightarrow>
           0 \<le> mb_seat m \<and> mb_seat m < int n \<and> seat_account (seats ! nat (mb_seat m)) = 0 \<and> mb_account_id m \<noteq> 0"
    and "distinct (map (\<lambda>m. (group_of m, mb_seat m)) ms)"
  shows "place_members n mp g ms seats ! s = seats ! s"
  using assms
proof (induction n mp g ms seats rule: place_members.induct)
  case (1 n mp g seats)
  then show ?case by simp
next
  case (2 n mp g m ms seats)
  show ?case
  proof (cases "group_of m = g")
    case False
    with 2 show ?thesis by simp
  next
    case True
    have m: "0 \<le> mb_seat m" "mb_seat m < int n" "seat_account (seats ! nat (mb_seat m)) = 0"
      using "2.prems"(4) [of m] True by auto
    then have i: "seat_index n m seats = nat (mb_seat m)"
      by (simp add: seat_index_def)
    have ns: "nat (mb_seat m) \<noteq> s"
      using m(3) "2.prems"(3) by auto
    have "place_members n mp g ms (seats[nat (mb_seat m) := Filled (playerInfo m (Some mp))]) ! s =
        seats[nat (mb_seat m) := Filled (playerInfo m (Some mp))] ! s"
    proof (rule "2.IH"(2) [unfolded i])
      fix x
      assume x: "x \<in> set ms" "group_of x = g"
      then have "mb_seat x \<noteq> mb_seat m"
        using other_seat [OF "2.prems"(5)] True by simp
      with "2.prems"(4) [of x] x m(1) have "nat (mb_seat m) \<noteq> nat (mb_seat x)"
        by (simp add: eq_nat_nat_iff)
      with "2.prems"(4) [of x] x
      show "0 \<le> mb_seat x \<and> mb_seat x < int n \<and>
          seat_account (seats[nat (mb_seat m) := Filled (playerInfo m (Some mp))] ! nat (mb_seat x)) = 0 \<and>
          mb_account_id x \<noteq> 0"
        by (simp add: nth_list_update)
    qed (use True "2.prems" ns in simp_all)
    with True ns i show ?thesis by simp
  qed
qed

lemma place_members_at:
  assumes "length seats = n" and "m \<in> set ms" and "group_of m = g"
    and "\<And>m. m \<in> set ms \<Longrightarrow> group_of m = g \<Longrightarrow>
           0 \<le> mb_seat m \<and> mb_seat m < int n \<and> seat_account (seats ! nat (mb_seat m)) = 0 \<and> mb_account_id m \<noteq> 0"
    and "distinct (map (\<lambda>m. (group_of m, mb_seat m)) ms)"
  shows "place_members n mp g ms seats ! nat (mb_seat m) = Filled (playerInfo m (Some mp))"
  using assms
proof (induction n mp g ms seats rule: place_members.induct)
  case (1 n mp g seats)
  then show ?case by simp
next
  case (2 n mp g x ms seats)
  show ?case
  proof (cases "group_of x = g")
    case False
    with 2 show ?thesis by auto
  next
    case True
    let ?seats = "seats[nat (mb_seat x) := Filled (playerInfo x (Some mp))]"
    have x: "0 \<le> mb_seat x" "mb_seat x < int n" "seat_account (seats ! nat (mb_seat x)) = 0"
        "mb_account_id x \<noteq> 0"
      using "2.prems"(4) [of x] True by auto
    then have i: "seat_index n x seats = nat (mb_seat x)"
      by (simp add: seat_index_def)
    have rest: "0 \<le> mb_seat y \<and> mb_seat y < int n \<and> seat_account (?seats ! nat (mb_seat y)) = 0 \<and>
        mb_account_id y \<noteq> 0" if "y \<in> set ms" "group_of y = g" for y
    proof -
      have "mb_seat y \<noteq> mb_seat x"
        using other_seat [OF "2.prems"(5)] True that by simp
      with "2.prems"(4) [of y] that x(1) have "nat (mb_seat x) \<noteq> nat (mb_seat y)"
        by (simp add: eq_nat_nat_iff)
      with "2.prems"(4) [of y] that show ?thesis
        by (simp add: nth_list_update)
    qed
    show ?thesis
    proof (cases "m = x")
      case mx: True
      have "place_members n mp g ms ?seats ! nat (mb_seat x) = ?seats ! nat (mb_seat x)"
        by (rule place_members_keep)
          (use "2.prems" x rest in \<open>auto simp: playerInfo_def nat_less_iff\<close>)
      with True i x mx "2.prems"(1) show ?thesis
        by (simp add: nat_less_iff)
    next
      case False
      have "place_members n mp g ms ?seats ! nat (mb_seat m) = Filled (playerInfo m (Some mp))"
        by (rule "2.IH"(2) [unfolded i]) (use True False "2.prems" rest in auto)
      with True i show ?thesis by simp
    qed
  qed
qed

end
