(* ===== verification/Demo.thy ===== *)
theory Demo
  imports Rooms
begin

text \<open>
  Concrete inputs for the witnesses: a gateway node on the keyspace \<open>map_redis\<close> that nobody
  interferes with, an account with default values, and a room request. They model no code.
\<close>

definition demo_node :: "keyspace node" where
  "demo_node = \<lparr>nd_bus = Some map_redis, nd_token = ''n1#1#a'', nd_env = (\<lambda>r. r)\<rparr>"

definition demo_account :: "int \<Rightarrow> account" where
  "demo_account u = \<lparr>acc_uid = u, acc_account_id = u, acc_open_id = None, acc_open_id_type = None,
     acc_nickname = ''P'', acc_device_id = None, acc_client_version = None, acc_token = None,
     acc_token_created_at = 0, acc_banned = False, acc_ban_reason = None, acc_account_type = 0,
     acc_region = None, acc_language = None, acc_level = 1, acc_exp = 0, acc_rank = 0,
     acc_cs_rank = 0, acc_ranking_points = 0, acc_coins = 0, acc_gems = 0, acc_role = 0,
     acc_pin_id = 0, acc_skateboard_id = 0, acc_elite_pass = False, acc_ep_badge_count = 0,
     acc_ep_badge_id = 0, acc_show_rank = None, acc_game_server_id = [],
     acc_wallet = \<lparr>wl_coins = 0, wl_gems = 0\<rparr>, acc_profiles = [],
     acc_selected = \<lparr>si_avatar_id = 0, si_skin_color = 0, si_clothes = [], si_banner_id = 0,
       si_head_pic = 0, si_loadouts = [], si_slots = [], si_shows = [], si_emotes = None\<rparr>,
     acc_items = [], acc_friends = [], acc_requests = [], acc_mails = [],
     acc_clan = \<lparr>cl_id = 0, cl_name = None, cl_role = [], cl_rank = 0, cl_points = 0,
       cl_members = [], cl_announcement = None, cl_slogan = None\<rparr>,
     acc_created_at = 0, acc_last_login_at = 0\<rparr>"

definition demo_req :: "int option \<Rightarrow> string option \<Rightarrow> room_req" where
  "demo_req rid code = \<lparr>rq_room_id = rid, rq_room_name = None, rq_code = code, rq_map_id = Some 3,
     rq_game_mode = Some 15, rq_group_mode = None, rq_max_member_num = Some 4,
     rq_max_spectator_num = None, rq_room_type = None, rq_enable_death_spectate = None,
     rq_level_visual_style = None, rq_room_setting = None, rq_room_setting2 = None,
     rq_is_cs_advanced = None, rq_cs_advanced_setting = None, rq_ready = None,
     rq_kick_account_id = None, rq_to_room_pos = None, rq_to_group_pos = None,
     rq_count_down_seconds = None\<rparr>"

lemma demo_bus [simp]: "nd_bus demo_node = Some map_redis"
  by (simp add: demo_node_def)

lemma demo_accountNum [simp]: "accountNum (demo_account u) = u"
  by (simp add: accountNum_def demo_account_def int_or_def)

end
