(* ===== verification/RoomSettings.thy ===== *)
theory RoomSettings
  imports Documents "HOL-Library.Word"
begin

text \<open>
  The simple-mode custom-room settings of \<open>src/tcp/roomsettings.js\<close>: two 32-bit words hold
  single-bit flags and multi-bit indices, and the indices select values from tables keyed by
  the packed value. The bit fields are 32-bit words here, as \<open>>>>\<close> and \<open>&\<close> make them there.
\<close>

unbundle bit_operations_syntax

section \<open>Layout\<close>

type_synonym u32 = "32 word"

definition IDX :: "(string \<times> nat \<times> nat) list" where
  "IDX = [(''playerHP'', 8, 3), (''playerEP'', 11, 3), (''playerSpeed'', 14, 3), (''dropList'', 17, 4),
          (''playerJump'', 21, 3), (''roundNum'', 25, 2), (''initCoin'', 27, 2)]"

definition IDX2 :: "(string \<times> nat \<times> nat) list" where
  "IDX2 = [(''fightClubRound'', 6, 2), (''revive'', 8, 3)]"

definition FLAG :: "(string \<times> u32) list" where
  "FLAG = [(''hideKillInfo'', 0x1), (''unlimitedAmmo'', 0x2), (''noFallingDamage'', 0x4),
           (''noLoadout'', 0x8), (''noAirdrop'', 0x10), (''noSkill'', 0x20), (''noVehicle'', 0x40),
           (''accTotalStats'', 0x1000000), (''noPowerGun'', 0x20000000), (''hideEnemyCloth'', 0x40000000)]"

definition FLAG2 :: "(string \<times> u32) list" where
  "FLAG2 = [(''noUav'', 0x1), (''noBomb'', 0x2), (''replay'', 0x4), (''noZeppelin'', 0x8), (''noHud'', 0x10),
            (''friendlyFire'', 0x20), (''inGameChat'', 0x800), (''shopFlow'', 0x1000),
            (''useRandomMap'', 0x2000), (''noAuxAim'', 0x4000)]"

text \<open>The value tables, keyed by the packed value; 0 is unset.\<close>

definition T_roundNum :: "(int \<times> int) list" where
  "T_roundNum = [(1, 7), (2, 13), (3, 11), (4, 5), (5, 3)]"

definition T_initCoin :: "(int \<times> int list) list" where
  "T_initCoin = [(1, [500, 900, 1100, 1700, 2100, 2400, 3000]),
                 (2, [1500, 1700, 1900, 2100, 2300, 2500, 2700])]"

definition T_playerHP :: "(int \<times> int) list" where
  "T_playerHP = [(1, 200), (2, 500), (3, 50), (4, 1)]"

definition T_playerEP :: "(int \<times> int) list" where
  "T_playerEP = [(1, 0), (2, 50), (3, 200)]"

definition T_playerSpeed :: "(int \<times> rat) list" where
  "T_playerSpeed = [(1, 1), (2, 1/2), (3, 5/4), (4, 2)]"

definition T_playerJump :: "(int \<times> rat) list" where
  "T_playerJump = [(1, 1), (2, 2), (3, 4)]"

definition T_revive :: "(int \<times> string) list" where
  "T_revive = [(1, ''1;1''), (2, ''1;0''), (3, ''0;1''), (4, ''0;0'')]"

section \<open>Decoding\<close>

definition idxOf :: "u32 \<Rightarrow> nat \<times> nat \<Rightarrow> int" where
  "idxOf v sw = uint (drop_bit (fst sw) v AND mask (snd sw))"

definition hasFlag :: "u32 \<Rightarrow> u32 \<Rightarrow> bool" where
  "hasFlag v m \<longleftrightarrow> v AND m \<noteq> 0"

definition resolve :: "(int \<times> 'a) list \<Rightarrow> int \<Rightarrow> 'a option" where
  "resolve table v = (if v = 0 then None else map_of table v)"

definition decodeIndices :: "u32 \<Rightarrow> u32 \<Rightarrow> (string \<times> int) list" where
  "decodeIndices rs rs2 =
     map (\<lambda>(k, spec). (k, idxOf rs spec)) IDX @ map (\<lambda>(k, spec). (k, idxOf rs2 spec)) IDX2"

definition decodeFlags :: "u32 \<Rightarrow> u32 \<Rightarrow> (string \<times> bool) list" where
  "decodeFlags rs rs2 =
     map (\<lambda>(k, m). (k, hasFlag rs m)) FLAG @ map (\<lambda>(k, m). (k, hasFlag rs2 m)) FLAG2"

record decoded_settings =
  ds_flags :: "(string \<times> bool) list"
  ds_indices :: "(string \<times> int) list"
  ds_roomSetting :: int
  ds_roomSetting2 :: int
  ds_roundCount :: "int option"
  ds_maxHP :: "int option"
  ds_maxEP :: "int option"
  ds_speedMul :: "rat option"
  ds_jumpMul :: "rat option"
  ds_economyTable :: "int list option"
  ds_revive :: "string option"
  ds_isCsAdvanced :: bool

definition index_of :: "(string \<times> int) list \<Rightarrow> string \<Rightarrow> int" where
  "index_of ixs k = (case map_of ixs k of None \<Rightarrow> 0 | Some v \<Rightarrow> v)"

definition decodeRoomSettings :: "room \<Rightarrow> decoded_settings" where
  "decodeRoomSettings rm =
     (let rs = word_of_int (rm_room_setting rm);
          rs2 = word_of_int (rm_room_setting2 rm);
          indices = decodeIndices rs rs2
      in \<lparr>ds_flags = decodeFlags rs rs2,
          ds_indices = indices,
          ds_roomSetting = uint rs,
          ds_roomSetting2 = uint rs2,
          ds_roundCount = resolve T_roundNum (index_of indices ''roundNum''),
          ds_maxHP = resolve T_playerHP (index_of indices ''playerHP''),
          ds_maxEP = resolve T_playerEP (index_of indices ''playerEP''),
          ds_speedMul = resolve T_playerSpeed (index_of indices ''playerSpeed''),
          ds_jumpMul = resolve T_playerJump (index_of indices ''playerJump''),
          ds_economyTable = resolve T_initCoin (index_of indices ''initCoin''),
          ds_revive = resolve T_revive (index_of indices ''revive''),
          ds_isCsAdvanced = rm_is_cs_advanced rm\<rparr>)"

section \<open>The fields are independent bits\<close>

text \<open>The bits an index or a flag reads.\<close>

lemma idxOf_cong:
  assumes "\<And>i. i < w \<Longrightarrow> bit v (s + i) = bit v' (s + i)"
  shows "idxOf v (s, w) = idxOf v' (s, w)"
proof -
  have "drop_bit s v AND mask w = drop_bit s v' AND mask w"
    by (rule bit_eqI) (use assms in \<open>auto simp: bit_simps\<close>)
  then show ?thesis
    by (simp add: idxOf_def)
qed

lemma idxOf_range: "w \<le> 31 \<Longrightarrow> 0 \<le> idxOf v (s, w) \<and> idxOf v (s, w) < 2 ^ w"
proof -
  have "idxOf v (s, w) = take_bit w (uint (drop_bit s v))"
    by (simp add: idxOf_def unsigned_take_bit_eq flip: take_bit_eq_mask)
  then show ?thesis
    by simp
qed

lemma hasFlag_bit: "k < 32 \<Longrightarrow> hasFlag v (2 ^ k) \<longleftrightarrow> bit v k"
  by (simp add: hasFlag_def and_exp_eq_0_iff_not_bit)

text \<open>A field holds what is packed into it.\<close>

definition packField :: "u32 \<Rightarrow> nat \<times> nat \<Rightarrow> u32 \<Rightarrow> u32" where
  "packField v sw x =
     (v AND NOT (push_bit (fst sw) (mask (snd sw)))) OR push_bit (fst sw) (x AND mask (snd sw))"

lemma bit_packField:
  "bit (packField v (s, w) x) i \<longleftrightarrow>
     (if s \<le> i \<and> i < s + w then i < 32 \<and> bit x (i - s) else bit v i)"
  by (cases "i < 32") (auto simp: packField_def bit_simps dest: bit_imp_le_length)

lemma idxOf_packField_same:
  assumes "s + w \<le> 32"
  shows "idxOf (packField v (s, w) x) (s, w) = uint (x AND mask w)"
proof -
  have "drop_bit s (packField v (s, w) x) AND mask w = x AND mask w"
    by (rule bit_eqI) (use assms in \<open>auto simp: bit_simps bit_packField\<close>)
  then show ?thesis
    by (simp add: idxOf_def)
qed

lemma idxOf_packField_other:
  "s' + w' \<le> s \<or> s + w \<le> s' \<Longrightarrow> idxOf (packField v (s, w) x) (s', w') = idxOf v (s', w')"
  by (rule idxOf_cong) (auto simp: bit_packField)

lemma hasFlag_packField:
  "k < 32 \<Longrightarrow> k < s \<or> s + w \<le> k \<Longrightarrow> hasFlag (packField v (s, w) x) (2 ^ k) = hasFlag v (2 ^ k)"
  by (auto simp: hasFlag_bit bit_packField)

text \<open>The layout: index fields do not overlap each other or a flag.\<close>

lemma IDX_disjoint:
  assumes "(n, s, w) \<in> set IDX" and "(n', s', w') \<in> set IDX" and "n' \<noteq> n"
  shows "s' + w' \<le> s \<or> s + w \<le> s'"
proof -
  have "list_all (\<lambda>(n, s, w). list_all (\<lambda>(n', s', w'). n' = n \<or> s' + w' \<le> s \<or> s + w \<le> s') IDX) IDX"
    by code_simp
  with assms show ?thesis
    unfolding list_all_iff by fastforce
qed

lemma IDX_fit: "(n, s, w) \<in> set IDX \<Longrightarrow> s + w \<le> 32"
  by (auto simp: IDX_def)

lemma FLAG_bits:
  assumes "(f, m) \<in> set FLAG"
  shows "\<exists>k. m = 2 ^ k \<and> k < 32 \<and> (\<forall>(n, s, w) \<in> set IDX. k < s \<or> s + w \<le> k)"
proof -
  let ?z = "zip (map snd FLAG) ([0, 1, 2, 3, 4, 5, 6, 24, 29, 30] :: nat list)"
  have all: "list_all (\<lambda>(m, k). m = 2 ^ k \<and> k < 32 \<and> list_all (\<lambda>(n, s, w). k < s \<or> s + w \<le> k) IDX) ?z"
    by (simp add: FLAG_def IDX_def)
  have "m \<in> set (map snd FLAG)"
    using assms by force
  then obtain k where "(m, k) \<in> set ?z"
    using in_set_impl_in_set_zip1 [of "map snd FLAG" "[0, 1, 2, 3, 4, 5, 6, 24, 29, 30] :: nat list" m]
    by (auto simp: FLAG_def)
  with all show ?thesis
    unfolding list_all_iff by fastforce
qed

text \<open>Packing one field changes that index only, and no flag.\<close>

lemma packField_frame:
  assumes "(n, s, w) \<in> set IDX"
  shows "decodeFlags (packField v (s, w) x) rs2 = decodeFlags v rs2"
    and "(n', s', w') \<in> set IDX \<Longrightarrow> n' \<noteq> n \<Longrightarrow> idxOf (packField v (s, w) x) (s', w') = idxOf v (s', w')"
    and "idxOf (packField v (s, w) x) (s, w) = uint (x AND mask w)"
proof -
  have "hasFlag (packField v (s, w) x) m = hasFlag v m" if "(f, m) \<in> set FLAG" for f m
    using FLAG_bits [OF that] assms hasFlag_packField by fastforce
  then show "decodeFlags (packField v (s, w) x) rs2 = decodeFlags v rs2"
    by (auto simp: decodeFlags_def)
  show "(n', s', w') \<in> set IDX \<Longrightarrow> n' \<noteq> n \<Longrightarrow> idxOf (packField v (s, w) x) (s', w') = idxOf v (s', w')"
    using idxOf_packField_other IDX_disjoint [OF assms] by blast
  show "idxOf (packField v (s, w) x) (s, w) = uint (x AND mask w)"
    by (rule idxOf_packField_same) (rule IDX_fit [OF assms])
qed

end
