(* ===== verification/CsAdvanced.thy ===== *)
theory CsAdvanced
  imports Documents Text
begin

text \<open>
  The advanced Clash-Squad settings of \<open>src/tcp/csadvanced.js\<close>: the CSV tables that give the
  rows of the shop, the item types and the economy events, the placement of an item into a
  loadout slot, and the decoder of the binary \<open>cs_advanced_setting\<close> blob. A table file that
  cannot be read is \<open>None\<close> and yields the empty table, as in the code.
\<close>

section \<open>Tables\<close>

definition CS_SHOP_COST_INTERVAL :: int where "CS_SHOP_COST_INTERVAL = 50"

definition ECO_EVENT_KEY :: "(int \<times> string) list" where
  "ECO_EVENT_KEY = [(152, ''win_round''), (153, ''per_kill''), (154, ''loss_round''),
     (155, ''loss_streak2''), (156, ''loss_streak3''), (157, ''first_blood'')]"

record eco_step =
  ec_name :: string
  ec_min :: int
  ec_step :: int

definition eco_row :: "string \<Rightarrow> (int \<times> eco_step) option" where
  "eco_row line =
     (let c = split_on (CHR '','') line
      in if length c < 9 then None
         else (case parseInt (nth_str c 0) of
             None \<Rightarrow> None
           | Some eventId \<Rightarrow>
               (case map_of ECO_EVENT_KEY eventId of
                  None \<Rightarrow> None
                | Some name \<Rightarrow>
                    if toLowerCase (trim (nth_str c 8)) \<noteq> ''true'' then None
                    else Some (eventId, \<lparr>ec_name = name, ec_min = or_num (parseInt (nth_str c 4)) 0,
                                          ec_step = or_num (parseInt (nth_str c 7)) 1\<rparr>))))"

text \<open>Rows from the third line on; a later row of the same key replaces an earlier one.\<close>

fun load_rows :: "(string \<Rightarrow> ('k \<times> 'v) option) \<Rightarrow> string list \<Rightarrow> ('k \<times> 'v) list \<Rightarrow> ('k \<times> 'v) list" where
  "load_rows f [] tbl = tbl"
| "load_rows f (l # ls) tbl = load_rows f ls (case f l of None \<Rightarrow> tbl | Some kv \<Rightarrow> kv # tbl)"

definition loadCSEco :: "string option \<Rightarrow> (int \<times> eco_step) list" where
  "loadCSEco file =
     (case file of None \<Rightarrow> [] | Some text \<Rightarrow> load_rows eco_row (drop 2 (split_lines text)) [])"

definition QUARANTINE :: "int list" where
  "QUARANTINE = [23, 37, 100, 537, 38, 607, 1006, 1202, 1401, 1601, 1602, 2102, 2401]"

record shop_row =
  sr_itemId :: int
  sr_ammo :: int
  sr_ammoCount :: int
  sr_filter :: int
  sr_typeTab :: int
  sr_limitation :: int
  sr_bonus :: bool

definition shop_line :: "string \<Rightarrow> (int \<times> shop_row) option" where
  "shop_line line =
     (let c = split_on (CHR '','') line
      in if length c < 10 then None
         else (case parseInt (nth_str c 0) of
             None \<Rightarrow> None
           | Some index \<Rightarrow>
               (let tok = split_on (CHR '';'') (nth_str c 1)
                in case parseInt (nth_str tok 0) of
                     None \<Rightarrow> None
                   | Some itemId \<Rightarrow>
                       (let an = split_on (CHR ''-'') (nth_str tok 1);
                            has = CHR ''-'' \<in> set (nth_str tok 1)
                        in Some (index, \<lparr>
                             sr_itemId = itemId,
                             sr_ammo = (if has then or_num (parseInt (nth_str an 0)) 0 else 0),
                             sr_ammoCount = (if has then or_num (parseInt (nth_str an 1)) 0 else 0),
                             sr_filter = or_num (parseInt (nth_str c 3)) 0,
                             sr_typeTab = or_num (parseInt (nth_str c 9)) 0,
                             sr_limitation = or_num (parseInt (nth_str c 6)) 0,
                             sr_bonus = (trim (nth_str c 7) \<noteq> [] \<and> trim (nth_str c 7) \<noteq> ''0'')\<rparr>)))))"

definition loadCSShop :: "string option \<Rightarrow> (int \<times> shop_row) list" where
  "loadCSShop file =
     (case file of None \<Rightarrow> [] | Some text \<Rightarrow> load_rows shop_line (drop 2 (split_lines text)) [])"

definition item_type_line :: "string \<Rightarrow> (int \<times> int) option" where
  "item_type_line line =
     (let c = split_on (CHR '','') line
      in if length c \<le> 11 then None
         else (case parseInt (nth_str c 0) of
                 None \<Rightarrow> None
               | Some rid \<Rightarrow> Some (rid, or_num (parseInt (nth_str c 11)) 0)))"

definition loadItemTypes :: "string option \<Rightarrow> (int \<times> int) list" where
  "loadItemTypes file =
     (case file of None \<Rightarrow> [] | Some text \<Rightarrow> load_rows item_type_line (drop 2 (split_lines text)) [])"

text \<open>The three tables the module loads once.\<close>

record cs_tables =
  ct_shop :: "(int \<times> shop_row) list"
  ct_types :: "(int \<times> int) list"
  ct_eco :: "(int \<times> eco_step) list"

section \<open>Slots\<close>

definition resolveSlotKind :: "int \<Rightarrow> int \<Rightarrow> int \<Rightarrow> int \<Rightarrow> string option" where
  "resolveSlotKind itemId ammo filt itemType =
     (if itemId \<in> set QUARANTINE then None
      else if filt = 1 then
        (if ammo = 202 then Some ''secondary''
         else if ammo = 201 \<or> ammo = 203 \<or> ammo = 204 \<or> ammo = 205 then Some ''primary''
         else if ammo = 0 then Some ''melee''
         else None)
      else if filt = 2 then
        (if itemType = 4 then Some ''vest''
         else if itemType = 2 then Some ''helmet''
         else if itemType = 1 then Some ''consumable''
         else None)
      else if filt = 4 then
        (if itemId = 709 then Some ''consumable''
         else if itemId = 1201 then Some ''building''
         else if itemType = 8 then Some ''grenade''
         else None)
      else None)"

section \<open>The blob\<close>

text \<open>\<open>u8()\<close> and \<open>i32()\<close> read at the offset and throw past the end (\<open>None\<close>).\<close>

definition rd_u8 :: "bytes \<Rightarrow> nat \<Rightarrow> (int \<times> nat) option" where
  "rd_u8 buf o1 = (if length buf < o1 + 1 then None else Some (uint (buf ! o1), o1 + 1))"

definition le32 :: "byte \<Rightarrow> byte \<Rightarrow> byte \<Rightarrow> byte \<Rightarrow> 32 word" where
  "le32 b0 b1 b2 b3 = word_of_int (uint b0 + 256 * uint b1 + 65536 * uint b2 + 16777216 * uint b3)"

definition rd_i32 :: "bytes \<Rightarrow> nat \<Rightarrow> (int \<times> nat) option" where
  "rd_i32 buf o1 =
     (if length buf < o1 + 4 then None
      else Some (sint (le32 (buf ! o1) (buf ! (o1 + 1)) (buf ! (o1 + 2)) (buf ! (o1 + 3))), o1 + 4))"

text \<open>One store entry: an allowed item with its price, or what is dropped (the row index of an
  unknown row, the item id of an unplaceable one).\<close>

definition store_entry :: "cs_tables \<Rightarrow> int \<Rightarrow> int \<Rightarrow> int + shop_item" where
  "store_entry T idx step =
     (case map_of (ct_shop T) idx of
        None \<Rightarrow> Inl idx
      | Some meta \<Rightarrow>
          (case resolveSlotKind (sr_itemId meta) (sr_ammo meta) (sr_filter meta)
                  (or_num (map_of (ct_types T) (sr_itemId meta)) 0) of
             None \<Rightarrow> Inl (sr_itemId meta)
           | Some slotKind \<Rightarrow> Inr \<lparr>
               sh_item_id = sr_itemId meta,
               sh_price = step * CS_SHOP_COST_INTERVAL,
               sh_filter = sr_filter meta,
               sh_limitation = sr_limitation meta,
               sh_bonus = sr_bonus meta,
               sh_ammo = sr_ammo meta,
               sh_slot_kind = slotKind\<rparr>))"

fun decode_pairs :: "bytes \<Rightarrow> nat \<Rightarrow> nat \<Rightarrow> ((int \<times> int) list \<times> nat) option" where
  "decode_pairs buf 0 o1 = Some ([], o1)"
| "decode_pairs buf (Suc n) o1 =
     (case rd_u8 buf o1 of
        None \<Rightarrow> None
      | Some (a, o2) \<Rightarrow>
          (case rd_u8 buf o2 of
             None \<Rightarrow> None
           | Some (b, o3) \<Rightarrow>
               (case decode_pairs buf n o3 of
                  None \<Rightarrow> None
                | Some (ps, o4) \<Rightarrow> Some ((a, b) # ps, o4))))"

fun decode_rounds :: "bytes \<Rightarrow> nat \<Rightarrow> nat \<Rightarrow> (int list \<times> nat) option" where
  "decode_rounds buf 0 o1 = Some ([], o1)"
| "decode_rounds buf (Suc n) o1 =
     (case rd_i32 buf o1 of
        None \<Rightarrow> None
      | Some (v, o2) \<Rightarrow>
          (case decode_rounds buf n o2 of
             None \<Rightarrow> None
           | Some (vs, o3) \<Rightarrow> Some (max 0 v # vs, o3)))"

text \<open>\<open>events[es.name] = ...\<close>: set or overwrite one property of the object.\<close>

fun set_prop :: "string \<Rightarrow> int \<Rightarrow> (string \<times> int) list \<Rightarrow> (string \<times> int) list" where
  "set_prop k v [] = [(k, v)]"
| "set_prop k v ((k', v') # ps) = (if k' = k then (k, v) # ps else (k', v') # set_prop k v ps)"

fun eco_events :: "cs_tables \<Rightarrow> (int \<times> int) list \<Rightarrow> (string \<times> int) list \<Rightarrow> (string \<times> int) list" where
  "eco_events T [] ev = ev"
| "eco_events T ((evId, step) # ps) ev =
     eco_events T ps (case map_of (ct_eco T) evId of
        None \<Rightarrow> ev
      | Some es \<Rightarrow> set_prop (ec_name es) (ec_min es + step * ec_step es) ev)"

record overlay =
  ov_roundCount :: int
  ov_perRoundBase :: "int list"
  ov_shopItems :: "shop_item list"
  ov_events :: "(string \<times> int) list option"
  ov_dropped :: "int list"

fun lefts :: "('a + 'b) list \<Rightarrow> 'a list" where
  "lefts [] = []"
| "lefts (Inl a # xs) = a # lefts xs"
| "lefts (Inr b # xs) = lefts xs"

fun rights :: "('a + 'b) list \<Rightarrow> 'b list" where
  "rights [] = []"
| "rights (Inl a # xs) = rights xs"
| "rights (Inr b # xs) = b # rights xs"

definition build_overlay :: "cs_tables \<Rightarrow> (int \<times> int) list \<Rightarrow> (int \<times> int) list \<Rightarrow> int list \<Rightarrow> overlay" where
  "build_overlay T store eco rounds =
     (let entries = map (\<lambda>(idx, step). store_entry T idx step) store;
          events = eco_events T eco []
      in \<lparr>ov_roundCount = int (length rounds),
          ov_perRoundBase = rounds,
          ov_shopItems = rights entries,
          ov_events = (if events = [] then None else Some events),
          ov_dropped = lefts entries\<rparr>)"

definition decodeAdvanced :: "cs_tables \<Rightarrow> bytes \<Rightarrow> overlay option" where
  "decodeAdvanced T buf =
     (if length buf < 3 then None
      else (case rd_u8 buf 0 of
          None \<Rightarrow> None
        | Some (storeCount, o1) \<Rightarrow>
        (case decode_pairs buf (nat storeCount) o1 of
          None \<Rightarrow> None
        | Some (store, o2) \<Rightarrow>
        (case rd_u8 buf o2 of
          None \<Rightarrow> None
        | Some (ecoCount, o3) \<Rightarrow>
        (case decode_pairs buf (nat ecoCount) o3 of
          None \<Rightarrow> None
        | Some (eco, o4) \<Rightarrow>
        (case rd_u8 buf o4 of
          None \<Rightarrow> None
        | Some (roundCount, o5) \<Rightarrow>
        (case decode_rounds buf (nat roundCount) o5 of
          None \<Rightarrow> None
        | Some (rounds, o6) \<Rightarrow> Some (build_overlay T store eco rounds))))))))"

section \<open>The layout the client writes\<close>

definition pairs_bytes :: "(byte \<times> byte) list \<Rightarrow> bytes" where
  "pairs_bytes ps = concat (map (\<lambda>(a, b). [a, b]) ps)"

definition i32_bytes :: "32 word \<Rightarrow> bytes" where
  "i32_bytes w = [ucast w, ucast (drop_bit 8 w), ucast (drop_bit 16 w), ucast (drop_bit 24 w)]"

definition encode_blob :: "(byte \<times> byte) list \<Rightarrow> (byte \<times> byte) list \<Rightarrow> (32 word) list \<Rightarrow> bytes" where
  "encode_blob store eco rounds =
     [of_nat (length store)] @ pairs_bytes store @
     [of_nat (length eco)] @ pairs_bytes eco @
     [of_nat (length rounds)] @ concat (map i32_bytes rounds)"

lemma bytes_of_int:
  fixes n :: int
  assumes "0 \<le> n" and "n < 4294967296"
  shows "n mod 256 + 256 * ((n div 256) mod 256) + 65536 * ((n div 65536) mod 256) +
      16777216 * ((n div 16777216) mod 256) = n"
proof -
  define a b c where "a = n div 256" and "b = n div 65536" and "c = n div 16777216"
  have "b = a div 256" "c = b div 256"
    by (simp_all add: a_def b_def c_def flip: zdiv_zmult2_eq)
  moreover have "0 \<le> c" "c < 256"
    using assms by (simp_all add: c_def)
  ultimately have "n mod 256 = n - 256 * a" "a mod 256 = a - 256 * b" "b mod 256 = b - 256 * c" "c mod 256 = c"
    by (simp_all add: a_def minus_mult_div_eq_mod)
  then show ?thesis
    unfolding a_def [symmetric] b_def [symmetric] c_def [symmetric] by simp
qed

lemma le32_i32_bytes:
  "le32 (ucast w) (ucast (drop_bit 8 w)) (ucast (drop_bit 16 w)) (ucast (drop_bit 24 w)) = (w :: 32 word)"
proof -
  let ?n = "uint w"
  have n: "0 \<le> ?n" "?n < 4294967296"
    using uint_lt2p [of w] by simp_all
  have "uint (ucast w :: byte) = ?n mod 256"
    "uint (ucast (drop_bit 8 w) :: byte) = (?n div 256) mod 256"
    "uint (ucast (drop_bit 16 w) :: byte) = (?n div 65536) mod 256"
    "uint (ucast (drop_bit 24 w) :: byte) = (?n div 16777216) mod 256"
    by (simp_all add: unsigned_ucast_eq unsigned_drop_bit_eq take_bit_eq_mod drop_bit_eq_div uint_div)
  moreover have "?n mod 256 + 256 * ((?n div 256) mod 256) + 65536 * ((?n div 65536) mod 256) +
      16777216 * ((?n div 16777216) mod 256) = ?n"
    using n by (rule bytes_of_int)
  ultimately show ?thesis
    by (simp add: le32_def)
qed

lemma rd_u8_at: "rd_u8 (pre @ b # rest) (length pre) = Some (uint b, Suc (length pre))"
  by (simp add: rd_u8_def)

lemma decode_pairs_at:
  "decode_pairs (pre @ pairs_bytes ps @ rest) (length ps) (length pre) =
     Some (map (\<lambda>(a, b). (uint a, uint b)) ps, length pre + 2 * length ps)"
proof (induction ps arbitrary: pre)
  case Nil
  then show ?case by simp
next
  case (Cons p ps)
  obtain a b where p: "p = (a, b)" by fastforce
  have e: "pre @ pairs_bytes (p # ps) @ rest = pre @ a # b # pairs_bytes ps @ rest"
    by (simp add: pairs_bytes_def p)
  have r1: "rd_u8 (pre @ a # b # pairs_bytes ps @ rest) (length pre) = Some (uint a, Suc (length pre))"
    by (rule rd_u8_at)
  have r2: "rd_u8 (pre @ a # b # pairs_bytes ps @ rest) (Suc (length pre)) =
      Some (uint b, Suc (Suc (length pre)))"
    using rd_u8_at [of "pre @ [a]" b "pairs_bytes ps @ rest"] by simp
  have r3: "decode_pairs (pre @ a # b # pairs_bytes ps @ rest) (length ps) (Suc (Suc (length pre))) =
      Some (map (\<lambda>(a, b). (uint a, uint b)) ps, Suc (Suc (length pre)) + 2 * length ps)"
    using Cons.IH [of "pre @ [a, b]"] by simp
  show ?case
    unfolding e by (simp add: r1 r2 r3 p)
qed

lemma length_i32_bytes: "length (i32_bytes w) = 4"
  by (simp add: i32_bytes_def)

lemma decode_rounds_at:
  "decode_rounds (pre @ concat (map i32_bytes ws)) (length ws) (length pre) =
     Some (map (\<lambda>w. max 0 (sint w)) ws, length pre + 4 * length ws)"
proof (induction ws arbitrary: pre)
  case Nil
  then show ?case by simp
next
  case (Cons w ws)
  let ?buf = "pre @ i32_bytes w @ concat (map i32_bytes ws)"
  have r1: "rd_i32 ?buf (length pre) = Some (sint w, length pre + 4)"
    by (simp add: rd_i32_def i32_bytes_def nth_append le32_i32_bytes)
  have r2: "decode_rounds ?buf (length ws) (length pre + 4) =
      Some (map (\<lambda>w. max 0 (sint w)) ws, length pre + 4 + 4 * length ws)"
    using Cons.IH [of "pre @ i32_bytes w"] by (simp add: length_i32_bytes)
  show ?case
    using r1 r2 by simp
qed

lemma length_pairs_bytes [simp]: "length (pairs_bytes ps) = 2 * length ps"
  by (induction ps) (auto simp: pairs_bytes_def)

lemma uint_of_nat_byte: "n < 256 \<Longrightarrow> nat (uint (of_nat n :: byte)) = n"
  by (simp add: unsigned_of_nat take_bit_nat_eq_self)

text \<open>Reading a prefix never gives another answer than reading the whole.\<close>

lemma rd_u8_prefix: "rd_u8 p o1 = Some (x, o2) \<Longrightarrow> rd_u8 (p @ q) o1 = Some (x, o2) \<and> o2 \<le> length p"
  by (auto simp: rd_u8_def nth_append split: if_splits)

lemma rd_i32_prefix: "rd_i32 p o1 = Some (x, o2) \<Longrightarrow> rd_i32 (p @ q) o1 = Some (x, o2) \<and> o2 \<le> length p"
  by (auto simp: rd_i32_def nth_append split: if_splits)

lemma decode_pairs_prefix:
  "decode_pairs p n o1 = Some (xs, o2) \<Longrightarrow> o1 \<le> length p \<Longrightarrow>
     decode_pairs (p @ q) n o1 = Some (xs, o2) \<and> o2 \<le> length p"
proof (induction n arbitrary: o1 xs o2)
  case 0
  then show ?case by simp
next
  case (Suc n)
  from Suc.prems(1) obtain a i b j ps where
    r: "rd_u8 p o1 = Some (a, i)" "rd_u8 p i = Some (b, j)" "decode_pairs p n j = Some (ps, o2)"
      "xs = (a, b) # ps"
    by (auto split: option.splits)
  note a = rd_u8_prefix [OF r(1), of q] and b = rd_u8_prefix [OF r(2), of q]
  show ?case
    using Suc.IH [OF r(3)] a b r(4) by simp
qed

lemma decode_rounds_prefix:
  "decode_rounds p n o1 = Some (xs, o2) \<Longrightarrow> o1 \<le> length p \<Longrightarrow>
     decode_rounds (p @ q) n o1 = Some (xs, o2) \<and> o2 \<le> length p"
proof (induction n arbitrary: o1 xs o2)
  case 0
  then show ?case by simp
next
  case (Suc n)
  from Suc.prems(1) obtain a i ps where
    r: "rd_i32 p o1 = Some (a, i)" "decode_rounds p n i = Some (ps, o2)" "xs = max 0 a # ps"
    by (auto split: option.splits)
  note a = rd_i32_prefix [OF r(1), of q]
  show ?case
    using Suc.IH [OF r(2)] a r(3) by simp
qed

end
