(* ===== verification/Jwt.thy ===== *)
theory Jwt
  imports Text
begin

text \<open>
  \<open>src/utils/jwt.js\<close>: the compact HS256 token. Base64 is modelled on byte lists as Node's
  \<open>Buffer\<close> does it (padding on encode, skipped characters and optional padding on decode);
  HMAC-SHA256 and the JSON text of a payload are parameters: \<open>hm secret text\<close> is the digest,
  \<open>js\<close> and \<open>unjs\<close> are \<open>JSON.stringify\<close> and \<open>JSON.parse\<close> on the payload type.
\<close>

section \<open>Base64\<close>

fun sextets :: "nat list \<Rightarrow> nat list" where
  "sextets [] = []"
| "sextets [a] = [a div 4, (a mod 4) * 16]"
| "sextets [a, b] = [a div 4, (a mod 4) * 16 + b div 16, (b mod 16) * 4]"
| "sextets (a # b # c # rest) =
     a div 4 # ((a mod 4) * 16 + b div 16) # ((b mod 16) * 4 + c div 64) # c mod 64 # sextets rest"

fun octets :: "nat list \<Rightarrow> nat list" where
  "octets [] = []"
| "octets [w] = []"
| "octets [w, x] = [w * 4 + x div 16]"
| "octets [w, x, y] = [w * 4 + x div 16, (x mod 16) * 16 + y div 4]"
| "octets (w # x # y # z # rest) =
     (w * 4 + x div 16) # ((x mod 16) * 16 + y div 4) # ((y mod 4) * 64 + z) # octets rest"

definition b64_alphabet :: string where
  "b64_alphabet = ''ABCDEFGHIJKLMNOPQRSTUVWXYZabcdefghijklmnopqrstuvwxyz0123456789+/''"

definition b64_char :: "nat \<Rightarrow> char" where
  "b64_char n = b64_alphabet ! n"

definition b64_val :: "char \<Rightarrow> nat option" where
  "b64_val c = find_index (\<lambda>x. x = c) b64_alphabet"

definition to_base64 :: "bytes \<Rightarrow> string" where
  "to_base64 bs = map b64_char (sextets (map unat bs)) @ replicate ((3 - length bs mod 3) mod 3) (CHR ''='')"

definition from_base64 :: "string \<Rightarrow> bytes" where
  "from_base64 s = map of_nat (octets (List.map_filter b64_val (takeWhile (\<lambda>c. c \<noteq> CHR ''='') s)))"

definition url_char :: "char \<Rightarrow> char" where
  "url_char c = (if c = CHR ''+'' then CHR ''-'' else if c = CHR ''/'' then CHR ''_'' else c)"

definition unurl_char :: "char \<Rightarrow> char" where
  "unurl_char c = (if c = CHR ''-'' then CHR ''+'' else if c = CHR ''_'' then CHR ''/'' else c)"

definition b64url :: "bytes \<Rightarrow> string" where
  "b64url bs = rev (dropWhile (\<lambda>c. c = CHR ''='') (rev (map url_char (to_base64 bs))))"

definition b64urlDecode :: "string \<Rightarrow> bytes" where
  "b64urlDecode seg = from_base64 (map unurl_char seg)"

lemma unat_byte: "unat (b :: byte) < 256"
  using unsigned_less [of b] by simp

lemma octets_sextets: "\<forall>a \<in> set xs. a < 256 \<Longrightarrow> octets (sextets xs) = xs"
  by (induction xs rule: sextets.induct) (auto simp: mult.commute)

lemma sextets_less: "\<forall>a \<in> set xs. a < 256 \<Longrightarrow> \<forall>s \<in> set (sextets xs). s < 64"
proof (induction xs rule: sextets.induct)
  case (4 a b c rest)
  then have "a < 256" "b < 256" "c < 256" "\<forall>s \<in> set (sextets rest). s < 64"
    by simp_all
  then show ?case
    by simp linarith
qed (simp_all, linarith)

lemma alphabet_facts:
  "length b64_alphabet = 64" "distinct b64_alphabet"
  "CHR ''='' \<notin> set b64_alphabet" "CHR ''-'' \<notin> set b64_alphabet" "CHR ''_'' \<notin> set b64_alphabet"
  "CHR ''.'' \<notin> set b64_alphabet"
  by (simp_all add: b64_alphabet_def)

lemma b64_char_in: "n < 64 \<Longrightarrow> b64_char n \<in> set b64_alphabet"
  by (simp add: b64_char_def alphabet_facts(1))

lemma b64_val_char: "n < 64 \<Longrightarrow> b64_val (b64_char n) = Some n"
proof -
  assume n: "n < 64"
  obtain i where i: "find_index (\<lambda>x. x = b64_char n) b64_alphabet = Some i"
    using find_index_ex [of "b64_char n" b64_alphabet "\<lambda>x. x = b64_char n"] b64_char_in [OF n] by auto
  then have "i < 64" "b64_alphabet ! i = b64_alphabet ! n"
    using find_index_Some [OF i] by (simp_all add: alphabet_facts(1) b64_char_def)
  then have "i = n"
    using n alphabet_facts(1,2) nth_eq_iff_index_eq by metis
  with i show ?thesis
    by (simp add: b64_val_def)
qed

lemma unurl_url: "c \<in> set b64_alphabet \<Longrightarrow> unurl_char (url_char c) = c"
  using alphabet_facts(4,5) by (auto simp: url_char_def unurl_char_def)

lemma url_char_neq: "c \<in> set b64_alphabet \<Longrightarrow> url_char c \<noteq> CHR ''='' \<and> url_char c \<noteq> CHR ''.''"
  using alphabet_facts(3,6) by (auto simp: url_char_def)

lemma sextets_bytes: "\<forall>s \<in> set (sextets (map unat (bs :: bytes))). s < 64"
  by (rule sextets_less) (auto simp: unat_byte)

lemma enc_char: "s < 64 \<Longrightarrow> url_char (b64_char s) \<noteq> CHR ''='' \<and> url_char (b64_char s) \<noteq> CHR ''.''"
  by (rule url_char_neq) (rule b64_char_in)

lemma dropWhile_pad:
  "\<forall>c \<in> set xs. c \<noteq> p \<Longrightarrow> dropWhile (\<lambda>c. c = p) (replicate n p @ xs) = xs"
  by (induction n) (cases xs; simp)+

lemma b64url_eq: "b64url bs = map (\<lambda>s. url_char (b64_char s)) (sextets (map unat bs))"
proof -
  let ?cs = "map (\<lambda>s. url_char (b64_char s)) (sextets (map unat bs))"
  have "dropWhile (\<lambda>c. c = CHR ''='') (replicate n (CHR ''='') @ rev ?cs) = rev ?cs" for n
    by (rule dropWhile_pad) (use sextets_bytes [of bs] enc_char in auto)
  moreover have "rev (map url_char (to_base64 bs)) =
      replicate ((3 - length bs mod 3) mod 3) (CHR ''='') @ rev ?cs"
    by (simp add: to_base64_def url_char_def comp_def)
  ultimately have "rev (b64url bs) = rev ?cs"
    by (simp add: b64url_def)
  then show ?thesis
    by (simp only: rev_is_rev_conv)
qed

lemma b64url_no_dot: "CHR ''.'' \<notin> set (b64url bs)"
proof
  assume "CHR ''.'' \<in> set (b64url bs)"
  then obtain s where "s \<in> set (sextets (map unat bs))" "CHR ''.'' = url_char (b64_char s)"
    by (auto simp: b64url_eq)
  with sextets_bytes [of bs] enc_char [of s] show False
    by auto
qed

lemma b64url_roundtrip: "b64urlDecode (b64url bs) = bs"
proof -
  let ?ss = "sextets (map unat bs)"
  have lt: "\<forall>s \<in> set ?ss. s < 64"
    by (rule sextets_bytes)
  have un: "map unurl_char (b64url bs) = map b64_char ?ss"
    using lt by (auto simp: b64url_eq b64_char_in unurl_url)
  have "b64_char s \<noteq> CHR ''=''" if "s < 64" for s
    using b64_char_in [OF that] alphabet_facts(3) by auto
  then have tw: "takeWhile (\<lambda>c. c \<noteq> CHR ''='') (map b64_char ?ss) = map b64_char ?ss"
    using lt by (auto simp: takeWhile_eq_all_conv)
  have mf: "List.map_filter b64_val (map b64_char ss) = ss" if "\<forall>s \<in> set ss. s < 64" for ss
    using that by (induction ss) (auto simp: List.map_filter_simps b64_val_char)
  have oc: "octets ?ss = map unat bs"
    by (rule octets_sextets) (auto simp: unat_byte)
  show ?thesis
    unfolding b64urlDecode_def un from_base64_def tw mf [OF lt] oc
    by (simp add: map_idI)
qed

section \<open>Sign and verify\<close>

text \<open>The payload as the token holds it: the caller's object with the two stamps. Here \<open>iat\<close> is
  never part of the caller's object.\<close>

record 'p jwt_body =
  jb_iat :: int
  jb_claims :: 'p
  jb_exp :: "int option"

record 'p jwt_env =
  je_hmac :: "bytes \<Rightarrow> bytes \<Rightarrow> bytes"
  je_json :: "'p jwt_body \<Rightarrow> bytes"
  je_parse :: "bytes \<Rightarrow> 'p jwt_body option"

datatype jwt_error = Malformed | BadSignature | BadJson | Expired

definition str_bytes :: "string \<Rightarrow> bytes" where
  "str_bytes s = map (\<lambda>c. of_nat (of_char c)) s"

definition jwt_header :: string where
  "jwt_header = b64url (str_bytes ([CHR 0x7B, CHR 0x22] @ ''alg'' @ [CHR 0x22] @ '':'' @ [CHR 0x22] @ ''HS256'' @
     [CHR 0x22] @ '','' @ [CHR 0x22] @ ''typ'' @ [CHR 0x22] @ '':'' @ [CHR 0x22] @ ''JWT'' @ [CHR 0x22, CHR 0x7D]))"

text \<open>\<open>if (options.expiresInSec)\<close>: 0 and an absent option add no \<open>exp\<close>. \<open>now\<close> is in seconds.\<close>

definition sign :: "'p jwt_env \<Rightarrow> 'p \<Rightarrow> bytes \<Rightarrow> int option \<Rightarrow> int \<Rightarrow> string" where
  "sign J payload secret expiresInSec now =
     (let body = \<lparr>jb_iat = now, jb_claims = payload,
                  jb_exp = (if or_num expiresInSec 0 = 0 then None
                            else Some (now + or_num expiresInSec 0))\<rparr>;
          signingInput = jwt_header @ ''.'' @ b64url (je_json J body);
          sig = je_hmac J secret (str_bytes signingInput)
      in signingInput @ ''.'' @ b64url sig)"

definition verify :: "'p jwt_env \<Rightarrow> string \<Rightarrow> bytes \<Rightarrow> int \<Rightarrow> jwt_error + 'p jwt_body" where
  "verify J token secret now =
     (case split_on (CHR ''.'') token of
        [p0, p1, p2] \<Rightarrow>
          (let signingInput = p0 @ ''.'' @ p1;
               expected = b64url (je_hmac J secret (str_bytes signingInput))
           in if p2 \<noteq> expected then Inl BadSignature
              else (case je_parse J (b64urlDecode p1) of
                      None \<Rightarrow> Inl BadJson
                    | Some payload \<Rightarrow>
                        (case jb_exp payload of
                           Some e \<Rightarrow> if e \<noteq> 0 \<and> e < now then Inl Expired else Inr payload
                         | None \<Rightarrow> Inr payload)))
      | _ \<Rightarrow> Inl Malformed)"

lemma split_sign:
  "split_on (CHR ''.'') (b64url a @ ''.'' @ b64url b @ ''.'' @ b64url c) = [b64url a, b64url b, b64url c]"
  by (simp add: split_on_append split_on_no_sep b64url_no_dot)

lemma verify_sign:
  assumes "\<And>b. je_parse J (je_json J b) = Some b"
  shows "verify J (sign J p secret ex now) secret now' =
    (let e = (if or_num ex 0 = 0 then None else Some (now + or_num ex 0))
     in case e of Some x \<Rightarrow> if x \<noteq> 0 \<and> x < now' then Inl Expired
                            else Inr \<lparr>jb_iat = now, jb_claims = p, jb_exp = e\<rparr>
        | None \<Rightarrow> Inr \<lparr>jb_iat = now, jb_claims = p, jb_exp = e\<rparr>)"
proof -
  have s: "split_on (CHR ''.'') (jwt_header @ ''.'' @ b64url b @ ''.'' @ b64url c) = [jwt_header, b64url b, b64url c]"
    for b c by (simp only: jwt_header_def split_sign)
  show ?thesis
    unfolding sign_def verify_def Let_def
    using s by (simp add: b64url_roundtrip assms)
qed

lemma verify_Inr_signed:
  assumes "verify J token secret now = Inr b"
  shows "\<exists>p0 p1. token = p0 @ ''.'' @ p1 @ ''.'' @ b64url (je_hmac J secret (str_bytes (p0 @ ''.'' @ p1))) \<or>
           split_on (CHR ''.'') token = [p0, p1, b64url (je_hmac J secret (str_bytes (p0 @ ''.'' @ p1)))]"
  using assms by (auto simp: verify_def Let_def split: list.splits if_splits)

end
