(* ===== verification/CodecProps.thy ===== *)
theory CodecProps
  imports RoomSettings CsAdvanced Jwt Demo
begin

text \<open>
  What the decoders of the room settings and the signed match token promise: the bit fields of
  the two setting words are independent, the advanced-settings blob decodes to what the client
  packed and to nothing when it is cut short, whatever is decoded is safe to hand to the match
  server, and a token is accepted exactly when its third segment is the MAC of the first two
  and it has not expired.
\<close>

section \<open>The setting words\<close>

lemma map_of_map_snd: "map_of (map (\<lambda>(k, v). (k, f v)) xs) k = map_option f (map_of xs k)"
  by (induction xs) auto

lemma IDX_names: "distinct (map fst (IDX @ IDX2))"
  by code_simp

lemma indices_at:
  "map_of (decodeIndices rs rs2) n =
     (case map_of IDX n of Some sw \<Rightarrow> Some (idxOf rs sw)
      | None \<Rightarrow> map_option (idxOf rs2) (map_of IDX2 n))"
proof -
  have disj: "map_of IDX n = None \<or> map_of IDX2 n = None"
    using IDX_names by (auto simp: map_of_eq_None_iff)
  then show ?thesis
    by (auto simp: decodeIndices_def map_add_def map_of_map_snd split: option.split)
qed

lemma IDX_map_of: "map_of IDX n = Some sw \<longleftrightarrow> (n, sw) \<in> set IDX"
  using IDX_names by (simp add: distinct_map inj_on_Un)

text \<open>
  [C8] The fields of \<open>room_setting\<close>. Writing \<open>x\<close> into one field of the word of a room makes that
  index decode to \<open>x\<close> cut to the field's width and changes no flag and no other index; every
  index is at least 0 and below 2 to its width.
\<close>

theorem setting_fields_independent:
  assumes "(n, s, w) \<in> set IDX"
  shows "let d = decodeRoomSettings rm;
             d' = decodeRoomSettings (rm\<lparr>rm_room_setting :=
                    uint (packField (word_of_int (rm_room_setting rm)) (s, w) x)\<rparr>)
         in ds_flags d' = ds_flags d \<and>
            (\<forall>n'. map_of (ds_indices d') n' =
               (if n' = n then Some (uint (x AND mask w)) else map_of (ds_indices d) n')) \<and>
            index_of (ds_indices d) n \<in> {0 ..< 2 ^ w}"
proof -
  let ?rs = "word_of_int (rm_room_setting rm) :: u32" and ?rs2 = "word_of_int (rm_room_setting2 rm) :: u32"
  note frame = packField_frame [OF assms, where v = ?rs and x = x]
  have "map_of (decodeIndices (packField ?rs (s, w) x) ?rs2) n' =
      (if n' = n then Some (uint (x AND mask w)) else map_of (decodeIndices ?rs ?rs2) n')" for n'
    using frame(2) [of n'] frame(3) assms
    by (auto simp: indices_at IDX_map_of [symmetric] split: option.split)
  moreover have "index_of (decodeIndices ?rs ?rs2) n = idxOf ?rs (s, w)"
    using assms by (simp add: index_of_def indices_at IDX_map_of [symmetric])
  moreover have "w \<le> 31"
    using assms by (auto simp: IDX_def)
  ultimately show ?thesis
    using frame(1) idxOf_range [of w ?rs s] by (simp add: decodeRoomSettings_def Let_def)
qed

theorem setting_fields_independent_witness:
  "index_of (ds_indices (decodeRoomSettings
     (new_room 1 (demo_account 7) (demo_req None None) 0))) (fst (hd IDX)) \<in> {0 ..< 2 ^ snd (snd (hd IDX))}"
  using setting_fields_independent [of "fst (hd IDX)" "fst (snd (hd IDX))" "snd (snd (hd IDX))"
      "new_room 1 (demo_account 7) (demo_req None None) 0" 0]
  by (simp add: IDX_def Let_def)

section \<open>The advanced-settings blob\<close>

text \<open>The reads of a successful decode: what each section gave and where it ended.\<close>

definition sections :: "bytes \<Rightarrow> (int \<times> int) list \<Rightarrow> (int \<times> int) list \<Rightarrow> int list \<Rightarrow> nat \<Rightarrow> bool" where
  "sections buf store eco rounds n \<longleftrightarrow>
     (\<exists>sc o1 o2 ec o3 o4 rc o5.
        rd_u8 buf 0 = Some (sc, o1) \<and> decode_pairs buf (nat sc) o1 = Some (store, o2) \<and>
        rd_u8 buf o2 = Some (ec, o3) \<and> decode_pairs buf (nat ec) o3 = Some (eco, o4) \<and>
        rd_u8 buf o4 = Some (rc, o5) \<and> decode_rounds buf (nat rc) o5 = Some (rounds, n))"

lemma decodeAdvanced_sections:
  "decodeAdvanced T buf = Some ov \<longleftrightarrow>
     3 \<le> length buf \<and> (\<exists>store eco rounds n. sections buf store eco rounds n \<and>
                         ov = build_overlay T store eco rounds)"
proof
  assume "decodeAdvanced T buf = Some ov"
  then show "3 \<le> length buf \<and> (\<exists>store eco rounds n. sections buf store eco rounds n \<and>
      ov = build_overlay T store eco rounds)"
    unfolding decodeAdvanced_def sections_def by (simp split: option.splits prod.splits if_splits)
next
  assume "3 \<le> length buf \<and> (\<exists>store eco rounds n. sections buf store eco rounds n \<and>
      ov = build_overlay T store eco rounds)"
  then show "decodeAdvanced T buf = Some ov"
    unfolding decodeAdvanced_def sections_def by auto
qed

lemma sections_unique:
  "sections buf a b c n \<Longrightarrow> sections buf a' b' c' n' \<Longrightarrow> a' = a \<and> b' = b \<and> c' = c \<and> n' = n"
  unfolding sections_def by fastforce

lemma sections_prefix:
  assumes "sections p store eco rounds n"
  shows "sections (p @ q) store eco rounds n \<and> n \<le> length p"
proof -
  from assms obtain sc o1 o2 ec o3 o4 rc o5 where
    r: "rd_u8 p 0 = Some (sc, o1)" "decode_pairs p (nat sc) o1 = Some (store, o2)"
       "rd_u8 p o2 = Some (ec, o3)" "decode_pairs p (nat ec) o3 = Some (eco, o4)"
       "rd_u8 p o4 = Some (rc, o5)" "decode_rounds p (nat rc) o5 = Some (rounds, n)"
    unfolding sections_def by blast
  note 1 = rd_u8_prefix [OF r(1), of q]
  note 2 = decode_pairs_prefix [OF r(2), of q]
  note 3 = rd_u8_prefix [OF r(3), of q]
  note 4 = decode_pairs_prefix [OF r(4), of q]
  note 5 = rd_u8_prefix [OF r(5), of q]
  note 6 = decode_rounds_prefix [OF r(6), of q]
  show ?thesis
    unfolding sections_def using 1 2 3 4 5 6 by blast
qed

lemma sections_blob:
  assumes "length store < 256" and "length eco < 256" and "length rounds < 256"
  shows "sections (encode_blob store eco rounds) (map (\<lambda>(a, b). (uint a, uint b)) store)
           (map (\<lambda>(a, b). (uint a, uint b)) eco) (map (\<lambda>w. max 0 (sint w)) rounds)
           (length (encode_blob store eco rounds))"
proof -
  let ?b = "encode_blob store eco rounds"
  let ?s = "of_nat (length store) :: byte" and ?e = "of_nat (length eco) :: byte"
    and ?r = "of_nat (length rounds) :: byte"
  let ?p2 = "?s # pairs_bytes store"
  let ?p3 = "?p2 @ [?e] @ pairs_bytes eco"
  let ?rest = "concat (map i32_bytes rounds)"
  have "rd_u8 ?b 0 = Some (uint ?s, 1)"
    by (simp add: rd_u8_def encode_blob_def)
  moreover have "decode_pairs ?b (nat (uint ?s)) 1 = Some (map (\<lambda>(a, b). (uint a, uint b)) store, 1 + 2 * length store)"
    unfolding uint_of_nat_byte [OF assms(1)] using decode_pairs_at [of "[?s]" store]
    by (simp add: encode_blob_def)
  moreover have "rd_u8 ?b (1 + 2 * length store) = Some (uint ?e, 2 + 2 * length store)"
    using rd_u8_at [of ?p2] by (simp add: encode_blob_def)
  moreover have "decode_pairs ?b (nat (uint ?e)) (2 + 2 * length store) =
      Some (map (\<lambda>(a, b). (uint a, uint b)) eco, 2 + 2 * length store + 2 * length eco)"
    unfolding uint_of_nat_byte [OF assms(2)] using decode_pairs_at [of "?p2 @ [?e]" eco]
    by (simp add: encode_blob_def)
  moreover have "rd_u8 ?b (2 + 2 * length store + 2 * length eco) =
      Some (uint ?r, 3 + 2 * length store + 2 * length eco)"
    using rd_u8_at [of ?p3] by (simp add: encode_blob_def)
  moreover have "decode_rounds ?b (nat (uint ?r)) (3 + 2 * length store + 2 * length eco) =
      Some (map (\<lambda>w. max 0 (sint w)) rounds, 3 + 2 * length store + 2 * length eco + 4 * length rounds)"
    unfolding uint_of_nat_byte [OF assms(3)] using decode_rounds_at [of "?p3 @ [?r]" rounds]
    by (simp add: encode_blob_def numeral_3_eq_3)
  moreover have "length ?rest = 4 * length rounds"
    by (induction rounds) (simp_all add: length_i32_bytes)
  then have "length ?b = 3 + 2 * length store + 2 * length eco + 4 * length rounds"
    by (simp add: encode_blob_def)
  ultimately show ?thesis
    unfolding sections_def by metis
qed

lemma length_blob: "3 \<le> length (encode_blob store eco rounds)"
  by (simp add: encode_blob_def)

text \<open>
  [C9] What the client packs is what the server reads: a blob with at most 255 shop entries,
  255 events and 255 rounds decodes to the overlay of exactly those entries, events and
  rounds, the rounds' signed coins clamped at 0; and every proper prefix of the blob is
  refused, so a truncated blob never yields a partial overlay.
\<close>

theorem advanced_roundtrip:
  assumes "length store < 256" and "length eco < 256" and "length rounds < 256"
  shows "decodeAdvanced T (encode_blob store eco rounds) =
      Some (build_overlay T (map (\<lambda>(a, b). (uint a, uint b)) store) (map (\<lambda>(a, b). (uint a, uint b)) eco)
              (map (\<lambda>w. max 0 (sint w)) rounds)) \<and>
    (\<forall>k \<in> {..< length (encode_blob store eco rounds)}.
       decodeAdvanced T (take k (encode_blob store eco rounds)) = None)"
proof (intro conjI ballI)
  let ?b = "encode_blob store eco rounds"
  note full = sections_blob [OF assms]
  show "decodeAdvanced T ?b =
      Some (build_overlay T (map (\<lambda>(a, b). (uint a, uint b)) store) (map (\<lambda>(a, b). (uint a, uint b)) eco)
              (map (\<lambda>w. max 0 (sint w)) rounds))"
    using full length_blob decodeAdvanced_sections by blast
  fix k
  assume k: "k \<in> {..< length ?b}"
  show "decodeAdvanced T (take k ?b) = None"
  proof (rule ccontr)
    assume "decodeAdvanced T (take k ?b) \<noteq> None"
    then obtain a b c n where "sections (take k ?b) a b c n"
      using decodeAdvanced_sections by (metis not_None_eq)
    from sections_prefix [OF this, of "drop k ?b"] have "sections ?b a b c n" "n \<le> k"
      using k by simp_all
    with sections_unique [OF full] k show False by force
  qed
qed

definition demo_tables :: cs_tables where
  "demo_tables = \<lparr>ct_shop = [], ct_types = [], ct_eco = []\<rparr>"

theorem advanced_roundtrip_witness:
  "decodeAdvanced demo_tables (encode_blob [(1, 2)] [] [0x80000000, 800]) =
     Some (build_overlay demo_tables [(1, 2)] [] [0, 800]) \<and>
   decodeAdvanced demo_tables (take 5 (encode_blob [(1, 2)] [] [0x80000000, 800])) = None"
proof -
  let ?b = "encode_blob [(1, 2)] [] [0x80000000, 800]"
  have r: "decodeAdvanced demo_tables ?b = Some (build_overlay demo_tables (map (\<lambda>(a, b). (uint a, uint b)) [(1 :: byte, 2 :: byte)])
        (map (\<lambda>(a, b). (uint a, uint b)) ([] :: (byte \<times> byte) list))
        (map (\<lambda>w. max 0 (sint w)) [0x80000000 :: 32 word, 800])) \<and>
      (\<forall>k \<in> {..< length ?b}. decodeAdvanced demo_tables (take k ?b) = None)"
    by (rule advanced_roundtrip) simp_all
  have "map (\<lambda>w. max 0 (sint w)) [0x80000000 :: 32 word, 800] = [0, 800]"
    by code_simp
  moreover have "5 \<in> {..< length ?b}"
    by (simp add: encode_blob_def pairs_bytes_def i32_bytes_def)
  ultimately show ?thesis
    using r by (simp only: list.map prod.case) simp
qed

text \<open>Whatever the buffer, each section is bounded.\<close>

lemma rd_u8_range: "rd_u8 buf o1 = Some (v, o2) \<Longrightarrow> 0 \<le> v \<and> v < 256"
  using uint_lt2p [of "buf ! o1"] by (auto simp: rd_u8_def split: if_splits)

lemma decode_pairs_range:
  "decode_pairs buf n o1 = Some (ps, o2) \<Longrightarrow> (a, b) \<in> set ps \<Longrightarrow> 0 \<le> b \<and> b < 256"
proof (induction n arbitrary: o1 ps o2)
  case 0
  then show ?case by simp
next
  case (Suc n)
  then obtain a' i b' j qs where q: "rd_u8 buf i = Some (b', j)" "decode_pairs buf n j = Some (qs, o2)"
      "ps = (a', b') # qs"
    by (auto split: option.splits)
  with Suc.IH [OF q(2)] Suc.prems(2) rd_u8_range [OF q(1)] show ?case
    by auto
qed

lemma decode_rounds_range:
  "decode_rounds buf n o1 = Some (vs, o2) \<Longrightarrow>
     length vs = n \<and> (\<forall>v \<in> set vs. 0 \<le> v \<and> v < 2 ^ 31)"
proof (induction n arbitrary: o1 vs o2)
  case 0
  then show ?case by simp
next
  case (Suc n)
  then obtain v i ws where v: "rd_i32 buf o1 = Some (v, i)" "decode_rounds buf n i = Some (ws, o2)"
      "vs = max 0 v # ws"
    by (auto split: option.splits)
  have "v < 2 ^ 31"
    using v(1) sint_lt [of "le32 (buf ! o1) (buf ! (o1 + 1)) (buf ! (o1 + 2)) (buf ! (o1 + 3))"]
    by (auto simp: rd_i32_def split: if_splits)
  with Suc.IH [OF v(2)] v(3) show ?case by simp
qed

lemma store_entry_Inr:
  "store_entry T idx step = Inr it \<Longrightarrow>
     sh_item_id it \<notin> set QUARANTINE \<and> sh_price it = step * 50 \<and>
     sh_slot_kind it \<in> {''primary'', ''secondary'', ''melee'', ''vest'', ''helmet'', ''consumable'',
                        ''building'', ''grenade''}"
  by (auto simp: store_entry_def resolveSlotKind_def CS_SHOP_COST_INTERVAL_def
      split: option.splits if_splits)

lemma rights_set: "x \<in> set (rights xs) \<longleftrightarrow> Inr x \<in> set xs"
  by (induction xs rule: rights.induct) auto

text \<open>
  [C10] Every overlay the decoder produces is safe for the match server, whatever the bytes
  and the tables: no quarantined item is sold, every item has one of the eight slots the match
  server can place, prices are between 0 and 12750 coins, and there are as many round
  economies as announced, at most 255, none negative.
\<close>

theorem overlay_safe:
  assumes "decodeAdvanced T buf = Some ov"
  shows "(\<forall>it \<in> set (ov_shopItems ov). sh_item_id it \<notin> set QUARANTINE \<and>
           0 \<le> sh_price it \<and> sh_price it \<le> 12750 \<and>
           sh_slot_kind it \<in> {''primary'', ''secondary'', ''melee'', ''vest'', ''helmet'', ''consumable'',
                              ''building'', ''grenade''}) \<and>
         ov_roundCount ov = int (length (ov_perRoundBase ov)) \<and> ov_roundCount ov < 256 \<and>
         (\<forall>v \<in> set (ov_perRoundBase ov). 0 \<le> v \<and> v < 2 ^ 31)"
proof -
  from assms obtain store eco rounds n where s: "sections buf store eco rounds n"
      "ov = build_overlay T store eco rounds"
    by (auto simp: decodeAdvanced_sections)
  from s(1) obtain sc o1 o2 o4 rc o5 where
    r: "decode_pairs buf (nat sc) o1 = Some (store, o2)" "rd_u8 buf o4 = Some (rc, o5)"
       "decode_rounds buf (nat rc) o5 = Some (rounds, n)"
    unfolding sections_def by blast
  have "sh_item_id it \<notin> set QUARANTINE \<and> 0 \<le> sh_price it \<and> sh_price it \<le> 12750 \<and>
      sh_slot_kind it \<in> {''primary'', ''secondary'', ''melee'', ''vest'', ''helmet'', ''consumable'',
                         ''building'', ''grenade''}" if "it \<in> set (ov_shopItems ov)" for it
  proof -
    from that obtain idx step where "(idx, step) \<in> set store" "store_entry T idx step = Inr it"
      by (auto simp: s(2) build_overlay_def Let_def rights_set)
    with store_entry_Inr decode_pairs_range [OF r(1)] show ?thesis by fastforce
  qed
  moreover have "ov_roundCount ov = int (length rounds)" "ov_perRoundBase ov = rounds"
    by (simp_all add: s(2) build_overlay_def Let_def)
  ultimately show ?thesis
    using decode_rounds_range [OF r(3)] rd_u8_range [OF r(2)] by auto
qed

theorem overlay_safe_witness:
  "\<exists>ov. decodeAdvanced \<lparr>ct_shop = [], ct_types = [], ct_eco = []\<rparr> [1, 7, 2, 0, 1, 0x20, 3, 0, 0] = Some ov \<and>
     ov_roundCount ov < 256"
proof -
  have "decodeAdvanced \<lparr>ct_shop = [], ct_types = [], ct_eco = []\<rparr> [1, 7, 2, 0, 1, 0x20, 3, 0, 0] \<noteq> None"
    by code_simp
  then obtain ov where
    "decodeAdvanced \<lparr>ct_shop = [], ct_types = [], ct_eco = []\<rparr> [1, 7, 2, 0, 1, 0x20, 3, 0, 0] = Some ov"
    by blast
  with overlay_safe [OF this] show ?thesis by blast
qed

section \<open>The match token\<close>

lemma split_on_join2: "split_on c s = [a, b, d] \<Longrightarrow> s = a @ c # b @ c # d"
proof -
  have join: "s = concat (map (\<lambda>p. p @ [c]) (butlast (split_on c s))) @ last (split_on c s)" for s
  proof (induction s)
    case Nil
    then show ?case by simp
  next
    case (Cons x s)
    obtain y ys where "split_on c s = y # ys"
      by (cases "split_on c s") simp_all
    with Cons show ?case by (cases ys) auto
  qed
  assume "split_on c s = [a, b, d]"
  with join [of s] show ?thesis by simp
qed

text \<open>
  [C11] Tokens. For every MAC function and every JSON codec that parses what it prints: a token
  made by \<open>sign\<close> verifies under the same secret to the same claims, until the second it
  expires and \<open>Expired\<close> after it; and any token \<open>verify\<close> accepts is three segments whose last
  one is the MAC of the first two under the secret, with the body of the middle one.
\<close>

theorem token_sound_complete:
  assumes "\<And>b. je_parse J (je_json J b) = Some b"
  shows "verify J (sign J p secret (Some ttl) now) secret now' =
      (if ttl \<noteq> 0 \<and> now + ttl \<noteq> 0 \<and> now + ttl < now' then Inl Expired
       else Inr \<lparr>jb_iat = now, jb_claims = p, jb_exp = (if ttl = 0 then None else Some (now + ttl))\<rparr>) \<and>
    (\<forall>b. verify J token secret now = Inr b \<longrightarrow>
       (\<exists>p0 p1. token = p0 @ ''.'' @ p1 @ ''.'' @ b64url (je_hmac J secret (str_bytes (p0 @ ''.'' @ p1))) \<and>
                je_parse J (b64urlDecode p1) = Some b \<and>
                (case jb_exp b of Some e \<Rightarrow> e = 0 \<or> now \<le> e | None \<Rightarrow> True)))"
proof (intro conjI allI impI)
  show "verify J (sign J p secret (Some ttl) now) secret now' =
      (if ttl \<noteq> 0 \<and> now + ttl \<noteq> 0 \<and> now + ttl < now' then Inl Expired
       else Inr \<lparr>jb_iat = now, jb_claims = p, jb_exp = (if ttl = 0 then None else Some (now + ttl))\<rparr>)"
    by (simp add: verify_sign [OF assms] or_num_def Let_def)
  fix b
  assume v: "verify J token secret now = Inr b"
  then obtain p0 p1 where p: "split_on (CHR ''.'') token = [p0, p1, b64url (je_hmac J secret (str_bytes (p0 @ ''.'' @ p1)))]"
      "je_parse J (b64urlDecode p1) = Some b"
      "case jb_exp b of Some e \<Rightarrow> e = 0 \<or> now \<le> e | None \<Rightarrow> True"
    by (auto simp: verify_def Let_def split: list.splits if_splits option.splits)
  then show "\<exists>p0 p1. token = p0 @ ''.'' @ p1 @ ''.'' @ b64url (je_hmac J secret (str_bytes (p0 @ ''.'' @ p1))) \<and>
                je_parse J (b64urlDecode p1) = Some b \<and>
                (case jb_exp b of Some e \<Rightarrow> e = 0 \<or> now \<le> e | None \<Rightarrow> True)"
    using split_on_join2 [OF p(1)] by auto
qed

text \<open>A JSON codec for the witness: integers in unary, sign by the byte used.\<close>

definition demo_enc :: "int \<Rightarrow> bytes" where
  "demo_enc n = replicate (nat \<bar>n\<bar>) (if n < 0 then 1 else 2)"

definition demo_dec :: "bytes \<Rightarrow> int" where
  "demo_dec bs = (if bs \<noteq> [] \<and> hd bs = 1 then - int (length bs) else int (length bs))"

definition demo_jwt :: "unit jwt_env" where
  "demo_jwt = \<lparr>je_hmac = (\<lambda>k m. k @ take 4 m),
     je_json = (\<lambda>b. demo_enc (jb_iat b) @ [0] @ (case jb_exp b of None \<Rightarrow> [] | Some e \<Rightarrow> 0 # demo_enc e)),
     je_parse = (\<lambda>bs. Some (let r = drop 1 (dropWhile (\<lambda>x. x \<noteq> 0) bs)
        in \<lparr>jb_iat = demo_dec (takeWhile (\<lambda>x. x \<noteq> 0) bs), jb_claims = (),
            jb_exp = (if r = [] then None else Some (demo_dec (tl r)))\<rparr>))\<rparr>"

lemma demo_dec_enc: "demo_dec (demo_enc n) = n"
  by (auto simp: demo_dec_def demo_enc_def)

lemma demo_jwt_roundtrip: "je_parse demo_jwt (je_json demo_jwt b) = Some b"
proof -
  have z: "x \<in> set (demo_enc n) \<Longrightarrow> x \<noteq> 0" for x n
    by (auto simp: demo_enc_def split: if_splits)
  have "takeWhile (\<lambda>x. x \<noteq> 0) (demo_enc n @ 0 # ys) = demo_enc n"
    "dropWhile (\<lambda>x. x \<noteq> 0) (demo_enc n @ 0 # ys) = 0 # ys" for n ys
    using z by (auto simp: takeWhile_append2 dropWhile_append2)
  then show ?thesis
    by (cases b) (auto simp: demo_jwt_def Let_def demo_dec_enc split: option.split)
qed

theorem token_sound_complete_witness:
  "verify demo_jwt (sign demo_jwt () [7] (Some 60) 100) [7] 160 =
     Inr \<lparr>jb_iat = 100, jb_claims = (), jb_exp = Some 160\<rparr> \<and>
   verify demo_jwt (sign demo_jwt () [7] (Some 60) 100) [7] 161 = Inl Expired"
  using token_sound_complete [of demo_jwt "()" "[7]" 60 100 160, OF demo_jwt_roundtrip]
    token_sound_complete [of demo_jwt "()" "[7]" 60 100 161, OF demo_jwt_roundtrip]
  by simp

end
