(* ===== verification/Matchmaker.thy ===== *)
theory Matchmaker
  imports RoomWire Jwt
begin

text \<open>
  The matchmaker (\<open>src/tcp/matchmaker.js\<close>, \<open>src/tcp/fleet.js\<close>): the shared queue the gateways
  write, the prepare token, the leader election over the Redis lease \<open>mm:leader\<close>, and the tick
  that forms matches.

  A replica is one matchmaker process: its lease token, whether it believes to be the leader,
  whether a tick is running and whether its timers are set. The environment variables are a
  \<open>mm_config\<close>; the accounts repository, the JSON codec and MAC of the token and the random
  choice of a server are parameters. \<open>nd_env\<close> of the node is applied at every \<open>await\<close> of a tick
  at which another process can write to Redis. JavaScript times are milliseconds.
\<close>

section \<open>Configuration and state\<close>

record mm_config =
  mc_MIN_PLAYERS :: nat
  mc_TIMEOUT_MS :: int
  mc_MATCH_SIZE :: nat
  mc_LEASE_MS :: nat
  mc_nodeId :: string
  mc_matchDomain :: string
  mc_host :: string
  mc_gameServerPort :: string
  mc_jwtSecret :: bytes
  mc_jwtTtlSec :: int

record replica =
  rp_token :: string
  rp_isLeader :: bool
  rp_ticking :: bool
  rp_running :: bool

text \<open>The key \<open>match_mode:game_mode:map_id:difficulty\<close>.\<close>

datatype mode_key = ModeKey int int int int

definition modeKey :: "mode \<Rightarrow> mode_key" where
  "modeKey m = ModeKey (md_match_mode m) (md_game_mode m) (md_map_id m) (md_difficulty m)"

section \<open>The fleet\<close>

text \<open>\<open>servers\<close> is the cached list of registered addresses; \<open>rnd\<close> is the random draw.\<close>

definition pickServer :: "string list \<Rightarrow> nat \<Rightarrow> string" where
  "pickServer servers rnd = (if servers = [] then [] else servers ! (rnd mod length servers))"

definition staticAddr :: "mm_config \<Rightarrow> string" where
  "staticAddr C = str_or (mc_matchDomain C) (mc_host C) @ '':'' @ str_or (mc_gameServerPort C) ''10100''"

section \<open>The gateway side\<close>

definition enqueue :: "'r node \<Rightarrow> mm_config \<Rightarrow> account \<Rightarrow> mode \<Rightarrow> int \<Rightarrow> 'r \<Rightarrow> 'r" where
  "enqueue N C a m now r =
     (case nd_bus N of
        None \<Rightarrow> r
      | Some R \<Rightarrow> if accountNum a = 0 then r
                  else bus_hset R MMQueue (accountNum a)
                         (HEntry \<lparr>qe_node = mc_nodeId C, qe_mode = m, qe_joinedAt = now\<rparr>) r)"

definition cancel :: "'r node \<Rightarrow> int \<Rightarrow> 'r \<Rightarrow> 'r" where
  "cancel N accountId r =
     (case nd_bus N of
        None \<Rightarrow> r
      | Some R \<Rightarrow> if accountId = 0 then r else bus_hdel R MMQueue [accountId] r)"

definition queueSize :: "'r node \<Rightarrow> 'r \<Rightarrow> nat" where
  "queueSize N r = (case nd_bus N of None \<Rightarrow> 0 | Some R \<Rightarrow> bus_hlen R MMQueue r)"

definition nextMatchId :: "'r node \<Rightarrow> 'r \<Rightarrow> int \<times> 'r" where
  "nextMatchId N r = (case nd_bus N of None \<Rightarrow> (0, r) | Some R \<Rightarrow> bus_incr R MatchSeq r)"

section \<open>The prepare token\<close>

record show_claims =
  sc_avatar :: int
  sc_color :: int
  sc_head :: int
  sc_banner :: int
  sc_clothes :: "int list"
  sc_slots :: "int list"
  sc_emotes :: "int list"
  sc_shows :: "int list"

record token_claims =
  tc_aid :: int
  tc_name :: string
  tc_region :: string
  tc_role :: int
  tc_mid :: int
  tc_team :: int
  tc_show :: show_claims

definition prepare_claims :: "account \<Rightarrow> int \<Rightarrow> int \<Rightarrow> token_claims" where
  "prepare_claims a matchId team =
     (let sel = acc_selected a in \<lparr>
        tc_aid = accountNum a,
        tc_name = str_or (acc_nickname a) ''Player'',
        tc_region = or_str (acc_region a) [],
        tc_role = acc_role a,
        tc_mid = matchId,
        tc_team = team,
        tc_show = \<lparr>
          sc_avatar = si_avatar_id sel,
          sc_color = si_skin_color sel,
          sc_head = si_head_pic sel,
          sc_banner = si_banner_id sel,
          sc_clothes = si_clothes sel,
          sc_slots = si_slots sel,
          sc_emotes = (case si_emotes sel of None \<Rightarrow> [] | Some es \<Rightarrow> map em_emote_id es),
          sc_shows = si_shows sel\<rparr>\<rparr>)"

definition buildPrepareToken ::
  "token_claims jwt_env \<Rightarrow> mm_config \<Rightarrow> account \<Rightarrow> int \<Rightarrow> int \<Rightarrow> int \<Rightarrow> string" where
  "buildPrepareToken J C a matchId team now =
     sign J (prepare_claims a matchId team) (mc_jwtSecret C) (Some (mc_jwtTtlSec C)) (now div 1000)"

section \<open>Leadership\<close>

definition leadership :: "'r node \<Rightarrow> mm_config \<Rightarrow> replica \<Rightarrow> 'r \<Rightarrow> replica \<times> 'r" where
  "leadership N C p r =
     (case nd_bus N of
        None \<Rightarrow> (p, r)
      | Some R \<Rightarrow>
          (let (renewed, r1) = (if rp_isLeader p then renewLock R MMLeader (rp_token p) (mc_LEASE_MS C) r
                                else (False, r))
           in if renewed then (p, r1)
              else (let (got, r2) = acquireLock R MMLeader (rp_token p) (mc_LEASE_MS C) r1
                    in (p\<lparr>rp_isLeader := got\<rparr>, r2))))"

text \<open>\<open>token\<close> is the fresh \<open>nodeId#pid#random\<close> of this process; \<open>leadership\<close> runs at once.\<close>

definition startService :: "'r node \<Rightarrow> mm_config \<Rightarrow> string \<Rightarrow> replica \<Rightarrow> 'r \<Rightarrow> replica \<times> 'r" where
  "startService N C token p r =
     (if rp_running p then (p, r)
      else leadership N C (p\<lparr>rp_token := token, rp_running := True\<rparr>) r)"

definition stopService :: "'r node \<Rightarrow> replica \<Rightarrow> 'r \<Rightarrow> replica \<times> 'r" where
  "stopService N p r =
     (p\<lparr>rp_running := False, rp_isLeader := False\<rparr>,
      case nd_bus N of
        None \<Rightarrow> r
      | Some R \<Rightarrow> if rp_isLeader p then snd (releaseLock R MMLeader (rp_token p) r) else r)"

section \<open>Forming matches\<close>

record entry =
  en_accountId :: int
  en_mode :: mode
  en_joinedAt :: int

fun parsed_queue :: "(int \<times> hval) list \<Rightarrow> entry list" where
  "parsed_queue [] = []"
| "parsed_queue ((i, raw) # rest) =
     (case parse_entry raw of
        None \<Rightarrow> parsed_queue rest
      | Some e \<Rightarrow> \<lparr>en_accountId = i, en_mode = qe_mode e, en_joinedAt = qe_joinedAt e\<rparr> # parsed_queue rest)"

text \<open>\<open>groups.get(k).push(e)\<close> on a \<open>Map\<close> in insertion order.\<close>

fun add_group :: "entry \<Rightarrow> (mode_key \<times> entry list) list \<Rightarrow> (mode_key \<times> entry list) list" where
  "add_group e [] = [(modeKey (en_mode e), [e])]"
| "add_group e ((k, es) # gs) =
     (if k = modeKey (en_mode e) then (k, es @ [e]) # gs else (k, es) # add_group e gs)"

definition group_queue :: "entry list \<Rightarrow> (mode_key \<times> entry list) list" where
  "group_queue es = fold add_group es []"

text \<open>The entries a group hands to \<open>formMatch\<close>, oldest first, if it is ready.\<close>

definition ready_match :: "mm_config \<Rightarrow> int \<Rightarrow> entry list \<Rightarrow> entry list option" where
  "ready_match C now entries =
     (let sorted = sort_key en_joinedAt entries;
          enough = mc_MIN_PLAYERS C \<le> length sorted;
          timedOut = list_ex (\<lambda>e. mc_TIMEOUT_MS C \<le> now - en_joinedAt e) sorted
      in if enough \<or> timedOut then Some (take (mc_MATCH_SIZE C) sorted) else None)"

definition mm_secret :: string where "mm_secret = ''00112233445566778899aabbccddeeff''"
definition EMM_MATCHMAKINGSUSS_NTF :: int where "EMM_MATCHMAKINGSUSS_NTF = 5"

text \<open>What a tick draws on besides Redis.\<close>

record mm_world =
  mw_jwt :: "token_claims jwt_env"
  mw_getById :: "int \<Rightarrow> account option"
  mw_servers :: "string list"
  mw_rnd :: "int \<Rightarrow> nat"

definition queue_suss :: "int \<Rightarrow> string \<Rightarrow> string \<Rightarrow> mode \<Rightarrow> suss_ntf" where
  "queue_suss matchId serverAddr prepareToken m = \<lparr>
     sn_match_id = matchId,
     sn_server_addr = serverAddr,
     sn_secret = mm_secret,
     sn_prepare_token = prepareToken,
     sn_sleep_ms = 1,
     sn_map_id = md_map_id m,
     sn_game_mode = md_game_mode m,
     sn_group_mode = 0,
     sn_match_mode = 6,
     sn_level_visual_style = 0,
     sn_difficulty = md_difficulty m,
     sn_use_cache = False,
     sn_first_login = False\<rparr>"

fun push_match ::
  "'r redis \<Rightarrow> 'r node \<Rightarrow> mm_config \<Rightarrow> mm_world \<Rightarrow> int \<Rightarrow> int \<Rightarrow> string \<Rightarrow> mode \<Rightarrow> entry list \<Rightarrow> 'r
     \<Rightarrow> push list \<times> 'r" where
  "push_match R N C W now matchId addr m [] r = ([], r)"
| "push_match R N C W now matchId addr m (e # es) r =
     (let r1 = nd_env N r;
          (ps, r2) = push_match R N C W now matchId addr m es r1
      in case getNode R (en_accountId e) r1 of
           None \<Rightarrow> (ps, r2)
         | Some nodeName \<Rightarrow>
             if nodeName = [] then (ps, r2)
             else (case mw_getById W (en_accountId e) of
                     None \<Rightarrow> (ps, r2)
                   | Some a \<Rightarrow>
                       (\<lparr>ps_target = en_accountId e, ps_protocol = PROTO_MATCHMAKING,
                         ps_cmd = EMM_MATCHMAKINGSUSS_NTF,
                         ps_msg = MMatchmakingSussNtf (queue_suss matchId addr
                            (buildPrepareToken (mw_jwt W) C a matchId 0 now) m)\<rparr> # ps, r2)))"

text \<open>A formed match: its id, its players, the server, the pushes. \<open>entries[0].mode\<close> of an empty
  list throws after the counter was incremented (\<open>MM_MATCH_SIZE\<close> 0).\<close>

record formed =
  fm_id :: int
  fm_entries :: "entry list"
  fm_addr :: string
  fm_pushes :: "push list"

definition formMatch ::
  "'r redis \<Rightarrow> 'r node \<Rightarrow> mm_config \<Rightarrow> mm_world \<Rightarrow> int \<Rightarrow> entry list \<Rightarrow> ('r, formed) op" where
  "formMatch R N C W now entries r =
     (case bus_incr R MatchSeq r of (matchId, r1) \<Rightarrow>
        (case entries of
           [] \<Rightarrow> (Inl (Thrown ''TypeError''), r1)
         | e # _ \<Rightarrow>
             (let serverAddr = str_or (pickServer (mw_servers W) (mw_rnd W matchId)) (staticAddr C);
                  r2 = bus_hdel R MMQueue (map en_accountId entries) (nd_env N r1);
                  (pushes, r3) = push_match R N C W now matchId serverAddr (en_mode e) entries r2
              in (Inr \<lparr>fm_id = matchId, fm_entries = entries, fm_addr = serverAddr, fm_pushes = pushes\<rparr>, r3))))"

fun form_groups ::
  "'r redis \<Rightarrow> 'r node \<Rightarrow> mm_config \<Rightarrow> mm_world \<Rightarrow> int \<Rightarrow> (mode_key \<times> entry list) list \<Rightarrow> 'r
     \<Rightarrow> formed list \<times> exn option \<times> 'r" where
  "form_groups R N C W now [] r = ([], None, r)"
| "form_groups R N C W now ((k, entries) # gs) r =
     (case ready_match C now entries of
        None \<Rightarrow> form_groups R N C W now gs r
      | Some es \<Rightarrow>
          (case formMatch R N C W now es (nd_env N r) of
             (Inl err, r1) \<Rightarrow> ([], Some err, r1)
           | (Inr f, r1) \<Rightarrow>
               (case form_groups R N C W now gs r1 of (fs, err, r2) \<Rightarrow> (f # fs, err, r2))))"

text \<open>One tick: the matches formed, the error it ended with (logged by the timer), the state.
  \<open>finally { ticking = false }\<close> resets the flag on every path that set it.\<close>

definition tick ::
  "'r node \<Rightarrow> mm_config \<Rightarrow> mm_world \<Rightarrow> replica \<Rightarrow> int \<Rightarrow> 'r \<Rightarrow> formed list \<times> exn option \<times> replica \<times> 'r" where
  "tick N C W p now r =
     (if \<not> rp_isLeader p \<or> rp_ticking p then ([], None, p, r)
      else (case nd_bus N of
              None \<Rightarrow> ([], None, p, r)
            | Some R \<Rightarrow>
                (case form_groups R N C W now (group_queue (parsed_queue (bus_hgetall R MMQueue r))) r of
                   (fs, err, r1) \<Rightarrow> (fs, err, p\<lparr>rp_ticking := False\<rparr>, r1))))"

end
