(* ===== verification/MatchmakerProps.thy ===== *)
theory MatchmakerProps
  imports Matchmaker Demo
begin

text \<open>
  What the matchmaker promises: which players a tick puts into which match, that the players of
  a match are taken off the queue and told the same server with a token of their own, that
  match ids never repeat, and what the leader election gives: one leader while the lease is
  renewed in time, a take-over when it is not, and a run in which a stalled leader and its
  successor both form a match with the same player.
\<close>

section \<open>Groups\<close>

definition of_mode :: "mode_key \<Rightarrow> entry list \<Rightarrow> entry list" where
  "of_mode k es = filter (\<lambda>e. modeKey (en_mode e) = k) es"

lemma add_group_keys:
  "set (map fst (add_group e gs)) = insert (modeKey (en_mode e)) (set (map fst gs))"
  "distinct (map fst gs) \<Longrightarrow> distinct (map fst (add_group e gs))"
  by (induction e gs rule: add_group.induct) auto

lemma add_group_entries:
  assumes "distinct (map fst gs)" and "(k, es) \<in> set (add_group e gs)"
  shows "if k = modeKey (en_mode e)
         then (\<exists>es0. (k, es0) \<in> set gs \<and> es = es0 @ [e]) \<or> (k \<notin> fst ` set gs \<and> es = [e])
         else (k, es) \<in> set gs"
  using assms
proof (induction e gs rule: add_group.induct)
  case (2 e k' es' gs)
  show ?case
  proof (cases "k' = modeKey (en_mode e)")
    case True
    have "(k', es) \<notin> set gs" for es
    proof
      assume "(k', es) \<in> set gs"
      then have "k' \<in> fst ` set gs" by (rule image_eqI [rotated]) simp
      with "2.prems"(1) show False by simp
    qed
    with True "2.prems"(2) show ?thesis by auto
  next
    case False
    then consider "k = k'" "es = es'" | "(k, es) \<in> set (add_group e gs)"
      using "2.prems"(2) by auto
    then show ?thesis
    proof cases
      case 1
      with False show ?thesis by simp
    next
      case 2
      from "2.prems"(1) have "distinct (map fst gs)" by simp
      from "2.IH" [OF False this 2] False show ?thesis
        by (auto split: if_splits)
    qed
  qed
qed auto

lemma group_queue_spec:
  "set (map fst (group_queue es)) = (modeKey \<circ> en_mode) ` set es"
  "distinct (map fst (group_queue es))"
  "(k, g) \<in> set (group_queue es) \<Longrightarrow> g = of_mode k es"
proof (induction es arbitrary: k g rule: rev_induct)
  case Nil
  { case 1 then show ?case by (simp add: group_queue_def) }
  { case 2 then show ?case by (simp add: group_queue_def) }
  { case 3 then show ?case by (simp add: group_queue_def) }
next
  case (snoc e es)
  have s: "group_queue (es @ [e]) = add_group e (group_queue es)"
    by (simp add: group_queue_def)
  { case 1 then show ?case using snoc(1) unfolding s add_group_keys(1) by simp }
  { case 2 then show ?case using snoc(2) by (simp add: s add_group_keys(2)) }
  { case 3
    have none: "k \<notin> fst ` set (group_queue es) \<Longrightarrow> of_mode k es = []"
      using snoc(1) by (auto simp: of_mode_def filter_empty_conv)
    from 3 add_group_entries [OF snoc(2), of k g e] show ?case
      unfolding s using snoc(3) none by (auto simp: of_mode_def split: if_splits) }
qed

lemma group_nonempty: "(k, g) \<in> set (group_queue es) \<Longrightarrow> g \<noteq> []"
proof
  assume k: "(k, g) \<in> set (group_queue es)" and "g = []"
  then have "of_mode k es = []"
    using group_queue_spec(3) [OF k] by simp
  moreover have "k \<in> (modeKey \<circ> en_mode) ` set es"
    using k group_queue_spec(1) [of es] by (metis fst_conv image_eqI image_set)
  ultimately show False
    by (auto simp: of_mode_def filter_empty_conv)
qed

section \<open>A tick\<close>

lemma formMatch_entries:
  "es \<noteq> [] \<Longrightarrow> \<exists>f r'. formMatch R N C W now es r = (Inr f, r') \<and> fm_entries f = es"
  by (cases es) (auto simp: formMatch_def Let_def split: prod.split)

lemma ready_nonempty: "0 < mc_MATCH_SIZE C \<Longrightarrow> g \<noteq> [] \<Longrightarrow> ready_match C now g = Some es \<Longrightarrow> es \<noteq> []"
  by (cases g) (auto simp: ready_match_def Let_def split: if_splits)

lemma form_groups_entries:
  assumes "0 < mc_MATCH_SIZE C" and "\<And>g. g \<in> snd ` set gs \<Longrightarrow> g \<noteq> []"
    and "form_groups R N C W now gs r = (fs, err, r')"
  shows "err = None \<and> map fm_entries fs = List.map_filter (\<lambda>(k, g). ready_match C now g) gs"
  using assms(2,3)
proof (induction gs arbitrary: r fs err r')
  case Nil
  then show ?case by (simp add: map_filter_simps)
next
  case (Cons kg gs)
  obtain k g where kg: "kg = (k, g)" by fastforce
  show ?case
  proof (cases "ready_match C now g")
    case None
    then have this': "form_groups R N C W now gs r = (fs, err, r')"
      using Cons.prems(2) by (simp add: kg)
    have "err = None \<and> map fm_entries fs = List.map_filter (\<lambda>(k, g). ready_match C now g) gs"
      by (rule Cons.IH [OF Cons.prems(1) this']) (simp add: kg)
    with None show ?thesis
      by (simp add: kg map_filter_simps)
  next
    case (Some es)
    have "es \<noteq> []"
      using ready_nonempty [OF assms(1) _ Some] Cons.prems(1) kg by simp
    then obtain f r1 where f: "formMatch R N C W now es (nd_env N r) = (Inr f, r1)" "fm_entries f = es"
      using formMatch_entries [OF \<open>es \<noteq> []\<close>, of R N C W now "nd_env N r"] by auto
    obtain fs1 err1 r2 where fs1: "form_groups R N C W now gs r1 = (fs1, err1, r2)"
      by (metis prod_cases3)
    have "err1 = None \<and> map fm_entries fs1 = List.map_filter (\<lambda>(k, g). ready_match C now g) gs"
      by (rule Cons.IH [OF Cons.prems(1) fs1]) (simp add: kg)
    moreover have "fs = f # fs1" "err = err1"
      using Cons.prems(2) f(1) fs1 by (simp_all add: kg Some)
    ultimately show ?thesis
      using f(2) by (simp add: kg Some map_filter_simps)
  qed
qed

definition queue_entries :: "'r redis \<Rightarrow> 'r \<Rightarrow> entry list" where
  "queue_entries R r = parsed_queue (bus_hgetall R MMQueue r)"

lemma tick_entries:
  assumes "nd_bus N = Some R" and "rp_isLeader p" and "\<not> rp_ticking p" and "0 < mc_MATCH_SIZE C"
    and "tick N C W p now r = (fs, err, p', r')"
  shows "err = None \<and> map fm_entries fs =
    List.map_filter (\<lambda>(k, g). ready_match C now g) (group_queue (queue_entries R r))"
proof -
  obtain fs1 err1 r1 where f: "form_groups R N C W now (group_queue (queue_entries R r)) r = (fs1, err1, r1)"
    by (metis prod_cases3)
  with assms have "fs = fs1" "err = err1"
    by (auto simp: tick_def queue_entries_def)
  moreover have "err1 = None \<and> map fm_entries fs1 =
      List.map_filter (\<lambda>(k, g). ready_match C now g) (group_queue (queue_entries R r))"
    by (rule form_groups_entries [OF assms(4) _ f]) (auto dest: group_nonempty)
  ultimately show ?thesis by simp
qed

lemma map_filter_set: "y \<in> set (List.map_filter f xs) \<longleftrightarrow> (\<exists>x \<in> set xs. f x = Some y)"
  by (force simp: List.map_filter_def)

lemma ready_match_Some:
  assumes "ready_match C now g = Some es"
  shows "es = take (mc_MATCH_SIZE C) (sort_key en_joinedAt g)" and "set es \<subseteq> set g"
    and "sorted (map en_joinedAt es)" and "length es \<le> mc_MATCH_SIZE C"
    and "x \<in> set g \<Longrightarrow> x \<notin> set es \<Longrightarrow> y \<in> set es \<Longrightarrow> en_joinedAt y \<le> en_joinedAt x"
proof -
  show e: "es = take (mc_MATCH_SIZE C) (sort_key en_joinedAt g)"
    using assms by (simp add: ready_match_def Let_def split: if_splits)
  show "set es \<subseteq> set g"
    using set_take_subset [of "mc_MATCH_SIZE C" "sort_key en_joinedAt g"] by (simp add: e)
  show "sorted (map en_joinedAt es)"
    by (simp add: e sorted_wrt_take flip: take_map)
  show "length es \<le> mc_MATCH_SIZE C"
    by (simp add: e)
  let ?l = "sort_key en_joinedAt g"
  assume "x \<in> set g" "x \<notin> set es" "y \<in> set es"
  then have "x \<in> set (drop (mc_MATCH_SIZE C) ?l)" "y \<in> set (take (mc_MATCH_SIZE C) ?l)"
    using append_take_drop_id [of "mc_MATCH_SIZE C" ?l] e by (metis Un_iff set_append set_sort)+
  moreover have "sorted (map en_joinedAt (take (mc_MATCH_SIZE C) ?l @ drop (mc_MATCH_SIZE C) ?l))"
    by simp
  ultimately show "en_joinedAt y \<le> en_joinedAt x"
    unfolding map_append sorted_append by force
qed

text \<open>
  [C14] Who plays with whom. Every match a leader's tick forms is a non-empty list of at most
  \<open>MATCH_SIZE\<close> queued players of one mode, oldest first, none of them younger than a player of
  that mode who was left waiting; and a player whose mode has \<open>MIN_PLAYERS\<close> waiting, or who has
  waited \<open>TIMEOUT_MS\<close>, sees a match of that mode formed.
\<close>

theorem tick_forms_fair_matches:
  assumes "nd_bus N = Some R" and "rp_isLeader p" and "\<not> rp_ticking p" and "0 < mc_MATCH_SIZE C"
    and "tick N C W p now r = (fs, err, p', r')"
  shows "err = None \<and>
    (\<forall>f \<in> set fs. \<exists>k. fm_entries f \<noteq> [] \<and> set (fm_entries f) \<subseteq> set (of_mode k (queue_entries R r)) \<and>
       length (fm_entries f) \<le> mc_MATCH_SIZE C \<and> sorted (map en_joinedAt (fm_entries f)) \<and>
       (\<forall>x \<in> set (of_mode k (queue_entries R r)) - set (fm_entries f). \<forall>y \<in> set (fm_entries f).
          en_joinedAt y \<le> en_joinedAt x)) \<and>
    (\<forall>e \<in> set (queue_entries R r).
       mc_TIMEOUT_MS C \<le> now - en_joinedAt e \<or>
       mc_MIN_PLAYERS C \<le> length (of_mode (modeKey (en_mode e)) (queue_entries R r)) \<longrightarrow>
       (\<exists>f \<in> set fs. \<forall>x \<in> set (fm_entries f). modeKey (en_mode x) = modeKey (en_mode e)))"
proof (intro conjI ballI impI)
  let ?Q = "queue_entries R r"
  note t = tick_entries [OF assms]
  show "err = None"
    using t by simp
  {
    fix f :: formed
    assume "f \<in> set fs"
    then have "fm_entries f \<in> set (map fm_entries fs)" by simp
    then obtain k g where k: "(k, g) \<in> set (group_queue ?Q)" "ready_match C now g = Some (fm_entries f)"
      using t by (auto simp: map_filter_set)
    have g: "g = of_mode k ?Q"
      using group_queue_spec(3) [OF k(1)] .
    have "fm_entries f \<noteq> []"
      using ready_nonempty [OF assms(4) group_nonempty [OF k(1)] k(2)] .
    with ready_match_Some [OF k(2)]
    show "\<exists>k. fm_entries f \<noteq> [] \<and> set (fm_entries f) \<subseteq> set (of_mode k ?Q) \<and>
       length (fm_entries f) \<le> mc_MATCH_SIZE C \<and> sorted (map en_joinedAt (fm_entries f)) \<and>
       (\<forall>x \<in> set (of_mode k ?Q) - set (fm_entries f). \<forall>y \<in> set (fm_entries f). en_joinedAt y \<le> en_joinedAt x)"
      by (intro exI [of _ k]) (auto simp: g)
  next
    fix e :: entry
    let ?k = "modeKey (en_mode e)"
    assume e: "e \<in> set ?Q"
      and due: "mc_TIMEOUT_MS C \<le> now - en_joinedAt e \<or> mc_MIN_PLAYERS C \<le> length (of_mode ?k ?Q)"
    then have "?k \<in> set (map fst (group_queue ?Q))"
      unfolding group_queue_spec(1) by simp
    then obtain g where g: "(?k, g) \<in> set (group_queue ?Q)"
      by auto
    have gq: "g = of_mode ?k ?Q"
      using group_queue_spec(3) [OF g] .
    with e have "e \<in> set g"
      by (simp add: of_mode_def)
    with due have "ready_match C now g \<noteq> None"
      by (auto simp: ready_match_def Let_def gq list_ex_iff)
    then obtain es where es: "ready_match C now g = Some es"
      by blast
    have "es \<in> set (map fm_entries fs)"
      unfolding conjunct2 [OF t] map_filter_set using es by (intro bexI [OF _ g]) simp
    then obtain f where f: "f \<in> set fs" "fm_entries f = es"
      by auto
    have "set es \<subseteq> set g"
      using ready_match_Some(2) [OF es] .
    then have "\<forall>x \<in> set (fm_entries f). modeKey (en_mode x) = ?k"
      by (auto simp: f(2) gq of_mode_def)
    with f(1) show "\<exists>f \<in> set fs. \<forall>x \<in> set (fm_entries f). modeKey (en_mode x) = ?k"
      by blast
  }
qed

definition demo_config :: mm_config where
  "demo_config = \<lparr>mc_MIN_PLAYERS = 2, mc_TIMEOUT_MS = 10000, mc_MATCH_SIZE = 50, mc_LEASE_MS = 15000,
     mc_nodeId = ''n1'', mc_matchDomain = [], mc_host = ''h'', mc_gameServerPort = [],
     mc_jwtSecret = [7], mc_jwtTtlSec = 600\<rparr>"

definition demo_mode :: mode where
  "demo_mode = \<lparr>md_match_mode = 6, md_game_mode = 15, md_map_id = 1, md_difficulty = 0\<rparr>"

definition demo_world :: mm_world where
  "demo_world = \<lparr>mw_jwt = \<lparr>je_hmac = (\<lambda>k m. k), je_json = (\<lambda>_. []), je_parse = (\<lambda>_. None)\<rparr>,
     mw_getById = (\<lambda>i. Some (demo_account i)), mw_servers = [''a'', ''b''], mw_rnd = (\<lambda>_. 1)\<rparr>"

definition demo_replica :: "string \<Rightarrow> bool \<Rightarrow> replica" where
  "demo_replica t l = \<lparr>rp_token = t, rp_isLeader = l, rp_ticking = False, rp_running = True\<rparr>"

definition demo_queue :: keyspace where
  "demo_queue = enqueue demo_node demo_config (demo_account 8) demo_mode 2000
     (enqueue demo_node demo_config (demo_account 7) demo_mode 1000 empty_keyspace)"

lemma demo_leader: "rp_isLeader (demo_replica t True)" "\<not> rp_ticking (demo_replica t True)"
  "0 < mc_MATCH_SIZE demo_config"
  by (simp_all add: demo_replica_def demo_config_def)

theorem tick_forms_fair_matches_witness:
  "case tick demo_node demo_config demo_world (demo_replica ''t'' True) 3000 demo_queue of
     (fs, err, p', r') \<Rightarrow> err = None \<and> (\<forall>f \<in> set fs. fm_entries f \<noteq> [])"
proof -
  obtain fs err p' r' where
    t: "tick demo_node demo_config demo_world (demo_replica ''t'' True) 3000 demo_queue = (fs, err, p', r')"
    by (metis prod_cases4)
  from tick_forms_fair_matches [OF demo_bus demo_leader t] show ?thesis
    unfolding t by auto
qed

section \<open>Claims\<close>

lemma parsed_queue_ids: "set (map en_accountId (parsed_queue ps)) \<subseteq> set (map fst ps)"
  by (induction ps rule: parsed_queue.induct) (auto split: option.splits)

lemma parsed_queue_distinct: "distinct (map fst ps) \<Longrightarrow> distinct (map en_accountId (parsed_queue ps))"
proof (induction ps rule: parsed_queue.induct)
  case (2 i raw rest)
  then show ?case using parsed_queue_ids [of rest] by (auto split: option.splits)
qed simp

lemma distinct_ids_inj:
  "distinct (map en_accountId Q) \<Longrightarrow> x \<in> set Q \<Longrightarrow> y \<in> set Q \<Longrightarrow> en_accountId x = en_accountId y \<Longrightarrow> x = y"
  by (metis distinct_map inj_on_def)

lemma ready_ids_distinct:
  assumes d: "distinct (map en_accountId Q)" and k: "distinct (map fst gs)"
    and g: "\<And>k g. (k, g) \<in> set gs \<Longrightarrow> g = of_mode k Q"
  shows "distinct (concat (map (map en_accountId) (List.map_filter (\<lambda>(k, g). ready_match C now g) gs)))"
  using k g
proof (induction gs)
  case Nil
  then show ?case by (simp add: map_filter_simps)
next
  case (Cons kg gs)
  obtain k g where kg: "kg = (k, g)" by fastforce
  have g: "g = of_mode k Q"
    using Cons.prems(2) kg by simp
  have IH: "distinct (concat (map (map en_accountId) (List.map_filter (\<lambda>(k, g). ready_match C now g) gs)))"
    by (rule Cons.IH) (use Cons.prems in auto)
  show ?case
  proof (cases "ready_match C now g")
    case None
    with IH show ?thesis by (simp add: kg map_filter_simps)
  next
    case (Some es)
    have "distinct (map en_accountId g)"
      using d by (simp add: g of_mode_def distinct_map_filter)
    then have "distinct (map en_accountId (sort_key en_joinedAt g))"
      by (simp add: distinct_map)
    then have "distinct (map en_accountId es)"
      unfolding ready_match_Some(1) [OF Some] take_map [symmetric] by (rule distinct_take)
    moreover have "en_accountId x \<noteq> en_accountId y"
      if x: "x \<in> set es" and es': "es' \<in> set (List.map_filter (\<lambda>(k, g). ready_match C now g) gs)"
        and y: "y \<in> set es'" for x y es'
    proof
      assume e: "en_accountId x = en_accountId y"
      from es' obtain k' g' where g': "(k', g') \<in> set gs" "ready_match C now g' = Some es'"
        by (auto simp: map_filter_set)
      have "g' = of_mode k' Q"
        using Cons.prems(2) g'(1) by simp
      then have "x \<in> set (of_mode k Q)" "y \<in> set (of_mode k' Q)"
        using x y ready_match_Some(2) [OF Some] ready_match_Some(2) [OF g'(2)] g by auto
      then have "k = k'"
        using distinct_ids_inj [OF d _ _ e] by (auto simp: of_mode_def)
      moreover have "k' \<in> fst ` set gs"
        using g'(1) by force
      ultimately show False
        using Cons.prems(1) kg by simp
    qed
    ultimately show ?thesis
      using IH by (auto simp: kg Some map_filter_simps)
  qed
qed

lemma push_match_quiet: "nd_env N = (\<lambda>r. r) \<Longrightarrow> snd (push_match R N C W now i addr m es r) = r"
  by (induction es arbitrary: r) (simp_all add: Let_def case_prod_beta split: option.split)

context redis_laws
begin

lemma formMatch_quiet:
  assumes "nd_env N = (\<lambda>r. r)" and "formMatch R N C W now es r = (Inr f, r')"
  shows "rd_hget R r' MMQueue i = (if i \<in> en_accountId ` set es then None else rd_hget R r MMQueue i)"
    and "rd_count R r' MatchSeq = rd_count R r MatchSeq + 1" and "fm_id f = rd_count R r MatchSeq + 1"
    and "fm_entries f = es"
proof -
  obtain e es' where es: "es = e # es'"
    using assms(2) by (cases es) (auto simp: formMatch_def split: prod.splits)
  obtain m r1 where i: "bus_incr R MatchSeq r = (m, r1)" by fastforce
  have m: "m = rd_count R r MatchSeq + 1" "r1 = snd (rd_incr R r MatchSeq)"
    using i incr_fst [of r MatchSeq] by (auto simp: bus_incr_def)
  let ?addr = "str_or (pickServer (mw_servers W) (mw_rnd W m)) (staticAddr C)"
  let ?push = "push_match R N C W now m ?addr (en_mode e) es (bus_hdel R MMQueue (map en_accountId es) r1)"
  have "formMatch R N C W now es r =
      (Inr \<lparr>fm_id = m, fm_entries = es, fm_addr = ?addr, fm_pushes = fst ?push\<rparr>, snd ?push)"
    by (simp add: formMatch_def i Let_def es assms(1) del: push_match.simps split: prod.split)
  with assms(2) have p: "fm_id f = m" "fm_entries f = es" "r' = rd_hdel R r1 MMQueue (map en_accountId es)"
    by (auto simp: push_match_quiet [OF assms(1)] bus_hdel_def)
  show "rd_hget R r' MMQueue i = (if i \<in> en_accountId ` set es then None else rd_hget R r MMQueue i)"
    by (simp add: p(3) m(2) hget_hdel hash_frame)
  show "rd_count R r' MatchSeq = rd_count R r MatchSeq + 1"
    by (simp add: p(3) m(2) count_frame count_incr)
  show "fm_id f = rd_count R r MatchSeq + 1" "fm_entries f = es"
    by (simp_all add: p m)
qed

lemma form_groups_quiet:
  assumes "nd_env N = (\<lambda>r. r)"
  shows "form_groups R N C W now gs r = (fs, err, r') \<Longrightarrow> err = None \<Longrightarrow>
    map fm_id fs = map (\<lambda>n. rd_count R r MatchSeq + 1 + int n) [0..<length fs] \<and>
    rd_hget R r' MMQueue i =
      (if i \<in> set (concat (map (map en_accountId \<circ> fm_entries) fs)) then None else rd_hget R r MMQueue i)"
proof (induction gs arbitrary: r fs err r')
  case Nil
  then show ?case by simp
next
  case (Cons kg gs)
  obtain k g where kg: "kg = (k, g)" by fastforce
  show ?case
  proof (cases "ready_match C now g")
    case None
    with Cons show ?thesis by (simp add: kg)
  next
    case (Some es)
    obtain res r1 where f: "formMatch R N C W now es r = (res, r1)" by fastforce
    obtain fm where fm: "res = Inr fm"
      using Cons.prems f assms by (cases res) (auto simp: kg Some)
    obtain fs1 err1 r2 where fs1: "form_groups R N C W now gs r1 = (fs1, err1, r2)"
      by (metis prod_cases3)
    have c: "fs = fm # fs1" "err = err1" "r' = r2"
      using Cons.prems(1) f fm fs1 assms by (simp_all add: kg Some)
    note q = formMatch_quiet [OF assms f [unfolded fm]]
    have IH: "map fm_id fs1 = map (\<lambda>n. rd_count R r1 MatchSeq + 1 + int n) [0..<length fs1] \<and>
        rd_hget R r2 MMQueue i = (if i \<in> set (concat (map (map en_accountId \<circ> fm_entries) fs1)) then None
          else rd_hget R r1 MMQueue i)"
      using Cons.IH [OF fs1] Cons.prems(2) c by simp
    have "[0..<length fs] = 0 # map Suc [0..<length fs1]"
      by (simp add: c upt_conv_Cons map_Suc_upt del: upt_Suc)
    with IH q show ?thesis
      by (auto simp: c q)
  qed
qed

lemma tick_claims:
  assumes N: "nd_bus N = Some R" "nd_env N = (\<lambda>r. r)" and p: "rp_isLeader p" "\<not> rp_ticking p"
    and "0 < mc_MATCH_SIZE C" and t: "tick N C W p now r = (fs, err, p', r')"
  shows "distinct (concat (map (map en_accountId \<circ> fm_entries) fs)) \<and>
    map fm_id fs = map (\<lambda>n. rd_count R r MatchSeq + 1 + int n) [0..<length fs] \<and>
    (\<forall>i. rd_hget R r' MMQueue i =
      (if i \<in> set (concat (map (map en_accountId \<circ> fm_entries) fs)) then None else rd_hget R r MMQueue i))"
proof -
  let ?Q = "queue_entries R r"
  note e = tick_entries [OF N(1) p assms(5) t]
  have d: "distinct (map en_accountId ?Q)"
    unfolding queue_entries_def bus_hgetall_def by (rule parsed_queue_distinct) (rule hgetall_distinct)
  have "distinct (concat (map (map en_accountId \<circ> fm_entries) fs))"
    unfolding map_map [symmetric] conjunct2 [OF e]
    by (rule ready_ids_distinct [OF d group_queue_spec(2)]) (rule group_queue_spec(3))
  moreover have "form_groups R N C W now (group_queue ?Q) r = (fs, err, r')"
    using t N p by (auto simp: tick_def queue_entries_def split: prod.splits)
  ultimately show ?thesis
    using form_groups_quiet [OF N(2), of C W now _ r fs err r'] e by blast
qed

end

text \<open>
  [C13] What a tick claims. With nobody else writing during the tick: no account is in two of
  the matches it formed, their ids are the next values of the shared counter, and when it ends
  exactly the accounts it placed are gone from the queue.
\<close>

theorem tick_claims_players:
  assumes "redis_laws R" and "nd_bus N = Some R" and "nd_env N = (\<lambda>r. r)" and "rp_isLeader p"
    and "\<not> rp_ticking p" and "0 < mc_MATCH_SIZE C" and "tick N C W p now r = (fs, err, p', r')"
  shows "distinct (concat (map (map en_accountId \<circ> fm_entries) fs)) \<and>
    map fm_id fs = map (\<lambda>n. rd_count R r MatchSeq + 1 + int n) [0..<length fs] \<and>
    (\<forall>i. rd_hget R r' MMQueue i =
      (if i \<in> set (concat (map (map en_accountId \<circ> fm_entries) fs)) then None else rd_hget R r MMQueue i))"
  using redis_laws.tick_claims [OF assms] .

theorem tick_claims_players_witness:
  "case tick demo_node demo_config demo_world (demo_replica ''t'' True) 3000 demo_queue of
     (fs, err, p', r') \<Rightarrow> distinct (concat (map (map en_accountId \<circ> fm_entries) fs))"
proof -
  obtain fs err p' r' where
    t: "tick demo_node demo_config demo_world (demo_replica ''t'' True) 3000 demo_queue = (fs, err, p', r')"
    by (metis prod_cases4)
  have q: "nd_env demo_node = (\<lambda>r. r)"
    by (simp add: demo_node_def)
  from tick_claims_players [OF kr.redis_laws_axioms demo_bus q demo_leader t] show ?thesis
    unfolding t by simp
qed

section \<open>Pushes\<close>

lemma push_match_pushes:
  "push_match R N C W now i addr m es r = (ps, r') \<Longrightarrow> x \<in> set ps \<Longrightarrow>
     \<exists>e \<in> set es. \<exists>a. mw_getById W (en_accountId e) = Some a \<and>
       x = \<lparr>ps_target = en_accountId e, ps_protocol = PROTO_MATCHMAKING, ps_cmd = EMM_MATCHMAKINGSUSS_NTF,
            ps_msg = MMatchmakingSussNtf (queue_suss i addr (buildPrepareToken (mw_jwt W) C a i 0 now) m)\<rparr>"
proof (induction es arbitrary: r ps r')
  case (Cons e es)
  obtain ps1 r1 where p: "push_match R N C W now i addr m es (nd_env N r) = (ps1, r1)"
    by fastforce
  show ?case
  proof (cases "x \<in> set ps1")
    case True
    with Cons.IH [OF p] show ?thesis by auto
  next
    case False
    with Cons.prems p show ?thesis
      by (auto simp: Let_def split: option.splits if_splits)
  qed
qed simp

text \<open>
  [C15] What the players of a match are told. Every push of a formed match goes to one of its
  players who has an account; all of them name the same match id and the same server; and each
  carries a token that verifies under the match secret, until its time to live has passed, to
  the identity of that account and this match id.
\<close>

theorem match_pushes_sound:
  assumes "\<And>b. je_parse (mw_jwt W) (je_json (mw_jwt W) b) = Some b"
    and "formMatch R N C W now es r = (Inr f, r')" and "x \<in> set (fm_pushes f)"
    and "0 \<le> now" and "0 < mc_jwtTtlSec C" and "t \<le> now div 1000 + mc_jwtTtlSec C"
  shows "\<exists>e \<in> set es. \<exists>a s. ps_target x = en_accountId e \<and> mw_getById W (en_accountId e) = Some a \<and>
      ps_msg x = MMatchmakingSussNtf s \<and> sn_match_id s = fm_id f \<and> sn_server_addr s = fm_addr f \<and>
      (\<exists>b. verify (mw_jwt W) (sn_prepare_token s) (mc_jwtSecret C) t = Inr b \<and>
           jb_claims b = prepare_claims a (fm_id f) 0)"
proof -
  obtain e0 es0 where es: "es = e0 # es0"
    using assms(2) by (cases es) (auto simp: formMatch_def split: prod.splits)
  obtain i r1 where i: "bus_incr R MatchSeq r = (i, r1)" by fastforce
  let ?addr = "str_or (pickServer (mw_servers W) (mw_rnd W i)) (staticAddr C)"
  obtain ps r2 where p: "push_match R N C W now i ?addr (en_mode e0) es
      (bus_hdel R MMQueue (map en_accountId es) (nd_env N r1)) = (ps, r2)"
    by fastforce
  have f: "fm_id f = i" "fm_addr f = ?addr" "fm_pushes f = ps"
    using assms(2) p by (auto simp: formMatch_def i Let_def es simp del: push_match.simps split: prod.splits)
  from push_match_pushes [OF p] assms(3) f(3) obtain e a where
    e: "e \<in> set es" "mw_getById W (en_accountId e) = Some a"
      "ps_target x = en_accountId e"
      "ps_msg x = MMatchmakingSussNtf (queue_suss i ?addr (buildPrepareToken (mw_jwt W) C a i 0 now) (en_mode e0))"
    by force
  have "0 < now div 1000 + mc_jwtTtlSec C" "mc_jwtTtlSec C \<noteq> 0"
    using assms(4,5) by auto
  then have "verify (mw_jwt W) (buildPrepareToken (mw_jwt W) C a i 0 now) (mc_jwtSecret C) t =
      Inr \<lparr>jb_iat = now div 1000, jb_claims = prepare_claims a i 0, jb_exp = Some (now div 1000 + mc_jwtTtlSec C)\<rparr>"
    using assms(6) by (simp add: buildPrepareToken_def verify_sign [OF assms(1)] or_num_def Let_def)
  with e show ?thesis
    unfolding f by (intro bexI [OF _ e(1)] exI [of _ a] exI [of _ "queue_suss i ?addr
        (buildPrepareToken (mw_jwt W) C a i 0 now) (en_mode e0)"]) (simp add: queue_suss_def)
qed

text \<open>A JSON codec on the claims for the witness: integers in unary, lists with their length.\<close>

fun enc_ints :: "int list \<Rightarrow> bytes" where
  "enc_ints [] = []"
| "enc_ints (n # ns) = replicate (nat \<bar>n\<bar>) (if n < 0 then 1 else 2) @ 0 # enc_ints ns"

fun dec_ints :: "int \<Rightarrow> bytes \<Rightarrow> int list" where
  "dec_ints acc [] = []"
| "dec_ints acc (b # bs) =
     (if b = 0 then acc # dec_ints 0 bs else dec_ints (if b = 1 then acc - 1 else acc + 1) bs)"

lemma dec_enc_ints: "dec_ints 0 (enc_ints ns) = ns"
proof -
  have neg: "dec_ints a (replicate k 1 @ 0 # bs) = (a - int k) # dec_ints 0 bs" for a k bs
    by (induction k arbitrary: a) simp_all
  have pos: "dec_ints a (replicate k 2 @ 0 # bs) = (a + int k) # dec_ints 0 bs" for a k bs
    by (induction k arbitrary: a) simp_all
  show ?thesis
    by (induction ns) (auto simp: neg pos)
qed

definition lst :: "int list \<Rightarrow> int list" where "lst xs = int (length xs) # xs"

definition str_ints :: "string \<Rightarrow> int list" where "str_ints = map (\<lambda>c. int (of_char c))"

fun unlst :: "int list \<Rightarrow> int list \<times> int list" where
  "unlst [] = ([], [])"
| "unlst (n # xs) = (take (nat n) xs, drop (nat n) xs)"

lemma unlst_lst [simp]: "unlst (lst xs @ ys) = (xs, ys)" "unlst (lst xs) = (xs, [])"
  by (simp_all add: lst_def)

lemma str_ints_inverse [simp]: "map (\<lambda>n. char_of (nat n)) (str_ints s) = s"
  by (simp add: str_ints_def o_def)

definition claim_ints :: "token_claims jwt_body \<Rightarrow> int list" where
  "claim_ints b = (let c = jb_claims b; s = tc_show c in
     [jb_iat b, (case jb_exp b of None \<Rightarrow> 0 | Some _ \<Rightarrow> 1), (case jb_exp b of None \<Rightarrow> 0 | Some e \<Rightarrow> e),
      tc_aid c, tc_role c, tc_mid c, tc_team c, sc_avatar s, sc_color s, sc_head s, sc_banner s] @
     lst (str_ints (tc_name c)) @ lst (str_ints (tc_region c)) @ lst (sc_clothes s) @ lst (sc_slots s) @
     lst (sc_emotes s) @ lst (sc_shows s))"

fun ints_claim :: "int list \<Rightarrow> token_claims jwt_body option" where
  "ints_claim (iat # f # e # aid # role # mid # team # av # co # he # ba # r0) =
     (let (name, r1) = unlst r0; (region, r2) = unlst r1; (clothes, r3) = unlst r2; (slots, r4) = unlst r3;
          (emotes, r5) = unlst r4; (shows, r6) = unlst r5
      in Some \<lparr>jb_iat = iat, jb_claims = \<lparr>tc_aid = aid, tc_name = map (\<lambda>n. char_of (nat n)) name,
           tc_region = map (\<lambda>n. char_of (nat n)) region, tc_role = role, tc_mid = mid, tc_team = team,
           tc_show = \<lparr>sc_avatar = av, sc_color = co, sc_head = he, sc_banner = ba, sc_clothes = clothes,
             sc_slots = slots, sc_emotes = emotes, sc_shows = shows\<rparr>\<rparr>,
           jb_exp = (if f = 0 then None else Some e)\<rparr>)"
| "ints_claim _ = None"

definition claims_jwt :: "token_claims jwt_env" where
  "claims_jwt = \<lparr>je_hmac = (\<lambda>k m. k), je_json = (\<lambda>b. enc_ints (claim_ints b)),
     je_parse = (\<lambda>bs. ints_claim (dec_ints 0 bs))\<rparr>"

lemma claims_jwt_roundtrip: "je_parse claims_jwt (je_json claims_jwt b) = Some b"
proof -
  obtain i c e where b: "b = \<lparr>jb_iat = i, jb_claims = c, jb_exp = e\<rparr>"
    by (cases b)
  obtain aid nm rg ro mid tm s where c: "c = \<lparr>tc_aid = aid, tc_name = nm, tc_region = rg, tc_role = ro,
      tc_mid = mid, tc_team = tm, tc_show = s\<rparr>"
    by (cases c)
  obtain av co he ba cl sl em sh where s: "s = \<lparr>sc_avatar = av, sc_color = co, sc_head = he,
      sc_banner = ba, sc_clothes = cl, sc_slots = sl, sc_emotes = em, sc_shows = sh\<rparr>"
    by (cases s)
  have "ints_claim (claim_ints b) = Some b"
    by (cases e) (simp_all add: b c s claim_ints_def Let_def)
  then show ?thesis
    by (simp add: claims_jwt_def dec_enc_ints)
qed

definition online_queue :: keyspace where
  "online_queue = rd_set_px map_redis demo_queue (Presence 7) (SText ''gw1'') 9"

theorem match_pushes_sound_witness:
  "case formMatch map_redis demo_node demo_config (demo_world\<lparr>mw_jwt := claims_jwt\<rparr>) 3000
      [\<lparr>en_accountId = 7, en_mode = demo_mode, en_joinedAt = 1000\<rparr>] online_queue of
     (Inr f, r') \<Rightarrow> fm_pushes f \<noteq> [] \<and> (\<forall>x \<in> set (fm_pushes f). ps_target x = 7)
   | _ \<Rightarrow> False"
proof -
  let ?W = "demo_world\<lparr>mw_jwt := claims_jwt\<rparr>"
  let ?es = "[\<lparr>en_accountId = 7, en_mode = demo_mode, en_joinedAt = 1000\<rparr>]"
  obtain f r' where f: "formMatch map_redis demo_node demo_config ?W 3000 ?es online_queue = (Inr f, r')"
    using formMatch_entries [of ?es map_redis demo_node demo_config ?W 3000 online_queue] by auto
  have rt: "je_parse (mw_jwt ?W) (je_json (mw_jwt ?W) b) = Some b" for b
    by (simp add: claims_jwt_roundtrip)
  have "ps_target x = 7" if "x \<in> set (fm_pushes f)" for x
    using match_pushes_sound [OF rt f that, of 3] by (simp add: demo_config_def)
  moreover have "getNode map_redis 7 (bus_hdel map_redis MMQueue [7] (snd (rd_incr map_redis online_queue MatchSeq)))
      = Some ''gw1''"
    by code_simp
  then have "fm_pushes f \<noteq> []"
    using f by (auto simp: formMatch_def Let_def bus_incr_def demo_node_def demo_world_def split: prod.splits)
  ultimately show ?thesis
    unfolding f by simp
qed

section \<open>Leadership\<close>

text \<open>
  Runs of the replicas: a replica's \<open>leadership\<close> call, a graceful stop, a crash, time passing,
  and writes that do not touch the lease. Time passes in steps shorter than what is left of the
  lease while some replica believes to be the leader: the leader's renewals are in time.
\<close>

inductive mm_run :: "'r redis \<Rightarrow> 'r node \<Rightarrow> mm_config \<Rightarrow> (nat \<Rightarrow> replica) \<times> 'r \<Rightarrow> (nat \<Rightarrow> replica) \<times> 'r \<Rightarrow> bool"
  for R N C where
  init: "mm_run R N C s s"
| lead: "mm_run R N C s (ps, r) \<Longrightarrow> leadership N C (ps i) r = (p', r') \<Longrightarrow>
           mm_run R N C s (ps(i := p'), r')"
| stop: "mm_run R N C s (ps, r) \<Longrightarrow> stopService N (ps i) r = (p', r') \<Longrightarrow> mm_run R N C s (ps(i := p'), r')"
| crash: "mm_run R N C s (ps, r) \<Longrightarrow> mm_run R N C s (ps(i := (ps i)\<lparr>rp_isLeader := False\<rparr>), r)"
| wait: "mm_run R N C s (ps, r) \<Longrightarrow> (\<And>i. rp_isLeader (ps i) \<Longrightarrow> d < rd_pttl R r MMLeader) \<Longrightarrow>
           mm_run R N C s (ps, rd_elapse R d r)"
| other: "mm_run R N C s (ps, r) \<Longrightarrow> rd_get R r' MMLeader = rd_get R r MMLeader \<Longrightarrow> mm_run R N C s (ps, r')"

definition leaders_hold :: "'r redis \<Rightarrow> (nat \<Rightarrow> replica) \<times> 'r \<Rightarrow> bool" where
  "leaders_hold R s \<longleftrightarrow> inj (\<lambda>i. rp_token (fst s i)) \<and>
     (\<forall>i. rp_isLeader (fst s i) \<longrightarrow> rd_get R (snd s) MMLeader = Some (SText (rp_token (fst s i))))"

lemma leaders_hold_upd:
  assumes "leaders_hold R (ps, r)" and "rp_token p' = rp_token (ps i)"
    and "rp_isLeader p' \<Longrightarrow> rd_get R r' MMLeader = Some (SText (rp_token p'))"
    and "\<And>j. j \<noteq> i \<Longrightarrow> rp_isLeader (ps j) \<Longrightarrow> rd_get R r' MMLeader = Some (SText (rp_token (ps j)))"
  shows "leaders_hold R (ps(i := p'), r')"
proof -
  have "(\<lambda>j. rp_token ((ps(i := p')) j)) = (\<lambda>j. rp_token (ps j))"
    using assms(2) by auto
  with assms show ?thesis
    by (auto simp: leaders_hold_def)
qed

context redis_laws
begin

lemma leadership_holds:
  assumes "nd_bus N = Some R" and "0 < mc_LEASE_MS C" and "leadership N C p r = (p', r')"
  shows "rp_token p' = rp_token p"
    and "rp_isLeader p' \<Longrightarrow> rd_get R r' MMLeader = Some (SText (rp_token p))"
    and "rd_get R r MMLeader = Some (SText t) \<Longrightarrow> rd_get R r' MMLeader = Some (SText t)"
  using assms
  by (auto simp: leadership_def Let_def renewLock_def acquireLock_def get_pexpire get_set_px
      set_nx_held set_nx_free split: if_splits prod.splits)
    (cases "rd_get R r MMLeader"; auto simp: set_nx_held set_nx_free get_set_px)+

lemma mm_run_holds:
  assumes "nd_bus N = Some R" and "0 < mc_LEASE_MS C"
  shows "mm_run R N C s s' \<Longrightarrow> leaders_hold R s \<Longrightarrow> leaders_hold R s'"
proof (induction rule: mm_run.induct)
  case (init s)
  then show ?case .
next
  case (lead s ps r i p' r')
  then have h: "leaders_hold R (ps, r)" by blast
  note l = leadership_holds [OF assms lead.hyps(2)]
  show ?case
  proof (rule leaders_hold_upd [OF h l(1)])
    show "rp_isLeader p' \<Longrightarrow> rd_get R r' MMLeader = Some (SText (rp_token p'))"
      using l(1,2) by simp
    show "\<And>j. j \<noteq> i \<Longrightarrow> rp_isLeader (ps j) \<Longrightarrow> rd_get R r' MMLeader = Some (SText (rp_token (ps j)))"
      using h l(3) by (simp add: leaders_hold_def)
  qed
next
  case (stop s ps r i p' r')
  then have h: "leaders_hold R (ps, r)" by blast
  have p': "p' = (ps i)\<lparr>rp_running := False, rp_isLeader := False\<rparr>"
    and r': "r' = (if rp_isLeader (ps i) then snd (releaseLock R MMLeader (rp_token (ps i)) r) else r)"
    using stop.hyps(2) assms(1) by (auto simp: stopService_def)
  show ?case
  proof (rule leaders_hold_upd [OF h])
    fix j
    assume j: "j \<noteq> i" "rp_isLeader (ps j)"
    have "rp_token (ps j) \<noteq> rp_token (ps i)"
      using h j(1) by (auto simp: leaders_hold_def dest: injD)
    have "rd_get R r MMLeader = Some (SText (rp_token (ps j)))"
      using h j(2) by (simp add: leaders_hold_def)
    moreover from this have "\<not> rp_isLeader (ps i)"
      using h \<open>rp_token (ps j) \<noteq> rp_token (ps i)\<close> by (auto simp: leaders_hold_def)
    ultimately show "rd_get R r' MMLeader = Some (SText (rp_token (ps j)))"
      by (simp add: r')
  qed (simp_all add: p')
next
  case (crash s ps r i)
  then show ?case by (intro leaders_hold_upd) (auto simp: leaders_hold_def)
next
  case (wait s ps r d)
  then show ?case by (fastforce simp: leaders_hold_def get_elapse)
next
  case (other s ps r r')
  then show ?case by (simp add: leaders_hold_def)
qed

end




text \<open>
  Failover. A standby that calls \<open>leadership\<close> after \<open>d\<close> milliseconds becomes the leader
  exactly when the lease is free or has at most \<open>d\<close> milliseconds left, and with a full lease
  of its own; and after a graceful stop of the holder it does so at once.
\<close>

theorem standby_takes_over:
  assumes "redis_laws R" and "nd_bus N = Some R" and "0 < mc_LEASE_MS C" and "\<not> rp_isLeader p"
    and "rp_isLeader q" and "rd_get R r MMLeader = Some (SText (rp_token q))"
  shows "(case leadership N C p (rd_elapse R d r) of (p', r') \<Rightarrow>
            (rp_isLeader p' \<longleftrightarrow> rd_pttl R r MMLeader \<le> d) \<and>
            (rp_isLeader p' \<longrightarrow> rd_get R r' MMLeader = Some (SText (rp_token p)) \<and>
                                rd_pttl R r' MMLeader = mc_LEASE_MS C)) \<and>
         rp_isLeader (fst (leadership N C p (snd (stopService N q r))))"
proof -
  note laws = redis_laws.get_elapse [OF assms(1)] redis_laws.set_nx_held [OF assms(1)]
    redis_laws.set_nx_free [OF assms(1)] redis_laws.get_set_px [OF assms(1)]
    redis_laws.pttl_set_px [OF assms(1)] redis_laws.get_del [OF assms(1)]
  show ?thesis
    using assms(2-6)
    by (cases "rd_pttl R r MMLeader \<le> d")
      (simp_all add: leadership_def stopService_def releaseLock_def acquireLock_def laws)
qed

theorem standby_takes_over_witness:
  "rp_isLeader (fst (leadership demo_node demo_config (demo_replica ''b'' False)
     (rd_elapse map_redis 15000 (rd_set_px map_redis empty_keyspace MMLeader (SText ''a'') 15000))))"
proof -
  let ?r = "rd_set_px map_redis empty_keyspace MMLeader (SText ''a'') 15000"
  have r: "rd_get map_redis ?r MMLeader = Some (SText (rp_token (demo_replica ''a'' True)))"
    "rd_pttl map_redis ?r MMLeader \<le> 15000"
    by (simp_all add: kr.get_set_px kr.pttl_set_px demo_replica_def)
  have q: "\<not> rp_isLeader (demo_replica ''b'' False)" "rp_isLeader (demo_replica ''a'' True)"
    "0 < mc_LEASE_MS demo_config"
    by (simp_all add: demo_replica_def demo_config_def)
  from standby_takes_over [OF kr.redis_laws_axioms demo_bus q(3,1,2) r(1), of 15000] r(2)
  show ?thesis by (auto split: prod.splits)
qed

definition fast_config :: mm_config where
  "fast_config = demo_config\<lparr>mc_LEASE_MS := 3\<rparr>"

text \<open>The store when \<open>a\<close> leads, and what \<open>b\<close> does to a store in which \<open>a\<close> still has its lease:
  the lease runs out, \<open>b\<close> acquires it and ticks.\<close>

definition stall_store :: keyspace where
  "stall_store = rd_set_px map_redis demo_queue MMLeader (SText ''a'') 3"

definition take_over :: "keyspace \<Rightarrow> replica \<times> keyspace" where
  "take_over r = leadership demo_node fast_config (demo_replica ''b'' False) (rd_elapse map_redis 3 r)"

definition b_tick :: "keyspace \<Rightarrow> formed list \<times> exn option \<times> replica \<times> keyspace" where
  "b_tick r = (case take_over r of (b, r1) \<Rightarrow> tick demo_node fast_config demo_world b 20003 r1)"

definition stall_env :: "keyspace \<Rightarrow> keyspace" where
  "stall_env r = (if rd_get map_redis r MMLeader = Some (SText ''a'')
                  then (case b_tick r of (_, _, _, r1) \<Rightarrow> r1) else r)"

definition a_node :: "keyspace node" where
  "a_node = demo_node\<lparr>nd_env := stall_env\<rparr>"

lemma stall_queue:
  "queue_entries map_redis stall_store =
     [\<lparr>en_accountId = 8, en_mode = demo_mode, en_joinedAt = 2000\<rparr>,
      \<lparr>en_accountId = 7, en_mode = demo_mode, en_joinedAt = 1000\<rparr>]"
  "queue_entries map_redis (snd (take_over stall_store)) = queue_entries map_redis stall_store"
  "rp_isLeader (fst (take_over stall_store))" "\<not> rp_ticking (fst (take_over stall_store))"
  by (simp_all add: queue_entries_def bus_hgetall_def stall_store_def demo_queue_def enqueue_def bus_hset_def
      take_over_def leadership_def acquireLock_def map_redis_def empty_keyspace_def ks_live_def Let_def
      demo_replica_def demo_node_def fast_config_def)

lemma stall_groups:
  "5000 \<le> now \<Longrightarrow> List.map_filter (\<lambda>(k, g). ready_match fast_config now g)
       (group_queue (queue_entries map_redis stall_store)) =
     [[\<lparr>en_accountId = 7, en_mode = demo_mode, en_joinedAt = 1000\<rparr>,
       \<lparr>en_accountId = 8, en_mode = demo_mode, en_joinedAt = 2000\<rparr>]]"
  by (simp add: stall_queue(1) group_queue_def ready_match_def Let_def fast_config_def demo_config_def
      map_filter_simps)

text \<open>
  What a stalled leader can do. Replica \<open>a\<close> read the queue, then stalled past its lease;
  \<open>b\<close> took over and formed its match; \<open>a\<close> continues from its snapshot. Both matches contain the
  same player, since the count \<open>HDEL\<close> returns is not looked at: a claim is not exclusive.
\<close>
theorem stalled_leader_double_books:
  "map (map en_accountId \<circ> fm_entries)
     (fst (tick a_node fast_config demo_world (demo_replica ''a'' True) 5000 stall_store)) = [[7, 8]] \<and>
   map (map en_accountId \<circ> fm_entries) (fst (b_tick stall_store)) = [[7, 8]]"
proof
  obtain fs err p r where a: "tick a_node fast_config demo_world (demo_replica ''a'' True) 5000 stall_store = (fs, err, p, r)"
    by (metis prod_cases4)
  have c: "0 < mc_MATCH_SIZE fast_config" and n: "nd_bus a_node = Some map_redis"
    by (simp_all add: fast_config_def demo_config_def a_node_def)
  have "map (map en_accountId) (map fm_entries fs) = [[7, 8]]"
    unfolding conjunct2 [OF tick_entries [OF n demo_leader(1,2) c a]] by (simp add: stall_groups)
  then show "map (map en_accountId \<circ> fm_entries)
      (fst (tick a_node fast_config demo_world (demo_replica ''a'' True) 5000 stall_store)) = [[7, 8]]"
    by (simp add: a)
  obtain b r1 where b: "take_over stall_store = (b, r1)" by fastforce
  obtain fs err p r where t: "tick demo_node fast_config demo_world b 20003 r1 = (fs, err, p, r)"
    by (metis prod_cases4)
  have "rp_isLeader b" "\<not> rp_ticking b" "queue_entries map_redis r1 = queue_entries map_redis stall_store"
    using stall_queue(2-4) by (simp_all add: b)
  from tick_entries [OF demo_bus this(1,2) c t] this(3)
  have "map (map en_accountId) (map fm_entries fs) = [[7, 8]]"
    by (simp add: stall_groups)
  then show "map (map en_accountId \<circ> fm_entries) (fst (b_tick stall_store)) = [[7, 8]]"
    by (simp add: b_tick_def b t)
qed

end
