(* ===== verification/TcpHandlers.thy ===== *)
theory TcpHandlers
  imports Matchmaker RoomSettings CsAdvanced
begin

text \<open>
  The message handlers of \<open>src/tcp/handlers\<close> and the router \<open>src/tcp/router.js\<close>: a request
  decoded from a \<open>ProtoReq\<close> is routed by (protocol, subcommand); its handler runs the room and
  matchmaker operations, broadcasts, and returns a reply, no reply, or throws.

  The protobuf codec is a library: \<open>sv_decode\<close> gives the decoded request object, and a reply is
  the object handed to the encoder. A handler's context carries the account and the field
  \<open>ret\<close> it may set; the result of a handler is its reply, that field, the pushes it published,
  the error it threw and the Redis state.
\<close>

section \<open>Requests, replies, contexts\<close>

record mm_req =
  mq_map_ids :: "int list option"
  mq_game_mode :: "int option"
  mq_match_mode :: "int option"
  mq_difficulty :: "int option"

record presence_req =
  pq_account_ids :: "int list option"
  pq_account_list_type :: "int option"

record tcp_req =
  tq_room :: room_req
  tq_mm :: mm_req
  tq_presence :: presence_req

record create_rule =
  cr_map_id :: int
  cr_game_mode :: int
  cr_group_mode :: int
  cr_members :: "int list"
  cr_spectators :: "int list"
  cr_room_type :: int
  cr_min_member_cnt :: int
  cr_enable_voice_chat :: bool

record rule_drop =
  dr_id :: int
  dr_room_type :: int
  dr_drop_type :: int
  dr_loc_key :: string
  dr_describe_key :: string
  dr_unlimited_ammo_switch :: int
  dr_air_drop_switch :: int
  dr_loadout_switch :: int
  dr_car_drop_switch :: int
  dr_air_ship_switch :: int
  dr_ban_gun_skin_attr :: int
  dr_hide_enemy_fashion :: int
  dr_friendly_fire :: int
  dr_hide_hud :: int
  dr_revival :: int

record open_mode =
  om_map_id :: int
  om_game_mode :: int
  om_match_mode :: int
  om_sort_id :: int
  om_start_time :: string
  om_end_time :: string
  om_is_new :: bool
  om_is_live_open :: bool
  om_config_start_time :: string
  om_config_end_time :: string
  om_weekday :: string
  om_tips :: string
  om_language :: string
  om_limited_count :: int
  om_tag :: int
  om_difficulty :: string
  om_visual_map :: string

record mm_start_ntf =
  mn_map_ids :: "int list"
  mn_game_mode :: int
  mn_difficulty :: int
  mn_match_mode :: int
  mn_avg_wait_time_sec :: int

record presence_info =
  pr_i :: int
  pr_r :: string
  pr_p :: int

datatype tcp_res =
    ResEmpty
  | ResRoomInfo room_info
  | ResRoomList "basic_info list"
  | ResCreateRule "create_rule list" "rule_drop list"
  | ResOpening "open_mode list" int
  | ResMMStart mm_start_ntf
  | ResPresence "presence_info list" int

record 'r served =
  sd_res :: "tcp_res option"
  sd_ret :: int
  sd_pushes :: "push list"
  sd_error :: "exn option"
  sd_store :: 'r

text \<open>What a handler draws on: the matchmaker's world, the CSV tables, the default region, the
  server's timezone offset and the clock.\<close>

record server_env =
  sv_config :: mm_config
  sv_world :: mm_world
  sv_tables :: cs_tables
  sv_region :: string
  sv_tz_minutes :: int
  sv_now :: int

text \<open>\<open>runOp\<close>: a room error becomes \<open>ctx.ret\<close> and an empty reply, any other error the generic
  failure code.\<close>

definition runOp :: "('r, tcp_res option \<times> push list) op \<Rightarrow> 'r \<Rightarrow> 'r served" where
  "runOp body r =
     (case body r of
        (Inr (res, ps), r') \<Rightarrow> \<lparr>sd_res = res, sd_ret = 0, sd_pushes = ps, sd_error = None, sd_store = r'\<rparr>
      | (Inl (RoomErr e), r') \<Rightarrow> \<lparr>sd_res = Some ResEmpty, sd_ret = errcode e, sd_pushes = [], sd_error = None, sd_store = r'\<rparr>
      | (Inl (Thrown _), r') \<Rightarrow>
          \<lparr>sd_res = Some ResEmpty, sd_ret = errcode CREATEROOMFAIL, sd_pushes = [], sd_error = None, sd_store = r'\<rparr>)"

definition then_op :: "('r, 'a) op \<Rightarrow> ('a \<Rightarrow> 'b) \<Rightarrow> ('r, 'b) op" where
  "then_op m f r = (case m r of (Inl e, r') \<Rightarrow> (Inl e, r') | (Inr a, r') \<Rightarrow> (Inr (f a), r'))"

section \<open>Room handlers\<close>

definition room_id_of_req :: "room_req \<Rightarrow> int" where
  "room_id_of_req req = or_num (rq_room_id req) 0"

definition RoomCreate :: "'r node \<Rightarrow> server_env \<Rightarrow> account \<Rightarrow> room_req \<Rightarrow> 'r \<Rightarrow> 'r served" where
  "RoomCreate N S a req =
     runOp (then_op (create N a req (sv_now S)) (\<lambda>rm. (Some (ResRoomInfo (toRoomInfo rm)), [])))"

definition RoomList :: "'r node \<Rightarrow> 'r \<Rightarrow> 'r served" where
  "RoomList N r = \<lparr>sd_res = Some (ResRoomList (list_rooms N r)), sd_ret = 0, sd_pushes = [], sd_error = None, sd_store = r\<rparr>"

definition RoomJoin :: "'r node \<Rightarrow> account \<Rightarrow> room_req \<Rightarrow> 'r \<Rightarrow> 'r served" where
  "RoomJoin N a req =
     runOp (then_op (join N a req) (\<lambda>(rm, joiner).
       (None, broadcast N (rm_members rm) None JOIN_NTF (joinNtf rm joiner))))"

definition DISMISS_NORMAL :: int where "DISMISS_NORMAL = 1"

definition RoomLeave :: "'r node \<Rightarrow> account \<Rightarrow> 'r \<Rightarrow> 'r served" where
  "RoomLeave N a r =
     (case leave N (acc_uid a) r of
        (Inl e, r') \<Rightarrow>
          \<lparr>sd_res = None, sd_ret = 0, sd_pushes = [], sd_error = Some e, sd_store = r'\<rparr>
      | (Inr None, r') \<Rightarrow>
          \<lparr>sd_res = Some ResEmpty, sd_ret = errcode NOTINROOM, sd_pushes = [], sd_error = None, sd_store = r'\<rparr>
      | (Inr (Some res), r') \<Rightarrow>
          \<lparr>sd_res = Some ResEmpty, sd_ret = 0,
               sd_pushes = (if lv_dismissed res
                 then broadcast N (lv_members res) (Some (acc_uid a)) DISMISS_NTF
                        (dismissNtf (lv_room res) (acc_uid a) DISMISS_NORMAL)
                 else broadcast N (rm_members (lv_room res)) (Some (acc_uid a)) LEAVE_NTF
                        (leaveNtf (lv_room res) (lv_leaver res))),
               sd_error = None, sd_store = r'\<rparr>)"

definition RoomKick :: "'r node \<Rightarrow> account \<Rightarrow> room_req \<Rightarrow> 'r \<Rightarrow> 'r served" where
  "RoomKick N a req =
     runOp (then_op (kick N (acc_uid a) (room_id_of_req req) (or_num (rq_kick_account_id req) 0))
       (\<lambda>(rm, target).
         (None, pushToAccount N (mb_account_id target) KICK_NTF (kickNtf rm target) @
                broadcast N (rm_members rm) None KICK_NTF (kickNtf rm target))))"

definition RoomChange :: "'r node \<Rightarrow> account \<Rightarrow> room_req \<Rightarrow> 'r \<Rightarrow> 'r served" where
  "RoomChange N a req =
     runOp (then_op (change N a req) (\<lambda>rm.
       (None, broadcast N (rm_members rm) None CHANGE_NTF (MRoomInfo (toRoomInfo rm)))))"

definition RoomSetReady :: "'r node \<Rightarrow> account \<Rightarrow> room_req \<Rightarrow> 'r \<Rightarrow> 'r served" where
  "RoomSetReady N a req =
     runOp (then_op (setReady N a (truthy (rq_ready req))) (\<lambda>rm.
       (None, broadcast N (rm_members rm) None SETREADY_NTF (setReadyNtf rm))))"

definition RoomSwitchSeat :: "'r node \<Rightarrow> account \<Rightarrow> room_req \<Rightarrow> 'r \<Rightarrow> 'r served" where
  "RoomSwitchSeat N a req =
     runOp (then_op (switchSeat N a req) (\<lambda>rm.
       (Some ResEmpty, broadcast N (rm_members rm) None SWITCHSEAT_NTF (MRoomInfo (toRoomInfo rm)))))"

definition RoomInfo :: "'r node \<Rightarrow> room_req \<Rightarrow> 'r \<Rightarrow> 'r served" where
  "RoomInfo N req r =
     (case reenter N (room_id_of_req req) r of
        (Inl e, r') \<Rightarrow>
          \<lparr>sd_res = None, sd_ret = 0, sd_pushes = [], sd_error = Some e, sd_store = r'\<rparr>
      | (Inr None, r') \<Rightarrow>
          \<lparr>sd_res = Some ResEmpty, sd_ret = errcode NOROOM, sd_pushes = [], sd_error = None, sd_store = r'\<rparr>
      | (Inr (Some rm), r') \<Rightarrow>
          \<lparr>sd_res = Some (ResRoomInfo (toRoomInfo rm)), sd_ret = 0, sd_pushes = [], sd_error = None, sd_store = r'\<rparr>)"

definition RoomCountDown :: "'r node \<Rightarrow> account \<Rightarrow> room_req \<Rightarrow> 'r \<Rightarrow> 'r served" where
  "RoomCountDown N a req r =
     (let roomId = int_or (room_id_of_req req) (roomIdOf N (acc_uid a) r);
          done = (\<lambda>ret ps. \<lparr>sd_res = None, sd_ret = ret, sd_pushes = ps, sd_error = None, sd_store = r\<rparr>)
      in case get_room N roomId r of
           None \<Rightarrow> done (errcode NOROOM) []
         | Some rm \<Rightarrow>
             if rm_owner rm \<noteq> acc_uid a then done (errcode NOTOWNER) []
             else done 0 (broadcast N (rm_members rm) None COUNTDOWN_NTF
                            (MRoomCountDownNtf (or_num (rq_count_down_seconds req) 0))))"

section \<open>Starting a room match\<close>

definition ROOM_MATCH_MODE :: int where "ROOM_MATCH_MODE = 3"

text \<open>The round count and the economy: simple mode, overridden by a decodable advanced blob.\<close>

definition advanced_of :: "cs_tables \<Rightarrow> room \<Rightarrow> overlay option" where
  "advanced_of T rm =
     (if rm_is_cs_advanced rm \<and> rm_cs_advanced rm \<noteq> [] then decodeAdvanced T (rm_cs_advanced rm) else None)"

definition nonzero :: "('a :: zero) option \<Rightarrow> 'a option" where
  "nonzero x = (case x of Some v \<Rightarrow> if v = 0 then None else Some v | None \<Rightarrow> None)"

definition start_settings :: "cs_tables \<Rightarrow> room \<Rightarrow> match_settings" where
  "start_settings T rm =
     (let s = decodeRoomSettings rm;
          adv = advanced_of T rm;
          roundCount = (case adv of
              Some v \<Rightarrow> if ov_roundCount v \<noteq> 0 then Some (ov_roundCount v) else ds_roundCount s
            | None \<Rightarrow> ds_roundCount s);
          economy = (case adv of
              Some v \<Rightarrow> if ov_perRoundBase v \<noteq> [] then Some (ov_perRoundBase v) else ds_economyTable s
            | None \<Rightarrow> ds_economyTable s)
      in \<lparr>ms_flags = ds_flags s,
          ms_max_hp = nonzero (ds_maxHP s),
          ms_room_setting = nonzero (Some (ds_roomSetting s)),
          ms_room_setting2 = nonzero (Some (ds_roomSetting2 s)),
          ms_speed_mul = nonzero (ds_speedMul s),
          ms_jump_mul = nonzero (ds_jumpMul s),
          ms_shop_items = (case adv of
              Some v \<Rightarrow> if ov_shopItems v \<noteq> [] then Some (ov_shopItems v) else None | None \<Rightarrow> None),
          ms_events = (case adv of Some v \<Rightarrow> ov_events v | None \<Rightarrow> None),
          ms_round_count = nonzero roundCount,
          ms_economy = economy\<rparr>)"

definition room_suss :: "room \<Rightarrow> int \<Rightarrow> string \<Rightarrow> string \<Rightarrow> suss_ntf" where
  "room_suss rm matchId serverAddr prepareToken = \<lparr>
     sn_match_id = matchId,
     sn_server_addr = serverAddr,
     sn_secret = mm_secret,
     sn_prepare_token = prepareToken,
     sn_sleep_ms = 1,
     sn_map_id = rm_map_id rm,
     sn_game_mode = rm_game_mode rm,
     sn_group_mode = rm_group_mode rm,
     sn_match_mode = ROOM_MATCH_MODE,
     sn_level_visual_style = rm_level_visual_style rm,
     sn_difficulty = 0,
     sn_use_cache = False,
     sn_first_login = False\<rparr>"

text \<open>The handoff of one member: the host's account is the fresh one of the context.\<close>

definition start_push :: "'r node \<Rightarrow> server_env \<Rightarrow> account \<Rightarrow> room \<Rightarrow> int \<Rightarrow> string \<Rightarrow> member \<Rightarrow> push list" where
  "start_push N S host rm matchId addr m =
     (if mb_account_id m = 0 then []
      else (case (if mb_account_id m = acc_uid host then Some host
                  else mw_getById (sv_world S) (mb_account_id m)) of
              None \<Rightarrow> []
            | Some a \<Rightarrow> pushToAccount N (mb_account_id m) MATCHMAKINGSUSS_NTF
                (MMatchmakingSussNtf (room_suss rm matchId addr
                   (buildPrepareToken (mw_jwt (sv_world S)) (sv_config S) a matchId (mb_group_id m) (sv_now S))))))"

definition RoomStart :: "'r node \<Rightarrow> server_env \<Rightarrow> account \<Rightarrow> room_req \<Rightarrow> 'r \<Rightarrow> 'r served" where
  "RoomStart N S a req =
     runOp (\<lambda>r. case startMatch N (acc_uid a) (room_id_of_req req) r of
        (Inl e, r1) \<Rightarrow> (Inl e, r1)
      | (Inr rm, r1) \<Rightarrow>
          (case nextMatchId N (nd_env N r1) of (matchId, r2) \<Rightarrow>
             (let addr = str_or (pickServer (mw_servers (sv_world S)) (mw_rnd (sv_world S) matchId))
                           (staticAddr (sv_config S));
                  r3 = (case nd_bus N of
                          None \<Rightarrow> r2
                        | Some R \<Rightarrow> bus_setKey R (MatchSettings matchId)
                                      (SSettings (start_settings (sv_tables S) rm)) 3600 r2)
              in (Inr (None, concat (map (start_push N S a rm matchId addr) (rm_members rm))), r3))))"

section \<open>The create dialog and the open modes\<close>

definition csRule :: "int \<Rightarrow> create_rule" where
  "csRule roomType = \<lparr>
     cr_map_id = 1,
     cr_game_mode = 15,
     cr_group_mode = 3,
     cr_members = [8, 6, 4, 2],
     cr_spectators = [0, 1, 2],
     cr_room_type = roomType,
     cr_min_member_cnt = 2,
     cr_enable_voice_chat = True\<rparr>"

definition csDrop :: "int \<Rightarrow> int \<Rightarrow> rule_drop" where
  "csDrop i roomType = \<lparr>
     dr_id = i,
     dr_room_type = roomType,
     dr_drop_type = 1,
     dr_loc_key = (if roomType = 1 then ''CASUAL'' else ''RoomCreateDrop_CS''),
     dr_describe_key = (if roomType = 1 then ''The casual ruleset for matches.'' else ''RoomCreateDropDesc_CS''),
     dr_unlimited_ammo_switch = 1,
     dr_air_drop_switch = 0,
     dr_loadout_switch = 1,
     dr_car_drop_switch = 0,
     dr_air_ship_switch = 0,
     dr_ban_gun_skin_attr = 0,
     dr_hide_enemy_fashion = 0,
     dr_friendly_fire = 0,
     dr_hide_hud = 0,
     dr_revival = 0\<rparr>"

definition RoomCreateRule :: "'r \<Rightarrow> 'r served" where
  "RoomCreateRule r =
     \<lparr>sd_res = Some (ResCreateRule [csRule 1, csRule 2] [csDrop 1 1]), sd_ret = 0, sd_pushes = [], sd_error = None, sd_store = r\<rparr>"

definition open_mode_row :: "int \<Rightarrow> int \<Rightarrow> int \<Rightarrow> int \<Rightarrow> open_mode" where
  "open_mode_row mapId gameMode matchMode sortId = \<lparr>
     om_map_id = mapId,
     om_game_mode = gameMode,
     om_match_mode = matchMode,
     om_sort_id = sortId,
     om_start_time = ''00:00'',
     om_end_time = ''23:59'',
     om_is_new = False,
     om_is_live_open = True,
     om_config_start_time = ''2020-01-01 00:00:00'',
     om_config_end_time = ''2030-12-31 23:59:59'',
     om_weekday = ''1;2;3;4;5;6;7'',
     om_tips = [],
     om_language = ''en'',
     om_limited_count = 0,
     om_tag = 0,
     om_difficulty = ''1'',
     om_visual_map = []\<rparr>"

definition OPEN_MODES :: "open_mode list" where
  "OPEN_MODES = [open_mode_row 1 15 6 1, open_mode_row 7 23 5 2]"

definition GameOpeningInfo :: "server_env \<Rightarrow> 'r \<Rightarrow> 'r served" where
  "GameOpeningInfo S r =
     \<lparr>sd_res = Some (ResOpening OPEN_MODES (- sv_tz_minutes S * 60)), sd_ret = 0, sd_pushes = [], sd_error = None, sd_store = r\<rparr>"

section \<open>Matchmaking and presence handlers\<close>

definition start_mode :: "mm_req \<Rightarrow> mode" where
  "start_mode q = \<lparr>
     md_match_mode = or_num (mq_match_mode q) 1,
     md_game_mode = or_num (mq_game_mode q) 15,
     md_map_id = (case mq_map_ids q of Some (i # _) \<Rightarrow> int_or i 1 | _ \<Rightarrow> 1),
     md_difficulty = or_num (mq_difficulty q) 0\<rparr>"

definition MatchmakingStart :: "'r node \<Rightarrow> server_env \<Rightarrow> account \<Rightarrow> mm_req \<Rightarrow> 'r \<Rightarrow> 'r served" where
  "MatchmakingStart N S a q r =
     (let m = start_mode q in
      \<lparr>sd_res = Some (ResMMStart \<lparr>
             mn_map_ids = (case mq_map_ids q of Some (i # is) \<Rightarrow> i # is | _ \<Rightarrow> [md_map_id m]),
             mn_game_mode = md_game_mode m,
             mn_difficulty = md_difficulty m,
             mn_match_mode = md_match_mode m,
             mn_avg_wait_time_sec = 15\<rparr>),
           sd_ret = 0, sd_pushes = [], sd_error = None, sd_store = enqueue N (sv_config S) a m (sv_now S) r\<rparr>)"

definition MatchmakingCancel :: "'r node \<Rightarrow> account \<Rightarrow> 'r \<Rightarrow> 'r served" where
  "MatchmakingCancel N a r =
     \<lparr>sd_res = Some ResEmpty, sd_ret = 0, sd_pushes = [], sd_error = None, sd_store = cancel N (acc_uid a) r\<rparr>"

definition MatchmakingDropMatch :: "'r node \<Rightarrow> account \<Rightarrow> 'r \<Rightarrow> 'r served" where
  "MatchmakingDropMatch N a r =
     \<lparr>sd_res = None, sd_ret = 0, sd_pushes = [], sd_error = None, sd_store = cancel N (acc_uid a) r\<rparr>"

definition PresenceList :: "'r node \<Rightarrow> server_env \<Rightarrow> presence_req \<Rightarrow> 'r \<Rightarrow> 'r served" where
  "PresenceList N S q r =
     (let ids = filter (\<lambda>i. i \<noteq> 0) (nullish (pq_account_ids q) []);
          online = (case nd_bus N of
                      Some R \<Rightarrow> if ids \<noteq> [] then getNodes R ids r else (\<lambda>_. None)
                    | None \<Rightarrow> (\<lambda>_. None))
      in \<lparr>sd_res = Some (ResPresence
               (map (\<lambda>i. \<lparr>pr_i = i, pr_r = sv_region S, pr_p = (if online i = None then 0 else 1)\<rparr>) ids)
               (or_num (pq_account_list_type q) 0)),
              sd_ret = 0, sd_pushes = [], sd_error = None, sd_store = r\<rparr>)"

section \<open>The router\<close>

datatype handler =
    HRoomCreate | HRoomList | HRoomJoin | HRoomLeave | HRoomKick | HRoomChange | HRoomSetReady
  | HRoomSwitchSeat | HRoomInfo | HRoomStart | HRoomCountDown | HRoomCreateRule | HGameOpeningInfo
  | HMatchmakingStart | HMatchmakingCancel | HMatchmakingDropMatch | HPresenceList

record route =
  rt_fn :: handler
  rt_has_req :: bool
  rt_resCmd :: "int option"

type_synonym routes = "(int \<times> int) \<Rightarrow> route option"

definition register_route :: "int \<Rightarrow> int \<Rightarrow> handler \<Rightarrow> bool \<Rightarrow> int option \<Rightarrow> routes \<Rightarrow> routes" where
  "register_route protocol subcmd fn hasReq resCmd rs =
     rs((protocol, subcmd) \<mapsto> \<lparr>rt_fn = fn, rt_has_req = hasReq, rt_resCmd = resCmd\<rparr>)"

definition PROTO_PRESENCE :: int where "PROTO_PRESENCE = 15"

text \<open>What each module exports (protocol, subcommand, handler, whether it has a request type, the
  subcommand of its reply), and the table \<open>load\<close> fills from them, in the order of the file names.\<close>

type_synonym handler_module = "int \<times> int \<times> handler \<times> bool \<times> int option"

definition mod_GameOpeningInfo :: handler_module where
  "mod_GameOpeningInfo = (PROTO_MATCHMAKING, 7, HGameOpeningInfo, True, None)"

definition mod_MatchmakingCancel :: handler_module where
  "mod_MatchmakingCancel = (PROTO_MATCHMAKING, 2, HMatchmakingCancel, False, Some 14)"

definition mod_MatchmakingDropMatch :: handler_module where
  "mod_MatchmakingDropMatch = (PROTO_MATCHMAKING, 6, HMatchmakingDropMatch, False, None)"

definition mod_MatchmakingStart :: handler_module where
  "mod_MatchmakingStart = (PROTO_MATCHMAKING, 1, HMatchmakingStart, True, Some 11)"

definition mod_PresenceList :: handler_module where
  "mod_PresenceList = (PROTO_PRESENCE, 1, HPresenceList, True, None)"

definition mod_RoomChange :: handler_module where
  "mod_RoomChange = (PROTO_ROOM, room_cmd_num CHANGE, HRoomChange, True, None)"

definition mod_RoomCountDown :: handler_module where
  "mod_RoomCountDown = (PROTO_ROOM, room_cmd_num COUNTDOWN, HRoomCountDown, True, None)"

definition mod_RoomCreate :: handler_module where
  "mod_RoomCreate = (PROTO_ROOM, room_cmd_num CREATE, HRoomCreate, True, None)"

definition mod_RoomCreateRule :: handler_module where
  "mod_RoomCreateRule = (PROTO_ROOM, room_cmd_num ROOM_CREATE_RULE, HRoomCreateRule, False, None)"

definition mod_RoomInfo :: handler_module where
  "mod_RoomInfo = (PROTO_ROOM, room_cmd_num ROOMINFO, HRoomInfo, True, None)"

definition mod_RoomJoin :: handler_module where
  "mod_RoomJoin = (PROTO_ROOM, room_cmd_num JOIN, HRoomJoin, True, None)"

definition mod_RoomKick :: handler_module where
  "mod_RoomKick = (PROTO_ROOM, room_cmd_num KICK, HRoomKick, True, None)"

definition mod_RoomLeave :: handler_module where
  "mod_RoomLeave = (PROTO_ROOM, room_cmd_num LEAVE, HRoomLeave, True, None)"

definition mod_RoomList :: handler_module where
  "mod_RoomList = (PROTO_ROOM, room_cmd_num ROOMLIST, HRoomList, True, None)"

definition mod_RoomSetReady :: handler_module where
  "mod_RoomSetReady = (PROTO_ROOM, room_cmd_num SETREADY, HRoomSetReady, True, None)"

definition mod_RoomStart :: handler_module where
  "mod_RoomStart = (PROTO_ROOM, room_cmd_num START, HRoomStart, True, None)"

definition mod_RoomSwitchSeat :: handler_module where
  "mod_RoomSwitchSeat = (PROTO_ROOM, room_cmd_num SWITCHSEAT, HRoomSwitchSeat, True, None)"

definition handler_modules :: "handler_module list" where
  "handler_modules = [
     mod_GameOpeningInfo, mod_MatchmakingCancel, mod_MatchmakingDropMatch, mod_MatchmakingStart, mod_PresenceList,
     mod_RoomChange, mod_RoomCountDown, mod_RoomCreate,
     mod_RoomCreateRule, mod_RoomInfo, mod_RoomJoin,
     mod_RoomKick, mod_RoomLeave, mod_RoomList, mod_RoomSetReady, mod_RoomStart, mod_RoomSwitchSeat]"

lemmas handler_modules_simps =
  handler_modules_def mod_GameOpeningInfo_def mod_MatchmakingCancel_def mod_MatchmakingDropMatch_def mod_MatchmakingStart_def mod_PresenceList_def mod_RoomChange_def mod_RoomCountDown_def mod_RoomCreate_def mod_RoomCreateRule_def mod_RoomInfo_def mod_RoomJoin_def mod_RoomKick_def mod_RoomLeave_def mod_RoomList_def mod_RoomSetReady_def mod_RoomStart_def mod_RoomSwitchSeat_def

definition load_routes :: routes where
  "load_routes = fold (\<lambda>(p, s, fn, hr, rc). register_route p s fn hr rc) handler_modules (\<lambda>_. None)"

fun run_handler ::
  "'r node \<Rightarrow> server_env \<Rightarrow> account \<Rightarrow> handler \<Rightarrow> tcp_req \<Rightarrow> 'r \<Rightarrow> 'r served" where
  "run_handler N S a HRoomCreate q r = RoomCreate N S a (tq_room q) r"
| "run_handler N S a HRoomList q r = RoomList N r"
| "run_handler N S a HRoomJoin q r = RoomJoin N a (tq_room q) r"
| "run_handler N S a HRoomLeave q r = RoomLeave N a r"
| "run_handler N S a HRoomKick q r = RoomKick N a (tq_room q) r"
| "run_handler N S a HRoomChange q r = RoomChange N a (tq_room q) r"
| "run_handler N S a HRoomSetReady q r = RoomSetReady N a (tq_room q) r"
| "run_handler N S a HRoomSwitchSeat q r = RoomSwitchSeat N a (tq_room q) r"
| "run_handler N S a HRoomInfo q r = RoomInfo N (tq_room q) r"
| "run_handler N S a HRoomStart q r = RoomStart N S a (tq_room q) r"
| "run_handler N S a HRoomCountDown q r = RoomCountDown N a (tq_room q) r"
| "run_handler N S a HRoomCreateRule q r = RoomCreateRule r"
| "run_handler N S a HGameOpeningInfo q r = GameOpeningInfo S r"
| "run_handler N S a HMatchmakingStart q r = MatchmakingStart N S a (tq_mm q) r"
| "run_handler N S a HMatchmakingCancel q r = MatchmakingCancel N a r"
| "run_handler N S a HMatchmakingDropMatch q r = MatchmakingDropMatch N a r"
| "run_handler N S a HPresenceList q r = PresenceList N S (tq_presence q) r"

text \<open>The object \<open>{}\<close> a handler gets when there is nothing to decode.\<close>

definition empty_req :: tcp_req where
  "empty_req = \<lparr>
     tq_room = \<lparr>rq_room_id = None, rq_room_name = None, rq_code = None, rq_map_id = None,
       rq_game_mode = None, rq_group_mode = None, rq_max_member_num = None, rq_max_spectator_num = None,
       rq_room_type = None, rq_enable_death_spectate = None, rq_level_visual_style = None,
       rq_room_setting = None, rq_room_setting2 = None, rq_is_cs_advanced = None,
       rq_cs_advanced_setting = None, rq_ready = None, rq_kick_account_id = None, rq_to_room_pos = None,
       rq_to_group_pos = None, rq_count_down_seconds = None\<rparr>,
     tq_mm = \<lparr>mq_map_ids = None, mq_game_mode = None, mq_match_mode = None, mq_difficulty = None\<rparr>,
     tq_presence = \<lparr>pq_account_ids = None, pq_account_list_type = None\<rparr>\<rparr>"

record reply =
  ry_res :: tcp_res
  ry_ret :: int
  ry_resCmd :: int

datatype dispatched = Unrouted | NoReply | Replied reply

text \<open>\<open>decode\<close> is the protobuf decoder of the handler's request type; it throws on bytes it
  cannot decode.\<close>

definition dispatch ::
  "'r node \<Rightarrow> server_env \<Rightarrow> (handler \<Rightarrow> bytes \<Rightarrow> tcp_req option) \<Rightarrow> account \<Rightarrow> int \<Rightarrow> int \<Rightarrow> bytes \<Rightarrow> 'r
     \<Rightarrow> (exn + dispatched) \<times> push list \<times> 'r" where
  "dispatch N S decode a protocol subcmd reqData r =
     (case load_routes (protocol, subcmd) of
        None \<Rightarrow> (Inr Unrouted, [], r)
      | Some rt \<Rightarrow>
          (case (if rt_has_req rt \<and> reqData \<noteq> [] then decode (rt_fn rt) reqData else Some empty_req) of
             None \<Rightarrow> (Inl (Thrown ''decode''), [], r)
           | Some q \<Rightarrow>
               (let d = run_handler N S a (rt_fn rt) q r
                in (case sd_error d of
                      Some e \<Rightarrow> Inl e
                    | None \<Rightarrow>
                        (case sd_res d of
                           None \<Rightarrow> Inr NoReply
                         | Some res \<Rightarrow> Inr (Replied
                             \<lparr>ry_res = res, ry_ret = sd_ret d, ry_resCmd = nullish (rt_resCmd rt) subcmd\<rparr>)),
                    sd_pushes d, sd_store d))))"

end
