(* ===== verification/Framing.thy ===== *)
theory Framing
  imports Prelude
begin

text \<open>
  The TCP framing of \<open>src/tcp/framing.js\<close>: the parser of client frames over the bytes received
  so far and the encoder of server frames. AES-128-CBC is a library. \<open>client_frame\<close> is the
  client's side of the format the header comment of the file states, and \<open>read_server_frame\<close>
  its reader of server frames; the lemmas relate them to the code.
\<close>

definition CMD_AUTH :: byte where "CMD_AUTH = 1"
definition CMD_HEARTBEAT :: byte where "CMD_HEARTBEAT = 2"
definition CMD_KICK :: byte where "CMD_KICK = 11"

definition INIT_ACK :: bytes where "INIT_ACK = [CMD_HEARTBEAT]"

record frame =
  fr_cmd :: byte
  fr_region :: byte
  fr_payload :: "bytes option"

text \<open>\<open>readUInt32BE\<close> and \<open>writeUInt32BE\<close>.\<close>

definition be32 :: "byte \<Rightarrow> byte \<Rightarrow> byte \<Rightarrow> byte \<Rightarrow> nat" where
  "be32 b0 b1 b2 b3 = 16777216 * unat b0 + 65536 * unat b1 + 256 * unat b2 + unat b3"

definition be32_bytes :: "nat \<Rightarrow> bytes" where
  "be32_bytes n = [of_nat (n div 16777216), of_nat (n div 65536), of_nat (n div 256), of_nat n]"

text \<open>The loop of \<open>parseClientFrames\<close>, on the bytes from the offset on.\<close>

function parseClientFrames :: "bytes \<Rightarrow> frame list \<times> bytes" where
  "parseClientFrames buf =
     (if length buf < 2 then ([], buf)
      else if buf ! 0 = CMD_HEARTBEAT
      then (case parseClientFrames (drop 2 buf) of (fs, rest) \<Rightarrow>
              (\<lparr>fr_cmd = buf ! 0, fr_region = buf ! 1, fr_payload = None\<rparr> # fs, rest))
      else if length buf < 6 then ([], buf)
      else (let len = be32 (buf ! 2) (buf ! 3) (buf ! 4) (buf ! 5)
            in if length buf < 6 + len then ([], buf)
               else (case parseClientFrames (drop (6 + len) buf) of (fs, rest) \<Rightarrow>
                       (\<lparr>fr_cmd = buf ! 0, fr_region = buf ! 1,
                         fr_payload = Some (take len (drop 6 buf))\<rparr> # fs, rest))))"
  by pat_completeness auto
termination
  by (relation "measure length") auto

declare parseClientFrames.simps [simp del]

definition encodeServerFrame :: "byte \<Rightarrow> bytes option \<Rightarrow> bytes" where
  "encodeServerFrame cmd payload =
     (if cmd = CMD_HEARTBEAT then [CMD_HEARTBEAT]
      else (let p = nullish payload [] in [cmd] @ be32_bytes (length p) @ p))"

section \<open>The other side of the format\<close>

definition client_frame :: "frame \<Rightarrow> bytes" where
  "client_frame f =
     (case fr_payload f of
        None \<Rightarrow> [fr_cmd f, fr_region f]
      | Some p \<Rightarrow> [fr_cmd f, fr_region f] @ be32_bytes (length p) @ p)"

definition frame_ok :: "frame \<Rightarrow> bool" where
  "frame_ok f \<longleftrightarrow> (case fr_payload f of
      None \<Rightarrow> fr_cmd f = CMD_HEARTBEAT
    | Some p \<Rightarrow> fr_cmd f \<noteq> CMD_HEARTBEAT \<and> length p < 2 ^ 32)"

definition read_server_frame :: "bytes \<Rightarrow> (byte \<times> bytes option \<times> bytes) option" where
  "read_server_frame buf =
     (case buf of
        [] \<Rightarrow> None
      | c # rest \<Rightarrow>
          if c = CMD_HEARTBEAT then Some (c, None, rest)
          else (case rest of
                  b0 # b1 # b2 # b3 # body \<Rightarrow>
                    if length body < be32 b0 b1 b2 b3 then None
                    else Some (c, Some (take (be32 b0 b1 b2 b3) body), drop (be32 b0 b1 b2 b3) body)
                | _ \<Rightarrow> None))"

lemma be32_be32_bytes:
  assumes "n < 2 ^ 32"
  shows "be32 (of_nat (n div 16777216)) (of_nat (n div 65536)) (of_nat (n div 256)) (of_nat n) = n"
proof -
  have u: "unat (of_nat k :: byte) = k mod 256" for k
    by (simp add: unat_of_nat)
  define a b c where "a = n div 256" and "b = n div 65536" and "c = n div 16777216"
  have "b = a div 256" "c = b div 256"
    by (simp_all add: a_def b_def c_def div_mult2_eq [symmetric])
  moreover have "c < 256"
    using assms by (simp add: c_def less_mult_imp_div_less)
  ultimately have "256 * a + n mod 256 = n" "256 * b + a mod 256 = a" "256 * c + b mod 256 = b" "c mod 256 = c"
    by (simp_all add: a_def)
  then show ?thesis
    unfolding be32_def u a_def [symmetric] b_def [symmetric] c_def [symmetric] by linarith
qed

lemma length_be32_bytes [simp]: "length (be32_bytes n) = 4"
  by (simp add: be32_bytes_def)

text \<open>What parsing a buffer that starts with a complete frame gives, and that a proper prefix of
  a frame is kept for the next chunk.\<close>

lemma parse_frame:
  assumes "frame_ok f"
  shows "parseClientFrames (client_frame f @ rest) =
    (case parseClientFrames rest of (fs, r) \<Rightarrow> (f # fs, r))"
proof (cases "fr_payload f")
  case None
  then have c: "fr_cmd f = CMD_HEARTBEAT"
    using assms by (simp add: frame_ok_def)
  have f: "\<lparr>fr_cmd = CMD_HEARTBEAT, fr_region = fr_region f, fr_payload = None\<rparr> = f"
    using None c by simp
  have b: "client_frame f @ rest = CMD_HEARTBEAT # fr_region f # rest"
    by (simp add: client_frame_def None c)
  show ?thesis
    unfolding b by (subst parseClientFrames.simps) (simp add: f)
next
  case (Some p)
  then have c: "fr_cmd f \<noteq> CMD_HEARTBEAT" and l: "length p < 2 ^ 32"
    using assms by (simp_all add: frame_ok_def)
  have f: "f = \<lparr>fr_cmd = fr_cmd f, fr_region = fr_region f, fr_payload = Some p\<rparr>"
    using Some by simp
  let ?n = "length p"
  have b: "client_frame f @ rest = fr_cmd f # fr_region f # of_nat (?n div 16777216) #
      of_nat (?n div 65536) # of_nat (?n div 256) # of_nat ?n # p @ rest"
    by (simp add: client_frame_def Some be32_bytes_def)
  have "parseClientFrames (client_frame f @ rest) =
      (case parseClientFrames rest of (fs, r) \<Rightarrow>
         (\<lparr>fr_cmd = fr_cmd f, fr_region = fr_region f, fr_payload = Some p\<rparr> # fs, r))"
  proof -
    let ?bs = "fr_cmd f # fr_region f # of_nat (?n div 16777216) # of_nat (?n div 65536) #
        of_nat (?n div 256) # of_nat ?n # p @ rest :: bytes"
    have "drop (6 + ?n) ?bs = drop ?n (drop 6 ?bs)"
      by (simp only: drop_drop add.commute)
    then have d: "drop (6 + ?n) ?bs = rest" "take ?n (drop 6 ?bs) = p" "\<not> length ?bs < 6 + ?n"
      by simp_all
    have h: "be32 (?bs ! 2) (?bs ! 3) (?bs ! 4) (?bs ! 5) = ?n" "?bs ! 0 = fr_cmd f" "?bs ! 1 = fr_region f"
      "\<not> length ?bs < 2" "\<not> length ?bs < 6"
      by (simp_all add: be32_be32_bytes [OF l])
    show ?thesis
      unfolding b using c by (subst parseClientFrames.simps) (simp only: d h Let_def if_False)
  qed
  then show ?thesis
    by (simp only: f [symmetric])
qed

lemma parse_short:
  assumes "frame_ok f" and "k < length (client_frame f)"
  shows "parseClientFrames (take k (client_frame f)) = ([], take k (client_frame f))"
proof (cases "fr_payload f")
  case None
  with assms(2) show ?thesis
    by (subst parseClientFrames.simps) (simp add: client_frame_def)
next
  case (Some p)
  then have c: "fr_cmd f \<noteq> CMD_HEARTBEAT" and l: "length p < 2 ^ 32"
    using assms by (simp_all add: frame_ok_def)
  let ?n = "length p" and ?b = "take k (client_frame f)"
  have cf: "client_frame f = fr_cmd f # fr_region f # of_nat (?n div 16777216) #
      of_nat (?n div 65536) # of_nat (?n div 256) # of_nat ?n # p"
    by (simp add: client_frame_def Some be32_bytes_def)
  have len: "length ?b = k" "k < 6 + ?n"
    using assms(2) by (simp_all add: cf)
  show ?thesis
  proof (cases "6 \<le> k")
    case False
    have "2 \<le> k \<Longrightarrow> ?b ! 0 = fr_cmd f"
      by (simp add: cf)
    with False len(1) c show ?thesis
      by (subst parseClientFrames.simps) (auto simp del: length_take)
  next
    case True
    then have n: "?b ! i = client_frame f ! i" if "i < 6" for i
      using that by simp
    have h: "?b ! 0 = fr_cmd f" "be32 (?b ! 2) (?b ! 3) (?b ! 4) (?b ! 5) = ?n"
      by (simp_all add: n) (simp_all add: cf be32_be32_bytes [OF l])
    have g: "\<not> length ?b < 2" "\<not> length ?b < 6" "length ?b < 6 + ?n"
      using True len by simp_all
    show ?thesis
      by (subst parseClientFrames.simps) (simp only: h g c Let_def if_True if_False)
  qed
qed

text \<open>Parsing in two steps is parsing at once: where the chunks are cut does not matter.\<close>

lemma parse_append:
  "parseClientFrames (a @ b) =
     (case parseClientFrames a of (fs, r) \<Rightarrow>
        (case parseClientFrames (r @ b) of (gs, r') \<Rightarrow> (fs @ gs, r')))"
proof (induction a rule: parseClientFrames.induct)
  case (1 a)
  consider (short) "length a < 2" | (hb) "2 \<le> length a" "a ! 0 = CMD_HEARTBEAT"
    | (head) "2 \<le> length a" "a ! 0 \<noteq> CMD_HEARTBEAT" "length a < 6"
    | (part) "6 \<le> length a" "a ! 0 \<noteq> CMD_HEARTBEAT" "length a < 6 + be32 (a ! 2) (a ! 3) (a ! 4) (a ! 5)"
    | (full) "6 \<le> length a" "a ! 0 \<noteq> CMD_HEARTBEAT" "6 + be32 (a ! 2) (a ! 3) (a ! 4) (a ! 5) \<le> length a"
    by linarith
  then show ?case
  proof cases
    case short
    then have "parseClientFrames a = ([], a)"
      by (subst parseClientFrames.simps) simp
    then show ?thesis by (simp split: prod.split)
  next
    case head
    then have "parseClientFrames a = ([], a)"
      by (subst parseClientFrames.simps) simp
    then show ?thesis by (simp split: prod.split)
  next
    case part
    then have "parseClientFrames a = ([], a)"
      by (subst parseClientFrames.simps) (simp add: Let_def)
    then show ?thesis by (simp split: prod.split)
  next
    case hb
    then have "a \<noteq> []" by auto
    with hb have ab: "\<not> length (a @ b) < 2" "(a @ b) ! 0 = CMD_HEARTBEAT" "(a @ b) ! 1 = a ! 1"
      "a ! 0 = CMD_HEARTBEAT" "drop 2 (a @ b) = drop 2 a @ b"
      by (simp_all add: nth_append)
    from hb have IH: "parseClientFrames (drop 2 a @ b) =
        (case parseClientFrames (drop 2 a) of (fs, r) \<Rightarrow>
          (case parseClientFrames (r @ b) of (gs, r') \<Rightarrow> (fs @ gs, r')))"
      using 1(1) by simp
    have "parseClientFrames a = (case parseClientFrames (drop 2 a) of (fs, rest) \<Rightarrow>
        (\<lparr>fr_cmd = a ! 0, fr_region = a ! 1, fr_payload = None\<rparr> # fs, rest))"
      using hb by (subst parseClientFrames.simps) simp
    moreover have "parseClientFrames (a @ b) = (case parseClientFrames (drop 2 a @ b) of (fs, rest) \<Rightarrow>
        (\<lparr>fr_cmd = a ! 0, fr_region = a ! 1, fr_payload = None\<rparr> # fs, rest))"
      by (subst parseClientFrames.simps) (simp only: ab simp_thms if_True if_False)
    ultimately show ?thesis
      by (simp add: IH split: prod.split)
  next
    case full
    let ?n = "be32 (a ! 2) (a ! 3) (a ! 4) (a ! 5)"
    let ?f = "\<lparr>fr_cmd = a ! 0, fr_region = a ! 1, fr_payload = Some (take ?n (drop 6 a))\<rparr>"
    from full have ne: "a \<noteq> []" by auto
    from full have IH: "parseClientFrames (drop (6 + ?n) a @ b) =
        (case parseClientFrames (drop (6 + ?n) a) of (fs, r) \<Rightarrow>
          (case parseClientFrames (r @ b) of (gs, r') \<Rightarrow> (fs @ gs, r')))"
      using 1(2) by simp
    have "parseClientFrames a = (case parseClientFrames (drop (6 + ?n) a) of (fs, rest) \<Rightarrow> (?f # fs, rest))"
      using full by (subst parseClientFrames.simps) (simp add: Let_def)
    moreover have "parseClientFrames (a @ b) =
        (case parseClientFrames (drop (6 + ?n) a @ b) of (fs, rest) \<Rightarrow> (?f # fs, rest))"
    proof -
      have nth: "(a @ b) ! i = a ! i" if "i < 6" for i
        using that full(1) by (simp add: nth_append)
      have nths: "(a @ b) ! 0 = a ! 0" "(a @ b) ! 1 = a ! 1" "(a @ b) ! 2 = a ! 2" "(a @ b) ! 3 = a ! 3"
          "(a @ b) ! 4 = a ! 4" "(a @ b) ! 5 = a ! 5"
        by (rule nth, simp)+
      have ab: "\<not> length (a @ b) < 2" "\<not> length (a @ b) < 6" "\<not> length (a @ b) < 6 + ?n"
          "drop (6 + ?n) (a @ b) = drop (6 + ?n) a @ b" "take ?n (drop 6 (a @ b)) = take ?n (drop 6 a)"
        using full by simp_all
      show ?thesis
        by (subst parseClientFrames.simps)
          (simp only: nths ab full(2) Let_def if_False)
    qed
    ultimately show ?thesis
      by (simp add: IH split: prod.split)
  qed
qed

lemma read_encodeServerFrame:
  "cmd \<noteq> CMD_HEARTBEAT \<Longrightarrow> length p < 2 ^ 32 \<Longrightarrow>
     read_server_frame (encodeServerFrame cmd (Some p) @ rest) = Some (cmd, Some p, rest)"
  by (simp add: read_server_frame_def encodeServerFrame_def Let_def be32_bytes_def be32_be32_bytes nullish_def)

end
