(* ===== verification/Gateway.thy ===== *)
theory Gateway
  imports TcpHandlers Framing
begin

text \<open>
  The TCP gateway (\<open>src/tcp/gateway.js\<close>). Sockets are numbers. A session object is shared: the
  \<open>sessions\<close> map and the connection's \<open>entry\<close> variable point to the same one, and
  \<open>player.updated\<close> mutates it, so the gateway state has a store of session objects, the map
  from account id to object, and per socket the receive buffer and the current entry. What is
  written to sockets is the list \<open>gw_out\<close>.

  The events are functions on that state and Redis: a connection, the processing of a chunk
  (\<open>on_data\<close>, which the promise chain of the connection runs one after the other), the close
  event, the timers, and the three bus subscriptions. A close event can come before a chunk that
  was received earlier is processed, since processing waits for the database; \<open>on_data\<close> does not
  look at the socket. \<open>lastSeen\<close> is written and never read, and left out.

  AES, the protobuf codec, the repository and the auth store are parameters (\<open>gw_env\<close>).
\<close>

record session =
  se_socket :: nat
  se_account :: account
  se_region :: byte

record conn =
  cn_buf :: bytes
  cn_entry :: "nat option"
  cn_open :: bool

record gateway =
  gw_objs :: "nat \<Rightarrow> session option"
  gw_next :: nat
  gw_sessions :: "int \<Rightarrow> nat option"
  gw_uids :: "int list"
  gw_conns :: "nat \<Rightarrow> conn option"
  gw_doomed :: "nat list"
  gw_out :: "(nat \<times> bytes) list"

record auth_row =
  ar_banned :: "bool option"
  ar_authorized :: "bool option"

record gw_env =
  ge_server :: server_env
  ge_node :: string
  ge_decrypt :: "bytes \<Rightarrow> bytes option"
  ge_byToken :: "bytes \<Rightarrow> account option"
  ge_byId :: "int \<Rightarrow> exn + account option"
  ge_enforceBans :: bool
  ge_authEnabled :: bool
  ge_authRow :: "string \<Rightarrow> exn + auth_row option"
  ge_protoReq :: "bytes \<Rightarrow> (int \<times> bytes) option"
  ge_decode :: "handler \<Rightarrow> bytes \<Rightarrow> tcp_req option"
  ge_encode :: "handler \<Rightarrow> tcp_res \<Rightarrow> bytes"
  ge_encodeMsg :: "message \<Rightarrow> bytes"
  ge_messageNotify :: "int \<Rightarrow> int \<Rightarrow> int \<Rightarrow> int \<Rightarrow> bytes \<Rightarrow> bytes"

definition PRESENCE_TTL_SEC :: nat where "PRESENCE_TTL_SEC = 45"

section \<open>Presence, bans, sessions\<close>

definition markOnline :: "'r node \<Rightarrow> gw_env \<Rightarrow> int \<Rightarrow> 'r \<Rightarrow> 'r" where
  "markOnline N E uid r =
     (case nd_bus N of None \<Rightarrow> r | Some R \<Rightarrow> setPresence R (ge_node E) uid PRESENCE_TTL_SEC r)"

definition markOffline :: "'r node \<Rightarrow> int \<Rightarrow> 'r \<Rightarrow> 'r" where
  "markOffline N uid r = (case nd_bus N of None \<Rightarrow> r | Some R \<Rightarrow> clearPresence R uid r)"

definition isBanned :: "gw_env \<Rightarrow> account \<Rightarrow> bool" where
  "isBanned E a =
     (if \<not> ge_enforceBans E then False
      else if acc_banned a then True
      else if \<not> ge_authEnabled E \<or> or_str (acc_open_id a) [] = [] then False
      else (case ge_authRow E (or_str (acc_open_id a) []) of
              Inl _ \<Rightarrow> False
            | Inr None \<Rightarrow> False
            | Inr (Some row) \<Rightarrow> ar_banned row = Some True \<or> ar_authorized row = Some False))"

definition socket_write :: "nat \<Rightarrow> bytes \<Rightarrow> gateway \<Rightarrow> gateway" where
  "socket_write sock bs g = g\<lparr>gw_out := gw_out g @ [(sock, bs)]\<rparr>"

definition upd_conn :: "nat \<Rightarrow> (conn \<Rightarrow> conn) \<Rightarrow> gateway \<Rightarrow> gateway" where
  "upd_conn sock f g =
     (case gw_conns g sock of None \<Rightarrow> g | Some c \<Rightarrow> g\<lparr>gw_conns := (gw_conns g)(sock \<mapsto> f c)\<rparr>)"

text \<open>\<open>socket.destroy()\<close>: the close event follows.\<close>

definition destroy :: "nat \<Rightarrow> gateway \<Rightarrow> gateway" where
  "destroy sock g = upd_conn sock (\<lambda>c. c\<lparr>cn_open := False\<rparr>) g"

text \<open>\<open>sessions.get(uid)\<close>, and the socket it leads to.\<close>

definition session_of :: "gateway \<Rightarrow> int \<Rightarrow> session option" where
  "session_of g uid = (case gw_sessions g uid of None \<Rightarrow> None | Some e \<Rightarrow> gw_objs g e)"

definition register :: "nat \<Rightarrow> session \<Rightarrow> gateway \<Rightarrow> gateway" where
  "register e s g =
     (let uid = acc_uid (se_account s);
          g1 = (case session_of g uid of
                  None \<Rightarrow> g
                | Some prev \<Rightarrow> if se_socket prev \<noteq> se_socket s then destroy (se_socket prev) g else g)
      in g1\<lparr>gw_sessions := (gw_sessions g1)(uid \<mapsto> e),
            gw_uids := (if uid \<in> set (gw_uids g1) then gw_uids g1 else gw_uids g1 @ [uid])\<rparr>)"

section \<open>Replies and pushes\<close>

definition sendNotify ::
  "gw_env \<Rightarrow> nat \<Rightarrow> int \<Rightarrow> byte \<Rightarrow> int \<Rightarrow> int \<Rightarrow> bytes \<Rightarrow> gateway \<Rightarrow> gateway" where
  "sendNotify E sock accountId protocol ret cmd content =
     socket_write sock (encodeServerFrame protocol
       (Some (ge_messageNotify E accountId (uint protocol) ret cmd content)))"

definition pushRaw :: "int \<Rightarrow> byte \<Rightarrow> bytes \<Rightarrow> gateway \<Rightarrow> bool \<times> gateway" where
  "pushRaw accountId cmd buf g =
     (case session_of g accountId of
        None \<Rightarrow> (False, g)
      | Some s \<Rightarrow> (True, socket_write (se_socket s) (encodeServerFrame cmd (Some buf)) g))"

definition push_typed :: "gw_env \<Rightarrow> int \<Rightarrow> byte \<Rightarrow> message \<Rightarrow> gateway \<Rightarrow> bool \<times> gateway" where
  "push_typed E accountId cmd msg g = pushRaw accountId cmd (ge_encodeMsg E msg) g"

definition notifyRaw :: "gw_env \<Rightarrow> int \<Rightarrow> byte \<Rightarrow> int \<Rightarrow> bytes \<Rightarrow> int \<Rightarrow> gateway \<Rightarrow> bool \<times> gateway" where
  "notifyRaw E accountId protocol cmd content ret g =
     (case session_of g accountId of
        None \<Rightarrow> (False, g)
      | Some s \<Rightarrow> (True, sendNotify E (se_socket s) accountId protocol ret cmd content g))"

definition notify :: "gw_env \<Rightarrow> int \<Rightarrow> byte \<Rightarrow> int \<Rightarrow> message option \<Rightarrow> int \<Rightarrow> gateway \<Rightarrow> bool \<times> gateway" where
  "notify E accountId protocol cmd msg ret g =
     notifyRaw E accountId protocol cmd (case msg of None \<Rightarrow> [] | Some m \<Rightarrow> ge_encodeMsg E m) ret g"

definition kick_session :: "int \<Rightarrow> bytes \<Rightarrow> gateway \<Rightarrow> bool \<times> gateway" where
  "kick_session accountId reasonPayload g =
     (case session_of g accountId of
        None \<Rightarrow> (False, g)
      | Some s \<Rightarrow>
          (let payload = (if reasonPayload \<noteq> [] then reasonPayload else [0]);
               g1 = socket_write (se_socket s) (encodeServerFrame CMD_KICK (Some payload)) g
           in (True, g1\<lparr>gw_doomed := gw_doomed g1 @ [se_socket s]\<rparr>)))"

definition isOnline :: "gateway \<Rightarrow> int \<Rightarrow> bool" where
  "isOnline g accountId \<longleftrightarrow> gw_sessions g accountId \<noteq> None"

definition onlineCount :: "gateway \<Rightarrow> nat" where
  "onlineCount g = length (gw_uids g)"

section \<open>Frames\<close>

definition handleApp ::
  "'r node \<Rightarrow> gw_env \<Rightarrow> nat \<Rightarrow> session \<Rightarrow> byte \<Rightarrow> bytes option \<Rightarrow> gateway \<times> 'r \<Rightarrow> (gateway \<times> push list) \<times> 'r" where
  "handleApp N E sock s protocol payload gr =
     (case gr of (g, r) \<Rightarrow>
       (case (case payload of None \<Rightarrow> Some [] | Some p \<Rightarrow> ge_decrypt E p) of
          None \<Rightarrow> ((g, []), r)
        | Some reqBytes \<Rightarrow>
            (case ge_protoReq E reqBytes of
               None \<Rightarrow> ((g, []), r)
             | Some (subcmd, reqData) \<Rightarrow>
                 (case dispatch N (ge_server E) (ge_decode E) (se_account s) (uint protocol) subcmd reqData r of
                    (Inr (Replied y), ps, r') \<Rightarrow>
                      (let h = (case load_routes (uint protocol, subcmd) of Some rt \<Rightarrow> rt_fn rt | None \<Rightarrow> HRoomList)
                       in ((sendNotify E sock (acc_uid (se_account s)) protocol (ry_ret y) (ry_resCmd y)
                              (ge_encode E h (ry_res y)) g, ps), r'))
                  | (_, ps, r') \<Rightarrow> ((g, ps), r')))))"

text \<open>\<open>handleFrame\<close>: the new entry when authentication happens. A kicked banned client is
  destroyed by a timer.\<close>

definition handleFrame ::
  "'r node \<Rightarrow> gw_env \<Rightarrow> nat \<Rightarrow> frame \<Rightarrow> nat option \<Rightarrow> gateway \<times> 'r \<Rightarrow> nat option \<times> (gateway \<times> push list) \<times> 'r" where
  "handleFrame N E sock f entry gr =
     (case gr of (g, r) \<Rightarrow>
       if fr_cmd f = CMD_HEARTBEAT then (None, (socket_write sock INIT_ACK g, []), r)
       else if fr_cmd f = CMD_AUTH then
         (case ge_decrypt E (nullish (fr_payload f) []) of
            None \<Rightarrow> (None, (destroy sock g, []), r)
          | Some token \<Rightarrow>
              (case (if token \<noteq> [] then ge_byToken E token else None) of
                 None \<Rightarrow> (None, (destroy sock g, []), r)
               | Some a \<Rightarrow>
                   if isBanned E a then
                     (let g1 = socket_write sock (encodeServerFrame CMD_KICK (Some [0])) g
                      in (None, (g1\<lparr>gw_doomed := gw_doomed g1 @ [sock]\<rparr>, []), r))
                   else
                     (let e = gw_next g;
                          s = \<lparr>se_socket = sock, se_account = a, se_region = fr_region f\<rparr>;
                          g1 = g\<lparr>gw_objs := (gw_objs g)(e \<mapsto> s), gw_next := e + 1\<rparr>
                      in (Some e, (socket_write sock INIT_ACK (register e s g1), []), markOnline N E (acc_uid a) r))))
       else (case entry of
               None \<Rightarrow> (None, (g, []), r)
             | Some e \<Rightarrow>
                 (case gw_objs g e of
                    None \<Rightarrow> (None, (g, []), r)
                  | Some s \<Rightarrow>
                      (case handleApp N E sock s (fr_cmd f) (fr_payload f) (g, r) of
                         (gp, r') \<Rightarrow> (None, gp, r')))))"

fun handleFrames ::
  "'r node \<Rightarrow> gw_env \<Rightarrow> nat \<Rightarrow> frame list \<Rightarrow> nat option \<Rightarrow> gateway \<times> 'r \<Rightarrow> nat option \<times> (gateway \<times> push list) \<times> 'r" where
  "handleFrames N E sock [] entry (g, r) = (entry, (g, []), r)"
| "handleFrames N E sock (f # fs) entry (g, r) =
     (case handleFrame N E sock f entry (g, r) of
        (new, (g1, ps1), r1) \<Rightarrow>
          (case handleFrames N E sock fs (case new of Some e \<Rightarrow> Some e | None \<Rightarrow> entry) (g1, r1) of
             (entry', (g2, ps2), r2) \<Rightarrow> (entry', (g2, ps1 @ ps2), r2)))"

section \<open>Events\<close>

definition on_connect :: "nat \<Rightarrow> gateway \<Rightarrow> gateway" where
  "on_connect sock g =
     g\<lparr>gw_conns := (gw_conns g)(sock \<mapsto> \<lparr>cn_buf = [], cn_entry = None, cn_open = True\<rparr>)\<rparr>"

definition on_data ::
  "'r node \<Rightarrow> gw_env \<Rightarrow> nat \<Rightarrow> bytes \<Rightarrow> gateway \<times> 'r \<Rightarrow> (gateway \<times> push list) \<times> 'r" where
  "on_data N E sock chunk gr =
     (case gr of (g, r) \<Rightarrow>
       (case gw_conns g sock of
          None \<Rightarrow> ((g, []), r)
        | Some c \<Rightarrow>
            (case parseClientFrames (cn_buf c @ chunk) of
               (fs, rest) \<Rightarrow>
                 (let g0 = upd_conn sock (\<lambda>c. c\<lparr>cn_buf := rest\<rparr>) g
                  in case handleFrames N E sock fs (cn_entry c) (g0, r) of
                       (entry, (g1, ps), r1) \<Rightarrow>
                         ((upd_conn sock (\<lambda>c. c\<lparr>cn_entry := entry\<rparr>) g1, ps), r1)))))"

text \<open>The close event: only the socket that holds the account's session cleans up.\<close>

definition owns_session :: "gateway \<Rightarrow> nat \<Rightarrow> int option" where
  "owns_session g sock =
     (case gw_conns g sock of
        None \<Rightarrow> None
      | Some c \<Rightarrow>
          (case cn_entry c of
             None \<Rightarrow> None
           | Some e \<Rightarrow>
               (case gw_objs g e of
                  None \<Rightarrow> None
                | Some s \<Rightarrow>
                    (case session_of g (acc_uid (se_account s)) of
                       None \<Rightarrow> None
                     | Some s' \<Rightarrow> if se_socket s' = sock then Some (acc_uid (se_account s)) else None))))"

definition on_close :: "'r node \<Rightarrow> nat \<Rightarrow> gateway \<times> 'r \<Rightarrow> (gateway \<times> push list) \<times> 'r" where
  "on_close N sock gr =
     (case gr of (g, r) \<Rightarrow>
       (let g1 = destroy sock g
        in case owns_session g sock of
             None \<Rightarrow> ((g1, []), r)
           | Some uid \<Rightarrow>
               (let r1 = cancel N uid r;
                    (ps, r2) = handleDisconnect N uid r1
                in ((g1\<lparr>gw_sessions := (gw_sessions g1)(uid := None),
                        gw_uids := removeAll uid (gw_uids g1)\<rparr>, ps),
                    markOffline N uid r2))))"

text \<open>The delayed \<open>socket.destroy()\<close> of a kick.\<close>

definition on_timer :: "gateway \<Rightarrow> gateway" where
  "on_timer g = (fold destroy (gw_doomed g) g)\<lparr>gw_doomed := []\<rparr>"

definition presenceHeartbeat :: "'r node \<Rightarrow> gw_env \<Rightarrow> gateway \<Rightarrow> 'r \<Rightarrow> 'r" where
  "presenceHeartbeat N E g r =
     (case nd_bus N of
        None \<Rightarrow> r
      | Some R \<Rightarrow> if gw_uids g = [] then r else refreshPresence R (ge_node E) (gw_uids g) PRESENCE_TTL_SEC r)"

definition on_gw_push :: "gw_env \<Rightarrow> int \<Rightarrow> byte \<Rightarrow> int \<Rightarrow> bytes \<Rightarrow> gateway \<Rightarrow> gateway" where
  "on_gw_push E target protocol cmd content g =
     (if isOnline g target then snd (notifyRaw E target protocol cmd content 0 g) else g)"

definition on_session_revoke :: "int \<Rightarrow> gateway \<Rightarrow> gateway" where
  "on_session_revoke uid g = (if isOnline g uid then snd (kick_session uid [] g) else g)"

definition on_player_updated :: "gw_env \<Rightarrow> int \<Rightarrow> gateway \<Rightarrow> gateway" where
  "on_player_updated E uid g =
     (case gw_sessions g uid of
        None \<Rightarrow> g
      | Some e \<Rightarrow>
          (case ge_byId E uid of
             Inr (Some fresh) \<Rightarrow>
               g\<lparr>gw_objs := (gw_objs g)(e := map_option (\<lambda>s. s\<lparr>se_account := fresh\<rparr>) (gw_objs g e))\<rparr>
           | _ \<Rightarrow> g))"

definition createGateway :: gateway where
  "createGateway = \<lparr>gw_objs = (\<lambda>_. None), gw_next = 0, gw_sessions = (\<lambda>_. None), gw_uids = [],
     gw_conns = (\<lambda>_. None), gw_doomed = [], gw_out = []\<rparr>"

end
