(* ===== verification/GatewayProps.thy ===== *)
theory GatewayProps
  imports Gateway MatchmakerProps CodecProps
begin

text \<open>
  Properties of the TCP gateway: framing is independent of how the stream is cut, an
  unauthenticated connection reaches nothing, the session table is consistent in every reachable
  state, a new login replaces the old session, and two runs in which a session outlives its socket.
\<close>

section \<open>The stream of a connection\<close>

text \<open>The receive loop: the bytes left over are kept in front of the next chunk.\<close>

fun receive_chunks :: "bytes list \<Rightarrow> bytes \<Rightarrow> frame list \<times> bytes" where
  "receive_chunks [] buf = ([], buf)"
| "receive_chunks (c # cs) buf =
     (case parseClientFrames (buf @ c) of
        (fs, r) \<Rightarrow> (case receive_chunks cs r of (gs, r') \<Rightarrow> (fs @ gs, r')))"

lemma parse_rest: "parseClientFrames a = (fs, r) \<Longrightarrow> parseClientFrames r = ([], r)"
proof (induction a arbitrary: fs r rule: parseClientFrames.induct)
  case (1 a)
  let ?n = "be32 (a ! 2) (a ! 3) (a ! 4) (a ! 5)"
  consider (stop) "parseClientFrames a = ([], a)"
    | (hb) "\<not> length a < 2" "a ! 0 = CMD_HEARTBEAT"
    | (full) "\<not> length a < 2" "a ! 0 \<noteq> CMD_HEARTBEAT" "\<not> length a < 6" "\<not> length a < 6 + ?n"
    using parseClientFrames.simps [of a] by (auto simp: Let_def split: if_splits)
  then show ?case
  proof cases
    case stop
    with "1.prems" show ?thesis by simp
  next
    case hb
    then have "parseClientFrames a = (case parseClientFrames (drop 2 a) of (gs, r) \<Rightarrow>
        (\<lparr>fr_cmd = a ! 0, fr_region = a ! 1, fr_payload = None\<rparr> # gs, r))"
      by (subst parseClientFrames.simps) simp
    with "1.prems" obtain gs where "parseClientFrames (drop 2 a) = (gs, r)"
      by (auto split: prod.splits)
    with hb "1.IH"(1) show ?thesis by blast
  next
    case full
    then have "parseClientFrames a = (case parseClientFrames (drop (6 + ?n) a) of (gs, r) \<Rightarrow>
        (\<lparr>fr_cmd = a ! 0, fr_region = a ! 1, fr_payload = Some (take ?n (drop 6 a))\<rparr> # gs, r))"
      by (subst parseClientFrames.simps) (simp add: Let_def)
    with "1.prems" obtain gs where "parseClientFrames (drop (6 + ?n) a) = (gs, r)"
      by (auto split: prod.splits)
    with full "1.IH"(2) [OF full(1-3) refl full(4)] show ?thesis by blast
  qed
qed

lemma receive_chunks_concat:
  "parseClientFrames buf = ([], buf) \<Longrightarrow> receive_chunks cs buf = parseClientFrames (buf @ concat cs)"
proof (induction cs arbitrary: buf)
  case Nil
  then show ?case by simp
next
  case (Cons c cs)
  obtain fs r where p: "parseClientFrames (buf @ c) = (fs, r)"
    by fastforce
  from Cons.IH [OF parse_rest [OF p]] p parse_append [of "buf @ c" "concat cs"] show ?case
    by simp
qed

lemma parse_frames:
  "list_all frame_ok fs \<Longrightarrow> parseClientFrames (concat (map client_frame fs) @ rest) =
     (case parseClientFrames rest of (gs, r) \<Rightarrow> (fs @ gs, r))"
  by (induction fs) (auto simp: parse_frame split: prod.split)

lemma parse_empty [simp]: "parseClientFrames [] = ([], [])"
  by (subst parseClientFrames.simps) simp

text \<open>
  [C18] Framing round trip, however TCP cuts the stream. When a client sends complete frames and
  the beginning of one more, in chunks of any sizes, the receive loop yields exactly the complete
  frames, in order and with their region byte and payload, and keeps the incomplete one for later.
\<close>

theorem frames_survive_chunking:
  assumes "list_all frame_ok fs" and "frame_ok f" and "k < length (client_frame f)"
    and "concat chunks = concat (map client_frame fs) @ take k (client_frame f)"
  shows "receive_chunks chunks [] = (fs, take k (client_frame f))"
  using receive_chunks_concat [of "[]" chunks] parse_frames [OF assms(1), of "take k (client_frame f)"]
    parse_short [OF assms(2,3)] assms(4) by simp

text \<open>A heartbeat, a message of three bytes and half a heartbeat, in four chunks.\<close>

definition demo_frames :: "frame list" where
  "demo_frames = [\<lparr>fr_cmd = 2, fr_region = 7, fr_payload = None\<rparr>,
                  \<lparr>fr_cmd = 14, fr_region = 7, fr_payload = Some [1, 2, 3]\<rparr>]"

theorem frames_survive_chunking_witness:
  "receive_chunks [[2, 7, 14], [7, 0, 0, 0], [3, 1, 2, 3, 2], []] [] = (demo_frames, [2])"
proof -
  have "receive_chunks [[2, 7, 14], [7, 0, 0, 0], [3, 1, 2, 3, 2], []] [] =
      (demo_frames, take 1 (client_frame (hd demo_frames)))"
    by (rule frames_survive_chunking)
      (simp_all add: demo_frames_def frame_ok_def client_frame_def be32_bytes_def CMD_HEARTBEAT_def)
  then show ?thesis
    by (simp add: demo_frames_def client_frame_def)
qed

section \<open>Processing does not depend on the chunks\<close>

definition keeps_open_comm :: "(conn \<Rightarrow> conn) \<Rightarrow> bool" where
  "keeps_open_comm h \<longleftrightarrow> (\<forall>c. h (c\<lparr>cn_open := False\<rparr>) = (h c)\<lparr>cn_open := False\<rparr>)"

lemma keeps_open_comm_intro [simp, intro]:
  "keeps_open_comm (\<lambda>c. c\<lparr>cn_buf := b\<rparr>)" "keeps_open_comm (\<lambda>c. c\<lparr>cn_entry := e\<rparr>)"
  by (simp_all add: keeps_open_comm_def)

named_theorems upd_comm \<open>a change of a connection's buffer or entry commutes with the gateway's actions\<close>

lemma upd_conn_twice: "upd_conn k h (upd_conn k h' g) = upd_conn k (h \<circ> h') g"
  by (simp add: upd_conn_def split: option.split)

lemma upd_conn_swap:
  assumes "\<And>c. h (h' c) = h' (h c)"
  shows "upd_conn k h (upd_conn k' h' g) = upd_conn k' h' (upd_conn k h g)"
proof (cases "k = k'")
  case True
  with assms show ?thesis
    by (simp add: upd_conn_twice comp_def)
next
  case False
  then show ?thesis
    by (simp add: upd_conn_def fun_upd_twist split: option.split)
qed

lemma destroy_upd [upd_comm]:
  "keeps_open_comm h \<Longrightarrow> destroy s (upd_conn k h g) = upd_conn k h (destroy s g)"
  by (auto simp: destroy_def keeps_open_comm_def intro!: upd_conn_swap)

lemma upd_conn_fields [simp]:
  "gw_objs (upd_conn k h g) = gw_objs g" "gw_next (upd_conn k h g) = gw_next g"
  "gw_sessions (upd_conn k h g) = gw_sessions g" "gw_uids (upd_conn k h g) = gw_uids g"
  "gw_doomed (upd_conn k h g) = gw_doomed g" "gw_out (upd_conn k h g) = gw_out g"
  by (simp_all add: upd_conn_def split: option.split)

lemma upd_conn_conns: "gw_conns (upd_conn k h g) i = (if i = k then map_option h (gw_conns g k) else gw_conns g i)"
  by (simp add: upd_conn_def split: option.split)

lemma destroy_fields [simp]:
  "gw_objs (destroy k g) = gw_objs g" "gw_next (destroy k g) = gw_next g"
  "gw_sessions (destroy k g) = gw_sessions g" "gw_uids (destroy k g) = gw_uids g"
  "gw_doomed (destroy k g) = gw_doomed g" "gw_out (destroy k g) = gw_out g"
  by (simp_all add: destroy_def)

lemma session_of_upd [simp]:
  "session_of (upd_conn k h g) uid = session_of g uid" "session_of (destroy k g) uid = session_of g uid"
  by (simp_all add: session_of_def split: option.split)

lemma upd_conn_update [upd_comm]:
  "upd_conn k h g\<lparr>gw_out := w\<rparr> = upd_conn k h (g\<lparr>gw_out := w\<rparr>)"
  "upd_conn k h g\<lparr>gw_doomed := ds\<rparr> = upd_conn k h (g\<lparr>gw_doomed := ds\<rparr>)"
  "upd_conn k h g\<lparr>gw_objs := os\<rparr> = upd_conn k h (g\<lparr>gw_objs := os\<rparr>)"
  "upd_conn k h g\<lparr>gw_next := n\<rparr> = upd_conn k h (g\<lparr>gw_next := n\<rparr>)"
  "upd_conn k h g\<lparr>gw_sessions := ss\<rparr> = upd_conn k h (g\<lparr>gw_sessions := ss\<rparr>)"
  "upd_conn k h g\<lparr>gw_uids := us\<rparr> = upd_conn k h (g\<lparr>gw_uids := us\<rparr>)"
  by (simp_all add: upd_conn_def split: option.split)

lemma socket_write_upd [upd_comm]: "socket_write s bs (upd_conn k h g) = upd_conn k h (socket_write s bs g)"
  by (simp add: socket_write_def upd_comm)

lemma sendNotify_upd [upd_comm]:
  "sendNotify E s a p ret c bs (upd_conn k h g) = upd_conn k h (sendNotify E s a p ret c bs g)"
  by (simp add: sendNotify_def upd_comm)

lemma register_upd [upd_comm]:
  "keeps_open_comm h \<Longrightarrow> register e s (upd_conn k h g) = upd_conn k h (register e s g)"
  by (simp add: register_def Let_def upd_comm split: option.split)

definition on_gw :: "(gateway \<Rightarrow> gateway) \<Rightarrow> 'a \<times> (gateway \<times> push list) \<times> 'r \<Rightarrow> 'a \<times> (gateway \<times> push list) \<times> 'r" where
  "on_gw F x = (case x of (e, (g, ps), r) \<Rightarrow> (e, (F g, ps), r))"

lemma on_gw_simps [simp]: "on_gw F (e, (g, ps), r) = (e, (F g, ps), r)"
  by (simp add: on_gw_def)

lemma handleApp_upd:
  "handleApp N E sock s p bs (upd_conn k h g, r) =
     (case handleApp N E sock s p bs (g, r) of ((g1, ps), r1) \<Rightarrow> ((upd_conn k h g1, ps), r1))"
  by (simp add: handleApp_def upd_comm Let_def split: option.split prod.split sum.split dispatched.split)

lemma handleFrame_upd:
  "keeps_open_comm h \<Longrightarrow>
     handleFrame N E sock f entry (upd_conn k h g, r) = on_gw (upd_conn k h) (handleFrame N E sock f entry (g, r))"
  by (simp add: handleFrame_def handleApp_upd upd_comm Let_def split: option.split prod.split)

lemma handleFrames_upd:
  "keeps_open_comm h \<Longrightarrow>
     handleFrames N E sock fs entry (upd_conn k h g, r) = on_gw (upd_conn k h) (handleFrames N E sock fs entry (g, r))"
proof (induction fs arbitrary: entry g r)
  case (Cons f fs)
  obtain n g1 ps r1 where "handleFrame N E sock f entry (g, r) = (n, (g1, ps), r1)"
    by (metis prod.exhaust)
  with Cons show ?case
    by (simp add: handleFrame_upd split: option.split prod.split)
qed simp

lemma handleFrames_append:
  "handleFrames N E sock (fs @ gs) entry (g, r) =
     (case handleFrames N E sock fs entry (g, r) of
        (e1, (g1, ps1), r1) \<Rightarrow>
          (case handleFrames N E sock gs e1 (g1, r1) of (e2, (g2, ps2), r2) \<Rightarrow> (e2, (g2, ps1 @ ps2), r2)))"
  by (induction fs arbitrary: entry g r) (simp_all split: prod.split)

definition conn_view :: "gateway \<Rightarrow> nat \<Rightarrow> (bytes \<times> nat option) option" where
  "conn_view g k = map_option (\<lambda>c. (cn_buf c, cn_entry c)) (gw_conns g k)"

lemma destroy_view [simp]: "conn_view (destroy s g) k = conn_view g k"
  by (simp add: conn_view_def destroy_def upd_conn_conns option.map_comp comp_def)

lemma update_view [simp]:
  "conn_view (g\<lparr>gw_out := w\<rparr>) k = conn_view g k"
  "conn_view (g\<lparr>gw_doomed := ds\<rparr>) k = conn_view g k"
  "conn_view (g\<lparr>gw_objs := os\<rparr>) k = conn_view g k"
  "conn_view (g\<lparr>gw_next := n\<rparr>) k = conn_view g k"
  "conn_view (g\<lparr>gw_sessions := ss\<rparr>) k = conn_view g k"
  "conn_view (g\<lparr>gw_uids := us\<rparr>) k = conn_view g k"
  by (simp_all add: conn_view_def)

lemma socket_write_view [simp]:
  "conn_view (socket_write s bs g) k = conn_view g k" "conn_view (sendNotify E s a p ret c bs g) k = conn_view g k"
  by (simp_all add: socket_write_def sendNotify_def)

lemma register_view [simp]: "conn_view (register e s g) k = conn_view g k"
  by (simp add: register_def Let_def split: option.split)

lemma handleApp_view:
  "handleApp N E sock s p bs (g, r) = ((g1, ps), r1) \<Longrightarrow> conn_view g1 k = conn_view g k"
  by (auto simp: handleApp_def Let_def split: option.splits prod.splits sum.splits dispatched.splits)

lemma handleFrame_view:
  "handleFrame N E sock f entry (g, r) = (e, (g1, ps), r1) \<Longrightarrow> conn_view g1 k = conn_view g k"
  by (auto simp: handleFrame_def Let_def handleApp_view split: option.splits prod.splits if_splits)

lemma handleFrames_view:
  "handleFrames N E sock fs entry (g, r) = (e, (g1, ps), r1) \<Longrightarrow> conn_view g1 k = conn_view g k"
  by (induction fs arbitrary: entry g r ps) (auto simp: handleFrame_view split: option.splits prod.splits)

lemma on_data_view:
  "on_data N E sock chunk (g, r) =
     (case conn_view g sock of
        None \<Rightarrow> ((g, []), r)
      | Some (buf, entry) \<Rightarrow>
          (case parseClientFrames (buf @ chunk) of (fs, rest) \<Rightarrow>
            (case handleFrames N E sock fs entry (upd_conn sock (\<lambda>c. c\<lparr>cn_buf := rest\<rparr>) g, r) of
               (e, (g1, ps), r1) \<Rightarrow> ((upd_conn sock (\<lambda>c. c\<lparr>cn_entry := e\<rparr>) g1, ps), r1))))"
  by (simp add: on_data_def conn_view_def Let_def split: option.split prod.split)

lemma upd_conn_view:
  "conn_view (upd_conn k (\<lambda>c. c\<lparr>cn_buf := b\<rparr>) g) k = map_option (\<lambda>v. (b, snd v)) (conn_view g k)"
  "conn_view (upd_conn k (\<lambda>c. c\<lparr>cn_entry := e\<rparr>) g) k = map_option (\<lambda>v. (fst v, e)) (conn_view g k)"
  by (simp_all add: conn_view_def upd_conn_conns option.map_comp comp_def)

lemma upd_conn_last:
  "upd_conn k (\<lambda>c. c\<lparr>cn_buf := b\<rparr>) (upd_conn k (\<lambda>c. c\<lparr>cn_buf := b'\<rparr>) g) = upd_conn k (\<lambda>c. c\<lparr>cn_buf := b\<rparr>) g"
  "upd_conn k (\<lambda>c. c\<lparr>cn_entry := e\<rparr>) (upd_conn k (\<lambda>c. c\<lparr>cn_entry := e'\<rparr>) g) = upd_conn k (\<lambda>c. c\<lparr>cn_entry := e\<rparr>) g"
  by (simp_all add: upd_conn_twice comp_def)

lemma upd_conn_buf_entry:
  "upd_conn k (\<lambda>c. c\<lparr>cn_buf := b\<rparr>) (upd_conn k (\<lambda>c. c\<lparr>cn_entry := e\<rparr>) g) =
   upd_conn k (\<lambda>c. c\<lparr>cn_entry := e\<rparr>) (upd_conn k (\<lambda>c. c\<lparr>cn_buf := b\<rparr>) g)"
  by (rule upd_conn_swap) simp

lemma on_data_append:
  assumes "on_data N E sock a (g, r) = ((g1, ps1), r1)" and "on_data N E sock b (g1, r1) = ((g2, ps2), r2)"
  shows "on_data N E sock (a @ b) (g, r) = ((g2, ps1 @ ps2), r2)"
proof (cases "conn_view g sock")
  case None
  with assms show ?thesis by (auto simp: on_data_view)
next
  case (Some v)
  let ?B = "\<lambda>x. upd_conn sock (\<lambda>c. c\<lparr>cn_buf := x\<rparr>)" and ?N = "\<lambda>e. upd_conn sock (\<lambda>c. c\<lparr>cn_entry := e\<rparr>)"
  obtain buf entry where v: "v = (buf, entry)" by fastforce
  obtain fs x where p1: "parseClientFrames (buf @ a) = (fs, x)" by fastforce
  obtain e1 h1 q1 s1 where h1: "handleFrames N E sock fs entry (g, r) = (e1, (h1, q1), s1)"
    by (metis prod.exhaust)
  have hv: "conn_view h1 sock = Some (buf, entry)"
    using handleFrames_view [OF h1] Some v by simp
  from assms(1) Some v p1 h1 have g1: "g1 = ?N e1 (?B x h1)" "ps1 = q1" "r1 = s1"
    by (auto simp: on_data_view handleFrames_upd)
  then have v1: "conn_view g1 sock = Some (x, e1)"
    using hv by (simp add: upd_conn_view)
  obtain gs y where p2: "parseClientFrames (x @ b) = (gs, y)" by fastforce
  obtain e2 h2 q2 s2 where h2: "handleFrames N E sock gs e1 (h1, s1) = (e2, (h2, q2), s2)"
    by (metis prod.exhaust)
  from assms(2) v1 p2 h2 g1 have g2: "g2 = ?N e2 (?B y (?N e1 (?B x h2)))" "ps2 = q2" "r2 = s2"
    by (auto simp: on_data_view handleFrames_upd)
  have "g2 = ?N e2 (?B y h2)"
    by (simp only: g2 upd_conn_buf_entry upd_conn_last)
  moreover have "parseClientFrames (buf @ a @ b) = (fs @ gs, y)"
    using parse_append [of "buf @ a" b] p1 p2 by simp
  ultimately show ?thesis
    using Some v h1 h2 g1 g2 by (simp add: on_data_view handleFrames_upd handleFrames_append)
qed

text \<open>The promise chain of a connection processes its chunks one after the other.\<close>

fun on_chunks ::
  "'r node \<Rightarrow> gw_env \<Rightarrow> nat \<Rightarrow> bytes list \<Rightarrow> gateway \<times> 'r \<Rightarrow> (gateway \<times> push list) \<times> 'r" where
  "on_chunks N E sock [] (g, r) = ((g, []), r)"
| "on_chunks N E sock (c # cs) (g, r) =
     (case on_data N E sock c (g, r) of
        ((g1, ps1), r1) \<Rightarrow> (case on_chunks N E sock cs (g1, r1) of ((g2, ps2), r2) \<Rightarrow> ((g2, ps1 @ ps2), r2)))"

text \<open>
  Processing is independent of TCP segmentation. Handling the chunks of a connection one after
  the other (authentication, room and matchmaking requests, replies, pushes, the session table and
  Redis included) has exactly the effect of handling their concatenation at once: no request is
  lost, repeated or seen under another session because of where the stream was cut.
\<close>

theorem chunking_irrelevant:
  "on_chunks N E sock (c # cs) (g, r) = on_data N E sock (concat (c # cs)) (g, r)"
proof (induction cs arbitrary: c g r)
  case Nil
  show ?case by (simp split: prod.split)
next
  case (Cons d cs)
  obtain g1 ps1 r1 where a: "on_data N E sock c (g, r) = ((g1, ps1), r1)"
    by (metis prod.exhaust)
  obtain g2 ps2 r2 where b: "on_data N E sock (concat (d # cs)) (g1, r1) = ((g2, ps2), r2)"
    by (metis prod.exhaust)
  have "on_chunks N E sock (c # d # cs) (g, r) = ((g2, ps1 @ ps2), r2)"
    by (simp only: on_chunks.simps(2) [of N E sock c "d # cs"] a prod.case Cons.IH b)
  then show ?case
    using on_data_append [OF a b] by simp
qed

section \<open>Authentication\<close>

text \<open>The account a frame authenticates, if any: the token is known and its account not banned.\<close>

definition auth_account :: "gw_env \<Rightarrow> frame \<Rightarrow> account option" where
  "auth_account E f =
     (if fr_cmd f \<noteq> CMD_AUTH then None
      else (case ge_decrypt E (nullish (fr_payload f) []) of
              None \<Rightarrow> None
            | Some token \<Rightarrow>
                (case (if token \<noteq> [] then ge_byToken E token else None) of
                   None \<Rightarrow> None
                 | Some a \<Rightarrow> if isBanned E a then None else Some a)))"

lemma cmd_distinct [simp]: "CMD_AUTH \<noteq> CMD_HEARTBEAT" "CMD_HEARTBEAT \<noteq> CMD_AUTH"
  by (simp_all add: CMD_AUTH_def CMD_HEARTBEAT_def)

lemma handleFrame_auth:
  "auth_account E f = Some a \<Longrightarrow>
     handleFrame N E sock f entry (g, r) =
       (let s = \<lparr>se_socket = sock, se_account = a, se_region = fr_region f\<rparr>
        in (Some (gw_next g),
            (socket_write sock INIT_ACK
              (register (gw_next g) s (g\<lparr>gw_objs := (gw_objs g)(gw_next g \<mapsto> s), gw_next := gw_next g + 1\<rparr>)), []),
            markOnline N E (acc_uid a) r))"
  by (auto simp: auth_account_def handleFrame_def Let_def split: if_splits option.splits)

text \<open>What an unauthenticated connection can get written to it.\<close>

definition harmless :: "nat \<Rightarrow> (nat \<times> bytes) list \<Rightarrow> bool" where
  "harmless sock ws \<longleftrightarrow>
     (\<forall>w \<in> set ws. fst w = sock \<and> snd w \<in> {INIT_ACK, encodeServerFrame CMD_KICK (Some [0])})"

definition inert :: "nat \<Rightarrow> gateway \<Rightarrow> gateway \<Rightarrow> bool" where
  "inert sock g g' \<longleftrightarrow> gw_sessions g' = gw_sessions g \<and> gw_uids g' = gw_uids g \<and> gw_objs g' = gw_objs g \<and>
     (\<forall>k. k \<noteq> sock \<longrightarrow> gw_conns g' k = gw_conns g k) \<and> (\<exists>ws. gw_out g' = gw_out g @ ws \<and> harmless sock ws)"

lemma inert_refl [simp]: "inert sock g g"
  by (auto simp: inert_def harmless_def)

lemma inert_trans: "inert sock g h \<Longrightarrow> inert sock h k \<Longrightarrow> inert sock g k"
  by (fastforce simp: inert_def harmless_def)

lemma inert_upd [simp]: "inert sock g (upd_conn sock h g)" "inert sock g (destroy sock g)"
  by (auto simp: inert_def harmless_def destroy_def upd_conn_conns)

lemma inert_write:
  "bs \<in> {INIT_ACK, encodeServerFrame CMD_KICK (Some [0])} \<Longrightarrow> inert sock g (socket_write sock bs g)"
  "inert sock g (g\<lparr>gw_doomed := ds\<rparr>)"
  by (auto simp: inert_def harmless_def socket_write_def)

lemma handleFrame_inert:
  assumes "auth_account E f = None" and "handleFrame N E sock f None (g, r) = (e, (g1, ps), r1)"
  shows "e = None \<and> ps = [] \<and> r1 = r \<and> inert sock g g1"
proof -
  have kick: "inert sock g (socket_write sock (encodeServerFrame CMD_KICK (Some [0])) g\<lparr>gw_doomed := ds\<rparr>)" for ds
    by (rule inert_trans [OF inert_write(1) inert_write(2)]) simp
  have ack: "inert sock g (socket_write sock INIT_ACK g)"
    by (rule inert_write) simp
  show ?thesis
    using assms kick ack
    by (auto simp: handleFrame_def auth_account_def Let_def split: if_splits option.splits)
qed

lemma handleFrames_inert:
  assumes "\<forall>f \<in> set fs. auth_account E f = None" and "handleFrames N E sock fs None (g, r) = (e, (g1, ps), r1)"
  shows "e = None \<and> ps = [] \<and> r1 = r \<and> inert sock g g1"
  using assms
proof (induction fs arbitrary: g r ps)
  case (Cons f fs)
  obtain e2 g2 ps2 r2 where f: "handleFrame N E sock f None (g, r) = (e2, (g2, ps2), r2)"
    by (metis prod.exhaust)
  obtain ps3 where fs: "handleFrames N E sock fs None (g2, r) = (e, (g1, ps3), r1)" "ps = ps2 @ ps3"
    using f Cons.prems handleFrame_inert [of E f N sock g r e2 g2 ps2 r2] by (auto split: prod.splits)
  with Cons handleFrame_inert [OF _ f] show ?case
    by (auto intro: inert_trans)
qed simp

text \<open>
  [C19] Nothing is served before authentication. While no frame of a connection carries a token that
  decrypts, belongs to an account and is not banned, whatever else the client sends runs no handler,
  changes nothing in Redis, pushes nothing to anybody, leaves every session and every other
  connection as it was, and gets back nothing but heartbeat answers and the kick frame.
\<close>

theorem unauthenticated_is_inert:
  assumes "gw_conns g sock = Some c" and "cn_entry c = None"
    and "\<forall>f \<in> set (fst (parseClientFrames (cn_buf c @ chunk))). auth_account E f = None"
    and "on_data N E sock chunk (g, r) = ((g', ps), r')"
  shows "r' = r \<and> ps = [] \<and> inert sock g g' \<and> (\<exists>c'. gw_conns g' sock = Some c' \<and> cn_entry c' = None)"
proof -
  obtain fs rest where p: "parseClientFrames (cn_buf c @ chunk) = (fs, rest)" by fastforce
  let ?g0 = "upd_conn sock (\<lambda>c. c\<lparr>cn_buf := rest\<rparr>) g"
  obtain e g1 qs r1 where h: "handleFrames N E sock fs None (?g0, r) = (e, (g1, qs), r1)"
    by (metis prod.exhaust)
  have i: "e = None" "qs = []" "r1 = r" "inert sock ?g0 g1"
    using handleFrames_inert [OF _ h] assms(3) p by auto
  have g': "g' = upd_conn sock (\<lambda>c. c\<lparr>cn_entry := e\<rparr>) g1" "ps = qs" "r' = r1"
    using assms p h by (auto simp: on_data_def Let_def)
  have "inert sock g g'"
    unfolding g' by (rule inert_trans [OF inert_upd(1) inert_trans [OF i(4) inert_upd(1)]])
  moreover have "conn_view g1 sock = Some (rest, None)"
    using handleFrames_view [OF h, of sock] assms(1,2) by (simp add: upd_conn_view) (simp add: conn_view_def)
  ultimately show ?thesis
    using i by (auto simp: g' upd_conn_conns conn_view_def)
qed

text \<open>A server whose AES is the identity and whose only token, the byte \<open>9\<close> (and \<open>8\<close>), belongs to
  account 7 (and 8).\<close>

definition demo_server :: server_env where
  "demo_server = \<lparr>sv_config = demo_config, sv_world = demo_world, sv_tables = demo_tables,
     sv_region = ''BR'', sv_tz_minutes = 0, sv_now = 1000\<rparr>"

definition demo_token :: "bytes \<Rightarrow> account option" where
  "demo_token t = (if t = [9] then Some (demo_account 7) else if t = [8] then Some (demo_account 8) else None)"

definition demo_gw :: gw_env where
  "demo_gw = \<lparr>ge_server = demo_server, ge_node = ''n1'', ge_decrypt = Some, ge_byToken = demo_token,
     ge_byId = (\<lambda>u. Inr (Some (demo_account u))), ge_enforceBans = True, ge_authEnabled = False,
     ge_authRow = (\<lambda>_. Inr None), ge_protoReq = (\<lambda>_. None), ge_decode = (\<lambda>_ _. None),
     ge_encode = (\<lambda>_ _. []), ge_encodeMsg = (\<lambda>_. []), ge_messageNotify = (\<lambda>a p ret c bs. bs)\<rparr>"

definition auth_chunk :: "byte \<Rightarrow> bytes" where
  "auth_chunk t = client_frame \<lparr>fr_cmd = CMD_AUTH, fr_region = 0, fr_payload = Some [t]\<rparr>"

lemma parse_auth_chunk [simp]:
  "parseClientFrames (auth_chunk t) = ([\<lparr>fr_cmd = CMD_AUTH, fr_region = 0, fr_payload = Some [t]\<rparr>], [])"
  using parse_frame [of "\<lparr>fr_cmd = CMD_AUTH, fr_region = 0, fr_payload = Some [t]\<rparr>" "[]"]
  by (simp add: auth_chunk_def frame_ok_def)

lemma demo_not_banned [simp]: "\<not> isBanned demo_gw (demo_account u)"
  by (simp add: isBanned_def demo_gw_def demo_account_def)

lemma demo_gw_sel [simp]:
  "ge_decrypt demo_gw = Some" "ge_byToken demo_gw = demo_token" "ge_node demo_gw = ''n1''"
  "ge_byId demo_gw = (\<lambda>u. Inr (Some (demo_account u)))"
  by (simp_all add: demo_gw_def)

lemma demo_auth [simp]:
  "auth_account demo_gw \<lparr>fr_cmd = CMD_AUTH, fr_region = 0, fr_payload = Some [t]\<rparr> = demo_token [t]"
  by (simp add: auth_account_def nullish_def demo_token_def)

text \<open>A client with the wrong token.\<close>

theorem unauthenticated_is_inert_witness:
  "\<exists>g'. on_data demo_node demo_gw 1 (auth_chunk 5) (on_connect 1 createGateway, empty_keyspace) = ((g', []), empty_keyspace) \<and>
     inert 1 (on_connect 1 createGateway) g'"
proof -
  obtain g' ps r' where d: "on_data demo_node demo_gw 1 (auth_chunk 5) (on_connect 1 createGateway, empty_keyspace) = ((g', ps), r')"
    by (metis prod.exhaust)
  show ?thesis
    using unauthenticated_is_inert [OF _ _ _ d, of "\<lparr>cn_buf = [], cn_entry = None, cn_open = True\<rparr>"] d
    by (simp add: on_connect_def demo_token_def)
qed

section \<open>The session table\<close>

text \<open>
  The invariant: the listed accounts are the keys of the session map, each once; a session's object
  exists and carries that account; objects are numbered below the counter and belong to a connection
  there has been; a connection's entry is an object of its own socket; and the bytes it has buffered
  are an incomplete frame.
\<close>

definition entry_ok :: "gateway \<Rightarrow> nat \<Rightarrow> nat option \<Rightarrow> bool" where
  "entry_ok g sock entry \<longleftrightarrow> (case entry of None \<Rightarrow> True | Some e \<Rightarrow> \<exists>s. gw_objs g e = Some s \<and> se_socket s = sock)"

definition table_ok :: "gateway \<Rightarrow> bool" where
  "table_ok g \<longleftrightarrow> distinct (gw_uids g) \<and> (\<forall>uid. uid \<in> set (gw_uids g) \<longleftrightarrow> gw_sessions g uid \<noteq> None) \<and>
     (\<forall>uid e. gw_sessions g uid = Some e \<longrightarrow> (\<exists>s. gw_objs g e = Some s \<and> acc_uid (se_account s) = uid)) \<and>
     (\<forall>e s. gw_objs g e = Some s \<longrightarrow> e < gw_next g \<and> conn_view g (se_socket s) \<noteq> None)"

definition gw_inv :: "gateway \<Rightarrow> bool" where
  "gw_inv g \<longleftrightarrow> table_ok g \<and>
     (\<forall>k b e. conn_view g k = Some (b, e) \<longrightarrow> entry_ok g k e \<and> parseClientFrames b = ([], b))"

lemma table_ok_cong:
  "gw_uids h = gw_uids g \<Longrightarrow> gw_sessions h = gw_sessions g \<Longrightarrow> gw_objs h = gw_objs g \<Longrightarrow> gw_next h = gw_next g \<Longrightarrow>
     (\<And>k. conn_view h k = None \<longleftrightarrow> conn_view g k = None) \<Longrightarrow> table_ok h = table_ok g"
  by (simp add: table_ok_def)

lemma upd_view_None [simp]: "conn_view (upd_conn k h g) i = None \<longleftrightarrow> conn_view g i = None"
  by (simp add: conn_view_def upd_conn_conns)

lemma entry_ok_upd [simp]:
  "entry_ok (upd_conn k h g) sock e = entry_ok g sock e" "entry_ok (destroy k g) sock e = entry_ok g sock e"
  "entry_ok (g\<lparr>gw_out := w\<rparr>) sock e = entry_ok g sock e" "entry_ok (g\<lparr>gw_doomed := ds\<rparr>) sock e = entry_ok g sock e"
  by (auto simp: entry_ok_def split: option.split)

lemma table_ok_upd [simp]:
  "table_ok (upd_conn k h g) = table_ok g" "table_ok (destroy k g) = table_ok g"
  "table_ok (g\<lparr>gw_out := w\<rparr>) = table_ok g" "table_ok (g\<lparr>gw_doomed := ds\<rparr>) = table_ok g"
  by (rule table_ok_cong; simp)+

lemma socket_write_ok [simp]:
  "table_ok (socket_write s bs g) = table_ok g" "entry_ok (socket_write s bs g) k e = entry_ok g k e"
  "table_ok (sendNotify E s a p ret c bs g) = table_ok g" "entry_ok (sendNotify E s a p ret c bs g) k e = entry_ok g k e"
  by (simp_all add: socket_write_def sendNotify_def)

lemma session_of_Some: "table_ok g \<Longrightarrow> gw_sessions g uid = Some e \<Longrightarrow>
  \<exists>s. gw_objs g e = Some s \<and> session_of g uid = Some s \<and> acc_uid (se_account s) = uid"
  by (auto simp: table_ok_def session_of_def)

lemma entry_ok_objs: "gw_objs h = gw_objs g \<Longrightarrow> entry_ok h k e = entry_ok g k e"
  by (simp add: entry_ok_def split: option.split)

text \<open>The objects only grow, and keep their socket.\<close>

definition grows :: "gateway \<Rightarrow> gateway \<Rightarrow> bool" where
  "grows g h \<longleftrightarrow> (\<forall>e s. gw_objs g e = Some s \<longrightarrow> (\<exists>s'. gw_objs h e = Some s' \<and> se_socket s' = se_socket s))"

lemma grows_refl [simp]: "grows g g"
  by (simp add: grows_def)

lemma grows_trans: "grows g h \<Longrightarrow> grows h k \<Longrightarrow> grows g k"
  unfolding grows_def by metis

lemma grows_entry_ok: "grows g h \<Longrightarrow> entry_ok g k e \<Longrightarrow> entry_ok h k e"
  by (fastforce simp: grows_def entry_ok_def split: option.splits)

lemma grows_objs: "gw_objs h = gw_objs g \<Longrightarrow> grows g h"
  by (simp add: grows_def)

definition login :: "nat \<Rightarrow> session \<Rightarrow> gateway \<Rightarrow> gateway" where
  "login e s g = register e s (g\<lparr>gw_objs := (gw_objs g)(e \<mapsto> s), gw_next := e + 1\<rparr>)"

lemma login_fields:
  "gw_sessions (login e s g) = (gw_sessions g)(acc_uid (se_account s) \<mapsto> e)"
  "gw_objs (login e s g) = (gw_objs g)(e \<mapsto> s)" "gw_next (login e s g) = e + 1"
  "gw_uids (login e s g) = (if acc_uid (se_account s) \<in> set (gw_uids g) then gw_uids g
     else gw_uids g @ [acc_uid (se_account s)])"
  "conn_view (login e s g) k = conn_view g k"
  by (simp_all add: login_def register_def Let_def split: option.split)

lemma login_ok:
  assumes "table_ok g" and "e = gw_next g" and "conn_view g (se_socket s) \<noteq> None"
  shows "table_ok (login e s g)" and "grows g (login e s g)" and "entry_ok (login e s g) (se_socket s) (Some e)"
proof -
  have fresh: "gw_objs g e = None"
    using assms(1,2) by (metis table_ok_def less_irrefl option.exhaust)
  then have "\<And>uid. gw_sessions g uid \<noteq> Some e"
    using assms(1) unfolding table_ok_def by (metis option.distinct(1))
  with assms show "table_ok (login e s g)"
    by (force simp: table_ok_def login_fields intro: less_SucI)
  show "grows g (login e s g)"
    using fresh by (auto simp: grows_def login_fields)
  show "entry_ok (login e s g) (se_socket s) (Some e)"
    by (simp add: entry_ok_def login_fields)
qed

lemma handleApp_fields:
  "handleApp N E sock s p bs (g, r) = ((g1, ps), r1) \<Longrightarrow>
     table_ok g1 = table_ok g \<and> gw_objs g1 = gw_objs g \<and> gw_sessions g1 = gw_sessions g"
  by (auto simp: handleApp_def Let_def sendNotify_def socket_write_def
      split: option.splits prod.splits sum.splits dispatched.splits)

lemma handleFrame_cases:
  assumes "handleFrame N E sock f entry (g, r) = (e, (g1, ps), r1)"
  obtains (auth) a s where "auth_account E f = Some a" "s = \<lparr>se_socket = sock, se_account = a, se_region = fr_region f\<rparr>"
      "e = Some (gw_next g)" "g1 = socket_write sock INIT_ACK (login (gw_next g) s g)" "ps = []"
    | (other) "e = None" "table_ok g1 = table_ok g" "gw_objs g1 = gw_objs g" "gw_sessions g1 = gw_sessions g"
proof (cases "auth_account E f")
  case (Some a)
  with assms auth show thesis
    by (auto simp: handleFrame_auth Let_def login_def)
next
  case None
  show thesis
  proof (cases "fr_cmd f = CMD_AUTH \<or> fr_cmd f = CMD_HEARTBEAT")
    case True
    then have "handleFrame N E sock f entry (g, r) = handleFrame N E sock f None (g, r)"
      by (auto simp: handleFrame_def split: option.split)
    with None True assms show thesis
      by (intro other; auto simp: handleFrame_def auth_account_def Let_def socket_write_def split: if_splits option.splits)
  next
    case False
    with assms show thesis
      by (intro other; auto simp: handleFrame_def handleApp_fields split: option.splits prod.splits)
  qed
qed

lemma handleFrame_ok:
  assumes "handleFrame N E sock f entry (g, r) = (e, (g1, ps), r1)"
    and "table_ok g" and "conn_view g sock \<noteq> None"
  shows "table_ok g1 \<and> grows g g1 \<and> entry_ok g1 sock e"
  using assms(1)
proof (cases rule: handleFrame_cases)
  case (auth a s)
  with login_ok [OF assms(2) refl, of s] assms(3) show ?thesis
    by (auto intro: grows_trans [OF _ grows_objs] simp: socket_write_def)
next
  case other
  with assms(2) show ?thesis
    by (simp add: entry_ok_def grows_objs)
qed

lemma handleFrames_ok:
  assumes "handleFrames N E sock fs entry (g, r) = (e, (g1, ps), r1)"
    and "table_ok g" and "conn_view g sock \<noteq> None" and "entry_ok g sock entry"
  shows "table_ok g1 \<and> grows g g1 \<and> entry_ok g1 sock e"
  using assms
proof (induction fs arbitrary: entry g r ps)
  case (Cons f fs)
  obtain e2 g2 ps2 r2 where f: "handleFrame N E sock f entry (g, r) = (e2, (g2, ps2), r2)"
    by (metis prod.exhaust)
  have h: "table_ok g2" "grows g g2" "entry_ok g2 sock e2" "conn_view g2 sock \<noteq> None"
    using handleFrame_ok [OF f] handleFrame_view [OF f] Cons.prems by auto
  have "entry_ok g2 sock (case e2 of Some e \<Rightarrow> Some e | None \<Rightarrow> entry)"
    using h(3) grows_entry_ok [OF h(2)] Cons.prems(4) by (cases e2) simp_all
  with Cons.IH [of "case e2 of Some e \<Rightarrow> Some e | None \<Rightarrow> entry" g2 r2] Cons.prems(1) f h show ?case
    by (auto split: prod.splits intro: grows_trans)
qed auto

text \<open>Every event of a gateway, whatever other processes do to Redis and whatever the repository
  answers, as long as a lookup by id returns that account.\<close>

definition lookup_ok :: "gw_env \<Rightarrow> bool" where
  "lookup_ok E \<longleftrightarrow> (\<forall>uid a. ge_byId E uid = Inr (Some a) \<longrightarrow> acc_uid a = uid)"

inductive gw_reach :: "'r node \<Rightarrow> gateway \<Rightarrow> bool" for N where
  start: "gw_reach N createGateway"
| connect: "gw_reach N g \<Longrightarrow> gw_conns g sock = None \<Longrightarrow> gw_reach N (on_connect sock g)"
| data: "gw_reach N g \<Longrightarrow> on_data N E sock chunk (g, r) = ((g', ps), r') \<Longrightarrow> gw_reach N g'"
| close: "gw_reach N g \<Longrightarrow> on_close N sock (g, r) = ((g', ps), r') \<Longrightarrow> gw_reach N g'"
| timer: "gw_reach N g \<Longrightarrow> gw_reach N (on_timer g)"
| pushed: "gw_reach N g \<Longrightarrow> gw_reach N (on_gw_push E target protocol cmd content g)"
| revoked: "gw_reach N g \<Longrightarrow> gw_reach N (on_session_revoke uid g)"
| updated: "gw_reach N g \<Longrightarrow> lookup_ok E \<Longrightarrow> gw_reach N (on_player_updated E uid g)"

lemma gw_inv_start: "gw_inv createGateway"
  by (simp add: gw_inv_def table_ok_def conn_view_def createGateway_def)

lemma on_connect_view: "conn_view (on_connect k g) i = (if i = k then Some ([], None) else conn_view g i)"
  by (simp add: on_connect_def conn_view_def)

lemma gw_inv_connect: "gw_inv g \<Longrightarrow> gw_conns g sock = None \<Longrightarrow> gw_inv (on_connect sock g)"
  using entry_ok_objs [of "on_connect sock g" g]
  by (auto simp: gw_inv_def table_ok_def on_connect_view) (auto simp: on_connect_def entry_ok_def)

lemma upd_conn_view_other: "i \<noteq> k \<Longrightarrow> conn_view (upd_conn k h g) i = conn_view g i"
  by (simp add: conn_view_def upd_conn_conns)

lemma gw_inv_data:
  assumes "gw_inv g" and "on_data N E sock chunk (g, r) = ((g', ps), r')"
  shows "gw_inv g'"
proof (cases "conn_view g sock")
  case None
  with assms show ?thesis by (simp add: on_data_view)
next
  case (Some v)
  obtain buf entry where v: "conn_view g sock = Some (buf, entry)"
    using Some by (cases v) simp
  obtain fs rest where p: "parseClientFrames (buf @ chunk) = (fs, rest)" by fastforce
  let ?g0 = "upd_conn sock (\<lambda>c. c\<lparr>cn_buf := rest\<rparr>) g"
  obtain e g1 qs r1 where h: "handleFrames N E sock fs entry (?g0, r) = (e, (g1, qs), r1)"
    by (metis prod.exhaust)
  have ok: "table_ok g1" "grows ?g0 g1" "entry_ok g1 sock e"
    using handleFrames_ok [OF h] assms(1) v by (auto simp: gw_inv_def)
  have g': "g' = upd_conn sock (\<lambda>c. c\<lparr>cn_entry := e\<rparr>) g1"
    using assms(2) v p h by (simp add: on_data_view)
  have view: "conn_view g' k = (if k = sock then Some (rest, e) else conn_view g k)" for k
    using handleFrames_view [OF h, of k] v
    by (cases "k = sock") (simp_all add: g' upd_conn_view upd_conn_view_other)
  have "entry_ok g' k n \<and> parseClientFrames b = ([], b)" if "conn_view g' k = Some (b, n)" for k b n
  proof (cases "k = sock")
    case True
    with that ok(3) parse_rest [OF p] show ?thesis
      by (simp add: view) (simp add: g')
  next
    case False
    with that assms(1) have "entry_ok ?g0 k n \<and> parseClientFrames b = ([], b)"
      by (simp add: view gw_inv_def)
    with grows_entry_ok [OF ok(2)] show ?thesis
      by (simp add: g')
  qed
  with ok(1) show ?thesis
    by (simp add: gw_inv_def) (simp add: g')
qed

lemma gw_inv_cong:
  "table_ok h \<Longrightarrow> gw_objs h = gw_objs g \<Longrightarrow> (\<And>k. conn_view h k = conn_view g k) \<Longrightarrow> gw_inv g \<Longrightarrow> gw_inv h"
  using entry_ok_objs [of h g] by (simp add: gw_inv_def)

lemma gw_inv_destroy [simp]: "gw_inv g \<Longrightarrow> gw_inv (destroy k g)"
  by (rule gw_inv_cong [where g = g]) (simp_all add: gw_inv_def)

lemma gw_inv_close:
  assumes "gw_inv g" and "on_close N sock (g, r) = ((g', ps), r')"
  shows "gw_inv g'"
proof (cases "owns_session g sock")
  case None
  with assms show ?thesis by (auto simp: on_close_def Let_def)
next
  case (Some uid)
  let ?g1 = "destroy sock g"
  have g': "g' = ?g1\<lparr>gw_sessions := (gw_sessions ?g1)(uid := None), gw_uids := removeAll uid (gw_uids ?g1)\<rparr>"
    using assms(2) Some by (simp add: on_close_def Let_def split: prod.splits)
  have "table_ok g"
    using assms(1) by (simp add: gw_inv_def)
  then have "table_ok g'"
    unfolding g' table_ok_def by (auto simp: distinct_removeAll)
  then show ?thesis
    by (rule gw_inv_cong [OF _ _ _ assms(1)]) (simp_all add: g')
qed

lemma gw_inv_timer: "gw_inv g \<Longrightarrow> gw_inv (on_timer g)"
proof -
  have "gw_inv g \<Longrightarrow> gw_inv (fold destroy ks g)" for ks
    by (induction ks arbitrary: g) simp_all
  moreover have "gw_inv h \<Longrightarrow> gw_inv (h\<lparr>gw_doomed := []\<rparr>)" for h
    by (rule gw_inv_cong [where g = h]) (simp_all add: gw_inv_def)
  ultimately show "gw_inv g \<Longrightarrow> ?thesis"
    by (simp add: on_timer_def)
qed

lemma gw_inv_push: "gw_inv g \<Longrightarrow> gw_inv (on_gw_push E target protocol cmd content g)"
  by (rule gw_inv_cong [where g = g])
    (simp_all add: gw_inv_def on_gw_push_def notifyRaw_def sendNotify_def socket_write_def split: option.split)

lemma gw_inv_revoke: "gw_inv g \<Longrightarrow> gw_inv (on_session_revoke uid g)"
  by (rule gw_inv_cong [where g = g])
    (simp_all add: gw_inv_def on_session_revoke_def kick_session_def Let_def socket_write_def split: option.split)

lemma gw_inv_updated:
  assumes "gw_inv g" and "lookup_ok E"
  shows "gw_inv (on_player_updated E uid g)"
proof (cases "\<exists>e fresh. gw_sessions g uid = Some e \<and> ge_byId E uid = Inr (Some fresh)")
  case False
  with assms show ?thesis
    by (auto simp: on_player_updated_def split: option.split sum.split)
next
  case True
  then obtain e fresh where e: "gw_sessions g uid = Some e" "ge_byId E uid = Inr (Some fresh)"
    by blast
  have t: "table_ok g"
    using assms(1) by (simp add: gw_inv_def)
  from session_of_Some [OF t e(1)] obtain s where s: "gw_objs g e = Some s" "acc_uid (se_account s) = uid"
    by blast
  have uid: "acc_uid fresh = uid"
    using assms(2) e(2) by (simp add: lookup_ok_def)
  let ?h = "on_player_updated E uid g"
  have h: "?h = g\<lparr>gw_objs := (gw_objs g)(e \<mapsto> s\<lparr>se_account := fresh\<rparr>)\<rparr>"
    using e s by (simp add: on_player_updated_def)
  have th: "table_ok ?h"
    using t e s uid unfolding h table_ok_def by (auto; metis option.inject)
  have "grows g ?h"
    using s by (simp add: grows_def h)
  from grows_entry_ok [OF this] th assms(1) show ?thesis
    unfolding gw_inv_def by (simp add: h)
qed

lemma gw_reach_inv: "gw_reach N g \<Longrightarrow> gw_inv g"
  by (induction rule: gw_reach.induct)
    (auto intro: gw_inv_start gw_inv_connect gw_inv_data gw_inv_close gw_inv_timer gw_inv_push
      gw_inv_revoke gw_inv_updated)



section \<open>One session per account\<close>

lemma on_data_auth:
  assumes "gw_conns g sock = Some c" and "parseClientFrames (cn_buf c @ chunk) = ([f], rest)"
    and "auth_account E f = Some a"
  shows "on_data N E sock chunk (g, r) =
    (let s = \<lparr>se_socket = sock, se_account = a, se_region = fr_region f\<rparr>;
         g0 = upd_conn sock (\<lambda>c. c\<lparr>cn_buf := rest\<rparr>) g
     in ((upd_conn sock (\<lambda>c. c\<lparr>cn_entry := Some (gw_next g)\<rparr>)
            (socket_write sock INIT_ACK (login (gw_next g) s g0)), []), markOnline N E (acc_uid a) r))"
  using assms by (simp add: on_data_def Let_def handleFrame_auth login_def)

lemma session_of_login:
  "session_of (login e s g) uid = (if uid = acc_uid (se_account s) then Some s
     else (case gw_sessions g uid of None \<Rightarrow> None | Some e' \<Rightarrow> if e' = e then Some s else gw_objs g e'))"
  by (simp add: session_of_def login_fields split: option.split)

lemma login_closes_old:
  assumes "session_of g (acc_uid (se_account s)) = Some old" and "se_socket old \<noteq> se_socket s"
    and "gw_conns g (se_socket old) = Some c" and "\<And>e'. gw_sessions g (acc_uid (se_account s)) = Some e' \<Longrightarrow> e' \<noteq> e"
  shows "gw_conns (login e s g) (se_socket old) = Some (c\<lparr>cn_open := False\<rparr>)"
proof -
  have "session_of (g\<lparr>gw_objs := (gw_objs g)(e \<mapsto> s), gw_next := e + 1\<rparr>) (acc_uid (se_account s)) = Some old"
    using assms(1,4) by (auto simp: session_of_def split: option.splits)
  with assms show ?thesis
    by (simp add: login_def register_def Let_def destroy_def upd_conn_conns)
qed

text \<open>
  [C21] An account has one session, its latest. When an account that is online authenticates on
  another connection, the session table leads to the new connection, the old one is closed by the
  server, no other account's session changes, and the close event of the old socket, whenever it
  comes, leaves the new session in place.
\<close>

theorem login_replaces_session:
  assumes "gw_inv g" and "session_of g (acc_uid a) = Some old" and "se_socket old \<noteq> sock"
    and "gw_conns g sock = Some c" and "parseClientFrames (cn_buf c @ chunk) = ([f], rest)"
    and "auth_account E f = Some a" and "on_data N E sock chunk (g, r) = ((g1, ps), r1)"
  shows "session_of g1 (acc_uid a) = Some \<lparr>se_socket = sock, se_account = a, se_region = fr_region f\<rparr> \<and>
    (\<exists>d. gw_conns g1 (se_socket old) = Some d \<and> \<not> cn_open d) \<and>
    (\<forall>uid. uid \<noteq> acc_uid a \<longrightarrow> session_of g1 uid = session_of g uid) \<and>
    (\<forall>r2. session_of (fst (fst (on_close N (se_socket old) (g1, r2)))) (acc_uid a) = session_of g1 (acc_uid a))"
proof -
  let ?s = "\<lparr>se_socket = sock, se_account = a, se_region = fr_region f\<rparr>"
  let ?g0 = "upd_conn sock (\<lambda>c. c\<lparr>cn_buf := rest\<rparr>) g" and ?e = "gw_next g"
  have g1: "g1 = upd_conn sock (\<lambda>c. c\<lparr>cn_entry := Some ?e\<rparr>) (socket_write sock INIT_ACK (login ?e ?s ?g0))"
    using on_data_auth [OF assms(4-6), of N r] assms(7) by (simp add: Let_def)
  have t: "table_ok g"
    using assms(1) by (simp add: gw_inv_def)
  have fresh: "e' \<noteq> ?e" if "gw_sessions g uid = Some e'" for uid e'
    using t that unfolding table_ok_def by (metis less_irrefl)
  have sessions: "session_of g1 uid = (if uid = acc_uid a then Some ?s else session_of g uid)" for uid
  proof -
    have "session_of g1 uid = session_of (login ?e ?s ?g0) uid"
      by (simp add: g1 socket_write_def) (simp add: session_of_def split: option.split)
    also have "\<dots> = (if uid = acc_uid a then Some ?s else session_of g uid)"
    proof (cases "gw_sessions g uid")
      case None
      then show ?thesis by (simp add: session_of_login) (simp add: session_of_def)
    next
      case (Some e')
      with fresh [OF Some] show ?thesis by (simp add: session_of_login) (simp add: session_of_def)
    qed
    finally show ?thesis .
  qed
  obtain d where d: "gw_conns g (se_socket old) = Some d"
    using t assms(2) by (fastforce simp: table_ok_def session_of_def conn_view_def split: option.splits)
  then have d0: "gw_conns ?g0 (se_socket old) = Some d"
    using assms(3) by (simp add: upd_conn_conns)
  have so: "session_of ?g0 (acc_uid (se_account ?s)) = Some old"
    using assms(2) by simp
  have "gw_conns (login ?e ?s ?g0) (se_socket old) = Some (d\<lparr>cn_open := False\<rparr>)"
    by (rule login_closes_old [OF so _ d0]) (use assms(3) fresh in auto)
  then have closed: "gw_conns g1 (se_socket old) = Some (d\<lparr>cn_open := False\<rparr>)"
    using assms(3) by (simp add: g1 upd_conn_conns socket_write_def)
  have "owns_session g1 (se_socket old) \<noteq> Some (acc_uid a)"
    using assms(3) sessions [of "acc_uid a"] by (auto simp: owns_session_def split: option.splits if_splits)
  then have "session_of (fst (fst (on_close N (se_socket old) (g1, r2)))) (acc_uid a) = session_of g1 (acc_uid a)" for r2
    by (auto simp: on_close_def Let_def session_of_def split: option.split prod.split)
  with sessions closed show ?thesis by auto
qed

text \<open>Runs on the demo server: what one chunk that authenticates does.\<close>

lemma demo_on_data:
  assumes "demo_token [t] = Some (demo_account u)" and "gw_conns g sock = Some c" and "cn_buf c = []"
  shows "on_data demo_node demo_gw sock (auth_chunk t) (g, r) =
    ((upd_conn sock (\<lambda>c. c\<lparr>cn_entry := Some (gw_next g)\<rparr>)
       (socket_write sock INIT_ACK (login (gw_next g) \<lparr>se_socket = sock, se_account = demo_account u, se_region = 0\<rparr>
         (upd_conn sock (\<lambda>c. c\<lparr>cn_buf := []\<rparr>) g))), []), markOnline demo_node demo_gw u r)"
  using on_data_auth [OF assms(2), of "auth_chunk t" _ "[]" demo_gw "demo_account u" demo_node r] assms(1,3)
  by (simp add: Let_def) (simp add: demo_account_def)

definition demo_login :: "nat \<Rightarrow> byte \<Rightarrow> gateway \<Rightarrow> gateway" where
  "demo_login sock t g = fst (fst (on_data demo_node demo_gw sock (auth_chunk t) (g, empty_keyspace)))"

definition two_logins :: gateway where
  "two_logins = on_connect 2 (demo_login 1 9 (on_connect 1 createGateway))"

lemma demo_token_simps [simp]:
  "demo_token [9] = Some (demo_account 7)" "demo_token [8] = Some (demo_account 8)" "acc_uid (demo_account u) = u"
  by (simp_all add: demo_token_def demo_account_def)

lemma demo_login_simp:
  assumes "demo_token [t] = Some (demo_account u)" and "gw_conns g sock = Some c" and "cn_buf c = []"
  shows "demo_login sock t g =
    upd_conn sock (\<lambda>c. c\<lparr>cn_entry := Some (gw_next g)\<rparr>)
       (socket_write sock INIT_ACK (login (gw_next g) \<lparr>se_socket = sock, se_account = demo_account u, se_region = 0\<rparr>
         (upd_conn sock (\<lambda>c. c\<lparr>cn_buf := []\<rparr>) g)))"
  by (simp add: demo_login_def demo_on_data [OF assms])

lemmas gw_eval =
  demo_login_simp [where u = 7 and t = 9] demo_login_simp [where u = 8 and t = 8] on_connect_def createGateway_def upd_conn_def
  socket_write_def login_def register_def session_of_def destroy_def Let_def

lemma demo_reach: "gw_reach demo_node (on_connect 1 createGateway)"
  by (intro gw_reach.connect gw_reach.start) (simp add: createGateway_def)

lemma demo_login_reach: "gw_reach demo_node g \<Longrightarrow> gw_reach demo_node (demo_login sock t g)"
  unfolding demo_login_def by (metis gw_reach.data prod.collapse)

text \<open>Account 7 logs in on socket 1 and then on socket 2.\<close>

theorem login_replaces_session_witness:
  "session_of (demo_login 2 9 two_logins) 7 = Some \<lparr>se_socket = 2, se_account = demo_account 7, se_region = 0\<rparr> \<and>
   session_of (fst (fst (on_close demo_node 1 (demo_login 2 9 two_logins, empty_keyspace)))) 7 =
     Some \<lparr>se_socket = 2, se_account = demo_account 7, se_region = 0\<rparr>"
proof -
  let ?c = "\<lparr>cn_buf = [], cn_entry = None, cn_open = True\<rparr>"
  let ?f = "\<lparr>fr_cmd = CMD_AUTH, fr_region = 0, fr_payload = Some [9]\<rparr>"
  let ?old = "\<lparr>se_socket = 1, se_account = demo_account 7, se_region = 0\<rparr>"
  have "gw_reach demo_node two_logins"
    unfolding two_logins_def
    by (intro gw_reach.connect demo_login_reach demo_reach) (simp add: gw_eval)
  then have inv: "gw_inv two_logins"
    by (rule gw_reach_inv)
  obtain g1 ps r1 where d: "on_data demo_node demo_gw 2 (auth_chunk 9) (two_logins, empty_keyspace) = ((g1, ps), r1)"
    by (metis prod.exhaust)
  have g1: "g1 = demo_login 2 9 two_logins"
    by (simp add: demo_login_def d)
  have old: "session_of two_logins 7 = Some ?old"
    by (simp add: two_logins_def gw_eval)
  have c: "gw_conns two_logins 2 = Some ?c"
    by (simp add: two_logins_def on_connect_def)
  from login_replaces_session [OF inv, of "demo_account 7" ?old 2 ?c "auth_chunk 9" ?f "[]" demo_gw demo_node empty_keyspace g1 ps r1]
    old c d show ?thesis
    by (simp add: g1 nullish_def)
qed

text \<open>
  A session can outlive its socket. In the first run the client disconnects while its
  authentication is still waiting for the database: the close event finds no entry, the
  authentication then registers a session for the dead socket, and nothing ever removes it. In the
  second run a client authenticates twice, as account 7 and then as account 8, on one socket: the
  connection keeps only its last entry, so its close removes account 8 and leaves account 7 online.
  In both the account is listed online, without an open connection, and its presence is renewed by
  every heartbeat.
\<close>

theorem session_outlives_socket:
  "let early = demo_login 1 9 (fst (fst (on_close demo_node 1 (on_connect 1 createGateway, empty_keyspace))));
       twice = fst (fst (on_close demo_node 1 (demo_login 1 8 (demo_login 1 9 (on_connect 1 createGateway)), empty_keyspace)))
   in isOnline early 7 \<and> map_option cn_open (gw_conns early 1) = Some False \<and>
      isOnline twice 7 \<and> \<not> isOnline twice 8 \<and> map_option cn_open (gw_conns twice 1) = Some False \<and>
      getNode map_redis 7 (presenceHeartbeat demo_node demo_gw early empty_keyspace) = Some ''n1'' \<and>
      getNode map_redis 7 (presenceHeartbeat demo_node demo_gw twice empty_keyspace) = Some ''n1''"
proof -
  let ?early = "demo_login 1 9 (fst (fst (on_close demo_node 1 (on_connect 1 createGateway, empty_keyspace))))"
  let ?logged = "demo_login 1 8 (demo_login 1 9 (on_connect 1 createGateway))"
  let ?twice = "fst (fst (on_close demo_node 1 (?logged, empty_keyspace)))"
  have e0: "fst (fst (on_close demo_node 1 (on_connect 1 createGateway, empty_keyspace))) = destroy 1 (on_connect 1 createGateway)"
    by (simp add: on_close_def owns_session_def on_connect_def Let_def)
  have e: "isOnline ?early 7" "map_option cn_open (gw_conns ?early 1) = Some False" "gw_uids ?early = [7]"
    unfolding e0 by (simp_all add: gw_eval isOnline_def)
  have o: "owns_session ?logged 1 = Some 8"
    by (simp add: owns_session_def gw_eval)
  have t: "isOnline ?twice 7" "\<not> isOnline ?twice 8" "map_option cn_open (gw_conns ?twice 1) = Some False" "gw_uids ?twice = [7]"
    using o by (simp_all add: on_close_def Let_def split: prod.split) (simp_all add: gw_eval isOnline_def)
  have p: "getNode map_redis 7 (presenceHeartbeat demo_node demo_gw g empty_keyspace) = Some ''n1''" if "gw_uids g = [7]" for g
    using that by (simp add: presenceHeartbeat_def refreshPresence_def setPresence_def getNode_def map_redis_def ks_live_def
        PRESENCE_TTL_SEC_def)
  show ?thesis
    using e t p [OF e(3)] p [OF t(4)] by (simp only: Let_def simp_thms)
qed

end
