(* ===== verification/Js.thy ===== *)
theory Js
  imports Text Complex_Main "HOL-Library.AList"
begin

text \<open>
  JavaScript values, for the code that works on dynamic objects: the player documents of the
  HTTP tier, the decoded requests and the response objects of its handlers.

  An object is the list of its properties in insertion order. \<open>fld\<close> reads a property: a missing
  one is \<open>undefined\<close>, and so is a property of a value that is not an object. (On \<open>undefined\<close>
  and \<open>null\<close> themselves JavaScript throws; the handlers guard their reads with \<open>&&\<close> and \<open>||\<close>,
  and an element of a stored array is an object.) The numbers the code computes with are integers
  or \<open>NaN\<close>; a \<open>JFrac\<close> occurs in static response data only.
\<close>

datatype js =
    JUndef
  | JNull
  | JBool bool
  | JNum int
  | JNaN
  | JFrac rat
  | JStr string
  | JArr "js list"
  | JObj "(string \<times> js) list"

named_theorems js_simps \<open>reading and writing properties\<close>

section \<open>Properties\<close>

fun fld :: "js \<Rightarrow> string \<Rightarrow> js" where
  "fld (JObj kvs) k = (case map_of kvs k of Some v \<Rightarrow> v | None \<Rightarrow> JUndef)"
| "fld _ k = JUndef"

text \<open>\<open>o.k = v\<close>: in place when the property exists, else at the end.\<close>

fun put :: "string \<Rightarrow> js \<Rightarrow> js \<Rightarrow> js" where
  "put k v (JObj kvs) = JObj (AList.update k v kvs)"
| "put k v x = x"

fun is_obj :: "js \<Rightarrow> bool" where
  "is_obj (JObj _) = True"
| "is_obj _ = False"

section \<open>Operators\<close>

fun tru :: "js \<Rightarrow> bool" where
  "tru JUndef = False"
| "tru JNull = False"
| "tru (JBool b) = b"
| "tru (JNum n) = (n \<noteq> 0)"
| "tru JNaN = False"
| "tru (JFrac q) = (q \<noteq> 0)"
| "tru (JStr s) = (s \<noteq> [])"
| "tru (JArr _) = True"
| "tru (JObj _) = True"

text \<open>\<open>a || b\<close>, \<open>a && b\<close>, \<open>a ?? b\<close>, \<open>!a\<close>, \<open>!!a\<close>.\<close>

definition jor :: "js \<Rightarrow> js \<Rightarrow> js" where
  "jor a b = (if tru a then a else b)"

definition jand :: "js \<Rightarrow> js \<Rightarrow> js" where
  "jand a b = (if tru a then b else a)"

definition is_nil :: "js \<Rightarrow> bool" where
  "is_nil a \<longleftrightarrow> a = JUndef \<or> a = JNull"

definition jnil :: "js \<Rightarrow> js \<Rightarrow> js" where
  "jnil a b = (if is_nil a then b else a)"

definition jbool :: "js \<Rightarrow> js" where
  "jbool a = JBool (tru a)"

section \<open>Arrays\<close>

fun is_arr :: "js \<Rightarrow> bool" where
  "is_arr (JArr _) = True"
| "is_arr _ = False"

text \<open>The elements of an array; nothing to iterate over in any other value.\<close>

fun elems :: "js \<Rightarrow> js list" where
  "elems (JArr xs) = xs"
| "elems _ = []"

text \<open>\<open>Array.isArray(a) ? a : []\<close>.\<close>

definition arr_or_empty :: "js \<Rightarrow> js" where
  "arr_or_empty a = (if is_arr a then a else JArr [])"

definition nums :: "int list \<Rightarrow> js" where
  "nums ns = JArr (map JNum ns)"

section \<open>Conversions\<close>

definition all_digits :: "string \<Rightarrow> int option" where
  "all_digits s =
     (if s \<noteq> [] \<and> list_all is_digit s then Some (foldl (\<lambda>n c. 10 * n + digit_val c) 0 s) else None)"

text \<open>\<open>Number(s)\<close> on the decimal integers, the only numeric texts the server stores; \<open>None\<close> is
  \<open>NaN\<close>.\<close>

definition str_num :: "string \<Rightarrow> int option" where
  "str_num s =
     (case trim s of
        [] \<Rightarrow> Some 0
      | c # cs \<Rightarrow> if c = CHR ''-'' then map_option uminus (all_digits cs)
                  else if c = CHR ''+'' then all_digits cs
                  else all_digits (c # cs))"

fun num :: "js \<Rightarrow> int option" where
  "num (JNum n) = Some n"
| "num JNull = Some 0"
| "num (JBool b) = Some (if b then 1 else 0)"
| "num (JStr s) = str_num s"
| "num (JArr []) = Some 0"
| "num _ = None"

text \<open>\<open>Number(a)\<close> and \<open>Number(a) || 0\<close>.\<close>

definition jnum :: "js \<Rightarrow> js" where
  "jnum a = (case num a of Some n \<Rightarrow> JNum n | None \<Rightarrow> JNaN)"

definition num0 :: "js \<Rightarrow> int" where
  "num0 a = (case num a of Some n \<Rightarrow> n | None \<Rightarrow> 0)"

definition digit_char :: "nat \<Rightarrow> char" where
  "digit_char n = char_of (48 + n)"

fun nat_digits :: "nat \<Rightarrow> string" where
  "nat_digits n = (if n < 10 then [digit_char n] else nat_digits (n div 10) @ [digit_char (n mod 10)])"

declare nat_digits.simps [simp del]

definition int_str :: "int \<Rightarrow> string" where
  "int_str n = (if n < 0 then CHR ''-'' # nat_digits (nat (- n)) else nat_digits (nat n))"

text \<open>\<open>String(a)\<close>, on the primitive values it is applied to.\<close>

fun str :: "js \<Rightarrow> string" where
  "str (JStr s) = s"
| "str (JNum n) = int_str n"
| "str JNaN = ''NaN''"
| "str (JFrac _) = ''fraction''"
| "str JUndef = ''undefined''"
| "str JNull = ''null''"
| "str (JBool b) = (if b then ''true'' else ''false'')"
| "str (JArr _) = ''array''"
| "str (JObj _) = ''[object Object]''"

text \<open>\<open>JSON.parse(JSON.stringify(a))\<close>: properties that are \<open>undefined\<close> are dropped, array elements
  that are become \<open>null\<close>, and so does \<open>NaN\<close>.\<close>

fun jsonify :: "js \<Rightarrow> js" where
  "jsonify JUndef = JNull"
| "jsonify JNaN = JNull"
| "jsonify (JArr xs) = JArr (map jsonify xs)"
| "jsonify (JObj kvs) = JObj (map (\<lambda>(k, v). (k, jsonify v)) (filter (\<lambda>(k, v). v \<noteq> JUndef) kvs))"
| "jsonify v = v"

section \<open>Laws\<close>

lemma fld_put [simp, js_simps]:
  "is_obj x \<Longrightarrow> fld (put k v x) k = v"
  "k \<noteq> k' \<Longrightarrow> fld (put k v x) k' = fld x k'"
  by (cases x; simp add: update_conv')+

lemma is_obj_put [simp, js_simps]: "is_obj (put k v x) = is_obj x"
  by (cases x) simp_all

lemma tru_put [simp]: "tru (put k v x) = tru x"
  by (cases x) simp_all

lemma is_obj_tru: "is_obj x \<Longrightarrow> tru x"
  by (cases x) simp_all

lemma put_put_same [simp]: "put k v (put k w x) = put k v x"
  by (cases x) (simp_all add: update_Some_unfold)

lemma jor_tru [simp]: "tru a \<Longrightarrow> jor a b = a"
  by (simp add: jor_def)

lemma jor_fls [simp]: "\<not> tru a \<Longrightarrow> jor a b = b"
  by (simp add: jor_def)

lemma tru_jor [simp]: "tru (jor a b) \<longleftrightarrow> tru a \<or> tru b"
  by (simp add: jor_def)

lemma is_obj_jor: "(tru a \<Longrightarrow> is_obj a) \<Longrightarrow> is_obj b \<Longrightarrow> is_obj (jor a b)"
  by (simp add: jor_def)

lemma is_nil_not_tru: "is_nil a \<Longrightarrow> \<not> tru a"
  by (auto simp: is_nil_def)

lemma is_nil_simps [simp]:
  "is_nil JUndef" "is_nil JNull" "\<not> is_nil (JBool b)" "\<not> is_nil (JNum n)" "\<not> is_nil JNaN"
  "\<not> is_nil (JStr s)" "\<not> is_nil (JArr xs)" "\<not> is_nil (JObj kvs)"
  by (simp_all add: is_nil_def)

lemma elems_arr_or_empty [simp]: "elems (arr_or_empty a) = elems a"
  by (cases a) (simp_all add: arr_or_empty_def)

lemma num0_num [simp]: "num0 (JNum n) = n"
  by (simp add: num0_def)

lemma digit_char_digit: "n < 10 \<Longrightarrow> is_digit (digit_char n) \<and> digit_val (digit_char n) = int n"
  by (simp add: is_digit_def digit_val_def digit_char_def)

lemma nat_digits_digits: "list_all is_digit (nat_digits n) \<and> nat_digits n \<noteq> []"
proof (induction n rule: nat_digits.induct)
  case (1 n)
  show ?case
    by (subst (1 2) nat_digits.simps) (auto simp: 1 digit_char_digit)
qed

lemma nat_digits_value: "foldl (\<lambda>n c. 10 * n + digit_val c) 0 (nat_digits n) = int n"
proof (induction n rule: nat_digits.induct)
  case (1 n)
  have "10 * int (n div 10) + int (n mod 10) = int n"
    by (metis mult_div_mod_eq of_nat_add of_nat_mult of_nat_numeral)
  then show ?case
    by (subst nat_digits.simps) (auto simp: 1 digit_char_digit)
qed

lemma digit_not_ws: "is_digit c \<Longrightarrow> \<not> is_ws c \<and> c \<noteq> CHR ''-'' \<and> c \<noteq> CHR ''+''"
  by (auto simp: is_digit_def is_ws_def)

lemma trim_digits:
  assumes "list_all is_digit s"
  shows "trim s = s"
proof -
  have "dropWhile is_ws t = t" if "list_all is_digit t" for t
    using that by (cases t) (auto dest: digit_not_ws)
  then show ?thesis
    using assms by (simp add: trim_def)
qed

text \<open>\<open>Number(String(n))\<close> is \<open>n\<close> for the identifiers the server converts.\<close>

lemma str_num_int_str:
  assumes "0 \<le> n"
  shows "str_num (int_str n) = Some n"
proof -
  let ?s = "nat_digits (nat n)"
  have d: "list_all is_digit ?s" "?s \<noteq> []"
    using nat_digits_digits by blast+
  then obtain c cs where s: "?s = c # cs"
    by (cases ?s) auto
  with d have "c \<noteq> CHR ''-''" "c \<noteq> CHR ''+''"
    using digit_not_ws by auto
  moreover have "all_digits ?s = Some n"
    using d nat_digits_value [of "nat n"] assms by (simp add: all_digits_def)
  ultimately show ?thesis
    using assms d trim_digits [of ?s] by (simp add: str_num_def int_str_def s)
qed

text \<open>A document without \<open>undefined\<close> and \<open>NaN\<close> is stored and read back unchanged.\<close>

fun json_ok :: "js \<Rightarrow> bool" where
  "json_ok JUndef = False"
| "json_ok JNaN = False"
| "json_ok (JArr xs) = (\<forall>x \<in> set xs. json_ok x)"
| "json_ok (JObj kvs) = (\<forall>x \<in> set kvs. json_ok (snd x))"
| "json_ok _ = True"

lemma jsonify_ok: "json_ok v \<Longrightarrow> jsonify v = v"
proof (induction v)
  case (JArr xs)
  then show ?case by (simp add: map_idI)
next
  case (JObj kvs)
  have "filter (\<lambda>(k, v). v \<noteq> JUndef) kvs = kvs"
    using JObj.prems by (intro filter_True) auto
  moreover have "map (\<lambda>(k, v). (k, jsonify v)) kvs = kvs"
  proof (rule map_idI)
    fix x assume x: "x \<in> set kvs"
    then have "json_ok (snd x)"
      using JObj.prems by simp
    with JObj.IH [OF x, of "snd x"] show "(case x of (k, v) \<Rightarrow> (k, jsonify v)) = x"
      by (cases x) (simp add: snds.simps)
  qed
  ultimately show ?case by simp
qed simp_all

lemma json_ok_jsonify: "json_ok (jsonify v)"
  by (induction v) auto

lemma is_obj_jsonify [simp]: "is_obj (jsonify v) = is_obj v"
  by (cases v) simp_all

end
