(* ===== verification/DefaultPlayer.thy ===== *)
theory DefaultPlayer
  imports Js
begin

text \<open>
  The template of a new player document, \<open>DEFAULT_PLAYER\<close> of \<open>src/db/player.js\<close>: identity,
  wallet, the roster of avatar profiles with their skills, and the selected items. Each call of
  the factory returns a fresh copy; a value is one anyway.
\<close>

text \<open>A profile of the roster: one skill, in slot 0, unlocked level 1.\<close>

definition default_profile :: "int \<Rightarrow> int list \<Rightarrow> int \<Rightarrow> bool \<Rightarrow> int \<Rightarrow> js" where
  "default_profile avatar clothes skill selected skin = JObj [
     (''avatar_id'', JNum avatar),
     (''clothes'', nums clothes),
     (''equiped_skills'', JArr [JObj [(''skill_id'', JNum skill), (''slot_id'', JNum 0)]]),
     (''is_selected'', JBool selected),
     (''skin_color'', JNum skin),
     (''unlocked_level'', JNum 1)]"

text \<open>The roster, in three parts.\<close>

definition default_profiles_1 :: "js list" where
  "default_profiles_1 = [
     default_profile 102000004 [203000001, 211000000, 204000001, 205000001] 102000004 True 5,
     default_profile 101000001 [203000166] 101000001 False 38,
     default_profile 102000005 [203000000, 204000000, 200000000, 200000000] 406 False 5,
     default_profile 101000005 [203000000, 204000000, 200000000, 200000000] 106 False 5,
     default_profile 102000006 [203000000, 204000000, 200000000, 200000000] 306 False 5,
     default_profile 101000006 [203000000, 204000000, 200000000, 200000000] 206 False 5,
     default_profile 102000007 [203000000, 204000000, 200000000, 200000000] 706 False 5,
     default_profile 101000007 [203000092] 506 False 5,
     default_profile 102000008 [203000000, 204000000, 200000000, 200000000] 806 False 5,
     default_profile 101000008 [203000000, 204000000, 200000000, 200000000] 906 False 5,
     default_profile 102000009 [203000000, 204000000, 200000000, 200000000] 1006 False 5,
     default_profile 101000009 [203000000, 204000000, 200000000, 200000000] 1106 False 5,
     default_profile 102000010 [203000000, 204000000, 200000000, 200000000] 1306 False 5,
     default_profile 101000010 [203000000, 204000000, 200000000, 200000000] 1106 False 5,
     default_profile 102000011 [203000000, 204000000, 200000000, 200000000] 1206 False 5,
     default_profile 101000011 [203000000, 204000000, 200000000, 200000000] 1406 False 5,
     default_profile 102000012 [203000000, 204000000, 200000000, 200000000] 1506 False 5,
     default_profile 101000012 [203000000, 204000000, 200000000, 200000000] 1706 False 5]"

definition default_profiles_2 :: "js list" where
  "default_profiles_2 = [
     default_profile 102000013 [203000000, 204000000, 200000000, 200000000] 1806 False 5,
     default_profile 101000013 [203000000, 204000000, 200000000, 200000000] 1906 False 5,
     default_profile 102000014 [203000000, 204000000, 200000000, 200000000] 2006 False 5,
     default_profile 101000014 [203000000, 204000000, 200000000, 200000000] 2106 False 5,
     default_profile 102000015 [203000000, 204000000, 200000000, 200000000] 2206 False 5,
     default_profile 101000015 [203000000, 204000000, 200000000, 200000000] 2506 False 5,
     default_profile 102000016 [203000000, 204000000, 200000000, 200000000] 2306 False 5,
     default_profile 101000016 [203000000, 204000000, 200000000, 200000000] 2406 False 5,
     default_profile 102000017 [203000000, 204000000, 200000000, 200000000] 2706 False 5,
     default_profile 101000017 [203000000, 204000000, 200000000, 200000000] 2606 False 5,
     default_profile 102000018 [203000000, 204000000, 200000000, 200000000] 2906 False 5,
     default_profile 101000018 [203000000, 204000000, 200000000, 200000000] 2806 False 5,
     default_profile 102000019 [203000000, 204000000, 200000000, 200000000] 3006 False 5,
     default_profile 101000019 [203000000, 204000000, 200000000, 200000000] 3106 False 5,
     default_profile 102000020 [203000000, 204000000, 200000000, 200000000] 3206 False 5,
     default_profile 101000020 [203000000, 204000000, 200000000, 200000000] 3506 False 5,
     default_profile 102000021 [203000000, 204000000, 200000000, 200000000] 3306 False 5,
     default_profile 101000021 [203000000, 204000000, 200000000, 200000000] 3906 False 5]"

definition default_profiles_3 :: "js list" where
  "default_profiles_3 = [
     default_profile 102000022 [203000000, 204000000, 200000000, 200000000] 3406 False 5,
     default_profile 101000022 [203000000, 204000000, 200000000, 200000000] 4406 False 5,
     default_profile 102000023 [203000000, 204000000, 200000000, 200000000] 3606 False 5,
     default_profile 101000023 [203000000, 204000000, 200000000, 200000000] 4806 False 5,
     default_profile 102000024 [203000000, 204000000, 200000000, 200000000] 3806 False 5,
     default_profile 102000025 [203000000, 204000000, 200000000, 200000000] 4006 False 5,
     default_profile 102000026 [203000000, 204000000, 200000000, 200000000] 4106 False 5,
     default_profile 102000027 [203000000, 204000000, 200000000, 200000000] 4206 False 5,
     default_profile 102000028 [203000000, 204000000, 200000000, 200000000] 4306 False 5,
     default_profile 102000029 [203000000, 204000000, 200000000, 200000000] 4506 False 5,
     default_profile 102000030 [203000000, 204000000, 200000000, 200000000] 4606 False 5,
     default_profile 102000031 [203000000, 204000000, 200000000, 200000000] 4706 False 5,
     default_profile 102000032 [203000000, 204000000, 200000000, 200000000] 4906 False 5,
     default_profile 102000033 [203000000, 204000000, 200000000, 200000000] 5006 False 5,
     default_profile 102000034 [203000000, 204000000, 200000000, 200000000] 5206 False 5]"

definition default_profiles :: "js list" where
  "default_profiles = default_profiles_1 @ default_profiles_2 @ default_profiles_3"

text \<open>The fields before and after the roster.\<close>

definition default_identity :: "(string \<times> js) list" where
  "default_identity = [
    (''uid'', JNum 0),
    (''account_id'', JNum 0),
    (''open_id'', JNull),
    (''open_id_type'', JNull),
    (''nickname'', JStr ''Player''),
    (''device_id'', JNull),
    (''client_version'', JNull),
    (''token'', JNull),
    (''token_created_at'', JNum 0),
    (''banned'', JBool False),
    (''account_type'', JNum 0),
    (''region'', JNull),
    (''language'', JNull),
    (''level'', JNum 100),
    (''exp'', JNum 250000),
    (''rank'', JNum 1),
    (''ranking_points'', JNum 1000),
    (''coins'', JNum 999999),
    (''gems'', JNum 999999),
    (''role'', JNum 1),
    (''skateboard_id'', JNum 0),
    (''elite_pass'', JBool False),
    (''ep_badge_count'', JNum 0),
    (''ep_badge_id'', JNum 0),
    (''game_server_id'', JStr []),
    (''wallet'', JObj [
      (''coins'', JNum 999999),
      (''gems'', JNum 999999)])]"

definition default_selected_items :: js where
  "default_selected_items = JObj [
    (''avatar_id'', JNum 102000004),
    (''skin_color'', JNum 5),
    (''clothes'', nums [203000001, 211000000, 204000001, 205000001]),
    (''banner_id'', JNum 900000014),
    (''head_pic'', JNum 902000003),
    (''loadouts'', nums [102000004, 102000005]),
    (''slots'', nums [102000004, 1, 2, 3, 907000010, 0, 0, 0, 0, 0, 0, 0, 0, 0, 0])]"

definition default_social :: "(string \<times> js) list" where
  "default_social = [
    (''backpack'', JObj [
      (''items'', JArr [])]),
    (''friends'', JArr []),
    (''requests'', JArr []),
    (''mails'', JArr []),
    (''clan'', JObj [
      (''id'', JNum 0),
      (''name'', JNull),
      (''role'', JStr ''none''),
      (''rank'', JNum 0),
      (''points'', JNum 0),
      (''members'', JArr [])]),
    (''created_at'', JNum 0),
    (''last_login_at'', JNum 0)]"

definition DEFAULT_PLAYER :: js where
  "DEFAULT_PLAYER = JObj (default_identity @
     [(''profile'', JObj [(''profiles'', JArr default_profiles)]),
      (''selected_items'', default_selected_items)] @
     default_social)"

end
