(* ===== verification/Repo.thy ===== *)
theory Repo
  imports DefaultPlayer Prelude
begin

text \<open>
  The account repository (\<open>src/db/repo/index.js\<close>): one interface, two backends. The interface is
  a record of operations over an abstract database; \<open>sqlite_repo\<close> is \<open>src/db/player.js\<close> behind
  \<open>src/db/repo/sqlite.js\<close>, \<open>pg_repo\<close> is \<open>src/db/repo/postgres.js\<close>.

  A database is the rows of the \<open>accounts\<close> table in insertion order, the identity counter, and the
  relational tables of the Postgres schema (\<open>migrations/002_promoted.sql\<close>): friendships, friend
  requests and the settlement ledger, each with its primary key, and foreign keys to \<open>accounts\<close>.
  A column is a JavaScript value, \<open>null\<close> included; the \<open>state\<close> column holds a document, the text of
  one that does not parse, or nothing. A query that violates a constraint throws; a connection that
  fails is not modelled. \<open>SELECT\<close> returns rows in table order.
\<close>

section \<open>Tables\<close>

datatype state_col = NoState | Corrupt | Doc js

record row =
  ro_account_id :: int
  ro_open_id :: js
  ro_open_id_type :: js
  ro_nickname :: js
  ro_region :: js
  ro_language :: js
  ro_device_id :: js
  ro_client_version :: js
  ro_level :: js
  ro_clan_id :: js
  ro_created_at :: js
  ro_last_login_at :: js
  ro_token :: js
  ro_token_created_at :: js
  ro_raw_login :: js
  ro_state :: state_col

record result_row =
  mr_match_id :: string
  mr_account_id :: int
  mr_coins :: int
  mr_kills :: int
  mr_deaths :: int
  mr_win :: bool
  mr_rank_points :: int
  mr_xp :: int

record db =
  db_rows :: "row list"
  db_next :: int
  db_friends :: "(int \<times> int) list"
  db_requests :: "(int \<times> int) list"
  db_results :: "result_row list"

type_synonym ('d, 'a) query = "'d \<Rightarrow> (exn + 'a) \<times> 'd"

definition row_of :: "db \<Rightarrow> int \<Rightarrow> row option" where
  "row_of d i = find (\<lambda>r. ro_account_id r = i) (db_rows d)"

definition known :: "db \<Rightarrow> int \<Rightarrow> bool" where
  "known d i \<longleftrightarrow> (\<exists>r \<in> set (db_rows d). ro_account_id r = i)"

lemma known_code [code]: "known d i = list_ex (\<lambda>r. ro_account_id r = i) (db_rows d)"
  by (auto simp: known_def list_ex_iff)

section \<open>Documents and rows\<close>

definition GUEST_OPEN_ID :: string where "GUEST_OPEN_ID = ''guest-default''"

text \<open>\<open>guest\<close> is \<open>process.env.GUEST_OPEN_ID || 'guest-default'\<close>.\<close>

definition deriveOpenId :: "string \<Rightarrow> js \<Rightarrow> string" where
  "deriveOpenId guest obj =
     (let oid = fld obj ''open_id''
      in if \<not> is_nil oid \<and> trim (str oid) \<noteq> [] then str oid else str_or guest GUEST_OPEN_ID)"

text \<open>The columns that stay authoritative over the document.\<close>

definition overlay_columns :: "row \<Rightarrow> js \<Rightarrow> js" where
  "overlay_columns r acc =
     (let a1 = put ''account_id'' (JNum (ro_account_id r)) (put ''uid'' (JNum (ro_account_id r)) acc);
          a2 = (if is_nil (ro_open_id r) then a1 else put ''open_id'' (ro_open_id r) a1);
          a3 = (if is_nil (ro_token r) then a2 else put ''token'' (ro_token r) a2)
      in if is_nil (ro_token_created_at r) then a3
         else put ''token_created_at'' (ro_token_created_at r) a3)"

definition rowToAccount :: "row option \<Rightarrow> js" where
  "rowToAccount ro =
     (case ro of
        None \<Rightarrow> JNull
      | Some r \<Rightarrow>
          overlay_columns r
            (case ro_state r of Doc d \<Rightarrow> d | NoState \<Rightarrow> DEFAULT_PLAYER | Corrupt \<Rightarrow> DEFAULT_PLAYER))"

fun nonempty_obj :: "js \<Rightarrow> bool" where
  "nonempty_obj (JObj kvs) = (kvs \<noteq> [])"
| "nonempty_obj (JArr xs) = (xs \<noteq> [])"
| "nonempty_obj _ = False"

definition pg_rowToAccount :: "row option \<Rightarrow> js" where
  "pg_rowToAccount ro =
     (case ro of
        None \<Rightarrow> JNull
      | Some r \<Rightarrow>
          overlay_columns r
            (case ro_state r of Doc d \<Rightarrow> if nonempty_obj d then d else DEFAULT_PLAYER
             | _ \<Rightarrow> DEFAULT_PLAYER))"

text \<open>The denormalised columns of a document, written with it.\<close>

definition denorm :: "js \<Rightarrow> row \<Rightarrow> row" where
  "denorm account r =
     r\<lparr>ro_open_id_type := jnil (fld account ''open_id_type'') JNull,
       ro_nickname := jnil (fld account ''nickname'') JNull,
       ro_region := jnil (fld account ''region'') JNull,
       ro_language := jnil (fld account ''language'') JNull,
       ro_device_id := jnil (fld account ''device_id'') JNull,
       ro_client_version := jnil (fld account ''client_version'') JNull,
       ro_level := jnil (fld account ''level'') (JNum 1),
       ro_clan_id := jor (jor (jand (fld account ''clan'') (fld (fld account ''clan'') ''id''))
                           (fld account ''clan_id'')) (JNum 0),
       ro_token := jnil (fld account ''token'') JNull,
       ro_token_created_at := jnil (fld account ''token_created_at'') (JNum 0)\<rparr>"

text \<open>What \<open>save\<close> does to the document before it is written: both names of the id, and a login
  time.\<close>

definition stamp :: "int \<Rightarrow> js \<Rightarrow> js" where
  "stamp now account =
     (let i = jor (fld account ''uid'') (fld account ''account_id'');
          a = put ''account_id'' i (put ''uid'' i account)
      in put ''last_login_at'' (jor (fld a ''last_login_at'') (JNum now)) a)"

definition write_doc :: "js \<Rightarrow> row \<Rightarrow> row" where
  "write_doc account r =
     (denorm account r)\<lparr>ro_last_login_at := fld account ''last_login_at'', ro_state := Doc (jsonify account)\<rparr>"

definition update_row :: "js \<Rightarrow> (row \<Rightarrow> row) \<Rightarrow> db \<Rightarrow> db" where
  "update_row i f d = d\<lparr>db_rows := map (\<lambda>r. if JNum (ro_account_id r) = i then f r else r) (db_rows d)\<rparr>"

text \<open>\<open>save\<close>, the same in both backends: it returns the document with the stamps.\<close>

definition save :: "int \<Rightarrow> js \<Rightarrow> (db, js) query" where
  "save now account d =
     (if \<not> tru account then (Inr account, d)
      else let i = jor (fld account ''uid'') (fld account ''account_id'')
           in if \<not> tru i then (Inl (Thrown ''save: account has no uid/account_id''), d)
              else let a = stamp now account in (Inr a, update_row i (write_doc a) d))"

section \<open>Lookups\<close>

definition select_token :: "js \<Rightarrow> db \<Rightarrow> row option" where
  "select_token t d = find (\<lambda>r. ro_token r = t) (db_rows d)"

definition select_id :: "js \<Rightarrow> db \<Rightarrow> row option" where
  "select_id i d = find (\<lambda>r. num i = Some (ro_account_id r)) (db_rows d)"

definition select_open_id :: "js \<Rightarrow> db \<Rightarrow> row option" where
  "select_open_id oid d = find (\<lambda>r. ro_open_id r = oid) (db_rows d)"

definition getByToken :: "js \<Rightarrow> db \<Rightarrow> js" where
  "getByToken t d = (if \<not> tru t then JNull else rowToAccount (select_token t d))"

definition getById :: "js \<Rightarrow> db \<Rightarrow> js" where
  "getById i d = (if \<not> tru i then JNull else rowToAccount (select_id i d))"

definition getByOpenId :: "js \<Rightarrow> db \<Rightarrow> js" where
  "getByOpenId oid d = (if \<not> tru oid then JNull else rowToAccount (select_open_id oid d))"

definition pg_getByToken :: "js \<Rightarrow> db \<Rightarrow> js" where
  "pg_getByToken t d = (if \<not> tru t then JNull else pg_rowToAccount (select_token t d))"

definition pg_getById :: "js \<Rightarrow> db \<Rightarrow> js" where
  "pg_getById i d = (if \<not> tru i then JNull else pg_rowToAccount (select_id i d))"

definition pg_getByOpenId :: "js \<Rightarrow> db \<Rightarrow> js" where
  "pg_getByOpenId oid d = (if \<not> tru oid then JNull else pg_rowToAccount (select_open_id oid d))"

text \<open>One lookup per id, in the order of the ids, against one \<open>IN\<close> query in table order.\<close>

definition sqlite_getByIds :: "js list \<Rightarrow> db \<Rightarrow> js list" where
  "sqlite_getByIds ids d = filter tru (map (\<lambda>i. getById i d) ids)"

definition pg_getByIds :: "js list \<Rightarrow> db \<Rightarrow> js list" where
  "pg_getByIds ids d =
     map (\<lambda>r. pg_rowToAccount (Some r))
       (filter (\<lambda>r. Some (ro_account_id r) \<in> set (map num ids)) (db_rows d))"

text \<open>\<open>LIKE\<close>: a percent sign stands for any text and an underscore for one character; Postgres
  also has the escape character backslash. Case is ignored.\<close>

fun like :: "bool \<Rightarrow> string \<Rightarrow> string \<Rightarrow> bool" where
  "like esc [] s = (s = [])"
| "like esc (p # ps) s =
     (if p = CHR ''%'' then list_ex (\<lambda>k. like esc ps (drop k s)) [0..<Suc (length s)]
      else if esc \<and> p = CHR 0x5C then
        (case ps of [] \<Rightarrow> False | q # qs \<Rightarrow> (case s of [] \<Rightarrow> False | c # cs \<Rightarrow> c = q \<and> like esc qs cs))
      else (case s of [] \<Rightarrow> False | c # cs \<Rightarrow> (p = CHR ''_'' \<or> c = p) \<and> like esc ps cs))"

definition searchByNickname :: "bool \<Rightarrow> string \<Rightarrow> db \<Rightarrow> int list" where
  "searchByNickname esc pattern d =
     take 20 (map ro_account_id
       (filter (\<lambda>r. \<not> is_nil (ro_nickname r) \<and>
           like esc (toLowerCase (''%'' @ pattern @ ''%'')) (toLowerCase (str (ro_nickname r))))
         (db_rows d)))"

section \<open>Creating an account\<close>

definition opt_str :: "js \<Rightarrow> js" where
  "opt_str v = (if tru v then JStr (str v) else JNull)"

text \<open>\<open>if (req.k) acc.k = String(req.k)\<close>.\<close>

definition refresh :: "string \<Rightarrow> js \<Rightarrow> js \<Rightarrow> js" where
  "refresh k req acc = (if tru (fld req k) then put k (JStr (str (fld req k))) acc else acc)"

definition refresh_identity :: "js \<Rightarrow> js \<Rightarrow> js" where
  "refresh_identity req acc =
     (let a1 = (if is_nil (fld req ''open_id_type'') then acc
                else put ''open_id_type'' (JStr (str (fld req ''open_id_type''))) acc)
      in refresh ''client_version'' req (refresh ''device_id'' req
          (refresh ''language'' req (refresh ''region'' req (refresh ''nickname'' req a1)))))"

text \<open>The document of a new account.\<close>

definition new_document :: "int \<Rightarrow> string \<Rightarrow> int \<Rightarrow> js \<Rightarrow> js" where
  "new_document uid openId now req =
     (let a1 = put ''open_id'' (JStr openId) (put ''account_id'' (JNum uid) (put ''uid'' (JNum uid) DEFAULT_PLAYER));
          a2 = put ''open_id_type'' (if is_nil (fld req ''open_id_type'') then JNull
                                      else JStr (str (fld req ''open_id_type''))) a1;
          a3 = refresh ''nickname'' req a2;
          a4 = put ''region'' (opt_str (fld req ''region'')) a3;
          a5 = put ''language'' (opt_str (fld req ''language'')) a4;
          a6 = put ''device_id'' (opt_str (fld req ''device_id'')) a5;
          a7 = put ''client_version'' (opt_str (fld req ''client_version'')) a6
      in put ''last_login_at'' (JNum now) (put ''created_at'' (JNum now) a7))"

text \<open>The placeholder row that yields the identity.\<close>

definition placeholder_row :: "int \<Rightarrow> string \<Rightarrow> int \<Rightarrow> js \<Rightarrow> row" where
  "placeholder_row uid openId now req = \<lparr>
     ro_account_id = uid,
     ro_open_id = JStr openId,
     ro_open_id_type = (if is_nil (fld req ''open_id_type'') then JNull else JStr (str (fld req ''open_id_type''))),
     ro_nickname = (if tru (fld req ''nickname'') then JStr (str (fld req ''nickname'')) else JStr ''Player''),
     ro_region = opt_str (fld req ''region''),
     ro_language = opt_str (fld req ''language''),
     ro_device_id = opt_str (fld req ''device_id''),
     ro_client_version = opt_str (fld req ''client_version''),
     ro_level = JNum 100,
     ro_clan_id = JNum 0,
     ro_created_at = JNum now,
     ro_last_login_at = JNum now,
     ro_token = JNull,
     ro_token_created_at = JNum 0,
     ro_raw_login = jsonify req,
     ro_state = Doc (JObj [])\<rparr>"

definition insert_row :: "(int \<Rightarrow> row) \<Rightarrow> (db, int) query" where
  "insert_row mk d =
     (let r = mk (db_next d)
      in if list_ex (\<lambda>q. ro_open_id q = ro_open_id r) (db_rows d)
         then (Inl (Thrown ''unique violation: accounts.open_id''), d)
         else (Inr (db_next d), d\<lparr>db_rows := db_rows d @ [r], db_next := db_next d + 1\<rparr>))"

text \<open>\<open>createFromLogin\<close>: the two backends differ in how a row becomes a document.\<close>

definition create_with ::
  "(js \<Rightarrow> db \<Rightarrow> js) \<Rightarrow> string \<Rightarrow> int \<Rightarrow> js \<Rightarrow> (db, js) query" where
  "create_with byOpenId guest now loginReq d =
     (let req = jor loginReq (JObj []);
          openId = deriveOpenId guest req;
          existing = byOpenId (JStr openId) d
      in if tru existing then save now (refresh_identity req existing) d
         else (case insert_row (\<lambda>uid. placeholder_row uid openId now req) d of
                 (Inl e, d1) \<Rightarrow> (Inl e, d1)
               | (Inr uid, d1) \<Rightarrow> save now (new_document uid openId now req) d1))"

definition createFromLogin :: "string \<Rightarrow> int \<Rightarrow> js \<Rightarrow> (db, js) query" where
  "createFromLogin guest now loginReq d = create_with getByOpenId guest now loginReq d"

definition pg_createFromLogin :: "string \<Rightarrow> int \<Rightarrow> js \<Rightarrow> (db, js) query" where
  "pg_createFromLogin guest now loginReq d = create_with pg_getByOpenId guest now loginReq d"

end
