(* ===== verification/Friends.thy ===== *)
theory Friends
  imports Repo
begin

text \<open>
  The social part of the two repositories and the settlement ledger: friend lists and pending
  requests, kept in the documents by \<open>src/db/repo/sqlite.js\<close> and in tables by
  \<open>src/db/repo/postgres.js\<close>, and \<open>settleMatchResult\<close>. The record \<open>repo\<close> is the interface of
  \<open>src/db/repo/index.js\<close>; \<open>Cutover\<close> relates the two representations of friends and requests.
\<close>

section \<open>The document-backed store (SQLite)\<close>

text \<open>\<open>Number(a) === Number(b)\<close>.\<close>

definition num_eq :: "js \<Rightarrow> js \<Rightarrow> bool" where
  "num_eq a b = (case num a of Some n \<Rightarrow> num b = Some n | None \<Rightarrow> False)"

definition sqlite_getFriendIds :: "js \<Rightarrow> db \<Rightarrow> js list" where
  "sqlite_getFriendIds uid d = map jnum (elems (fld (getById uid d) ''friends''))"

definition sqlite_getRequestIds :: "js \<Rightarrow> db \<Rightarrow> js list" where
  "sqlite_getRequestIds uid d = map jnum (elems (fld (getById uid d) ''requests''))"

definition then_unit :: "('d, 'a) query \<Rightarrow> ('d, unit) query" where
  "then_unit q d = (case q d of (Inl e, d') \<Rightarrow> (Inl e, d') | (Inr _, d') \<Rightarrow> (Inr (), d'))"

definition sqlite_addRequest :: "int \<Rightarrow> js \<Rightarrow> js \<Rightarrow> (db, unit) query" where
  "sqlite_addRequest now targetId fromId d =
     (if \<not> tru targetId \<or> \<not> tru fromId \<or> num_eq targetId fromId then (Inr (), d)
      else let t = getById targetId d
           in if \<not> tru t then (Inr (), d)
              else let rs = elems (fld t ''requests'')
                   in if list_ex (num_eq fromId) rs then (Inr (), d)
                      else then_unit (save now (put ''requests'' (JArr (rs @ [jnum fromId])) t)) d)"

definition sqlite_removeRequest :: "int \<Rightarrow> js \<Rightarrow> js \<Rightarrow> (db, unit) query" where
  "sqlite_removeRequest now targetId fromId d =
     (let t = getById targetId d
      in if \<not> tru t \<or> \<not> is_arr (fld t ''requests'') then (Inr (), d)
         else let rs = elems (fld t ''requests'');
                  rs' = filter (\<lambda>r. \<not> num_eq r fromId) rs
              in if length rs' = length rs then (Inr (), d)
                 else then_unit (save now (put ''requests'' (JArr rs') t)) d)"

text \<open>One side of \<open>addFriendship\<close> and of \<open>removeFriendship\<close>.\<close>

definition befriend :: "js \<Rightarrow> js \<Rightarrow> js" where
  "befriend other acc =
     (let fs = elems (fld acc ''friends'');
          rs = filter (\<lambda>r. \<not> num_eq r other) (elems (fld acc ''requests''));
          fs' = (if list_ex (num_eq other) fs then fs else fs @ [jnum other])
      in put ''requests'' (JArr rs) (put ''friends'' (JArr fs') acc))"

definition unfriend :: "js \<Rightarrow> js \<Rightarrow> js" where
  "unfriend other acc =
     put ''friends'' (JArr (filter (\<lambda>f. \<not> num_eq f other) (elems (fld acc ''friends'')))) acc"

definition sqlite_link :: "int \<Rightarrow> js \<Rightarrow> js \<Rightarrow> (db, unit) query" where
  "sqlite_link now self other d =
     (let acc = getById self d
      in if \<not> tru acc then (Inr (), d) else then_unit (save now (befriend other acc)) d)"

definition sqlite_unlink :: "int \<Rightarrow> js \<Rightarrow> js \<Rightarrow> (db, unit) query" where
  "sqlite_unlink now self other d =
     (let acc = getById self d
      in if \<not> tru acc \<or> \<not> is_arr (fld acc ''friends'') then (Inr (), d)
         else then_unit (save now (unfriend other acc)) d)"

definition seq_query :: "('d, unit) query \<Rightarrow> ('d, unit) query \<Rightarrow> ('d, unit) query" where
  "seq_query p q d = (case p d of (Inl e, d') \<Rightarrow> (Inl e, d') | (Inr _, d') \<Rightarrow> q d')"

definition sqlite_addFriendship :: "int \<Rightarrow> js \<Rightarrow> js \<Rightarrow> (db, unit) query" where
  "sqlite_addFriendship now a b d =
     (if \<not> tru a \<or> \<not> tru b \<or> num_eq a b then (Inr (), d)
      else seq_query (sqlite_link now a b) (sqlite_link now b a) d)"

definition sqlite_removeFriendship :: "int \<Rightarrow> js \<Rightarrow> js \<Rightarrow> (db, unit) query" where
  "sqlite_removeFriendship now a b d =
     (if \<not> tru a \<or> \<not> tru b then (Inr (), d)
      else seq_query (sqlite_unlink now a b) (sqlite_unlink now b a) d)"

definition sqlite_settleMatchResult :: "string \<Rightarrow> js \<Rightarrow> (db, bool \<times> bool) query" where
  "sqlite_settleMatchResult matchId pr d =
     (Inl (Thrown ''settleMatchResult requires the Postgres backend (set DATABASE_URL)''), d)"

section \<open>The relational store (Postgres)\<close>

definition add_pair :: "int \<times> int \<Rightarrow> (int \<times> int) list \<Rightarrow> (int \<times> int) list" where
  "add_pair p ps = (if p \<in> set ps then ps else ps @ [p])"

definition pg_getFriendIds :: "js \<Rightarrow> db \<Rightarrow> js list" where
  "pg_getFriendIds uid d =
     (if \<not> tru uid then []
      else map (\<lambda>p. JNum (snd p)) (filter (\<lambda>p. num uid = Some (fst p)) (db_friends d)))"

definition pg_getRequestIds :: "js \<Rightarrow> db \<Rightarrow> js list" where
  "pg_getRequestIds uid d =
     (if \<not> tru uid then []
      else map (\<lambda>p. JNum (snd p)) (filter (\<lambda>p. num uid = Some (fst p)) (db_requests d)))"

text \<open>An \<open>INSERT\<close> whose references are not accounts violates a foreign key.\<close>

definition fk_violation :: exn where
  "fk_violation = Thrown ''foreign key violation''"

definition pg_addRequest :: "int \<Rightarrow> js \<Rightarrow> js \<Rightarrow> (db, unit) query" where
  "pg_addRequest now targetId fromId d =
     (if \<not> tru targetId \<or> \<not> tru fromId \<or> num_eq targetId fromId then (Inr (), d)
      else if \<not> known d (num0 targetId) \<or> \<not> known d (num0 fromId) then (Inl fk_violation, d)
      else (Inr (), d\<lparr>db_requests := add_pair (num0 targetId, num0 fromId) (db_requests d)\<rparr>))"

definition pg_removeRequest :: "int \<Rightarrow> js \<Rightarrow> js \<Rightarrow> (db, unit) query" where
  "pg_removeRequest now targetId fromId d =
     (if \<not> tru targetId \<or> \<not> tru fromId then (Inr (), d)
      else (Inr (), d\<lparr>db_requests := filter (\<lambda>p. p \<noteq> (num0 targetId, num0 fromId)) (db_requests d)\<rparr>))"

definition pg_addFriendship :: "int \<Rightarrow> js \<Rightarrow> js \<Rightarrow> (db, unit) query" where
  "pg_addFriendship now a b d =
     (if \<not> tru a \<or> \<not> tru b \<or> num_eq a b then (Inr (), d)
      else let x = num0 a; y = num0 b
           in if \<not> known d x \<or> \<not> known d y then (Inl fk_violation, d)
              else (Inr (), d\<lparr>db_friends := add_pair (y, x) (add_pair (x, y) (db_friends d)),
                           db_requests := filter (\<lambda>p. p \<noteq> (x, y) \<and> p \<noteq> (y, x)) (db_requests d)\<rparr>))"

definition pg_removeFriendship :: "int \<Rightarrow> js \<Rightarrow> js \<Rightarrow> (db, unit) query" where
  "pg_removeFriendship now a b d =
     (if \<not> tru a \<or> \<not> tru b then (Inr (), d)
      else (Inr (), d\<lparr>db_friends :=
              filter (\<lambda>p. p \<noteq> (num0 a, num0 b) \<and> p \<noteq> (num0 b, num0 a)) (db_friends d)\<rparr>))"

section \<open>The settlement ledger\<close>

definition int32_of :: "js \<Rightarrow> string \<Rightarrow> int" where
  "int32_of pr k = to_int32 (num0 (fld pr k))"

definition result_of :: "string \<Rightarrow> js \<Rightarrow> result_row" where
  "result_of matchId pr = \<lparr>
     mr_match_id = matchId,
     mr_account_id = num0 (fld pr ''account_id''),
     mr_coins = int32_of pr ''coins'',
     mr_kills = int32_of pr ''kills'',
     mr_deaths = int32_of pr ''deaths'',
     mr_win = tru (fld pr ''win''),
     mr_rank_points = int32_of pr ''rank_points'',
     mr_xp = int32_of pr ''xp''\<rparr>"

definition settled :: "string \<Rightarrow> int \<Rightarrow> db \<Rightarrow> bool" where
  "settled matchId i d = list_ex (\<lambda>m. mr_match_id m = matchId \<and> mr_account_id m = i) (db_results d)"

text \<open>\<open>COALESCE((state->>'coins')::bigint, 0)\<close>; \<open>None\<close> is the cast that throws.\<close>

fun stored_coins :: "js \<Rightarrow> int option" where
  "stored_coins JUndef = Some 0"
| "stored_coins JNull = Some 0"
| "stored_coins (JNum n) = Some n"
| "stored_coins (JStr s) = (case s of [] \<Rightarrow> None | _ \<Rightarrow> str_num s)"
| "stored_coins _ = None"

fun credit_state :: "int \<Rightarrow> state_col \<Rightarrow> state_col option" where
  "credit_state n NoState = Some (Doc (JObj [(''coins'', JNum n)]))"
| "credit_state n Corrupt = None"
| "credit_state n (Doc (JObj kvs)) =
     map_option (\<lambda>c. Doc (put ''coins'' (JNum (c + n)) (JObj kvs))) (stored_coins (fld (JObj kvs) ''coins''))"
| "credit_state n (Doc _) = None"

fun credit_rows :: "int \<Rightarrow> int \<Rightarrow> row list \<Rightarrow> row list option" where
  "credit_rows i n [] = Some []"
| "credit_rows i n (r # rs) =
     (case credit_rows i n rs of
        None \<Rightarrow> None
      | Some rs' \<Rightarrow>
          if ro_account_id r = i
          then map_option (\<lambda>st. r\<lparr>ro_state := st\<rparr> # rs') (credit_state n (ro_state r))
          else Some (r # rs'))"

text \<open>One transaction; an error rolls it back.\<close>

definition pg_settleMatchResult :: "string \<Rightarrow> js \<Rightarrow> (db, bool \<times> bool) query" where
  "pg_settleMatchResult matchId pr d =
     (let m = result_of matchId pr; i = mr_account_id m
      in if settled matchId i d then (Inr (False, False), d)
         else if \<not> known d i then (Inl fk_violation, d)
         else let d1 = d\<lparr>db_results := db_results d @ [m]\<rparr>
              in if mr_coins m > 0
                 then (case credit_rows i (mr_coins m) (db_rows d) of
                         None \<Rightarrow> (Inl (Thrown ''invalid coins''), d)
                       | Some rs \<Rightarrow> (Inr (True, True), d1\<lparr>db_rows := rs\<rparr>))
                 else (Inr (True, False), d1))"

section \<open>The interface\<close>

record 'd repo =
  rp_getByToken :: "js \<Rightarrow> 'd \<Rightarrow> js"
  rp_getById :: "js \<Rightarrow> 'd \<Rightarrow> js"
  rp_getByOpenId :: "js \<Rightarrow> 'd \<Rightarrow> js"
  rp_getByIds :: "js list \<Rightarrow> 'd \<Rightarrow> js list"
  rp_searchByNickname :: "string \<Rightarrow> 'd \<Rightarrow> int list"
  rp_createFromLogin :: "int \<Rightarrow> js \<Rightarrow> ('d, js) query"
  rp_save :: "int \<Rightarrow> js \<Rightarrow> ('d, js) query"
  rp_settleMatchResult :: "string \<Rightarrow> js \<Rightarrow> ('d, bool \<times> bool) query"
  rp_getFriendIds :: "js \<Rightarrow> 'd \<Rightarrow> js list"
  rp_getRequestIds :: "js \<Rightarrow> 'd \<Rightarrow> js list"
  rp_addRequest :: "int \<Rightarrow> js \<Rightarrow> js \<Rightarrow> ('d, unit) query"
  rp_removeRequest :: "int \<Rightarrow> js \<Rightarrow> js \<Rightarrow> ('d, unit) query"
  rp_addFriendship :: "int \<Rightarrow> js \<Rightarrow> js \<Rightarrow> ('d, unit) query"
  rp_removeFriendship :: "int \<Rightarrow> js \<Rightarrow> js \<Rightarrow> ('d, unit) query"

definition sqlite_repo :: "string \<Rightarrow> db repo" where
  "sqlite_repo guest = \<lparr>
     rp_getByToken = getByToken, rp_getById = getById, rp_getByOpenId = getByOpenId,
     rp_getByIds = sqlite_getByIds, rp_searchByNickname = searchByNickname False,
     rp_createFromLogin = createFromLogin guest, rp_save = save,
     rp_settleMatchResult = sqlite_settleMatchResult,
     rp_getFriendIds = sqlite_getFriendIds, rp_getRequestIds = sqlite_getRequestIds,
     rp_addRequest = sqlite_addRequest, rp_removeRequest = sqlite_removeRequest,
     rp_addFriendship = sqlite_addFriendship, rp_removeFriendship = sqlite_removeFriendship\<rparr>"

definition pg_repo :: "string \<Rightarrow> db repo" where
  "pg_repo guest = \<lparr>
     rp_getByToken = pg_getByToken, rp_getById = pg_getById, rp_getByOpenId = pg_getByOpenId,
     rp_getByIds = pg_getByIds, rp_searchByNickname = searchByNickname True,
     rp_createFromLogin = pg_createFromLogin guest, rp_save = save,
     rp_settleMatchResult = pg_settleMatchResult,
     rp_getFriendIds = pg_getFriendIds, rp_getRequestIds = pg_getRequestIds,
     rp_addRequest = pg_addRequest, rp_removeRequest = pg_removeRequest,
     rp_addFriendship = pg_addFriendship, rp_removeFriendship = pg_removeFriendship\<rparr>"

text \<open>\<open>getRepo\<close>: Postgres when a database URL is configured.\<close>

definition getRepo :: "string \<Rightarrow> string \<Rightarrow> db repo" where
  "getRepo url guest = (if url \<noteq> [] then pg_repo guest else sqlite_repo guest)"

end
