(* ===== verification/Settlement.thy ===== *)
theory Settlement
  imports Friends
begin

text \<open>
  Settlement of finished matches: the worker that consumes \<open>match.result\<close>
  (\<open>src/servers/settlement.js\<close>), the scoreboard it pushes (\<open>src/tcp/matchstats.js\<close>), and the
  stream loop that feeds it (\<open>subscribeStream\<close> of \<open>src/bus/index.js\<close>).

  A result is the decoded message: a match id and one object per player. The scoreboard is the
  object handed to the protobuf encoder; nested messages, which the client gets as bytes, are nested
  objects. The Redis stream with its consumer group is a parameter-free model of what the loop uses:
  the entries, the position up to which the group has been delivered, and the pending list.
\<close>

section \<open>The scoreboard\<close>

definition EGAMEMODE_CS :: int where "EGAMEMODE_CS = 15"

definition teammateRow :: "js \<Rightarrow> js \<Rightarrow> js" where
  "teammateRow pr acct =
     (let a = jor acct (JObj []); si = jor (fld a ''selected_items'') (JObj [])
      in JObj [
      (''account_id'', fld pr ''account_id''),
      (''nickname'', jor (fld a ''nickname'') (JStr [])),
      (''kills'', JNum (to_int32 (num0 (fld pr ''kills'')))),
      (''deads'', JNum (to_int32 (num0 (fld pr ''deaths'')))),
      (''assists'', JNum 0),
      (''damage'', JNum (to_int32 (num0 (fld pr ''damage'')))),
      (''score'', JNum (((to_int32 (num0 (fld pr ''kills''))) * 100) + (to_int32 (num0 (fld pr ''damage''))))),
      (''rank'', (if tru (fld pr ''win'') then JNum 1 else JNum 2)),
      (''level'', jor (fld a ''level'') (JNum 1)),
      (''role'', fld a ''role''),
      (''avatar_id'', jor (fld si ''avatar_id'') (JNum 0)),
      (''banner_id'', jor (fld si ''banner_id'') (JNum 0)),
      (''head_pic'', jor (fld si ''head_pic'') (JNum 0)),
      (''clan_name'', jor (jand (fld a ''clan'') (fld (fld a ''clan'') ''name'')) (JStr [])),
      (''show_rank'', JBool True)])"

text \<open>\<open>(!!x.win) === (!!pr.win)\<close>: whoever shares the outcome is on the team.\<close>

definition sameTeam :: "js \<Rightarrow> js \<Rightarrow> bool" where
  "sameTeam pr x \<longleftrightarrow> tru (fld x ''win'') = tru (fld pr ''win'')"

definition team_kills :: "(js \<Rightarrow> bool) \<Rightarrow> js list \<Rightarrow> int" where
  "team_kills p players = foldl (\<lambda>s x. s + int32_of x ''kills'') 0 (filter p players)"

definition match_stats :: "js \<Rightarrow> js list \<Rightarrow> (js \<Rightarrow> js) \<Rightarrow> js" where
  "match_stats pr players acctOf =
     (let a = acctOf (fld pr ''account_id'');
          si = jor (fld a ''selected_items'') (JObj []);
          pve = (case fld si ''slots'' of JArr (s # _) \<Rightarrow> s | JArr [] \<Rightarrow> JUndef | _ \<Rightarrow> JNum 0);
          level = jor (fld a ''level'') (JNum 1);
          same = sameTeam pr;
          row = (\<lambda>x. teammateRow x (acctOf (fld x ''account_id'')))
      in JObj [
        (''account_id'', fld pr ''account_id''),
        (''kills'', JNum (to_int32 (num0 (fld pr ''kills'')))),
        (''deaths'', JNum (to_int32 (num0 (fld pr ''deaths'')))),
        (''damage'', JNum (to_int32 (num0 (fld pr ''damage'')))),
        (''rank'', (if tru (fld pr ''win'') then JNum 1 else JNum 2)),
        (''ranking_points'', JNum (to_int32 (num0 (fld pr ''rank_points'')))),
        (''match_mode'', JNum 1),
        (''game_mode'', JNum EGAMEMODE_CS),
        (''player_count'', JNum (int (length players))),
        (''real_player_count'', JNum (int (length players))),
        (''level'', level),
        (''role'', fld pr ''role''),
        (''pve_primary_weapon_skin'', pve),
        (''avatar_id'', jor (fld si ''avatar_id'') (JNum 0)),
        (''banner_id'', jor (fld si ''banner_id'') (JNum 0)),
        (''head_pic'', jor (fld si ''head_pic'') (JNum 0)),
        (''show_rank'', JBool True),
        (''teams_game_point'', nums [team_kills same players, team_kills (\<lambda>x. \<not> same x) players]),
        (''teammates'', JArr (map row (filter same players))),
        (''opponents'', JArr (map row (filter (\<lambda>x. \<not> same x) players)))])"

definition match_income :: "js \<Rightarrow> js \<Rightarrow> js" where
  "match_income pr a =
     (let level = jor (fld a ''level'') (JNum 1); coinsAfter = jor (fld a ''coins'') (JNum 0)
      in JObj [
        (''exp'', JNum (to_int32 (num0 (fld pr ''xp'')))),
        (''coins'', JNum (to_int32 (num0 (fld pr ''coins'')))),
        (''rank_points'', JNum (to_int32 (num0 (fld pr ''rank_points'')))),
        (''level_before'', level),
        (''level_after'', level),
        (''coins_before'', JNum (max 0 (num0 coinsAfter - int32_of pr ''coins''))),
        (''coins_after'', coinsAfter)])"

text \<open>\<open>acctOf\<close> reads the fetched accounts, an empty object for a missing one.\<close>

definition buildStatsRes :: "js \<Rightarrow> js list \<Rightarrow> (js \<Rightarrow> js) \<Rightarrow> string \<Rightarrow> js" where
  "buildStatsRes pr players accts matchId =
     (let acctOf = (\<lambda>i. jor (accts i) (JObj []));
          a = acctOf (fld pr ''account_id'');
          level = jor (fld a ''level'') (JNum 1)
      in JObj [
        (''account_id'', fld pr ''account_id''),
        (''match_id'', JNum (num0 (JStr matchId))),
        (''level_before'', level),
        (''level_after'', level),
        (''income'', match_income pr a),
        (''match_stats'', match_stats pr players acctOf)])"

section \<open>The worker\<close>

record match_result =
  ms_match_id :: string
  ms_players :: "js list option"

record stats_push =
  sp_target :: js
  sp_content :: js

definition pushMatchStats :: "'d repo \<Rightarrow> (js \<Rightarrow> bool) \<Rightarrow> string \<Rightarrow> js list \<Rightarrow> 'd \<Rightarrow> stats_push list" where
  "pushMatchStats Q online matchId players d =
     map (\<lambda>pr. \<lparr>sp_target = fld pr ''account_id'',
               sp_content = buildStatsRes pr players (\<lambda>i. rp_getById Q i d) matchId\<rparr>)
       (filter (\<lambda>pr. online (fld pr ''account_id'')) players)"

text \<open>The settlement loop stops at the first player whose settlement throws.\<close>

fun settle_players :: "'d repo \<Rightarrow> string \<Rightarrow> js list \<Rightarrow> nat \<Rightarrow> ('d, nat) query" where
  "settle_players Q matchId [] credited d = (Inr credited, d)"
| "settle_players Q matchId (pr # prs) credited d =
     (if \<not> tru (fld pr ''account_id'') then settle_players Q matchId prs credited d
      else (case rp_settleMatchResult Q matchId pr d of
              (Inl e, d') \<Rightarrow> (Inl e, d')
            | (Inr (fresh, c), d') \<Rightarrow>
                settle_players Q matchId prs (if c then credited + 1 else credited) d'))"

definition handleMatchResult ::
  "'d repo \<Rightarrow> (js \<Rightarrow> bool) \<Rightarrow> match_result \<Rightarrow> ('d, stats_push list) query" where
  "handleMatchResult Q online mr d =
     (case ms_players mr of
        None \<Rightarrow> (Inr [], d)
      | Some players \<Rightarrow>
          if ms_match_id mr = [] then (Inr [], d)
          else (case settle_players Q (ms_match_id mr) players 0 d of
                  (Inl e, d') \<Rightarrow> (Inl e, d')
                | (Inr _, d') \<Rightarrow> (Inr (pushMatchStats Q online (ms_match_id mr) players d'), d')))"

section \<open>The stream loop\<close>

text \<open>A consumer group on a stream: all entries, how many of them have been delivered, and the
  delivered ones that are not acknowledged. An entry whose envelope does not decode is \<open>None\<close>.\<close>

record 'm stream =
  st_entries :: "'m option list"
  st_delivered :: nat
  st_pending :: "nat list"

text \<open>\<open>XREADGROUP ... COUNT n ... >\<close>: the next entries never delivered to the group, which become
  pending; \<open>XACK\<close>.\<close>

definition xreadgroup :: "nat \<Rightarrow> 'm stream \<Rightarrow> (nat \<times> 'm option) list \<times> 'm stream" where
  "xreadgroup count s =
     (let ids = take count [st_delivered s..<length (st_entries s)]
      in (map (\<lambda>i. (i, st_entries s ! i)) ids,
          s\<lparr>st_delivered := st_delivered s + length ids, st_pending := st_pending s @ ids\<rparr>))"

definition xack :: "nat \<Rightarrow> 'm stream \<Rightarrow> 'm stream" where
  "xack i s = s\<lparr>st_pending := removeAll i (st_pending s)\<rparr>"

text \<open>The messages of one batch: acknowledged when the handler returns, or when there is nothing to
  handle; left pending when it throws.\<close>

fun handle_batch ::
  "('m \<Rightarrow> ('d, 'a) query) \<Rightarrow> (nat \<times> 'm option) list \<Rightarrow> 'm stream \<Rightarrow> 'd \<Rightarrow> 'm stream \<times> 'd" where
  "handle_batch handler [] s d = (s, d)"
| "handle_batch handler ((i, env) # ms) s d =
     (case env of
        None \<Rightarrow> handle_batch handler ms (xack i s) d
      | Some m \<Rightarrow>
          (case handler m d of
             (Inl _, d') \<Rightarrow> handle_batch handler ms s d'
           | (Inr _, d') \<Rightarrow> handle_batch handler ms (xack i s) d'))"

definition COUNT :: nat where "COUNT = 32"

definition poll :: "('m \<Rightarrow> ('d, 'a) query) \<Rightarrow> 'm stream \<times> 'd \<Rightarrow> 'm stream \<times> 'd" where
  "poll handler sd =
     (case sd of (s, d) \<Rightarrow> case xreadgroup COUNT s of (ms, s') \<Rightarrow> handle_batch handler ms s' d)"

definition xadd :: "'m option \<Rightarrow> 'm stream \<Rightarrow> 'm stream" where
  "xadd m s = s\<lparr>st_entries := st_entries s @ [m]\<rparr>"

end
