(* ===== verification/AccountStore.thy ===== *)
theory AccountStore
  imports Friends
begin

text \<open>
  The contract of the account repository and its two implementations. \<open>acct\<close> is the abstract view of
  a database: the player document of every account id. \<open>account_store\<close> states what the HTTP tier
  relies on, over that view: lookups by id, open id and token, what \<open>save\<close> and
  \<open>createFromLogin\<close> do. Both backends are interpretations, on databases that satisfy \<open>db_ok\<close>;
  every operation of the repositories preserves it.
\<close>

section \<open>Well-formed databases\<close>

text \<open>A document as it is stored: an object of JSON values with a positive id and a login time for its
  token.\<close>

definition doc_ok :: "js \<Rightarrow> bool" where
  "doc_ok a \<longleftrightarrow> is_obj a \<and> json_ok a \<and> \<not> is_nil (fld a ''token_created_at'')"

text \<open>The indexed columns agree with the document.\<close>

definition row_ok :: "row \<Rightarrow> bool" where
  "row_ok r \<longleftrightarrow>
     (case ro_state r of
        Doc a \<Rightarrow> doc_ok a \<and> fld a ''uid'' = JNum (ro_account_id r) \<and> fld a ''account_id'' = JNum (ro_account_id r) \<and>
          fld a ''open_id'' = ro_open_id r \<and> (\<exists>s. ro_open_id r = JStr s \<and> s \<noteq> []) \<and>
          ro_token r = jnil (fld a ''token'') JNull \<and> ro_token_created_at r = fld a ''token_created_at''
      | _ \<Rightarrow> False)"

definition db_ok :: "db \<Rightarrow> bool" where
  "db_ok d \<longleftrightarrow> list_all row_ok (db_rows d) \<and> distinct (map ro_account_id (db_rows d)) \<and>
     distinct (map ro_open_id (db_rows d)) \<and> 0 < db_next d \<and>
     (\<forall>r \<in> set (db_rows d). 0 < ro_account_id r \<and> ro_account_id r < db_next d)"

definition row_doc :: "row \<Rightarrow> js" where
  "row_doc r = (case ro_state r of Doc a \<Rightarrow> a | _ \<Rightarrow> JNull)"

definition acct :: "db \<Rightarrow> int \<Rightarrow> js option" where
  "acct d i = map_option row_doc (row_of d i)"

definition empty_db :: db where
  "empty_db = \<lparr>db_rows = [], db_next = 1, db_friends = [], db_requests = [], db_results = []\<rparr>"

lemma db_ok_empty: "db_ok empty_db"
  by (simp add: db_ok_def empty_db_def)

section \<open>Objects\<close>

lemma put_same: "fld x k = v \<Longrightarrow> v \<noteq> JUndef \<Longrightarrow> put k v x = x"
proof (cases x)
  case (JObj kvs)
  assume "fld x k = v" "v \<noteq> JUndef"
  with JObj have "map_of kvs k = Some v"
    by (auto split: option.splits)
  then have "AList.update k v kvs = kvs"
    by (induction kvs) (auto split: if_splits)
  with JObj show ?thesis by simp
qed simp_all

lemma set_alist_update: "set (AList.update k v kvs) \<subseteq> insert (k, v) (set kvs)"
  by (induction kvs) auto

lemma json_ok_put [intro]: "json_ok v \<Longrightarrow> json_ok x \<Longrightarrow> json_ok (put k v x)"
  using set_alist_update [of k v] by (cases x) fastforce+

lemma json_ok_fld: "json_ok x \<Longrightarrow> fld x k \<noteq> JUndef \<Longrightarrow> json_ok (fld x k)"
  by (cases x) (auto split: option.splits dest!: map_of_SomeD)

lemma is_obj_not_nil [simp]: "is_obj a \<Longrightarrow> \<not> is_nil a"
  by (cases a) simp_all

section \<open>Rows and documents\<close>

lemma row_ok_doc:
  assumes "row_ok r"
  shows "ro_state r = Doc (row_doc r)" and "doc_ok (row_doc r)"
    and "fld (row_doc r) ''uid'' = JNum (ro_account_id r)"
    and "fld (row_doc r) ''open_id'' = ro_open_id r"
    and "\<exists>s. ro_open_id r = JStr s \<and> s \<noteq> []"
    and "ro_token r = jnil (fld (row_doc r) ''token'') JNull"
  using assms by (auto simp: row_ok_def row_doc_def split: state_col.splits)

lemma overlay_ok:
  assumes "row_ok r"
  shows "overlay_columns r (row_doc r) = row_doc r"
proof -
  let ?a = "row_doc r"
  have r: "fld ?a ''uid'' = JNum (ro_account_id r)" "fld ?a ''account_id'' = JNum (ro_account_id r)"
    "fld ?a ''open_id'' = ro_open_id r" "ro_token r = jnil (fld ?a ''token'') JNull"
    "ro_token_created_at r = fld ?a ''token_created_at''" "\<not> is_nil (fld ?a ''token_created_at'')"
    using assms by (auto simp: row_ok_def doc_ok_def row_doc_def split: state_col.splits)
  have "put ''account_id'' (JNum (ro_account_id r)) (put ''uid'' (JNum (ro_account_id r)) ?a) = ?a"
    using r by (simp add: put_same)
  moreover have "(if is_nil (ro_open_id r) then ?a else put ''open_id'' (ro_open_id r) ?a) = ?a"
    using r(3) by (auto intro: put_same simp: is_nil_def)
  moreover have "(if is_nil (ro_token r) then ?a else put ''token'' (ro_token r) ?a) = ?a"
    using r(4) by (auto intro: put_same simp: is_nil_def jnil_def)
  moreover have "put ''token_created_at'' (ro_token_created_at r) ?a = ?a"
    using r(5,6) by (auto intro: put_same simp: is_nil_def)
  ultimately show ?thesis
    using r(5,6) by (simp only: overlay_columns_def Let_def) simp
qed

text \<open>On such rows both backends build the stored document.\<close>

lemma row_conversions:
  assumes "row_ok r"
  shows "rowToAccount (Some r) = row_doc r" and "pg_rowToAccount (Some r) = row_doc r"
proof -
  have "nonempty_obj (row_doc r)"
    using row_ok_doc(2,3) [OF assms] by (cases "row_doc r") (auto simp: doc_ok_def)
  then show "rowToAccount (Some r) = row_doc r" "pg_rowToAccount (Some r) = row_doc r"
    using overlay_ok [OF assms]
    by (simp_all add: rowToAccount_def pg_rowToAccount_def row_ok_doc(1) [OF assms])
qed

lemma db_ok_row: "db_ok d \<Longrightarrow> r \<in> set (db_rows d) \<Longrightarrow> row_ok r"
  by (simp add: db_ok_def list_all_iff)

lemma find_row: "db_ok d \<Longrightarrow> find P (db_rows d) = Some r \<Longrightarrow> row_ok r \<and> r \<in> set (db_rows d) \<and> P r"
  by (auto simp: db_ok_row dest: find_Some_set)

lemma row_of_mem:
  assumes "db_ok d" and "r \<in> set (db_rows d)"
  shows "row_of d (ro_account_id r) = Some r"
proof -
  have "find (\<lambda>q. ro_account_id q = ro_account_id r) rs = Some r"
    if "distinct (map ro_account_id rs)" "r \<in> set rs" for rs
    using that by (induction rs) auto
  with assms show ?thesis
    by (simp add: row_of_def db_ok_def)
qed

lemma acct_mem: "db_ok d \<Longrightarrow> r \<in> set (db_rows d) \<Longrightarrow> acct d (ro_account_id r) = Some (row_doc r)"
  by (simp add: acct_def row_of_mem)

lemma acct_Some:
  assumes "db_ok d" and "acct d i = Some a"
  obtains r where "r \<in> set (db_rows d)" "row_ok r" "ro_account_id r = i" "a = row_doc r"
proof -
  obtain r where "row_of d i = Some r" "a = row_doc r"
    using assms(2) by (auto simp: acct_def)
  with find_row [OF assms(1), of "\<lambda>r. ro_account_id r = i" r] that [of r] show thesis
    by (simp add: row_of_def)
qed

lemma acct_pos:
  assumes "db_ok d" and "acct d i = Some a"
  shows "0 < i \<and> i < db_next d"
  by (rule acct_Some [OF assms]) (use assms(1) in \<open>auto simp: db_ok_def\<close>)

lemma acct_None: "acct d i = None \<longleftrightarrow> (\<forall>r \<in> set (db_rows d). ro_account_id r \<noteq> i)"
  by (auto simp: acct_def row_of_def find_None_iff)

text \<open>The documents of a query's first row.\<close>

definition doc_of :: "row option \<Rightarrow> js" where
  "doc_of ro = (case ro of None \<Rightarrow> JNull | Some r \<Rightarrow> row_doc r)"

lemma convert_found:
  assumes "db_ok d"
  shows "rowToAccount (find P (db_rows d)) = doc_of (find P (db_rows d))"
    and "pg_rowToAccount (find P (db_rows d)) = doc_of (find P (db_rows d))"
proof -
  consider "find P (db_rows d) = None" | r where "find P (db_rows d) = Some r" "row_ok r"
    using find_row [OF assms] by (cases "find P (db_rows d)") auto
  then show "rowToAccount (find P (db_rows d)) = doc_of (find P (db_rows d))"
    "pg_rowToAccount (find P (db_rows d)) = doc_of (find P (db_rows d))"
    by (cases; simp add: row_conversions doc_of_def; simp add: rowToAccount_def pg_rowToAccount_def)+
qed

lemma lookups:
  assumes "db_ok d"
  shows "getById v d = (if \<not> tru v then JNull else doc_of (select_id v d))"
    and "pg_getById v d = (if \<not> tru v then JNull else doc_of (select_id v d))"
    and "getByToken v d = (if \<not> tru v then JNull else doc_of (select_token v d))"
    and "pg_getByToken v d = (if \<not> tru v then JNull else doc_of (select_token v d))"
    and "getByOpenId v d = (if \<not> tru v then JNull else doc_of (select_open_id v d))"
    and "pg_getByOpenId v d = (if \<not> tru v then JNull else doc_of (select_open_id v d))"
  by (simp_all only: getById_def pg_getById_def getByToken_def pg_getByToken_def getByOpenId_def pg_getByOpenId_def
      select_id_def select_token_def select_open_id_def convert_found [OF assms])

lemma select_id_num: "select_id (JNum i) d = row_of d i"
  by (simp add: select_id_def row_of_def eq_commute)

section \<open>Saving\<close>

lemma doc_ok_stamp:
  assumes "doc_ok a" and "fld a ''uid'' = JNum i" and "i \<noteq> 0"
  shows "doc_ok (stamp now a)" and "fld (stamp now a) ''uid'' = JNum i"
    and "fld (stamp now a) ''account_id'' = JNum i"
    and "k \<notin> {''uid'', ''account_id'', ''last_login_at''} \<Longrightarrow> fld (stamp now a) k = fld a k"
proof -
  have o: "is_obj a" "json_ok a"
    using assms(1) by (simp_all add: doc_ok_def)
  let ?l = "jor (fld a ''last_login_at'') (JNum now)"
  have l: "json_ok ?l"
    using o(2) json_ok_fld [of a "''last_login_at''"] by (cases "fld a ''last_login_at'' = JUndef") (auto simp: jor_def)
  show "doc_ok (stamp now a)"
    using assms o l by (auto simp: stamp_def Let_def doc_ok_def jor_def intro!: json_ok_put)
  show "fld (stamp now a) ''uid'' = JNum i" "fld (stamp now a) ''account_id'' = JNum i"
    using assms o by (simp_all add: stamp_def Let_def jor_def)
  assume "k \<notin> {''uid'', ''account_id'', ''last_login_at''}"
  then have "''uid'' \<noteq> k" "''account_id'' \<noteq> k" "''last_login_at'' \<noteq> k"
    by auto
  then show "fld (stamp now a) k = fld a k"
    by (simp add: stamp_def Let_def)
qed

lemma write_doc_ok:
  assumes "\<exists>s. ro_open_id r = JStr s \<and> s \<noteq> []" and "doc_ok a" and "fld a ''uid'' = JNum (ro_account_id r)"
    and "fld a ''account_id'' = JNum (ro_account_id r)" and "fld a ''open_id'' = ro_open_id r"
  shows "row_ok (write_doc a r)" and "row_doc (write_doc a r) = a"
    and "ro_account_id (write_doc a r) = ro_account_id r" and "ro_open_id (write_doc a r) = ro_open_id r"
proof -
  have j: "jsonify a = a"
    using assms(2) by (simp add: doc_ok_def jsonify_ok)
  show "row_doc (write_doc a r) = a" "ro_account_id (write_doc a r) = ro_account_id r"
    "ro_open_id (write_doc a r) = ro_open_id r"
    by (simp_all add: row_doc_def write_doc_def denorm_def j)
  show "row_ok (write_doc a r)"
    using assms
    by (simp add: row_ok_def write_doc_def denorm_def j doc_ok_def jnil_def)
qed

lemma update_row_rows:
  "db_rows (update_row (JNum i) f d) = map (\<lambda>r. if ro_account_id r = i then f r else r) (db_rows d)"
  "db_next (update_row (JNum i) f d) = db_next d" "db_friends (update_row v f d) = db_friends d"
  "db_requests (update_row v f d) = db_requests d" "db_results (update_row v f d) = db_results d"
  by (simp_all add: update_row_def)

text \<open>Changing one row, without its keys, keeps the database well-formed.\<close>

lemma update_row_ok:
  assumes "db_ok d" and "acct d i = Some b"
    and f: "\<And>r. row_ok r \<Longrightarrow> row_doc r = b \<Longrightarrow> ro_account_id r = i \<Longrightarrow> row_ok (f r) \<and> row_doc (f r) = a \<and>
        ro_account_id (f r) = ro_account_id r \<and> ro_open_id (f r) = ro_open_id r"
  shows "db_ok (update_row (JNum i) f d)" and "acct (update_row (JNum i) f d) = (acct d)(i \<mapsto> a)"
proof -
  define h where "h = (\<lambda>r. if ro_account_id r = i then f r else r)"
  obtain r0 where r0: "r0 \<in> set (db_rows d)" "row_ok r0" "ro_account_id r0 = i" "row_doc r0 = b"
    by (rule acct_Some [OF assms(1,2)]) blast
  have one: "r = r0" if "r \<in> set (db_rows d)" "ro_account_id r = i" for r
    using row_of_mem [OF assms(1) that(1)] row_of_mem [OF assms(1) r0(1)] that r0(3) by simp
  have g: "row_ok (h r) \<and> ro_account_id (h r) = ro_account_id r \<and> ro_open_id (h r) = ro_open_id r"
    if "r \<in> set (db_rows d)" for r
    using that f [OF r0(2,4,3)] one db_ok_row [OF assms(1) that] by (auto simp: h_def)
  then have m: "map ro_account_id (map h (db_rows d)) = map ro_account_id (db_rows d)"
    "map ro_open_id (map h (db_rows d)) = map ro_open_id (db_rows d)"
    by (simp_all cong: map_cong)
  have rows: "db_rows (update_row (JNum i) f d) = map h (db_rows d)"
    by (simp add: update_row_rows h_def)
  show ok: "db_ok (update_row (JNum i) f d)"
    using assms(1) g m unfolding db_ok_def rows update_row_rows(2) m by (auto simp: list_all_iff)
  show "acct (update_row (JNum i) f d) = (acct d)(i \<mapsto> a)"
  proof
    fix j
    show "acct (update_row (JNum i) f d) j = ((acct d)(i \<mapsto> a)) j"
    proof (cases "\<exists>r \<in> set (db_rows d). ro_account_id r = j")
      case False
      then have "\<forall>q \<in> set (db_rows (update_row (JNum i) f d)). ro_account_id q \<noteq> j"
        using g unfolding rows by auto
      moreover have "j \<noteq> i"
        using False r0 by blast
      ultimately show ?thesis
        using False acct_None [of d j] acct_None [of "update_row (JNum i) f d" j] by auto
    next
      case True
      then obtain r where r: "r \<in> set (db_rows d)" "ro_account_id r = j" by blast
      then have "h r \<in> set (db_rows (update_row (JNum i) f d))"
        unfolding rows by (metis image_eqI list.set_map)
      from acct_mem [OF ok this] have "acct (update_row (JNum i) f d) j = Some (row_doc (h r))"
        using g [OF r(1)] r(2) by metis
      then show ?thesis
        using r one f [OF r0(2,4,3)] acct_mem [OF assms(1) r(1)] r0(3) by (auto simp: h_def)
    qed
  qed
qed

lemma save_ok:
  assumes "db_ok d" and "acct d i = Some b" and "doc_ok a" and "fld a ''uid'' = JNum i"
    and "fld a ''open_id'' = fld b ''open_id''"
  obtains d' where "save now a d = (Inr (stamp now a), d')" "db_ok d'" "acct d' = (acct d)(i \<mapsto> stamp now a)"
    "db_friends d' = db_friends d" "db_requests d' = db_requests d" "db_results d' = db_results d" "db_next d' = db_next d"
proof -
  have i: "i \<noteq> 0" "tru a"
    using acct_pos [OF assms(1,2)] assms(3) by (auto simp: doc_ok_def is_obj_tru)
  let ?d' = "update_row (JNum i) (write_doc (stamp now a)) d"
  have s: "save now a d = (Inr (stamp now a), ?d')"
    using i assms(4) by (simp add: save_def Let_def jor_def)
  note st = doc_ok_stamp [OF assms(3,4) i(1)]
  have "row_ok (write_doc (stamp now a) r) \<and> row_doc (write_doc (stamp now a) r) = stamp now a \<and>
      ro_account_id (write_doc (stamp now a) r) = ro_account_id r \<and> ro_open_id (write_doc (stamp now a) r) = ro_open_id r"
    if "row_ok r" "row_doc r = b" "ro_account_id r = i" for r
  proof -
    have "fld (stamp now a) ''open_id'' = ro_open_id r"
      using st(4) [of "''open_id''"] assms(5) row_ok_doc(4) [OF that(1)] that(2) by simp
    with write_doc_ok [OF row_ok_doc(5) [OF that(1)] st(1)] st(2,3) that(3) show ?thesis by simp
  qed
  note u = update_row_ok [OF assms(1,2) this]
  show thesis
    by (rule that [OF s u]) (simp_all add: update_row_rows)
qed

section \<open>Creating accounts\<close>

lemma is_obj_DEFAULT_PLAYER [simp]: "is_obj DEFAULT_PLAYER"
  by (simp add: DEFAULT_PLAYER_def)

lemma json_ok_lists:
  "json_ok (JObj kvs) = list_all (\<lambda>x. json_ok (snd x)) kvs" "json_ok (JArr xs) = list_all json_ok xs"
  by (simp_all add: list_all_iff)

lemma json_ok_nums [simp]: "json_ok (nums ns)"
  by (simp add: nums_def)

lemma json_ok_default_profile [simp]: "json_ok (default_profile a cs s sel sk)"
  by (simp add: default_profile_def json_ok_lists del: json_ok.simps(3,4))

lemma json_ok_DEFAULT_PLAYER: "json_ok DEFAULT_PLAYER"
proof -
  have p: "list_all json_ok default_profiles"
    by (simp add: default_profiles_def default_profiles_1_def default_profiles_2_def default_profiles_3_def del: json_ok.simps)
  have s: "json_ok default_selected_items"
    by (simp add: default_selected_items_def json_ok_lists del: json_ok.simps(3,4))
  have i: "list_all (\<lambda>x. json_ok (snd x)) default_identity" "list_all (\<lambda>x. json_ok (snd x)) default_social"
    by (simp_all add: default_identity_def default_social_def json_ok_lists del: json_ok.simps(3,4))
  show ?thesis
    by (simp add: DEFAULT_PLAYER_def json_ok_lists p s i del: json_ok.simps(3,4))
qed

lemma DEFAULT_PLAYER_fields:
  "fld DEFAULT_PLAYER ''token_created_at'' = JNum 0" "fld DEFAULT_PLAYER ''token'' = JNull"
  by (simp_all add: DEFAULT_PLAYER_def default_identity_def)

lemma json_ok_opt_str: "json_ok (opt_str v)"
  by (simp add: opt_str_def)

lemma refresh_laws [simp]:
  "is_obj (refresh k q a) = is_obj a" "k \<noteq> k' \<Longrightarrow> fld (refresh k q a) k' = fld a k'"
  "json_ok a \<Longrightarrow> json_ok (refresh k q a)"
  by (auto simp: refresh_def)

lemma new_document_ok:
  shows "doc_ok (new_document uid oid now q)" and "fld (new_document uid oid now q) ''uid'' = JNum uid"
    and "fld (new_document uid oid now q) ''open_id'' = JStr oid"
    and "fld (new_document uid oid now q) ''token'' = JNull"
proof -
  have j: "json_ok (if is_nil v then JNull else JStr (str v))" for v
    by simp
  show "doc_ok (new_document uid oid now q)"
    unfolding new_document_def Let_def doc_ok_def
    by (intro conjI json_ok_put j json_ok_opt_str refresh_laws(3) json_ok_DEFAULT_PLAYER; simp add: DEFAULT_PLAYER_fields)
  show "fld (new_document uid oid now q) ''uid'' = JNum uid" "fld (new_document uid oid now q) ''open_id'' = JStr oid"
    "fld (new_document uid oid now q) ''token'' = JNull"
    by (simp_all add: new_document_def Let_def DEFAULT_PLAYER_fields)
qed

lemma refresh_identity_ok:
  assumes "doc_ok a"
  shows "doc_ok (refresh_identity q a)" and "fld (refresh_identity q a) ''uid'' = fld a ''uid''"
    and "fld (refresh_identity q a) ''open_id'' = fld a ''open_id''"
    and "fld (refresh_identity q a) ''token'' = fld a ''token''"
  using assms by (auto simp: refresh_identity_def Let_def doc_ok_def intro!: refresh_laws(3) json_ok_put)

lemma deriveOpenId_nonempty: "deriveOpenId guest q \<noteq> []"
  by (auto simp: deriveOpenId_def Let_def str_or_def GUEST_OPEN_ID_def trim_def)

definition create_cases :: "(js \<Rightarrow> db \<Rightarrow> js) \<Rightarrow> bool" where
  "create_cases byOpenId \<longleftrightarrow>
     (\<forall>d v. db_ok d \<longrightarrow> byOpenId v d = (if \<not> tru v then JNull else doc_of (select_open_id v d)))"

lemma create_cases_backends: "create_cases getByOpenId" "create_cases pg_getByOpenId"
  by (simp_all add: create_cases_def lookups)

lemma select_open_id_Some:
  assumes "db_ok d" and "acct d i = Some b" and "fld b ''open_id'' = JStr oid"
  shows "doc_of (select_open_id (JStr oid) d) = b"
proof -
  obtain r where r: "r \<in> set (db_rows d)" "row_ok r" "ro_account_id r = i" "b = row_doc r"
    by (rule acct_Some [OF assms(1,2)])
  then have "ro_open_id r = JStr oid"
    using assms(3) row_ok_doc(4) by auto
  moreover have "find (\<lambda>q. ro_open_id q = ro_open_id r) rs = Some r"
    if "distinct (map ro_open_id rs)" "r \<in> set rs" for rs
    using that by (induction rs) auto
  ultimately have "select_open_id (JStr oid) d = Some r"
    using assms(1) r(1) by (simp add: select_open_id_def db_ok_def)
  with r(4) show ?thesis
    by (simp add: doc_of_def)
qed

lemma select_open_id_None:
  assumes "db_ok d" and "\<And>i b. acct d i = Some b \<Longrightarrow> fld b ''open_id'' \<noteq> JStr oid"
  shows "select_open_id (JStr oid) d = None"
  unfolding select_open_id_def find_None_iff
  using assms acct_mem [OF assms(1)] row_ok_doc(4) db_ok_row [OF assms(1)] by metis

lemma create_existing:
  assumes "create_cases byOpenId" and "db_ok d" and "acct d i = Some b"
    and "fld b ''open_id'' = JStr (deriveOpenId guest (jor q (JObj [])))"
  shows "create_with byOpenId guest now q d = save now (refresh_identity (jor q (JObj [])) b) d"
proof -
  have "byOpenId (JStr (deriveOpenId guest (jor q (JObj [])))) d = b"
    using assms(1,2) select_open_id_Some [OF assms(2-4)] deriveOpenId_nonempty by (simp add: create_cases_def)
  moreover have "tru b"
    using acct_Some [OF assms(2,3)] row_ok_doc(2) by (metis doc_ok_def is_obj_tru)
  ultimately show ?thesis
    by (simp add: create_with_def Let_def)
qed

lemma append_row:
  assumes "db_ok d" and "row_ok w" and "ro_account_id w = db_next d"
    and "\<forall>r \<in> set (db_rows d). ro_open_id r \<noteq> ro_open_id w"
    and "db_rows d' = db_rows d @ [w]" and "db_next d' = db_next d + 1"
  shows "db_ok d'" and "acct d' = (acct d)(db_next d \<mapsto> row_doc w)"
proof -
  have lt: "\<forall>r \<in> set (db_rows d). 0 < ro_account_id r \<and> ro_account_id r < db_next d"
    using assms(1) by (simp add: db_ok_def)
  have "db_next d \<notin> ro_account_id ` set (db_rows d)" "ro_open_id w \<notin> ro_open_id ` set (db_rows d)"
    using lt assms(4) by auto
  with assms lt show "db_ok d'"
    unfolding db_ok_def by force
  have f: "find (\<lambda>r. ro_account_id r = j) (rs @ [w]) =
      (if j = db_next d then Some w else find (\<lambda>r. ro_account_id r = j) rs)"
    if "\<forall>r \<in> set rs. ro_account_id r < db_next d" for rs j
    using that assms(3) by (induction rs) auto
  show "acct d' = (acct d)(db_next d \<mapsto> row_doc w)"
    using f [of "db_rows d"] lt by (auto simp: acct_def row_of_def assms(5) fun_eq_iff)
qed

lemma create_new:
  assumes "create_cases byOpenId" and "db_ok d"
    and none: "\<And>i b. acct d i = Some b \<Longrightarrow> fld b ''open_id'' \<noteq> JStr (deriveOpenId guest (jor q (JObj [])))"
  obtains a d' where "create_with byOpenId guest now q d = (Inr a, d')" "db_ok d'" "acct d (db_next d) = None"
    "acct d' = (acct d)(db_next d \<mapsto> a)" "doc_ok a" "fld a ''uid'' = JNum (db_next d)"
    "fld a ''open_id'' = JStr (deriveOpenId guest (jor q (JObj [])))" "fld a ''token'' = JNull"
    "db_friends d' = db_friends d" "db_requests d' = db_requests d" "db_results d' = db_results d"
    "db_next d' = db_next d + 1"
    "a = stamp now (new_document (db_next d) (deriveOpenId guest (jor q (JObj []))) now (jor q (JObj [])))"
proof -
  let ?q = "jor q (JObj [])"
  let ?oid = "deriveOpenId guest ?q" and ?u = "db_next d"
  let ?ph = "placeholder_row ?u ?oid now ?q" and ?n = "new_document ?u ?oid now ?q"
  let ?a = "stamp now ?n"
  let ?d1 = "d\<lparr>db_rows := db_rows d @ [?ph], db_next := ?u + 1\<rparr>"
  let ?d' = "update_row (JNum ?u) (write_doc ?a) ?d1"
  have u: "0 < ?u" "\<forall>r \<in> set (db_rows d). ro_account_id r < ?u"
    using assms(2) by (auto simp: db_ok_def)
  have sel: "select_open_id (JStr ?oid) d = None"
    by (rule select_open_id_None [OF assms(2) none])
  then have free: "\<forall>r \<in> set (db_rows d). ro_open_id r \<noteq> JStr ?oid"
    by (simp add: select_open_id_def find_None_iff)
  have b: "byOpenId (JStr ?oid) d = JNull"
    using assms(1,2) sel by (simp add: create_cases_def doc_of_def)
  have ph: "ro_account_id ?ph = ?u" "ro_open_id ?ph = JStr ?oid"
    by (simp_all add: placeholder_row_def)
  have ins: "insert_row (\<lambda>uid. placeholder_row uid ?oid now ?q) d = (Inr ?u, ?d1)"
    using free by (auto simp: insert_row_def Let_def ph list_ex_iff)
  note n = new_document_ok [of ?u ?oid now ?q]
  have st: "doc_ok ?a" "fld ?a ''uid'' = JNum ?u" "fld ?a ''account_id'' = JNum ?u"
    "fld ?a ''open_id'' = JStr ?oid" "fld ?a ''token'' = JNull"
    using doc_ok_stamp [OF n(1,2), where now = now] u(1) n(3,4) by simp_all
  have "tru ?n"
    using n(1) by (simp add: doc_ok_def is_obj_tru)
  then have "save now ?n ?d1 = (Inr ?a, ?d')"
    using u(1) n(2) by (simp add: save_def Let_def)
  then have c: "create_with byOpenId guest now q d = (Inr ?a, ?d')"
    by (simp add: create_with_def Let_def ins b)
  have w: "row_ok (write_doc ?a ?ph)" "row_doc (write_doc ?a ?ph) = ?a" "ro_account_id (write_doc ?a ?ph) = ?u"
    "ro_open_id (write_doc ?a ?ph) = JStr ?oid"
    using write_doc_ok [of ?ph ?a] st ph deriveOpenId_nonempty by simp_all
  have old: "map (\<lambda>r. if ro_account_id r = ?u then write_doc ?a r else r) (db_rows d) = db_rows d"
    using u(2) by (intro map_idI) auto
  have rows: "db_rows ?d' = db_rows d @ [write_doc ?a ?ph]"
    by (simp add: update_row_rows old ph)
  have new: "acct d ?u = None"
    using u(2) by (auto simp: acct_None)
  have "db_next ?d' = db_next d + 1"
    by (simp add: update_row_rows)
  note app = append_row [OF assms(2) w(1,3) _ rows this]
  have ok: "db_ok ?d'" and view: "acct ?d' = (acct d)(?u \<mapsto> ?a)"
    using app free w(2,4) by simp_all
  show thesis
    by (rule that [OF c ok new view st(1,2,4,5)]) (simp_all add: update_row_rows)
qed

section \<open>The contract\<close>

locale account_store =
  fixes Q :: "'d repo" and guest :: string and inv :: "'d \<Rightarrow> bool" and docs :: "'d \<Rightarrow> int \<Rightarrow> js option"
  assumes docs_ok: "inv d \<Longrightarrow> docs d i = Some a \<Longrightarrow> doc_ok a \<and> fld a ''uid'' = JNum i \<and> 0 < i"
    and open_id_unique:
      "inv d \<Longrightarrow> docs d i = Some a \<Longrightarrow> docs d j = Some b \<Longrightarrow> fld a ''open_id'' = fld b ''open_id'' \<Longrightarrow> i = j"
    and by_id: "inv d \<Longrightarrow> i \<noteq> 0 \<Longrightarrow> rp_getById Q (JNum i) d = (case docs d i of None \<Rightarrow> JNull | Some a \<Rightarrow> a)"
    and by_open_id:
      "inv d \<Longrightarrow> docs d i = Some a \<Longrightarrow> fld a ''open_id'' = JStr oid \<Longrightarrow> oid \<noteq> [] \<Longrightarrow> rp_getByOpenId Q (JStr oid) d = a"
    and by_open_id_none:
      "inv d \<Longrightarrow> (\<And>i a. docs d i = Some a \<Longrightarrow> fld a ''open_id'' \<noteq> JStr oid) \<Longrightarrow> rp_getByOpenId Q (JStr oid) d = JNull"
    and by_token:
      "inv d \<Longrightarrow> t \<noteq> [] \<Longrightarrow> docs d i = Some a \<Longrightarrow> fld a ''token'' = JStr t \<Longrightarrow>
         (\<And>j b. docs d j = Some b \<Longrightarrow> fld b ''token'' = JStr t \<Longrightarrow> j = i) \<Longrightarrow> rp_getByToken Q (JStr t) d = a"
    and by_token_none:
      "inv d \<Longrightarrow> (\<And>i a. docs d i = Some a \<Longrightarrow> fld a ''token'' \<noteq> JStr t) \<Longrightarrow> rp_getByToken Q (JStr t) d = JNull"
    and saves:
      "inv d \<Longrightarrow> docs d i = Some b \<Longrightarrow> doc_ok a \<Longrightarrow> fld a ''uid'' = JNum i \<Longrightarrow> fld a ''open_id'' = fld b ''open_id'' \<Longrightarrow>
         \<exists>d'. rp_save Q now a d = (Inr (stamp now a), d') \<and> inv d' \<and> docs d' = (docs d)(i \<mapsto> stamp now a)"
    and registers:
      "inv d \<Longrightarrow> (\<And>i b. docs d i = Some b \<Longrightarrow> fld b ''open_id'' \<noteq> JStr (deriveOpenId guest (jor q (JObj [])))) \<Longrightarrow>
         \<exists>d' i a. rp_createFromLogin Q now q d = (Inr a, d') \<and> inv d' \<and> docs d i = None \<and> docs d' = (docs d)(i \<mapsto> a) \<and>
           doc_ok a \<and> fld a ''uid'' = JNum i \<and> fld a ''open_id'' = JStr (deriveOpenId guest (jor q (JObj []))) \<and>
           fld a ''token'' = JNull"
    and registers_again:
      "inv d \<Longrightarrow> docs d i = Some b \<Longrightarrow> fld b ''open_id'' = JStr (deriveOpenId guest (jor q (JObj []))) \<Longrightarrow>
         rp_createFromLogin Q now q d = rp_save Q now (refresh_identity (jor q (JObj [])) b) d"
begin

text \<open>What is saved is read back, under its id and under its token, and nothing else changes.\<close>

lemma save_read:
  assumes "inv d" and "docs d i = Some b" and "doc_ok a" and "fld a ''uid'' = JNum i"
    and "fld a ''open_id'' = fld b ''open_id''" and "rp_save Q now a d = (res, d')"
  shows "res = Inr (stamp now a) \<and> inv d' \<and> docs d' = (docs d)(i \<mapsto> stamp now a) \<and>
    rp_getById Q (JNum i) d' = stamp now a \<and>
    (\<forall>j. j \<noteq> 0 \<and> j \<noteq> i \<longrightarrow> rp_getById Q (JNum j) d' = rp_getById Q (JNum j) d)"
proof -
  have i: "i \<noteq> 0"
    using docs_ok [OF assms(1,2)] by simp
  from saves [OF assms(1-5), of now] assms(6)
  have "res = Inr (stamp now a)" "inv d'" "docs d' = (docs d)(i \<mapsto> stamp now a)"
    by auto
  with i assms(1) show ?thesis
    by (simp add: by_id)
qed

text \<open>A token nobody else has leads to its account once it is saved; the one it replaces leads nowhere.\<close>

lemma save_token:
  assumes "inv d" and "docs d i = Some b" and "doc_ok a" and "fld a ''uid'' = JNum i"
    and "fld a ''open_id'' = fld b ''open_id''" and "rp_save Q now a d = (res, d')"
    and "fld a ''token'' = JStr t" and "t \<noteq> []" and "\<And>j c. docs d j = Some c \<Longrightarrow> j \<noteq> i \<Longrightarrow> fld c ''token'' \<noteq> JStr t"
  shows "rp_getByToken Q (JStr t) d' = stamp now a"
    and "t' \<noteq> t \<Longrightarrow> (\<And>j c. docs d j = Some c \<Longrightarrow> j \<noteq> i \<Longrightarrow> fld c ''token'' \<noteq> JStr t') \<Longrightarrow> rp_getByToken Q (JStr t') d' = JNull"
proof -
  have i: "i \<noteq> 0"
    using docs_ok [OF assms(1,2)] by simp
  have d': "inv d'" "docs d' = (docs d)(i \<mapsto> stamp now a)"
    using save_read [OF assms(1-6)] by simp_all
  have t: "fld (stamp now a) ''token'' = JStr t"
    using doc_ok_stamp(4) [OF assms(3,4) i] assms(7) by simp
  show "rp_getByToken Q (JStr t) d' = stamp now a"
    by (rule by_token [OF d'(1) assms(8), of i]) (use d'(2) t assms(9) in \<open>auto split: if_splits\<close>)
  show "rp_getByToken Q (JStr t') d' = JNull"
    if "t' \<noteq> t" "\<And>j c. docs d j = Some c \<Longrightarrow> j \<noteq> i \<Longrightarrow> fld c ''token'' \<noteq> JStr t'"
    by (rule by_token_none [OF d'(1)]) (use d'(2) t that in \<open>auto split: if_splits\<close>)
qed

text \<open>The lookup by open id finds an account or nothing.\<close>

lemma open_id_cases:
  assumes "inv d" and "oid \<noteq> []"
  obtains (found) i a where "docs d i = Some a" "fld a ''open_id'' = JStr oid" "rp_getByOpenId Q (JStr oid) d = a" "tru a"
  | (missing) "rp_getByOpenId Q (JStr oid) d = JNull" "\<And>i a. docs d i = Some a \<Longrightarrow> fld a ''open_id'' \<noteq> JStr oid"
proof (cases "\<exists>i a. docs d i = Some a \<and> fld a ''open_id'' = JStr oid")
  case True
  then obtain i a where a: "docs d i = Some a" "fld a ''open_id'' = JStr oid" by blast
  show thesis
    by (rule found [OF a by_open_id [OF assms(1) a assms(2)]])
      (use docs_ok [OF assms(1) a(1)] in \<open>simp add: doc_ok_def is_obj_tru\<close>)
next
  case False
  then show thesis
    by (intro missing by_open_id_none [OF assms(1)]) auto
qed

text \<open>Registering is idempotent: afterwards the open id has one account, the same one every time.\<close>

lemma register_same_account:
  assumes "inv d" and "rp_createFromLogin Q now q d = (r1, d1)"
    and "deriveOpenId guest (jor q' (JObj [])) = deriveOpenId guest (jor q (JObj []))"
    and "rp_createFromLogin Q now' q' d1 = (r2, d2)"
  shows "\<exists>i a b. r1 = Inr a \<and> r2 = Inr b \<and> 0 < i \<and> fld a ''uid'' = JNum i \<and> fld b ''uid'' = JNum i \<and>
     inv d2 \<and> docs d1 i = Some a \<and> docs d2 i = Some b \<and> (\<forall>j. j \<noteq> i \<longrightarrow> docs d2 j = docs d j)"
proof -
  let ?oid = "deriveOpenId guest (jor q (JObj []))"
  have again: "\<exists>b e'. rp_createFromLogin Q n p e = (Inr b, e') \<and> inv e' \<and> docs e' = (docs e)(i \<mapsto> b) \<and>
      fld b ''uid'' = JNum i \<and> fld b ''open_id'' = JStr ?oid"
    if "inv e" "docs e i = Some a" "fld a ''open_id'' = JStr ?oid" "deriveOpenId guest (jor p (JObj [])) = ?oid" for e i a n p
  proof -
    let ?b = "refresh_identity (jor p (JObj [])) a"
    have a: "doc_ok a" "fld a ''uid'' = JNum i" "i \<noteq> 0"
      using docs_ok [OF that(1,2)] by auto
    note b = refresh_identity_ok [OF a(1), of "jor p (JObj [])"]
    from saves [OF that(1,2) b(1), of n] b a registers_again [OF that(1,2), of p n] that(3,4)
      doc_ok_stamp(2) [of ?b i] doc_ok_stamp(4) [of ?b i "''open_id''"] show ?thesis by auto
  qed
  show ?thesis
  proof (cases "\<exists>i a. docs d i = Some a \<and> fld a ''open_id'' = JStr ?oid")
    case True
    then obtain i a where a: "docs d i = Some a" "fld a ''open_id'' = JStr ?oid" by blast
    obtain b where b: "r1 = Inr b" "inv d1" "docs d1 = (docs d)(i \<mapsto> b)" "fld b ''uid'' = JNum i" "fld b ''open_id'' = JStr ?oid"
      using again [OF assms(1) a refl, of now] assms(2) by auto
    then have "docs d1 i = Some b"
      by simp
    from again [OF b(2) this b(5) assms(3), of now'] assms(4) b docs_ok [OF assms(1) a(1)] show ?thesis
      by auto
  next
    case False
    then obtain i a where a: "r1 = Inr a" "inv d1" "docs d i = None" "docs d1 = (docs d)(i \<mapsto> a)" "fld a ''uid'' = JNum i"
        "fld a ''open_id'' = JStr ?oid"
      using registers [OF assms(1), of q now] assms(2) by auto
    then have s: "docs d1 i = Some a"
      by simp
    from again [OF a(2) s a(6) assms(3), of now'] assms(4) a docs_ok [OF a(2) s] show ?thesis
      by auto
  qed
qed

end

section \<open>Both backends implement it\<close>

lemma acct_docs_ok:
  assumes "db_ok d" and "acct d i = Some a"
  shows "doc_ok a \<and> fld a ''uid'' = JNum i \<and> 0 < i"
  by (rule acct_Some [OF assms]) (use acct_pos [OF assms] row_ok_doc in auto)

lemma acct_open_id:
  assumes "db_ok d" and "acct d i = Some a"
  shows "\<exists>s. fld a ''open_id'' = JStr s \<and> s \<noteq> []"
proof -
  obtain r where "row_ok r" "a = row_doc r"
    by (rule acct_Some [OF assms])
  with row_ok_doc(4,5) [of r] show ?thesis by simp
qed

lemma acct_open_id_unique:
  assumes "db_ok d" and "acct d i = Some a" and "acct d j = Some b" and "fld a ''open_id'' = fld b ''open_id''"
  shows "i = j"
proof -
  obtain s where s: "fld a ''open_id'' = JStr s"
    using acct_open_id [OF assms(1,2)] by blast
  have "fld b ''open_id'' = JStr s"
    by (rule trans [OF assms(4) [symmetric] s])
  from trans [OF select_open_id_Some [OF assms(1,2) s, symmetric] select_open_id_Some [OF assms(1,3) this]]
  have "a = b" .
  moreover have "fld a ''uid'' = JNum i" "fld b ''uid'' = JNum j"
    using acct_docs_ok [OF assms(1,2)] acct_docs_ok [OF assms(1,3)] by blast+
  ultimately show ?thesis
    by (metis js.inject(2))
qed

lemma select_token_Some:
  assumes "db_ok d" and "acct d i = Some a" and "fld a ''token'' = JStr t"
    and "\<And>j b. acct d j = Some b \<Longrightarrow> fld b ''token'' = JStr t \<Longrightarrow> j = i"
  shows "doc_of (select_token (JStr t) d) = a"
proof -
  have tok: "ro_token r = JStr t \<longleftrightarrow> fld (row_doc r) ''token'' = JStr t" if "row_ok r" for r
    using row_ok_doc(6) [OF that] by (auto simp: jnil_def is_nil_def)
  obtain r where r: "r \<in> set (db_rows d)" "row_ok r" "a = row_doc r"
    by (rule acct_Some [OF assms(1,2)])
  with tok assms(3) have "find (\<lambda>q. ro_token q = JStr t) (db_rows d) \<noteq> None"
    by (auto simp: find_None_iff)
  then obtain q where q: "select_token (JStr t) d = Some q" "row_ok q" "q \<in> set (db_rows d)" "ro_token q = JStr t"
    using find_row [OF assms(1), of "\<lambda>q. ro_token q = JStr t"] by (auto simp: select_token_def)
  then have "acct d (ro_account_id q) = Some (row_doc q)"
    using acct_mem [OF assms(1)] by simp
  with assms(2,4) tok q have "row_doc q = a"
    by (metis option.inject)
  with q(1) show ?thesis
    by (simp add: doc_of_def)
qed

lemma select_token_None:
  assumes "db_ok d" and "\<And>i a. acct d i = Some a \<Longrightarrow> fld a ''token'' \<noteq> JStr t"
  shows "select_token (JStr t) d = None"
proof -
  have "ro_token r \<noteq> JStr t" if "r \<in> set (db_rows d)" for r
    using row_ok_doc(6) [OF db_ok_row [OF assms(1) that]] assms(2) [OF acct_mem [OF assms(1) that]]
    by (auto simp: jnil_def)
  then show ?thesis
    by (simp add: select_token_def find_None_iff)
qed

lemma acct_saves:
  assumes "db_ok d" and "acct d i = Some b" and "doc_ok a" and "fld a ''uid'' = JNum i" and "fld a ''open_id'' = fld b ''open_id''"
  shows "\<exists>d'. save now a d = (Inr (stamp now a), d') \<and> db_ok d' \<and> acct d' = (acct d)(i \<mapsto> stamp now a)"
  by (rule save_ok [OF assms]) blast

lemma acct_registers:
  assumes "create_cases byOpenId" and "db_ok d"
    and "\<And>i b. acct d i = Some b \<Longrightarrow> fld b ''open_id'' \<noteq> JStr (deriveOpenId guest (jor q (JObj [])))"
  shows "\<exists>d' i a. create_with byOpenId guest now q d = (Inr a, d') \<and> db_ok d' \<and> acct d i = None \<and> acct d' = (acct d)(i \<mapsto> a) \<and>
     doc_ok a \<and> fld a ''uid'' = JNum i \<and> fld a ''open_id'' = JStr (deriveOpenId guest (jor q (JObj []))) \<and> fld a ''token'' = JNull"
proof -
  obtain a d' where c: "create_with byOpenId guest now q d = (Inr a, d')" "db_ok d'" "acct d (db_next d) = None"
    "acct d' = (acct d)(db_next d \<mapsto> a)" "doc_ok a" "fld a ''uid'' = JNum (db_next d)"
    "fld a ''open_id'' = JStr (deriveOpenId guest (jor q (JObj [])))" "fld a ''token'' = JNull"
    by (rule create_new [OF assms, where now = now])
  show ?thesis
    by (intro exI conjI) (rule c)+
qed

lemma doc_of_row: "doc_of (row_of d i) = (case acct d i of None \<Rightarrow> JNull | Some a \<Rightarrow> a)"
  by (simp add: doc_of_def acct_def split: option.split)

lemma acct_lookups:
  assumes "db_ok d"
  shows "i \<noteq> 0 \<Longrightarrow> doc_of (select_id (JNum i) d) = (case acct d i of None \<Rightarrow> JNull | Some a \<Rightarrow> a)"
    and "(\<And>i a. acct d i = Some a \<Longrightarrow> fld a ''open_id'' \<noteq> JStr s) \<Longrightarrow> doc_of (select_open_id (JStr s) d) = JNull"
    and "(\<And>i a. acct d i = Some a \<Longrightarrow> fld a ''token'' \<noteq> JStr s) \<Longrightarrow> doc_of (select_token (JStr s) d) = JNull"
  using select_open_id_None [OF assms, of s] select_token_None [OF assms, of s]
  by (simp_all add: select_id_num doc_of_row) (simp_all add: doc_of_def)

lemmas backend_facts = acct_docs_ok acct_saves lookups acct_lookups select_open_id_Some select_token_Some

interpretation pg: account_store "pg_repo guest" guest db_ok acct
proof (unfold_locales, goal_cases)
  case (2 d i a j b)
  then show ?case by (rule acct_open_id_unique)
next
  case (9 d q now)
  then show ?case
    using acct_registers [OF create_cases_backends(2)] by (simp add: pg_repo_def pg_createFromLogin_def)
next
  case (10 d i b q now)
  then show ?case
    using create_existing [OF create_cases_backends(2)] by (simp add: pg_repo_def pg_createFromLogin_def)
qed (simp_all add: pg_repo_def backend_facts)

interpretation sqlite: account_store "sqlite_repo guest" guest db_ok acct
proof (unfold_locales, goal_cases)
  case (2 d i a j b)
  then show ?case by (rule acct_open_id_unique)
next
  case (9 d q now)
  then show ?case
    using acct_registers [OF create_cases_backends(1)] by (simp add: sqlite_repo_def createFromLogin_def)
next
  case (10 d i b q now)
  then show ?case
    using create_existing [OF create_cases_backends(1)] by (simp add: sqlite_repo_def createFromLogin_def)
qed (simp_all add: sqlite_repo_def backend_facts)

section \<open>A concrete database\<close>

text \<open>Two accounts, created from the registrations of \<open>ann\<close> and \<open>bob\<close>; the witnesses use it.\<close>

definition demo_reg :: "string \<Rightarrow> js" where
  "demo_reg s = JObj [(''open_id'', JStr s)]"

definition demo_doc :: "int \<Rightarrow> string \<Rightarrow> js" where
  "demo_doc i s = stamp 5 (new_document i s 5 (demo_reg s))"

definition demo_db :: db where
  "demo_db = snd (pg_createFromLogin ''g'' 5 (demo_reg ''bob'') (snd (pg_createFromLogin ''g'' 5 (demo_reg ''ann'') empty_db)))"

lemma demo_reg_simps [simp]:
  "tru (demo_reg s)" "fld (demo_reg s) ''open_id'' = JStr s"
  "deriveOpenId g (demo_reg ''ann'') = ''ann''" "deriveOpenId g (demo_reg ''bob'') = ''bob''"
  by (simp_all add: demo_reg_def deriveOpenId_def is_nil_def trim_def is_ws_def)

lemma DEFAULT_PLAYER_coins: "fld DEFAULT_PLAYER ''coins'' = JNum 999999"
  by (simp add: DEFAULT_PLAYER_def default_identity_def)

lemma demo_doc_facts:
  assumes "0 < i"
  shows "doc_ok (demo_doc i s)" "fld (demo_doc i s) ''uid'' = JNum i" "fld (demo_doc i s) ''open_id'' = JStr s"
    "fld (demo_doc i s) ''token'' = JNull" "fld (demo_doc i s) ''coins'' = JNum 999999"
proof -
  note n = new_document_ok [of i s 5 "demo_reg s"]
  have c: "fld (new_document i s 5 (demo_reg s)) ''coins'' = JNum 999999"
    by (simp add: new_document_def Let_def DEFAULT_PLAYER_coins)
  show "doc_ok (demo_doc i s)" "fld (demo_doc i s) ''uid'' = JNum i" "fld (demo_doc i s) ''open_id'' = JStr s"
    "fld (demo_doc i s) ''token'' = JNull" "fld (demo_doc i s) ''coins'' = JNum 999999"
    using doc_ok_stamp [OF n(1,2), where now = 5] n(3,4) c assms by (simp_all add: demo_doc_def)
qed

lemma demo_db_facts:
  shows "db_ok demo_db" and "acct demo_db = [1 \<mapsto> demo_doc 1 ''ann'', 2 \<mapsto> demo_doc 2 ''bob'']"
    and "db_results demo_db = []" and "db_friends demo_db = []" and "db_requests demo_db = []"
proof -
  have e: "acct empty_db = Map.empty" "db_next empty_db = 1"
    by (auto simp: acct_def row_of_def empty_db_def)
  obtain a d1 where a: "create_with pg_getByOpenId ''g'' 5 (demo_reg ''ann'') empty_db = (Inr a, d1)" "db_ok d1"
      "acct d1 = (acct empty_db)(db_next empty_db \<mapsto> a)" "db_friends d1 = db_friends empty_db"
      "db_requests d1 = db_requests empty_db" "db_results d1 = db_results empty_db" "db_next d1 = db_next empty_db + 1"
      "a = stamp 5 (new_document (db_next empty_db) (deriveOpenId ''g'' (jor (demo_reg ''ann'') (JObj []))) 5 (jor (demo_reg ''ann'') (JObj [])))"
    by (rule create_new [OF create_cases_backends(2) db_ok_empty, of "''g''" "demo_reg ''ann''" 5]) (simp_all add: e)
  then have d1: "acct d1 = [1 \<mapsto> demo_doc 1 ''ann'']" "db_next d1 = 2"
    by (simp_all add: e demo_doc_def)
  obtain b d2 where b: "create_with pg_getByOpenId ''g'' 5 (demo_reg ''bob'') d1 = (Inr b, d2)" "db_ok d2"
      "acct d2 = (acct d1)(db_next d1 \<mapsto> b)" "db_friends d2 = db_friends d1"
      "db_requests d2 = db_requests d1" "db_results d2 = db_results d1"
      "b = stamp 5 (new_document (db_next d1) (deriveOpenId ''g'' (jor (demo_reg ''bob'') (JObj []))) 5 (jor (demo_reg ''bob'') (JObj [])))"
    by (rule create_new [OF create_cases_backends(2) a(2), of "''g''" "demo_reg ''bob''" 5])
      (auto simp: d1 demo_doc_facts split: if_splits)
  have d2: "demo_db = d2"
    using a(1) b(1) by (simp add: demo_db_def pg_createFromLogin_def)
  show "db_ok demo_db" "acct demo_db = [1 \<mapsto> demo_doc 1 ''ann'', 2 \<mapsto> demo_doc 2 ''bob'']"
    "db_results demo_db = []" "db_friends demo_db = []" "db_requests demo_db = []"
    using b a d1 unfolding d2 by (simp_all add: demo_doc_def empty_db_def)
qed

end
