(* ===== verification/SettlementProps.thy ===== *)
theory SettlementProps
  imports Settlement AccountStore "HOL-Library.Multiset"
begin

text \<open>
  Properties of match settlement: every ledger entry is written once and pays once, redelivery is
  harmless, a full-document save that started earlier takes a payment back, the stream hands every
  message to the worker exactly once, and what the two teams' scoreboard adds up to.
\<close>

section \<open>The ledger\<close>

definition ledger_key :: "result_row \<Rightarrow> string \<times> int" where
  "ledger_key m = (mr_match_id m, mr_account_id m)"

definition ledger_ok :: "db \<Rightarrow> bool" where
  "ledger_ok d \<longleftrightarrow> distinct (map ledger_key (db_results d))"

text \<open>What the ledger rows pay an account.\<close>

definition paid :: "int \<Rightarrow> result_row list \<Rightarrow> int" where
  "paid i rs = sum_list (map (\<lambda>m. if mr_account_id m = i then max 0 (mr_coins m) else 0) rs)"

lemma paid_simps [simp]: "paid i [] = 0" "paid i (rs @ ss) = paid i rs + paid i ss"
  "paid i (m # rs) = (if mr_account_id m = i then max 0 (mr_coins m) else 0) + paid i rs"
  by (simp_all add: paid_def)

lemma settled_key: "settled m i d \<longleftrightarrow> (m, i) \<in> ledger_key ` set (db_results d)"
  by (force simp: settled_def list_ex_iff ledger_key_def)

lemma credit_rows_map:
  assumes "\<forall>r \<in> set rs. ro_account_id r = i \<longrightarrow> credit_state n (ro_state r) = Some (f r)"
  shows "credit_rows i n rs = Some (map (\<lambda>r. if ro_account_id r = i then r\<lparr>ro_state := f r\<rparr> else r) rs)"
  using assms by (induction rs) auto

lemma credit_rows_fails:
  "r \<in> set rs \<Longrightarrow> ro_account_id r = i \<Longrightarrow> credit_state n (ro_state r) = None \<Longrightarrow> credit_rows i n rs = None"
  by (induction rs) (auto split: option.split)

lemma rows_cong:
  "db_rows e = db_rows d \<Longrightarrow> db_next e = db_next d \<Longrightarrow> db_ok e = db_ok d"
  "db_rows e = db_rows d \<Longrightarrow> acct e = acct d"
  by (simp_all add: db_ok_def acct_def row_of_def fun_eq_iff)

definition credited :: "int \<Rightarrow> js \<Rightarrow> js" where
  "credited n a = put ''coins'' (JNum n) a"

lemma known_acct: "db_ok d \<Longrightarrow> known d i \<longleftrightarrow> acct d i \<noteq> None"
  using acct_None [of d i] by (auto simp: known_def)

lemma credit_state_ok:
  assumes "row_ok r"
  shows "credit_state n (ro_state r) = map_option (\<lambda>c. Doc (credited (c + n) (row_doc r))) (stored_coins (fld (row_doc r) ''coins''))"
proof -
  have "is_obj (row_doc r)"
    using row_ok_doc(2) [OF assms] by (simp add: doc_ok_def)
  then obtain kvs where "row_doc r = JObj kvs"
    by (cases "row_doc r") auto
  then show ?thesis
    by (simp add: row_ok_doc(1) [OF assms] credited_def)
qed

lemma credited_ok:
  assumes "row_ok r"
  shows "row_ok (r\<lparr>ro_state := Doc (credited n (row_doc r))\<rparr>)"
    and "row_doc (r\<lparr>ro_state := Doc (credited n (row_doc r))\<rparr>) = credited n (row_doc r)"
  using assms by (auto simp: row_ok_def row_doc_def credited_def doc_ok_def split: state_col.splits)

text \<open>The three outcomes of one settlement: recorded before, refused, or recorded now and paid.\<close>

lemma settle_cases:
  assumes "db_ok d" and "pg_settleMatchResult m pr d = (res, d')"
  obtains (again) "settled m (num0 (fld pr ''account_id'')) d" "res = Inr (False, False)" "d' = d"
  | (refused) e where "\<not> settled m (num0 (fld pr ''account_id'')) d" "res = Inl e" "d' = d"
  | (unpaid) "\<not> settled m (num0 (fld pr ''account_id'')) d" "res = Inr (True, False)"
      "mr_coins (result_of m pr) \<le> 0" "d' = d\<lparr>db_results := db_results d @ [result_of m pr]\<rparr>"
  | (paid) a c where "\<not> settled m (num0 (fld pr ''account_id'')) d" "res = Inr (True, True)"
      "0 < mr_coins (result_of m pr)" "acct d (num0 (fld pr ''account_id'')) = Some a"
      "stored_coins (fld a ''coins'') = Some c" "db_ok d'" "db_results d' = db_results d @ [result_of m pr]"
      "acct d' = (acct d)(num0 (fld pr ''account_id'') \<mapsto> credited (c + mr_coins (result_of m pr)) a)"
proof -
  let ?i = "num0 (fld pr ''account_id'')" and ?n = "mr_coins (result_of m pr)"
  have i: "mr_account_id (result_of m pr) = ?i"
    by (simp add: result_of_def)
  consider (s) "settled m ?i d" | (u) "\<not> settled m ?i d" "\<not> known d ?i" | (z) "\<not> settled m ?i d" "known d ?i" "?n \<le> 0"
    | (p) "\<not> settled m ?i d" "known d ?i" "0 < ?n"
    by linarith
  then show thesis
  proof cases
    case s
    then have "pg_settleMatchResult m pr d = (Inr (False, False), d)"
      by (simp add: pg_settleMatchResult_def Let_def i)
    with assms(2) have "res = Inr (False, False)" "d' = d" by simp_all
    with s show thesis by (rule again)
  next
    case u
    then have "pg_settleMatchResult m pr d = (Inl fk_violation, d)"
      by (simp add: pg_settleMatchResult_def Let_def i)
    with assms(2) have "res = Inl fk_violation" "d' = d" by simp_all
    with u(1) show thesis by (rule refused)
  next
    case z
    then have "pg_settleMatchResult m pr d = (Inr (True, False), d\<lparr>db_results := db_results d @ [result_of m pr]\<rparr>)"
      by (simp add: pg_settleMatchResult_def Let_def i)
    with assms(2) have "res = Inr (True, False)" "d' = d\<lparr>db_results := db_results d @ [result_of m pr]\<rparr>" by simp_all
    with z(1,3) show thesis by (intro unpaid)
  next
    case p
    then obtain a where a: "acct d ?i = Some a"
      using known_acct [OF assms(1)] by blast
    obtain r where r: "r \<in> set (db_rows d)" "row_ok r" "ro_account_id r = ?i" "a = row_doc r"
      by (rule acct_Some [OF assms(1) a])
    show thesis
    proof (cases "stored_coins (fld a ''coins'')")
      case None
      then have "credit_rows ?i ?n (db_rows d) = None"
        using credit_state_ok [OF r(2), of ?n] r by (intro credit_rows_fails) auto
      with p have "pg_settleMatchResult m pr d = (Inl (Thrown ''invalid coins''), d)"
        by (simp add: pg_settleMatchResult_def Let_def i)
      with assms(2) have "res = Inl (Thrown ''invalid coins'')" "d' = d" by simp_all
      with p(1) show thesis by (rule refused)
    next
      case (Some c)
      let ?f = "\<lambda>r. r\<lparr>ro_state := Doc (credited (c + ?n) (row_doc r))\<rparr>"
      have one: "q = r" if "q \<in> set (db_rows d)" "ro_account_id q = ?i" for q
        using row_of_mem [OF assms(1) that(1)] row_of_mem [OF assms(1) r(1)] that(2) r(3) by simp
      have "\<forall>q \<in> set (db_rows d). ro_account_id q = ?i \<longrightarrow>
          credit_state ?n (ro_state q) = Some (Doc (credited (c + ?n) (row_doc q)))"
        using one credit_state_ok [OF r(2), of ?n] Some r(4) by auto
      from credit_rows_map [OF this]
      have "credit_rows ?i ?n (db_rows d) = Some (db_rows (update_row (JNum ?i) ?f d))"
        by (simp add: update_row_rows)
      with p assms(2) have e: "res = Inr (True, True)"
        "d' = d\<lparr>db_results := db_results d @ [result_of m pr], db_rows := db_rows (update_row (JNum ?i) ?f d)\<rparr>"
        by (auto simp: pg_settleMatchResult_def Let_def i)
      have f: "row_ok (?f q) \<and> row_doc (?f q) = credited (c + ?n) a \<and> ro_account_id (?f q) = ro_account_id q \<and>
          ro_open_id (?f q) = ro_open_id q"
        if "row_ok q" "row_doc q = a" "ro_account_id q = ?i" for q
        using credited_ok [OF that(1), of "c + ?n"] that(2) by simp
      let ?u = "update_row (JNum ?i) ?f d"
      have u: "db_ok ?u" "acct ?u = (acct d)(?i \<mapsto> credited (c + ?n) a)"
        by (rule update_row_ok [OF assms(1) a], rule f, assumption+)+
      have du: "db_rows d' = db_rows ?u" "db_next d' = db_next ?u"
        unfolding e(2) by (simp_all add: update_row_rows(2))
      have "db_ok d'"
        using u(1) rows_cong(1) [OF du] by simp
      moreover have "acct d' = (acct d)(?i \<mapsto> credited (c + ?n) a)"
        using u(2) rows_cong(2) [OF du(1)] by simp
      moreover have "db_results d' = db_results d @ [result_of m pr]"
        by (simp add: e(2))
      ultimately show thesis
        by (intro paid [OF p(1) e(1) p(3) a Some])
    qed
  qed
qed

definition only_coins :: "js \<Rightarrow> js \<Rightarrow> bool" where
  "only_coins a b \<longleftrightarrow> (\<forall>k. k \<noteq> ''coins'' \<longrightarrow> fld b k = fld a k)"

text \<open>What a run of the worker does to the ledger and to the balance of one account.\<close>

definition pays :: "int \<Rightarrow> (result_row \<Rightarrow> bool) \<Rightarrow> db \<Rightarrow> db \<Rightarrow> bool" where
  "pays i P d d' \<longleftrightarrow>
     db_ok d' \<and> (\<exists>rs. db_results d' = db_results d @ rs \<and> (\<forall>m \<in> set rs. P m) \<and> (ledger_ok d \<longrightarrow> ledger_ok d') \<and>
       (\<forall>a c. acct d i = Some a \<and> fld a ''coins'' = JNum c \<longrightarrow>
         (\<exists>b. acct d' i = Some b \<and> fld b ''coins'' = JNum (c + paid i rs) \<and> only_coins a b)))"

lemma pays_refl: "db_ok d \<Longrightarrow> pays i P d d"
  unfolding pays_def by (intro conjI exI [of _ "[]"]) (auto simp: only_coins_def)

lemma pays_ok: "pays i P d e \<Longrightarrow> db_ok e"
  by (simp add: pays_def)

lemma pays_trans:
  assumes "pays i P d e" and "pays i P e f"
  shows "pays i P d f"
proof -
  obtain rs where rs: "db_results e = db_results d @ rs" "\<forall>m \<in> set rs. P m" "ledger_ok d \<longrightarrow> ledger_ok e"
    "\<forall>a c. acct d i = Some a \<and> fld a ''coins'' = JNum c \<longrightarrow>
         (\<exists>b. acct e i = Some b \<and> fld b ''coins'' = JNum (c + paid i rs) \<and> only_coins a b)"
    using assms(1) by (auto simp: pays_def)
  obtain ss where ss: "db_results f = db_results e @ ss" "\<forall>m \<in> set ss. P m" "ledger_ok e \<longrightarrow> ledger_ok f"
    "\<forall>a c. acct e i = Some a \<and> fld a ''coins'' = JNum c \<longrightarrow>
         (\<exists>b. acct f i = Some b \<and> fld b ''coins'' = JNum (c + paid i ss) \<and> only_coins a b)"
    using assms(2) by (auto simp: pays_def)
  have "\<exists>b. acct f i = Some b \<and> fld b ''coins'' = JNum (c + paid i (rs @ ss)) \<and> only_coins a b"
    if h: "acct d i = Some a" "fld a ''coins'' = JNum c" for a c
  proof -
    obtain b where b: "acct e i = Some b" "fld b ''coins'' = JNum (c + paid i rs)" "only_coins a b"
      using rs(4) h by blast
    then obtain b' where "acct f i = Some b'" "fld b' ''coins'' = JNum (c + paid i rs + paid i ss)" "only_coins b b'"
      using ss(4) by blast
    with b(3) show ?thesis
      by (auto simp: only_coins_def add.assoc)
  qed
  with rs ss assms(2) show ?thesis
    unfolding pays_def by (intro conjI exI [of _ "rs @ ss"]) auto
qed

lemma settle_pays:
  assumes "db_ok d" and "pg_settleMatchResult m pr d = (res, d')" and "P (result_of m pr)"
  shows "pays i P d d'"
  using assms(1,2)
proof (cases rule: settle_cases)
  case again
  with assms(1) show ?thesis by (simp add: pays_refl)
next
  case (refused e)
  with assms(1) show ?thesis by (simp add: pays_refl)
next
  case unpaid
  have "ledger_ok d \<Longrightarrow> ledger_ok d'"
    using unpaid(1,4) by (auto simp: ledger_ok_def settled_key ledger_key_def result_of_def)
  moreover have "acct d' = acct d" "db_ok d'"
    using assms(1) unpaid(4) by (simp_all add: acct_def row_of_def db_ok_def fun_eq_iff)
  ultimately show ?thesis
    unfolding pays_def using unpaid(3,4) assms(3)
    by (intro conjI exI [of _ "[result_of m pr]"]) (auto simp: only_coins_def)
next
  case (paid a c)
  let ?i = "num0 (fld pr ''account_id'')" and ?n = "mr_coins (result_of m pr)"
  have "ledger_ok d \<Longrightarrow> ledger_ok d'"
    using paid(1,7) by (auto simp: ledger_ok_def settled_key ledger_key_def result_of_def)
  moreover have "\<exists>b. acct d' i = Some b \<and> fld b ''coins'' = JNum (e + SettlementProps.paid i [result_of m pr]) \<and> only_coins x b"
    if "acct d i = Some x" "fld x ''coins'' = JNum e" for x e
  proof (cases "i = ?i")
    case True
    then have x: "x = a" "e = c"
      using that paid(4,5) by simp_all
    have "is_obj a"
      using acct_docs_ok [OF assms(1) paid(4)] by (simp add: doc_ok_def)
    with True paid(3,8) x show ?thesis
      by (auto simp: credited_def only_coins_def result_of_def)
  next
    case False
    with that paid(8) show ?thesis
      by (auto simp: only_coins_def result_of_def)
  qed
  ultimately show ?thesis
    unfolding pays_def using paid(6,7) assms(3)
    by (intro conjI exI [of _ "[result_of m pr]"]) auto
qed

section \<open>The worker\<close>

lemma settle_is_pg: "rp_settleMatchResult (pg_repo guest) = pg_settleMatchResult"
  by (simp add: pg_repo_def)

definition from_message :: "string \<Rightarrow> js list \<Rightarrow> result_row \<Rightarrow> bool" where
  "from_message m prs x \<longleftrightarrow> (\<exists>pr \<in> set prs. tru (fld pr ''account_id'') \<and> x = result_of m pr)"

lemma settle_players_pays:
  assumes "db_ok d" and "settle_players (pg_repo guest) m prs n d = (res, d')"
  shows "pays i (from_message m prs) d d'"
proof -
  have main: "pays i P d d'"
    if "db_ok d" "settle_players (pg_repo guest) m prs n d = (res, d')"
      "\<forall>pr \<in> set prs. tru (fld pr ''account_id'') \<longrightarrow> P (result_of m pr)" for P n
    using that
  proof (induction prs arbitrary: n d)
    case Nil
    then show ?case by (simp add: pays_refl)
  next
    case (Cons pr prs)
    show ?case
    proof (cases "tru (fld pr ''account_id'')")
      case False
      with Cons show ?thesis by simp
    next
      case True
      obtain x e where e: "pg_settleMatchResult m pr d = (x, e)" by fastforce
      have p: "pays i P d e"
        using settle_pays [OF Cons.prems(1) e] True Cons.prems(3) by simp
      show ?thesis
      proof (cases x)
        case (Inl err)
        with Cons.prems(2) True e p show ?thesis
          by (simp add: settle_is_pg)
      next
        case (Inr fc)
        obtain f k where fc: "fc = (f, k)" by fastforce
        have "settle_players (pg_repo guest) m prs (if k then n + 1 else n) e = (res, d')"
          using Cons.prems(2) True e Inr fc by (simp add: settle_is_pg)
        from Cons.IH [OF pays_ok [OF p] this] Cons.prems(3) show ?thesis
          by (intro pays_trans [OF p]) simp
      qed
    qed
  qed
  show ?thesis
    by (rule main [OF assms]) (auto simp: from_message_def)
qed

text \<open>The messages the worker has handled, whatever became of each of them.\<close>

fun deliver :: "string \<Rightarrow> (js \<Rightarrow> bool) \<Rightarrow> match_result list \<Rightarrow> db \<Rightarrow> db" where
  "deliver guest online [] d = d"
| "deliver guest online (m # ms) d = deliver guest online ms (snd (handleMatchResult (pg_repo guest) online m d))"

definition from_messages :: "match_result list \<Rightarrow> result_row \<Rightarrow> bool" where
  "from_messages ms x \<longleftrightarrow> (\<exists>m \<in> set ms. \<exists>prs. ms_players m = Some prs \<and> from_message (ms_match_id m) prs x)"

lemma handle_pays:
  assumes "db_ok d" and "m \<in> set ms"
  shows "pays i (from_messages ms) d (snd (handleMatchResult (pg_repo guest) online m d))"
proof (cases "ms_players m")
  case None
  with assms(1) show ?thesis by (simp add: handleMatchResult_def pays_refl)
next
  case (Some prs)
  obtain x e where e: "settle_players (pg_repo guest) (ms_match_id m) prs 0 d = (x, e)" by fastforce
  have "pays i (from_message (ms_match_id m) prs) d e"
    by (rule settle_players_pays [OF assms(1) e])
  moreover have "from_message (ms_match_id m) prs y \<Longrightarrow> from_messages ms y" for y
    using assms(2) Some by (auto simp: from_messages_def)
  ultimately have "pays i (from_messages ms) d e"
    unfolding pays_def by blast
  with assms(1) Some e show ?thesis
    by (auto simp: handleMatchResult_def pays_refl split: sum.split)
qed

lemma deliver_pays:
  assumes "db_ok d"
  shows "pays i (from_messages ms) d (deliver guest online ms d)"
proof -
  have "pays i (from_messages all) d (deliver guest online ms d)" if "db_ok d" "set ms \<subseteq> set all" for all ms
    using that
  proof (induction ms arbitrary: d)
    case Nil
    then show ?case by (simp add: pays_refl)
  next
    case (Cons m ms)
    have p: "pays i (from_messages all) d (snd (handleMatchResult (pg_repo guest) online m d))"
      using Cons.prems by (intro handle_pays) auto
    then have "db_ok (snd (handleMatchResult (pg_repo guest) online m d))"
      by (simp add: pays_def)
    with Cons p show ?case
      by (auto intro: pays_trans)
  qed
  with assms show ?thesis by blast
qed

text \<open>
  [C22] Settlement pays exactly what the ledger says. Whatever messages the worker handles, in any
  order, repeated or failing in the middle, every new ledger row is the result of a player of one of
  these messages, no player is recorded twice for a match, and an account's coins afterwards are its
  coins before plus the positive coins of its new ledger rows; no other field of its document changes.
\<close>

theorem settlement_pays_once:
  assumes "db_ok d" and "ledger_ok d" and "acct d i = Some a" and "fld a ''coins'' = JNum c"
  shows "\<exists>rs b. db_results (deliver guest online ms d) = db_results d @ rs \<and>
    (\<forall>x \<in> set rs. from_messages ms x) \<and> ledger_ok (deliver guest online ms d) \<and>
    acct (deliver guest online ms d) i = Some b \<and> fld b ''coins'' = JNum (c + paid i rs) \<and>
    (\<forall>k. k \<noteq> ''coins'' \<longrightarrow> fld b k = fld a k)"
  using deliver_pays [OF assms(1), of i ms guest online] assms(2-4)
  unfolding pays_def only_coins_def by blast

definition demo_player :: "int \<Rightarrow> int \<Rightarrow> js" where
  "demo_player i c = JObj [(''account_id'', JNum i), (''coins'', JNum c), (''win'', JBool True)]"

definition demo_result :: match_result where
  "demo_result = \<lparr>ms_match_id = ''77'', ms_players = Some [demo_player 1 50, demo_player 2 0]\<rparr>"

theorem settlement_pays_once_witness:
  "\<exists>rs b. db_results (deliver ''g'' (\<lambda>_. False) [demo_result, demo_result] demo_db) = rs \<and>
     (\<forall>x \<in> set rs. from_messages [demo_result, demo_result] x) \<and>
     acct (deliver ''g'' (\<lambda>_. False) [demo_result, demo_result] demo_db) 1 = Some b \<and>
     fld b ''coins'' = JNum (999999 + paid 1 rs)"
  using settlement_pays_once [OF demo_db_facts(1), of 1 "demo_doc 1 ''ann''" 999999 "''g''" "\<lambda>_. False" "[demo_result, demo_result]"]
  by (auto simp: demo_db_facts demo_doc_facts ledger_ok_def)

section \<open>Redelivery\<close>

lemma settle_again:
  assumes "pg_settleMatchResult m pr d = (Inr x, d')"
  shows "settled m (num0 (fld pr ''account_id'')) d'"
  using assms
  by (auto simp: pg_settleMatchResult_def Let_def settled_def result_of_def split: if_splits option.splits)

lemma settle_keeps:
  assumes "pg_settleMatchResult m pr d = (res, d')" and "settled m' i d"
  shows "settled m' i d'"
  using assms
  by (auto simp: pg_settleMatchResult_def Let_def settled_def split: if_splits option.splits)

lemma settle_settled:
  "settled m (num0 (fld pr ''account_id'')) d \<Longrightarrow> pg_settleMatchResult m pr d = (Inr (False, False), d)"
  by (simp add: pg_settleMatchResult_def Let_def result_of_def)

lemma settle_players_keeps:
  "settle_players (pg_repo guest) m prs n d = (res, d') \<Longrightarrow> settled m' i d \<Longrightarrow> settled m' i d'"
proof (induction prs arbitrary: n d)
  case (Cons pr prs)
  show ?case
  proof (cases "tru (fld pr ''account_id'')")
    case False
    with Cons show ?thesis by simp
  next
    case True
    obtain x e where e: "pg_settleMatchResult m pr d = (x, e)" by fastforce
    have "settled m' i e"
      by (rule settle_keeps [OF e Cons.prems(2)])
    with Cons.IH Cons.prems(1) True e show ?thesis
      by (auto simp: settle_is_pg split: sum.splits prod.splits if_splits)
  qed
qed simp

lemma settle_players_all_settled:
  "settle_players (pg_repo guest) m prs n d = (Inr k, d') \<Longrightarrow> pr \<in> set prs \<Longrightarrow> tru (fld pr ''account_id'') \<Longrightarrow>
     settled m (num0 (fld pr ''account_id'')) d'"
proof (induction prs arbitrary: n d)
  case (Cons q prs)
  show ?case
  proof (cases "tru (fld q ''account_id'')")
    case False
    with Cons show ?thesis by auto
  next
    case True
    obtain x e where e: "pg_settleMatchResult m q d = (x, e)" by fastforce
    with True Cons.prems(1) obtain f c where x: "x = Inr (f, c)"
        and rest: "settle_players (pg_repo guest) m prs (if c then n + 1 else n) e = (Inr k, d')"
      by (cases x) (auto simp: settle_is_pg)
    from settle_again [OF e [unfolded x]] settle_players_keeps [OF rest]
    have "settled m (num0 (fld q ''account_id'')) d'" by blast
    with Cons.IH [OF rest] Cons.prems(2,3) show ?thesis by auto
  qed
qed simp

lemma settle_players_noop:
  "(\<forall>pr \<in> set prs. tru (fld pr ''account_id'') \<longrightarrow> settled m (num0 (fld pr ''account_id'')) d) \<Longrightarrow>
     settle_players (pg_repo guest) m prs n d = (Inr n, d)"
  by (induction prs arbitrary: n) (auto simp: settle_is_pg settle_settled)

text \<open>
  Settlement is idempotent. Once a message has been handled to its end, handling it again, as
  the stream may do after a crash, changes nothing in the database and pushes the same scoreboards.
\<close>

theorem settlement_idempotent:
  assumes "handleMatchResult (pg_repo guest) online m d = (Inr ps, d1)"
  shows "handleMatchResult (pg_repo guest) online m d1 = (Inr ps, d1)"
proof (cases "ms_players m")
  case None
  with assms show ?thesis by (simp add: handleMatchResult_def)
next
  case (Some prs)
  show ?thesis
  proof (cases "ms_match_id m = []")
    case True
    with Some assms show ?thesis by (simp add: handleMatchResult_def)
  next
    case False
    then obtain k where k: "settle_players (pg_repo guest) (ms_match_id m) prs 0 d = (Inr k, d1)"
        and ps: "ps = pushMatchStats (pg_repo guest) online (ms_match_id m) prs d1"
      using Some assms by (auto simp: handleMatchResult_def split: sum.splits prod.splits)
    have "settle_players (pg_repo guest) (ms_match_id m) prs 0 d1 = (Inr 0, d1)"
      by (rule settle_players_noop) (use settle_players_all_settled [OF k] in blast)
    with Some False ps show ?thesis
      by (simp add: handleMatchResult_def)
  qed
qed

text \<open>The first delivery of the demo result succeeds: both players are known.\<close>

lemma settle_known:
  assumes "db_ok d" and "acct d (num0 (fld pr ''account_id'')) = Some a" and "fld a ''coins'' = JNum c"
  shows "\<exists>x d'. pg_settleMatchResult m pr d = (Inr x, d')"
proof -
  obtain res d' where s: "pg_settleMatchResult m pr d = (res, d')" by fastforce
  from assms(1) this show ?thesis
  proof (cases rule: settle_cases)
    case (refused e)
    let ?i = "num0 (fld pr ''account_id'')"
    have k: "known d ?i"
      using assms(2) by (simp add: known_acct [OF assms(1)])
    obtain r where r: "r \<in> set (db_rows d)" "row_ok r" "ro_account_id r = ?i" "a = row_doc r"
      by (rule acct_Some [OF assms(1,2)])
    have one: "q = r" if "q \<in> set (db_rows d)" "ro_account_id q = ?i" for q
      using row_of_mem [OF assms(1) that(1)] row_of_mem [OF assms(1) r(1)] that(2) r(3) by simp
    have "credit_state n (ro_state r) = Some (Doc (credited (c + n) a))" for n
      using credit_state_ok [OF r(2), of n] assms(3) unfolding r(4) [symmetric] by simp
    then have "credit_rows ?i n (db_rows d) \<noteq> None" for n
      using credit_rows_map [of "db_rows d" ?i n "\<lambda>_. Doc (credited (c + n) a)"] one by force
    from this [of "mr_coins (result_of m pr)"]
    have "\<exists>x e. pg_settleMatchResult m pr d = (Inr x, e)"
      using refused(1) k by (auto simp: pg_settleMatchResult_def Let_def result_of_def split: option.split)
    then show ?thesis by blast
  qed (use s in blast)+
qed

theorem settlement_idempotent_witness:
  "\<exists>ps d1. handleMatchResult (pg_repo ''g'') (\<lambda>_. True) demo_result demo_db = (Inr ps, d1) \<and>
     handleMatchResult (pg_repo ''g'') (\<lambda>_. True) demo_result d1 = (Inr ps, d1)"
proof -
  let ?p1 = "demo_player 1 50" and ?p2 = "demo_player 2 0"
  have p: "num0 (fld (demo_player i c) ''account_id'') = i" "tru (fld (demo_player i c) ''account_id'') \<longleftrightarrow> i \<noteq> 0" for i c
    by (simp_all add: demo_player_def)
  obtain x1 d1 where s1: "pg_settleMatchResult ''77'' ?p1 demo_db = (Inr x1, d1)"
    using settle_known [OF demo_db_facts(1), of ?p1 "demo_doc 1 ''ann''" 999999 "''77''"]
    by (auto simp: p demo_db_facts demo_doc_facts)
  have pay: "pays 2 (\<lambda>_. True) demo_db d1"
    by (rule settle_pays [OF demo_db_facts(1) s1]) simp
  then obtain b where b: "acct d1 2 = Some b" "\<exists>c. fld b ''coins'' = JNum c"
    unfolding pays_def by (auto simp: demo_db_facts demo_doc_facts)
  then obtain x2 d2 where s2: "pg_settleMatchResult ''77'' ?p2 d1 = (Inr x2, d2)"
    using settle_known [OF pays_ok [OF pay], of ?p2 b _ "''77''"] by (auto simp: p)
  obtain ps where "handleMatchResult (pg_repo ''g'') (\<lambda>_. True) demo_result demo_db = (Inr ps, d2)"
    using s1 s2 by (cases x1; cases x2) (simp add: handleMatchResult_def demo_result_def p settle_is_pg)
  with settlement_idempotent [OF this] show ?thesis by blast
qed

section \<open>A save that started earlier\<close>

text \<open>
  A payment can be lost for good. The router loads the whole document when a request arrives and
  writes the whole document back after the handler; \<open>settleMatchResult\<close> adds coins inside the stored
  document. When the payment commits between the two, the save puts the old coin count back, and
  since the ledger already has the row, no redelivery of the message pays again.
\<close>

theorem stale_save_loses_payment:
  assumes "db_ok d" and "num0 (fld pr ''account_id'') = i" and "acct d i = Some a" and "fld a ''coins'' = JNum c"
    and "pg_settleMatchResult m pr d = (Inr (True, True), d1)"
    and "doc_ok b" and "fld b ''uid'' = JNum i" and "fld b ''open_id'' = fld a ''open_id''" and "fld b ''coins'' = JNum c"
  shows "map_option (\<lambda>x. fld x ''coins'') (acct d1 i) = Some (JNum (c + mr_coins (result_of m pr))) \<and>
    (\<exists>d2. save now b d1 = (Inr (stamp now b), d2) \<and> pg_settleMatchResult m pr d2 = (Inr (False, False), d2) \<and>
      map_option (\<lambda>x. fld x ''coins'') (acct d2 i) = Some (JNum c))"
proof -
  have s: "settled m i d1"
    using settle_again [OF assms(5)] assms(2) by simp
  have o: "is_obj a"
    using acct_docs_ok [OF assms(1,3)] by (simp add: doc_ok_def)
  have d1: "db_ok d1 \<and> acct d1 = (acct d)(i \<mapsto> credited (c + mr_coins (result_of m pr)) a)"
    using assms(1) assms(5)
  proof (cases rule: settle_cases)
    case (paid a' c')
    with assms(2,3,4) show ?thesis by simp
  qed simp_all
  then have credited: "map_option (\<lambda>x. fld x ''coins'') (acct d1 i) = Some (JNum (c + mr_coins (result_of m pr)))"
    using o by (simp add: credited_def)
  have oid: "fld b ''open_id'' = fld (credited (c + mr_coins (result_of m pr)) a) ''open_id''"
    using assms(8) by (simp add: credited_def)
  have i: "i \<noteq> 0"
    using acct_docs_ok [OF assms(1,3)] by simp
  obtain d2 where d2: "save now b d1 = (Inr (stamp now b), d2)" "acct d2 = (acct d1)(i \<mapsto> stamp now b)"
      "db_results d2 = db_results d1"
    by (rule save_ok [OF d1 [THEN conjunct1] _ assms(6,7) oid, of now]) (use d1 in simp_all)
  have "settled m i d2"
    using s d2(3) by (simp add: settled_def)
  then have "pg_settleMatchResult m pr d2 = (Inr (False, False), d2)"
    using settle_settled [of m pr d2] assms(2) by simp
  moreover have "fld (stamp now b) ''coins'' = JNum c"
    using doc_ok_stamp(4) [OF assms(6,7) i, of "''coins''"] assms(9) by simp
  ultimately show ?thesis
    using d2 credited by auto
qed

lemma demo_player_simps [simp]:
  "num0 (fld (demo_player i c) ''account_id'') = i" "tru (fld (demo_player i c) ''account_id'') \<longleftrightarrow> i \<noteq> 0"
  "mr_coins (result_of m (demo_player i c)) = to_int32 c"
  by (simp_all add: demo_player_def result_of_def int32_of_def)

lemma demo_paid: "\<exists>d1. pg_settleMatchResult ''77'' (demo_player 1 50) demo_db = (Inr (True, True), d1)"
proof -
  obtain x d1 where s: "pg_settleMatchResult ''77'' (demo_player 1 50) demo_db = (Inr x, d1)"
    using settle_known [OF demo_db_facts(1), of "demo_player 1 50" "demo_doc 1 ''ann''" 999999 "''77''"]
    by (auto simp: demo_db_facts demo_doc_facts)
  from demo_db_facts(1) s show ?thesis
  proof (cases rule: settle_cases)
    case again
    then show ?thesis by (simp add: settled_def demo_db_facts)
  next
    case unpaid
    then show ?thesis by (simp add: to_int32_def)
  qed (use s in auto)
qed

theorem stale_save_loses_payment_witness:
  "\<exists>d1 d2. pg_settleMatchResult ''77'' (demo_player 1 50) demo_db = (Inr (True, True), d1) \<and>
     map_option (\<lambda>x. fld x ''coins'') (acct d1 1) = Some (JNum 1000049) \<and>
     save 9 (demo_doc 1 ''ann'') d1 = (Inr (stamp 9 (demo_doc 1 ''ann'')), d2) \<and>
     map_option (\<lambda>x. fld x ''coins'') (acct d2 1) = Some (JNum 999999)"
proof -
  obtain d1 where s: "pg_settleMatchResult ''77'' (demo_player 1 50) demo_db = (Inr (True, True), d1)"
    using demo_paid by blast
  have "map_option (\<lambda>x. fld x ''coins'') (acct d1 1) = Some (JNum (999999 + mr_coins (result_of ''77'' (demo_player 1 50)))) \<and>
    (\<exists>d2. save 9 (demo_doc 1 ''ann'') d1 = (Inr (stamp 9 (demo_doc 1 ''ann'')), d2) \<and>
      pg_settleMatchResult ''77'' (demo_player 1 50) d2 = (Inr (False, False), d2) \<and>
      map_option (\<lambda>x. fld x ''coins'') (acct d2 1) = Some (JNum 999999))"
    by (rule stale_save_loses_payment [OF demo_db_facts(1) _ _ _ s, where a = "demo_doc 1 ''ann''"])
      (simp_all add: demo_db_facts demo_doc_facts)
  with s show ?thesis
    by (auto simp: to_int32_def)
qed

section \<open>The stream hands out every message once\<close>

text \<open>Handling a list of entries once each, in order: the ones whose handler throws, and the database.\<close>

fun feed :: "('m \<Rightarrow> ('d, 'a) query) \<Rightarrow> (nat \<times> 'm option) list \<Rightarrow> 'd \<Rightarrow> nat list \<times> 'd" where
  "feed h [] d = ([], d)"
| "feed h ((i, None) # ms) d = feed h ms d"
| "feed h ((i, Some m) # ms) d =
     (case h m d of
        (Inl _, d') \<Rightarrow> (case feed h ms d' of (fs, d'') \<Rightarrow> (i # fs, d''))
      | (Inr _, d') \<Rightarrow> feed h ms d')"

lemma feed_append:
  "feed h (ms @ ns) d = (case feed h ms d of (fs, d') \<Rightarrow> (case feed h ns d' of (gs, d'') \<Rightarrow> (fs @ gs, d'')))"
  by (induction h ms d rule: feed.induct) (auto split: prod.split sum.split)

lemma feed_append_parts:
  "fst (feed h (ms @ ns) d) = fst (feed h ms d) @ fst (feed h ns (snd (feed h ms d)))"
  "snd (feed h (ms @ ns) d) = snd (feed h ns (snd (feed h ms d)))"
  by (simp_all add: feed_append split: prod.split)

lemma feed_ids: "set (fst (feed h ms d)) \<subseteq> fst ` set ms"
  by (induction h ms d rule: feed.induct) (auto split: prod.splits sum.splits)

lemma feed_distinct: "distinct (map fst ms) \<Longrightarrow> distinct (fst (feed h ms d))"
proof (induction h ms d rule: feed.induct)
  case (3 h i m ms d)
  obtain x e where x: "h m d = (x, e)" by fastforce
  obtain fs f where f: "feed h ms e = (fs, f)" by fastforce
  have "i \<notin> set fs"
    using feed_ids [of h ms e] 3(3) f by auto
  with 3 x f show ?case
    by (cases x) simp_all
qed simp_all

lemma xack_pending:
  "st_pending s = P @ i # js \<Longrightarrow> distinct (P @ i # js) \<Longrightarrow> xack i s = s\<lparr>st_pending := P @ js\<rparr>"
  by (simp add: xack_def)

lemma handle_batch_feed:
  "st_pending s = P @ map fst ms \<Longrightarrow> distinct (st_pending s) \<Longrightarrow>
     handle_batch h ms s d = (s\<lparr>st_pending := P @ fst (feed h ms d)\<rparr>, snd (feed h ms d))"
proof (induction h ms d arbitrary: s P rule: feed.induct)
  case (1 h d)
  then show ?case by simp
next
  case (2 h i ms d)
  then have "xack i s = s\<lparr>st_pending := P @ map fst ms\<rparr>"
    by (intro xack_pending) simp_all
  with "2.IH" [of "s\<lparr>st_pending := P @ map fst ms\<rparr>" P] 2(2,3) show ?case by simp
next
  case (3 h i m ms d)
  obtain x d' where x: "h m d = (x, d')" by fastforce
  show ?case
  proof (cases x)
    case (Inl e)
    with "3.IH"(1) [OF x [symmetric] Inl, of s "P @ [i]"] 3(3,4) x show ?thesis
      by (simp split: prod.split)
  next
    case (Inr a)
    have "xack i s = s\<lparr>st_pending := P @ map fst ms\<rparr>"
      using 3(3,4) by (intro xack_pending) simp_all
    with "3.IH"(2) [OF x [symmetric] Inr, of "s\<lparr>st_pending := P @ map fst ms\<rparr>" P] 3(3,4) x Inr show ?thesis
      by simp
  qed
qed

definition entries :: "'m option list \<Rightarrow> (nat \<times> 'm option) list" where
  "entries es = map (\<lambda>i. (i, es ! i)) [0..<length es]"

lemma take_entries: "take m (entries es) = map (\<lambda>i. (i, es ! i)) [0..<min m (length es)]"
  by (auto simp: entries_def take_map take_upt min_def)

lemma upt_split: "i \<le> j \<Longrightarrow> j \<le> k \<Longrightarrow> [i..<k] = [i..<j] @ [j..<k]"
  by (metis le_add_diff_inverse upt_add_eq_append)

definition new_stream :: "'m option list \<Rightarrow> 'm stream" where
  "new_stream es = \<lparr>st_entries = es, st_delivered = 0, st_pending = []\<rparr>"

lemma polls_feed:
  "(poll h ^^ n) (new_stream es, d) =
     (let out = feed h (take (COUNT * n) (entries es)) d
      in (\<lparr>st_entries = es, st_delivered = min (COUNT * n) (length es), st_pending = fst out\<rparr>, snd out))"
proof (induction n)
  case 0
  show ?case by (simp add: new_stream_def)
next
  case (Suc n)
  let ?k = "COUNT * n" and ?out = "feed h (take (COUNT * n) (entries es)) d"
  let ?s = "\<lparr>st_entries = es, st_delivered = min ?k (length es), st_pending = fst ?out\<rparr>"
  let ?ids = "take COUNT [min ?k (length es)..<length es]"
  let ?ms = "map (\<lambda>i. (i, es ! i)) ?ids"
  have ids: "?ids = [min ?k (length es)..<min (COUNT * Suc n) (length es)]"
    by (auto simp: take_upt min_def add.commute)
  have tk: "take (COUNT * Suc n) (entries es) = take ?k (entries es) @ ?ms"
    using upt_split [of 0 "min ?k (length es)" "min (COUNT * Suc n) (length es)"] by (simp add: take_entries ids)
  have lt: "i < min ?k (length es)" if "i \<in> set (fst ?out)" for i
    using that feed_ids [of h "take ?k (entries es)" d] unfolding take_entries by auto
  have "distinct (map fst (take ?k (entries es)))"
    by (simp add: take_entries comp_def)
  from feed_distinct [OF this, of h d] have dist: "distinct (fst ?out @ ?ids)"
    using lt unfolding ids by fastforce
  have dl: "min ?k (length es) + min (length es - min ?k (length es)) COUNT = min (COUNT + ?k) (length es)"
    by linarith
  have "poll h (?s, snd ?out) =
      (?s\<lparr>st_delivered := min (COUNT * Suc n) (length es), st_pending := fst ?out @ fst (feed h ?ms (snd ?out))\<rparr>,
       snd (feed h ?ms (snd ?out)))"
    using dl handle_batch_feed [of "?s\<lparr>st_delivered := min (COUNT * Suc n) (length es), st_pending := fst ?out @ ?ids\<rparr>" "fst ?out" ?ms h "snd ?out"] dist
    by (simp add: poll_def xreadgroup_def Let_def ids comp_def dl)
  moreover have "(poll h ^^ Suc n) (new_stream es, d) = poll h (?s, snd ?out)"
    using Suc.IH by (simp add: Let_def)
  ultimately show ?case
    unfolding Let_def tk by (simp add: feed_append_parts)
qed

text \<open>
  [C24] The stream loop hands every message to its handler exactly once, in stream order, and is done
  after enough polls; a message whose handler throws stays in the pending list and is never handed
  out again, however often the loop polls (the comments of the bus and of the worker promise
  redelivery). So the final database is that of one pass over the messages.
\<close>

theorem stream_handles_once:
  assumes "length es \<le> COUNT * n"
  shows "(poll h ^^ n) (new_stream es, d) =
    (\<lparr>st_entries = es, st_delivered = length es, st_pending = fst (feed h (entries es) d)\<rparr>,
     snd (feed h (entries es) d))"
proof -
  have "take (COUNT * n) (entries es) = entries es"
    using assms by (simp add: entries_def)
  with assms show ?thesis
    by (simp add: polls_feed Let_def)
qed

definition demo_unknown :: match_result where
  "demo_unknown = \<lparr>ms_match_id = ''78'', ms_players = Some [demo_player 9 50, demo_player 1 50]\<rparr>"

definition worker :: "match_result \<Rightarrow> (db, stats_push list) query" where
  "worker = handleMatchResult (pg_repo ''g'') (\<lambda>_. False)"

theorem stream_handles_once_witness:
  "(poll worker ^^ 3) (new_stream [None, Some demo_unknown], empty_db) =
     (\<lparr>st_entries = [None, Some demo_unknown], st_delivered = 2, st_pending = [1]\<rparr>, empty_db)"
proof -
  have "worker demo_unknown empty_db = (Inl fk_violation, empty_db)"
    by (simp add: worker_def handleMatchResult_def demo_unknown_def settle_is_pg pg_settleMatchResult_def Let_def
        settled_def known_def empty_db_def result_of_def)
  then show ?thesis
    using stream_handles_once [of "[None, Some demo_unknown]" 3 worker empty_db]
    by (simp add: COUNT_def entries_def upt_rec numeral_2_eq_2)
qed

text \<open>
  One unknown player costs the others their payment. The worker settles the players of a match
  in turn; when one of them has no account, the ledger's foreign key throws, the players after it are
  not settled, and since a message that threw is not handed out again they never are, however long
  the worker polls.
\<close>

theorem unknown_player_blocks_the_rest:
  "(poll worker ^^ Suc n) (new_stream [Some demo_unknown], demo_db) =
     (\<lparr>st_entries = [Some demo_unknown], st_delivered = 1, st_pending = [0]\<rparr>, demo_db) \<and>
   acct demo_db 1 \<noteq> None \<and> \<not> settled ''78'' 1 demo_db"
proof -
  have "worker demo_unknown demo_db = (Inl fk_violation, demo_db)"
    using known_acct [OF demo_db_facts(1), of 9]
    by (simp add: worker_def handleMatchResult_def demo_unknown_def settle_is_pg pg_settleMatchResult_def Let_def
        settled_def result_of_def demo_db_facts)
  then show ?thesis
    using polls_feed [where n = "Suc n" and es = "[Some demo_unknown]" and h = worker and d = demo_db]
    by (simp add: COUNT_def entries_def Let_def demo_db_facts settled_def)
qed

section \<open>The scoreboard\<close>

lemma foldl_sum: "foldl (\<lambda>s x. s + f x) (c :: int) xs = c + sum_list (map f xs)"
  by (induction xs arbitrary: c) (simp_all add: add.assoc)

lemma sum_partition: "sum_list (map f (filter P xs)) + sum_list (map f (filter (\<lambda>x. \<not> P x) xs)) = sum_list (map (f :: _ \<Rightarrow> int) xs)"
  by (induction xs) auto

lemma mset_partition: "mset (map f (filter P xs)) + mset (map f (filter (\<lambda>x. \<not> P x) xs)) = mset (map f xs)"
  by (induction xs) auto

text \<open>
  The scoreboard a player gets accounts for everybody. The rows of the two teams together are
  the rows of all players of the match, the player's own row is in its own team, the two team scores
  add up to all kills, and the player count is the number of players.
\<close>

theorem scoreboard_complete:
  assumes "pr \<in> set players"
  shows "let st = fld (buildStatsRes pr players accts m) ''match_stats'';
           row = (\<lambda>x. teammateRow x (jor (accts (fld x ''account_id'')) (JObj [])))
    in mset (elems (fld st ''teammates'')) + mset (elems (fld st ''opponents'')) = mset (map row players) \<and>
    row pr \<in> set (elems (fld st ''teammates'')) \<and>
    (\<exists>a b. fld st ''teams_game_point'' = nums [a, b] \<and> a + b = sum_list (map (\<lambda>x. int32_of x ''kills'') players)) \<and>
    fld st ''player_count'' = JNum (int (length players))"
proof -
  let ?st = "fld (buildStatsRes pr players accts m) ''match_stats''"
  let ?row = "\<lambda>x. teammateRow x (jor (accts (fld x ''account_id'')) (JObj []))"
  have st: "fld ?st ''teammates'' = JArr (map ?row (filter (sameTeam pr) players))"
    "fld ?st ''opponents'' = JArr (map ?row (filter (\<lambda>x. \<not> sameTeam pr x) players))"
    "fld ?st ''teams_game_point'' = nums [team_kills (sameTeam pr) players, team_kills (\<lambda>x. \<not> sameTeam pr x) players]"
    "fld ?st ''player_count'' = JNum (int (length players))"
    by (simp_all add: buildStatsRes_def match_stats_def Let_def)
  have "sameTeam pr pr"
    by (simp add: sameTeam_def)
  moreover have "team_kills (sameTeam pr) players + team_kills (\<lambda>x. \<not> sameTeam pr x) players =
      sum_list (map (\<lambda>x. int32_of x ''kills'') players)"
    by (simp add: team_kills_def foldl_sum sum_partition)
  ultimately show ?thesis
    unfolding Let_def st elems.simps using assms mset_partition [of ?row "sameTeam pr" players] by auto
qed

theorem scoreboard_complete_witness:
  "fld (fld (buildStatsRes (demo_player 1 50) [demo_player 1 50, demo_player 2 0] (\<lambda>_. JNull) ''77'') ''match_stats'') ''player_count'' = JNum 2"
  using scoreboard_complete [of "demo_player 1 50" "[demo_player 1 50, demo_player 2 0]" "\<lambda>_. JNull" "''77''"]
  by (simp add: Let_def)

end
