(* ===== verification/Shared.thy ===== *)
theory Shared
  imports Friends
begin

text \<open>
  The HTTP tier's shared helpers (\<open>src/handlers/_shared.js\<close>), the configuration they read
  (\<open>config/default.js\<close>) and the context a request handler works in.

  A handler gets the decoded request, an object, and a context: the authenticated player document,
  which it may mutate and mark for saving, and the response it may take over. Its result is the
  response object or a thrown error, and the context it leaves: the document, the dirty flag, the
  status it sent itself, whether it closes the socket, the events it published on the bus and the
  database. What it draws on is the environment: the repository, the clock, the random source, the
  request headers, presence, the auth store's tables and the configuration.
\<close>

section \<open>Configuration\<close>

record http_config =
  cf_serverUrl :: string
  cf_mainPort :: int
  cf_tcpPort :: int
  cf_gameServerPort :: string
  cf_chatPort :: string
  cf_notificationPort :: string
  cf_domain_tcp :: string
  cf_domain_match :: string
  cf_enforceRegistration :: bool
  cf_enforceLoginToken :: bool
  cf_allowGuest :: bool
  cf_guestOpenId :: string
  cf_allowedVersions :: "string list"
  cf_allowedSignatures :: "string list"
  cf_enforceBans :: bool

text \<open>\<open>_bool\<close> and \<open>_list\<close>, which read an environment variable; \<open>None\<close> is an unset one.\<close>

definition env_bool :: "string option \<Rightarrow> bool \<Rightarrow> bool" where
  "env_bool v d =
     (case v of None \<Rightarrow> d | Some s \<Rightarrow> if s = [] then d else s = ''1'' \<or> toLowerCase s = ''true'')"

definition env_list :: "string option \<Rightarrow> string list" where
  "env_list v = filter (\<lambda>s. s \<noteq> []) (map trim (split_on (CHR '','') (or_str v [])))"

section \<open>The request context\<close>

datatype pg_outcome = Rows "js list" | PgError string

text \<open>What is published on the bus: a push to a client of a gateway, a cache refresh, a kick.\<close>

datatype bus_event =
    GwPush int string string js
  | PlayerUpdated int
  | SessionRevoke int string

record 'd henv =
  he_repo :: "'d repo"
  he_guest :: string
  he_now :: int
  he_newToken :: string
  he_rand :: "nat \<Rightarrow> nat"
  he_host :: string
  he_authorization :: string
  he_localIp :: string
  he_bus :: bool
  he_online :: "int \<Rightarrow> bool"
  he_cfg :: http_config
  he_guests :: "string \<Rightarrow> pg_outcome"
  he_accounts :: "string \<Rightarrow> pg_outcome"
  he_items :: "js list"

record 'd hctx =
  hc_account :: js
  hc_dirty :: bool
  hc_sent :: "int option"
  hc_close :: bool
  hc_events :: "bus_event list"
  hc_auth_enabled :: bool
  hc_db :: 'd

type_synonym 'd handler_fn = "'d henv \<Rightarrow> js \<Rightarrow> 'd hctx \<Rightarrow> (exn + js) \<times> 'd hctx"

definition set_account :: "js \<Rightarrow> 'd hctx \<Rightarrow> 'd hctx" where
  "set_account a c = c\<lparr>hc_account := a\<rparr>"

definition savePlayer :: "'d hctx \<Rightarrow> 'd hctx" where
  "savePlayer c = c\<lparr>hc_dirty := True\<rparr>"

text \<open>\<open>ctx.account\<close> changed and marked for saving.\<close>

definition keep :: "js \<Rightarrow> 'd hctx \<Rightarrow> 'd hctx" where
  "keep a c = savePlayer (set_account a c)"

definition publish :: "'d henv \<Rightarrow> bus_event \<Rightarrow> 'd hctx \<Rightarrow> 'd hctx" where
  "publish E ev c = (if he_bus E then c\<lparr>hc_events := hc_events c @ [ev]\<rparr> else c)"

text \<open>An awaited repository write.\<close>

definition db_write :: "('d, 'a) query \<Rightarrow> 'd hctx \<Rightarrow> (exn + 'a) \<times> 'd hctx" where
  "db_write q c = (case q (hc_db c) of (res, d) \<Rightarrow> (res, c\<lparr>hc_db := d\<rparr>))"

text \<open>What a handler module exports.\<close>

record 'd http_module =
  hm_endpoint :: string
  hm_fn :: "'d handler_fn"
  hm_reqType :: "string option"
  hm_resType :: "string option"

definition http_module :: "string \<Rightarrow> 'd handler_fn \<Rightarrow> string option \<Rightarrow> string option \<Rightarrow> 'd http_module" where
  "http_module ep f req res =
     \<lparr>hm_endpoint = ep, hm_fn = f, hm_reqType = req, hm_resType = res\<rparr>"

definition empty_res :: js where "empty_res = JObj []"

section \<open>Constants, time, transport\<close>

definition DEFAULT_REGION :: string where "DEFAULT_REGION = ''BR''"
definition TOKEN_TTL :: int where "TOKEN_TTL = 28800"

definition nowSecs :: "'d henv \<Rightarrow> int" where
  "nowSecs E = he_now E div 1000"

text \<open>\<open>rawHost.replace(/:\d+$/, '')\<close>.\<close>

definition strip_port :: "string \<Rightarrow> string" where
  "strip_port h =
     (let ds = takeWhile is_digit (rev h); rest = dropWhile is_digit (rev h)
      in if ds \<noteq> [] \<and> rest \<noteq> [] \<and> hd rest = CHR '':'' then rev (tl rest) else h)"

definition serverUrl :: "'d henv \<Rightarrow> string" where
  "serverUrl E =
     (if cf_serverUrl (he_cfg E) \<noteq> [] then cf_serverUrl (he_cfg E)
      else let rawHost = trim (he_host E)
           in if rawHost = [] then []
              else ''http://'' @ strip_port rawHost @ '':'' @ int_str (int_or (cf_mainPort (he_cfg E)) 3002))"

definition requireAccount :: "'d hctx \<Rightarrow> js" where
  "requireAccount c = (if tru (hc_account c) then hc_account c else JNull)"

section \<open>Response builders\<close>

text \<open>\<open>const si = acc.selected_items || {}\<close>.\<close>

definition sel_of :: "js \<Rightarrow> js" where
  "sel_of acc = jor (fld acc ''selected_items'') (JObj [])"

text \<open>\<open>s0\<close> of an array: element 0 or \<open>undefined\<close>.\<close>

fun nth_js :: "js \<Rightarrow> nat \<Rightarrow> js" where
  "nth_js (JArr xs) i = (if i < length xs then xs ! i else JUndef)"
| "nth_js _ i = JUndef"

definition buildSelectedItems :: "js \<Rightarrow> js" where
  "buildSelectedItems acc =
     (let si = sel_of acc;
          out = JObj [
            (''avatar_id'', jor (fld si ''avatar_id'') (JNum 0)),
            (''skin_color'', jor (fld si ''skin_color'') (JNum 0)),
            (''banner_id'', jor (fld si ''banner_id'') (JNum 0)),
            (''head_pic'', jor (fld si ''head_pic'') (JNum 0)),
            (''clothes'', arr_or_empty (fld si ''clothes'')),
            (''slots'', arr_or_empty (fld si ''slots'')),
            (''shows'', arr_or_empty (fld si ''shows''))];
          out1 = (if elems (fld si ''loadouts'') \<noteq> []
                  then put ''loadouts'' (JArr (map (\<lambda>i. JObj [(''loadout_id'', i)]) (elems (fld si ''loadouts'')))) out
                  else out)
      in if is_arr (fld (fld si ''emotes'') ''emotes'')
         then put ''emotes'' (JObj [(''emotes'', fld (fld si ''emotes'') ''emotes'')]) out1 else out1)"

definition buildAccountInfoBasic :: "js \<Rightarrow> js" where
  "buildAccountInfoBasic acc =
     (let si = sel_of acc; clan = jor (fld acc ''clan'') (JObj [])
      in JObj [
      (''account_id'', jor (jor (fld acc ''uid'') (fld acc ''account_id'')) (JNum 0)),
      (''account_type'', jor (fld acc ''account_type'') (JNum 0)),
      (''nickname'', jor (fld acc ''nickname'') (JStr [])),
      (''external_id'', jor (fld acc ''open_id'') (JStr [])),
      (''region'', JStr DEFAULT_REGION),
      (''level'', jor (fld acc ''level'') (JNum 1)),
      (''exp'', jor (fld acc ''exp'') (JNum 0)),
      (''external_type'', jor (fld acc ''external_type'') (JNum 0)),
      (''external_name'', jor (fld acc ''external_name'') (JStr [])),
      (''external_icon'', jor (fld acc ''external_icon'') (JStr [])),
      (''banner_id'', jor (fld si ''banner_id'') (JNum 0)),
      (''head_pic'', jor (fld si ''head_pic'') (JNum 0)),
      (''clan_name'', jor (fld clan ''name'') (JStr [])),
      (''rank'', jor (fld acc ''rank'') (JNum 1)),
      (''ranking_points'', jor (fld acc ''ranking_points'') (JNum 0)),
      (''role'', (if jnum (fld acc ''role'') = JNum 100 then JNum 100 else JNum (num0 (fld acc ''role'')))),
      (''has_elite_pass'', jbool (fld acc ''elite_pass'')),
      (''badge_cnt'', jor (fld acc ''ep_badge_count'') (JNum 999)),
      (''badge_id'', jor (fld acc ''ep_badge_id'') (JNum 1001000021)),
      (''season_id'', JNum 1),
      (''liked'', JNum 9999),
      (''is_deleted'', JBool False),
      (''show_rank'', JBool True),
      (''last_login_at'', (if tru (fld acc ''last_login_at'') then JNum ((num0 (fld acc ''last_login_at'')) div 1000) else JNum 0)),
      (''external_uid'', JNum 0),
      (''return_at'', JNum 0),
      (''weapon_skin_shows'', (if (tru (fld acc ''selected_items'')) \<and> (is_arr (fld (fld acc ''selected_items'') ''shows'')) then fld (fld acc ''selected_items'') ''shows'' else JArr []))])"

definition accountToBasic :: "js \<Rightarrow> js" where
  "accountToBasic acc =
     (let si = sel_of acc
      in JObj [
      (''account_id'', fld acc ''uid''),
      (''account_type'', jor (fld acc ''account_type'') (JNum 0)),
      (''nickname'', jor (fld acc ''nickname'') (JStr [])),
      (''external_id'', jor (fld acc ''open_id'') (JStr [])),
      (''region'', jor (fld acc ''region'') (JStr [])),
      (''level'', jor (fld acc ''level'') (JNum 1)),
      (''exp'', jor (fld acc ''exp'') (JNum 0)),
      (''external_type'', (if tru (fld acc ''open_id_type'') then JNum (num0 (fld acc ''open_id_type'')) else JNum 0)),
      (''external_name'', JStr []),
      (''external_icon'', JStr []),
      (''banner_id'', jor (fld si ''banner_id'') (JNum 0)),
      (''head_pic'', jor (fld si ''head_pic'') (JNum 0)),
      (''clan_name'', jor (jand (fld acc ''clan'') (fld (fld acc ''clan'') ''name'')) (JStr [])),
      (''rank'', jor (fld acc ''rank'') (JNum 1)),
      (''ranking_points'', jor (fld acc ''ranking_points'') (JNum 0)),
      (''role'', (if jnum (fld acc ''role'') = JNum 100 then JNum 100 else (if ((tru (fld acc ''clan'')) \<and> (tru (fld (fld acc ''clan'') ''role''))) \<and> (fld (fld acc ''clan'') ''role'' \<noteq> JStr ''none'') then JNum 1 else JNum 0))),
      (''pin_id'', (if jnum (fld acc ''role'') = JNum 100 then JNum 100 else jor (fld acc ''pin_id'') (JNum 0))),
      (''has_elite_pass'', jbool (fld acc ''elite_pass'')),
      (''badge_cnt'', jor (fld acc ''ep_badge_count'') (JNum 0)),
      (''badge_id'', jor (fld acc ''ep_badge_id'') (JNum 0)),
      (''season_id'', JNum 1),
      (''liked'', JNum 0),
      (''is_deleted'', JBool False),
      (''show_rank'', JBool True),
      (''last_login_at'', (if tru (fld acc ''last_login_at'') then JNum ((num0 (fld acc ''last_login_at'')) div 1000) else JNum 0)),
      (''external_uid'', JNum 0),
      (''return_at'', JNum 0)])"

definition accountToPresence :: "js \<Rightarrow> int \<Rightarrow> js" where
  "accountToPresence acc now =
     (let si = sel_of acc
      in JObj [
      (''account_id'', fld acc ''uid''),
      (''account_type'', jor (fld acc ''account_type'') (JNum 1)),
      (''nickname'', jor (fld acc ''nickname'') (JStr [])),
      (''external_id'', jor (fld acc ''open_id'') (JStr [])),
      (''external_name'', JStr []),
      (''external_type'', (if tru (fld acc ''open_id_type'') then JNum (num0 (fld acc ''open_id_type'')) else JNum 0)),
      (''region'', jor (fld acc ''region'') (JStr [])),
      (''portrait'', JStr (str (jor (fld si ''head_pic'') (JNum 902000011)))),
      (''level'', jor (fld acc ''level'') (JNum 1)),
      (''exp'', jor (fld acc ''exp'') (JNum 0)),
      (''update_time'', JNum now),
      (''rank'', jor (fld acc ''rank'') (JNum 1)),
      (''ranking_points'', jor (fld acc ''ranking_points'') (JNum 0)),
      (''banner_id'', jor (fld si ''banner_id'') (JNum 901000036)),
      (''head_pic'', jor (fld si ''head_pic'') (JNum 902000011)),
      (''clan_name'', jor (jand (fld acc ''clan'') (fld (fld acc ''clan'') ''name'')) (JStr [])),
      (''has_elite_pass'', jbool (fld acc ''elite_pass'')),
      (''badge_cnt'', jor (fld acc ''ep_badge_count'') (JNum 0)),
      (''role'', (if jnum (fld acc ''role'') = JNum 100 then JNum 100 else JNum (num0 (fld acc ''role'')))),
      (''pin_id'', (if jnum (fld acc ''role'') = JNum 100 then JNum 100 else jor (fld acc ''pin_id'') (JNum 0))),
      (''badge_id'', jor (fld acc ''ep_badge_id'') (JNum 0)),
      (''is_deleted'', JBool False),
      (''show_rank'', JBool True),
      (''last_login_at'', (if tru (fld acc ''last_login_at'') then JNum ((num0 (fld acc ''last_login_at'')) div 1000) else JNum 0)),
      (''external_uid'', JNum 0)])"

section \<open>Profiles\<close>

definition profiles_of :: "js \<Rightarrow> js list" where
  "profiles_of acc = elems (fld (fld acc ''profile'') ''profiles'')"

definition selectedProfile :: "js \<Rightarrow> js" where
  "selectedProfile acc =
     (let ps = profiles_of acc
      in case find (\<lambda>p. tru p \<and> tru (fld p ''is_selected'')) ps of
           Some p \<Rightarrow> p
         | None \<Rightarrow> (case ps of [] \<Rightarrow> JNull | p # _ \<Rightarrow> jor p JNull))"

definition buildAvatarProfile :: "js \<Rightarrow> js" where
  "buildAvatarProfile p = JObj [
      (''avatar_id'', jor (fld p ''avatar_id'') (JNum 0)),
      (''unlocked_level'', jor (fld p ''unlocked_level'') (JNum 1)),
      (''skin_color'', jor (fld p ''skin_color'') (JNum 0)),
      (''clothes'', arr_or_empty (fld p ''clothes'')),
      (''equiped_skills'', JArr (map (\<lambda>s. JObj [
          (''slot_id'', jor (fld s ''slot_id'') (JNum 0)),
          (''skill_id'', jor (fld s ''skill_id'') (JNum 0))]) (elems (arr_or_empty (fld p ''equiped_skills''))))),
      (''is_selected'', jbool (fld p ''is_selected''))]"

definition mapProfileToAvatarProfile :: "js \<Rightarrow> js" where
  "mapProfileToAvatarProfile p = JObj [
      (''avatar_id'', jor (fld p ''avatar_id'') (JNum 0)),
      (''unlocked_level'', jor (fld p ''unlocked_level'') (JNum 0)),
      (''skin_color'', jor (fld p ''skin_color'') (JNum 0)),
      (''clothes'', arr_or_empty (fld p ''clothes'')),
      (''equiped_skills'', arr_or_empty (fld p ''equiped_skills'')),
      (''is_selected'', jbool (fld p ''is_selected''))]"

text \<open>The slot assignment loop: a slot id outside the array is ignored.\<close>

definition set_slot :: "js \<Rightarrow> js list \<Rightarrow> js list" where
  "set_slot skill slots =
     (let i = num0 (fld skill ''slot_id'')
      in if 0 \<le> i \<and> i < int (length slots)
         then slots[nat i := jor (fld skill ''skill_id'') (JNum 0)] else slots)"

definition syncSelectedItemsFromProfile :: "js \<Rightarrow> js \<Rightarrow> js" where
  "syncSelectedItemsFromProfile account profile =
     (if \<not> tru profile then account
      else let s0 = (if tru (fld account ''selected_items'') then fld account ''selected_items'' else JObj []);
               s1 = put ''avatar_id'' (jor (fld profile ''avatar_id'') (JNum 0)) s0;
               s2 = put ''skin_color'' (jor (fld profile ''skin_color'') (JNum 0)) s1;
               s3 = put ''clothes'' (jor (fld profile ''clothes'') (JArr [])) s2;
               slots = (if elems (fld s3 ''slots'') \<noteq> [] then elems (fld s3 ''slots'')
                        else replicate 16 (JNum 0));
               slots' = fold set_slot (elems (fld profile ''equiped_skills'')) slots
           in put ''selected_items'' (put ''slots'' (JArr slots') s3) account)"

end
