(* ===== verification/AuthGate.thy ===== *)
theory AuthGate
  imports Shared
begin

text \<open>
  The login gates (\<open>src/handlers/_authGate.js\<close>) and the auth server's store they read
  (\<open>src/db/authStore.js\<close>). A gate returns a decision, or nothing when it passes; \<open>reject\<close> turns a
  decision into a status, an event on the bus and a closed socket. A query of the auth store is a
  parameter: its rows, or the error code of the driver. The store disables itself when its schema
  is missing, so the enabled flag is part of the context.
\<close>

section \<open>The auth store\<close>

definition is_ident_start :: "char \<Rightarrow> bool" where
  "is_ident_start c \<longleftrightarrow> (let n = of_char c :: nat in 65 \<le> n \<and> n \<le> 90 \<or> 97 \<le> n \<and> n \<le> 122 \<or> n = 95)"

text \<open>\<open>/^[A-Za-z_][A-Za-z0-9_]*$/\<close>: the schema name is spliced into the SQL text.\<close>

definition is_ident :: "string \<Rightarrow> bool" where
  "is_ident s = (case s of [] \<Rightarrow> False
     | c # cs \<Rightarrow> is_ident_start c \<and> list_all (\<lambda>c. is_ident_start c \<or> is_digit c) cs)"

text \<open>\<open>ensure\<close>: the schema and whether the store is enabled.\<close>

definition ensure :: "string \<Rightarrow> string \<Rightarrow> string \<times> bool" where
  "ensure url pgSchema =
     (let s = str_or pgSchema ''auth'' in (if is_ident s then s else ''auth'', url \<noteq> []))"

definition runQuery :: "pg_outcome \<Rightarrow> 'd hctx \<Rightarrow> (exn + js list) \<times> 'd hctx" where
  "runQuery out c =
     (case out of
        Rows rs \<Rightarrow> (Inr rs, c)
      | PgError code \<Rightarrow>
          if code = ''42P01'' \<or> code = ''3F000'' then (Inr [], c\<lparr>hc_auth_enabled := False\<rparr>)
          else (Inl (Thrown code), c))"

definition first_row :: "js list \<Rightarrow> js" where
  "first_row rs = (case rs of [] \<Rightarrow> JNull | r # _ \<Rightarrow> jor r JNull)"

definition lookup_auth :: "(string \<Rightarrow> pg_outcome) \<Rightarrow> string \<Rightarrow> 'd hctx \<Rightarrow> (exn + js) \<times> 'd hctx" where
  "lookup_auth tbl openId c =
     (if \<not> hc_auth_enabled c \<or> openId = [] then (Inr JNull, c)
      else (case runQuery (tbl openId) c of
              (Inl e, c') \<Rightarrow> (Inl e, c')
            | (Inr rs, c') \<Rightarrow> (Inr (first_row rs), c')))"

definition guestByOpenId :: "'d henv \<Rightarrow> string \<Rightarrow> 'd hctx \<Rightarrow> (exn + js) \<times> 'd hctx" where
  "guestByOpenId E openId c = lookup_auth (he_guests E) openId c"

definition accountByOpenId :: "'d henv \<Rightarrow> string \<Rightarrow> 'd hctx \<Rightarrow> (exn + js) \<times> 'd hctx" where
  "accountByOpenId E openId c = lookup_auth (he_accounts E) openId c"

section \<open>Decisions\<close>

record decision =
  dc_status :: int
  dc_reason :: string
  dc_kick :: bool
  dc_forceClose :: bool

definition refuse :: "string \<Rightarrow> bool \<Rightarrow> bool \<Rightarrow> decision" where
  "refuse reason kick close = \<lparr>dc_status = 403, dc_reason = reason, dc_kick = kick, dc_forceClose = close\<rparr>"

definition quoted :: "string \<Rightarrow> string" where
  "quoted s = CHR 0x27 # s @ [CHR 0x27]"

text \<open>\<open>String((reqObj && reqObj.k) || '')\<close>.\<close>

definition text_field :: "js \<Rightarrow> string \<Rightarrow> string" where
  "text_field q k = str (jor (fld q k) (JStr []))"

definition checkVersion :: "'d henv \<Rightarrow> js \<Rightarrow> decision option" where
  "checkVersion E q =
     (let allowed = cf_allowedVersions (he_cfg E); v = text_field q ''client_version''
      in if allowed = [] then None
         else if v \<in> set allowed then None
         else Some (refuse (''client_version '' @ quoted v @ '' not in allow-list'') False False))"

definition checkSignature :: "'d henv \<Rightarrow> js \<Rightarrow> decision option" where
  "checkSignature E q =
     (let allowed = cf_allowedSignatures (he_cfg E); sig = text_field q ''signature_md5''
      in if allowed = [] then None
         else if sig \<in> set allowed then None
         else Some (refuse (''signature_md5 '' @ quoted sig @ '' not in allow-list'') True True))"

definition checkRegistration ::
  "'d henv \<Rightarrow> string \<Rightarrow> js \<Rightarrow> 'd hctx \<Rightarrow> decision option \<times> 'd hctx" where
  "checkRegistration E openId loginToken c =
     (let A = he_cfg E in
      if \<not> cf_enforceRegistration A then (None, c)
      else if \<not> hc_auth_enabled c then (None, c)
      else if cf_allowGuest A \<and> openId = cf_guestOpenId A then (None, c)
      else (case guestByOpenId E openId c of
              (Inl _, c') \<Rightarrow> (None, c')
            | (Inr g, c') \<Rightarrow>
                (if \<not> tru g then Some (refuse ''open_id not registered on auth server'' False False)
                 else if fld g ''renovation'' = JBool True
                   then Some (refuse ''account blocked (renovation)'' True False)
                 else if cf_enforceLoginToken A \<and>
                         (let t = str (jor loginToken (JStr []))
                          in t = [] \<or> JStr t \<noteq> fld g ''access_token'')
                   then Some (refuse ''login_token does not match auth server'' True False)
                 else None, c')))"

definition checkBan :: "'d henv \<Rightarrow> string \<Rightarrow> js \<Rightarrow> 'd hctx \<Rightarrow> decision option \<times> 'd hctx" where
  "checkBan E openId account c =
     (if \<not> cf_enforceBans (he_cfg E) then (None, c)
      else if fld account ''banned'' = JBool True then (Some (refuse ''account banned (local)'' True False), c)
      else if \<not> hc_auth_enabled c \<or> openId = [] then (None, c)
      else (case accountByOpenId E openId c of
              (Inl _, c') \<Rightarrow> (None, c')
            | (Inr a, c') \<Rightarrow>
                (if tru a \<and> (fld a ''banned'' = JBool True \<or> fld a ''authorized'' = JBool False)
                 then Some (refuse (if tru (fld a ''ban_reason'') then ''banned: '' @ str (fld a ''ban_reason'')
                                    else ''account banned'') True False)
                 else None, c')))"

text \<open>The first gate that refuses decides.\<close>

definition runLoginGate :: "'d henv \<Rightarrow> js \<Rightarrow> string \<Rightarrow> 'd hctx \<Rightarrow> decision option \<times> 'd hctx" where
  "runLoginGate E q openId c =
     (case checkVersion E q of
        Some d \<Rightarrow> (Some d, c)
      | None \<Rightarrow>
          (case checkSignature E q of
             Some d \<Rightarrow> (Some d, c)
           | None \<Rightarrow> checkRegistration E openId (fld q ''login_token'') c))"

section \<open>Rejection\<close>

definition revoke :: "'d henv \<Rightarrow> js \<Rightarrow> string \<Rightarrow> 'd hctx \<Rightarrow> 'd hctx" where
  "revoke E uid reason c =
     (if \<not> tru uid then c else publish E (SessionRevoke (num0 uid) (str_or reason ''revoked'')) c)"

text \<open>The handler returns \<open>undefined\<close>; the router sees that the headers were sent.\<close>

definition reject :: "'d henv \<Rightarrow> decision \<Rightarrow> js \<Rightarrow> 'd hctx \<Rightarrow> (exn + js) \<times> 'd hctx" where
  "reject E d uid c =
     (let c1 = (if dc_kick d then revoke E uid (dc_reason d) c else c)
      in (Inr JUndef, c1\<lparr>hc_sent := Some (int_or (dc_status d) 403),
                       hc_close := hc_close c1 \<or> dc_forceClose d\<rparr>))"

end
