(* ===== verification/LoginDescData.thy ===== *)
theory LoginDescData
  imports Js
begin

text \<open>
  The static \<open>LoginDescRes\<close> payload of \<open>src/handlers/_loginDescData.js\<close>, one definition per
  top-level property, in the order of the file. Text is UTF-8 bytes.
\<close>

definition ld_advert_res :: js where
  "ld_advert_res = JObj [
    (''advert_items'', JArr [JObj [
      (''id'', JNum 20190712),
      (''type'', JNum 25),
      (''sort_id'', JNum 2),
      (''language'', JStr ''default''),
      (''advertisment_url'', JStr ''OB17/Installment/Tutorial2BR_pt.png''),
      (''ad_start_time'', JNum 1553050800),
      (''ad_end_time'', JNum 1868929199)]])]"

definition ld_switchs_res :: js where
  "ld_switchs_res = JObj [
    (''switchs'', JArr [JObj [
      (''is_open'', JBool True)]])]"

definition ld_activity_res :: js where
  "ld_activity_res = JObj [
    (''activity_descs'', JArr [JObj [
      (''group_id'', JNum 2511244),
      (''activity_id'', JNum 25112443),
      (''act_title'', JStr (''Defenda sua posi'' @ [CHR 0xC3] @ [CHR 0xA7] @ [CHR 0xC3] @ [CHR 0xA3] @ ''o!!'')),
      (''act_text'', JStr ''Use Paredes de Gel pra surfar na onda do oniguiri!''),
      (''award_context'', JStr ''Use 0/15 Paredes de Gel''),
      (''sort_id'', JNum 26),
      (''start_time'', JNum 1732806000),
      (''end_time'', JNum 1733122799),
      (''cdt_value'', JNum 15),
      (''awards'', JArr [JObj [
        (''award_id'', JNum 907104645),
        (''award_num'', JNum 1)]]),
      (''table_type'', JNum 2),
      (''original_start_time'', JStr ''2024-11-28 12:00:00''),
      (''original_end_time'', JStr ''2024-12-02 03:59:59'')]]),
    (''activity_festivals'', JArr [JObj [
      (''event_id'', JNum 189),
      (''table_type'', JNum 3),
      (''language'', JStr ''default''),
      (''event_title'', JStr ''Blue Lock''),
      (''start_time'', JStr ''2024-11-20 04:00:00''),
      (''end_time'', JStr ''2024-12-09 03:59:59'')]]),
    (''entrance_list'', JArr [JObj [
      (''id'', JNum 280),
      (''show_time'', JNum 1605618000),
      (''start_time_stamp'', JNum 1605618000),
      (''end_time_stamp'', JNum 1605855599),
      (''cdn_url'', JStr ''https://dl.cdn.freefiremobile.com/common/test/PreviewBG.jpg''),
      (''start_time'', JStr ''2020-11-17 10:00:00''),
      (''end_time'', JStr ''2020-11-20 03:59:59'')]]),
    (''bingo_info'', JArr [JObj [
      (''level'', JNum 1),
      (''key_id'', JNum 801000079),
      (''init_key_num'', JNum 1),
      (''cost_key_num'', JNum 1),
      (''cost_diamond'', JNum 10),
      (''start_time'', JNum 1553238000),
      (''end_time'', JNum 1554965999)]]),
    (''bingo_rewards_info'', JArr [JObj [
      (''id'', JNum 1002),
      (''level'', JNum 2),
      (''activity_ids'', nums [400000010]),
      (''awards'', JArr [JObj [
        (''award_id'', JNum 802000001),
        (''award_num'', JNum 1)]])]]),
    (''lobby_game_enter_styles'', JArr [JObj [
      (''event_id'', JNum 2),
      (''start_time'', JStr ''2024-10-23 10:00:00''),
      (''end_time'', JStr ''2024-12-04 19:59:59''),
      (''lobby_start_icon'', JStr ''UI_Lobby_Btn_EnterGame_01''),
      (''lobby_start_vfx'', JStr ''VFX_Booyahday24_Sys_Start'')]])]"

definition ld_gacha_res :: js where
  "ld_gacha_res = JObj [
    (''gacha_desc_list'', JArr [JObj [
      (''chest_id'', JNum 88),
      (''chest_type'', JObj [
        (''chest_id'', JNum 88),
        (''priority'', JNum 912),
        (''coin_type'', JNum 2),
        (''start_time'', JStr ''2024-11-29 00:00:00''),
        (''end_time'', JStr ''2024-12-08 23:59:59''),
        (''chest_name'', JStr ''T_38_LXW_GACHA_UNLIMITED_TITLE''),
        (''exchange_itemid'', nums [0]),
        (''start_time_stamp'', JNum 1732849200),
        (''end_time_stamp'', JNum 1733713199),
        (''once_price'', JNum 9),
        (''ten_price'', JNum 79),
        (''color_id'', JNum 2),
        (''once_num'', JNum 1),
        (''ten_num'', JNum 10),
        (''show_model_male'', JNum 102000019),
        (''show_model_female'', JNum 101000018),
        (''chest_sub_id'', JNum 4614),
        (''drop_probability_switch'', JBool True),
        (''open_priority_switch'', JNum 715),
        (''forge_tab_id'', JNum 884614),
        (''show_type'', nums [0]),
        (''multi_once_price'', nums [0]),
        (''price_one_type'', nums [0]),
        (''independent_entrance_type'', JNum 1)]),
      (''item_list_with_jackpot'', JArr [JObj [
        (''items'', JArr [JObj [
          (''item_id'', JNum 710046033),
          (''repeated_item_id'', JNum 801046101),
          (''item_num'', JNum 1),
          (''reward_level'', JNum 1),
          (''drop_up_ratio'', JNum 2),
          (''is_drop_up_buffed'', JBool True),
          (''id'', JNum 1)]]),
        (''jackpot'', JNum 884614)]])]])]"

definition ld_ranking_res :: js where
  "ld_ranking_res = JObj [
    (''season_info'', JObj [
      (''id'', JNum 7),
      (''open_time'', JNum 1730451600),
      (''end_time'', JNum 1735720199),
      (''season_name'', JStr ''S7''),
      (''starting_ranking_points'', JNum 1000),
      (''map_id'', JStr ''1''),
      (''season_award_id'', JNum 907104625),
      (''season_award_rank'', JNum 207),
      (''season_peak_award_id'', JNum 203046030),
      (''season_peak_award_rank'', JNum 219),
      (''heroic_mark_switch'', JBool True)]),
    (''awards'', JArr [JObj [
      (''rank'', JNum 201)]])]"

definition ld_hide_res :: js where
  "ld_hide_res = JObj [
    (''avatar_id'', nums [102000023]),
    (''ip_expired_avatar_id'', nums [101000023])]"

definition ld_treasure_res :: js where
  "ld_treasure_res = JObj [
    (''boxes'', JArr [JObj [
      (''id'', JNum 400046065),
      (''treasure_boxes'', JArr [JObj [
        (''award_id'', JNum 1307000001),
        (''is_preview'', JBool True),
        (''is_big_reward'', JBool True),
        (''award_num'', JNum 2)]])]]),
    (''crates'', JArr [JObj [
      (''crate_id'', JNum 400026142),
      (''treasure_group'', JArr [JObj [
        (''group_id'', JNum 400026116),
        (''num_group'', JNum 1),
        (''icon'', JStr ''FF_Mvp_Icon04'')]])]])]"

definition ld_bundle_res :: js where
  "ld_bundle_res = JObj [
    (''bundle_show'', JArr [JObj [
      (''id'', JNum 710046061),
      (''bundles'', JArr [JObj [
        (''award_id'', JNum 921046023),
        (''is_preview'', JBool True),
        (''award_num'', JNum 1),
        (''return_id'', JNum 800000301),
        (''return_num'', JNum 4),
        (''award_time'', JNum 5184000)]])]])]"

definition ld_gift_store_res :: js where
  "ld_gift_store_res = JObj [
    (''store_id'', JNum 14),
    (''open_time'', JNum 1551150000),
    (''close_time'', JNum 1866769199),
    (''giver_level'', JNum 15),
    (''receiver_level'', JNum 10),
    (''gift_time_limited'', JNum 3),
    (''gift_num_limited'', JNum 5)]"

definition ld_ranking_match_param :: js where
  "ld_ranking_match_param = JObj [
    (''solo_chicken_points'', JNum 5),
    (''dual_chicken_points'', JNum 5),
    (''squad_chicken_points'', JNum 5),
    (''knockdown_points'', JNum 2),
    (''revive_points'', JNum 1),
    (''solo_battle_score_limit'', JNum 13),
    (''solo_kill_add'', JNum 2),
    (''group_battle_score_limit'', JNum 13),
    (''group_kill_add'', JNum 1),
    (''damage_per_score'', JNum 200),
    (''down_points'', JNum (- 1)),
    (''first_win_rank'', JNum 50),
    (''first_win_kill'', JNum 1),
    (''ranking_token_id'', JNum 800000303),
    (''most_token_given'', JNum 4000),
    (''ranking_extra_coins'', JFrac (12000000476837158 / 10 ^ 16)),
    (''ranking_extra_exp'', JFrac (12000000476837158 / 10 ^ 16)),
    (''birth_island_quit_deduct'', JNum (- 20)),
    (''rp_range_add_bp_lower'', JNum 1400),
    (''rp_range_add_bp_upper'', JNum 99999),
    (''relife_teammate_points'', JNum 1),
    (''min_rank_show'', JNum 2)]"

definition ld_fullscreen_cg_res :: js where
  "ld_fullscreen_cg_res = JObj [
    (''fullscreen_cgs'', JArr [JObj [
      (''id'', JNum 68),
      (''anim_id'', JNum 168),
      (''anim_type'', JNum 4),
      (''system_pos'', JNum 15),
      (''go_pos'', JNum 994401),
      (''skin_resource_list'', JArr [JStr ''VD_PREVIEWEXECUTION_PERSONA_KATANA''])]])]"

definition ld_championship_basic_info_res :: js where
  "ld_championship_basic_info_res = JObj [
    (''open_infos'', JArr [JObj [
      (''championship_type'', JNum 1003),
      (''championship_id'', JNum 1),
      (''season_start_time'', JNum 1699459200),
      (''season_end_time'', JNum 1699876800),
      (''trial_start_time'', JNum 1699459200),
      (''trial_end_time'', JNum 1699840800),
      (''final_start_time'', JNum 1699840799),
      (''final_end_time'', JNum 1699840800),
      (''map_id'', JStr ''1;3;22;14;4''),
      (''entrance_open_time'', JNum 1699459200),
      (''entrance_end_time'', JNum 1699876800)]]),
    (''limited_level'', JNum 12),
    (''limited_rank'', JNum 1550),
    (''reward_infos'', JArr [JObj [
      (''championship_type'', JNum 1003),
      (''championship_id'', JNum 1),
      (''lower_bound'', JNum 1),
      (''upper_bound'', JNum 50),
      (''end_award'', JArr [JObj [
        (''award_id'', JNum 907103823),
        (''award_num'', JNum 1)]])]]),
    (''setting_infos'', JArr [JObj [
      (''championship_type'', JNum 1003),
      (''championship_id'', JNum 1),
      (''trial_match_name'', JStr ''T_42_LYF_FFC_SOLO_NAME''),
      (''trial_match_num'', JNum 25),
      (''trial_match_choose_num'', JNum 12),
      (''final_match_choose_num'', JNum 12),
      (''min_match_num'', JNum 12),
      (''limited_item_type'', JNum 1),
      (''limited_item_id'', JNum 803000002),
      (''limited_item_num'', JNum 1),
      (''seniority_list'', JNum 3000),
      (''clan_icon_id'', JStr ''UI_Profile_Icon_Score02''),
      (''is_animation_open'', JBool True),
      (''login_animation_resource'', JStr ''https://dl.dir.freefiremobile.com/common/web_event/hash/d14554fbfd5936a85812311ec2893cd5.png''),
      (''mode_name'', JStr ''T_42_LYF_FFC_SOLO_NAME''),
      (''is_notice_open'', JBool True),
      (''notice_cdn1'', JStr ''https://dl.dir.freefiremobile.com/common/OB42/FFC/BR1_pt.jpg''),
      (''notice_cdn2'', JStr ''https://dl.dir.freefiremobile.com/common/OB42/FFC/BR2_pt.jpg''),
      (''notice_cdn3'', JStr ''https://dl.dir.freefiremobile.com/common/OB42/FFC/1000x620-Informative-Banner3_pt.jpg''),
      (''team_scale_type'', JNum 1),
      (''game_mode'', JNum 1),
      (''disable_weapon_skin'', JBool True),
      (''leaderboard_local_size'', JNum 3000),
      (''language'', JStr ''default''),
      (''background_resource'', JStr ''https://dl.dir.freefiremobile.com/common/web_event/hash/f0b0cc41f5aae4d13981e08f756e10bb.jpg'')]]),
    (''score_bases'', JArr [JObj [
      (''championship_type'', JNum 1003),
      (''first_ranking_point'', JNum 100),
      (''damage_per_get'', JNum 100),
      (''alive_per_get'', JNum 300),
      (''ranking_extra_coins'', JFrac (12000000476837158 / 10 ^ 16)),
      (''ranking_extra_exps'', JFrac (12000000476837158 / 10 ^ 16)),
      (''birth_island_quit_deduct'', JNum (- 3)),
      (''kill_points'', JNum 1),
      (''game_mode'', JNum 1)]]),
    (''team_settings'', JArr [JObj [
      (''player_num_limit'', JNum 1),
      (''limit_num'', JNum 30),
      (''clean_time'', JNum 7),
      (''player_apply_num'', JNum 30),
      (''team_invite_num'', JNum 60),
      (''team_exit_cd'', JNum 600),
      (''team_join_cd'', JNum 600),
      (''team_scale_type'', JNum 1),
      (''player_num_min'', JNum 1)]])]"

definition ld_store_tab_res :: js where
  "ld_store_tab_res = JObj [
    (''store_tables'', JArr [JObj [
      (''table_type'', JNum 3),
      (''language'', JStr ''default''),
      (''table_name'', JStr ''T_16_W_LEGENDBOX''),
      (''mall_type'', JNum 2),
      (''sort_id'', JNum 3)]])]"

definition ld_fullscreen_item_res :: js where
  "ld_fullscreen_item_res = JObj [
    (''fullscreen_items'', JArr [JObj [
      (''item_id'', JNum 808000001)]])]"

definition ld_avatar_awaken_res :: js where
  "ld_avatar_awaken_res = JObj [
    (''infos'', JArr [JObj [
      (''awaken_avatar_id'', JNum 101000015),
      (''original_avatar_id'', JNum 101000006),
      (''unlock_time'', JStr ''2020-06-30 20:00:00''),
      (''awards'', JArr [JObj [
        (''award_id'', JNum 101000015),
        (''award_num'', JNum 1)]]),
      (''awaken_description'', JStr ''T_27_A_AWAKEN_K_CONTENT''),
      (''awaken_title'', JStr ''T_27_A_AWAKEN_K_TITLE'')]])]"

definition ld_diamond_cost_res :: js where
  "ld_diamond_cost_res = JObj [
    (''diamond_cost'', JNum 800)]"

definition ld_cs_ranking_res :: js where
  "ld_cs_ranking_res = JObj [
    (''season_info'', JObj [
      (''id'', JNum 1),
      (''open_time'', JNum 1727773200),
      (''end_time'', JNum 1733041799),
      (''season_name'', JStr ''Season 1''),
      (''map_id'', JStr ''1''),
      (''season_award_id'', JNum 907104624),
      (''season_award_rank'', JNum 209),
      (''season_peak_award_id'', JNum 203046029),
      (''season_peak_award_rank'', JNum 219),
      (''heroic_mark_switch'', JBool True)]),
    (''awards'', JArr [JObj [
      (''rank'', JNum 201)]])]"

definition ld_gopos_res :: js where
  "ld_gopos_res = JObj [
    (''go_pos'', JArr [JObj [
      (''id'', JNum 710036001),
      (''go_pos'', JStr ''103''),
      (''sub_pos'', JStr ''710036001'')]])]"

definition ld_exchange_currency_all_res :: js where
  "ld_exchange_currency_all_res = JObj [
    (''exchange_currency_desc'', JArr [JObj [
      (''id'', JNum 801001834)]])]"

definition ld_pay_level_config_res :: js where
  "ld_pay_level_config_res = JObj [
    (''pay_level_config'', JArr [JObj [
      (''pool'', JObj [
        (''id'', JNum 1),
        (''unique_id'', JNum 10000),
        (''start_time'', JNum 1598065200),
        (''end_time'', JNum 1885604399)]),
      (''rewards'', JArr [JObj [
        (''id'', JNum 1),
        (''level'', JNum 1),
        (''awards'', JArr [JObj [
          (''award_num'', JNum 300)]])]])]])]"

definition ld_role_debris_desc :: js where
  "ld_role_debris_desc = JObj [
    (''role_debris_tables'', JArr [JObj [
      (''debris_id'', JNum 800000050),
      (''purchase_count'', JNum 10),
      (''gold_price'', JNum 100),
      (''diamond_price'', JNum 2)]])]"

definition ld_opposite_sex_model_res :: js where
  "ld_opposite_sex_model_res = JObj [
    (''opposite_sex_models'', JArr [JObj [
      (''male_model_id'', JNum 102200019),
      (''female_model_id'', JNum 101100018),
      (''start_timestamp'', JNum 1526572800),
      (''end_timestamp'', JNum 1782662399)]])]"

definition ld_weapon_skin_system_time :: js where
  "ld_weapon_skin_system_time = JNum 1603508400"

definition ld_rate_app_switch_res :: js where
  "ld_rate_app_switch_res = JObj [
    (''switch_desc'', JObj [
      (''region'', JStr ''BR''),
      (''ios_open'', JBool True),
      (''gp_open'', JBool True),
      (''game_mode1'', JNum 1),
      (''rank1'', JNum 3),
      (''game_mode2'', JNum 15),
      (''rank2'', JNum 1),
      (''cd'', JNum 30)])]"

definition ld_live_desc_res :: js where
  "ld_live_desc_res = JObj [
    (''descs'', JArr [JObj [
      (''id'', JNum 1),
      (''tab_name'', JStr ''T_26_Z_LIVE_TITLE_ESPORTS''),
      (''web_link'', JStr ''https://esportslive.us.freefiremobile.com/?access_token=<GARENA_TOKEN>&lang=<FF_LANGUAGE>&region=<FF_REGION>'')]])]"

definition ld_android_apps_to_detect_res :: js where
  "ld_android_apps_to_detect_res = JObj [
    (''android_apps_to_detect_res'', JArr [JObj [
      (''id'', JNum 1),
      (''bundle_identifier'', JStr ''com.tencent.ig'')]])]"

definition ld_optional_bundle_res :: js where
  "ld_optional_bundle_res = JObj [
    (''optional_bundle_show'', JArr [JObj [
      (''id'', JNum 170042514),
      (''bundles'', JArr [JObj [
        (''option_order'', JNum 1),
        (''award_id'', JNum 801039059),
        (''award_num'', JNum 50),
        (''is_preview'', JBool True)]])]])]"

definition ld_exchange_currency_local :: js where
  "ld_exchange_currency_local = JObj [
    (''exchange_currency_local_desc'', JArr [JObj [
      (''id'', JNum 800000303),
      (''origin'', JStr ''T_29_AG_BR_RANKED''),
      (''start_time'', JStr ''2023-02-01 00:00:00''),
      (''end_time'', JStr ''2033-02-01 00:00:00''),
      (''go_pos'', JNum 22),
      (''sub_go_pos'', JStr ''V2_matchMode_5'')]])]"

definition ld_universal_link_setting_res :: js where
  "ld_universal_link_setting_res = JObj [
    (''universal_link_settings'', JArr [JObj [
      (''universal_link'', JStr ''https://game.ff.garena.com/index.html''),
      (''deep_link'', JStr ''freefire://process?action=mail''),
      (''start_time'', JNum 1641524400),
      (''end_time'', JNum 1646708400)]])]"

definition ld_share_setting_desc :: js where
  "ld_share_setting_desc = JObj [
    (''share_settings'', JArr [JObj [
      (''share_id'', JNum 1),
      (''share_link_fb'', JStr ''https://ffshare.garena.com/?region=<FF_REGION>&lang=<FF_LANGUAGE>''),
      (''share_link_vk'', JStr ''https://ffshare.garena.com/?region=<FF_REGION>&lang=<FF_LANGUAGE>''),
      (''share_link_line'', JStr ''https://ffshare.garena.com/?region=<FF_REGION>&lang=<FF_LANGUAGE>''),
      (''share_title_key'', JStr ''TXT_SHARE_MATCH_RESULT_FB_NAME''),
      (''share_content_key'', JStr ''TXT_SHARE_MATCH_RESULT_FB_DESC''),
      (''share_caption_key'', JStr ''TXT_SHARE_MATCH_RESULT_FB_CAPTION''),
      (''sys_text_key_ios'', JStr ''TXT_SHARE_MATCH_RESULT_IOS_CAPTION''),
      (''sys_text_key_android'', JStr ''TXT_SHARE_MATCH_RESULT_ANDROID_CAPTION'')]])]"

definition ld_friend_desc :: js where
  "ld_friend_desc = JObj [
    (''relation_type_info_desc'', JArr [JObj [
      (''relation_item_id'', JNum 1600000001),
      (''reject_countdown'', JNum 28800),
      (''relation_break_up_cd'', JNum 86400),
      (''item_intimacy_diamond_rate'', JFrac (10000000149011612 / 10 ^ 17)),
      (''item_intimacy_coin_rate'', JFrac (10000000474974513 / 10 ^ 19)),
      (''intimacy_week_max'', JNum 100),
      (''relation_friend_max'', JNum 1)]])]"

definition ld_skin_timeline_res :: js where
  "ld_skin_timeline_res = JObj [
    (''desc'', JArr [JObj [
      (''id'', JNum 1),
      (''type'', JNum 1),
      (''res_conf1'', JStr ''913046004''),
      (''start_time'', JNum 1729170000),
      (''end_time'', JNum 1733317199)]])]"

definition ld_quit_control_desc :: js where
  "ld_quit_control_desc = JObj [
    (''quit_control_settings'', JArr [JObj [
      (''match_mode'', JNum 3),
      (''game_mode'', JNum 45)]])]"

definition loginDesc :: js where
  "loginDesc = JObj [
     (''advert_res'', ld_advert_res),
     (''switchs_res'', ld_switchs_res),
     (''activity_res'', ld_activity_res),
     (''gacha_res'', ld_gacha_res),
     (''ranking_res'', ld_ranking_res),
     (''hide_res'', ld_hide_res),
     (''treasure_res'', ld_treasure_res),
     (''bundle_res'', ld_bundle_res),
     (''gift_store_res'', ld_gift_store_res),
     (''ranking_match_param'', ld_ranking_match_param),
     (''fullscreen_cg_res'', ld_fullscreen_cg_res),
     (''championship_basic_info_res'', ld_championship_basic_info_res),
     (''store_tab_res'', ld_store_tab_res),
     (''fullscreen_item_res'', ld_fullscreen_item_res),
     (''avatar_awaken_res'', ld_avatar_awaken_res),
     (''diamond_cost_res'', ld_diamond_cost_res),
     (''cs_ranking_res'', ld_cs_ranking_res),
     (''gopos_res'', ld_gopos_res),
     (''exchange_currency_all_res'', ld_exchange_currency_all_res),
     (''pay_level_config_res'', ld_pay_level_config_res),
     (''role_debris_desc'', ld_role_debris_desc),
     (''opposite_sex_model_res'', ld_opposite_sex_model_res),
     (''weapon_skin_system_time'', ld_weapon_skin_system_time),
     (''rate_app_switch_res'', ld_rate_app_switch_res),
     (''live_desc_res'', ld_live_desc_res),
     (''android_apps_to_detect_res'', ld_android_apps_to_detect_res),
     (''optional_bundle_res'', ld_optional_bundle_res),
     (''exchange_currency_local'', ld_exchange_currency_local),
     (''universal_link_setting_res'', ld_universal_link_setting_res),
     (''share_setting_desc'', ld_share_setting_desc),
     (''friend_desc'', ld_friend_desc),
     (''skin_timeline_res'', ld_skin_timeline_res),
     (''quit_control_desc'', ld_quit_control_desc)]"

end
