(* ===== verification/LoginHandlers.thy ===== *)
theory LoginHandlers
  imports AuthGate LoginDescData
begin

text \<open>
  The endpoints of the login tier: \<open>MajorLogin\<close>, its two aliases, registration, \<open>GetLoginData\<close>,
  \<open>Logout\<close>, the choice of a region and the pre-login handshake (\<open>src/handlers\<close>).

  Each handler is followed by what its module exports. A handler that answers by itself returns
  \<open>undefined\<close> and leaves the status in the context.
\<close>

text \<open>The end of the login handlers: a fresh token is stored with the account and handed out.\<close>

definition refresh_device :: "js \<Rightarrow> js \<Rightarrow> js" where
  "refresh_device q a = refresh ''client_version'' q (refresh ''device_id'' q a)"

definition login_response :: "'d henv \<Rightarrow> string \<Rightarrow> js \<Rightarrow> js" where
  "login_response E agora account =
     (let region = jor (fld account ''region'') (JStr [])
      in JObj [
      (''account_id'', fld account ''uid''),
      (''lock_region'', region),
      (''noti_region'', region),
      (''ip_region'', jor region (JStr DEFAULT_REGION)),
      (''agora_environment'', JStr agora),
      (''new_active_region'', region),
      (''recommend_regions'', JArr [JStr DEFAULT_REGION]),
      (''token'', JStr (he_newToken E)),
      (''ttl'', JNum TOKEN_TTL),
      (''server_url'', JStr (serverUrl E)),
      (''emulator_score'', JNum 0)])"

definition issue_token :: "'d henv \<Rightarrow> string \<Rightarrow> js \<Rightarrow> js \<Rightarrow> 'd hctx \<Rightarrow> (exn + js) \<times> 'd hctx" where
  "issue_token E agora q account c =
     (let a1 = put ''token_created_at'' (JNum (nowSecs E)) (put ''token'' (JStr (he_newToken E)) account);
          a2 = refresh_device q a1
      in case db_write (rp_save (he_repo E) (he_now E) a2) c of
           (Inl e, c1) \<Rightarrow> (Inl e, c1)
         | (Inr a, c1) \<Rightarrow> (Inr (login_response E agora a), c1))"

definition not_registered :: "'d hctx \<Rightarrow> (exn + js) \<times> 'd hctx" where
  "not_registered c = (Inr JUndef, c\<lparr>hc_sent := Some 404\<rparr>)"

text \<open>The gated login, of \<open>MajorLogin\<close> and \<open>PlatformLogin\<close>.\<close>

definition gated_login :: "string \<Rightarrow> 'd handler_fn" where
  "gated_login agora E q c =
     (let openId = deriveOpenId (he_guest E) q
      in case runLoginGate E q openId c of
           (Some d, c1) \<Rightarrow> reject E d JUndef c1
         | (None, c1) \<Rightarrow>
             (let account = rp_getByOpenId (he_repo E) (JStr openId) (hc_db c1)
              in if \<not> tru account then not_registered c1
                 else (case checkBan E openId account c1 of
                         (Some d, c2) \<Rightarrow> reject E d (fld account ''uid'') c2
                       | (None, c2) \<Rightarrow> issue_token E agora q account c2)))"

definition MajorLogin :: "'d handler_fn" where
  "MajorLogin E q c =
     gated_login ''live'' E q c"

definition mod_MajorLogin :: "'d http_module" where
  "mod_MajorLogin = http_module ''MajorLogin'' MajorLogin (Some ''LoginReq'') (Some ''MajorLoginRes'')"

definition PlatformLogin :: "'d handler_fn" where
  "PlatformLogin E q c =
     gated_login [] E q c"

definition mod_PlatformLogin :: "'d http_module" where
  "mod_PlatformLogin = http_module ''PlatformLogin'' PlatformLogin (Some ''LoginReq'') (Some ''MajorLoginRes'')"

text \<open>The third alias runs no gate at all.\<close>

definition Login :: "'d handler_fn" where
  "Login E q c =
     (let account = rp_getByOpenId (he_repo E) (JStr (deriveOpenId (he_guest E) q)) (hc_db c)
      in if \<not> tru account then not_registered c else issue_token E [] q account c)"

definition mod_Login :: "'d http_module" where
  "mod_Login = http_module ''Login'' Login (Some ''LoginReq'') (Some ''MajorLoginRes'')"

definition MajorRegister :: "'d handler_fn" where
  "MajorRegister E q c =
     (let openId = deriveOpenId (he_guest E) q;
          loginToken = jor (jor (fld q ''access_token'') (fld q ''login_token'')) (JStr [])
      in case checkRegistration E openId loginToken c of
           (Some d, c1) \<Rightarrow> reject E d JUndef c1
         | (None, c1) \<Rightarrow>
             (case checkBan E openId JNull c1 of
                (Some d, c2) \<Rightarrow> reject E d JUndef c2
              | (None, c2) \<Rightarrow>
                  (case db_write (rp_createFromLogin (he_repo E) (he_now E) q) c2 of
                     (Inl e, c3) \<Rightarrow> (Inl e, c3)
                   | (Inr account, c3) \<Rightarrow> (Inr (JObj [
            (''account_id'', fld account ''uid''),
            (''first_game_open'', JBool False),
            (''br_tutorial_open'', JBool False),
            (''cs_tutorial_open'', JBool False)]), c3))))"

definition mod_MajorRegister :: "'d http_module" where
  "mod_MajorRegister = http_module ''MajorRegister'' MajorRegister (Some ''PlatformRegisterReq'') (Some ''PlatformRegisterRes'')"

definition Logout :: "'d handler_fn" where
  "Logout E q c =
     (let account = requireAccount c
      in (Inr empty_res,
          if tru account
          then keep (put ''token_created_at'' (JNum 0) (put ''token'' JNull account)) c else c))"

definition mod_Logout :: "'d http_module" where
  "mod_Logout = http_module ''Logout'' Logout (None) (Some ''Empty'')"

definition ChooseRegion :: "'d handler_fn" where
  "ChooseRegion E q c =
     (let account = requireAccount c; region = jor (fld q ''region'') (JStr DEFAULT_REGION)
      in (Inr (JObj [(''region'', region)]),
          if tru account then keep (put ''region'' region account) c else c))"

definition mod_ChooseRegion :: "'d http_module" where
  "mod_ChooseRegion = http_module ''ChooseRegion'' ChooseRegion (Some ''CSChooseRegionReq'') (Some ''CSChooseRegionRes'')"

text \<open>\<open>(host || '').split(':')[0]\<close> is the host up to the first colon.\<close>

definition host_name :: "string \<Rightarrow> string" where
  "host_name h = takeWhile (\<lambda>c. c \<noteq> CHR '':'') h"

definition login_data ::
  "'d henv \<Rightarrow> js \<Rightarrow> string \<Rightarrow> string \<Rightarrow> string \<Rightarrow> string \<Rightarrow> string \<Rightarrow> js" where
  "login_data E account region matchHost gameServerIp chatAddr notificationChannel = JObj [
      (''account_id'', fld account ''uid''),
      (''account_type'', jor (fld account ''account_type'') (JNum 0)),
      (''region'', JStr region),
      (''nickname'', jor (fld account ''nickname'') (JStr ''Player'')),
      (''create_at'', (if tru (fld account ''created_at'') then JNum ((num0 (fld account ''created_at'')) div 1000) else JNum (nowSecs E))),
      (''level'', jor (fld account ''level'') (JNum 1)),
      (''exp'', jor (fld account ''exp'') (JNum 0)),
      (''chat_server'', JNum 1),
      (''coins'', jor (fld account ''coins'') (JNum 0)),
      (''gems'', jor (fld account ''gems'') (JNum 0)),
      (''notification_channel'', JStr notificationChannel),
      (''voice_server'', JNum 1),
      (''voice_type'', JNum 1),
      (''event_log_url'', JStr (serverUrl E @ ''/'')),
      (''region_id_mapping'', JArr [JObj [
        (''id'', JNum 1),
        (''region'', JStr region)]]),
      (''clan_id'', jor (jand (fld account ''clan'') (fld (fld account ''clan'') ''id'')) (JNum 0)),
      (''server_time'', JNum (nowSecs E)),
      (''noti_region'', JStr region),
      (''role'', jor (fld account ''role'') (JNum 1)),
      (''is_emulator'', JBool False),
      (''queue_position'', JNum 0),
      (''need_waiting_secs'', JNum 0),
      (''has_elite_pass'', jbool (fld account ''elite_pass'')),
      (''badge_id'', jor (fld account ''ep_badge_id'') (JNum 1001000021)),
      (''badge_cnt'', jor (fld account ''ep_badge_count'') (JNum 999)),
      (''chat_addr'', JStr chatAddr),
      (''game_server_node_manager'', JArr [JObj [
        (''region'', JStr region),
        (''node_name'', JStr ''node1''),
        (''server_ip'', JStr gameServerIp),
        (''is_default'', JBool True),
        (''warn_capacity'', JNum 1000)]]),
      (''show_rank'', JBool True),
      (''elite_pass_basic_info'', JObj [
        (''owned_pass'', jbool (fld account ''elite_pass'')),
        (''ep_event_id'', jor (fld account ''ep_event_id'') (JNum 0)),
        (''start_time'', jor (fld account ''ep_start_time'') (JNum 0)),
        (''end_time'', jor (fld account ''ep_end_time'') (JNum 0)),
        (''ep_badge'', jor (fld account ''ep_badge_id'') (JNum 0)),
        (''gold_limit_improved'', JNum 0),
        (''owned_fp_challenge'', JBool False),
        (''badge_cnt'', jor (fld account ''ep_badge_count'') (JNum 0))]),
      (''rank_info'', JObj [
        (''account_id'', fld account ''uid''),
        (''season_id'', JNum 7),
        (''rank'', jor (fld account ''rank'') (JNum 1)),
        (''max_rank'', jor (fld account ''rank'') (JNum 1)),
        (''ranking_points'', jor (fld account ''ranking_points'') (JNum 0)),
        (''show_rank'', JBool True),
        (''match_token_num'', JNum 0),
        (''ranking_bot_points'', JNum 0),
        (''peak_rank_pos'', JNum 0)]),
      (''return_at'', JNum 0),
      (''network_log_url'', JStr (serverUrl E @ ''/'')),
      (''ping_addr_desc_list'', JArr [JObj [
        (''ip'', JStr matchHost),
        (''is_traceroute'', JBool False)]]),
      (''ip_region'', JStr ''https://brnetwork.ggblueshark.com/''),
      (''ranking_peak_threshold'', JNum 0),
      (''last_login_at'', jor (fld account ''token_created_at'') (JNum 0)),
      (''is_anti_addiction_open'', JBool False),
      (''age_state'', JNum 2),
      (''ab_test_choices'', JObj [
        (''choices'', JArr [])]),
      (''mem_value'', JStr []),
      (''register_variant'', JNum 0),
      (''weapon_rack'', JObj [
        (''weapon_ids'', jor (jand (fld account ''weapon_rack'') (fld (fld account ''weapon_rack'') ''weapon_ids'')) (JArr []))]),
      (''vehicle_display'', JNum 0),
      (''gloo_display'', JNum 0),
      (''clan_channel_secret'', jor (jand (fld account ''clan'') (fld (fld account ''clan'') ''channel_secret'')) (JStr [])),
      (''check_name'', JArr []),
      (''skyboard_display'', JNum 0),
      (''mic_muted_seconds'', JNum 0),
      (''is_optional_item_ab_test'', JBool False)]"

definition GetLoginData :: "'d handler_fn" where
  "GetLoginData E q c =
     (let account = requireAccount c in
      if \<not> tru account then (Inr empty_res, c)
      else (case checkSignature E q of
              Some d \<Rightarrow> reject E d (fld account ''uid'') c
            | None \<Rightarrow>
                (case checkBan E (if tru (fld account ''open_id'') then str (fld account ''open_id'') else []) account c of
                   (Some d, c1) \<Rightarrow> reject E d (fld account ''uid'') c1
                 | (None, c1) \<Rightarrow>
                     (let region = str (jor (fld account ''region'') (JStr DEFAULT_REGION));
                          fallbackHost = str_or (str_or (he_localIp E) (host_name (he_host E))) ''127.0.0.1'';
                          tcpHost = str_or (cf_domain_tcp (he_cfg E)) fallbackHost;
                          matchHost = str_or (cf_domain_match (he_cfg E)) fallbackHost;
                          gameServerIp = matchHost @ '':'' @ str_or (cf_gameServerPort (he_cfg E)) ''10100'';
                          chatAddr = fallbackHost @ '':'' @ str_or (cf_chatPort (he_cfg E)) ''10200'';
                          notificationChannel = tcpHost @ '':'' @
                            (if cf_tcpPort (he_cfg E) \<noteq> 0 then int_str (cf_tcpPort (he_cfg E))
                             else str_or (cf_notificationPort (he_cfg E)) ''10300'')
                      in (Inr (login_data E account region matchHost gameServerIp chatAddr notificationChannel), c1)))))"

definition mod_GetLoginData :: "'d http_module" where
  "mod_GetLoginData = http_module ''GetLoginData'' GetLoginData (Some ''LoginReq'') (Some ''LoginRes'')"

definition LoginGetSplash :: "'d handler_fn" where
  "LoginGetSplash E q c =
     (let t = nowSecs E
      in (Inr (JObj [
          (''accouncement_res'', JObj [
            (''announcements'', JArr [JObj [
              (''language'', JStr ''pt-BR''),
              (''order_in_this_language'', JNum 1),
              (''title'', JStr ''Bem-vindo!''),
              (''image_url'', JStr ''http://154.30.4.183:19134/live/ABHotUpdates/banner-assets/room222.png''),
              (''fb_page_id'', JStr []),
              (''image_url_for_lobby'', JStr ''http://154.30.4.183:19134/live/ABHotUpdates/banner-assets/room222.png''),
              (''link_url'', JStr ''https://discord.gg/room222''),
              (''desc'', JStr ''The Remake Of 2022''),
              (''start_time'', JNum (t - (86400 * 30))),
              (''end_time'', JNum (t + (86400 * 30))),
              (''region'', JStr ''BR''),
              (''id'', JNum 0),
              (''use_embedded_browser'', JBool True)]])]),
          (''splash_res'', JObj [
            (''splashBanners'', JArr [JObj [
              (''region'', JStr ''BR''),
              (''language'', JStr ''pt-BR''),
              (''id'', JNum 1),
              (''name'', JStr ''Banner Principal''),
              (''sort_id'', JNum 1),
              (''start_time'', JNum (t - (86400 * 30))),
              (''end_time'', JNum (t + (86400 * 30))),
              (''image_url'', JStr ''http://154.30.4.183:19134/live/ABHotUpdates/banner-assets/room222.png''),
              (''gos_pos'', JNum 1),
              (''gos_url'', JStr ''https://example.com''),
              (''use_embedded_browser'', JBool True),
              (''sub_go_pos'', JStr []),
              (''video_url'', JStr []),
              (''bg_img_url'', JStr ''http://154.30.4.183:19134/live/ABHotUpdates/banner-assets/room222.png''),
              (''type'', JNum 0),
              (''platform'', JNum 0),
              (''weight'', JNum 1),
              (''country_code'', JStr ''BR''),
              (''using_version'', JNum 0),
              (''active_phone_quality'', JNum 0),
              (''id_last_num'', JStr [])]])]),
          (''activity_info_res'', JObj [
            (''activitys'', JArr [JObj [
              (''id'', JNum 1),
              (''data'', JNum 100),
              (''state'', JNum 1)], JObj [
              (''id'', JNum 2),
              (''data'', JNum 200),
              (''state'', JNum 2)], JObj [
              (''id'', JNum 3),
              (''data'', JNum 300),
              (''state'', JNum 3)]])])]), c))"

definition mod_LoginGetSplash :: "'d http_module" where
  "mod_LoginGetSplash = http_module ''LoginGetSplash'' LoginGetSplash (Some ''CSAnnouncementReq'') (Some ''LoginSplashRes'')"

definition LoginGetBroadcast :: "'d handler_fn" where
  "LoginGetBroadcast E q c =
     (Inr (JObj [
        (''scroll_res'', JObj [
          (''scrollMarquees'', JArr [JObj [
            (''content'', JStr ''The Remake Of 2022''),
            (''language'', JStr ''pt-BR''),
            (''region'', JStr ''BR'')]])]),
        (''broadcast_res'', JObj [
          (''broadcast_messages'', JArr [JObj [
            (''nickname'', JStr ''System''),
            (''navigation_type'', JNum 0),
            (''source'', JStr ''The Remake Of 2022''),
            (''item_id'', JNum 0),
            (''time_stamp'', JNum (he_now E)),
            (''source_id'', JNum 1)]]),
          (''silence_show_switch'', JBool False)])]), c)"

definition mod_LoginGetBroadcast :: "'d http_module" where
  "mod_LoginGetBroadcast = http_module ''LoginGetBroadcast'' LoginGetBroadcast (Some ''CSScrollMarqueeReq'') (Some ''LoginBroadcastRes'')"

definition LoginGetDesc :: "'d handler_fn" where
  "LoginGetDesc E q c =
     (Inr loginDesc, c)"

definition mod_LoginGetDesc :: "'d http_module" where
  "mod_LoginGetDesc = http_module ''LoginGetDesc'' LoginGetDesc (Some ''CSLoginDescReq'') (Some ''LoginDescRes'')"

text \<open>\<open>auth.startsWith('Bearer ') ? auth.slice(7).trim() : ''\<close>.\<close>

definition bearer :: "string \<Rightarrow> string" where
  "bearer auth = (if startsWith auth ''Bearer '' then trim (drop 7 auth) else [])"

definition accountFromToken :: "'d henv \<Rightarrow> 'd hctx \<Rightarrow> js" where
  "accountFromToken E c =
     (let token = bearer (he_authorization E)
      in if token \<noteq> [] then rp_getByToken (he_repo E) (JStr token) (hc_db c) else JNull)"

text \<open>The positive skill ids of the roster and of the loadouts, each once, in ascending order.\<close>

definition skill_ids :: "js \<Rightarrow> int list" where
  "skill_ids account =
     (let pos = filter (\<lambda>n. n > 0);
          fromSkills = concat (map (\<lambda>p. map (\<lambda>s. num0 (fld s ''skill_id'')) (elems (fld p ''equiped_skills''))) (profiles_of account));
          fromLoadouts = concat (map (\<lambda>l. case l of JNum n \<Rightarrow> [n] | _ \<Rightarrow> []) (elems (fld (fld account ''selected_items'') ''loadouts'')))
      in sort (remdups (pos fromSkills @ pos fromLoadouts)))"

definition LoginGetProfile :: "'d handler_fn" where
  "LoginGetProfile E q c =
     (let account = (if tru (hc_account c) then hc_account c else accountFromToken E c)
      in if \<not> tru account then (Inr empty_res, c)
         else (let profiles = JArr (profiles_of account); skills = nums (skill_ids account);
                   pet = jor (fld account ''pet'') (JObj [])
               in (Inr (JObj [
          (''profile_res'', JObj [
            (''profiles'', profiles)]),
          (''skill_res'', JObj [
            (''account_id'', fld account ''uid''),
            (''skills'', skills)]),
          (''pet_info'', JObj [
            (''id'', jor (fld pet ''id'') (JNum 0)),
            (''name'', jor (fld pet ''name'') (JStr [])),
            (''level'', jor (fld pet ''level'') (JNum 0)),
            (''exp'', jor (fld pet ''exp'') (JNum 0)),
            (''is_selected'', jbool (fld pet ''is_selected''))])]), c)))"

definition mod_LoginGetProfile :: "'d http_module" where
  "mod_LoginGetProfile = http_module ''LoginGetProfile'' LoginGetProfile (Some ''Empty'') (Some ''LoginProfileRes'')"

definition login_modules :: "'d http_module list" where
  "login_modules = [mod_MajorLogin, mod_PlatformLogin, mod_Login, mod_MajorRegister, mod_Logout,
     mod_ChooseRegion, mod_GetLoginData, mod_LoginGetSplash, mod_LoginGetBroadcast, mod_LoginGetDesc,
     mod_LoginGetProfile]"

end
