(* ===== verification/ProfileHandlers.thy ===== *)
theory ProfileHandlers
  imports Shared
begin

text \<open>
  The endpoints that show and change a player's avatar profiles and selected items
  (\<open>src/handlers\<close>). The roster lives in \<open>account.profile.profiles\<close>; a profile is mutated in place,
  so an update of the array is an update of the document. \<open>selected_items\<close> repeats avatar, skin and
  clothes of the selected profile.
\<close>

section \<open>Helpers\<close>

definition set_profiles :: "js list \<Rightarrow> js \<Rightarrow> js" where
  "set_profiles ps account =
     put ''profile'' (put ''profiles'' (JArr ps) (fld account ''profile'')) account"

text \<open>\<open>account.selected_items = account.selected_items || {}\<close>, then a property is set.\<close>

definition set_selected :: "string \<Rightarrow> js \<Rightarrow> js \<Rightarrow> js" where
  "set_selected k v account = put ''selected_items'' (put k v (sel_of account)) account"

definition items_res :: "js \<Rightarrow> js" where
  "items_res account = JObj [(''items'', buildSelectedItems account)]"

section \<open>Selected items\<close>

definition ChooseBanner :: "'d handler_fn" where
  "ChooseBanner E q c =
     (let account = requireAccount c in
      if \<not> tru account then (Inr empty_res, c)
      else if is_nil (fld q ''banner_id'') then (Inr (items_res account), c)
      else (let a = set_selected ''banner_id'' (fld q ''banner_id'') account in (Inr (items_res a), keep a c)))"

definition mod_ChooseBanner :: "'d http_module" where
  "mod_ChooseBanner = http_module ''ChooseBanner'' ChooseBanner (None) (None)"

definition ChooseHeadPic :: "'d handler_fn" where
  "ChooseHeadPic E q c =
     (let account = requireAccount c in
      if \<not> tru account then (Inr empty_res, c)
      else if is_nil (fld q ''head_pic'') then (Inr (items_res account), c)
      else (let a = set_selected ''head_pic'' (fld q ''head_pic'') account in (Inr (items_res a), keep a c)))"

definition mod_ChooseHeadPic :: "'d http_module" where
  "mod_ChooseHeadPic = http_module ''ChooseHeadPic'' ChooseHeadPic (None) (None)"

definition ChooseLoadout :: "'d handler_fn" where
  "ChooseLoadout E q c =
     (let account = requireAccount c in
      if \<not> tru account then (Inr empty_res, c)
      else if elems (fld q ''loadouts'') = [] then (Inr (items_res account), c)
      else (let a = set_selected ''loadouts'' (fld q ''loadouts'') account in (Inr (items_res a), keep a c)))"

definition mod_ChooseLoadout :: "'d http_module" where
  "mod_ChooseLoadout = http_module ''ChooseLoadout'' ChooseLoadout (Some ''CSChooseLoadoutReq'') (Some ''CSGetSelectedItemsRes'')"

definition ChooseSlots :: "'d handler_fn" where
  "ChooseSlots E q c =
     (let account = requireAccount c in
      if \<not> tru account then (Inr empty_res, c)
      else (let slots = arr_or_empty (fld q ''slots'');
                a = set_selected ''slots'' slots account;
                si = fld a ''selected_items''
            in (Inr (JObj [
          (''items'', JObj [
            (''avatar_id'', jor (fld si ''avatar_id'') (JNum 0)),
            (''skin_color'', jor (fld si ''skin_color'') (JNum 0)),
            (''banner_id'', jor (fld si ''banner_id'') (JNum 0)),
            (''head_pic'', jor (fld si ''head_pic'') (JNum 0)),
            (''clothes'', arr_or_empty (fld si ''clothes'')),
            (''slots'', slots),
            (''shows'', arr_or_empty (fld si ''shows''))])]), keep a c)))"

definition mod_ChooseSlots :: "'d http_module" where
  "mod_ChooseSlots = http_module ''ChooseSlots'' ChooseSlots (None) (None)"

definition ChooseShow :: "'d handler_fn" where
  "ChooseShow E q c =
     (let account = requireAccount c in
      if \<not> tru account then (Inr empty_res, c)
      else (let shows = JArr (map jnum (elems (fld q ''shows'')));
                a = set_selected ''shows'' shows account;
                si = fld a ''selected_items''
            in (Inr (JObj [
          (''items'', JObj [
            (''avatar_id'', jor (fld si ''avatar_id'') (JNum 0)),
            (''skin_color'', jor (fld si ''skin_color'') (JNum 0)),
            (''banner_id'', jor (fld si ''banner_id'') (JNum 0)),
            (''head_pic'', jor (fld si ''head_pic'') (JNum 0)),
            (''clothes'', arr_or_empty (fld si ''clothes'')),
            (''slots'', arr_or_empty (fld si ''slots'')),
            (''shows'', shows)])]), keep a c)))"

definition mod_ChooseShow :: "'d http_module" where
  "mod_ChooseShow = http_module ''ChooseShow'' ChooseShow (None) (None)"

text \<open>The emote list is an array of slots: the slot's entry is replaced or added. A stored \<open>emotes\<close>
  object without a list makes \<open>list.find\<close> throw.\<close>

definition upsert_emote :: "js \<Rightarrow> js \<Rightarrow> js list \<Rightarrow> js list" where
  "upsert_emote slot emote list =
     (if list_ex (\<lambda>e. fld e ''slot_id'' = slot) list
      then update_first (\<lambda>e. fld e ''slot_id'' = slot) (put ''emote_id'' emote) list
      else list @ [JObj [(''slot_id'', slot), (''emote_id'', emote)]])"

definition ChooseEmote :: "'d handler_fn" where
  "ChooseEmote E q c =
     (let account = requireAccount c in
      if \<not> tru account then (Inr empty_res, c)
      else (let slot = jor (fld q ''slot_id'') (JNum 0);
                emote = jor (fld q ''emote_id'') (JNum 0);
                em = jor (fld (sel_of account) ''emotes'') (JObj [(''emotes'', JArr [])])
            in if \<not> is_arr (fld em ''emotes'')
               then (Inl (Thrown ''TypeError''), set_account (set_selected ''emotes'' em account) c)
               else (let list = upsert_emote slot emote (elems (fld em ''emotes''));
                         a = set_selected ''emotes'' (put ''emotes'' (JArr list) em) account
                     in (Inr (items_res a), keep a c))))"

definition mod_ChooseEmote :: "'d http_module" where
  "mod_ChooseEmote = http_module ''ChooseEmote'' ChooseEmote (Some ''CSChooseEmoteReq'') (Some ''CSGetSelectedItemsRes'')"

section \<open>Profiles\<close>

definition flag_selected :: "js \<Rightarrow> js list \<Rightarrow> js list" where
  "flag_selected selectedId ps =
     map (\<lambda>p. put ''is_selected'' (JBool (fld p ''avatar_id'' = selectedId)) p) ps"

text \<open>The last profile flagged is \<open>selected\<close>.\<close>

definition SelectProfile :: "'d handler_fn" where
  "SelectProfile E q c =
     (let account = requireAccount c in
      if \<not> tru account then (Inr empty_res, c)
      else (let selectedId = fld q ''avatar_id'';
                ps = flag_selected selectedId (profiles_of account);
                a = (if ps = [] then account else set_profiles ps account)
            in case find (\<lambda>p. fld p ''avatar_id'' = selectedId) (rev ps) of
                 None \<Rightarrow> (Inr empty_res, set_account a c)
               | Some selected \<Rightarrow>
                   (Inr (JObj [
          (''profile'', JObj [
            (''avatar_id'', jor (fld selected ''avatar_id'') (JNum 0)),
            (''unlocked_level'', jor (fld selected ''unlocked_level'') (JNum 1)),
            (''skin_color'', jor (fld selected ''skin_color'') (JNum 0)),
            (''clothes'', jor (fld selected ''clothes'') (JArr [])),
            (''equiped_skills'', JArr (map (\<lambda>s. JObj [
                (''slot_id'', jor (fld s ''slot_id'') (JNum 0)),
                (''skill_id'', jor (fld s ''skill_id'') (JNum 0))]) (elems (jor (fld selected ''equiped_skills'') (JArr []))))),
            (''is_selected'', JBool True)])]),
                    keep (syncSelectedItemsFromProfile a selected) c)))"

definition mod_SelectProfile :: "'d http_module" where
  "mod_SelectProfile = http_module ''SelectProfile'' SelectProfile (Some ''CSSelectProfileReq'') (Some ''CSSelectProfileRes'')"

definition dress :: "js \<Rightarrow> js \<Rightarrow> js" where
  "dress q profile =
     (let p1 = (if elems (fld q ''clothes'') \<noteq> [] then put ''clothes'' (fld q ''clothes'') profile else profile)
      in if is_nil (fld q ''skin_color'') then p1 else put ''skin_color'' (fld q ''skin_color'') p1)"

definition wear :: "js \<Rightarrow> js \<Rightarrow> js" where
  "wear profile account =
     (if \<not> tru (fld profile ''is_selected'') then account
      else put ''selected_items''
             (put ''clothes'' (arr_or_empty (fld profile ''clothes''))
               (put ''skin_color'' (jor (fld profile ''skin_color'') (JNum 0))
                 (put ''avatar_id'' (fld profile ''avatar_id'') (sel_of account)))) account)"

text \<open>The avatar named in the request, or the selected one.\<close>

definition wanted_avatar :: "js \<Rightarrow> js list \<Rightarrow> js" where
  "wanted_avatar q ps =
     (if tru (fld q ''avatar_id'') then fld q ''avatar_id''
      else (case find (\<lambda>p. tru (fld p ''is_selected'')) ps of
              Some sel \<Rightarrow> fld sel ''avatar_id'' | None \<Rightarrow> fld q ''avatar_id''))"

definition ChangeClothes :: "'d handler_fn" where
  "ChangeClothes E q c =
     (let account = requireAccount c in
      if \<not> tru account then (Inr empty_res, c)
      else (let ps = profiles_of account;
                avatarId = wanted_avatar q ps
            in case find (\<lambda>p. fld p ''avatar_id'' = avatarId) ps of
                 None \<Rightarrow> (Inr empty_res, c)
               | Some profile \<Rightarrow>
                   (let p = dress q profile;
                        ps' = update_first (\<lambda>p. fld p ''avatar_id'' = avatarId) (dress q) ps;
                        a = wear p (set_profiles ps' account)
                    in (Inr (JObj [(''profile'', mapProfileToAvatarProfile p)]), keep a c))))"

definition mod_ChangeClothes :: "'d http_module" where
  "mod_ChangeClothes = http_module ''ChangeClothes'' ChangeClothes (Some ''CSChangeClothesReq'') (Some ''CSChangeClothesRes'')"

text \<open>\<open>String(p.avatar_id) === String(avatarId)\<close>.\<close>

definition same_text :: "js \<Rightarrow> js \<Rightarrow> bool" where
  "same_text a b \<longleftrightarrow> str a = str b"

definition equip :: "js \<Rightarrow> js \<Rightarrow> js \<Rightarrow> js" where
  "equip skillId slotId prof =
     (let skills = elems (fld prof ''equiped_skills'');
          here = (\<lambda>s. same_text (fld s ''slot_id'') slotId)
      in put ''equiped_skills'' (JArr
           (if list_ex here skills then update_first here (put ''skill_id'' skillId) skills
            else skills @ [JObj [(''skill_id'', skillId), (''slot_id'', slotId)]])) prof)"

definition EquipSkill :: "'d handler_fn" where
  "EquipSkill E q c =
     (let account = requireAccount c in
      if \<not> tru account then (Inr empty_res, c)
      else (let avatarId = fld q ''avatar_id''; skillId = fld q ''skill_id'';
                slotId = jor (fld q ''slot_id'') (JNum 0);
                ps = profiles_of account;
                here = (\<lambda>p. same_text (fld p ''avatar_id'') avatarId)
            in if is_nil avatarId \<or> is_nil skillId \<or> \<not> list_ex here ps
               then (Inr (JObj [(''profiles'', JArr ps)]), c)
               else (let ps' = update_first here (equip skillId slotId) ps
                     in (Inr (JObj [(''profiles'', JArr ps')]), keep (set_profiles ps' account) c))))"

definition mod_EquipSkill :: "'d http_module" where
  "mod_EquipSkill = http_module ''EquipSkill'' EquipSkill (Some ''CSEquipSkillReq'') (Some ''CSEquipSkillRes'')"

definition BLOCKED_AVATARS :: "js list" where "BLOCKED_AVATARS = [JNum 102000008]"

definition allowed_profile :: "js \<Rightarrow> bool" where
  "allowed_profile p =
     (let avatarId = jor (fld p ''avatar_id'') (JNum 0);
          skillId = (case elems (fld p ''equiped_skills'') of
                       [] \<Rightarrow> JNum 0
                     | s # _ \<Rightarrow> if tru s then jor (fld s ''skill_id'') (JNum 0) else JNum 0)
      in avatarId \<notin> set BLOCKED_AVATARS \<and> skillId \<notin> set BLOCKED_AVATARS)"

text \<open>When no shown profile is selected, the first one is, in the document too.\<close>

definition GetProfiles :: "'d handler_fn" where
  "GetProfiles E q c =
     (let account = requireAccount c in
      if \<not> tru account then (Inr empty_res, c)
      else (let ps = profiles_of account;
                filtered = filter allowed_profile ps;
                selected = (\<lambda>p. tru (fld p ''is_selected''))
            in if filtered \<noteq> [] \<and> \<not> list_ex selected filtered
               then (let ps' = update_first allowed_profile (put ''is_selected'' (JBool True)) ps
                     in (Inr (JObj [(''profiles'', JArr (put ''is_selected'' (JBool True) (hd filtered) # tl filtered))]),
                         keep (set_profiles ps' account) c))
               else (Inr (JObj [(''profiles'', JArr filtered)]), c)))"

definition mod_GetProfiles :: "'d http_module" where
  "mod_GetProfiles = http_module ''GetProfiles'' GetProfiles (None) (None)"

definition add_skill :: "js \<Rightarrow> js list \<Rightarrow> js list" where
  "add_skill s ids =
     (let i = fld s ''skill_id'' in if is_nil i \<or> i \<in> set ids then ids else ids @ [i])"

definition GetSkills :: "'d handler_fn" where
  "GetSkills E q c =
     (let account = requireAccount c in
      if \<not> tru account then (Inr empty_res, c)
      else (let skills = fold add_skill
                  (concat (map (\<lambda>p. elems (fld p ''equiped_skills'')) (profiles_of account))) []
            in (Inr (JObj [(''account_id'', fld account ''uid''), (''skills'', JArr skills)]), c)))"

definition mod_GetSkills :: "'d http_module" where
  "mod_GetSkills = http_module ''GetSkills'' GetSkills (None) (Some ''CSGetSkillListRes'')"

definition UnlockSkillSlot :: "'d handler_fn" where
  "UnlockSkillSlot E q c =
     (let account = requireAccount c in
      if \<not> tru account then (Inr empty_res, c)
      else (Inr (JObj [(''profiles'', JArr (profiles_of account))]), c))"

definition mod_UnlockSkillSlot :: "'d http_module" where
  "mod_UnlockSkillSlot = http_module ''UnlockSkillSlot'' UnlockSkillSlot (Some ''CSUnlockSkillSlotReq'') (Some ''CSUnlockSkillSlotRes'')"

definition UnlockProfile :: "'d handler_fn" where
  "UnlockProfile E q c =
     (let account = requireAccount c in
      if \<not> tru account then (Inr empty_res, c)
      else (let p = selectedProfile account
            in (Inr (JObj [(''affected_profiles'', JArr (if tru p then [buildAvatarProfile p] else [])),
                           (''award_items'', JArr [])]), c)))"

definition mod_UnlockProfile :: "'d http_module" where
  "mod_UnlockProfile = http_module ''UnlockProfile'' UnlockProfile (None) (None)"

definition SetShowRank :: "'d handler_fn" where
  "SetShowRank E q c =
     (let account = requireAccount c in
      if \<not> tru account then (Inr empty_res, c)
      else (let showRank = JBool (if is_nil (fld q ''show_rank'') then True else tru (fld q ''show_rank''))
            in (Inr (JObj [(''show_rank'', showRank)]), keep (put ''show_rank'' showRank account) c)))"

definition mod_SetShowRank :: "'d http_module" where
  "mod_SetShowRank = http_module ''SetShowRank'' SetShowRank (None) (None)"

definition profile_modules :: "'d http_module list" where
  "profile_modules = [mod_ChooseBanner, mod_ChooseHeadPic, mod_ChooseLoadout, mod_ChooseSlots,
     mod_ChooseShow, mod_ChooseEmote, mod_SelectProfile, mod_ChangeClothes, mod_EquipSkill,
     mod_GetProfiles, mod_GetSkills, mod_UnlockSkillSlot, mod_UnlockProfile, mod_SetShowRank]"

end
