(* ===== verification/SocialHandlers.thy ===== *)
theory SocialHandlers
  imports Shared
begin

text \<open>
  The endpoints of friends, clans, search and other players (\<open>src/handlers\<close>). Friend lists and
  requests go through the repository; a clan is part of the player's own document. Pushes to online
  players are events on the bus, routed by presence.
\<close>

section \<open>Friends\<close>

text \<open>\<open>if (bus && await bus.getNode(id))\<close>, then a push of \<open>content\<close> to \<open>id\<close>.\<close>

definition push_if_online :: "'d henv \<Rightarrow> int \<Rightarrow> string \<Rightarrow> string \<Rightarrow> js \<Rightarrow> 'd hctx \<Rightarrow> 'd hctx" where
  "push_if_online E uid protocol cmd content c =
     (if he_online E uid then publish E (GwPush uid protocol cmd content) c else c)"

definition RequestAddingFriend :: "'d handler_fn" where
  "RequestAddingFriend E q c =
     (let account = requireAccount c in
      if \<not> tru account then (Inr empty_res, c)
      else (let adder = jor (fld q ''adder'') (fld account ''uid''); addee = fld q ''addee''
            in if \<not> tru adder \<or> \<not> tru addee then (Inr empty_res, c)
               else (case db_write (rp_addRequest (he_repo E) (he_now E) addee adder) c of
                       (Inl e, c1) \<Rightarrow> (Inl e, c1)
                     | (Inr _, c1) \<Rightarrow>
                         (let adderAcc = (if num_eq adder (fld account ''uid'') then account
                                          else rp_getById (he_repo E) adder (hc_db c1))
                          in (Inr empty_res,
                              if tru adderAcc
                              then push_if_online E (num0 addee) ''FRIEND'' ''REQUEST_NTF''
                                     (buildAccountInfoBasic adderAcc) c1
                              else c1)))))"

definition mod_RequestAddingFriend :: "'d http_module" where
  "mod_RequestAddingFriend = http_module ''RequestAddingFriend'' RequestAddingFriend (Some ''CSFriendReq'') (Some ''Empty'')"

definition confirmed :: "'d henv \<Rightarrow> js \<Rightarrow> js" where
  "confirmed E friend =
     (let si = sel_of friend
      in JObj [
      (''account_id'', fld friend ''uid''),
      (''account_type'', jor (fld friend ''account_type'') (JNum 0)),
      (''nickname'', jor (fld friend ''nickname'') (JStr [])),
      (''external_id'', jor (fld friend ''open_id'') (JStr [])),
      (''region'', jor (fld friend ''region'') (JStr [])),
      (''portrait'', JStr (str (jor (fld si ''head_pic'') (JNum 0)))),
      (''level'', jor (fld friend ''level'') (JNum 1)),
      (''exp'', jor (fld friend ''exp'') (JNum 0)),
      (''update_time'', JNum (nowSecs E))])"

definition ConfirmFriendRequest :: "'d handler_fn" where
  "ConfirmFriendRequest E q c =
     (let account = requireAccount c in
      if \<not> tru account then (Inr empty_res, c)
      else (let adderId = num0 (fld q ''adder'')
            in if adderId = 0 then (Inr empty_res, c)
               else (case db_write (rp_addFriendship (he_repo E) (he_now E) (fld account ''uid'') (JNum adderId)) c of
                       (Inl e, c1) \<Rightarrow> (Inl e, c1)
                     | (Inr _, c1) \<Rightarrow>
                         (let c2 = push_if_online E adderId ''FRIEND'' ''CONFIRM_NTF''
                                     (accountToPresence account (nowSecs E)) c1;
                              friend = rp_getById (he_repo E) (JNum adderId) (hc_db c2)
                          in (Inr (if tru friend then confirmed E friend
                                   else JObj [(''account_id'', JNum adderId), (''update_time'', JNum (nowSecs E))]), c2)))))"

definition mod_ConfirmFriendRequest :: "'d http_module" where
  "mod_ConfirmFriendRequest = http_module ''ConfirmFriendRequest'' ConfirmFriendRequest (None) (None)"

definition DeclineFriendRequest :: "'d handler_fn" where
  "DeclineFriendRequest E q c =
     (let account = requireAccount c in
      if \<not> tru account then (Inr empty_res, c)
      else if is_nil (fld q ''adder'') then (Inr empty_res, c)
      else (case db_write (rp_removeRequest (he_repo E) (he_now E) (fld account ''uid'') (jnum (fld q ''adder''))) c of
              (Inl e, c1) \<Rightarrow> (Inl e, c1)
            | (Inr _, c1) \<Rightarrow> (Inr empty_res, c1)))"

definition mod_DeclineFriendRequest :: "'d http_module" where
  "mod_DeclineFriendRequest = http_module ''DeclineFriendRequest'' DeclineFriendRequest (Some ''CSFriendReq'') (Some ''Empty'')"

definition RemoveFriend :: "'d handler_fn" where
  "RemoveFriend E q c =
     (let account = requireAccount c in
      if \<not> tru account then (Inr empty_res, c)
      else (let remover = jor (fld q ''remover'') (fld account ''uid'');
                removee = jor (fld q ''removee'') (JNum 0);
                region = jor (fld account ''region'') (JStr DEFAULT_REGION);
                res = JObj [(''remover'', remover), (''removee'', removee), (''lock_region'', region), (''noti_region'', region)]
            in if \<not> tru removee then (Inr res, c)
               else (case db_write (rp_removeFriendship (he_repo E) (he_now E) (fld account ''uid'') (jnum removee)) c of
                       (Inl e, c1) \<Rightarrow> (Inl e, c1)
                     | (Inr _, c1) \<Rightarrow> (Inr res, c1))))"

definition mod_RemoveFriend :: "'d http_module" where
  "mod_RemoveFriend = http_module ''RemoveFriend'' RemoveFriend (Some ''CSRemoveFriendReq'') (Some ''CSRemoveFriendRes'')"

text \<open>The last activity of a friend: now when online, else the last login.\<close>

definition friend_row :: "'d henv \<Rightarrow> js list \<Rightarrow> js \<Rightarrow> js" where
  "friend_row E online acc =
     (let p = accountToPresence acc (nowSecs E)
      in if fld acc ''uid'' \<in> set online then p
         else put ''update_time'' (jor (fld p ''last_login_at'') (JNum 0)) p)"

definition GetFriend :: "'d handler_fn" where
  "GetFriend E q c =
     (let account = requireAccount c in
      if \<not> tru account then (Inr empty_res, c)
      else (let ids = rp_getFriendIds (he_repo E) (fld account ''uid'') (hc_db c);
                accts = rp_getByIds (he_repo E) ids (hc_db c);
                online = (if he_bus E then filter (\<lambda>i. he_online E (num0 i)) ids else [])
            in (Inr (JObj [(''friends'', JArr (map (friend_row E online) accts)),
                           (''star_friends'', JArr []), (''friends_alias_info'', JArr [])]), c)))"

definition mod_GetFriend :: "'d http_module" where
  "mod_GetFriend = http_module ''GetFriend'' GetFriend (None) (None)"

definition GetFriendIDs :: "'d handler_fn" where
  "GetFriendIDs E q c =
     (let account = requireAccount c
      in (Inr (JObj [(''account_ids'', JArr (if \<not> tru account then []
                        else rp_getFriendIds (he_repo E) (fld account ''uid'') (hc_db c)))]), c))"

definition mod_GetFriendIDs :: "'d http_module" where
  "mod_GetFriendIDs = http_module ''GetFriendIDs'' GetFriendIDs (None) (None)"

definition GetFriendRequestList :: "'d handler_fn" where
  "GetFriendRequestList E q c =
     (let account = requireAccount c in
      if \<not> tru account then (Inr empty_res, c)
      else (let reqUids = rp_getRequestIds (he_repo E) (fld account ''uid'') (hc_db c)
            in (Inr (JObj [(''infos'', JArr (map buildAccountInfoBasic
                  (rp_getByIds (he_repo E) reqUids (hc_db c))))]), c)))"

definition mod_GetFriendRequestList :: "'d http_module" where
  "mod_GetFriendRequestList = http_module ''GetFriendRequestList'' GetFriendRequestList (None) (Some ''AccountInfoBasicBundleRes'')"

section \<open>Other players\<close>

definition GetAccountInfoByAccountID :: "'d handler_fn" where
  "GetAccountInfoByAccountID E q c =
     (let account = requireAccount c in
      if \<not> tru account then (Inr empty_res, c)
      else (let targetId = jor (fld q ''account_id'') (JNum 0);
                target = (if tru targetId then rp_getById (he_repo E) targetId (hc_db c) else JNull)
            in if \<not> tru target then (Inr empty_res, c)
               else (Inr (put ''region'' (jor (fld account ''region'') (JStr DEFAULT_REGION))
                            (buildAccountInfoBasic target)), c)))"

definition mod_GetAccountInfoByAccountID :: "'d http_module" where
  "mod_GetAccountInfoByAccountID = http_module ''GetAccountInfoByAccountID'' GetAccountInfoByAccountID (Some ''AccountIDReq'') (Some ''AccountInfoBasic'')"

definition FuzzySearchAccountByName :: "'d handler_fn" where
  "FuzzySearchAccountByName E q c =
     (let account = requireAccount c in
      if \<not> tru account then (Inr empty_res, c)
      else (let nickname = trim (str (jor (fld q ''nickname'') (JStr [])));
                ids = map JNum (rp_searchByNickname (he_repo E) nickname (hc_db c));
                region = jor (fld account ''region'') (JStr DEFAULT_REGION)
            in if nickname = [] then (Inr (JObj [(''infos'', JArr [])]), c)
               else (Inr (JObj [(''infos'', JArr (map (\<lambda>acc. put ''region'' region (accountToBasic acc))
                       (filter tru (rp_getByIds (he_repo E) ids (hc_db c)))))]), c)))"

definition mod_FuzzySearchAccountByName :: "'d http_module" where
  "mod_FuzzySearchAccountByName = http_module ''FuzzySearchAccountByName'' FuzzySearchAccountByName (None) (None)"

definition ep_history :: "js list" where
  "ep_history = map (\<lambda>i. JObj [
       (''ep_event_id'', JNum (int i)), (''owned_pass'', JBool True),
       (''ep_badge'', JNum (1001000000 + int i)), (''badge_cnt'', JNum 999)]) (rev [1..<21])"

definition show_profile :: "js \<Rightarrow> js" where
  "show_profile prof = JObj [
      (''avatar_id'', jor (fld prof ''avatar_id'') (JNum 0)),
      (''unlocked_level'', jor (fld prof ''unlocked_level'') (JNum 1)),
      (''skin_color'', jor (fld prof ''skin_color'') (JNum 5)),
      (''is_selected'', JBool True),
      (''clothes'', arr_or_empty (fld prof ''clothes'')),
      (''equiped_skills'', arr_or_empty (fld prof ''equiped_skills''))]"

definition show_clan :: "js \<Rightarrow> js \<Rightarrow> js" where
  "show_clan acc clan = JObj [
      (''clan_id'', fld clan ''id''),
      (''clan_name'', jor (fld clan ''name'') (JStr [])),
      (''captain_id'', jor (fld acc ''uid'') (JNum 0)),
      (''clan_level'', JNum 1),
      (''capacity'', JNum 50),
      (''member_num'', (if is_arr (fld clan ''members'') then JNum (int (length (elems (fld clan ''members'')))) else JNum 1)),
      (''honor_point'', jor (fld clan ''points'') (JNum 0))]"

definition GetPlayerPersonalShow :: "'d handler_fn" where
  "GetPlayerPersonalShow E q c =
     (let account = requireAccount c in
      if \<not> tru account then (Inr empty_res, c)
      else (let targetId = jor (fld q ''account_id'') (JNum 0);
                acc = (if tru targetId then jor (rp_getById (he_repo E) targetId (hc_db c)) account else account);
                prof = selectedProfile acc;
                clan = jor (fld acc ''clan'') (JObj []);
                r0 = JObj [(''basic_info'', buildAccountInfoBasic acc), (''ranking_leaderboard_pos'', JNum (- 1)),
                           (''news'', JArr []), (''history_ep_info'', JArr ep_history)];
                r1 = (if tru prof then put ''profile_info'' (show_profile prof) r0 else r0)
            in (Inr (if tru (fld clan ''id'') then put ''clan_basic_info'' (show_clan acc clan) r1 else r1), c)))"

definition mod_GetPlayerPersonalShow :: "'d http_module" where
  "mod_GetPlayerPersonalShow = http_module ''GetPlayerPersonalShow'' GetPlayerPersonalShow (Some ''AccountIDReq'') (Some ''AccountPersonalShowInfo'')"

section \<open>Clans\<close>

text \<open>The clan of a player who is in none.\<close>

definition no_clan :: js where
  "no_clan = JObj [(''id'', JNum 0), (''name'', JNull), (''role'', JStr ''none''), (''rank'', JNum 0),
     (''points'', JNum 0), (''members'', JArr [])]"

definition CreateClan :: "'d handler_fn" where
  "CreateClan E q c =
     (let account = requireAccount c in
      if \<not> tru account then (Inr empty_res, c)
      else (let clanId = nowSecs E;
                clan = JObj [(''id'', JNum clanId), (''name'', jor (fld q ''clan_name'') (JStr ''Clan'')),
                  (''role'', JStr ''captain''), (''rank'', JNum 1), (''points'', JNum 0),
                  (''members'', JArr [fld account ''uid''])]
            in (Inr (JObj [(''clan_id'', JNum clanId), (''clan_channel_secret'', JStr [])]),
                keep (put ''clan'' clan account) c)))"

definition mod_CreateClan :: "'d http_module" where
  "mod_CreateClan = http_module ''CreateClan'' CreateClan (Some ''CSCreateClanReq'') (Some ''CSClanIDRes'')"

definition DismissClan :: "'d handler_fn" where
  "DismissClan E q c =
     (let account = requireAccount c in
      if \<not> tru account then (Inr empty_res, c)
      else (let clanId = num0 (fld q ''clan_id''); cid = fld (fld account ''clan'') ''id''
            in (Inr empty_res,
                if tru (fld account ''clan'') \<and> tru cid \<and> cid = JNum clanId
                then keep (put ''clan'' no_clan account) c else c)))"

definition mod_DismissClan :: "'d http_module" where
  "mod_DismissClan = http_module ''DismissClan'' DismissClan (Some ''CSClanIDReq'') (Some ''Empty'')"

definition QuitClan :: "'d handler_fn" where
  "QuitClan E q c =
     (let account = requireAccount c in
      if \<not> tru account then (Inr empty_res, c)
      else (Inr empty_res, keep (put ''clan'' no_clan account) c))"

definition mod_QuitClan :: "'d http_module" where
  "mod_QuitClan = http_module ''QuitClan'' QuitClan (None) (None)"

text \<open>\<open>if (req.k != null) clan.k = String(req.k)\<close>.\<close>

definition set_text :: "string \<Rightarrow> js \<Rightarrow> js \<Rightarrow> js" where
  "set_text k q clan = (if is_nil (fld q k) then clan else put k (JStr (str (fld q k))) clan)"

definition ModifyClanInfo :: "'d handler_fn" where
  "ModifyClanInfo E q c =
     (let account = requireAccount c in
      if \<not> tru account then (Inr empty_res, c)
      else (let clan = fld account ''clan''
            in (Inr empty_res,
                if tru clan \<and> num_eq (fld clan ''id'') (jnum (jor (fld q ''clan_id'') (JNum 0)))
                then keep (put ''clan'' (set_text ''slogan'' q (set_text ''announcement'' q clan)) account) c else c)))"

definition mod_ModifyClanInfo :: "'d http_module" where
  "mod_ModifyClanInfo = http_module ''ModifyClanInfo'' ModifyClanInfo (None) (None)"

definition ModifyClanName :: "'d handler_fn" where
  "ModifyClanName E q c =
     (let account = requireAccount c in
      if \<not> tru account then (Inr empty_res, c)
      else (let clan = fld account ''clan''
            in (Inr empty_res,
                if tru clan \<and> tru (fld clan ''id'') \<and> tru (fld q ''clan_name'')
                then keep (put ''clan'' (put ''name'' (JStr (str (fld q ''clan_name''))) clan) account) c else c)))"

definition mod_ModifyClanName :: "'d http_module" where
  "mod_ModifyClanName = http_module ''ModifyClanName'' ModifyClanName (Some ''CSModifyClanNameReq'') (Some ''Empty'')"

text \<open>A member is an account id or an object with one.\<close>

definition member_number :: "js \<Rightarrow> js" where
  "member_number m = (if tru m \<and> \<not> is_nil (fld m ''account_id'') then fld m ''account_id'' else m)"

definition RemoveClanMember :: "'d handler_fn" where
  "RemoveClanMember E q c =
     (let account = requireAccount c in
      if \<not> tru account then (Inr empty_res, c)
      else (let clan = fld account ''clan''; removee = num0 (fld q ''removee_id'');
                ms = elems (fld clan ''members'');
                ms' = filter (\<lambda>m. num (member_number m) \<noteq> Some removee) ms
            in (Inr empty_res,
                if tru clan \<and> is_arr (fld clan ''members'') \<and> removee \<noteq> 0 \<and> length ms' \<noteq> length ms
                then keep (put ''clan'' (put ''members'' (JArr ms') clan) account) c else c)))"

definition mod_RemoveClanMember :: "'d http_module" where
  "mod_RemoveClanMember = http_module ''RemoveClanMember'' RemoveClanMember (None) (None)"

text \<open>\<open>typeof m === 'object' ? m.account_id || m.uid : m\<close>.\<close>

definition member_id :: "js \<Rightarrow> js" where
  "member_id m = (if is_obj m then jor (fld m ''account_id'') (fld m ''uid'') else m)"

definition member_row :: "js list \<Rightarrow> js \<Rightarrow> js \<Rightarrow> js" where
  "member_row accts clanId m =
     (let memberId = member_id m;
          acc = (if tru memberId then find (\<lambda>a. num_eq (fld a ''uid'') memberId) (rev accts) else None)
      in JObj [
        (''basic_info'', case acc of Some a \<Rightarrow> accountToBasic a
                          | None \<Rightarrow> JObj [(''account_id'', jor memberId (JNum 0))]),
        (''clan_id'', clanId),
        (''member_type'', jor (if is_obj m then fld m ''member_type'' else JBool False) (JNum 0)),
        (''region'', case acc of Some a \<Rightarrow> jor (fld a ''region'') (JStr []) | None \<Rightarrow> JStr [])])"

definition GetClanMembers :: "'d handler_fn" where
  "GetClanMembers E q c =
     (let account = requireAccount c in
      if \<not> tru account then (Inr empty_res, c)
      else (let clan = jor (fld account ''clan'') (JObj []);
                clanId = jor (jor (fld q ''clan_id'') (fld clan ''id'')) (JNum 0);
                members = elems (fld clan ''members'');
                accts = rp_getByIds (he_repo E) (filter tru (map member_id members)) (hc_db c)
            in (Inr (JObj [(''member_list'', JArr (map (member_row accts clanId) members))]), c)))"

definition mod_GetClanMembers :: "'d http_module" where
  "mod_GetClanMembers = http_module ''GetClanMembers'' GetClanMembers (None) (None)"

definition social_modules :: "'d http_module list" where
  "social_modules = [mod_RequestAddingFriend,
     mod_ConfirmFriendRequest,
     mod_DeclineFriendRequest,
     mod_RemoveFriend,
     mod_GetFriend,
     mod_GetFriendIDs,
     mod_GetFriendRequestList,
     mod_GetAccountInfoByAccountID,
     mod_FuzzySearchAccountByName,
     mod_GetPlayerPersonalShow,
     mod_CreateClan,
     mod_DismissClan,
     mod_QuitClan,
     mod_ModifyClanInfo,
     mod_ModifyClanName,
     mod_RemoveClanMember,
     mod_GetClanMembers]"

end
