(* ===== verification/ShopHandlers.thy ===== *)
theory ShopHandlers
  imports Shared
begin

text \<open>
  The endpoints of the wallet, the backpack, the shop, the elite pass, the gacha, mails, statistics
  and attendance (\<open>src/handlers\<close>). The inventory sent to a client is the server's item table
  (\<open>config/items.json\<close>, a parameter), the same for everyone.
\<close>

section \<open>Wallet and backpack\<close>

definition GetWallet :: "'d handler_fn" where
  "GetWallet E q c =
     (let account = requireAccount c in
      if \<not> tru account then (Inr empty_res, c)
      else (let wallet = jor (fld account ''wallet'') (JObj [])
            in (Inr (JObj [
          (''account_id'', fld account ''uid''),
          (''wallet'', JObj [
            (''coins'', (if \<not> is_nil (fld wallet ''coins'') then fld wallet ''coins'' else jor (fld account ''coins'') (JNum 0))),
            (''gems'', (if \<not> is_nil (fld wallet ''gems'') then fld wallet ''gems'' else jor (fld account ''gems'') (JNum 0))),
            (''gop_gems'', JNum 0),
            (''total_topup'', JNum 0),
            (''last_topup_time'', JNum 0)])]), c)))"

definition mod_GetWallet :: "'d http_module" where
  "mod_GetWallet = http_module ''GetWallet'' GetWallet (None) (None)"

definition room_card :: "int \<Rightarrow> js" where
  "room_card i = JObj [(''id'', JNum i), (''cnt'', JNum 999999999), (''expire_time'', JNum 0),
     (''left_use_times'', JNum (- 1)), (''history_owned_cnt'', JNum 999999999), (''item_status'', JNum 1)]"

definition badge_item :: "js \<Rightarrow> js \<Rightarrow> js" where
  "badge_item i cnt = JObj [(''id'', i), (''cnt'', cnt), (''expire_time'', JNum 0),
     (''left_use_times'', JNum (- 1)), (''history_owned_cnt'', cnt), (''item_status'', JNum 1)]"

definition without_item :: "js \<Rightarrow> js list \<Rightarrow> js list" where
  "without_item i items = filter (\<lambda>it. fld it ''id'' \<noteq> i) items"

definition put_room_card :: "int \<Rightarrow> js list \<Rightarrow> js list" where
  "put_room_card i items = without_item (JNum i) items @ [room_card i]"

definition backpack_items :: "js list \<Rightarrow> js \<Rightarrow> js \<Rightarrow> js list" where
  "backpack_items items badgeId badgeCount =
     (let kept = without_item badgeId items
      in if num0 badgeCount > 0
         then put_room_card 600000002 (put_room_card 600000001 kept) @ [badge_item badgeId badgeCount]
         else kept)"

text \<open>The selected profile is copied to the selected items, and the document saved, on each read.\<close>

definition sync_selected :: "js \<Rightarrow> js \<Rightarrow> js" where
  "sync_selected prof account =
     put ''selected_items''
       (put ''clothes'' (arr_or_empty (fld prof ''clothes''))
         (put ''skin_color'' (fld prof ''skin_color'')
           (put ''avatar_id'' (fld prof ''avatar_id'') (sel_of account)))) account"

definition GetBackpack :: "'d handler_fn" where
  "GetBackpack E q c =
     (let account = requireAccount c in
      if \<not> tru account then (Inr empty_res, c)
      else (let prof = selectedProfile account;
                a = (if tru prof then sync_selected prof account else account);
                wallet = jor (fld a ''wallet'')
                  (JObj [(''coins'', jor (fld a ''coins'') (JNum 0)), (''gems'', jor (fld a ''gems'') (JNum 0))]);
                items = backpack_items (he_items E)
                  (jor (fld a ''ep_badge_id'') (JNum 1001000021)) (jor (fld a ''ep_badge_count'') (JNum 999))
            in (Inr (JObj [
                  (''wallet'', JObj [(''coins'', jor (fld wallet ''coins'') (JNum 0)),
                                   (''gems'', jor (fld wallet ''gems'') (JNum 0))]),
                  (''selected_items'', buildSelectedItems a),
                  (''items'', JArr items)]),
                if tru prof then keep a c else c)))"

definition mod_GetBackpack :: "'d http_module" where
  "mod_GetBackpack = http_module ''GetBackpack'' GetBackpack (Some ''CSGetBackpackReq'') (Some ''CSGetBackpackRes'')"

section \<open>The shop\<close>

definition add_item :: "js \<Rightarrow> js \<Rightarrow> js \<Rightarrow> js" where
  "add_item itemId cnt account =
     (let bp = (if tru (fld account ''backpack'') then fld account ''backpack'' else JObj [(''items'', JArr [])])
      in put ''backpack''
           (put ''items'' (JArr (elems (fld bp ''items'') @ [JObj [(''id'', itemId), (''cnt'', cnt)]])) bp) account)"

definition Purchase :: "'d handler_fn" where
  "Purchase E q c =
     (let account = requireAccount c in
      if \<not> tru account then (Inr empty_res, c)
      else (let itemId = jnum (jor (fld q ''store_item_id'') (JNum 0));
                cnt = jnum (jor (fld q ''cnt'') (JNum 1));
                a = (if tru itemId then add_item itemId cnt account else account)
            in (Inr (JObj [
                  (''data'', JObj [
                    (''trans_id'', JNum (nowSecs E)),
                    (''add_item_list'', JArr (if tru itemId then [JObj [(''id'', itemId), (''cnt'', cnt)]] else [])),
                    (''del_item_list'', JArr []),
                    (''coins_delta'', JNum 0),
                    (''gems_delta'', JNum 0)]),
                  (''coins'', jor (fld a ''coins'') (JNum 0)),
                  (''gems'', jor (fld a ''gems'') (JNum 0))]),
                if tru itemId then keep a c else c)))"

definition mod_Purchase :: "'d http_module" where
  "mod_Purchase = http_module ''Purchase'' Purchase (Some ''CSPurchaseReq'') (Some ''CSPurchaseRes'')"

definition GetStore :: "'d handler_fn" where
  "GetStore E q c =
     (let account = requireAccount c in
      if \<not> tru account then (Inr empty_res, c)
      else (Inr (JObj [
          (''store_items'', JArr [JObj [
            (''store_id'', JNum 1),
            (''sort_id'', JNum 1),
            (''item_id'', JNum 102000006),
            (''coins_price'', JNum 0),
            (''gems_price'', JNum 0),
            (''is_new'', JBool True)]])]), c))"

definition mod_GetStore :: "'d http_module" where
  "mod_GetStore = http_module ''GetStore'' GetStore (Some ''CSGetStoreReq'') (Some ''CSGetStoreRes'')"

definition GetGiftStore :: "'d handler_fn" where
  "GetGiftStore E q c =
     (let account = requireAccount c in
      if \<not> tru account then (Inr empty_res, c)
      else (Inr (JObj [
          (''store_id'', JNum 1),
          (''open_time'', JNum 0),
          (''close_time'', JNum 0),
          (''is_time_show'', JBool False),
          (''giver_level'', JNum 1),
          (''receiver_level'', JNum 1),
          (''gift_time_limited'', JNum 0),
          (''gift_num_limited'', JNum 0)]), c))"

definition mod_GetGiftStore :: "'d http_module" where
  "mod_GetGiftStore = http_module ''GetGiftStore'' GetGiftStore (None) (Some ''CSGetGiftStoreRes'')"

definition GetBundle :: "'d handler_fn" where
  "GetBundle E q c =
     (let account = requireAccount c in
      if \<not> tru account then (Inr empty_res, c)
      else (Inr (JObj [
          (''bundle_show'', JArr [JObj [
            (''id'', JNum 3001),
            (''bundles'', JArr [JObj [
              (''award_id'', JNum 0),
              (''award_num'', JNum 1)]])]])]), c))"

definition mod_GetBundle :: "'d http_module" where
  "mod_GetBundle = http_module ''GetBundle'' GetBundle (None) (Some ''CSGetBundleRes'')"

section \<open>The elite pass\<close>

definition ep_rewards :: "js list" where
  "ep_rewards = concat (map (\<lambda>l. [JObj [(''unlock_id'', JNum (int l)), (''is_ep'', JNum 0)],
       JObj [(''unlock_id'', JNum (int l + 100)), (''is_ep'', JNum 1)]]) [1..<51])"

definition ep_challenges :: "int \<Rightarrow> js list" where
  "ep_challenges now = [
     JObj [(''challenge_id'', JNum 1), (''update_time'', JNum now), (''count_type'', JNum 3)],
     JObj [(''challenge_id'', JNum 2), (''update_time'', JNum now), (''count_type'', JNum 16)]]"

text \<open>The next midnight, in UTC.\<close>

definition daily_reset :: "int \<Rightarrow> int" where
  "daily_reset now = (now + 86400) div 86400 * 86400"

definition GetEPInfo :: "'d handler_fn" where
  "GetEPInfo E q c =
     (let account = requireAccount c in
      if \<not> tru account then (Inr empty_res, c)
      else (let now = nowSecs E;
                epEventId = jor (fld account ''ep_event_id'') (JNum 21);
                cnt = jor (fld account ''ep_badge_count'') (JNum 999);
                rewards = JArr ep_rewards; challenges = JArr (ep_challenges now)
            in (Inr (JObj [
          (''owned_pass'', (if \<not> is_nil (fld account ''elite_pass'') then jbool (fld account ''elite_pass'') else JBool True)),
          (''owned_fp_challenge'', (if \<not> is_nil (fld account ''owned_fp_challenge'') then jbool (fld account ''owned_fp_challenge'') else JBool True)),
          (''ep_event_id'', epEventId),
          (''ep_badge'', JNum (1001000000 + (num0 epEventId))),
          (''gold_limit_improved'', cnt),
          (''fp_challenge_item'', cnt),
          (''purchase_badge_count_today'', cnt),
          (''week'', cnt),
          (''daily_reset_time'', JNum (daily_reset now)),
          (''epid_preorder'', jor (fld account ''epid_preorder'') (JNum 0)),
          (''ep_preorder_start_time'', jor (fld account ''ep_preorder_start_time'') (JNum 0)),
          (''ep_preorder_end_time'', jor (fld account ''ep_preorder_end_time'') (JNum 0)),
          (''rewards'', rewards),
          (''challenges'', challenges)]), c)))"

definition mod_GetEPInfo :: "'d http_module" where
  "mod_GetEPInfo = http_module ''GetEPInfo'' GetEPInfo (Some ''Empty'') (Some ''CSGetEPInfoRes'')"

definition EPClaimBadge :: "'d handler_fn" where
  "EPClaimBadge E q c =
     (let account = requireAccount c in
      if \<not> tru account then (Inr empty_res, c)
      else (Inr empty_res,
            keep (put ''ep_badge_count'' (JNum (num0 (jor (fld account ''ep_badge_count'') (JNum 0)) + 10)) account) c))"

definition mod_EPClaimBadge :: "'d http_module" where
  "mod_EPClaimBadge = http_module ''EPClaimBadge'' EPClaimBadge (None) (None)"

definition EPPurchaseBadge :: "'d handler_fn" where
  "EPPurchaseBadge E q c =
     (let account = requireAccount c in
      if \<not> tru account then (Inr empty_res, c)
      else (Inr empty_res,
            keep (put ''ep_badge_count'' (JNum (num0 (jor (fld account ''ep_badge_count'') (JNum 0)) + 9999)) account) c))"

definition mod_EPPurchaseBadge :: "'d http_module" where
  "mod_EPPurchaseBadge = http_module ''EPPurchaseBadge'' EPPurchaseBadge (None) (None)"

definition EPPurchase :: "'d handler_fn" where
  "EPPurchase E q c =
     (let account = requireAccount c in
      if \<not> tru account then (Inr empty_res, c)
      else (Inr empty_res, keep (put ''elite_pass'' (JBool True) account) c))"

definition mod_EPPurchase :: "'d http_module" where
  "mod_EPPurchase = http_module ''EPPurchase'' EPPurchase (None) (None)"

section \<open>The gacha\<close>

definition GACHA_POOL :: "int list" where
  "GACHA_POOL = [211000000, 203000001, 204000001, 205000001, 203000166, 203000092, 902000062, 901000036, 907000010, 102000005]"

definition GACHA_LEGENDARY :: int where "GACHA_LEGENDARY = 102000005"

text \<open>\<open>randInt(n)\<close>; \<open>he_rand\<close> is the stream of random draws.\<close>

definition draw :: "'d henv \<Rightarrow> nat \<Rightarrow> int" where
  "draw E i = GACHA_POOL ! (he_rand E i mod length GACHA_POOL)"

definition lottery_good :: "int \<Rightarrow> js" where
  "lottery_good itemId = JObj [
      (''origin_award_type'', JNum 1),
      (''origin_award_id'', JNum itemId),
      (''origin_award_num'', JNum 1),
      (''dest_award_type'', JNum 1),
      (''dest_award_id'', JNum itemId),
      (''dest_award_num'', JNum 1)]"

definition PurchaseGacha :: "'d handler_fn" where
  "PurchaseGacha E q c =
     (let account = requireAccount c in
      if \<not> tru account then (Inr empty_res, c)
      else (let itemCount = (if num (fld q ''gacha_type'') = Some 2 then 10 else 1);
                wonItems = map (draw E) [0..<itemCount];
                hasBigReward = JBool (GACHA_LEGENDARY \<in> set wonItems);
                lotteryGoods = JArr (map lottery_good wonItems)
            in (Inr (JObj [
          (''lottery_goods'', lotteryGoods),
          (''lottery_count_weekly'', JNum 1),
          (''next_free_time'', JNum 0),
          (''limit_purchase_count_one'', JNum 999),
          (''limit_purchase_count_ten'', JNum 999),
          (''not_got_num'', JNum 0),
          (''first_draw_reward_num'', JNum 0),
          (''has_big_reward'', hasBigReward)]), c)))"

definition mod_PurchaseGacha :: "'d http_module" where
  "mod_PurchaseGacha = http_module ''PurchaseGacha'' PurchaseGacha (Some ''CSLotteryReq'') (Some ''CSLotteryRes'')"

definition JACKPOT_ITEM :: int where "JACKPOT_ITEM = 203000181"

definition GACHA_ITEM_IDS :: "int list" where
  "GACHA_ITEM_IDS = [JACKPOT_ITEM, 101000001, 101000002, 101000003, 101000004, 101000005, 101000006, 101000007, 101000008, 101000009, 101000010, 101000011, 101000012, 101000013, 101000014, 101000015, 102000001, 102000002, 102000003, 102000004, 102000005]"

definition gacha_row :: "int \<Rightarrow> js" where
  "gacha_row itemId = JObj [(''item_id'', JNum itemId), (''is_show'', JBool True), (''item_num'', JNum 1),
     (''reward_level'', JNum (if itemId = JACKPOT_ITEM then 3 else 0))]"

definition GetGachaDesc :: "'d handler_fn" where
  "GetGachaDesc E q c =
     (let items = JArr (map gacha_row GACHA_ITEM_IDS)
      in (Inr (JObj [
          (''gacha_desc_list'', JArr [JObj [
            (''chest_id'', JNum 1001),
            (''chest_type'', JObj [
              (''chest_id'', JNum 1001),
              (''priority'', JNum 1),
              (''coin_type'', JNum 2),
              (''once_price'', JNum 60),
              (''ten_price'', JNum 540)]),
            (''item_list_with_jackpot'', JArr [JObj [
              (''items'', items),
              (''jackpot'', JNum 0)]])]])]), c))"

definition mod_GetGachaDesc :: "'d http_module" where
  "mod_GetGachaDesc = http_module ''GetGachaDesc'' GetGachaDesc (None) (Some ''CSGetGachaDescRes'')"

definition GetGachaInfo :: "'d handler_fn" where
  "GetGachaInfo E q c =
     (let account = requireAccount c in
      if \<not> tru account then (Inr empty_res, c)
      else (let chestId = jor (fld q ''chest_id'') (JNum 1001) in (Inr (JObj [
          (''gacha_info_list'', JArr [JObj [
            (''chest_id'', chestId),
            (''lottery_count_weekly'', JNum 0),
            (''next_free_time'', JNum 0),
            (''not_got_num'', JNum 0),
            (''limit_purchase_count_one'', JNum 999),
            (''limit_purchase_count_ten'', JNum 999),
            (''first_draw_reward_num'', JNum 0)]])]), c)))"

definition mod_GetGachaInfo :: "'d http_module" where
  "mod_GetGachaInfo = http_module ''GetGachaInfo'' GetGachaInfo (None) (Some ''CSGetGachaInfoRes'')"

definition GetGachaSpecialExchangeDesc :: "'d handler_fn" where
  "GetGachaSpecialExchangeDesc E q c =
     (let language = jor (fld q ''language'') (JStr ''pt-br'') in (Inr (JObj [
          (''chest_special_exchange_descs'', JArr [JObj [
            (''forge_tab_id'', JNum 1),
            (''tab_name'', JStr ''Gacha Especial''),
            (''item_id'', JNum 101),
            (''item_num'', JNum 1),
            (''sort_id'', JNum 1),
            (''added_time'', JStr ''2026-03-27''),
            (''expire_time'', JStr ''2026-04-27''),
            (''limited_purchase_times'', JNum 10),
            (''language'', language),
            (''image_url'', JStr []),
            (''is_show'', JBool True),
            (''reward_level'', JNum 5),
            (''real_image_url'', JStr []),
            (''purchase_times'', JNum 0)]])]), c))"

definition mod_GetGachaSpecialExchangeDesc :: "'d http_module" where
  "mod_GetGachaSpecialExchangeDesc = http_module ''GetGachaSpecialExchangeDesc'' GetGachaSpecialExchangeDesc (None) (None)"

section \<open>Mails, statistics, attendance\<close>

definition mark_mail :: "js list \<Rightarrow> js \<Rightarrow> js \<Rightarrow> js" where
  "mark_mail ids status mail =
     (if jnum (fld mail ''mail_id'') \<in> set ids then put ''status'' status mail else mail)"

definition ReadMail :: "'d handler_fn" where
  "ReadMail E q c =
     (let account = requireAccount c in
      if \<not> tru account then (Inr empty_res, c)
      else (let ids = map jnum (elems (fld q ''mail_ids''));
                status = (if is_nil (fld q ''status'') then JNum 1 else fld q ''status'');
                mails = elems (fld account ''mails'');
                changed = list_ex (\<lambda>m. jnum (fld m ''mail_id'') \<in> set ids) mails
            in (Inr empty_res,
                if changed then keep (put ''mails'' (JArr (map (mark_mail ids status) mails)) account) c else c)))"

definition mod_ReadMail :: "'d http_module" where
  "mod_ReadMail = http_module ''ReadMail'' ReadMail (Some ''CSReadMailReq'') (Some ''CSReadMailRes'')"

definition mail_row :: "js \<Rightarrow> js" where
  "mail_row m = JObj [
      (''mail_id'', jor (fld m ''mail_id'') (JNum 0)),
      (''type'', jor (fld m ''type'') (JNum 0)),
      (''title'', jor (fld m ''title'') (JStr [])),
      (''content'', jor (fld m ''content'') (JStr [])),
      (''receive_time'', jor (fld m ''receive_time'') (JNum 0)),
      (''status'', jor (fld m ''status'') (JNum 0)),
      (''source'', jor (fld m ''source'') (JNum 0)),
      (''action_type'', jor (fld m ''action_type'') (JNum 0))]"

definition GetMailList :: "'d handler_fn" where
  "GetMailList E q c =
     (let account = requireAccount c in
      if \<not> tru account then (Inr empty_res, c)
      else (Inr (JObj [(''mails'', JArr (map mail_row (elems (fld account ''mails''))))]), c))"

definition mod_GetMailList :: "'d http_module" where
  "mod_GetMailList = http_module ''GetMailList'' GetMailList (Some ''CSGetMailListReq'') (Some ''CSGetMailListRes'')"

definition GetPlayerStats :: "'d handler_fn" where
  "GetPlayerStats E q c =
     (let account = requireAccount c in
      if \<not> tru account then (Inr empty_res, c)
      else (let i = jnum (jor (fld q ''account_id'') (fld account ''uid''));
                stats = JObj [(''account_id'', i), (''games_played'', JNum 0), (''wins'', JNum 0), (''kills'', JNum 0)]
            in (Inr (JObj [
          (''solo_stats'', stats),
          (''duo_stats'', stats),
          (''quad_stats'', stats)]), c)))"

definition mod_GetPlayerStats :: "'d http_module" where
  "mod_GetPlayerStats = http_module ''GetPlayerStats'' GetPlayerStats (Some ''CSGetPlayerStatsReq'') (Some ''CSGetPlayerStatsRes'')"

definition GetPlayerRankingInfo :: "'d handler_fn" where
  "GetPlayerRankingInfo E q c =
     (let account = requireAccount c in
      if \<not> tru account then (Inr empty_res, c)
      else (let rnk = jor (fld account ''rank'') (JNum 1); points = jor (fld account ''ranking_points'') (JNum 0) in (Inr (JObj [
          (''account_id'', fld account ''uid''),
          (''season_id'', JNum 7),
          (''rank'', rnk),
          (''max_rank'', rnk),
          (''ranking_points'', points),
          (''show_rank'', JBool True),
          (''match_token_num'', jor (fld account ''match_token_num'') (JNum 0)),
          (''ranking_bot_points'', JNum 0),
          (''peak_rank_pos'', JNum 0)]), c)))"

definition mod_GetPlayerRankingInfo :: "'d http_module" where
  "mod_GetPlayerRankingInfo = http_module ''GetPlayerRankingInfo'' GetPlayerRankingInfo (Some ''CSPlayerRankingInfoReq'') (Some ''CSPlayerRankingInfoRes'')"

text \<open>Day, reward and amount.\<close>

definition REF_ATTENDANCE :: "(int \<times> int \<times> int) list" where
  "REF_ATTENDANCE = [(1, 10000004, 500), (2, 102, 10), (3, 103, 1), (4, 104, 1), (5, 105, 1), (6, 106, 1000), (7, 107, 25)]"

definition attendance_row :: "int \<times> int \<times> int \<Rightarrow> js" where
  "attendance_row r = (case r of (day, reward, amount) \<Rightarrow> JObj [
     (''id'', JNum day), (''signed'', JNum 0),
     (''awards'', JArr [JObj [(''award_id'', JNum reward), (''award_num'', JNum amount)]]),
     (''is_big_prize'', JBool (day = 7))])"

definition GetAttendanceList :: "'d handler_fn" where
  "GetAttendanceList E q c =
     (let account = requireAccount c in
      if \<not> tru account then (Inr empty_res, c)
      else (let attendance = JArr (map attendance_row REF_ATTENDANCE)
            in (Inr (JObj [
          (''attendance_list'', JArr [JObj [
            (''attendance'', attendance),
            (''end_time'', JNum 1762536000),
            (''url'', JStr []),
            (''loc_key'', JStr ''Attendance''),
            (''is_signed_today'', JBool False),
            (''start_time'', JNum 0),
            (''attendance_config_id'', JNum 1)]])]), c)))"

definition mod_GetAttendanceList :: "'d http_module" where
  "mod_GetAttendanceList = http_module ''GetAttendanceList'' GetAttendanceList (None) (Some ''CSGetAttendanceListRes'')"

definition shop_modules :: "'d http_module list" where
  "shop_modules = [mod_GetWallet,
     mod_GetBackpack,
     mod_Purchase,
     mod_GetStore,
     mod_GetGiftStore,
     mod_GetBundle,
     mod_GetEPInfo,
     mod_EPClaimBadge,
     mod_EPPurchaseBadge,
     mod_EPPurchase,
     mod_PurchaseGacha,
     mod_GetGachaDesc,
     mod_GetGachaInfo,
     mod_GetGachaSpecialExchangeDesc,
     mod_ReadMail,
     mod_GetMailList,
     mod_GetPlayerStats,
     mod_GetPlayerRankingInfo,
     mod_GetAttendanceList]"

end
