(* ===== verification/StaticHandlers.thy ===== *)
theory StaticHandlers
  imports Shared
begin

text \<open>
  The endpoints whose answer does not depend on the database: news, presets, empty lists and the
  stubs of features the server does not have (\<open>src/handlers\<close>), and the stub that answers every
  other endpoint (\<open>src/handlers/_stubs.js\<close>).
\<close>

definition AccountMatchStats :: "'d handler_fn" where
  "AccountMatchStats E q c =
     (Inr (JObj [
          (''income'', JObj []),
          (''stats'', JObj [])]), c)"

definition mod_AccountMatchStats :: "'d http_module" where
  "mod_AccountMatchStats = http_module ''AccountMatchStats'' AccountMatchStats (Some ''CSGetAccountMatchStatsReq'') (Some ''CSGetAccountMatchStatsRes'')"

definition ApproveJoinClanApplication :: "'d handler_fn" where
  "ApproveJoinClanApplication E q c =
     (Inr (empty_res), c)"

definition mod_ApproveJoinClanApplication :: "'d http_module" where
  "mod_ApproveJoinClanApplication = http_module ''ApproveJoinClanApplication'' ApproveJoinClanApplication (Some ''CSProcessJoinClanReq'') (Some ''Empty'')"

definition Billboard :: "'d handler_fn" where
  "Billboard E q c =
     (Inr (empty_res), c)"

definition mod_Billboard :: "'d http_module" where
  "mod_Billboard = http_module ''Billboard'' Billboard (Some ''Empty'') (Some ''Empty'')"

definition CSVConfig :: "'d handler_fn" where
  "CSVConfig E q c =
     (Inr (empty_res), c)"

definition mod_CSVConfig :: "'d http_module" where
  "mod_CSVConfig = http_module ''CSVConfig'' CSVConfig (None) (Some ''Empty'')"

definition ChangeMemberTypeByCaptain :: "'d handler_fn" where
  "ChangeMemberTypeByCaptain E q c =
     (if \<not> tru (requireAccount c) then (Inr empty_res, c)
      else (Inr (empty_res), c))"

definition mod_ChangeMemberTypeByCaptain :: "'d http_module" where
  "mod_ChangeMemberTypeByCaptain = http_module ''ChangeMemberTypeByCaptain'' ChangeMemberTypeByCaptain (Some ''CSChangeMemberTypeReq'') (Some ''Empty'')"

definition DeclineJoinClanApplication :: "'d handler_fn" where
  "DeclineJoinClanApplication E q c =
     (Inr (empty_res), c)"

definition mod_DeclineJoinClanApplication :: "'d http_module" where
  "mod_DeclineJoinClanApplication = http_module ''DeclineJoinClanApplication'' DeclineJoinClanApplication (Some ''CSProcessJoinClanReq'') (Some ''Empty'')"

definition ExchangeGachaExtraReward :: "'d handler_fn" where
  "ExchangeGachaExtraReward E q c =
     (if \<not> tru (requireAccount c) then (Inr empty_res, c)
      else (Inr (empty_res), c))"

definition mod_ExchangeGachaExtraReward :: "'d http_module" where
  "mod_ExchangeGachaExtraReward = http_module ''ExchangeGachaExtraReward'' ExchangeGachaExtraReward (Some ''Empty'') (Some ''CSExchangeGachaExtraRewardRes'')"

definition GetActivityDesc :: "'d handler_fn" where
  "GetActivityDesc E q c =
     (if \<not> tru (requireAccount c) then (Inr empty_res, c)
      else (Inr (JObj [
          (''activity_descs'', JArr [JObj [
            (''activity_id'', JNum 1),
            (''group_id'', JNum 1),
            (''act_title'', JStr ''Welcome Event''),
            (''act_text'', JStr ''Earn exclusive rewards for joining the server!''),
            (''image_url'', JStr []),
            (''image_url_for_lobby'', JStr []),
            (''activity_type'', JNum 1),
            (''sort_id'', JNum 1),
            (''start_time'', JNum 1731000000),
            (''end_time'', JNum 1762536000)]])]), c))"

definition mod_GetActivityDesc :: "'d http_module" where
  "mod_GetActivityDesc = http_module ''GetActivityDesc'' GetActivityDesc (Some ''CSGetActivityDescReq'') (Some ''CSGetActivityDescRes'')"

definition GetAds :: "'d handler_fn" where
  "GetAds E q c =
     (if \<not> tru (requireAccount c) then (Inr empty_res, c)
      else (Inr (empty_res), c))"

definition mod_GetAds :: "'d http_module" where
  "mod_GetAds = http_module ''GetAds'' GetAds (Some ''Empty'') (Some ''CSGetAdvertRes'')"

definition GetAdvert :: "'d handler_fn" where
  "GetAdvert E q c =
     (Inr (JObj [
          (''advert_items'', JArr [])]), c)"

definition mod_GetAdvert :: "'d http_module" where
  "mod_GetAdvert = http_module ''GetAdvert'' GetAdvert (Some ''CSGetAdvertReq'') (Some ''CSGetAdvertRes'')"

definition GetAgoraToken :: "'d handler_fn" where
  "GetAgoraToken E q c =
     (Inr (empty_res), c)"

definition mod_GetAgoraToken :: "'d http_module" where
  "mod_GetAgoraToken = http_module ''GetAgoraToken'' GetAgoraToken (Some ''Empty'') (Some ''Empty'')"

definition GetAvatarSkillSlots :: "'d handler_fn" where
  "GetAvatarSkillSlots E q c =
     (Inr (empty_res), c)"

definition mod_GetAvatarSkillSlots :: "'d http_module" where
  "mod_GetAvatarSkillSlots = http_module ''GetAvatarSkillSlots'' GetAvatarSkillSlots (None) (Some ''Empty'')"

definition GetBroadcastList :: "'d handler_fn" where
  "GetBroadcastList E q c =
     (Inr (JObj [
          (''broadcast_messages'', JArr [JObj [
            (''nickname'', JStr ''System''),
            (''navigation_type'', JNum 0),
            (''source'', JStr ''Welcome to the server!''),
            (''item_id'', JNum 0),
            (''time_stamp'', JNum (he_now E)),
            (''source_id'', JNum 1)], JObj [
            (''nickname'', JStr ''Admin''),
            (''navigation_type'', JNum 1),
            (''source'', JStr ''Check out what is new in the shop!''),
            (''item_id'', JNum 1001),
            (''time_stamp'', JNum ((he_now E) - (3600 * 1000))),
            (''source_id'', JNum 2)]]),
          (''silence_show_switch'', JBool False)]), c)"

definition mod_GetBroadcastList :: "'d http_module" where
  "mod_GetBroadcastList = http_module ''GetBroadcastList'' GetBroadcastList (None) (Some ''CSGetBroadcastListRes'')"

definition GetCBTGiftsAnnouncement :: "'d handler_fn" where
  "GetCBTGiftsAnnouncement E q c =
     (if \<not> tru (requireAccount c) then (Inr empty_res, c)
      else (Inr (empty_res), c))"

definition mod_GetCBTGiftsAnnouncement :: "'d http_module" where
  "mod_GetCBTGiftsAnnouncement = http_module ''GetCBTGiftsAnnouncement'' GetCBTGiftsAnnouncement (Some ''Empty'') (Some ''Empty'')"

definition GetClanInfoByClanName :: "'d handler_fn" where
  "GetClanInfoByClanName E q c =
     (Inr (empty_res), c)"

definition mod_GetClanInfoByClanName :: "'d http_module" where
  "mod_GetClanInfoByClanName = http_module ''GetClanInfoByClanName'' GetClanInfoByClanName (Some ''CSClanNameReq'') (Some ''ClanInfo'')"

definition GetClanWeekLeaderboardInfo :: "'d handler_fn" where
  "GetClanWeekLeaderboardInfo E q c =
     (Inr (JObj [
          (''main_key'', JNum 0),
          (''next_refresh_time'', JNum ((nowSecs E) + ((7 * 24) * 3600)))]), c)"

definition mod_GetClanWeekLeaderboardInfo :: "'d http_module" where
  "mod_GetClanWeekLeaderboardInfo = http_module ''GetClanWeekLeaderboardInfo'' GetClanWeekLeaderboardInfo (None) (Some ''CSGetClanWeekLeaderboardInfoRes'')"

definition GetDailyLeaderboardByAccountID :: "'d handler_fn" where
  "GetDailyLeaderboardByAccountID E q c =
     (if \<not> tru (requireAccount c) then (Inr empty_res, c)
      else (Inr (empty_res), c))"

definition mod_GetDailyLeaderboardByAccountID :: "'d http_module" where
  "mod_GetDailyLeaderboardByAccountID = http_module ''GetDailyLeaderboardByAccountID'' GetDailyLeaderboardByAccountID (Some ''AccountIDReq'') (Some ''AccountLeaderboardRes'')"

definition GetFacebookFriend :: "'d handler_fn" where
  "GetFacebookFriend E q c =
     (Inr (empty_res), c)"

definition mod_GetFacebookFriend :: "'d http_module" where
  "mod_GetFacebookFriend = http_module ''GetFacebookFriend'' GetFacebookFriend (Some ''CSGetFacebookFriendListReq'') (Some ''AccountFriendRes'')"

definition GetGiftStoreDetails :: "'d handler_fn" where
  "GetGiftStoreDetails E q c =
     (Inr (JObj [
          (''store_id'', JNum 1),
          (''send_gift_times_today'', JNum 0),
          (''items'', JArr [])]), c)"

definition mod_GetGiftStoreDetails :: "'d http_module" where
  "mod_GetGiftStoreDetails = http_module ''GetGiftStoreDetails'' GetGiftStoreDetails (None) (Some ''CSGetGiftStoreDetailsRes'')"

definition GetNewPlayerRewardsList :: "'d handler_fn" where
  "GetNewPlayerRewardsList E q c =
     (Inr (empty_res), c)"

definition mod_GetNewPlayerRewardsList :: "'d http_module" where
  "mod_GetNewPlayerRewardsList = http_module ''GetNewPlayerRewardsList'' GetNewPlayerRewardsList (Some ''Empty'') (Some ''Empty'')"

definition GetPlatformProfile :: "'d handler_fn" where
  "GetPlatformProfile E q c =
     (Inr (JObj [
          (''external_id'', jor (fld q ''external_id'') (JStr [])),
          (''external_type'', jor (fld q ''platform_sdk_id'') (JNum 0)),
          (''external_name'', JStr []),
          (''external_icon'', JStr [])]), c)"

definition mod_GetPlatformProfile :: "'d http_module" where
  "mod_GetPlatformProfile = http_module ''GetPlatformProfile'' GetPlatformProfile (Some ''PlatformProfileReq'') (Some ''PlatformProfileRes'')"

definition GetPresenceByAccountIds :: "'d handler_fn" where
  "GetPresenceByAccountIds E q c =
     (Inr (empty_res), c)"

definition mod_GetPresenceByAccountIds :: "'d http_module" where
  "mod_GetPresenceByAccountIds = http_module ''GetPresenceByAccountIds'' GetPresenceByAccountIds (Some ''Empty'') (Some ''Empty'')"

definition GetRebateReward :: "'d handler_fn" where
  "GetRebateReward E q c =
     (Inr (empty_res), c)"

definition mod_GetRebateReward :: "'d http_module" where
  "mod_GetRebateReward = http_module ''GetRebateReward'' GetRebateReward (Some ''CSGetRebateRewardReq'') (Some ''Empty'')"

definition GetRoomList :: "'d handler_fn" where
  "GetRoomList E q c =
     (Inr (JObj [
          (''room_list'', JArr [])]), c)"

definition mod_GetRoomList :: "'d http_module" where
  "mod_GetRoomList = http_module ''GetRoomList'' GetRoomList (Some ''RoomListReq'') (Some ''RoomListRes'')"

definition GetScrollMarquee :: "'d handler_fn" where
  "GetScrollMarquee E q c =
     (Inr (JObj [
          (''scrollMarquees'', JArr [])]), c)"

definition mod_GetScrollMarquee :: "'d http_module" where
  "mod_GetScrollMarquee = http_module ''GetScrollMarquee'' GetScrollMarquee (Some ''CSScrollMarqueeReq'') (Some ''CSScrollMarqueeRes'')"

definition GetTopNDailyLeaderboard :: "'d handler_fn" where
  "GetTopNDailyLeaderboard E q c =
     (if \<not> tru (requireAccount c) then (Inr empty_res, c)
      else (Inr (empty_res), c))"

definition mod_GetTopNDailyLeaderboard :: "'d http_module" where
  "mod_GetTopNDailyLeaderboard = http_module ''GetTopNDailyLeaderboard'' GetTopNDailyLeaderboard (Some ''Empty'') (Some ''AccountLeaderboardRes'')"

definition GetUnlockProfileInfo :: "'d handler_fn" where
  "GetUnlockProfileInfo E q c =
     (Inr (empty_res), c)"

definition mod_GetUnlockProfileInfo :: "'d http_module" where
  "mod_GetUnlockProfileInfo = http_module ''GetUnlockProfileInfo'' GetUnlockProfileInfo (None) (Some ''CSGetUnlockProfileInfoRes'')"

definition GetVeteranRewardList :: "'d handler_fn" where
  "GetVeteranRewardList E q c =
     (Inr (JObj [
          (''is_veteran'', JBool False)]), c)"

definition mod_GetVeteranRewardList :: "'d http_module" where
  "mod_GetVeteranRewardList = http_module ''GetVeteranRewardList'' GetVeteranRewardList (None) (Some ''CSGetVeteranRewardListRes'')"

definition LinkFacebookAccount :: "'d handler_fn" where
  "LinkFacebookAccount E q c =
     (Inr (empty_res), c)"

definition mod_LinkFacebookAccount :: "'d http_module" where
  "mod_LinkFacebookAccount = http_module ''LinkFacebookAccount'' LinkFacebookAccount (None) (Some ''Empty'')"

definition ReadCBTGiftsAnnouncement :: "'d handler_fn" where
  "ReadCBTGiftsAnnouncement E q c =
     (Inr (empty_res), c)"

definition mod_ReadCBTGiftsAnnouncement :: "'d http_module" where
  "mod_ReadCBTGiftsAnnouncement = http_module ''ReadCBTGiftsAnnouncement'' ReadCBTGiftsAnnouncement (None) (Some ''Empty'')"

definition ReassignCaptain :: "'d handler_fn" where
  "ReassignCaptain E q c =
     (if \<not> tru (requireAccount c) then (Inr empty_res, c)
      else (Inr (empty_res), c))"

definition mod_ReassignCaptain :: "'d http_module" where
  "mod_ReassignCaptain = http_module ''ReassignCaptain'' ReassignCaptain (Some ''CSReassignCaptainReq'') (Some ''Empty'')"

definition RenamePet :: "'d handler_fn" where
  "RenamePet E q c =
     (Inr (JObj [
          (''pet_id'', jor (jand q (fld q ''pet_id'')) (JNum 0)),
          (''name'', jor (jand q (fld q ''name'')) (JStr []))]), c)"

definition mod_RenamePet :: "'d http_module" where
  "mod_RenamePet = http_module ''RenamePet'' RenamePet (Some ''CSRenamePetReq'') (Some ''CSRenameRes'')"

definition genericStub :: "'d handler_fn" where
  "genericStub E q c = (Inr empty_res, c)"

definition static_modules :: "'d http_module list" where
  "static_modules = [mod_AccountMatchStats,
     mod_ApproveJoinClanApplication,
     mod_Billboard,
     mod_CSVConfig,
     mod_ChangeMemberTypeByCaptain,
     mod_DeclineJoinClanApplication,
     mod_ExchangeGachaExtraReward,
     mod_GetActivityDesc,
     mod_GetAds,
     mod_GetAdvert,
     mod_GetAgoraToken,
     mod_GetAvatarSkillSlots,
     mod_GetBroadcastList,
     mod_GetCBTGiftsAnnouncement,
     mod_GetClanInfoByClanName,
     mod_GetClanWeekLeaderboardInfo,
     mod_GetDailyLeaderboardByAccountID,
     mod_GetFacebookFriend,
     mod_GetGiftStoreDetails,
     mod_GetNewPlayerRewardsList,
     mod_GetPlatformProfile,
     mod_GetPresenceByAccountIds,
     mod_GetRebateReward,
     mod_GetRoomList,
     mod_GetScrollMarquee,
     mod_GetTopNDailyLeaderboard,
     mod_GetUnlockProfileInfo,
     mod_GetVeteranRewardList,
     mod_LinkFacebookAccount,
     mod_ReadCBTGiftsAnnouncement,
     mod_ReassignCaptain,
     mod_RenamePet]"

end
