(* ===== verification/ReplayGuard.thy ===== *)
theory ReplayGuard
  imports Prelude
begin

text \<open>
  The HTTP replay guard (\<open>src/protocol/replayGuard.js\<close>): the signatures of recent requests with
  their expiry, in insertion order, swept at most once a second and capped. The signature is a
  SHA-256 of the endpoint and the body, a parameter. Times are milliseconds of the server's clock,
  which does not run backwards.
\<close>

section \<open>The guard\<close>

record replay_config =
  rc_enabled :: bool
  rc_window :: int
  rc_max :: nat
  rc_exclude :: "string list"

record guard =
  gd_seen :: "(bytes \<times> int) list"
  gd_lastSweep :: int

definition fresh_guard :: guard where
  "fresh_guard = \<lparr>gd_seen = [], gd_lastSweep = 0\<rparr>"

text \<open>\<open>sweep\<close>: expired entries go from the front, up to the first live one; then the oldest until
  the cap is met.\<close>

definition evict :: "nat \<Rightarrow> (bytes \<times> int) list \<Rightarrow> (bytes \<times> int) list" where
  "evict mx seen = drop (length seen - mx) seen"

definition sweep :: "replay_config \<Rightarrow> int \<Rightarrow> (bytes \<times> int) list \<Rightarrow> (bytes \<times> int) list" where
  "sweep R now seen = evict (rc_max R) (dropWhile (\<lambda>e. snd e \<le> now) seen)"

definition remove_sig :: "bytes \<Rightarrow> (bytes \<times> int) list \<Rightarrow> (bytes \<times> int) list" where
  "remove_sig sig seen = filter (\<lambda>e. fst e \<noteq> sig) seen"

text \<open>\<open>seen.set(sig, exp)\<close> of a key that is not in the map.\<close>

definition record_sig :: "replay_config \<Rightarrow> int \<Rightarrow> bytes \<Rightarrow> (bytes \<times> int) list \<Rightarrow> (bytes \<times> int) list" where
  "record_sig R now sig seen =
     (let seen' = seen @ [(sig, now + rc_window R)]
      in if length seen' > rc_max R then sweep R now seen' else seen')"

definition isReplay ::
  "replay_config \<Rightarrow> (string \<Rightarrow> bytes \<Rightarrow> bytes) \<Rightarrow> int \<Rightarrow> string \<Rightarrow> bytes \<Rightarrow> guard \<Rightarrow> bool \<times> guard" where
  "isReplay R hash now endpoint body g =
     (if \<not> rc_enabled R \<or> body = [] \<or> endpoint \<in> set (rc_exclude R) then (False, g)
      else let g1 = (if now - gd_lastSweep g > 1000
                     then \<lparr>gd_seen = sweep R now (gd_seen g), gd_lastSweep = now\<rparr> else g);
               sig = hash endpoint body
           in case map_of (gd_seen g1) sig of
                Some exp \<Rightarrow>
                  if exp > now then (True, g1)
                  else (False, g1\<lparr>gd_seen := record_sig R now sig (remove_sig sig (gd_seen g1))\<rparr>)
              | None \<Rightarrow> (False, g1\<lparr>gd_seen := record_sig R now sig (gd_seen g1)\<rparr>))"

section \<open>Invariant\<close>

text \<open>Distinct signatures, insertion order is expiry order, no entry expires later than a window
  from now, and the cap holds.\<close>

definition guard_ok :: "replay_config \<Rightarrow> int \<Rightarrow> guard \<Rightarrow> bool" where
  "guard_ok R now g \<longleftrightarrow>
     distinct (map fst (gd_seen g)) \<and> sorted (map snd (gd_seen g)) \<and>
     (\<forall>e \<in> set (gd_seen g). snd e \<le> now + rc_window R) \<and> length (gd_seen g) \<le> rc_max R"

lemma distinct_drop_map: "distinct (map f xs) \<Longrightarrow> distinct (map f (drop n xs))"
  by (simp add: drop_map [symmetric])

lemma sorted_drop_map: "sorted (map f xs) \<Longrightarrow> sorted (map f (drop n xs))"
  by (simp add: drop_map [symmetric] sorted_wrt_drop)

lemma dropWhile_drop: "\<exists>n. dropWhile P xs = drop n xs"
  by (metis dropWhile_eq_drop)

lemma sweep_drop: "\<exists>n. sweep R now seen = drop n seen"
proof -
  obtain n where "dropWhile (\<lambda>e. snd e \<le> now) seen = drop n seen"
    using dropWhile_drop by blast
  then show ?thesis
    by (auto simp: sweep_def evict_def)
qed

lemma length_sweep: "length (sweep R now seen) \<le> rc_max R"
  by (simp add: sweep_def evict_def)

lemma sorted_dropWhile_filter:
  "sorted (map snd xs) \<Longrightarrow> dropWhile (\<lambda>e. snd e \<le> (now :: int)) xs = filter (\<lambda>e. now < snd e) xs"
proof (induction xs)
  case (Cons x xs)
  show ?case
  proof (cases "snd x \<le> now")
    case True
    with Cons show ?thesis by simp
  next
    case False
    with Cons.prems have "\<forall>e \<in> set xs. now < snd e"
      by force
    with False show ?thesis
      by (simp add: filter_id_conv)
  qed
qed simp

text \<open>On a guard in order a sweep removes exactly the expired entries.\<close>

lemma sweep_live:
  assumes "sorted (map snd seen)" and "length seen \<le> rc_max R"
  shows "sweep R now seen = filter (\<lambda>e. now < snd e) seen"
proof -
  have "length (filter (\<lambda>e. now < snd e) seen) \<le> rc_max R"
    using assms(2) length_filter_le le_trans by blast
  then show ?thesis
    by (simp add: sweep_def evict_def sorted_dropWhile_filter [OF assms(1)])
qed

lemma guard_ok_mono: "guard_ok R now g \<Longrightarrow> now \<le> now' \<Longrightarrow> guard_ok R now' g"
  by (force simp: guard_ok_def)

lemma guard_ok_drop:
  "guard_ok R now g \<Longrightarrow> guard_ok R now \<lparr>gd_seen = drop n (gd_seen g), gd_lastSweep = t\<rparr>"
  by (auto simp: guard_ok_def distinct_drop_map sorted_drop_map dest: in_set_dropD)

lemma guard_ok_sweep:
  assumes "guard_ok R now g"
  shows "guard_ok R now \<lparr>gd_seen = sweep R now (gd_seen g), gd_lastSweep = t\<rparr>"
proof -
  obtain n where "sweep R now (gd_seen g) = drop n (gd_seen g)"
    using sweep_drop by blast
  with guard_ok_drop [OF assms, of n t] show ?thesis
    by simp
qed

lemma guard_ok_record:
  assumes "guard_ok R now g" and "sig \<notin> fst ` set s" and "s = filter P (gd_seen g)" and "0 \<le> rc_window R"
  shows "guard_ok R now (g\<lparr>gd_seen := record_sig R now sig s\<rparr>)"
proof -
  let ?s' = "s @ [(sig, now + rc_window R)]"
  have s: "distinct (map fst s)" "sorted (map snd s)" "\<forall>e \<in> set s. snd e \<le> now + rc_window R"
    using assms(1,3) by (auto simp: guard_ok_def distinct_map_filter sorted_filter)
  have d: "distinct (map fst ?s')" and o: "sorted (map snd ?s')" and b: "\<forall>e \<in> set ?s'. snd e \<le> now + rc_window R"
    using s assms(2) by (auto simp: sorted_append)
  show ?thesis
  proof (cases "length ?s' > rc_max R")
    case True
    obtain n where n: "sweep R now ?s' = drop n ?s'"
      using sweep_drop by blast
    have "\<forall>e \<in> set (drop n ?s'). snd e \<le> now + rc_window R"
      using b by (meson in_set_dropD)
    moreover have "length (drop n ?s') \<le> rc_max R"
      using length_sweep [of R now ?s'] by (simp add: n)
    ultimately show ?thesis
      using True n distinct_drop_map [OF d, of n] sorted_drop_map [OF o, of n]
      by (simp add: guard_ok_def record_sig_def Let_def del: drop_append)
  next
    case False
    with d o b show ?thesis
      by (simp add: guard_ok_def record_sig_def Let_def)
  qed
qed

lemma isReplay_ok:
  assumes "guard_ok R now g" and "0 \<le> rc_window R"
  shows "guard_ok R now (snd (isReplay R hash now ep body g))"
proof -
  let ?g1 = "if now - gd_lastSweep g > 1000
             then \<lparr>gd_seen = sweep R now (gd_seen g), gd_lastSweep = now\<rparr> else g"
  have g1: "guard_ok R now ?g1"
    using assms(1) guard_ok_sweep by simp
  show ?thesis
  proof (cases "map_of (gd_seen ?g1) (hash ep body)")
    case None
    then have "hash ep body \<notin> fst ` set (gd_seen ?g1)"
      by (metis map_of_eq_None_iff)
    from guard_ok_record [OF g1 this, of "\<lambda>_. True"] None g1 assms show ?thesis
      by (simp add: isReplay_def Let_def)
  next
    case (Some exp)
    have "hash ep body \<notin> fst ` set (remove_sig (hash ep body) (gd_seen ?g1))"
      by (auto simp: remove_sig_def)
    from guard_ok_record [OF g1 this] Some g1 assms show ?thesis
      by (simp add: isReplay_def Let_def remove_sig_def)
  qed
qed

section \<open>Equivalence with a log of accepted requests\<close>

text \<open>The reference: every accepted request is remembered for ever, with its expiry; a request is a
  replay when the log has an unexpired entry with its signature.\<close>

fun log_verdicts :: "int \<Rightarrow> (bytes \<times> int) list \<Rightarrow> (int \<times> bytes) list \<Rightarrow> bool list" where
  "log_verdicts w L [] = []"
| "log_verdicts w L ((now, sig) # rs) =
     (let hit = list_ex (\<lambda>e. fst e = sig \<and> now < snd e) L
      in hit # log_verdicts w (if hit then L else (sig, now + w) # L) rs)"

text \<open>The guard on a sequence of requests (time, endpoint, body).\<close>

fun guard_verdicts ::
  "replay_config \<Rightarrow> (string \<Rightarrow> bytes \<Rightarrow> bytes) \<Rightarrow> guard \<Rightarrow> (int \<times> string \<times> bytes) list \<Rightarrow> bool list" where
  "guard_verdicts R hash g [] = []"
| "guard_verdicts R hash g ((now, ep, body) # rs) =
     (case isReplay R hash now ep body g of (v, g') \<Rightarrow> v # guard_verdicts R hash g' rs)"

definition tracks :: "int \<Rightarrow> guard \<Rightarrow> (bytes \<times> int) list \<Rightarrow> bool" where
  "tracks now g L \<longleftrightarrow> (\<forall>e. now < snd e \<longrightarrow> (e \<in> set (gd_seen g) \<longleftrightarrow> e \<in> set L))"

lemma tracks_mono: "tracks now g L \<Longrightarrow> now \<le> now' \<Longrightarrow> tracks now' g L"
  by (simp add: tracks_def)

text \<open>One request, below the cap.\<close>

lemma isReplay_tracks:
  fixes hash :: "string \<Rightarrow> bytes \<Rightarrow> bytes"
  assumes ok: "guard_ok R now g" and tr: "tracks now g L" and room: "length (gd_seen g) < rc_max R"
    and on: "rc_enabled R" "body \<noteq> []" "ep \<notin> set (rc_exclude R)" and w: "0 \<le> rc_window R"
    and hit_def: "hit = list_ex (\<lambda>e. fst e = hash ep body \<and> now < snd e) L"
  shows "fst (isReplay R hash now ep body g) = hit \<and>
    tracks now (snd (isReplay R hash now ep body g)) (if hit then L else (hash ep body, now + rc_window R) # L) \<and>
    length (gd_seen (snd (isReplay R hash now ep body g))) \<le> Suc (length (gd_seen g))"
proof -
  let ?sig = "hash ep body"
  define s where "s = (if now - gd_lastSweep g > 1000 then sweep R now (gd_seen g) else gd_seen g)"
  define g1 where "g1 = (if now - gd_lastSweep g > 1000
      then \<lparr>gd_seen = sweep R now (gd_seen g), gd_lastSweep = now\<rparr> else g)"
  have gs: "gd_seen g1 = s"
    by (simp add: s_def g1_def)
  have live: "sweep R now (gd_seen g) = filter (\<lambda>e. now < snd e) (gd_seen g)"
    using ok by (intro sweep_live) (simp_all add: guard_ok_def)
  have dist: "distinct (map fst s)"
    using ok by (simp add: s_def live guard_ok_def distinct_map_filter)
  have len: "length s \<le> length (gd_seen g)"
    by (simp add: s_def live)
  have mem: "now < snd e \<Longrightarrow> e \<in> set s \<longleftrightarrow> e \<in> set L" for e
    using tr by (cases e) (simp add: s_def live tracks_def)
  have hit: "hit \<longleftrightarrow> (\<exists>exp. map_of s ?sig = Some exp \<and> now < exp)"
  proof
    assume hit
    then obtain e where e: "e \<in> set L" "fst e = ?sig" "now < snd e"
      by (auto simp: hit_def list_ex_iff)
    then have "(?sig, snd e) \<in> set s"
      using mem [of e] by (metis prod.collapse)
    then have "map_of s ?sig = Some (snd e)"
      using dist by simp
    with e(3) show "\<exists>exp. map_of s ?sig = Some exp \<and> now < exp" by blast
  next
    assume "\<exists>exp. map_of s ?sig = Some exp \<and> now < exp"
    then obtain exp where "(?sig, exp) \<in> set s" "now < exp"
      using map_of_SomeD by metis
    then show hit
      using mem [of "(?sig, exp)"] by (force simp: hit_def list_ex_iff)
  qed
  have res: "isReplay R hash now ep body g =
      (case map_of s ?sig of
         Some exp \<Rightarrow> if exp > now then (True, g1)
                      else (False, g1\<lparr>gd_seen := record_sig R now ?sig (remove_sig ?sig s)\<rparr>)
       | None \<Rightarrow> (False, g1\<lparr>gd_seen := record_sig R now ?sig s\<rparr>))"
    unfolding isReplay_def Let_def g1_def [symmetric] gs using on by simp
  have rec: "record_sig R now ?sig t = t @ [(?sig, now + rc_window R)]" if "length t \<le> length s" for t
    using that len room by (simp add: record_sig_def Let_def)
  show ?thesis
  proof (cases "map_of s ?sig")
    case None
    have new: "(if hit then L else (?sig, now + rc_window R) # L) = (?sig, now + rc_window R) # L"
      using hit None by simp
    have "tracks now (g1\<lparr>gd_seen := s @ [(?sig, now + rc_window R)]\<rparr>) ((?sig, now + rc_window R) # L)"
      using mem by (auto simp: tracks_def)
    with None hit len show ?thesis
      unfolding new by (simp add: res rec)
  next
    case (Some exp)
    show ?thesis
    proof (cases "now < exp")
      case True
      then have h: hit
        using hit Some by blast
      have "tracks now g1 L"
        using mem by (auto simp: tracks_def gs)
      with Some True h len show ?thesis
        by (simp add: res gs)
    next
      case False
      have nh: "\<not> hit"
        using hit Some False by simp
      have old: "e \<in> set s \<Longrightarrow> fst e = ?sig \<Longrightarrow> \<not> now < snd e" for e
        using Some False dist by (metis map_of_is_SomeI option.inject prod.collapse)
      have oldL: "e \<in> set L \<Longrightarrow> fst e = ?sig \<Longrightarrow> \<not> now < snd e" for e
        using old mem by blast
      have rm: "length (remove_sig ?sig s) \<le> length s"
        by (simp add: remove_sig_def)
      have "tracks now (g1\<lparr>gd_seen := remove_sig ?sig s @ [(?sig, now + rc_window R)]\<rparr>)
          ((?sig, now + rc_window R) # L)"
        using mem oldL by (auto simp: tracks_def remove_sig_def)
      with Some False nh rm len show ?thesis
        by (simp add: res rec)
    qed
  qed
qed

lemma guard_verdicts_log:
  assumes "guard_ok R t g" and "tracks t g L" and "length (gd_seen g) + length rs \<le> rc_max R"
    and "rc_enabled R" and "0 \<le> rc_window R"
    and "\<forall>x \<in> set rs. snd (snd x) \<noteq> [] \<and> fst (snd x) \<notin> set (rc_exclude R)"
    and "sorted (map fst rs)" and "\<forall>x \<in> set rs. t \<le> fst x"
  shows "guard_verdicts R hash g rs =
     log_verdicts (rc_window R) L (map (\<lambda>(now, ep, body). (now, hash ep body)) rs)"
  using assms
proof (induction rs arbitrary: t g L)
  case (Cons x rs)
  obtain now ep body where x: "x = (now, ep, body)"
    by (cases x)
  have now: "t \<le> now"
    using Cons.prems(8) by (simp add: x)
  let ?r = "isReplay R hash now ep body g"
  let ?hit = "list_ex (\<lambda>e. fst e = hash ep body \<and> now < snd e) L"
  let ?L = "if ?hit then L else (hash ep body, now + rc_window R) # L"
  have ok: "guard_ok R now g"
    using Cons.prems(1) now by (rule guard_ok_mono)
  have step: "fst ?r = ?hit \<and> tracks now (snd ?r) ?L \<and> length (gd_seen (snd ?r)) \<le> Suc (length (gd_seen g))"
    using Cons.prems by (intro isReplay_tracks [OF ok] tracks_mono [OF _ now]) (simp_all add: x)
  have "guard_verdicts R hash (snd ?r) rs =
      log_verdicts (rc_window R) ?L (map (\<lambda>(now, ep, body). (now, hash ep body)) rs)"
    using Cons.prems step isReplay_ok [OF ok Cons.prems(5), of hash ep body]
    by (intro Cons.IH [where t = now]) (auto simp: x)
  moreover obtain v g' where "?r = (v, g')"
    by (cases ?r)
  ultimately show ?case
    using step by (simp add: x Let_def)
qed simp

text \<open>
  [C16] The replay guard against its specification. On any sequence of requests in time order,
  no longer than the cap, the guard gives exactly the verdicts of a log that remembers every
  accepted request for the length of the window: a repeated body is refused while its first copy is
  fresh, and accepted again after that; sweeping loses nothing.
\<close>

theorem replay_guard_exact:
  assumes "rc_enabled R" and "0 \<le> rc_window R" and "length rs \<le> rc_max R" and "sorted (map fst rs)"
    and "\<forall>x \<in> set rs. 0 \<le> fst x \<and> snd (snd x) \<noteq> [] \<and> fst (snd x) \<notin> set (rc_exclude R)"
  shows "guard_verdicts R hash fresh_guard rs =
     log_verdicts (rc_window R) [] (map (\<lambda>(now, ep, body). (now, hash ep body)) rs)"
  using assms
  by (intro guard_verdicts_log [where t = 0]) (simp_all add: fresh_guard_def guard_ok_def tracks_def)

text \<open>A body sent at 0, 5 and 40 seconds with a window of 30: fresh, replay, fresh.\<close>

definition demo_guard :: replay_config where
  "demo_guard = \<lparr>rc_enabled = True, rc_window = 30000, rc_max = 10, rc_exclude = [''LogEvent'']\<rparr>"

definition demo_requests :: "(int \<times> string \<times> bytes) list" where
  "demo_requests = [(0, ''MajorLogin'', [1]), (5000, ''MajorLogin'', [1]), (40000, ''MajorLogin'', [1])]"

definition demo_hash :: "string \<Rightarrow> bytes \<Rightarrow> bytes" where
  "demo_hash ep body = map of_char ep @ [0] @ body"

theorem replay_guard_exact_witness:
  "guard_verdicts demo_guard demo_hash fresh_guard demo_requests = [False, True, False]"
  by (subst replay_guard_exact) (simp_all add: demo_guard_def demo_requests_def demo_hash_def)

end
