(* ===== verification/HttpRouter.thy ===== *)
theory HttpRouter
  imports LoginHandlers ProfileHandlers SocialHandlers ShopHandlers StaticHandlers ReplayGuard
begin

text \<open>
  The HTTP protocol router (\<open>src/protocol/router.js\<close>): the handler table, the authentication of a
  request by its bearer token, the handler call, the single save afterwards and the response.

  The endpoint table (\<open>protocol/endpoint_map.json\<close>), AES, base64, the protobuf codec and the hash
  of the replay guard are parameters. A request is handled as one step on the state of the process
  and the database.
\<close>

section \<open>Endpoints\<close>

definition PUBLIC_ENDPOINTS :: "string list" where
  "PUBLIC_ENDPOINTS = [''MajorLogin'', ''MajorRegister'', ''Login'', ''PlatformLogin'', ''PlatformRegister'',
     ''TestConnection'', ''GetServerInfo'']"

definition isPublicEndpoint :: "string \<Rightarrow> bool" where
  "isPublicEndpoint cmd \<longleftrightarrow> cmd \<in> set PUBLIC_ENDPOINTS \<or> startsWith cmd ''LoginGet''"

definition PLAINTEXT_ENDPOINTS :: "string list" where
  "PLAINTEXT_ENDPOINTS = [''LogEvent'', ''NetworkLogEvent'']"

record endpoint_entry =
  ee_endpoint :: string
  ee_reqType :: "string option"
  ee_resType :: "string option"

text \<open>\<open>endpointIndex\<close>: the first entry of an endpoint wins.\<close>

definition endpointIndex :: "endpoint_entry list \<Rightarrow> string \<Rightarrow> endpoint_entry option" where
  "endpointIndex tbl cmd = (if cmd = [] then None else find (\<lambda>e. ee_endpoint e = cmd) tbl)"

section \<open>The handler table\<close>

type_synonym 'd registry = "string \<Rightarrow> 'd http_module option"

definition registerHandler :: "'d http_module \<Rightarrow> 'd registry \<Rightarrow> 'd registry" where
  "registerHandler m rs = rs(hm_endpoint m \<mapsto> m)"

text \<open>\<open>_stubs.register\<close>: one stub for every endpoint of the table nobody claimed.\<close>

fun register_stubs :: "endpoint_entry list \<Rightarrow> string list \<Rightarrow> 'd registry \<Rightarrow> 'd registry" where
  "register_stubs [] seen rs = rs"
| "register_stubs (e # es) seen rs =
     (let name = ee_endpoint e in
      if name = [] then register_stubs es seen rs
      else if name \<in> set seen then register_stubs es seen rs
      else if rs name \<noteq> None then register_stubs es (name # seen) rs
      else register_stubs es (name # seen)
             (registerHandler (http_module name genericStub (ee_reqType e) (ee_resType e)) rs))"

definition all_modules :: "'d http_module list" where
  "all_modules = login_modules @ profile_modules @ social_modules @ shop_modules @ static_modules"

definition loadHandlers :: "endpoint_entry list \<Rightarrow> 'd registry" where
  "loadHandlers tbl = register_stubs tbl [] (fold registerHandler all_modules (\<lambda>_. None))"

section \<open>Requests and responses\<close>

record http_request =
  hr_cmd :: string
  hr_body :: bytes
  hr_host :: string
  hr_authorization :: string

datatype outcome =
    NotMine
  | Status int bool
  | Encoded string js
  | Failed exn

record 'd router_env =
  re_henv :: "'d henv"
  re_table :: "endpoint_entry list"
  re_owns :: "string \<Rightarrow> bool"
  re_replay :: replay_config
  re_hash :: "string \<Rightarrow> bytes \<Rightarrow> bytes"
  re_base64 :: bool
  re_from_base64 :: "bytes \<Rightarrow> bytes"
  re_decrypt :: "bytes \<Rightarrow> bytes option"
  re_decode :: "string \<Rightarrow> (bytes \<Rightarrow> js option) option"

record 'd process =
  pc_db :: 'd
  pc_guard :: guard
  pc_auth_enabled :: bool
  pc_events :: "bus_event list"

definition bodyToCipher :: "'d router_env \<Rightarrow> bytes \<Rightarrow> bytes" where
  "bodyToCipher X body = (if re_base64 X then re_from_base64 X body else body)"

text \<open>Step 1: the request object, \<open>None\<close> when decryption or decoding throws. A type the codec does
  not know leaves the empty object.\<close>

definition decode_request :: "'d router_env \<Rightarrow> string option \<Rightarrow> bytes \<Rightarrow> js option" where
  "decode_request X reqType body =
     (if body = [] then Some (JObj [])
      else (case re_decrypt X (bodyToCipher X body) of
              None \<Rightarrow> None
            | Some plain \<Rightarrow>
                (case Option.bind reqType (re_decode X) of
                   None \<Rightarrow> Some (JObj [])
                 | Some dec \<Rightarrow> dec plain)))"

text \<open>\<open>handler.x || entry.x\<close>.\<close>

definition type_name :: "string option \<Rightarrow> string option \<Rightarrow> string option" where
  "type_name a b = (if a \<noteq> None \<and> a \<noteq> Some [] then a else b)"

definition entry_type :: "(endpoint_entry \<Rightarrow> string option) \<Rightarrow> endpoint_entry option \<Rightarrow> string option" where
  "entry_type f e = (case e of None \<Rightarrow> None | Some x \<Rightarrow> f x)"

definition module_type :: "('d http_module \<Rightarrow> string option) \<Rightarrow> 'd http_module option \<Rightarrow> string option" where
  "module_type f m = (case m of None \<Rightarrow> None | Some x \<Rightarrow> f x)"

text \<open>\<open>sendEncoded\<close>: an unknown type is encoded as \<open>Empty\<close>.\<close>

definition sendEncoded :: "string option \<Rightarrow> js \<Rightarrow> outcome" where
  "sendEncoded resType obj = Encoded (or_str resType ''Empty'') (jor obj (JObj []))"

text \<open>Steps 3 and 4 for one request: the handler, the save of a dirty document with its event, the
  response. An error of the handler or of the save is passed on, and what the handler wrote to the
  database stays.\<close>

definition respond ::
  "'d henv \<Rightarrow> 'd http_module option \<Rightarrow> string option \<Rightarrow> js \<Rightarrow> js \<Rightarrow> 'd process \<Rightarrow> outcome \<times> 'd process" where
  "respond E handler resType q account p =
     (let c0 = \<lparr>hc_account = account, hc_dirty = False, hc_sent = None, hc_close = False,
                hc_events = pc_events p, hc_auth_enabled = pc_auth_enabled p, hc_db = pc_db p\<rparr>;
          out = (\<lambda>c. p\<lparr>pc_db := hc_db c, pc_auth_enabled := hc_auth_enabled c, pc_events := hc_events c\<rparr>)
      in case (case handler of None \<Rightarrow> (Inr JUndef, c0) | Some h \<Rightarrow> hm_fn h E q c0) of
           (Inl e, c1) \<Rightarrow> (Failed e, out c1)
         | (Inr res, c1) \<Rightarrow>
             (case (if hc_dirty c1 \<and> tru (hc_account c1)
                    then (case db_write (rp_save (he_repo E) (he_now E) (hc_account c1)) c1 of
                            (Inl e, c2) \<Rightarrow> (Inl e, c2)
                          | (Inr a, c2) \<Rightarrow> (Inr (), publish E (PlayerUpdated (num0 (fld a ''uid''))) c2))
                    else (Inr (), c1)) of
                (Inl e, c2) \<Rightarrow> (Failed e, out c2)
              | (Inr _, c2) \<Rightarrow>
                  (case hc_sent c2 of
                     Some st \<Rightarrow> (Status st (hc_close c2), out c2)
                   | None \<Rightarrow> (sendEncoded resType (jor res (JObj [])), out c2))))"

definition handle_request ::
  "'d router_env \<Rightarrow> http_request \<Rightarrow> 'd process \<Rightarrow> outcome \<times> 'd process" where
  "handle_request X req p =
     (let cmd = hr_cmd req;
          E = (re_henv X)\<lparr>he_host := hr_host req, he_authorization := hr_authorization req\<rparr>;
          entry = endpointIndex (re_table X) cmd;
          handler = loadHandlers (re_table X) cmd
      in if \<not> re_owns X cmd then (NotMine, p)
         else if entry = None \<and> handler = None \<and> cmd \<notin> set PLAINTEXT_ENDPOINTS then (NotMine, p)
         else if cmd \<in> set PLAINTEXT_ENDPOINTS then (Status 200 False, p)
         else let (replay, g) = isReplay (re_replay X) (re_hash X) (he_now E) cmd (hr_body req) (pc_guard p);
                  p1 = p\<lparr>pc_guard := g\<rparr>
              in if replay then (Status 409 False, p1)
                 else let reqType = type_name (module_type hm_reqType handler) (entry_type ee_reqType entry);
                          resType = type_name (module_type hm_resType handler) (entry_type ee_resType entry)
                      in case decode_request X reqType (hr_body req) of
                           None \<Rightarrow> (Failed (Thrown ''decode''), p1)
                         | Some q \<Rightarrow>
                             if isPublicEndpoint cmd then respond E handler resType q JNull p1
                             else (let token = bearer (hr_authorization req);
                                       account = (if token \<noteq> [] then rp_getByToken (he_repo E) (JStr token) (pc_db p1)
                                                  else JNull)
                                   in if \<not> tru account then (sendEncoded resType (JObj []), p1)
                                      else respond E handler resType q account p1))"

end
