(* ===== verification/AdminCore.thy ===== *)
theory AdminCore
  imports AuthGate
begin

text \<open>
  The admin commands (\<open>src/admin/core.js\<close>): player lookups, nickname, role, kick, ban and unban, with
  the auth server's ban flag and the audit log. Every command returns a result object. The auth
  accounts table is a list of rows; a failing auth query is a parameter. Presence, the queue length
  and the fleet are read from the environment.
\<close>

section \<open>State\<close>

record auth_acc =
  aa_uid :: int
  aa_open_id :: js
  aa_banned :: js
  aa_ban_reason :: js
  aa_authorized :: js

record audit_row =
  au_action :: string
  au_target :: int
  au_args :: js

record 'd admin_env =
  ae_repo :: "'d repo"
  ae_now :: int
  ae_bus :: bool
  ae_pool :: bool
  ae_node :: "int \<Rightarrow> js"
  ae_presence :: "(int \<times> string) list"
  ae_queue :: int
  ae_fleet :: "string list"
  ae_redis :: bool
  ae_postgres :: bool
  ae_authError :: "string option"

record 'd admin =
  ad_db :: 'd
  ad_auth :: "auth_acc list"
  ad_events :: "bus_event list"
  ad_audit :: "audit_row list"

section \<open>Internals\<close>

definition ad_publish :: "'d admin_env \<Rightarrow> bus_event \<Rightarrow> 'd admin \<Rightarrow> 'd admin" where
  "ad_publish A ev s = (if ae_bus A then s\<lparr>ad_events := ad_events s @ [ev]\<rparr> else s)"

definition publishUpdated :: "'d admin_env \<Rightarrow> int \<Rightarrow> 'd admin \<Rightarrow> 'd admin" where
  "publishUpdated A uid s = ad_publish A (PlayerUpdated uid) s"

definition admin_revoke :: "'d admin_env \<Rightarrow> int \<Rightarrow> string \<Rightarrow> 'd admin \<Rightarrow> (string \<times> js) list \<times> 'd admin" where
  "admin_revoke A uid reason s =
     (let node = (if ae_bus A then ae_node A uid else JNull)
      in ([(''wasOnline'', jbool node), (''node'', node)], ad_publish A (SessionRevoke uid reason) s))"

definition audit :: "'d admin_env \<Rightarrow> string \<Rightarrow> int \<Rightarrow> (string \<times> js) list \<Rightarrow> 'd admin \<Rightarrow> 'd admin" where
  "audit A action target args s =
     (if \<not> ae_pool A then s
      else s\<lparr>ad_audit := ad_audit s @ [\<lparr>au_action = action, au_target = target, au_args = jsonify (JObj args)\<rparr>]\<rparr>)"

definition flag :: "(auth_acc \<Rightarrow> bool) \<Rightarrow> bool \<Rightarrow> js \<Rightarrow> auth_acc list \<Rightarrow> auth_acc list" where
  "flag P banned reason rows =
     map (\<lambda>r. if P r then r\<lparr>aa_banned := JBool banned, aa_ban_reason := reason\<rparr> else r) rows"

definition row_count :: "(auth_acc \<Rightarrow> bool) \<Rightarrow> auth_acc list \<Rightarrow> int" where
  "row_count P rows = int (length (filter P rows))"

text \<open>By account id first, then by open id.\<close>

definition setAuthBan ::
  "'d admin_env \<Rightarrow> js \<Rightarrow> int \<Rightarrow> bool \<Rightarrow> js \<Rightarrow> 'd admin \<Rightarrow> js \<times> 'd admin" where
  "setAuthBan A openId uid banned reason s =
     (let rsn = (if banned then JStr (str reason) else JNull);
          byUid = (\<lambda>r. aa_uid r = uid); byOpen = (\<lambda>r. aa_open_id r = openId)
      in if \<not> ae_pool A then (JObj [(''ok'', JBool False), (''skipped'', JStr ''no DATABASE_URL'')], s)
         else (case ae_authError A of
                 Some e \<Rightarrow> (JObj [(''ok'', JBool False), (''error'', JStr e)], s)
               | None \<Rightarrow>
                   if row_count byUid (ad_auth s) = 0 \<and> tru openId
                   then (JObj [(''ok'', JBool True), (''rows'', JNum (row_count byOpen (ad_auth s)))],
                         s\<lparr>ad_auth := flag byOpen banned rsn (ad_auth s)\<rparr>)
                   else (JObj [(''ok'', JBool True), (''rows'', JNum (row_count byUid (ad_auth s)))],
                         s\<lparr>ad_auth := flag byUid banned rsn (ad_auth s)\<rparr>)))"

definition ad_save :: "'d admin_env \<Rightarrow> js \<Rightarrow> 'd admin \<Rightarrow> (exn + js) \<times> 'd admin" where
  "ad_save A acc s = (case rp_save (ae_repo A) (ae_now A) acc (ad_db s) of (res, d) \<Rightarrow> (res, s\<lparr>ad_db := d\<rparr>))"

definition fail_res :: "(string \<times> js) list \<Rightarrow> string \<Rightarrow> js" where
  "fail_res kvs e = JObj ((''ok'', JBool False) # kvs @ [(''error'', JStr e)])"

section \<open>Read commands\<close>

text \<open>The auth store's row of an open id, \<open>null\<close> on any error.\<close>

definition auth_row_of :: "'d admin_env \<Rightarrow> js \<Rightarrow> 'd admin \<Rightarrow> auth_acc option" where
  "auth_row_of A openId s =
     (if \<not> ae_pool A \<or> ae_authError A \<noteq> None then None else find (\<lambda>r. aa_open_id r = openId) (ad_auth s))"

definition whois :: "'d admin_env \<Rightarrow> js \<Rightarrow> 'd admin \<Rightarrow> js" where
  "whois A i s =
     (let uid = num0 i in
      if uid = 0 then JObj [(''found'', JBool False), (''error'', JStr ''invalid id'')]
      else let acc = rp_getById (ae_repo A) (JNum uid) (ad_db s)
           in if \<not> tru acc then JObj [(''found'', JBool False), (''uid'', JNum uid)]
              else let node = (if ae_bus A then ae_node A uid else JNull);
                       row = (if tru (fld acc ''open_id'') then auth_row_of A (fld acc ''open_id'') s else None);
                       authBanned = (case row of None \<Rightarrow> False
                         | Some r \<Rightarrow> aa_banned r = JBool True \<or> aa_authorized r = JBool False);
                       auth = (case row of None \<Rightarrow> JNull
                         | Some r \<Rightarrow> JObj [(''banned'', JBool (aa_banned r = JBool True)),
                             (''authorized'', JBool (aa_authorized r \<noteq> JBool False)), (''ban_reason'', aa_ban_reason r)])
                   in JObj [
                     (''found'', JBool True), (''uid'', JNum uid), (''nickname'', fld acc ''nickname''),
                     (''open_id'', fld acc ''open_id''), (''role'', fld acc ''role''), (''level'', fld acc ''level''),
                     (''banned'', JBool (fld acc ''banned'' = JBool True \<or> authBanned)),
                     (''online'', jbool node), (''node'', node), (''auth'', auth)])"

definition find_players :: "'d admin_env \<Rightarrow> js \<Rightarrow> 'd admin \<Rightarrow> js" where
  "find_players A name s =
     (let ids = map JNum (rp_searchByNickname (ae_repo A) (str (jor name (JStr []))) (ad_db s));
          accts = (if ids \<noteq> [] then rp_getByIds (ae_repo A) ids (ad_db s) else [])
      in JArr (map (\<lambda>a. JObj [(''uid'', fld a ''uid''), (''nickname'', fld a ''nickname''), (''level'', fld a ''level'')]) accts))"

definition online_players :: "'d admin_env \<Rightarrow> js" where
  "online_players A =
     (if \<not> ae_bus A then JArr []
      else JArr (map (\<lambda>p. JObj [(''uid'', JNum (fst p)), (''node'', JStr (snd p))]) (sort_key fst (ae_presence A))))"

definition stats :: "'d admin_env \<Rightarrow> js" where
  "stats A = JObj [
     (''online'', JNum (if ae_bus A then int (length (ae_presence A)) else 0)),
     (''queue'', JNum (if ae_bus A then ae_queue A else 0)),
     (''matchServers'', JArr (if ae_bus A then map JStr (ae_fleet A) else [])),
     (''redis'', JBool (ae_bus A \<and> ae_redis A)),
     (''postgres'', JBool (ae_pool A \<and> ae_postgres A))]"

section \<open>Commands that change something\<close>

definition setNickname :: "'d admin_env \<Rightarrow> js \<Rightarrow> js \<Rightarrow> 'd admin \<Rightarrow> (exn + js) \<times> 'd admin" where
  "setNickname A i name s =
     (let uid = num0 i in
      if uid = 0 then (Inr (fail_res [] ''invalid id''), s)
      else if \<not> tru name \<or> trim (str name) = [] then (Inr (fail_res [] ''empty nickname''), s)
      else let acc = rp_getById (ae_repo A) (JNum uid) (ad_db s)
           in if \<not> tru acc then (Inr (fail_res [(''uid'', JNum uid)] ''not found''), s)
              else let old = fld acc ''nickname''; new = JStr (str name)
                   in case ad_save A (put ''nickname'' new acc) s of
                        (Inl e, s1) \<Rightarrow> (Inl e, s1)
                      | (Inr _, s1) \<Rightarrow>
                          (Inr (JObj [(''ok'', JBool True), (''uid'', JNum uid), (''from'', old), (''to'', new)]),
                           audit A ''nickname'' uid [(''from'', old), (''to'', new)] (publishUpdated A uid s1)))"

definition setRole :: "'d admin_env \<Rightarrow> js \<Rightarrow> js \<Rightarrow> 'd admin \<Rightarrow> (exn + js) \<times> 'd admin" where
  "setRole A i role s =
     (let uid = num0 i in
      if uid = 0 then (Inr (fail_res [] ''invalid id''), s)
      else (case num role of
              None \<Rightarrow> (Inr (fail_res [] ''role must be an integer''), s)
            | Some r \<Rightarrow>
                let acc = rp_getById (ae_repo A) (JNum uid) (ad_db s)
                in if \<not> tru acc then (Inr (fail_res [(''uid'', JNum uid)] ''not found''), s)
                   else let old = fld acc ''role''
                        in case ad_save A (put ''role'' (JNum r) acc) s of
                             (Inl e, s1) \<Rightarrow> (Inl e, s1)
                           | (Inr _, s1) \<Rightarrow>
                               (Inr (JObj [(''ok'', JBool True), (''uid'', JNum uid), (''from'', old), (''to'', JNum r)]),
                                audit A ''role'' uid [(''from'', old), (''to'', JNum r)] (publishUpdated A uid s1))))"

definition kick :: "'d admin_env \<Rightarrow> js \<Rightarrow> js \<Rightarrow> 'd admin \<Rightarrow> (exn + js) \<times> 'd admin" where
  "kick A i reason s =
     (let uid = num0 i in
      if uid = 0 then (Inr (fail_res [] ''invalid id''), s)
      else (case admin_revoke A uid (str (jor reason (JStr ''kicked by admin''))) s of
              (res, s1) \<Rightarrow>
                (Inr (JObj ([(''ok'', JBool True), (''uid'', JNum uid)] @ res)),
                 audit A ''kick'' uid [(''reason'', jor reason JNull)] s1)))"

definition ban :: "'d admin_env \<Rightarrow> js \<Rightarrow> js \<Rightarrow> 'd admin \<Rightarrow> (exn + js) \<times> 'd admin" where
  "ban A i reason s =
     (let uid = num0 i; why = jor reason (JStr ''banned by admin'') in
      if uid = 0 then (Inr (fail_res [] ''invalid id''), s)
      else let acc = rp_getById (ae_repo A) (JNum uid) (ad_db s);
               gameFlag = tru acc
           in case (if gameFlag
                    then ad_save A (put ''ban_reason'' (JStr (str why)) (put ''banned'' (JBool True) acc)) s
                    else (Inr JNull, s)) of
                (Inl e, s1) \<Rightarrow> (Inl e, s1)
              | (Inr _, s1) \<Rightarrow>
                  (case setAuthBan A (if gameFlag then fld acc ''open_id'' else JNull) uid True why s1 of
                     (authFlag, s2) \<Rightarrow>
                       (case admin_revoke A uid (str why) s2 of
                          (res, s3) \<Rightarrow>
                            (Inr (JObj ([(''ok'', if gameFlag then JBool True else fld authFlag ''ok''), (''uid'', JNum uid),
                                       (''gameFlag'', JBool gameFlag), (''authFlag'', authFlag)] @ res)),
                             audit A ''ban'' uid [(''reason'', jor reason JNull), (''gameFlag'', JBool gameFlag),
                                (''authFlag'', authFlag)] s3))))"

definition unban :: "'d admin_env \<Rightarrow> js \<Rightarrow> 'd admin \<Rightarrow> (exn + js) \<times> 'd admin" where
  "unban A i s =
     (let uid = num0 i in
      if uid = 0 then (Inr (fail_res [] ''invalid id''), s)
      else let acc = rp_getById (ae_repo A) (JNum uid) (ad_db s);
               gameFlag = (tru acc \<and> tru (fld acc ''banned''))
           in case (if gameFlag
                    then (case ad_save A (put ''ban_reason'' JNull (put ''banned'' (JBool False) acc)) s of
                            (Inl e, s1) \<Rightarrow> (Inl e, s1) | (Inr x, s1) \<Rightarrow> (Inr x, publishUpdated A uid s1))
                    else (Inr JNull, s)) of
                (Inl e, s1) \<Rightarrow> (Inl e, s1)
              | (Inr _, s1) \<Rightarrow>
                  (case setAuthBan A (if tru acc then fld acc ''open_id'' else JNull) uid False JNull s1 of
                     (authFlag, s2) \<Rightarrow>
                       (Inr (JObj [(''ok'', JBool True), (''uid'', JNum uid), (''gameFlag'', JBool gameFlag),
                                 (''authFlag'', authFlag)]),
                        audit A ''unban'' uid [(''gameFlag'', JBool gameFlag), (''authFlag'', authFlag)] s2)))"

end
