(* ===== verification/HttpProps.thy ===== *)
theory HttpProps
  imports HttpRouter AdminCore AccountStore
begin

text \<open>
  Properties of the HTTP tier: registration and login over the account store, the gates, the bearer
  check of the router and the handler table. The lemmas about the repository are those of
  \<open>account_store\<close>, proved once and used for both backends.
\<close>

section \<open>Gates\<close>

text \<open>What a gate may change of the context: only whether the auth store is enabled.\<close>

definition gate_frame :: "'d hctx \<Rightarrow> 'd hctx \<Rightarrow> bool" where
  "gate_frame c c' \<longleftrightarrow> c' = c\<lparr>hc_auth_enabled := hc_auth_enabled c'\<rparr>"

lemma gate_frame_refl [simp]: "gate_frame c c"
  by (simp add: gate_frame_def)

lemma gate_frame_trans: "gate_frame c d \<Longrightarrow> gate_frame d e \<Longrightarrow> gate_frame c e"
  unfolding gate_frame_def by (cases c; cases d; cases e) simp

lemma gate_frame_fields:
  "gate_frame c c' \<Longrightarrow> hc_db c' = hc_db c \<and> hc_sent c' = hc_sent c \<and> hc_events c' = hc_events c \<and>
     hc_account c' = hc_account c \<and> hc_dirty c' = hc_dirty c \<and> hc_close c' = hc_close c"
  unfolding gate_frame_def by (cases c; cases c') simp

lemma runQuery_frame: "runQuery out c = (r, c') \<Longrightarrow> gate_frame c c'"
  by (auto simp: runQuery_def gate_frame_def split: pg_outcome.splits if_splits)

lemma lookup_auth_frame: "lookup_auth tbl oid c = (r, c') \<Longrightarrow> gate_frame c c'"
  by (auto simp: lookup_auth_def split: if_splits sum.splits prod.splits dest: runQuery_frame)

lemma checkRegistration_frame: "checkRegistration E oid t c = (r, c') \<Longrightarrow> gate_frame c c'"
  by (auto simp: checkRegistration_def guestByOpenId_def Let_def split: if_splits sum.splits prod.splits
      dest: lookup_auth_frame)

lemma checkBan_frame: "checkBan E oid a c = (r, c') \<Longrightarrow> gate_frame c c'"
  by (auto simp: checkBan_def accountByOpenId_def Let_def split: if_splits sum.splits prod.splits
      dest: lookup_auth_frame)

lemma runLoginGate_frame: "runLoginGate E q oid c = (r, c') \<Longrightarrow> gate_frame c c'"
  by (auto simp: runLoginGate_def split: option.splits dest: checkRegistration_frame)

lemma reject_facts:
  "reject E d uid c = (r, c') \<Longrightarrow> hc_sent c' \<noteq> None \<and> hc_db c' = hc_db c \<and> r = Inr JUndef"
  by (auto simp: reject_def revoke_def publish_def Let_def split: if_splits)

section \<open>Tokens\<close>

lemma refresh_device_ok:
  assumes "doc_ok a"
  shows "doc_ok (refresh_device q a)" and "fld (refresh_device q a) ''uid'' = fld a ''uid''"
    and "fld (refresh_device q a) ''open_id'' = fld a ''open_id''"
    and "fld (refresh_device q a) ''token'' = fld a ''token''"
  using assms by (auto simp: refresh_device_def doc_ok_def intro!: refresh_laws(3))

definition token_doc :: "'d henv \<Rightarrow> js \<Rightarrow> js \<Rightarrow> js" where
  "token_doc E q a =
     refresh_device q (put ''token_created_at'' (JNum (nowSecs E)) (put ''token'' (JStr (he_newToken E)) a))"

lemma token_doc_ok:
  assumes "doc_ok a"
  shows "doc_ok (token_doc E q a)" and "fld (token_doc E q a) ''uid'' = fld a ''uid''"
    and "fld (token_doc E q a) ''open_id'' = fld a ''open_id''"
    and "fld (token_doc E q a) ''token'' = JStr (he_newToken E)"
proof -
  let ?a = "put ''token_created_at'' (JNum (nowSecs E)) (put ''token'' (JStr (he_newToken E)) a)"
  have d: "doc_ok ?a"
    using assms by (auto simp: doc_ok_def intro!: json_ok_put)
  have o: "is_obj a"
    using assms by (simp add: doc_ok_def)
  show "doc_ok (token_doc E q a)" "fld (token_doc E q a) ''uid'' = fld a ''uid''"
    "fld (token_doc E q a) ''open_id'' = fld a ''open_id''" "fld (token_doc E q a) ''token'' = JStr (he_newToken E)"
    using refresh_device_ok [OF d, of q] o by (simp_all add: token_doc_def)
qed

text \<open>A token nobody else has.\<close>

definition fresh_token :: "('d \<Rightarrow> int \<Rightarrow> js option) \<Rightarrow> 'd \<Rightarrow> string \<Rightarrow> int \<Rightarrow> bool" where
  "fresh_token docs d t i \<longleftrightarrow> (\<forall>j c. docs d j = Some c \<longrightarrow> j \<noteq> i \<longrightarrow> fld c ''token'' \<noteq> JStr t)"

context account_store
begin

text \<open>The end of every login, over the contract of the repository.\<close>

lemma issue_token_works:
  assumes "he_repo E = Q" and "inv (hc_db c)" and "docs (hc_db c) i = Some a" and "he_newToken E \<noteq> []"
    and "fresh_token docs (hc_db c) (he_newToken E) i"
  shows "\<exists>b d'. issue_token E agora q a c = (Inr (login_response E agora b), c\<lparr>hc_db := d'\<rparr>) \<and> inv d' \<and>
    docs d' = (docs (hc_db c))(i \<mapsto> b) \<and> fld b ''uid'' = JNum i \<and> fld b ''open_id'' = fld a ''open_id'' \<and>
    rp_getByToken Q (JStr (he_newToken E)) d' = b \<and>
    (\<forall>t. t \<noteq> he_newToken E \<and> fresh_token docs (hc_db c) t i \<longrightarrow> rp_getByToken Q (JStr t) d' = JNull)"
proof -
  let ?b = "token_doc E q a"
  have a: "doc_ok a" "fld a ''uid'' = JNum i" "i \<noteq> 0"
    using docs_ok [OF assms(2,3)] by auto
  note b = token_doc_ok [OF a(1), of E q]
  have uid: "fld ?b ''uid'' = JNum i"
    using b(2) a(2) by simp
  obtain r d' where s: "rp_save Q (he_now E) ?b (hc_db c) = (r, d')" by fastforce
  note sr = save_read [OF assms(2,3) b(1) uid b(3) s]
  note st = save_token [OF assms(2,3) b(1) uid b(3) s b(4) assms(4)]
  have "issue_token E agora q a c = (Inr (login_response E agora (stamp (he_now E) ?b)), c\<lparr>hc_db := d'\<rparr>)"
    using s sr assms(1) by (simp add: issue_token_def Let_def token_doc_def db_write_def)
  moreover have "rp_getByToken Q (JStr (he_newToken E)) d' = stamp (he_now E) ?b"
    using st(1) assms(5) by (auto simp: fresh_token_def)
  moreover have "rp_getByToken Q (JStr t) d' = JNull" if "t \<noteq> he_newToken E" "fresh_token docs (hc_db c) t i" for t
    using st(2) [OF _ that(1)] assms(5) that(2) by (auto simp: fresh_token_def)
  moreover have "fld (stamp (he_now E) ?b) ''uid'' = JNum i" "fld (stamp (he_now E) ?b) ''open_id'' = fld a ''open_id''"
    using doc_ok_stamp(2) [OF b(1) uid a(3)] doc_ok_stamp(4) [OF b(1) uid a(3), of "''open_id''"] b(3) by simp_all
  ultimately show ?thesis
    using sr by blast
qed

text \<open>The lookup by open id and the token, without any gate.\<close>

lemma login_unchecked:
  assumes "he_repo E = Q" and "inv (hc_db c)" and "docs (hc_db c) i = Some a"
    and "fld a ''open_id'' = JStr (deriveOpenId (he_guest E) q)" and "he_newToken E \<noteq> []"
    and "fresh_token docs (hc_db c) (he_newToken E) i"
  shows "rp_getByOpenId (he_repo E) (JStr (deriveOpenId (he_guest E) q)) (hc_db c) = a \<and>
    (\<exists>b d'. issue_token E agora q a c = (Inr (login_response E agora b), c\<lparr>hc_db := d'\<rparr>) \<and>
       rp_getByToken (he_repo E) (JStr (he_newToken E)) d' = b \<and> fld b ''uid'' = JNum i)"
  using by_open_id [OF assms(2,3,4) deriveOpenId_nonempty] issue_token_works [OF assms(1,2,3,5,6), of agora q] assms(1)
  by auto

text \<open>A gated login that was not refused.\<close>

lemma gated_login_works:
  assumes "he_repo E = Q" and "inv (hc_db c)" and "hc_sent c = None" and "gated_login agora E q c = (res, c')"
    and "hc_sent c' = None" and "he_newToken E \<noteq> []"
    and "\<And>i. fresh_token docs (hc_db c) (he_newToken E) i"
  shows "\<exists>i a b. docs (hc_db c) i = Some a \<and> fld a ''open_id'' = JStr (deriveOpenId (he_guest E) q) \<and>
    res = Inr (login_response E agora b) \<and> inv (hc_db c') \<and> docs (hc_db c') = (docs (hc_db c))(i \<mapsto> b) \<and>
    fld b ''uid'' = JNum i \<and> rp_getByToken Q (JStr (he_newToken E)) (hc_db c') = b \<and>
    (\<forall>t. t \<noteq> he_newToken E \<and> fresh_token docs (hc_db c) t i \<longrightarrow> rp_getByToken Q (JStr t) (hc_db c') = JNull)"
proof -
  let ?oid = "deriveOpenId (he_guest E) q"
  obtain g c1 where g: "runLoginGate E q ?oid c = (g, c1)" by fastforce
  have f1: "hc_db c1 = hc_db c" "hc_sent c1 = None"
    using gate_frame_fields [OF runLoginGate_frame [OF g]] assms(3) by simp_all
  have n: "g = None"
    using assms(4,5) g by (cases g) (auto simp: gated_login_def Let_def dest: reject_facts)
  from open_id_cases [OF assms(2) deriveOpenId_nonempty, of "he_guest E" q]
  consider (found) i a where "docs (hc_db c) i = Some a" "fld a ''open_id'' = JStr ?oid"
      "rp_getByOpenId Q (JStr ?oid) (hc_db c) = a" "tru a"
    | (missing) "rp_getByOpenId Q (JStr ?oid) (hc_db c) = JNull" by metis
  then show ?thesis
  proof cases
    case missing
    then show ?thesis
      using assms(1,4,5) g n f1 by (auto simp: gated_login_def Let_def not_registered_def)
  next
    case (found i a)
    obtain b c2 where b: "checkBan E ?oid a c1 = (b, c2)" by fastforce
    have f2: "hc_db c2 = hc_db c"
      using gate_frame_fields [OF checkBan_frame [OF b]] f1 by simp
    have "b = None"
      using assms(1,4,5) g n f1 found(3,4) b
      by (cases b) (auto simp: gated_login_def Let_def dest: reject_facts)
    then have "issue_token E agora q a c2 = (res, c')"
      using assms(1,4) g n f1 found(3,4) b by (simp add: gated_login_def Let_def)
    moreover from issue_token_works [OF assms(1), of c2 i a agora q] obtain b' d'
      where "issue_token E agora q a c2 = (Inr (login_response E agora b'), c2\<lparr>hc_db := d'\<rparr>)" "inv d'"
        "docs d' = (docs (hc_db c))(i \<mapsto> b')" "fld b' ''uid'' = JNum i"
        "rp_getByToken Q (JStr (he_newToken E)) d' = b'"
        "\<forall>t. t \<noteq> he_newToken E \<and> fresh_token docs (hc_db c) t i \<longrightarrow> rp_getByToken Q (JStr t) d' = JNull"
      using assms(2,6,7) found(1) f2 by auto
    ultimately show ?thesis
      using found(1,2) by auto
  qed
qed

end

text \<open>The backend of a configuration.\<close>

lemma getRepo_cases: "getRepo url guest = pg_repo guest \<or> getRepo url guest = sqlite_repo guest"
  by (simp add: getRepo_def)

text \<open>
  [C25] A login hands out a token that works. When \<open>MajorLogin\<close> (or \<open>PlatformLogin\<close>) is not refused,
  there is an account with the open id of the request, the response carries the new token, this token
  now leads to that account, whose document is the only one that changed, and the token the account
  had before leads nowhere. This holds for both backends.
\<close>

theorem login_token_works:
  assumes "he_repo E = getRepo url guest" and "db_ok (hc_db c)" and "hc_sent c = None"
    and "gated_login agora E q c = (res, c')" and "hc_sent c' = None" and "he_newToken E \<noteq> []"
    and "\<And>i. fresh_token acct (hc_db c) (he_newToken E) i"
  shows "\<exists>i a b. acct (hc_db c) i = Some a \<and> fld a ''open_id'' = JStr (deriveOpenId (he_guest E) q) \<and>
    res = Inr (login_response E agora b) \<and> db_ok (hc_db c') \<and> acct (hc_db c') = (acct (hc_db c))(i \<mapsto> b) \<and>
    fld b ''uid'' = JNum i \<and> rp_getByToken (he_repo E) (JStr (he_newToken E)) (hc_db c') = b \<and>
    (\<forall>t. t \<noteq> he_newToken E \<and> fresh_token acct (hc_db c) t i \<longrightarrow>
       rp_getByToken (he_repo E) (JStr t) (hc_db c') = JNull)"
  using pg.gated_login_works [OF _ assms(2-7), of guest] sqlite.gated_login_works [OF _ assms(2-7), of guest]
    getRepo_cases [of url guest] assms(1) by auto

text \<open>The demo server: gates off, the token \<open>tok\<close>, the document store or Postgres by the URL.\<close>

definition demo_cfg :: http_config where
  "demo_cfg = \<lparr>cf_serverUrl = [], cf_mainPort = 3002, cf_tcpPort = 0, cf_gameServerPort = [], cf_chatPort = [],
     cf_notificationPort = [], cf_domain_tcp = [], cf_domain_match = [], cf_enforceRegistration = False,
     cf_enforceLoginToken = False, cf_allowGuest = True, cf_guestOpenId = ''g'', cf_allowedVersions = [],
     cf_allowedSignatures = [], cf_enforceBans = True\<rparr>"

definition demo_henv :: "db henv" where
  "demo_henv = \<lparr>he_repo = getRepo ''url'' ''g'', he_guest = ''g'', he_now = 9000, he_newToken = ''tok'', he_rand = (\<lambda>_. 0),
     he_host = [], he_authorization = [], he_localIp = [], he_bus = False, he_online = (\<lambda>_. False), he_cfg = demo_cfg,
     he_guests = (\<lambda>_. Rows []), he_accounts = (\<lambda>_. Rows []), he_items = []\<rparr>"

definition demo_ctx :: "db hctx" where
  "demo_ctx = \<lparr>hc_account = JNull, hc_dirty = False, hc_sent = None, hc_close = False, hc_events = [],
     hc_auth_enabled = False, hc_db = demo_db\<rparr>"

lemma demo_henv_sel [simp]:
  "he_repo demo_henv = pg_repo ''g''" "he_guest demo_henv = ''g''" "he_newToken demo_henv = ''tok''"
  "he_cfg demo_henv = demo_cfg"
  by (simp_all add: demo_henv_def getRepo_def)

lemma demo_found:
  "rp_getByOpenId (pg_repo ''g'') (JStr ''ann'') demo_db = demo_doc 1 ''ann''" "tru (demo_doc 1 ''ann'')"
  using pg.by_open_id [OF demo_db_facts(1), of 1 "demo_doc 1 ''ann''" "''ann''"] demo_doc_facts [of 1 "''ann''"]
  by (simp_all add: demo_db_facts doc_ok_def is_obj_tru)

lemma demo_doc_not_banned: "fld (demo_doc 1 ''ann'') ''banned'' = JBool False"
proof -
  have "fld (new_document 1 ''ann'' 5 (demo_reg ''ann'')) ''banned'' = JBool False"
    by (simp add: new_document_def Let_def DEFAULT_PLAYER_def default_identity_def)
  moreover note n = new_document_ok [of 1 "''ann''" 5 "demo_reg ''ann''"]
  ultimately show ?thesis
    using doc_ok_stamp(4) [OF n(1,2), of "''banned''" 5] by (simp add: demo_doc_def)
qed

lemma issue_token_sent: "issue_token E agora q a c = (r, c') \<Longrightarrow> hc_sent c' = hc_sent c"
  by (auto simp: issue_token_def db_write_def Let_def split: prod.splits sum.splits)

lemma demo_gated: "gated_login agora demo_henv (demo_reg ''ann'') demo_ctx = issue_token demo_henv agora (demo_reg ''ann'') (demo_doc 1 ''ann'') demo_ctx"
  by (simp add: gated_login_def runLoginGate_def checkVersion_def checkSignature_def checkRegistration_def checkBan_def
      Let_def demo_cfg_def demo_ctx_def demo_found demo_doc_not_banned)

lemma demo_fresh: "fresh_token acct demo_db ''tok'' i"
  by (auto simp: fresh_token_def demo_db_facts demo_doc_facts split: if_splits)

theorem login_token_works_witness:
  "\<exists>b c'. gated_login ''live'' demo_henv (demo_reg ''ann'') demo_ctx = (Inr (login_response demo_henv ''live'' b), c') \<and>
     rp_getByToken (pg_repo ''g'') (JStr ''tok'') (hc_db c') = b \<and> fld b ''uid'' = JNum 1"
proof -
  obtain res c' where g: "gated_login ''live'' demo_henv (demo_reg ''ann'') demo_ctx = (res, c')" by fastforce
  have s: "hc_sent c' = None"
    using issue_token_sent [OF g [unfolded demo_gated]] by (simp add: demo_ctx_def)
  show ?thesis
    using login_token_works [OF _ _ _ g s, of "''url''" "''g''"] g
    by (auto simp: demo_ctx_def demo_db_facts demo_fresh getRepo_def demo_doc_facts split: if_splits)
qed

text \<open>
  Registering is idempotent. Two registrations (or a registration and any later one) with the
  same open id give the same account id, in both backends, leave one account for it, and change no
  other account.
\<close>

theorem registration_idempotent:
  assumes "db_ok d" and "rp_createFromLogin (getRepo url guest) now q d = (r1, d1)"
    and "deriveOpenId guest (jor q' (JObj [])) = deriveOpenId guest (jor q (JObj []))"
    and "rp_createFromLogin (getRepo url guest) now' q' d1 = (r2, d2)"
  shows "\<exists>i a b. r1 = Inr a \<and> r2 = Inr b \<and> 0 < i \<and> fld a ''uid'' = JNum i \<and> fld b ''uid'' = JNum i \<and>
     db_ok d2 \<and> acct d1 i = Some a \<and> acct d2 i = Some b \<and> (\<forall>j. j \<noteq> i \<longrightarrow> acct d2 j = acct d j)"
proof -
  consider (pg) "getRepo url guest = pg_repo guest" | (lite) "getRepo url guest = sqlite_repo guest"
    using getRepo_cases by blast
  then show ?thesis
  proof cases
    case pg
    show ?thesis
      by (rule pg.register_same_account [OF assms(1) assms(2) [unfolded pg] assms(3) assms(4) [unfolded pg]])
  next
    case lite
    show ?thesis
      by (rule sqlite.register_same_account [OF assms(1) assms(2) [unfolded lite] assms(3) assms(4) [unfolded lite]])
  qed
qed

theorem registration_idempotent_witness:
  "\<exists>a b d1 d2. rp_createFromLogin (getRepo [] ''g'') 5 (demo_reg ''ann'') empty_db = (Inr a, d1) \<and>
     rp_createFromLogin (getRepo [] ''g'') 8 (demo_reg ''ann'') d1 = (Inr b, d2) \<and> fld a ''uid'' = fld b ''uid''"
proof -
  obtain r1 d1 where 1: "rp_createFromLogin (getRepo [] ''g'') 5 (demo_reg ''ann'') empty_db = (r1, d1)" by fastforce
  obtain r2 d2 where 2: "rp_createFromLogin (getRepo [] ''g'') 8 (demo_reg ''ann'') d1 = (r2, d2)" by fastforce
  show ?thesis
    using registration_idempotent [OF db_ok_empty 1 _ 2] 1 2 by auto
qed

section \<open>What the gates cover\<close>

text \<open>Behind the other gates, a banned document refuses a gated login.\<close>

lemma banned_refused:
  assumes "cf_enforceBans (he_cfg E)" and "hc_sent c = None"
    and "rp_getByOpenId (he_repo E) (JStr (deriveOpenId (he_guest E) q)) (hc_db c) = a" and "tru a"
    and "fld a ''banned'' = JBool True" and "gated_login agora E q c = (res, c')"
  shows "hc_sent c' \<noteq> None \<and> hc_db c' = hc_db c"
proof -
  let ?oid = "deriveOpenId (he_guest E) q"
  obtain g c1 where g: "runLoginGate E q ?oid c = (g, c1)" by fastforce
  have f: "hc_db c1 = hc_db c"
    using gate_frame_fields [OF runLoginGate_frame [OF g]] by simp
  show ?thesis
  proof (cases g)
    case (Some d)
    with assms(6) g f show ?thesis
      by (auto simp: gated_login_def Let_def dest: reject_facts)
  next
    case None
    have "checkBan E ?oid a c1 = (Some (refuse ''account banned (local)'' True False), c1)"
      using assms(1,5) by (simp add: checkBan_def)
    with None assms(3,4,6) g f show ?thesis
      by (auto simp: gated_login_def Let_def dest: reject_facts)
  qed
qed

text \<open>
  [C26] A ban stops the gated logins and nothing else. With bans enforced, an account that is banned in
  its own document gets no token from \<open>MajorLogin\<close> or \<open>PlatformLogin\<close>: the request is answered with a
  status and the database is unchanged. The third alias, \<open>Login\<close>, runs no gate: it issues a token to
  the same account, whatever the configuration.
\<close>

theorem ban_stops_gated_logins_only:
  assumes "db_ok (hc_db c)" and "he_repo E = getRepo url guest" and "cf_enforceBans (he_cfg E)" and "hc_sent c = None"
    and "acct (hc_db c) i = Some a" and "fld a ''open_id'' = JStr (deriveOpenId (he_guest E) q)"
    and "fld a ''banned'' = JBool True" and "he_newToken E \<noteq> []" and "fresh_token acct (hc_db c) (he_newToken E) i"
    and "gated_login agora E q c = (res, c')"
  shows "hc_sent c' \<noteq> None \<and> hc_db c' = hc_db c \<and>
    (\<exists>b d'. Login E q c = (Inr (login_response E [] b), c\<lparr>hc_db := d'\<rparr>) \<and>
       rp_getByToken (he_repo E) (JStr (he_newToken E)) d' = b \<and> fld b ''uid'' = JNum i)"
proof -
  let ?oid = "deriveOpenId (he_guest E) q"
  have li: "rp_getByOpenId (he_repo E) (JStr ?oid) (hc_db c) = a \<and>
      (\<exists>b d'. issue_token E [] q a c = (Inr (login_response E [] b), c\<lparr>hc_db := d'\<rparr>) \<and>
         rp_getByToken (he_repo E) (JStr (he_newToken E)) d' = b \<and> fld b ''uid'' = JNum i)"
  proof (cases "getRepo url guest = pg_repo guest")
    case True
    show ?thesis
      by (rule pg.login_unchecked [OF assms(2) [unfolded True] assms(1,5,6,8,9)])
  next
    case False
    then have "getRepo url guest = sqlite_repo guest"
      using getRepo_cases by blast
    then show ?thesis
      by (intro sqlite.login_unchecked [OF _ assms(1,5,6,8,9)]) (simp add: assms(2))
  qed
  then have found: "rp_getByOpenId (he_repo E) (JStr ?oid) (hc_db c) = a"
    by blast
  have a: "tru a"
    using acct_docs_ok [OF assms(1,5)] by (simp add: doc_ok_def is_obj_tru)
  have "hc_sent c' \<noteq> None \<and> hc_db c' = hc_db c"
    by (rule banned_refused [OF assms(3,4) found a assms(7,10)])
  moreover have "Login E q c = issue_token E [] q a c"
    using found a by (simp add: Login_def Let_def)
  ultimately show ?thesis
    using li by simp
qed

text \<open>The account of \<open>ann\<close>, banned by an administrator.\<close>

definition banned_doc :: js where
  "banned_doc = put ''banned'' (JBool True) (demo_doc 1 ''ann'')"

definition banned_db :: db where
  "banned_db = snd (save 9 banned_doc demo_db)"

lemma banned_doc_facts:
  "doc_ok banned_doc" "fld banned_doc ''uid'' = JNum 1" "fld banned_doc ''open_id'' = JStr ''ann''"
  "fld banned_doc ''banned'' = JBool True" "fld banned_doc ''token'' = JNull"
proof -
  have d: "doc_ok (demo_doc 1 ''ann'')" "is_obj (demo_doc 1 ''ann'')"
    using demo_doc_facts(1) [of 1 "''ann''"] by (simp_all add: doc_ok_def)
  then show "doc_ok banned_doc"
    by (auto simp: doc_ok_def banned_doc_def intro!: json_ok_put)
  show "fld banned_doc ''uid'' = JNum 1" "fld banned_doc ''open_id'' = JStr ''ann''"
    "fld banned_doc ''banned'' = JBool True" "fld banned_doc ''token'' = JNull"
    using d(2) by (simp_all add: banned_doc_def demo_doc_facts)
qed

lemma banned_db_facts:
  shows "db_ok banned_db" and "acct banned_db = [1 \<mapsto> stamp 9 banned_doc, 2 \<mapsto> demo_doc 2 ''bob'']"
proof -
  have a: "acct demo_db 1 = Some (demo_doc 1 ''ann'')"
    by (simp add: demo_db_facts)
  have o: "fld banned_doc ''open_id'' = fld (demo_doc 1 ''ann'') ''open_id''"
    by (simp add: banned_doc_facts demo_doc_facts)
  show "db_ok banned_db" "acct banned_db = [1 \<mapsto> stamp 9 banned_doc, 2 \<mapsto> demo_doc 2 ''bob'']"
    using acct_saves [OF demo_db_facts(1) a banned_doc_facts(1,2) o, of 9]
    by (auto simp: banned_db_def demo_db_facts)
qed

lemma banned_stamp:
  "fld (stamp 9 banned_doc) ''open_id'' = JStr ''ann''" "fld (stamp 9 banned_doc) ''banned'' = JBool True"
  "fld (stamp 9 banned_doc) ''token'' = JNull"
  using doc_ok_stamp(4) [OF banned_doc_facts(1,2)] by (simp_all add: banned_doc_facts)

theorem ban_stops_gated_logins_only_witness:
  "hc_sent (snd (gated_login ''live'' demo_henv (demo_reg ''ann'') (demo_ctx\<lparr>hc_db := banned_db\<rparr>))) \<noteq> None \<and>
   (\<exists>b c'. Login demo_henv (demo_reg ''ann'') (demo_ctx\<lparr>hc_db := banned_db\<rparr>) = (Inr (login_response demo_henv [] b), c') \<and>
      fld b ''uid'' = JNum 1)"
proof -
  let ?c = "demo_ctx\<lparr>hc_db := banned_db\<rparr>"
  obtain res c' where g: "gated_login ''live'' demo_henv (demo_reg ''ann'') ?c = (res, c')" by fastforce
  have f: "fresh_token acct banned_db ''tok'' 1"
    by (auto simp: fresh_token_def banned_db_facts demo_doc_facts banned_stamp split: if_splits)
  show ?thesis
    using ban_stops_gated_logins_only [OF _ _ _ _ _ _ _ _ _ g, of "''url''" "''g''" 1 "stamp 9 banned_doc"] g f
    by (auto simp: demo_ctx_def banned_db_facts getRepo_def demo_cfg_def banned_stamp)
qed

section \<open>The bearer check\<close>

text \<open>
  [C28] No endpoint that needs a login runs without one. For an endpoint that is not public, a request
  without a bearer token that leads to an account runs no handler: the database, the events and the
  auth store's state stay as they were, and the answer is one of those that come before the handler
  (not routed, the plaintext acknowledgement, a refused replay, an undecodable body) or the empty
  response.
\<close>

theorem bearer_required:
  assumes "\<not> isPublicEndpoint (hr_cmd req)"
    and "bearer (hr_authorization req) = [] \<or>
      \<not> tru (rp_getByToken (he_repo (re_henv X)) (JStr (bearer (hr_authorization req))) (pc_db p))"
    and "handle_request X req p = (out, p')"
  shows "pc_db p' = pc_db p \<and> pc_events p' = pc_events p \<and> pc_auth_enabled p' = pc_auth_enabled p \<and>
    (out \<in> {NotMine, Status 200 False, Status 409 False, Failed (Thrown ''decode'')} \<or>
     (\<exists>rt. out = sendEncoded rt (JObj [])))"
  using assms by (auto simp: handle_request_def Let_def split: if_splits prod.splits option.splits)

definition demo_router :: "db router_env" where
  "demo_router = \<lparr>re_henv = demo_henv, re_table = [], re_owns = (\<lambda>_. True),
     re_replay = \<lparr>rc_enabled = False, rc_window = 0, rc_max = 0, rc_exclude = []\<rparr>, re_hash = (\<lambda>_ b. b),
     re_base64 = False, re_from_base64 = (\<lambda>b. b), re_decrypt = Some, re_decode = (\<lambda>_. None)\<rparr>"

definition demo_process :: "db process" where
  "demo_process = \<lparr>pc_db = demo_db, pc_guard = fresh_guard, pc_auth_enabled = False, pc_events = []\<rparr>"

definition demo_request :: http_request where
  "demo_request = \<lparr>hr_cmd = ''GetWallet'', hr_body = [], hr_host = [], hr_authorization = ''Bearer guess''\<rparr>"

theorem bearer_required_witness:
  "pc_db (snd (handle_request demo_router demo_request demo_process)) = demo_db"
proof -
  obtain out p' where h: "handle_request demo_router demo_request demo_process = (out, p')" by fastforce
  have b: "bearer ''Bearer guess'' = ''guess''"
    by (simp add: bearer_def startsWith_def trim_def is_ws_def)
  have "rp_getByToken (pg_repo ''g'') (JStr ''guess'') demo_db = JNull"
    by (rule pg.by_token_none [OF demo_db_facts(1)]) (auto simp: demo_db_facts demo_doc_facts split: if_splits)
  then show ?thesis
    using bearer_required [OF _ _ h] h b
    by (simp add: demo_request_def demo_router_def demo_process_def isPublicEndpoint_def PUBLIC_ENDPOINTS_def startsWith_def)
qed

section \<open>The handler table\<close>

lemma register_fold:
  "distinct (map hm_endpoint ms) \<Longrightarrow>
     fold registerHandler ms rs cmd = (case find (\<lambda>m. hm_endpoint m = cmd) ms of Some m \<Rightarrow> Some m | None \<Rightarrow> rs cmd)"
proof (induction ms arbitrary: rs)
  case (Cons m ms)
  show ?case
  proof (cases "hm_endpoint m = cmd")
    case True
    with Cons.prems have "find (\<lambda>m. hm_endpoint m = cmd) ms = None"
      by (simp add: find_None_iff) (metis rev_image_eqI)
    with Cons True show ?thesis
      by (simp add: registerHandler_def)
  next
    case False
    with Cons show ?thesis
      by (simp add: registerHandler_def split: option.split)
  qed
qed simp

text \<open>The endpoints of all handler modules.\<close>

lemmas module_defs =
  mod_MajorLogin_def mod_PlatformLogin_def mod_Login_def mod_MajorRegister_def mod_Logout_def
  mod_ChooseRegion_def mod_GetLoginData_def mod_LoginGetSplash_def mod_LoginGetBroadcast_def
  mod_LoginGetDesc_def mod_LoginGetProfile_def mod_ChooseBanner_def mod_ChooseHeadPic_def
  mod_ChooseLoadout_def mod_ChooseSlots_def mod_ChooseShow_def mod_ChooseEmote_def mod_SelectProfile_def
  mod_ChangeClothes_def mod_EquipSkill_def mod_GetProfiles_def mod_GetSkills_def mod_UnlockSkillSlot_def
  mod_UnlockProfile_def mod_SetShowRank_def mod_RequestAddingFriend_def mod_ConfirmFriendRequest_def
  mod_DeclineFriendRequest_def mod_RemoveFriend_def mod_GetFriend_def mod_GetFriendIDs_def
  mod_GetFriendRequestList_def mod_GetAccountInfoByAccountID_def mod_FuzzySearchAccountByName_def
  mod_GetPlayerPersonalShow_def mod_CreateClan_def mod_DismissClan_def mod_QuitClan_def
  mod_ModifyClanInfo_def mod_ModifyClanName_def mod_RemoveClanMember_def mod_GetClanMembers_def
  mod_GetWallet_def mod_GetBackpack_def mod_Purchase_def mod_GetStore_def mod_GetGiftStore_def
  mod_GetBundle_def mod_GetEPInfo_def mod_EPClaimBadge_def mod_EPPurchaseBadge_def mod_EPPurchase_def
  mod_PurchaseGacha_def mod_GetGachaDesc_def mod_GetGachaInfo_def mod_GetGachaSpecialExchangeDesc_def
  mod_ReadMail_def mod_GetMailList_def mod_GetPlayerStats_def mod_GetPlayerRankingInfo_def
  mod_GetAttendanceList_def mod_AccountMatchStats_def mod_ApproveJoinClanApplication_def mod_Billboard_def
  mod_CSVConfig_def mod_ChangeMemberTypeByCaptain_def mod_DeclineJoinClanApplication_def
  mod_ExchangeGachaExtraReward_def mod_GetActivityDesc_def mod_GetAds_def mod_GetAdvert_def
  mod_GetAgoraToken_def mod_GetAvatarSkillSlots_def mod_GetBroadcastList_def mod_GetCBTGiftsAnnouncement_def
  mod_GetClanInfoByClanName_def mod_GetClanWeekLeaderboardInfo_def mod_GetDailyLeaderboardByAccountID_def
  mod_GetFacebookFriend_def mod_GetGiftStoreDetails_def mod_GetNewPlayerRewardsList_def
  mod_GetPlatformProfile_def mod_GetPresenceByAccountIds_def mod_GetRebateReward_def mod_GetRoomList_def
  mod_GetScrollMarquee_def mod_GetTopNDailyLeaderboard_def mod_GetUnlockProfileInfo_def
  mod_GetVeteranRewardList_def mod_LinkFacebookAccount_def mod_ReadCBTGiftsAnnouncement_def
  mod_ReassignCaptain_def mod_RenamePet_def

definition all_endpoints :: "string list" where
  "all_endpoints = [
     ''MajorLogin'', ''PlatformLogin'', ''Login'', ''MajorRegister'', ''Logout'', ''ChooseRegion'',
     ''GetLoginData'', ''LoginGetSplash'', ''LoginGetBroadcast'', ''LoginGetDesc'', ''LoginGetProfile'',
     ''ChooseBanner'', ''ChooseHeadPic'', ''ChooseLoadout'', ''ChooseSlots'', ''ChooseShow'',
     ''ChooseEmote'', ''SelectProfile'', ''ChangeClothes'', ''EquipSkill'', ''GetProfiles'', ''GetSkills'',
     ''UnlockSkillSlot'', ''UnlockProfile'', ''SetShowRank'', ''RequestAddingFriend'',
     ''ConfirmFriendRequest'', ''DeclineFriendRequest'', ''RemoveFriend'', ''GetFriend'', ''GetFriendIDs'',
     ''GetFriendRequestList'', ''GetAccountInfoByAccountID'', ''FuzzySearchAccountByName'',
     ''GetPlayerPersonalShow'', ''CreateClan'', ''DismissClan'', ''QuitClan'', ''ModifyClanInfo'',
     ''ModifyClanName'', ''RemoveClanMember'', ''GetClanMembers'', ''GetWallet'', ''GetBackpack'',
     ''Purchase'', ''GetStore'', ''GetGiftStore'', ''GetBundle'', ''GetEPInfo'', ''EPClaimBadge'',
     ''EPPurchaseBadge'', ''EPPurchase'', ''PurchaseGacha'', ''GetGachaDesc'', ''GetGachaInfo'',
     ''GetGachaSpecialExchangeDesc'', ''ReadMail'', ''GetMailList'', ''GetPlayerStats'',
     ''GetPlayerRankingInfo'', ''GetAttendanceList'', ''AccountMatchStats'', ''ApproveJoinClanApplication'',
     ''Billboard'', ''CSVConfig'', ''ChangeMemberTypeByCaptain'', ''DeclineJoinClanApplication'',
     ''ExchangeGachaExtraReward'', ''GetActivityDesc'', ''GetAds'', ''GetAdvert'', ''GetAgoraToken'',
     ''GetAvatarSkillSlots'', ''GetBroadcastList'', ''GetCBTGiftsAnnouncement'', ''GetClanInfoByClanName'',
     ''GetClanWeekLeaderboardInfo'', ''GetDailyLeaderboardByAccountID'', ''GetFacebookFriend'',
     ''GetGiftStoreDetails'', ''GetNewPlayerRewardsList'', ''GetPlatformProfile'',
     ''GetPresenceByAccountIds'', ''GetRebateReward'', ''GetRoomList'', ''GetScrollMarquee'',
     ''GetTopNDailyLeaderboard'', ''GetUnlockProfileInfo'', ''GetVeteranRewardList'',
     ''LinkFacebookAccount'', ''ReadCBTGiftsAnnouncement'', ''ReassignCaptain'', ''RenamePet'']"

lemma endpoints_of_modules: "map hm_endpoint all_modules = all_endpoints"
  by (simp add: all_modules_def all_endpoints_def login_modules_def profile_modules_def social_modules_def
      shop_modules_def static_modules_def module_defs http_module_def)

lemma distinct_endpoints: "distinct all_endpoints"
  by (simp add: all_endpoints_def)

lemma register_stubs_other:
  "rs cmd \<noteq> None \<or> cmd \<in> set seen \<or> cmd = [] \<Longrightarrow> register_stubs es seen rs cmd = rs cmd"
  by (induction es seen rs rule: register_stubs.induct) (auto simp: Let_def registerHandler_def http_module_def)

lemma register_stubs_new:
  "rs cmd = None \<Longrightarrow> cmd \<notin> set seen \<Longrightarrow> cmd \<noteq> [] \<Longrightarrow>
     register_stubs es seen rs cmd =
       map_option (\<lambda>e. http_module cmd genericStub (ee_reqType e) (ee_resType e)) (find (\<lambda>e. ee_endpoint e = cmd) es)"
proof (induction es seen rs rule: register_stubs.induct)
  case (2 e es seen rs)
  show ?case
  proof (cases "ee_endpoint e = cmd")
    case True
    with "2.prems" show ?thesis
      using register_stubs_other [of "registerHandler (http_module cmd genericStub (ee_reqType e) (ee_resType e)) rs" cmd "cmd # seen" es]
      by (simp add: Let_def registerHandler_def http_module_def)
  next
    case False
    with 2 show ?thesis
      by (auto simp: Let_def registerHandler_def http_module_def fun_upd_def)
  qed
qed simp

text \<open>
  The handler table. Whatever the endpoint table contains, each of the 93 handler modules is the
  handler of its own endpoint: no module shadows another and no stub replaces one. Every other endpoint
  of the table is answered by the stub, with the types of its first entry, and nothing else is handled.
\<close>

theorem handlers_win_over_stubs:
  fixes m :: "'d http_module"
  shows "(m \<in> set all_modules \<longrightarrow> loadHandlers tbl (hm_endpoint m) = Some m) \<and>
    (cmd \<notin> set all_endpoints \<longrightarrow> (loadHandlers tbl cmd :: 'd http_module option) =
       map_option (\<lambda>e. http_module cmd genericStub (ee_reqType e) (ee_resType e)) (endpointIndex tbl cmd))"
proof -
  have d: "distinct (map hm_endpoint (all_modules :: 'd http_module list))"
    by (simp only: endpoints_of_modules distinct_endpoints)
  note base = register_fold [OF d, of "\<lambda>_. None"]
  have "loadHandlers tbl (hm_endpoint m) = Some m" if "m \<in> set all_modules" for m :: "'d http_module"
  proof -
    have "find (\<lambda>x. hm_endpoint x = hm_endpoint m) ms = Some m" if "distinct (map hm_endpoint ms)" "m \<in> set ms" for ms
      using that by (induction ms) (auto simp: rev_image_eqI)
    with base [of "hm_endpoint m"] d that show ?thesis
      by (simp add: loadHandlers_def register_stubs_other)
  qed
  moreover have "(loadHandlers tbl cmd :: 'd http_module option) =
       map_option (\<lambda>e. http_module cmd (genericStub :: 'd handler_fn) (ee_reqType e) (ee_resType e)) (endpointIndex tbl cmd)"
    if "cmd \<notin> set all_endpoints"
  proof -
    have "cmd \<notin> hm_endpoint ` set (all_modules :: 'd http_module list)"
      using that endpoints_of_modules by (metis list.set_map)
    then have "find (\<lambda>x. hm_endpoint x = cmd) (all_modules :: 'd http_module list) = None"
      by (auto simp: find_None_iff)
    with base [of cmd] show ?thesis
      by (cases "cmd = []") (simp_all add: loadHandlers_def register_stubs_other register_stubs_new endpointIndex_def)
  qed
  ultimately show ?thesis by blast
qed

theorem handlers_win_over_stubs_witness:
  "loadHandlers [\<lparr>ee_endpoint = ''GetWallet'', ee_reqType = None, ee_resType = None\<rparr>] ''GetWallet'' = Some (mod_GetWallet :: db http_module) \<and>
   loadHandlers [\<lparr>ee_endpoint = ''GetWallet'', ee_reqType = None, ee_resType = None\<rparr>] ''NoSuchThing'' = (None :: db http_module option)"
  using handlers_win_over_stubs [of "mod_GetWallet :: db http_module" "[\<lparr>ee_endpoint = ''GetWallet'', ee_reqType = None, ee_resType = None\<rparr>]" "''NoSuchThing''"]
  by (simp add: all_modules_def shop_modules_def all_endpoints_def endpointIndex_def mod_GetWallet_def http_module_def)

end
