(* ===== verification/AuthRepos.thy ===== *)
theory AuthRepos
  imports Js
begin

text \<open>
  The guests and accounts repositories of the authentication services
  (\<open>auth/shared/src/repositories/\<close>) over both stores, and the uid allocation of
  \<open>auth/shared/src/ids.js\<close>. A Mongo document keeps the uid as a string, a PostgreSQL row as a
  \<open>BIGINT\<close>: the records are polymorphic in it. The unique indexes are those that
  \<open>mongo.js\<close> (\<open>ensureIndexes\<close>) and \<open>pg.js\<close> (\<open>ensureSchema\<close>) create. A collection and a table are
  lists in insertion order.
\<close>

section \<open>Documents, rows and errors\<close>

record 'u guest =
  g_open_id :: string
  g_uid :: 'u
  g_dc_id :: string
  g_dc_handle :: "string option"
  g_dc_email :: "string option"
  g_renovation :: bool
  g_access_token :: "string option"
  g_refresh_token :: "string option"
  g_access_expiry :: "int option"
  g_refresh_expiry :: "int option"
  g_create_time :: "int option"
  g_last_login :: "string option"
  g_last_ip :: "string option"
  g_registered_at :: "string option"
  g_registered_ip :: "string option"
  g_renovated_at :: "string option"
  g_renovated_ip :: "string option"

record 'u auth_account =
  aa_open_id :: string
  aa_uid :: 'u
  aa_nickname :: "string option"
  aa_banned :: bool
  aa_ban_reason :: "string option"
  aa_authorized :: bool
  aa_under_analysis :: bool
  aa_created_at :: string

record 'u auth_db =
  ad_guests :: "'u guest list"
  ad_accounts :: "'u auth_account list"

type_synonym mongo_db = "string auth_db"
type_synonym pg_db = "int auth_db"

text \<open>The fields a caller sees: \<open>AUTH_PROJECTION\<close> and \<open>SELECT_COLS\<close>.\<close>

record user =
  u_open_id :: string
  u_uid :: string
  u_dc_id :: string
  u_dc_handle :: "string option"
  u_dc_email :: "string option"
  u_access_token :: "string option"
  u_refresh_token :: "string option"
  u_access_expiry :: "int option"
  u_refresh_expiry :: "int option"
  u_create_time :: "int option"
  u_renovation :: bool

text \<open>The error codes that callers tell apart: \<open>11000\<close> is Mongo's duplicate key, \<open>23505\<close> the unique
  violation of PostgreSQL.\<close>

datatype auth_error = Code11000 | Code23505 | AuthError string

text \<open>The values of \<open>setTokens\<close>.\<close>

record token_row =
  tr_access :: string
  tr_refresh :: string
  tr_access_expiry :: int
  tr_refresh_expiry :: int
  tr_create_time :: int
  tr_last_login :: string
  tr_last_ip :: "string option"

definition view_guest :: "('u \<Rightarrow> string) \<Rightarrow> 'u guest \<Rightarrow> user" where
  "view_guest f g = \<lparr>u_open_id = g_open_id g, u_uid = f (g_uid g), u_dc_id = g_dc_id g,
     u_dc_handle = g_dc_handle g, u_dc_email = g_dc_email g, u_access_token = g_access_token g,
     u_refresh_token = g_refresh_token g, u_access_expiry = g_access_expiry g,
     u_refresh_expiry = g_refresh_expiry g, u_create_time = g_create_time g, u_renovation = g_renovation g\<rparr>"

definition put_discord :: "string option \<Rightarrow> string option \<Rightarrow> 'u guest \<Rightarrow> 'u guest" where
  "put_discord handle email g = g\<lparr>g_dc_handle := handle, g_dc_email := email\<rparr>"

definition put_tokens :: "token_row \<Rightarrow> 'u guest \<Rightarrow> 'u guest" where
  "put_tokens t g = g\<lparr>g_access_token := Some (tr_access t), g_refresh_token := Some (tr_refresh t),
     g_access_expiry := Some (tr_access_expiry t), g_refresh_expiry := Some (tr_refresh_expiry t),
     g_create_time := Some (tr_create_time t), g_last_login := Some (tr_last_login t),
     g_last_ip := tr_last_ip t\<rparr>"

definition put_access :: "string \<Rightarrow> int \<Rightarrow> 'u guest \<Rightarrow> 'u guest" where
  "put_access access expiry g = g\<lparr>g_access_token := Some access, g_access_expiry := Some expiry\<rparr>"

definition no_tokens :: "'u guest \<Rightarrow> 'u guest" where
  "no_tokens g = g\<lparr>g_access_token := None, g_refresh_token := None\<rparr>"

section \<open>MongoDB\<close>

text \<open>\<open>findOne\<close> answers the first matching document, \<open>updateOne\<close> changes it.\<close>

definition mongo_one :: "(string guest \<Rightarrow> bool) \<Rightarrow> mongo_db \<Rightarrow> user option" where
  "mongo_one P d = map_option (view_guest (\<lambda>u. u)) (find P (ad_guests d))"

definition mongo_updateOne :: "string \<Rightarrow> (string guest \<Rightarrow> string guest) \<Rightarrow> mongo_db \<Rightarrow> mongo_db" where
  "mongo_updateOne openId f d =
     d\<lparr>ad_guests := update_first (\<lambda>g. g_open_id g = openId) f (ad_guests d)\<rparr>"

definition mongo_findByDcId :: "string \<Rightarrow> mongo_db \<Rightarrow> user option" where
  "mongo_findByDcId dcId d = mongo_one (\<lambda>g. g_dc_id g = dcId) d"

definition mongo_findByOpenId :: "string \<Rightarrow> mongo_db \<Rightarrow> user option" where
  "mongo_findByOpenId openId d = mongo_one (\<lambda>g. g_open_id g = openId) d"

definition mongo_findByAccessToken :: "string \<Rightarrow> mongo_db \<Rightarrow> user option" where
  "mongo_findByAccessToken token d = mongo_one (\<lambda>g. g_access_token g = Some token) d"

definition mongo_findByRefreshToken :: "string \<Rightarrow> mongo_db \<Rightarrow> user option" where
  "mongo_findByRefreshToken token d = mongo_one (\<lambda>g. g_refresh_token g = Some token) d"

text \<open>\<open>/oauth/logout\<close> passes the values of the query string on, which are strings, arrays or
  objects. A string matches the field that equals it; \<open>other v x\<close> says whether any other filter value
  \<open>v\<close> (an object of query operators, say) matches a field that holds \<open>x\<close>.\<close>

definition mongo_match :: "(js \<Rightarrow> string option \<Rightarrow> bool) \<Rightarrow> js \<Rightarrow> string option \<Rightarrow> bool" where
  "mongo_match other v x = (case v of JStr s \<Rightarrow> x = Some s | _ \<Rightarrow> other v x)"

definition mongo_findByAccessAndRefreshToken ::
  "(js \<Rightarrow> string option \<Rightarrow> bool) \<Rightarrow> js \<Rightarrow> js \<Rightarrow> mongo_db \<Rightarrow> user option" where
  "mongo_findByAccessAndRefreshToken other access refr d =
     mongo_one (\<lambda>g. mongo_match other access (g_access_token g) \<and> mongo_match other refr (g_refresh_token g)) d"

definition mongo_insertUser :: "string guest \<Rightarrow> mongo_db \<Rightarrow> (auth_error + unit) \<times> mongo_db" where
  "mongo_insertUser doc d =
     (if \<exists>g \<in> set (ad_guests d). g_open_id g = g_open_id doc \<or> g_dc_id g = g_dc_id doc
      then (Inl Code11000, d)
      else (Inr (), d\<lparr>ad_guests := ad_guests d @ [doc]\<rparr>))"

text \<open>\<open>$toLong\<close> of the uid strings, and their maximum; a text that is no 64-bit integer is an error.\<close>

definition to_long :: "string \<Rightarrow> int option" where
  "to_long s =
     (case (case s of [] \<Rightarrow> None
                    | c # cs \<Rightarrow> if c = CHR ''-'' then map_option uminus (all_digits cs) else all_digits s) of
        Some n \<Rightarrow> if - (2 ^ 63) \<le> n \<and> n < 2 ^ 63 then Some n else None
      | None \<Rightarrow> None)"

definition max_opt :: "int list \<Rightarrow> int option" where
  "max_opt ns = (if ns = [] then None else Some (Max (set ns)))"

definition mongo_currentMaxUid :: "mongo_db \<Rightarrow> auth_error + int option" where
  "mongo_currentMaxUid d =
     (if \<exists>g \<in> set (ad_guests d). to_long (g_uid g) = None then Inl (AuthError ''ConversionFailure'')
      else Inr (max_opt (map (\<lambda>g. the (to_long (g_uid g))) (ad_guests d))))"

definition mongo_insertAccount :: "string auth_account \<Rightarrow> mongo_db \<Rightarrow> (auth_error + unit) \<times> mongo_db" where
  "mongo_insertAccount doc d =
     (if \<exists>a \<in> set (ad_accounts d). aa_open_id a = aa_open_id doc \<or> aa_uid a = aa_uid doc
      then (Inl Code11000, d)
      else (Inr (), d\<lparr>ad_accounts := ad_accounts d @ [doc]\<rparr>))"

definition mongo_findAccount :: "string \<Rightarrow> mongo_db \<Rightarrow> string auth_account option" where
  "mongo_findAccount openId d = find (\<lambda>a. aa_open_id a = openId) (ad_accounts d)"

section \<open>PostgreSQL\<close>

text \<open>\<open>mapGuest\<close>: the uid comes back as text.\<close>

definition mapGuest :: "int guest \<Rightarrow> user" where
  "mapGuest g = view_guest int_str g"

definition pg_one :: "(int guest \<Rightarrow> bool) \<Rightarrow> pg_db \<Rightarrow> user option" where
  "pg_one P d = map_option mapGuest (find P (ad_guests d))"

text \<open>\<open>UPDATE ... WHERE open_id = $1\<close> changes every row that qualifies.\<close>

definition pg_update :: "string \<Rightarrow> (int guest \<Rightarrow> int guest) \<Rightarrow> pg_db \<Rightarrow> pg_db" where
  "pg_update openId f d =
     d\<lparr>ad_guests := map (\<lambda>g. if g_open_id g = openId then f g else g) (ad_guests d)\<rparr>"

definition pg_findByDcId :: "string \<Rightarrow> pg_db \<Rightarrow> user option" where
  "pg_findByDcId dcId d = pg_one (\<lambda>g. g_dc_id g = dcId) d"

definition pg_findByOpenId :: "string \<Rightarrow> pg_db \<Rightarrow> user option" where
  "pg_findByOpenId openId d = pg_one (\<lambda>g. g_open_id g = openId) d"

definition pg_findByAccessToken :: "string \<Rightarrow> pg_db \<Rightarrow> user option" where
  "pg_findByAccessToken token d =
     (if token = [] then None else pg_one (\<lambda>g. g_access_token g = Some token) d)"

definition pg_findByRefreshToken :: "string \<Rightarrow> pg_db \<Rightarrow> user option" where
  "pg_findByRefreshToken token d =
     (if token = [] then None else pg_one (\<lambda>g. g_refresh_token g = Some token) d)"

text \<open>The driver sends a string parameter as it is, and \<open>other v\<close> for any other value.\<close>

definition pg_param :: "(js \<Rightarrow> string) \<Rightarrow> js \<Rightarrow> string" where
  "pg_param other v = (case v of JStr s \<Rightarrow> s | _ \<Rightarrow> other v)"

definition pg_findByAccessAndRefreshToken :: "(js \<Rightarrow> string) \<Rightarrow> js \<Rightarrow> js \<Rightarrow> pg_db \<Rightarrow> user option" where
  "pg_findByAccessAndRefreshToken other access refr d =
     (if \<not> tru access \<or> \<not> tru refr then None
      else pg_one (\<lambda>g. g_access_token g = Some (pg_param other access) \<and>
                    g_refresh_token g = Some (pg_param other refr)) d)"

definition with_uid :: "'v \<Rightarrow> 'u guest \<Rightarrow> 'v guest" where
  "with_uid uid g = \<lparr>g_open_id = g_open_id g, g_uid = uid, g_dc_id = g_dc_id g,
     g_dc_handle = g_dc_handle g, g_dc_email = g_dc_email g, g_renovation = g_renovation g,
     g_access_token = g_access_token g, g_refresh_token = g_refresh_token g,
     g_access_expiry = g_access_expiry g, g_refresh_expiry = g_refresh_expiry g,
     g_create_time = g_create_time g, g_last_login = g_last_login g, g_last_ip = g_last_ip g,
     g_registered_at = g_registered_at g, g_registered_ip = g_registered_ip g,
     g_renovated_at = g_renovated_at g, g_renovated_ip = g_renovated_ip g\<rparr>"

text \<open>The uid of the document is a string; the column takes a 64-bit integer.\<close>

definition pg_insertUser :: "string guest \<Rightarrow> pg_db \<Rightarrow> (auth_error + unit) \<times> pg_db" where
  "pg_insertUser doc d =
     (case to_long (g_uid doc) of
        None \<Rightarrow> (Inl (AuthError ''22P02''), d)
      | Some uid \<Rightarrow>
          if \<exists>g \<in> set (ad_guests d). g_open_id g = g_open_id doc \<or> g_uid g = uid \<or> g_dc_id g = g_dc_id doc
          then (Inl Code23505, d)
          else (Inr (), d\<lparr>ad_guests := ad_guests d @ [with_uid uid doc]\<rparr>))"

definition pg_currentMaxUid :: "pg_db \<Rightarrow> auth_error + int option" where
  "pg_currentMaxUid d = Inr (max_opt (map g_uid (ad_guests d)))"

definition account_with_uid :: "'v \<Rightarrow> 'u auth_account \<Rightarrow> 'v auth_account" where
  "account_with_uid uid a = \<lparr>aa_open_id = aa_open_id a, aa_uid = uid, aa_nickname = aa_nickname a,
     aa_banned = aa_banned a, aa_ban_reason = aa_ban_reason a, aa_authorized = aa_authorized a,
     aa_under_analysis = aa_under_analysis a, aa_created_at = aa_created_at a\<rparr>"

definition pg_insertAccount :: "string auth_account \<Rightarrow> pg_db \<Rightarrow> (auth_error + unit) \<times> pg_db" where
  "pg_insertAccount doc d =
     (case to_long (aa_uid doc) of
        None \<Rightarrow> (Inl (AuthError ''22P02''), d)
      | Some uid \<Rightarrow>
          if \<exists>a \<in> set (ad_accounts d). aa_open_id a = aa_open_id doc then (Inl Code23505, d)
          else (Inr (), d\<lparr>ad_accounts := ad_accounts d @ [account_with_uid uid doc]\<rparr>))"

definition pg_findAccount :: "string \<Rightarrow> pg_db \<Rightarrow> string auth_account option" where
  "pg_findAccount openId d =
     map_option (\<lambda>a. account_with_uid (int_str (aa_uid a)) a)
       (find (\<lambda>a. aa_open_id a = openId) (ad_accounts d))"

section \<open>The repositories\<close>

record 'd guests_repo =
  gr_findByDcId :: "string \<Rightarrow> 'd \<Rightarrow> user option"
  gr_findByOpenId :: "string \<Rightarrow> 'd \<Rightarrow> user option"
  gr_findByAccessToken :: "string \<Rightarrow> 'd \<Rightarrow> user option"
  gr_findByRefreshToken :: "string \<Rightarrow> 'd \<Rightarrow> user option"
  gr_findByAccessAndRefreshToken :: "js \<Rightarrow> js \<Rightarrow> 'd \<Rightarrow> user option"
  gr_insertUser :: "string guest \<Rightarrow> 'd \<Rightarrow> (auth_error + unit) \<times> 'd"
  gr_updateDiscordFields :: "string \<Rightarrow> string option \<Rightarrow> string option \<Rightarrow> 'd \<Rightarrow> 'd"
  gr_setTokens :: "string \<Rightarrow> token_row \<Rightarrow> 'd \<Rightarrow> 'd"
  gr_refreshAccessToken :: "string \<Rightarrow> string \<Rightarrow> int \<Rightarrow> 'd \<Rightarrow> 'd"
  gr_clearTokens :: "string \<Rightarrow> 'd \<Rightarrow> 'd"
  gr_currentMaxUid :: "'d \<Rightarrow> auth_error + int option"

record 'd accounts_repo =
  ar_insertAccount :: "string auth_account \<Rightarrow> 'd \<Rightarrow> (auth_error + unit) \<times> 'd"
  ar_findByOpenId :: "string \<Rightarrow> 'd \<Rightarrow> string auth_account option"

definition createGuestsRepoMongo :: "(js \<Rightarrow> string option \<Rightarrow> bool) \<Rightarrow> mongo_db guests_repo" where
  "createGuestsRepoMongo other = \<lparr>
     gr_findByDcId = mongo_findByDcId,
     gr_findByOpenId = mongo_findByOpenId,
     gr_findByAccessToken = mongo_findByAccessToken,
     gr_findByRefreshToken = mongo_findByRefreshToken,
     gr_findByAccessAndRefreshToken = mongo_findByAccessAndRefreshToken other,
     gr_insertUser = mongo_insertUser,
     gr_updateDiscordFields = (\<lambda>o_id handle email. mongo_updateOne o_id (put_discord handle email)),
     gr_setTokens = (\<lambda>o_id t. mongo_updateOne o_id (put_tokens t)),
     gr_refreshAccessToken = (\<lambda>o_id access expiry. mongo_updateOne o_id (put_access access expiry)),
     gr_clearTokens = (\<lambda>o_id. mongo_updateOne o_id no_tokens),
     gr_currentMaxUid = mongo_currentMaxUid\<rparr>"

definition createGuestsRepoPg :: "(js \<Rightarrow> string) \<Rightarrow> pg_db guests_repo" where
  "createGuestsRepoPg other = \<lparr>
     gr_findByDcId = pg_findByDcId,
     gr_findByOpenId = pg_findByOpenId,
     gr_findByAccessToken = pg_findByAccessToken,
     gr_findByRefreshToken = pg_findByRefreshToken,
     gr_findByAccessAndRefreshToken = pg_findByAccessAndRefreshToken other,
     gr_insertUser = pg_insertUser,
     gr_updateDiscordFields = (\<lambda>o_id handle email. pg_update o_id (put_discord handle email)),
     gr_setTokens = (\<lambda>o_id t. pg_update o_id (put_tokens t)),
     gr_refreshAccessToken = (\<lambda>o_id access expiry. pg_update o_id (put_access access expiry)),
     gr_clearTokens = (\<lambda>o_id. pg_update o_id no_tokens),
     gr_currentMaxUid = pg_currentMaxUid\<rparr>"

definition createAccountsRepoMongo :: "mongo_db accounts_repo" where
  "createAccountsRepoMongo = \<lparr>ar_insertAccount = mongo_insertAccount, ar_findByOpenId = mongo_findAccount\<rparr>"

definition createAccountsRepoPg :: "pg_db accounts_repo" where
  "createAccountsRepoPg = \<lparr>ar_insertAccount = pg_insertAccount, ar_findByOpenId = pg_findAccount\<rparr>"

section \<open>Uid allocation\<close>

definition FIRST_UID :: int where "FIRST_UID = 10000001"

definition OPEN_ID_ALPHABET :: string where
  "OPEN_ID_ALPHABET = ''0123456789abcdefghijklmnopqrstuvwxyz''"

definition OPEN_ID_LENGTH :: nat where "OPEN_ID_LENGTH = 32"

text \<open>\<open>rnd i\<close> is the result of the i-th \<open>crypto.randomInt\<close>.\<close>

definition generateOpenId :: "(nat \<Rightarrow> nat) \<Rightarrow> string" where
  "generateOpenId rnd = map (\<lambda>i. OPEN_ID_ALPHABET ! rnd i) [0..<OPEN_ID_LENGTH]"

definition nextUid :: "'d guests_repo \<Rightarrow> 'd \<Rightarrow> auth_error + string" where
  "nextUid R d =
     (case gr_currentMaxUid R d of
        Inl e \<Rightarrow> Inl e
      | Inr None \<Rightarrow> Inr (int_str FIRST_UID)
      | Inr (Some m) \<Rightarrow> Inr (int_str (m + 1)))"

fun is_duplicate :: "auth_error \<Rightarrow> bool" where
  "is_duplicate (AuthError _) = False"
| "is_duplicate _ = True"

text \<open>The loop of \<open>withUidRetry\<close> with \<open>n\<close> attempts left; \<open>fn i\<close> is the i-th call of the function.\<close>

fun retry_loop ::
  "(nat \<Rightarrow> 'd \<Rightarrow> (auth_error + 'a) \<times> 'd) \<Rightarrow> nat \<Rightarrow> nat \<Rightarrow> auth_error option \<Rightarrow> 'd \<Rightarrow> (auth_error + 'a) \<times> 'd" where
  "retry_loop fn i 0 lastErr d =
     (Inl (case lastErr of Some e \<Rightarrow> e | None \<Rightarrow> AuthError ''withUidRetry: attempts exhausted''), d)"
| "retry_loop fn i (Suc n) lastErr d =
     (case fn i d of
        (Inr a, d1) \<Rightarrow> (Inr a, d1)
      | (Inl e, d1) \<Rightarrow> if is_duplicate e then retry_loop fn (i + 1) n (Some e) d1 else (Inl e, d1))"

definition withUidRetry :: "(nat \<Rightarrow> 'd \<Rightarrow> (auth_error + 'a) \<times> 'd) \<Rightarrow> 'd \<Rightarrow> (auth_error + 'a) \<times> 'd" where
  "withUidRetry fn d = retry_loop fn 0 5 None d"

end
