(* ===== verification/AuthTokens.thy ===== *)
theory AuthTokens
  imports AuthRepos
begin

text \<open>
  The access and refresh tokens of the authentication services (\<open>auth/shared/src/tokens.js\<close>) on a
  guests repository. The random token texts and the clock in seconds are arguments.
\<close>

definition ACCESS_TTL_SECONDS :: int where "ACCESS_TTL_SECONDS = 1296000"
definition REFRESH_TTL_SECONDS :: int where "REFRESH_TTL_SECONDS = 2592000"

section \<open>Dates\<close>

text \<open>\<open>new Date(s * 1000).toISOString()\<close> for the years 0 to 9999, from the count of days.\<close>

definition pad_digits :: "nat \<Rightarrow> int \<Rightarrow> string" where
  "pad_digits n k = (let s = int_str k in replicate (n - length s) (CHR ''0'') @ s)"

definition civil_date :: "int \<Rightarrow> int \<times> int \<times> int" where
  "civil_date days =
     (let z = days + 719468;
          era = z div 146097;
          doe = z - era * 146097;
          yoe = (doe - doe div 1460 + doe div 36524 - doe div 146096) div 365;
          doy = doe - (365 * yoe + yoe div 4 - yoe div 100);
          mp = (5 * doy + 2) div 153;
          day = doy - (153 * mp + 2) div 5 + 1;
          month = (if mp < 10 then mp + 3 else mp - 9)
      in (yoe + era * 400 + (if month \<le> 2 then 1 else 0), month, day))"

definition toISOString :: "int \<Rightarrow> string" where
  "toISOString secs =
     (case civil_date (secs div 86400) of (y, m, day) \<Rightarrow>
        (let s = secs mod 86400
         in pad_digits 4 y @ ''-'' @ pad_digits 2 m @ ''-'' @ pad_digits 2 day @ ''T'' @
            pad_digits 2 (s div 3600) @ '':'' @ pad_digits 2 (s div 60 mod 60) @ '':'' @
            pad_digits 2 (s mod 60) @ ''.000Z''))"

section \<open>Issue and refresh\<close>

record token_set =
  ts_access_token :: string
  ts_refresh_token :: string
  ts_access_expiry :: int
  ts_refresh_expiry :: int
  ts_create_time :: int

definition issueTokens ::
  "'d guests_repo \<Rightarrow> string \<Rightarrow> string \<Rightarrow> string \<Rightarrow> string option \<Rightarrow> int \<Rightarrow> 'd \<Rightarrow> token_set \<times> 'd" where
  "issueTokens R openId access refr ip now d =
     (let access_expiry = now + ACCESS_TTL_SECONDS; refresh_expiry = now + REFRESH_TTL_SECONDS
      in (\<lparr>ts_access_token = access, ts_refresh_token = refr, ts_access_expiry = access_expiry,
           ts_refresh_expiry = refresh_expiry, ts_create_time = now\<rparr>,
          gr_setTokens R openId
            \<lparr>tr_access = access, tr_refresh = refr, tr_access_expiry = access_expiry,
             tr_refresh_expiry = refresh_expiry, tr_create_time = now,
             tr_last_login = toISOString now, tr_last_ip = ip\<rparr> d))"

definition refreshAccessToken ::
  "'d guests_repo \<Rightarrow> string \<Rightarrow> string \<Rightarrow> int \<Rightarrow> 'd \<Rightarrow> (string \<times> int) \<times> 'd" where
  "refreshAccessToken R openId access now d =
     (let access_expiry = now + ACCESS_TTL_SECONDS
      in ((access, access_expiry), gr_refreshAccessToken R openId access access_expiry d))"

section \<open>Validation\<close>

datatype token_reason = TokenMissing | TokenUnknown | TokenRenovation | TokenExpired

text \<open>\<open>!token || typeof token !== 'string'\<close>; the argument is a value of a query or a body.\<close>

definition validateAccessToken ::
  "'d guests_repo \<Rightarrow> js \<Rightarrow> int \<Rightarrow> 'd \<Rightarrow> (token_reason + user) \<times> 'd" where
  "validateAccessToken R token now d =
     (case token of
        JStr t \<Rightarrow>
          if t = [] then (Inl TokenMissing, d)
          else (case gr_findByAccessToken R t d of
                  None \<Rightarrow> (Inl TokenUnknown, d)
                | Some user \<Rightarrow>
                    if u_renovation user then (Inl TokenRenovation, gr_clearTokens R (u_open_id user) d)
                    else (case u_access_expiry user of
                            None \<Rightarrow> (Inl TokenExpired, d)
                          | Some e \<Rightarrow> if now > e then (Inl TokenExpired, d) else (Inr user, d)))
      | _ \<Rightarrow> (Inl TokenMissing, d))"

definition validateRefreshToken ::
  "'d guests_repo \<Rightarrow> js \<Rightarrow> int \<Rightarrow> 'd \<Rightarrow> (token_reason + user) \<times> 'd" where
  "validateRefreshToken R token now d =
     (case token of
        JStr t \<Rightarrow>
          if t = [] then (Inl TokenMissing, d)
          else (case gr_findByRefreshToken R t d of
                  None \<Rightarrow> (Inl TokenUnknown, d)
                | Some user \<Rightarrow>
                    if u_renovation user then (Inl TokenRenovation, gr_clearTokens R (u_open_id user) d)
                    else (case u_refresh_expiry user of
                            None \<Rightarrow> (Inl TokenExpired, d)
                          | Some e \<Rightarrow> if now > e then (Inl TokenExpired, d) else (Inr user, d)))
      | _ \<Rightarrow> (Inl TokenMissing, d))"

end
