(* ===== verification/GuestStore.thy ===== *)
theory GuestStore
  imports AuthTokens
begin

text \<open>
  What the token functions and the login flow rely on in a guests repository: the locale
  \<open>guest_store\<close>, stated over the list of documents the store stands for, with the interpretations
  on both backends. \<open>doc_of\<close> turns a row into the document of the Mongo store.
\<close>

section \<open>The documents of a store\<close>

definition doc_of :: "int guest \<Rightarrow> string guest" where
  "doc_of g = with_uid (int_str (g_uid g)) g"

definition token_texts_ok :: "'u guest \<Rightarrow> bool" where
  "token_texts_ok g \<longleftrightarrow> g_access_token g \<noteq> Some [] \<and> g_refresh_token g \<noteq> Some []"

definition guests_ok :: "'u guest list \<Rightarrow> bool" where
  "guests_ok gs \<longleftrightarrow> distinct (map g_open_id gs) \<and> distinct (map g_dc_id gs) \<and> (\<forall>g \<in> set gs. token_texts_ok g)"

text \<open>A uid is the decimal text of a 64-bit integer.\<close>

definition long_range :: "int \<Rightarrow> bool" where
  "long_range n \<longleftrightarrow> - (2 ^ 63) \<le> n \<and> n < 2 ^ 63"

definition uid_text :: "string \<Rightarrow> bool" where
  "uid_text s \<longleftrightarrow> (\<exists>n. long_range n \<and> s = int_str n)"

definition mongo_ok :: "mongo_db \<Rightarrow> bool" where
  "mongo_ok d \<longleftrightarrow> guests_ok (ad_guests d) \<and> (\<forall>g \<in> set (ad_guests d). uid_text (g_uid g))"

definition pg_ok :: "pg_db \<Rightarrow> bool" where
  "pg_ok d \<longleftrightarrow> guests_ok (ad_guests d) \<and> (\<forall>g \<in> set (ad_guests d). long_range (g_uid g))"

lemma to_long_int_str:
  assumes "long_range n"
  shows "to_long (int_str n) = Some n"
proof -
  have d: "list_all is_digit (nat_digits m)" "nat_digits m \<noteq> []" for m
    using nat_digits_digits by blast+
  have a: "all_digits (nat_digits m) = Some (int m)" for m
    using d nat_digits_value [of m] by (simp add: all_digits_def)
  show ?thesis
  proof (cases "n < 0")
    case True
    then show ?thesis
      using assms a [of "nat (- n)"] by (simp add: to_long_def int_str_def long_range_def)
  next
    case False
    then obtain c cs where s: "nat_digits (nat n) = c # cs"
      using d(2) [of "nat n"] by (cases "nat_digits (nat n)") auto
    with d(1) [of "nat n"] have "c \<noteq> CHR ''-''"
      using digit_not_ws by auto
    then show ?thesis
      using assms False a [of "nat n"] by (simp add: to_long_def int_str_def long_range_def s)
  qed
qed

lemma uid_text_long: "uid_text s \<Longrightarrow> \<exists>n. to_long s = Some n \<and> int_str n = s \<and> long_range n"
  by (auto simp: uid_text_def to_long_int_str)

lemma with_uid_fields [simp]:
  "g_open_id (with_uid u g) = g_open_id g" "g_uid (with_uid u g) = u" "g_dc_id (with_uid u g) = g_dc_id g"
  "g_access_token (with_uid u g) = g_access_token g" "g_refresh_token (with_uid u g) = g_refresh_token g"
  "g_renovation (with_uid u g) = g_renovation g" "g_access_expiry (with_uid u g) = g_access_expiry g"
  "g_refresh_expiry (with_uid u g) = g_refresh_expiry g" "g_create_time (with_uid u g) = g_create_time g"
  "g_dc_handle (with_uid u g) = g_dc_handle g" "g_dc_email (with_uid u g) = g_dc_email g"
  by (simp_all add: with_uid_def)

lemma doc_of_fields [simp]:
  "g_open_id (doc_of g) = g_open_id g" "g_uid (doc_of g) = int_str (g_uid g)" "g_dc_id (doc_of g) = g_dc_id g"
  "g_access_token (doc_of g) = g_access_token g" "g_refresh_token (doc_of g) = g_refresh_token g"
  by (simp_all add: doc_of_def)

lemma view_doc_of: "view_guest (\<lambda>u. u) (doc_of g) = mapGuest g"
  by (simp add: view_guest_def mapGuest_def doc_of_def)

lemma doc_of_with_uid: "int_str n = g_uid g \<Longrightarrow> doc_of (with_uid n g) = g"
  by (cases g) (simp add: doc_of_def with_uid_def)

lemma put_doc_of:
  "put_discord h e (doc_of g) = doc_of (put_discord h e g)"
  "put_tokens t (doc_of g) = doc_of (put_tokens t g)"
  "put_access a x (doc_of g) = doc_of (put_access a x g)"
  "no_tokens (doc_of g) = doc_of (no_tokens g)"
  by (simp_all add: put_discord_def put_tokens_def put_access_def no_tokens_def doc_of_def with_uid_def)

lemma put_keys [simp]:
  "g_open_id (put_discord h e g) = g_open_id g" "g_dc_id (put_discord h e g) = g_dc_id g"
  "g_uid (put_discord h e g) = g_uid g" "g_access_token (put_discord h e g) = g_access_token g"
  "g_refresh_token (put_discord h e g) = g_refresh_token g"
  "g_open_id (put_tokens t g) = g_open_id g" "g_dc_id (put_tokens t g) = g_dc_id g"
  "g_uid (put_tokens t g) = g_uid g"
  "g_open_id (put_access a x g) = g_open_id g" "g_dc_id (put_access a x g) = g_dc_id g"
  "g_uid (put_access a x g) = g_uid g" "g_refresh_token (put_access a x g) = g_refresh_token g"
  "g_open_id (no_tokens g) = g_open_id g" "g_dc_id (no_tokens g) = g_dc_id g"
  "g_uid (no_tokens g) = g_uid g"
  by (simp_all add: put_discord_def put_tokens_def put_access_def no_tokens_def)

text \<open>One update by the key, in both stores.\<close>

definition upd_guest :: "string \<Rightarrow> ('u guest \<Rightarrow> 'u guest) \<Rightarrow> 'u guest list \<Rightarrow> 'u guest list" where
  "upd_guest openId f gs = map (\<lambda>g. if g_open_id g = openId then f g else g) gs"

lemma update_first_map:
  "distinct (map g_open_id gs) \<Longrightarrow> update_first (\<lambda>g. g_open_id g = o_id) f gs = upd_guest o_id f gs"
proof (induction gs)
  case (Cons g gs)
  have "\<forall>h \<in> set gs. g_open_id h \<noteq> g_open_id g"
    using Cons.prems by (simp add: image_iff) metis
  then have "upd_guest o_id f gs = gs" if "g_open_id g = o_id"
    using that by (auto simp: upd_guest_def intro!: map_idI)
  with Cons show ?case
    by (auto simp: upd_guest_def)
qed (simp add: upd_guest_def)

lemma upd_guest_keys:
  assumes "\<And>g. g_open_id (f g) = g_open_id g" and "\<And>g. g_dc_id (f g) = g_dc_id g"
  shows "map g_open_id (upd_guest o_id f gs) = map g_open_id gs"
    and "map g_dc_id (upd_guest o_id f gs) = map g_dc_id gs"
  using assms by (simp_all add: upd_guest_def)

lemma guests_ok_upd:
  assumes "guests_ok gs" and "\<And>g. g_open_id (f g) = g_open_id g" and "\<And>g. g_dc_id (f g) = g_dc_id g"
    and "\<And>g. token_texts_ok g \<Longrightarrow> token_texts_ok (f g)"
  shows "guests_ok (upd_guest o_id f gs)"
  using assms(1,4) upd_guest_keys [of f o_id gs, OF assms(2,3)]
  by (auto simp: guests_ok_def) (auto simp: upd_guest_def)

definition valid_tokens :: "token_row \<Rightarrow> bool" where
  "valid_tokens t \<longleftrightarrow> tr_access t \<noteq> [] \<and> tr_refresh t \<noteq> []"

lemma token_texts_put:
  "token_texts_ok g \<Longrightarrow> token_texts_ok (put_discord h e g)"
  "valid_tokens t \<Longrightarrow> token_texts_ok (put_tokens t g)"
  "a \<noteq> [] \<Longrightarrow> token_texts_ok g \<Longrightarrow> token_texts_ok (put_access a x g)"
  "token_texts_ok (no_tokens g)"
  by (simp_all add: token_texts_ok_def valid_tokens_def put_discord_def put_tokens_def put_access_def no_tokens_def)

lemma find_upd_open_id:
  assumes "\<And>g. g_open_id (f g) = g_open_id g"
  shows "find (\<lambda>g. g_open_id g = k) (upd_guest o_id f gs) =
    map_option (\<lambda>g. if k = o_id then f g else g) (find (\<lambda>g. g_open_id g = k) gs)"
  using assms by (induction gs) (auto simp: upd_guest_def)

lemma find_distinct_key:
  "distinct (map f xs) \<Longrightarrow> x \<in> set xs \<Longrightarrow> find (\<lambda>y. f y = f x) xs = Some x"
  by (induction xs) (auto simp: image_iff)

section \<open>The interface\<close>

text \<open>Inserts are described for documents whose uid is new; a duplicate changes nothing.\<close>

definition duplicate_doc :: "string guest \<Rightarrow> string guest list \<Rightarrow> bool" where
  "duplicate_doc doc gs \<longleftrightarrow> (\<exists>g \<in> set gs. g_open_id g = g_open_id doc \<or> g_dc_id g = g_dc_id doc)"

locale guest_store =
  fixes R :: "'d guests_repo" and docs :: "'d \<Rightarrow> string guest list" and ok :: "'d \<Rightarrow> bool"
  assumes docs_ok: "ok d \<Longrightarrow> guests_ok (docs d)"
    and docs_uid: "ok d \<Longrightarrow> g \<in> set (docs d) \<Longrightarrow> uid_text (g_uid g)"
    and find_dc: "gr_findByDcId R k d = map_option (view_guest (\<lambda>u. u)) (find (\<lambda>g. g_dc_id g = k) (docs d))"
    and find_open: "gr_findByOpenId R k d = map_option (view_guest (\<lambda>u. u)) (find (\<lambda>g. g_open_id g = k) (docs d))"
    and find_access: "ok d \<Longrightarrow>
      gr_findByAccessToken R t d = map_option (view_guest (\<lambda>u. u)) (find (\<lambda>g. g_access_token g = Some t) (docs d))"
    and find_refresh: "ok d \<Longrightarrow>
      gr_findByRefreshToken R t d = map_option (view_guest (\<lambda>u. u)) (find (\<lambda>g. g_refresh_token g = Some t) (docs d))"
    and find_both: "ok d \<Longrightarrow> gr_findByAccessAndRefreshToken R (JStr a) (JStr b) d =
      map_option (view_guest (\<lambda>u. u)) (find (\<lambda>g. g_access_token g = Some a \<and> g_refresh_token g = Some b) (docs d))"
    and upd_discord: "ok d \<Longrightarrow> ok (gr_updateDiscordFields R k h e d) \<and>
      docs (gr_updateDiscordFields R k h e d) = upd_guest k (put_discord h e) (docs d)"
    and set_tokens: "ok d \<Longrightarrow> valid_tokens tk \<Longrightarrow> ok (gr_setTokens R k tk d) \<and>
      docs (gr_setTokens R k tk d) = upd_guest k (put_tokens tk) (docs d)"
    and refresh_access: "ok d \<Longrightarrow> a \<noteq> [] \<Longrightarrow> ok (gr_refreshAccessToken R k a x d) \<and>
      docs (gr_refreshAccessToken R k a x d) = upd_guest k (put_access a x) (docs d)"
    and clear_tokens: "ok d \<Longrightarrow> ok (gr_clearTokens R k d) \<and> docs (gr_clearTokens R k d) = upd_guest k no_tokens (docs d)"
    and insert_fresh: "ok d \<Longrightarrow> uid_text (g_uid doc) \<Longrightarrow> token_texts_ok doc \<Longrightarrow> \<not> duplicate_doc doc (docs d) \<Longrightarrow>
      g_uid doc \<notin> g_uid ` set (docs d) \<Longrightarrow>
      \<exists>d'. gr_insertUser R doc d = (Inr (), d') \<and> ok d' \<and> docs d' = docs d @ [doc]"
    and insert_duplicate: "ok d \<Longrightarrow> uid_text (g_uid doc) \<Longrightarrow> duplicate_doc doc (docs d) \<Longrightarrow>
      \<exists>e. gr_insertUser R doc d = (Inl e, d) \<and> is_duplicate e"
    and max_uid: "ok d \<Longrightarrow> gr_currentMaxUid R d = Inr (max_opt (map (\<lambda>g. the (to_long (g_uid g))) (docs d)))"
begin

lemma open_id_unique:
  assumes "ok d" and "g \<in> set (docs d)"
  shows "find (\<lambda>h. g_open_id h = g_open_id g) (docs d) = Some g"
proof -
  have "distinct (map g_open_id (docs d))"
    using docs_ok [OF assms(1)] by (simp add: guests_ok_def)
  then show ?thesis
    using assms(2) by (rule find_distinct_key)
qed

end

section \<open>MongoDB\<close>

lemma is_duplicate_codes [simp]: "is_duplicate Code11000" "is_duplicate Code23505"
  by simp_all

lemma mongo_updateOne_docs:
  assumes "mongo_ok d" and "\<And>g. g_open_id (f g) = g_open_id g" and "\<And>g. g_dc_id (f g) = g_dc_id g"
    and "\<And>g. g_uid (f g) = g_uid g" and "\<And>g. token_texts_ok g \<Longrightarrow> token_texts_ok (f g)"
  shows "mongo_ok (mongo_updateOne k f d) \<and> ad_guests (mongo_updateOne k f d) = upd_guest k f (ad_guests d)"
proof -
  have "ad_guests (mongo_updateOne k f d) = upd_guest k f (ad_guests d)"
    using assms(1) by (simp add: mongo_updateOne_def mongo_ok_def guests_ok_def update_first_map)
  moreover have "guests_ok (upd_guest k f (ad_guests d))"
    using assms by (intro guests_ok_upd) (auto simp: mongo_ok_def)
  moreover have "\<forall>g \<in> set (upd_guest k f (ad_guests d)). uid_text (g_uid g)"
    using assms(1,4) by (auto simp: mongo_ok_def upd_guest_def)
  ultimately show ?thesis
    by (simp add: mongo_ok_def)
qed

lemma mongo_put_discord:
  "mongo_ok d \<Longrightarrow> mongo_ok (mongo_updateOne k (put_discord h e) d) \<and>
    ad_guests (mongo_updateOne k (put_discord h e) d) = upd_guest k (put_discord h e) (ad_guests d)"
  by (rule mongo_updateOne_docs) (simp_all add: token_texts_put)

lemma mongo_put_tokens:
  "mongo_ok d \<Longrightarrow> valid_tokens tk \<Longrightarrow> mongo_ok (mongo_updateOne k (put_tokens tk) d) \<and>
    ad_guests (mongo_updateOne k (put_tokens tk) d) = upd_guest k (put_tokens tk) (ad_guests d)"
  by (rule mongo_updateOne_docs) (simp_all add: token_texts_put)

lemma mongo_put_access:
  "mongo_ok d \<Longrightarrow> a \<noteq> [] \<Longrightarrow> mongo_ok (mongo_updateOne k (put_access a x) d) \<and>
    ad_guests (mongo_updateOne k (put_access a x) d) = upd_guest k (put_access a x) (ad_guests d)"
  by (rule mongo_updateOne_docs) (simp_all add: token_texts_put)

lemma mongo_no_tokens:
  "mongo_ok d \<Longrightarrow> mongo_ok (mongo_updateOne k no_tokens d) \<and>
    ad_guests (mongo_updateOne k no_tokens d) = upd_guest k no_tokens (ad_guests d)"
  by (rule mongo_updateOne_docs) (simp_all add: token_texts_put)

lemmas mongo_updates = mongo_put_discord mongo_put_tokens mongo_put_access mongo_no_tokens

lemma mongo_okD:
  "mongo_ok d \<Longrightarrow> guests_ok (ad_guests d)" "mongo_ok d \<Longrightarrow> g \<in> set (ad_guests d) \<Longrightarrow> uid_text (g_uid g)"
  by (simp_all add: mongo_ok_def)

lemma mongo_repo_ops:
  "gr_findByDcId (createGuestsRepoMongo m) = mongo_findByDcId"
  "gr_findByOpenId (createGuestsRepoMongo m) = mongo_findByOpenId"
  "gr_findByAccessToken (createGuestsRepoMongo m) = mongo_findByAccessToken"
  "gr_findByRefreshToken (createGuestsRepoMongo m) = mongo_findByRefreshToken"
  "gr_findByAccessAndRefreshToken (createGuestsRepoMongo m) = mongo_findByAccessAndRefreshToken m"
  "gr_insertUser (createGuestsRepoMongo m) = mongo_insertUser"
  "gr_updateDiscordFields (createGuestsRepoMongo m) k h e = mongo_updateOne k (put_discord h e)"
  "gr_setTokens (createGuestsRepoMongo m) k tk = mongo_updateOne k (put_tokens tk)"
  "gr_refreshAccessToken (createGuestsRepoMongo m) k a x = mongo_updateOne k (put_access a x)"
  "gr_clearTokens (createGuestsRepoMongo m) k = mongo_updateOne k no_tokens"
  "gr_currentMaxUid (createGuestsRepoMongo m) = mongo_currentMaxUid"
  by (simp_all add: createGuestsRepoMongo_def)

lemma guests_ok_snoc:
  "guests_ok (gs @ [doc]) \<longleftrightarrow> guests_ok gs \<and> token_texts_ok doc \<and>
    (\<forall>g \<in> set gs. g_open_id g \<noteq> g_open_id doc \<and> g_dc_id g \<noteq> g_dc_id doc)"
proof -
  have "f x \<notin> f ` set gs \<longleftrightarrow> (\<forall>g \<in> set gs. f g \<noteq> f x)" for f :: "'a guest \<Rightarrow> string" and x
    by (auto simp: image_iff)
  then show ?thesis
    by (simp add: guests_ok_def) blast
qed

interpretation mongo_guests: guest_store "createGuestsRepoMongo other" ad_guests mongo_ok for other
proof
  fix d :: mongo_db and doc :: "string guest"
  assume d: "mongo_ok d" "uid_text (g_uid doc)" "token_texts_ok doc" "\<not> duplicate_doc doc (ad_guests d)"
  then show "\<exists>d'. gr_insertUser (createGuestsRepoMongo other) doc d = (Inr (), d') \<and> mongo_ok d' \<and>
      ad_guests d' = ad_guests d @ [doc]"
    by (auto simp: mongo_repo_ops mongo_insertUser_def duplicate_doc_def mongo_ok_def guests_ok_snoc)
next
  fix d :: mongo_db and doc :: "string guest"
  assume "duplicate_doc doc (ad_guests d)"
  then show "\<exists>e. gr_insertUser (createGuestsRepoMongo other) doc d = (Inl e, d) \<and> is_duplicate e"
    by (simp add: mongo_repo_ops mongo_insertUser_def duplicate_doc_def)
next
  fix d :: mongo_db
  assume d: "mongo_ok d"
  have "to_long (g_uid g) \<noteq> None" if "g \<in> set (ad_guests d)" for g
    using d that uid_text_long by (fastforce simp: mongo_ok_def)
  then show "gr_currentMaxUid (createGuestsRepoMongo other) d =
      Inr (max_opt (map (\<lambda>g. the (to_long (g_uid g))) (ad_guests d)))"
    by (auto simp: mongo_repo_ops mongo_currentMaxUid_def)
qed (simp_all add: mongo_repo_ops mongo_updates mongo_okD mongo_findByDcId_def mongo_findByOpenId_def
    mongo_findByAccessToken_def mongo_findByRefreshToken_def mongo_findByAccessAndRefreshToken_def
    mongo_one_def mongo_match_def)

section \<open>PostgreSQL\<close>

definition pg_docs :: "pg_db \<Rightarrow> string guest list" where
  "pg_docs d = map doc_of (ad_guests d)"

lemma pg_repo_ops:
  "gr_findByDcId (createGuestsRepoPg other) = pg_findByDcId"
  "gr_findByOpenId (createGuestsRepoPg other) = pg_findByOpenId"
  "gr_findByAccessToken (createGuestsRepoPg other) = pg_findByAccessToken"
  "gr_findByRefreshToken (createGuestsRepoPg other) = pg_findByRefreshToken"
  "gr_findByAccessAndRefreshToken (createGuestsRepoPg other) = pg_findByAccessAndRefreshToken other"
  "gr_insertUser (createGuestsRepoPg other) = pg_insertUser"
  "gr_updateDiscordFields (createGuestsRepoPg other) k h e = pg_update k (put_discord h e)"
  "gr_setTokens (createGuestsRepoPg other) k tk = pg_update k (put_tokens tk)"
  "gr_refreshAccessToken (createGuestsRepoPg other) k a x = pg_update k (put_access a x)"
  "gr_clearTokens (createGuestsRepoPg other) k = pg_update k no_tokens"
  "gr_currentMaxUid (createGuestsRepoPg other) = pg_currentMaxUid"
  by (simp_all add: createGuestsRepoPg_def)

lemma guests_ok_docs: "guests_ok (map doc_of gs) \<longleftrightarrow> guests_ok gs"
  by (simp add: guests_ok_def comp_def token_texts_ok_def)

lemma find_map_doc: "(\<And>g. P (doc_of g) = Q g) \<Longrightarrow> find P (map doc_of gs) = map_option doc_of (find Q gs)"
  by (induction gs) auto

lemma pg_one_docs:
  assumes "\<And>g. P (doc_of g) = Q g"
  shows "pg_one Q d = map_option (view_guest (\<lambda>u. u)) (find P (pg_docs d))"
  by (simp add: pg_one_def pg_docs_def find_map_doc [of P Q, OF assms] option.map_comp comp_def view_doc_of)

lemma pg_update_docs:
  assumes "pg_ok d" and "\<And>g. g_open_id (f g) = g_open_id g" and "\<And>g. g_dc_id (f g) = g_dc_id g"
    and "\<And>g. g_uid (f g) = g_uid g" and "\<And>g. token_texts_ok g \<Longrightarrow> token_texts_ok (f g)"
    and "\<And>g. h (doc_of g) = doc_of (f g)"
  shows "pg_ok (pg_update k f d) \<and> pg_docs (pg_update k f d) = upd_guest k h (pg_docs d)"
proof -
  have "guests_ok (upd_guest k f (ad_guests d))"
    using assms by (intro guests_ok_upd) (auto simp: pg_ok_def)
  moreover have "ad_guests (pg_update k f d) = upd_guest k f (ad_guests d)"
    by (simp add: pg_update_def upd_guest_def)
  moreover have "\<forall>g \<in> set (upd_guest k f (ad_guests d)). long_range (g_uid g)"
    using assms(1,4) by (auto simp: pg_ok_def upd_guest_def)
  moreover have "map doc_of (upd_guest k f (ad_guests d)) = upd_guest k h (map doc_of (ad_guests d))"
    using assms(6) by (simp add: upd_guest_def)
  ultimately show ?thesis
    by (simp add: pg_ok_def pg_docs_def)
qed

lemma pg_put_discord:
  "pg_ok d \<Longrightarrow> pg_ok (pg_update k (put_discord h e) d) \<and>
    pg_docs (pg_update k (put_discord h e) d) = upd_guest k (put_discord h e) (pg_docs d)"
  by (rule pg_update_docs) (simp_all add: token_texts_put put_doc_of)

lemma pg_put_tokens:
  "pg_ok d \<Longrightarrow> valid_tokens tk \<Longrightarrow> pg_ok (pg_update k (put_tokens tk) d) \<and>
    pg_docs (pg_update k (put_tokens tk) d) = upd_guest k (put_tokens tk) (pg_docs d)"
  by (rule pg_update_docs) (simp_all add: token_texts_put put_doc_of)

lemma pg_put_access:
  "pg_ok d \<Longrightarrow> a \<noteq> [] \<Longrightarrow> pg_ok (pg_update k (put_access a x) d) \<and>
    pg_docs (pg_update k (put_access a x) d) = upd_guest k (put_access a x) (pg_docs d)"
  by (rule pg_update_docs) (simp_all add: token_texts_put put_doc_of)

lemma pg_no_tokens:
  "pg_ok d \<Longrightarrow> pg_ok (pg_update k no_tokens d) \<and>
    pg_docs (pg_update k no_tokens d) = upd_guest k no_tokens (pg_docs d)"
  by (rule pg_update_docs) (simp_all add: token_texts_put put_doc_of)

lemmas pg_updates = pg_put_discord pg_put_tokens pg_put_access pg_no_tokens

lemma pg_okD:
  "pg_ok d \<Longrightarrow> guests_ok (pg_docs d)" "pg_ok d \<Longrightarrow> g \<in> set (pg_docs d) \<Longrightarrow> uid_text (g_uid g)"
  by (auto simp: pg_ok_def pg_docs_def guests_ok_docs uid_text_def)

lemma no_empty_token:
  "guests_ok gs \<Longrightarrow> find (\<lambda>g. g_access_token g = Some []) gs = None"
  "guests_ok gs \<Longrightarrow> find (\<lambda>g. g_refresh_token g = Some []) gs = None"
  by (auto simp: guests_ok_def token_texts_ok_def find_None_iff)

lemma int_str_inj: "long_range m \<Longrightarrow> long_range n \<Longrightarrow> int_str m = int_str n \<Longrightarrow> m = n"
  by (metis to_long_int_str option.inject)

lemma duplicate_docs:
  "duplicate_doc doc (map doc_of gs) \<longleftrightarrow> (\<exists>g \<in> set gs. g_open_id g = g_open_id doc \<or> g_dc_id g = g_dc_id doc)"
  by (simp add: duplicate_doc_def)

interpretation pg_guests: guest_store "createGuestsRepoPg other" pg_docs pg_ok for other
proof
  fix d :: pg_db and doc :: "string guest"
  assume d: "pg_ok d" "uid_text (g_uid doc)" "token_texts_ok doc" "\<not> duplicate_doc doc (pg_docs d)"
    "g_uid doc \<notin> g_uid ` set (pg_docs d)"
  then obtain n where n: "to_long (g_uid doc) = Some n" "int_str n = g_uid doc" "long_range n"
    using uid_text_long by blast
  have "\<not> (\<exists>g \<in> set (ad_guests d). g_open_id g = g_open_id doc \<or> g_uid g = n \<or> g_dc_id g = g_dc_id doc)"
    using d(4,5) n(2) by (auto simp: pg_docs_def duplicate_docs image_iff)
  moreover have "guests_ok (ad_guests d @ [with_uid n doc])"
    using d by (auto simp: guests_ok_snoc pg_ok_def pg_docs_def duplicate_docs token_texts_ok_def)
  ultimately show "\<exists>d'. gr_insertUser (createGuestsRepoPg other) doc d = (Inr (), d') \<and> pg_ok d' \<and>
      pg_docs d' = pg_docs d @ [doc]"
    using d(1) n by (simp add: pg_repo_ops pg_insertUser_def pg_ok_def pg_docs_def doc_of_with_uid)
next
  fix d :: pg_db and doc :: "string guest"
  assume "uid_text (g_uid doc)" "duplicate_doc doc (pg_docs d)"
  then show "\<exists>e. gr_insertUser (createGuestsRepoPg other) doc d = (Inl e, d) \<and> is_duplicate e"
    using uid_text_long [of "g_uid doc"] by (auto simp: pg_repo_ops pg_insertUser_def pg_docs_def duplicate_docs)
next
  fix d :: pg_db
  assume d: "pg_ok d"
  then have "map (\<lambda>g. the (to_long (g_uid g))) (pg_docs d) = map g_uid (ad_guests d)"
    by (simp add: pg_docs_def pg_ok_def to_long_int_str)
  then show "gr_currentMaxUid (createGuestsRepoPg other) d =
      Inr (max_opt (map (\<lambda>g. the (to_long (g_uid g))) (pg_docs d)))"
    by (simp add: pg_repo_ops pg_currentMaxUid_def)
next
  fix d :: pg_db and a b t k
  assume d: "pg_ok d"
  show "gr_findByAccessToken (createGuestsRepoPg other) t d =
      map_option (view_guest (\<lambda>u. u)) (find (\<lambda>g. g_access_token g = Some t) (pg_docs d))"
    using no_empty_token [OF pg_okD(1) [OF d]]
    by (simp add: pg_repo_ops pg_findByAccessToken_def pg_one_docs [where P = "\<lambda>g. g_access_token g = Some t"])
  show "gr_findByRefreshToken (createGuestsRepoPg other) t d =
      map_option (view_guest (\<lambda>u. u)) (find (\<lambda>g. g_refresh_token g = Some t) (pg_docs d))"
    using no_empty_token [OF pg_okD(1) [OF d]]
    by (simp add: pg_repo_ops pg_findByRefreshToken_def pg_one_docs [where P = "\<lambda>g. g_refresh_token g = Some t"])
  have "find (\<lambda>g. g_access_token g = Some a \<and> g_refresh_token g = Some b) (pg_docs d) = None"
    if "a = [] \<or> b = []"
    using pg_okD(1) [OF d] that by (auto simp: guests_ok_def token_texts_ok_def find_None_iff)
  then show "gr_findByAccessAndRefreshToken (createGuestsRepoPg other) (JStr a) (JStr b) d =
      map_option (view_guest (\<lambda>u. u)) (find (\<lambda>g. g_access_token g = Some a \<and> g_refresh_token g = Some b) (pg_docs d))"
    by (auto simp: pg_repo_ops pg_findByAccessAndRefreshToken_def pg_param_def
        pg_one_docs [where P = "\<lambda>g. g_access_token g = Some a \<and> g_refresh_token g = Some b"])
next
  fix d :: pg_db and k
  show "gr_findByDcId (createGuestsRepoPg other) k d =
      map_option (view_guest (\<lambda>u. u)) (find (\<lambda>g. g_dc_id g = k) (pg_docs d))"
    by (simp add: pg_repo_ops pg_findByDcId_def pg_one_docs [where P = "\<lambda>g. g_dc_id g = k"])
  show "gr_findByOpenId (createGuestsRepoPg other) k d =
      map_option (view_guest (\<lambda>u. u)) (find (\<lambda>g. g_open_id g = k) (pg_docs d))"
    by (simp add: pg_repo_ops pg_findByOpenId_def pg_one_docs [where P = "\<lambda>g. g_open_id g = k"])
qed (simp_all add: pg_repo_ops pg_updates pg_okD)

section \<open>Guests and accounts\<close>

text \<open>The login flow also inserts into the accounts: this leaves the guests alone and succeeds for a new
  open id and a new uid; writing tokens leaves the accounts alone.\<close>

locale auth_store = guest_store R docs ok
  for R :: "'d guests_repo" and docs :: "'d \<Rightarrow> string guest list" and ok :: "'d \<Rightarrow> bool" +
  fixes A :: "'d accounts_repo" and accs :: "'d \<Rightarrow> string auth_account list"
  assumes account_keeps: "ok d \<Longrightarrow> ok (snd (ar_insertAccount A a d)) \<and> docs (snd (ar_insertAccount A a d)) = docs d"
    and account_fresh: "uid_text (aa_uid a) \<Longrightarrow> aa_open_id a \<notin> aa_open_id ` set (accs d) \<Longrightarrow>
      aa_uid a \<notin> aa_uid ` set (accs d) \<Longrightarrow>
      fst (ar_insertAccount A a d) = Inr () \<and> accs (snd (ar_insertAccount A a d)) = accs d @ [a]"
    and guest_keeps: "accs (snd (gr_insertUser R doc d)) = accs d"
    and tokens_keep: "accs (gr_setTokens R k tk d) = accs d"

lemma not_in_image: "y \<notin> f ` S \<longleftrightarrow> (\<forall>x \<in> S. f x \<noteq> y)"
  by auto

interpretation mongo_auth: auth_store "createGuestsRepoMongo other" ad_guests mongo_ok createAccountsRepoMongo ad_accounts
  for other
  by unfold_locales
    (auto simp: createAccountsRepoMongo_def mongo_insertAccount_def mongo_ok_def mongo_repo_ops mongo_insertUser_def
      mongo_updateOne_def not_in_image)

definition pg_accounts :: "pg_db \<Rightarrow> string auth_account list" where
  "pg_accounts d = map (\<lambda>a. account_with_uid (int_str (aa_uid a)) a) (ad_accounts d)"

lemma account_with_uid_fields [simp]:
  "aa_open_id (account_with_uid u a) = aa_open_id a" "aa_uid (account_with_uid u a) = u"
  by (simp_all add: account_with_uid_def)

lemma account_with_uid_same:
  "account_with_uid (aa_uid a) (account_with_uid n a) = a"
  by (cases a) (simp add: account_with_uid_def)

interpretation pg_auth: auth_store "createGuestsRepoPg other" pg_docs pg_ok createAccountsRepoPg pg_accounts
  for other
proof unfold_locales
  fix a :: "string auth_account" and d :: pg_db
  assume "uid_text (aa_uid a)" "aa_open_id a \<notin> aa_open_id ` set (pg_accounts d)"
  moreover from this obtain n where "to_long (aa_uid a) = Some n" "int_str n = aa_uid a"
    using uid_text_long by blast
  ultimately show "fst (ar_insertAccount createAccountsRepoPg a d) = Inr () \<and>
      pg_accounts (snd (ar_insertAccount createAccountsRepoPg a d)) = pg_accounts d @ [a]"
    by (auto simp: createAccountsRepoPg_def pg_insertAccount_def pg_accounts_def image_iff account_with_uid_same)
qed (auto simp: createAccountsRepoPg_def pg_insertAccount_def pg_ok_def pg_docs_def pg_repo_ops pg_insertUser_def
    pg_update_def pg_accounts_def split: option.splits)

end
