(* ===== verification/Pairings.thy ===== *)
theory Pairings
  imports Prelude
begin

text \<open>
  The pairings that carry the result of a Discord login from the browser to the game's WebView
  (\<open>auth/shared/src/repositories/pairings.pg.js\<close> and \<open>pairings.mongo.js\<close>). Times are in
  milliseconds. \<open>consumeIfCompleted\<close> is a query followed by a deletion, with an \<open>await\<close> between
  them: the two halves are definitions of their own, so that other requests can come in between.
\<close>

datatype pair_status = PairPending | PairCompleted | PairFailed

record pairing =
  pr_pair_id :: string
  pr_redirect_uri :: string
  pr_status :: pair_status
  pr_redirect_url :: "string option"
  pr_error :: "string option"
  pr_created_at :: int
  pr_expires_at :: int

type_synonym pair_db = "pairing list"

text \<open>The answers of \<open>consumeIfCompleted\<close>.\<close>

datatype poll_result =
    PollExpired
  | PollPending
  | PollCompleted "string option"
  | PollFailed "string option"

definition pending_doc :: "string \<Rightarrow> string \<Rightarrow> int \<Rightarrow> int \<Rightarrow> pairing" where
  "pending_doc pairId redirectUri ttlSeconds now =
     \<lparr>pr_pair_id = pairId, pr_redirect_uri = redirectUri, pr_status = PairPending, pr_redirect_url = None,
      pr_error = None, pr_created_at = now, pr_expires_at = now + ttlSeconds * 1000\<rparr>"

definition complete_doc :: "string \<Rightarrow> pairing \<Rightarrow> pairing" where
  "complete_doc url p = p\<lparr>pr_status := PairCompleted, pr_redirect_url := Some url\<rparr>"

definition fail_doc :: "string \<Rightarrow> pairing \<Rightarrow> pairing" where
  "fail_doc error p = p\<lparr>pr_status := PairFailed, pr_error := Some (take 200 error)\<rparr>"

text \<open>The terminal answer for a document that was found or deleted.\<close>

definition terminal_result :: "pairing \<Rightarrow> poll_result" where
  "terminal_result p =
     (case pr_status p of
        PairCompleted \<Rightarrow> PollCompleted (pr_redirect_url p)
      | PairFailed \<Rightarrow> PollFailed (pr_error p)
      | PairPending \<Rightarrow> PollExpired)"

text \<open>The unique index on \<open>pair_id\<close> refuses a second document; \<open>False\<close> is the duplicate error.\<close>

definition createPending :: "string \<Rightarrow> string \<Rightarrow> int \<Rightarrow> int \<Rightarrow> pair_db \<Rightarrow> bool \<times> pair_db" where
  "createPending pairId redirectUri ttlSeconds now ps =
     (if pairId \<in> pr_pair_id ` set ps then (False, ps)
      else (True, ps @ [pending_doc pairId redirectUri ttlSeconds now]))"

section \<open>PostgreSQL\<close>

text \<open>Every query but the deletion compares \<open>expires_at\<close> with the database's clock.\<close>

definition live :: "string \<Rightarrow> int \<Rightarrow> pairing \<Rightarrow> bool" where
  "live pairId now p \<longleftrightarrow> pr_pair_id p = pairId \<and> pr_expires_at p > now"

definition pg_findByPairId :: "string \<Rightarrow> int \<Rightarrow> pair_db \<Rightarrow> pairing option" where
  "pg_findByPairId pairId now ps = find (live pairId now) ps"

text \<open>\<open>UPDATE ... WHERE pair_id = $1 AND status = 'pending' AND expires_at > now() RETURNING *\<close>.\<close>

definition pg_mark :: "string \<Rightarrow> int \<Rightarrow> (pairing \<Rightarrow> pairing) \<Rightarrow> pair_db \<Rightarrow> pairing option \<times> pair_db" where
  "pg_mark pairId now f ps =
     (let hit = (\<lambda>p. live pairId now p \<and> pr_status p = PairPending)
      in (map_option f (find hit ps), map (\<lambda>p. if hit p then f p else p) ps))"

definition pg_markCompleted :: "string \<Rightarrow> string \<Rightarrow> int \<Rightarrow> pair_db \<Rightarrow> pairing option \<times> pair_db" where
  "pg_markCompleted pairId redirectUrl now ps = pg_mark pairId now (complete_doc redirectUrl) ps"

definition pg_markFailed :: "string \<Rightarrow> string \<Rightarrow> int \<Rightarrow> pair_db \<Rightarrow> pairing option \<times> pair_db" where
  "pg_markFailed pairId error now ps = pg_mark pairId now (fail_doc error) ps"

text \<open>The first half answers at once or remembers the status it has seen; the second half is
  \<open>DELETE ... WHERE pair_id = $1 AND status = $2 RETURNING ...\<close>.\<close>

definition pg_consume_select :: "string \<Rightarrow> int \<Rightarrow> pair_db \<Rightarrow> poll_result + pairing" where
  "pg_consume_select pairId now ps =
     (case find (live pairId now) ps of
        None \<Rightarrow> Inl PollExpired
      | Some row \<Rightarrow> if pr_status row = PairPending then Inl PollPending else Inr row)"

definition pg_consume_delete :: "string \<Rightarrow> pairing \<Rightarrow> pair_db \<Rightarrow> poll_result \<times> pair_db" where
  "pg_consume_delete pairId row ps =
     (let hit = (\<lambda>p. pr_pair_id p = pairId \<and> pr_status p = pr_status row)
      in ((case find hit ps of None \<Rightarrow> PollExpired | Some consumed \<Rightarrow> terminal_result consumed),
          filter (\<lambda>p. \<not> hit p) ps))"

text \<open>The sweeper of \<open>pg.js\<close> (\<open>startPairingSweeper\<close>).\<close>

definition pg_sweep :: "int \<Rightarrow> pair_db \<Rightarrow> pair_db" where
  "pg_sweep now ps = filter (\<lambda>p. \<not> pr_expires_at p \<le> now) ps"

section \<open>MongoDB\<close>

text \<open>No query looks at \<open>expires_at\<close>; the TTL monitor of the database removes expired documents
  about once a minute.\<close>

definition mongo_findByPairId :: "string \<Rightarrow> int \<Rightarrow> pair_db \<Rightarrow> pairing option" where
  "mongo_findByPairId pairId now ps = find (\<lambda>p. pr_pair_id p = pairId) ps"

definition mongo_mark :: "string \<Rightarrow> (pairing \<Rightarrow> pairing) \<Rightarrow> pair_db \<Rightarrow> pairing option \<times> pair_db" where
  "mongo_mark pairId f ps =
     (let hit = (\<lambda>p. pr_pair_id p = pairId \<and> pr_status p = PairPending)
      in (map_option f (find hit ps), update_first hit f ps))"

definition mongo_markCompleted :: "string \<Rightarrow> string \<Rightarrow> int \<Rightarrow> pair_db \<Rightarrow> pairing option \<times> pair_db" where
  "mongo_markCompleted pairId redirectUrl now ps = mongo_mark pairId (complete_doc redirectUrl) ps"

definition mongo_markFailed :: "string \<Rightarrow> string \<Rightarrow> int \<Rightarrow> pair_db \<Rightarrow> pairing option \<times> pair_db" where
  "mongo_markFailed pairId error now ps = mongo_mark pairId (fail_doc error) ps"

definition mongo_consume_select :: "string \<Rightarrow> int \<Rightarrow> pair_db \<Rightarrow> poll_result + pairing" where
  "mongo_consume_select pairId now ps =
     (case find (\<lambda>p. pr_pair_id p = pairId) ps of
        None \<Rightarrow> Inl PollExpired
      | Some doc \<Rightarrow> if pr_status doc = PairPending then Inl PollPending else Inr doc)"

text \<open>\<open>deleteOne\<close>; its result is not looked at, and the answer is made of the document read before.\<close>

fun delete_first :: "('a \<Rightarrow> bool) \<Rightarrow> 'a list \<Rightarrow> 'a list" where
  "delete_first P [] = []"
| "delete_first P (x # xs) = (if P x then xs else x # delete_first P xs)"

definition mongo_consume_delete :: "string \<Rightarrow> pairing \<Rightarrow> pair_db \<Rightarrow> poll_result \<times> pair_db" where
  "mongo_consume_delete pairId doc ps =
     (terminal_result doc, delete_first (\<lambda>p. pr_pair_id p = pairId \<and> pr_status p = pr_status doc) ps)"

section \<open>The repository\<close>

record pairings_repo =
  ps_findByPairId :: "string \<Rightarrow> int \<Rightarrow> pair_db \<Rightarrow> pairing option"
  ps_markCompleted :: "string \<Rightarrow> string \<Rightarrow> int \<Rightarrow> pair_db \<Rightarrow> pairing option \<times> pair_db"
  ps_markFailed :: "string \<Rightarrow> string \<Rightarrow> int \<Rightarrow> pair_db \<Rightarrow> pairing option \<times> pair_db"
  ps_consume_select :: "string \<Rightarrow> int \<Rightarrow> pair_db \<Rightarrow> poll_result + pairing"
  ps_consume_delete :: "string \<Rightarrow> pairing \<Rightarrow> pair_db \<Rightarrow> poll_result \<times> pair_db"

definition createPairingsRepoPg :: pairings_repo where
  "createPairingsRepoPg = \<lparr>ps_findByPairId = pg_findByPairId, ps_markCompleted = pg_markCompleted,
     ps_markFailed = pg_markFailed, ps_consume_select = pg_consume_select,
     ps_consume_delete = pg_consume_delete\<rparr>"

definition createPairingsRepoMongo :: pairings_repo where
  "createPairingsRepoMongo = \<lparr>ps_findByPairId = mongo_findByPairId, ps_markCompleted = mongo_markCompleted,
     ps_markFailed = mongo_markFailed, ps_consume_select = mongo_consume_select,
     ps_consume_delete = mongo_consume_delete\<rparr>"

text \<open>\<open>consumeIfCompleted\<close> as a whole; \<open>between\<close> is what other requests do during the \<open>await\<close>.\<close>

definition consumeIfCompleted ::
  "pairings_repo \<Rightarrow> (pair_db \<Rightarrow> pair_db) \<Rightarrow> string \<Rightarrow> int \<Rightarrow> pair_db \<Rightarrow> poll_result \<times> pair_db" where
  "consumeIfCompleted Q between pairId now ps =
     (case ps_consume_select Q pairId now ps of
        Inl r \<Rightarrow> (r, ps)
      | Inr row \<Rightarrow> ps_consume_delete Q pairId row (between ps))"

end
