(* ===== verification/PairingRuns.thy ===== *)
theory PairingRuns
  imports Pairings
begin

text \<open>
  Every interleaving of the requests that touch the pairings: dialogs that create them, callbacks
  that complete or fail them, polls in their two halves, and the removal of expired documents. The
  state remembers the polls between their halves, the outcomes that were recorded and the terminal
  answers that were given.
\<close>

record pair_system =
  py_db :: pair_db
  py_used :: "string set"
  py_flights :: "(string \<times> pairing) list"
  py_marks :: "(string \<times> poll_result) list"
  py_log :: "(string \<times> poll_result) list"

definition py_start :: pair_system where
  "py_start = \<lparr>py_db = [], py_used = {}, py_flights = [], py_marks = [], py_log = []\<rparr>"

text \<open>A pair id is 24 random bytes: no id is drawn twice.\<close>

inductive pair_step :: "pairings_repo \<Rightarrow> pair_system \<Rightarrow> pair_system \<Rightarrow> bool" for Q where
  dialog: "pid \<notin> py_used s \<Longrightarrow> createPending pid uri ttl now (py_db s) = (True, ps) \<Longrightarrow>
    pair_step Q s (s\<lparr>py_db := ps, py_used := insert pid (py_used s)\<rparr>)"
| completed: "ps_markCompleted Q pid url now (py_db s) = (Some p, ps) \<Longrightarrow>
    pair_step Q s (s\<lparr>py_db := ps, py_marks := (pid, PollCompleted (Some url)) # py_marks s\<rparr>)"
| failed: "ps_markFailed Q pid err now (py_db s) = (Some p, ps) \<Longrightarrow>
    pair_step Q s (s\<lparr>py_db := ps, py_marks := (pid, PollFailed (Some (take 200 err))) # py_marks s\<rparr>)"
| not_marked: "ps_markCompleted Q pid url now (py_db s) = (None, ps) \<or> ps_markFailed Q pid err now (py_db s) = (None, ps) \<Longrightarrow>
    pair_step Q s (s\<lparr>py_db := ps\<rparr>)"
| sweep: "pair_step Q s (s\<lparr>py_db := pg_sweep now (py_db s)\<rparr>)"
| poll: "ps_consume_select Q pid now (py_db s) = Inr row \<Longrightarrow>
    pair_step Q s (s\<lparr>py_flights := py_flights s @ [(pid, row)]\<rparr>)"
| finish: "i < length (py_flights s) \<Longrightarrow> py_flights s ! i = (pid, row) \<Longrightarrow>
    ps_consume_delete Q pid row (py_db s) = (r, ps) \<Longrightarrow>
    pair_step Q s (s\<lparr>py_db := ps, py_flights := take i (py_flights s) @ drop (Suc i) (py_flights s),
      py_log := (if r = PollExpired then py_log s else (pid, r) # py_log s)\<rparr>)"

abbreviation pair_reach :: "pairings_repo \<Rightarrow> pair_system \<Rightarrow> bool" where
  "pair_reach Q s \<equiv> (pair_step Q)\<^sup>*\<^sup>* py_start s"

inductive_cases pair_stepE: "pair_step Q s s'"

section \<open>The invariant of the PostgreSQL repository\<close>

text \<open>Of a pair id there is at most one document; a terminal document holds the one outcome that was
  recorded for it, a pending one has none; an id that was answered has no document any more.\<close>

definition py_inv :: "pair_system \<Rightarrow> bool" where
  "py_inv s \<longleftrightarrow>
     distinct (map pr_pair_id (py_db s)) \<and> pr_pair_id ` set (py_db s) \<subseteq> py_used s \<and>
     fst ` set (py_marks s) \<subseteq> py_used s \<and> distinct (map fst (py_marks s)) \<and>
     (\<forall>p \<in> set (py_db s). pr_status p = PairPending \<longrightarrow> pr_pair_id p \<notin> fst ` set (py_marks s)) \<and>
     (\<forall>p \<in> set (py_db s). pr_status p \<noteq> PairPending \<longrightarrow> (pr_pair_id p, terminal_result p) \<in> set (py_marks s)) \<and>
     distinct (map fst (py_log s)) \<and> set (py_log s) \<subseteq> set (py_marks s) \<and>
     fst ` set (py_log s) \<inter> pr_pair_id ` set (py_db s) = {}"

lemma find_live:
  "find (\<lambda>p. live pid now p \<and> pr_status p = PairPending) ps = Some p \<Longrightarrow>
    p \<in> set ps \<and> pr_pair_id p = pid \<and> pr_status p = PairPending"
  by (auto simp: live_def dest!: find_Some_set)

lemma pg_mark_cases:
  assumes "pg_mark pid now f ps = (r, ps')" and "distinct (map pr_pair_id ps)"
  shows "(r = None \<and> ps' = ps) \<or>
    (\<exists>p xs ys. r = Some (f p) \<and> ps = xs @ p # ys \<and> ps' = xs @ f p # ys \<and> pr_pair_id p = pid \<and>
      pr_status p = PairPending \<and> (\<forall>q \<in> set xs \<union> set ys. pr_pair_id q \<noteq> pid))"
proof (cases "find (\<lambda>p. live pid now p \<and> pr_status p = PairPending) ps")
  case None
  then have "map (\<lambda>p. if live pid now p \<and> pr_status p = PairPending then f p else p) ps = ps"
    by (intro map_idI) (auto simp: find_None_iff)
  with None assms(1) show ?thesis
    by (simp add: pg_mark_def)
next
  case (Some p)
  note p = find_live [OF Some]
  then obtain xs ys where ps: "ps = xs @ p # ys"
    by (meson split_list)
  have other: "\<forall>q \<in> set xs \<union> set ys. pr_pair_id q \<noteq> pid"
    using assms(2) p by (auto simp: ps image_iff)
  then have "\<forall>q \<in> set xs \<union> set ys. \<not> live pid now q"
    by (auto simp: live_def)
  then have "map (\<lambda>p. if live pid now p \<and> pr_status p = PairPending then f p else p) xs = xs"
    "map (\<lambda>p. if live pid now p \<and> pr_status p = PairPending then f p else p) ys = ys"
    by (auto intro!: map_idI)
  moreover have "live pid now p"
    using Some by (auto dest!: find_Some_set)
  ultimately show ?thesis
    using Some assms(1) p other by (auto simp: pg_mark_def ps)
qed

lemma py_inv_mark:
  assumes inv: "py_inv s" and m: "pg_mark pid now f (py_db s) = (Some p', ps)"
    and f: "\<And>p. pr_pair_id (f p) = pr_pair_id p" "\<And>p. pr_status (f p) \<noteq> PairPending" "\<And>p. terminal_result (f p) = r"
  shows "py_inv (s\<lparr>py_db := ps, py_marks := (pid, r) # py_marks s\<rparr>)"
proof -
  have dist: "distinct (map pr_pair_id (py_db s))"
    using inv by (simp add: py_inv_def)
  from pg_mark_cases [OF m dist] obtain p xs ys where
    p: "py_db s = xs @ p # ys" "ps = xs @ f p # ys" "pr_pair_id p = pid" "pr_status p = PairPending"
    "\<forall>q \<in> set xs \<union> set ys. pr_pair_id q \<noteq> pid"
    by auto
  have new: "pid \<notin> fst ` set (py_marks s)" "pid \<in> py_used s"
    using inv p by (auto simp: py_inv_def)
  then show ?thesis
    using inv p f dist by (auto simp: py_inv_def split: if_splits)
qed

lemma py_inv_shrink:
  assumes "py_inv s" and "ps = filter P (py_db s)"
  shows "py_inv (s\<lparr>py_db := ps\<rparr>)"
  using assms by (auto simp: py_inv_def distinct_map_filter)

lemma pair_repo_pg [simp]:
  "ps_markCompleted createPairingsRepoPg = pg_markCompleted" "ps_markFailed createPairingsRepoPg = pg_markFailed"
  "ps_consume_select createPairingsRepoPg = pg_consume_select" "ps_consume_delete createPairingsRepoPg = pg_consume_delete"
  "ps_findByPairId createPairingsRepoPg = pg_findByPairId"
  by (simp_all add: createPairingsRepoPg_def)

lemma py_inv_step:
  assumes "pair_step createPairingsRepoPg s s'" and inv: "py_inv s"
  shows "py_inv s'"
  using assms(1)
proof cases
  case (dialog pid uri ttl now ps)
  then have "pid \<notin> pr_pair_id ` set (py_db s)" "ps = py_db s @ [pending_doc pid uri ttl now]"
    by (auto simp: createPending_def split: if_splits)
  moreover have m: "pid \<notin> fst ` set (py_marks s)"
    using inv dialog(2) by (auto simp: py_inv_def)
  moreover have "pid \<notin> fst ` set (py_log s)"
    using inv m by (metis (no_types, lifting) image_mono py_inv_def subset_iff)
  ultimately show ?thesis
    using dialog inv by (simp add: py_inv_def pending_doc_def subset_insertI2)
next
  case (completed pid url now p ps)
  then show ?thesis
    using py_inv_mark [OF inv, of pid now "complete_doc url"]
    by (simp add: pg_markCompleted_def complete_doc_def terminal_result_def)
next
  case (failed pid err now p ps)
  then show ?thesis
    using py_inv_mark [OF inv, of pid now "fail_doc err"]
    by (simp add: pg_markFailed_def fail_doc_def terminal_result_def)
next
  case (not_marked pid url now ps err)
  have "distinct (map pr_pair_id (py_db s))"
    using inv by (simp add: py_inv_def)
  then have "ps = py_db s"
    using not_marked(2) pg_mark_cases [of pid now _ "py_db s" None ps]
    by (auto simp: pg_markCompleted_def pg_markFailed_def)
  then show ?thesis
    using inv not_marked(1) by simp
next
  case (sweep now)
  then show ?thesis
    using py_inv_shrink [OF inv] by (simp add: pg_sweep_def)
next
  case (poll pid now row)
  then show ?thesis
    using inv by (simp add: py_inv_def)
next
  case (finish i pid row r ps)
  let ?hit = "\<lambda>p. pr_pair_id p = pid \<and> pr_status p = pr_status row"
  have ps: "ps = filter (\<lambda>p. \<not> ?hit p) (py_db s)"
    and r: "r = (case find ?hit (py_db s) of None \<Rightarrow> PollExpired | Some p \<Rightarrow> terminal_result p)"
    using finish(4) by (auto simp: pg_consume_delete_def Let_def)
  have shrunk: "py_inv (s\<lparr>py_db := ps\<rparr>)"
    using inv ps by (rule py_inv_shrink)
  show ?thesis
  proof (cases "r = PollExpired")
    case True
    with shrunk finish(1) show ?thesis
      by (auto simp: py_inv_def split: if_splits)
  next
    case False
    then obtain p where p: "find ?hit (py_db s) = Some p" "r = terminal_result p"
      using r by (auto split: option.splits)
    then have q: "p \<in> set (py_db s)" "?hit p"
      by (auto dest!: find_Some_set)
    moreover have "pr_status p \<noteq> PairPending"
      using False p(2) by (auto simp: terminal_result_def)
    ultimately have "(pid, r) \<in> set (py_marks s)" "pid \<notin> fst ` set (py_log s)"
      using inv p(2) by (auto simp: py_inv_def split: if_splits)
    moreover have "pid \<notin> pr_pair_id ` set ps"
    proof
      assume "pid \<in> pr_pair_id ` set ps"
      then obtain p' where p': "p' \<in> set (py_db s)" "pr_pair_id p' = pid" "\<not> ?hit p'"
        using ps by auto
      moreover have "inj_on pr_pair_id (set (py_db s))"
        using inv by (simp add: py_inv_def distinct_map)
      ultimately have "p' = p"
        using q by (auto dest: inj_onD)
      with p' q show False by simp
    qed
    ultimately show ?thesis
      using shrunk finish(1) False by (auto simp: py_inv_def)
  qed
qed

lemma py_inv_reach: "pair_reach createPairingsRepoPg s \<Longrightarrow> py_inv s"
proof (induction rule: rtranclp_induct)
  case base
  then show ?case by (simp add: py_inv_def py_start_def)
next
  case (step s s')
  then show ?case by (blast intro: py_inv_step)
qed

end
