(* ===== verification/SignedState.thy ===== *)
theory SignedState
  imports Jwt Js "HOL-Library.Countable"
begin

text \<open>
  The two signed texts of the authentication services: the signed request handed to the game
  (\<open>auth/shared/src/signed-request.js\<close>) and the OAuth state that travels through Discord
  (\<open>auth/shared/src/oauth-state.js\<close>). HMAC-SHA256 and the JSON text of a value are parameters, as
  for the match token.
\<close>

record sign_env =
  sg_hmac :: "bytes \<Rightarrow> bytes \<Rightarrow> bytes"
  sg_json :: "js \<Rightarrow> bytes"
  sg_parse :: "bytes \<Rightarrow> js option"

text \<open>What the code relies on: \<open>JSON.parse\<close> reads back what \<open>JSON.stringify\<close> wrote, for values
  of null, booleans, integers, strings, arrays and objects.\<close>

fun json_plain :: "js \<Rightarrow> bool" where
  "json_plain JUndef = False"
| "json_plain JNaN = False"
| "json_plain (JFrac q) = False"
| "json_plain (JArr xs) = (\<forall>x \<in> set xs. json_plain x)"
| "json_plain (JObj kvs) = (distinct (map fst kvs) \<and> (\<forall>x \<in> set kvs. json_plain (snd x)))"
| "json_plain v = True"

definition json_law :: "sign_env \<Rightarrow> bool" where
  "json_law G \<longleftrightarrow> (\<forall>v. json_plain v \<longrightarrow> sg_parse G (sg_json G v) = Some v)"

section \<open>Base64url\<close>

definition base64UrlNoPad :: "bytes \<Rightarrow> string" where
  "base64UrlNoPad buf = map url_char (rev (dropWhile (\<lambda>c. c = CHR ''='') (rev (to_base64 buf))))"

text \<open>The padding loop of \<open>base64UrlDecode\<close>.\<close>

function pad4 :: "string \<Rightarrow> string" where
  "pad4 s = (if length s mod 4 = 0 then s else pad4 (s @ ''=''))"
  by pat_completeness auto
termination
  by (relation "measure (\<lambda>s. (4 - length s mod 4) mod 4)") (auto simp: mod_Suc)

declare pad4.simps [simp del]

definition base64UrlDecode :: "string \<Rightarrow> bytes" where
  "base64UrlDecode s = from_base64 (pad4 (map unurl_char s))"

lemma url_char_eq_pad: "url_char c = CHR ''='' \<longleftrightarrow> c = CHR ''=''"
  by (simp add: url_char_def)

lemma base64UrlNoPad_eq: "base64UrlNoPad buf = b64url buf"
proof -
  have "dropWhile (\<lambda>c. c = CHR ''='') (map url_char s) = map url_char (dropWhile (\<lambda>c. c = CHR ''='') s)" for s
    by (simp add: dropWhile_map comp_def url_char_eq_pad)
  then show ?thesis
    by (simp add: base64UrlNoPad_def b64url_def rev_map)
qed

lemma pad4_append: "\<exists>n. pad4 s = s @ replicate n (CHR ''='')"
proof (induction s rule: pad4.induct)
  case (1 s)
  show ?case
  proof (cases "length s mod 4 = 0")
    case True
    then show ?thesis
      by (subst pad4.simps) (simp add: exI [of _ 0])
  next
    case False
    then obtain n where "pad4 (s @ ''='') = (s @ ''='') @ replicate n (CHR ''='')"
      using 1 by blast
    then have "pad4 s = s @ replicate (Suc n) (CHR ''='')"
      using False by (subst pad4.simps) simp
    then show ?thesis ..
  qed
qed

lemma base64UrlDecode_eq: "base64UrlDecode s = b64urlDecode s"
proof -
  obtain n where n: "pad4 (map unurl_char s) = map unurl_char s @ replicate n (CHR ''='')"
    using pad4_append by blast
  have "takeWhile (\<lambda>c. c \<noteq> CHR ''='') (t @ replicate n (CHR ''='')) = takeWhile (\<lambda>c. c \<noteq> CHR ''='') t" for t
    by (induction t) (cases n; simp)+
  then show ?thesis
    by (simp add: base64UrlDecode_def b64urlDecode_def n from_base64_def)
qed

lemma decode_noPad: "base64UrlDecode (base64UrlNoPad b) = b"
  by (simp add: base64UrlDecode_eq base64UrlNoPad_eq b64url_roundtrip)

lemma noPad_no_dot: "CHR ''.'' \<notin> set (base64UrlNoPad b)"
  by (simp add: base64UrlNoPad_eq b64url_no_dot)

text \<open>\<open>indexOf('.')\<close> and the two slices around it.\<close>

definition cut_at_dot :: "string \<Rightarrow> (string \<times> string) option" where
  "cut_at_dot s = map_option (\<lambda>i. (take i s, drop (i + 1) s)) (find_index (\<lambda>c. c = CHR ''.'') s)"

lemma find_index_append:
  "\<forall>x \<in> set xs. \<not> P x \<Longrightarrow> P y \<Longrightarrow> find_index P (xs @ y # ys) = Some (length xs)"
  by (induction xs) auto

lemma cut_at_dot_append: "CHR ''.'' \<notin> set a \<Longrightarrow> cut_at_dot (a @ ''.'' @ b) = Some (a, b)"
proof -
  assume "CHR ''.'' \<notin> set a"
  then have "find_index (\<lambda>c. c = CHR ''.'') (a @ CHR ''.'' # b) = Some (length a)"
    by (intro find_index_append) auto
  then show ?thesis
    by (simp add: cut_at_dot_def)
qed

lemma find_index_least: "find_index P xs = Some i \<Longrightarrow> \<forall>x \<in> set (take i xs). \<not> P x"
  by (induction xs arbitrary: i) (auto split: if_splits)

lemma cut_at_dot_Some:
  assumes "cut_at_dot s = Some (a, b)"
  shows "s = a @ ''.'' @ b \<and> CHR ''.'' \<notin> set a"
proof -
  obtain i where i: "find_index (\<lambda>c. c = CHR ''.'') s = Some i" and ab: "a = take i s" "b = drop (i + 1) s"
    using assms by (auto simp: cut_at_dot_def)
  note f = find_index_Some [OF i]
  have "s = take i s @ s ! i # drop (Suc i) s"
    using f id_take_nth_drop [of i s] by simp
  moreover have "CHR ''.'' \<notin> set (take i s)"
    using find_index_least [OF i] by auto
  ultimately show ?thesis
    using f unfolding ab by simp
qed

section \<open>The signed request\<close>

definition request_payload :: "js \<Rightarrow> string \<Rightarrow> string \<Rightarrow> int \<Rightarrow> js" where
  "request_payload uid accessToken appId issuedAt = JObj [
     (''algorithm'', JStr ''HMAC-SHA256''),
     (''issued_at'', JNum issuedAt),
     (''user_id'', uid),
     (''code'', JStr accessToken),
     (''app_id'', JStr appId),
     (''page'', JObj [(''id'', JNull), (''admin'', JBool False), (''liked'', JBool False)])]"

definition buildSignedRequest :: "sign_env \<Rightarrow> js \<Rightarrow> string \<Rightarrow> string \<Rightarrow> bytes \<Rightarrow> int \<Rightarrow> string" where
  "buildSignedRequest G uid accessToken appId appSecret issuedAt =
     (let encoded = base64UrlNoPad (sg_json G (request_payload uid accessToken appId issuedAt));
          sig = sg_hmac G appSecret (str_bytes encoded)
      in base64UrlNoPad sig @ ''.'' @ encoded)"

definition verifySignedRequest :: "sign_env \<Rightarrow> js \<Rightarrow> bytes \<Rightarrow> js option" where
  "verifySignedRequest G signedRequest appSecret =
     (case signedRequest of
        JStr s \<Rightarrow>
          (case cut_at_dot s of
             None \<Rightarrow> None
           | Some (sigPart, encoded) \<Rightarrow>
               (let provided = base64UrlDecode sigPart;
                    expected = sg_hmac G appSecret (str_bytes encoded)
                in if length provided \<noteq> length expected then None
                   else if provided \<noteq> expected then None
                   else sg_parse G (base64UrlDecode encoded)))
      | _ \<Rightarrow> None)"

section \<open>The OAuth state\<close>

definition DEFAULT_MAX_AGE_SECONDS :: int where "DEFAULT_MAX_AGE_SECONDS = 600"

text \<open>\<open>nonce\<close> is the text of the twelve random bytes. \<open>if (pair_id) body.p = pair_id\<close>.\<close>

definition state_body :: "string \<Rightarrow> string \<Rightarrow> int \<Rightarrow> string option \<Rightarrow> js" where
  "state_body redirect_uri nonce now pair_id =
     JObj ([(''r'', JStr redirect_uri), (''n'', JStr nonce), (''t'', JNum now)] @
           (if or_str pair_id [] \<noteq> [] then [(''p'', JStr (or_str pair_id []))] else []))"

definition signState :: "sign_env \<Rightarrow> bytes \<Rightarrow> string \<Rightarrow> int \<Rightarrow> string \<Rightarrow> string option \<Rightarrow> string" where
  "signState G secret nonce now redirect_uri pair_id =
     (let encoded = base64UrlNoPad (sg_json G (state_body redirect_uri nonce now pair_id));
          sig = base64UrlNoPad (sg_hmac G secret (str_bytes encoded))
      in encoded @ ''.'' @ sig)"

datatype state_reason = StateMalformed | StateSignature | StateExpired

fun is_object :: "js \<Rightarrow> bool" where
  "is_object (JObj kvs) = True"
| "is_object (JArr xs) = True"
| "is_object v = False"

text \<open>\<open>Inr (redirect_uri, pair_id)\<close> is \<open>{ ok: true, ... }\<close>.\<close>

definition verifyState ::
  "sign_env \<Rightarrow> bytes \<Rightarrow> int \<Rightarrow> int \<Rightarrow> js \<Rightarrow> state_reason + (string \<times> string option)" where
  "verifyState G secret maxAgeSeconds now state =
     (case state of
        JStr s \<Rightarrow>
          (case cut_at_dot s of
             None \<Rightarrow> Inl StateMalformed
           | Some (encoded, sigPart) \<Rightarrow>
               (let provided = base64UrlDecode sigPart;
                    expected = sg_hmac G secret (str_bytes encoded)
                in if length provided \<noteq> length expected then Inl StateSignature
                   else if provided \<noteq> expected then Inl StateSignature
                   else (case sg_parse G (base64UrlDecode encoded) of
                           None \<Rightarrow> Inl StateMalformed
                         | Some body \<Rightarrow>
                             if \<not> is_object body then Inl StateMalformed
                             else (case fld body ''t'' of
                                     JNum t \<Rightarrow>
                                       (case fld body ''r'' of
                                          JStr r \<Rightarrow>
                                            if r = [] then Inl StateMalformed
                                            else if now - t > maxAgeSeconds then Inl StateExpired
                                            else Inr (r, (case fld body ''p'' of
                                                            JStr p \<Rightarrow> if p \<noteq> [] then Some p else None
                                                          | _ \<Rightarrow> None))
                                        | _ \<Rightarrow> Inl StateMalformed)
                                   | _ \<Rightarrow> Inl StateMalformed))))
      | _ \<Rightarrow> Inl StateMalformed)"

lemma verify_signState:
  assumes "json_law G" and "r \<noteq> []"
  shows "verifyState G secret maxAge now' (JStr (signState G secret nonce now r p)) =
    (if now' - now > maxAge then Inl StateExpired
     else Inr (r, if or_str p [] = [] then None else p))"
proof -
  have "sg_parse G (sg_json G (state_body r nonce now p)) = Some (state_body r nonce now p)"
    using assms(1) by (simp add: json_law_def state_body_def)
  with assms(2) show ?thesis
    by (cases p) (simp_all add: verifyState_def signState_def Let_def cut_at_dot_append noPad_no_dot decode_noPad
        state_body_def or_str_def del: append_Cons)
qed

lemma verifyState_Inr:
  assumes "verifyState G secret maxAge now state = Inr (r, p)"
  shows "\<exists>encoded sigPart body t. state = JStr (encoded @ ''.'' @ sigPart) \<and>
    base64UrlDecode sigPart = sg_hmac G secret (str_bytes encoded) \<and>
    sg_parse G (base64UrlDecode encoded) = Some body \<and>
    fld body ''r'' = JStr r \<and> r \<noteq> [] \<and> fld body ''t'' = JNum t \<and> now - t \<le> maxAge"
proof -
  obtain s where s: "state = JStr s"
    using assms by (auto simp: verifyState_def split: js.splits)
  obtain e sp where c: "cut_at_dot s = Some (e, sp)"
    using assms s by (auto simp: verifyState_def split: option.splits)
  have d: "base64UrlDecode sp = sg_hmac G secret (str_bytes e)"
    using assms by (auto simp: verifyState_def s c Let_def split: if_splits)
  obtain body where body: "sg_parse G (base64UrlDecode e) = Some body"
    using assms by (auto simp: verifyState_def s c Let_def split: if_splits option.splits)
  obtain t where t: "fld body ''t'' = JNum t"
    using assms d body by (auto simp: verifyState_def s c Let_def split: if_splits js.splits)
  have "fld body ''r'' = JStr r \<and> r \<noteq> [] \<and> \<not> now - t > maxAge"
    using assms d body t by (auto simp: verifyState_def s c Let_def split: if_splits js.splits)
  then show ?thesis
    using s d body t cut_at_dot_Some [OF c] by (intro exI conjI) auto
qed

lemma verify_buildSignedRequest:
  assumes "json_law G" and "json_plain uid"
  shows "verifySignedRequest G (JStr (buildSignedRequest G uid tok app secret now)) secret =
    Some (request_payload uid tok app now)"
proof -
  have "sg_parse G (sg_json G (request_payload uid tok app now)) = Some (request_payload uid tok app now)"
    using assms by (simp add: json_law_def request_payload_def)
  then show ?thesis
    by (simp add: verifySignedRequest_def buildSignedRequest_def Let_def cut_at_dot_append noPad_no_dot decode_noPad
        del: append_Cons)
qed

section \<open>A concrete instance\<close>

text \<open>An encoder with the law, for the witnesses: values are numbered, a value is its number in
  unary. The digest is any function; here the secret and the text themselves.\<close>

instance js :: countable
  by countable_datatype

definition demo_sign :: sign_env where
  "demo_sign = \<lparr>sg_hmac = (\<lambda>k m. k @ m), sg_json = (\<lambda>v. replicate (to_nat v) 0),
     sg_parse = (\<lambda>bs. Some (from_nat (length bs)))\<rparr>"

lemma demo_sign_law: "json_law demo_sign"
  by (simp add: json_law_def demo_sign_def)

end
