(* ===== verification/RateLimit.thy ===== *)
theory RateLimit
  imports Prelude "HOL-Library.AList"
begin

text \<open>
  The fixed-window rate limiter of the authentication services,
  \<open>auth/shared/src/rate-limit.js\<close>. The \<open>Map\<close> of the closure is an association list, keys are the
  caller's addresses, and every call takes the clock of \<open>Date.now()\<close> in milliseconds. The lemmas
  show that keys do not influence each other, that the timer that prunes the map cannot be observed
  through the middleware, and how many requests of a key pass in a window.
\<close>

record limits =
  lm_windowMs :: int
  lm_max :: int
  lm_blockMs :: int

record limit_entry =
  le_count :: int
  le_windowStart :: int
  le_blockedUntil :: int

type_synonym 'k limiter = "('k \<times> limit_entry) list"

text \<open>The three argument checks of \<open>createRateLimiter\<close>, in their order, on integer arguments.\<close>

definition createRateLimiter :: "int \<Rightarrow> int \<Rightarrow> int \<Rightarrow> exn + (limits \<times> 'k limiter)" where
  "createRateLimiter windowMs mx blockMs =
     (if windowMs \<le> 0 then Inl (Thrown ''windowMs must be a positive number'')
      else if mx \<le> 0 then Inl (Thrown ''max must be a positive number'')
      else if blockMs \<le> 0 then Inl (Thrown ''blockMs must be a positive number'')
      else Inr (\<lparr>lm_windowMs = windowMs, lm_max = mx, lm_blockMs = blockMs\<rparr>, []))"

text \<open>\<open>prune\<close> deletes an entry that is not blocked and whose window is over.\<close>

definition stale :: "limits \<Rightarrow> int \<Rightarrow> limit_entry \<Rightarrow> bool" where
  "stale L now e \<longleftrightarrow> \<not> le_blockedUntil e > now \<and> le_windowStart e + lm_windowMs L < now"

definition prune :: "limits \<Rightarrow> int \<Rightarrow> 'k limiter \<Rightarrow> 'k limiter" where
  "prune L now st = filter (\<lambda>(_, e). \<not> stale L now e) st"

definition pruneIntervalMs :: "limits \<Rightarrow> int" where
  "pruneIntervalMs L = max (lm_windowMs L) 60000"

text \<open>\<open>Math.ceil(ms / 1000)\<close>, at least 1: the \<open>Retry-After\<close> of the 429 response.\<close>

definition retry_after :: "int \<Rightarrow> int" where
  "retry_after ms = max 1 (- ((- ms) div 1000))"

datatype verdict = Next | Limited int

definition fresh_entry :: "int \<Rightarrow> limit_entry" where
  "fresh_entry now = \<lparr>le_count = 0, le_windowStart = now, le_blockedUntil = 0\<rparr>"

text \<open>The body of the middleware on the entry of its key. A \<open>Limited\<close> answer of a blocked key leaves
  the entry as it is; otherwise a missing or outdated entry is replaced by a fresh one and the
  request is counted.\<close>

definition step_entry :: "limits \<Rightarrow> int \<Rightarrow> limit_entry option \<Rightarrow> verdict \<times> limit_entry" where
  "step_entry L now entry =
     (let count = (\<lambda>e1.
            let e2 = e1\<lparr>le_count := le_count e1 + 1\<rparr>
            in if le_count e2 > lm_max L
               then (Limited (retry_after (lm_blockMs L)), e2\<lparr>le_blockedUntil := now + lm_blockMs L\<rparr>)
               else (Next, e2))
      in case entry of
           Some e \<Rightarrow>
             if le_blockedUntil e > now then (Limited (retry_after (le_blockedUntil e - now)), e)
             else count (if le_windowStart e + lm_windowMs L < now then fresh_entry now else e)
         | None \<Rightarrow> count (fresh_entry now))"

definition rateLimit :: "limits \<Rightarrow> 'k \<Rightarrow> int \<Rightarrow> 'k limiter \<Rightarrow> verdict \<times> 'k limiter" where
  "rateLimit L key now st =
     (case step_entry L now (map_of st key) of (v, e) \<Rightarrow> (v, AList.update key e st))"

definition storeSize :: "'k limiter \<Rightarrow> nat" where
  "storeSize st = length st"

definition reset_store :: "'k limiter \<Rightarrow> 'k limiter" where
  "reset_store st = []"

section \<open>One key\<close>

lemma rateLimit_entry:
  "fst (rateLimit L k now st) = fst (step_entry L now (map_of st k))"
  "map_of (snd (rateLimit L k now st)) = (map_of st)(k \<mapsto> snd (step_entry L now (map_of st k)))"
  by (simp_all add: rateLimit_def update_conv' split: prod.splits)

lemma rateLimit_other: "k' \<noteq> k \<Longrightarrow> map_of (snd (rateLimit L k now st)) k' = map_of st k'"
  by (simp add: rateLimit_entry)

lemma distinct_rateLimit:
  "distinct (map fst st) \<Longrightarrow> distinct (map fst (snd (rateLimit L k now st)))"
  by (simp add: rateLimit_def distinct_update split: prod.splits)

lemma map_of_filter_snd:
  "distinct (map fst st) \<Longrightarrow>
    map_of (filter (\<lambda>(_, e). P e) st) k = (case map_of st k of Some e \<Rightarrow> if P e then Some e else None | None \<Rightarrow> None)"
proof (induction st)
  case (Cons x st)
  obtain k0 e0 where x: "x = (k0, e0)"
    by force
  have "map_of st k0 = None"
    using Cons.prems by (simp add: x map_of_eq_None_iff)
  then show ?case
    using Cons x by (auto split: option.splits)
qed simp

text \<open>A stale entry and no entry give the same answer and the same next entry at any later time.\<close>

lemma stale_step:
  assumes "stale L t e" and "t \<le> now"
  shows "step_entry L now (Some e) = step_entry L now None"
  using assms by (simp add: stale_def step_entry_def fresh_entry_def Let_def)

text \<open>Two stores are equal for requests from \<open>t\<close> on when they differ only in stale entries.\<close>

definition same_from :: "limits \<Rightarrow> int \<Rightarrow> limit_entry option \<Rightarrow> limit_entry option \<Rightarrow> bool" where
  "same_from L t a b \<longleftrightarrow>
     a = b \<or> (\<forall>e. a = Some e \<longrightarrow> stale L t e) \<and> (\<forall>e. b = Some e \<longrightarrow> stale L t e)"

lemma stale_mono: "stale L t e \<Longrightarrow> t \<le> now \<Longrightarrow> stale L now e"
  by (auto simp: stale_def)

lemma same_from_mono: "same_from L t a b \<Longrightarrow> t \<le> now \<Longrightarrow> same_from L now a b"
  by (auto simp: same_from_def stale_mono)

lemma same_from_step:
  assumes "same_from L t a b" and "t \<le> now"
  shows "step_entry L now a = step_entry L now b"
proof -
  have "step_entry L now c = step_entry L now None" if "\<forall>e. c = Some e \<longrightarrow> stale L t e" for c
    using that assms(2) by (cases c) (auto intro: stale_step)
  then show ?thesis
    using assms(1) by (metis same_from_def)
qed

lemma same_from_prune:
  assumes "distinct (map fst st)" and "same_from L t (map_of st k) b" and "t \<le> now"
  shows "same_from L now (map_of (prune L now st) k) b"
proof -
  have p: "map_of (prune L now st) k =
      (case map_of st k of Some e \<Rightarrow> if \<not> stale L now e then Some e else None | None \<Rightarrow> None)"
    unfolding prune_def by (rule map_of_filter_snd [OF assms(1)])
  have "same_from L now (map_of st k) b"
    using assms(2,3) by (rule same_from_mono)
  then show ?thesis
    unfolding p by (auto simp: same_from_def split: option.splits)
qed

lemma distinct_prune: "distinct (map fst st) \<Longrightarrow> distinct (map fst (prune L now st))"
  unfolding prune_def by (rule distinct_map_filter)

section \<open>Runs\<close>

text \<open>What happens to a limiter: requests of its keys and ticks of the pruning timer, each at its
  time. A run yields the answer to every request.\<close>

datatype 'k limit_event = Request 'k int | Tick int

fun event_time :: "'k limit_event \<Rightarrow> int" where
  "event_time (Request k t) = t"
| "event_time (Tick t) = t"

fun run_limiter :: "limits \<Rightarrow> 'k limit_event list \<Rightarrow> 'k limiter \<Rightarrow> ('k \<times> int \<times> verdict) list" where
  "run_limiter L [] st = []"
| "run_limiter L (Request k t # evs) st =
     (k, t, fst (rateLimit L k t st)) # run_limiter L evs (snd (rateLimit L k t st))"
| "run_limiter L (Tick t # evs) st = run_limiter L evs (prune L t st)"

fun is_request :: "'k limit_event \<Rightarrow> bool" where
  "is_request (Request k t) = True"
| "is_request (Tick t) = False"

text \<open>The answers do not depend on the ticks.\<close>

lemma run_same_from:
  assumes "sorted (map event_time evs)" and "\<forall>e \<in> set evs. t \<le> event_time e"
    and "distinct (map fst st)" and "distinct (map fst st')"
    and "\<forall>k. same_from L t (map_of st k) (map_of st' k)"
  shows "run_limiter L evs st = run_limiter L (filter is_request evs) st'"
  using assms
proof (induction evs arbitrary: st st' t)
  case (Cons ev evs)
  then have tl: "sorted (map event_time evs)" "\<forall>e \<in> set evs. event_time ev \<le> event_time e" "t \<le> event_time ev"
    by auto
  show ?case
  proof (cases ev)
    case (Request k now)
    let ?s = "snd (rateLimit L k now st)" and ?s' = "snd (rateLimit L k now st')"
    have eq: "step_entry L now (map_of st k) = step_entry L now (map_of st' k)"
      using same_from_step Cons.prems(5) tl(3) Request by fastforce
    have "same_from L now (map_of ?s j) (map_of ?s' j)" for j
      using same_from_mono [OF Cons.prems(5) [rule_format, of j]] tl(3) Request
      by (cases "j = k") (simp_all add: rateLimit_entry eq same_from_def)
    then have "run_limiter L evs ?s = run_limiter L (filter is_request evs) ?s'"
      using Cons.IH [of now ?s ?s'] tl Cons.prems(3,4) Request by (simp add: distinct_rateLimit)
    then show ?thesis
      by (simp add: Request rateLimit_entry(1) eq)
  next
    case (Tick now)
    have "same_from L now (map_of (prune L now st) k) (map_of st' k)" for k
      using same_from_prune [OF Cons.prems(3)] Cons.prems(5) tl(3) Tick by fastforce
    then have "run_limiter L evs (prune L now st) = run_limiter L (filter is_request evs) st'"
      using Cons.IH [of now "prune L now st" st'] tl Cons.prems(3,4) Tick by (simp add: distinct_prune)
    then show ?thesis
      by (simp add: Tick)
  qed
qed simp

text \<open>The times at which requests of one key pass, and the run of the key alone.\<close>

definition passed :: "'k \<Rightarrow> ('k \<times> int \<times> verdict) list \<Rightarrow> int list" where
  "passed k vs = map (\<lambda>(_, t, _). t) (filter (\<lambda>(k', _, v). k' = k \<and> v = Next) vs)"

fun run_key :: "limits \<Rightarrow> int list \<Rightarrow> limit_entry option \<Rightarrow> int list" where
  "run_key L [] e = []"
| "run_key L (t # ts) e =
     (if fst (step_entry L t e) = Next then [t] else []) @ run_key L ts (Some (snd (step_entry L t e)))"

fun request_times :: "'k \<Rightarrow> 'k limit_event list \<Rightarrow> int list" where
  "request_times k [] = []"
| "request_times k (Request k' t # evs) = (if k' = k then [t] else []) @ request_times k evs"
| "request_times k (Tick t # evs) = request_times k evs"

lemma passed_run_key:
  "passed k (run_limiter L (filter is_request evs) st) = run_key L (request_times k evs) (map_of st k)"
proof (induction evs arbitrary: st)
  case (Cons ev evs)
  show ?case
    by (cases ev) (use Cons in \<open>auto simp: passed_def rateLimit_entry\<close>)
qed (simp add: passed_def)

lemma request_times_sorted:
  "sorted (map event_time evs) \<Longrightarrow>
    sorted (request_times k evs) \<and> set (request_times k evs) \<subseteq> event_time ` set evs"
proof (induction evs)
  case (Cons ev evs)
  then show ?case
    by (cases ev) auto
qed simp

text \<open>Requests that pass in the current window, in a window that has not begun, and in any interval
  of the length of a window.\<close>

lemma set_run_key: "set (run_key L ts e) \<subseteq> set ts"
  by (induction ts arbitrary: e) auto

lemma in_window:
  assumes "sorted ts" and "0 < lm_max L"
  shows "length (filter (\<lambda>t. t \<le> le_windowStart e + lm_windowMs L) (run_key L ts (Some e)))
    \<le> nat (lm_max L - le_count e)"
  using assms(1)
proof (induction ts arbitrary: e)
  case (Cons t ts)
  show ?case
  proof (cases "le_blockedUntil e > t")
    case True
    with Cons show ?thesis
      by (simp add: step_entry_def)
  next
    case False
    show ?thesis
    proof (cases "le_windowStart e + lm_windowMs L < t")
      case True
      have "\<not> u \<le> le_windowStart e + lm_windowMs L" if "u \<in> set (run_key L (t # ts) (Some e))" for u
      proof -
        have "u \<in> set (t # ts)"
          using that set_run_key by blast
        then show ?thesis
          using True Cons.prems by auto
      qed
      then have "filter (\<lambda>t. t \<le> le_windowStart e + lm_windowMs L) (run_key L (t # ts) (Some e)) = []"
        by (simp only: filter_empty_conv) blast
      then show ?thesis
        by (simp only: list.size)
    next
      case in_w: False
      let ?e = "e\<lparr>le_count := le_count e + 1\<rparr>"
      show ?thesis
        using Cons.IH [of ?e] Cons.IH [of "?e\<lparr>le_blockedUntil := t + lm_blockMs L\<rparr>"] Cons.prems False in_w
        by (auto simp: step_entry_def Let_def)
    qed
  qed
qed simp

lemma length_filter_mono_P:
  "(\<And>x. x \<in> set xs \<Longrightarrow> P x \<Longrightarrow> Q x) \<Longrightarrow> length (filter P xs) \<le> length (filter Q xs)"
  by (induction xs) (auto simp: le_SucI)

lemma next_window:
  assumes "sorted ts" and "0 < lm_max L" and "\<forall>t \<in> set ts. t0 \<le> t"
    and "\<forall>x t. e = Some x \<longrightarrow> t \<in> set ts \<longrightarrow> le_windowStart x + lm_windowMs L < t"
  shows "length (filter (\<lambda>t. t \<le> t0 + lm_windowMs L) (run_key L ts e)) \<le> nat (lm_max L)"
  using assms(1,3,4)
proof (induction ts)
  case (Cons t ts)
  show ?case
  proof (cases "\<exists>x. e = Some x \<and> le_blockedUntil x > t")
    case True
    with Cons show ?thesis
      by (auto simp: step_entry_def)
  next
    case False
    let ?e = "(fresh_entry t)\<lparr>le_count := 1\<rparr>"
    have s: "step_entry L t e = (Next, ?e)"
      using False Cons.prems assms(2)
      by (cases e) (auto simp: step_entry_def fresh_entry_def Let_def)
    have "length (filter (\<lambda>u. u \<le> t0 + lm_windowMs L) (run_key L ts (Some ?e)))
        \<le> length (filter (\<lambda>u. u \<le> le_windowStart ?e + lm_windowMs L) (run_key L ts (Some ?e)))"
      using Cons.prems(2) by (intro length_filter_mono_P) (auto simp: fresh_entry_def)
    also have "\<dots> \<le> nat (lm_max L - 1)"
      using in_window [of ts L ?e] Cons.prems(1) assms(2) by (simp add: fresh_entry_def)
    finally have "Suc (length (filter (\<lambda>u. u \<le> t0 + lm_windowMs L) (run_key L ts (Some ?e)))) \<le> nat (lm_max L)"
      using assms(2) by linarith
    then show ?thesis
      by (simp add: s)
  qed
qed simp

lemma from_window:
  assumes "sorted ts" and "0 < lm_max L" and "\<forall>t \<in> set ts. t0 \<le> t" and "0 \<le> le_count e"
  shows "length (filter (\<lambda>t. t \<le> t0 + lm_windowMs L) (run_key L ts (Some e)))
    \<le> nat (lm_max L - le_count e) + nat (lm_max L)"
  using assms(1,3,4)
proof (induction ts arbitrary: e)
  case (Cons t ts)
  consider "le_blockedUntil e > t" | "\<not> le_blockedUntil e > t" "le_windowStart e + lm_windowMs L < t"
    | "\<not> le_blockedUntil e > t" "\<not> le_windowStart e + lm_windowMs L < t"
    by blast
  then show ?case
  proof cases
    case 1
    with Cons show ?thesis
      by (simp add: step_entry_def)
  next
    case 2
    have "length (filter (\<lambda>t. t \<le> t0 + lm_windowMs L) (run_key L (t # ts) (Some e))) \<le> nat (lm_max L)"
      by (rule next_window) (use Cons.prems assms(2) 2 in auto)
    then show ?thesis
      by linarith
  next
    case 3
    let ?e = "e\<lparr>le_count := le_count e + 1\<rparr>"
    have "length (filter (\<lambda>t. t \<le> t0 + lm_windowMs L) (run_key L ts (Some ?e)))
        \<le> nat (lm_max L - (le_count e + 1)) + nat (lm_max L)"
      and "length (filter (\<lambda>u. u \<le> t0 + lm_windowMs L) (run_key L ts (Some (?e\<lparr>le_blockedUntil := t + lm_blockMs L\<rparr>))))
        \<le> nat (lm_max L - (le_count e + 1)) + nat (lm_max L)"
      using Cons.IH [of ?e] Cons.IH [of "?e\<lparr>le_blockedUntil := t + lm_blockMs L\<rparr>"] Cons.prems by simp_all
    then show ?thesis
      using 3 by (auto simp: step_entry_def Let_def)
  qed
qed simp

lemma step_count_pos:
  "0 < lm_max L \<Longrightarrow> (\<forall>x. e = Some x \<longrightarrow> 0 \<le> le_count x) \<Longrightarrow> 0 \<le> le_count (snd (step_entry L t e))"
  by (cases e) (auto simp: step_entry_def fresh_entry_def Let_def)

lemma any_interval:
  assumes "sorted ts" and "0 < lm_max L" and "\<forall>x. e = Some x \<longrightarrow> 0 \<le> le_count x"
  shows "length (filter (\<lambda>t. t0 \<le> t \<and> t \<le> t0 + lm_windowMs L) (run_key L ts e)) \<le> 2 * nat (lm_max L)"
  using assms(1,3)
proof (induction ts arbitrary: e)
  case (Cons t ts)
  show ?case
  proof (cases "t < t0")
    case True
    then show ?thesis
      using Cons.IH [of "Some (snd (step_entry L t e))"] Cons.prems step_count_pos [OF assms(2)] by simp
  next
    case False
    then have ge: "\<forall>u \<in> set (t # ts). t0 \<le> u"
      using Cons.prems(1) by auto
    have f: "length (filter (\<lambda>t. t0 \<le> t \<and> t \<le> t0 + lm_windowMs L) (run_key L (t # ts) e))
        \<le> length (filter (\<lambda>t. t \<le> t0 + lm_windowMs L) (run_key L (t # ts) e))"
      by (rule length_filter_mono_P) simp
    show ?thesis
    proof (cases e)
      case None
      have "length (filter (\<lambda>t. t \<le> t0 + lm_windowMs L) (run_key L (t # ts) e)) \<le> nat (lm_max L)"
        by (rule next_window) (use Cons.prems(1) assms(2) ge None in auto)
      with f show ?thesis
        by linarith
    next
      case (Some x)
      have "length (filter (\<lambda>t. t \<le> t0 + lm_windowMs L) (run_key L (t # ts) (Some x)))
          \<le> nat (lm_max L - le_count x) + nat (lm_max L)"
        by (rule from_window) (use Cons.prems assms(2) ge Some in auto)
      moreover have "0 \<le> le_count x"
        using Cons.prems(2) Some by simp
      ultimately show ?thesis
        using f unfolding Some by linarith
    qed
  qed
qed simp

text \<open>A request refused over the limit blocks its key: nothing passes for \<open>blockMs\<close>.\<close>

lemma blocked_run:
  "\<forall>u \<in> set ts. u < le_blockedUntil e \<Longrightarrow> run_key L ts (Some e) = []"
  by (induction ts) (auto simp: step_entry_def)

end
