(* ===== verification/LoginFlow.thy ===== *)
theory LoginFlow
  imports AuthTokens SignedState RateLimit Pairings
begin

text \<open>
  The login service: the Discord client, the login flow and the routes
  (\<open>auth/login-server/src/discord-client.js\<close>, \<open>login-flow.js\<close>, \<open>routes/dialog.js\<close>,
  \<open>routes/discord.js\<close>, \<open>routes/pair.js\<close>). Discord's answers, the random texts and the clock are
  arguments. A page is the data handed to its template.
\<close>

section \<open>The Discord client\<close>

text \<open>What \<open>fetch\<close> gives: a network error with its name, or a response; reading its body as text may
  fail, and so may parsing it as JSON.\<close>

record http_reply =
  hp_ok :: bool
  hp_status :: int
  hp_text :: "string option"
  hp_json :: "string + js"

datatype fetched = NetworkError string | Reply http_reply

text \<open>\<open>DiscordApiError\<close> with its stage, status and body preview, or another exception.\<close>

datatype client_error = DiscordApiError string "int option" "string option" | ClientException string

definition readBodyPreview :: "http_reply \<Rightarrow> string" where
  "readBodyPreview r = (case hp_text r of Some t \<Rightarrow> take 200 t | None \<Rightarrow> [])"

text \<open>The common part of both calls up to the parsed body. Reading a property of \<open>null\<close> throws.\<close>

definition reply_json :: "string \<Rightarrow> fetched \<Rightarrow> client_error + js" where
  "reply_json stage f =
     (case f of
        NetworkError name \<Rightarrow> Inl (DiscordApiError stage None (Some (str_or name ''network'')))
      | Reply r \<Rightarrow>
          if \<not> hp_ok r then Inl (DiscordApiError stage (Some (hp_status r)) (Some (readBodyPreview r)))
          else (case hp_json r of
                  Inl msg \<Rightarrow> Inl (DiscordApiError stage (Some (hp_status r)) (Some msg))
                | Inr JNull \<Rightarrow> Inl (ClientException ''TypeError'')
                | Inr data \<Rightarrow> Inr data))"

definition reply_status :: "fetched \<Rightarrow> int option" where
  "reply_status f = (case f of Reply r \<Rightarrow> Some (hp_status r) | NetworkError _ \<Rightarrow> None)"

definition exchangeCode :: "fetched \<Rightarrow> client_error + (string \<times> js)" where
  "exchangeCode f =
     (case reply_json ''token'' f of
        Inl e \<Rightarrow> Inl e
      | Inr data \<Rightarrow>
          (case fld data ''access_token'' of
             JStr t \<Rightarrow> if t = [] then Inl (DiscordApiError ''token'' (reply_status f) None)
                       else Inr (t, jor (fld data ''token_type'') (JStr ''Bearer''))
           | _ \<Rightarrow> Inl (DiscordApiError ''token'' (reply_status f) None)))"

record discord_user =
  du_id :: string
  du_username :: string
  du_email :: "string option"

definition fetchUser :: "fetched \<Rightarrow> client_error + discord_user" where
  "fetchUser f =
     (case reply_json ''user'' f of
        Inl e \<Rightarrow> Inl e
      | Inr data \<Rightarrow>
          (case fld data ''id'' of
             JStr i \<Rightarrow>
               if i = [] then Inl (DiscordApiError ''user'' (reply_status f) None)
               else Inr \<lparr>du_id = i,
                         du_username = (case fld data ''username'' of JStr u \<Rightarrow> u | _ \<Rightarrow> i),
                         du_email = (case fld data ''email'' of JStr e \<Rightarrow> Some e | _ \<Rightarrow> None)\<rparr>
           | _ \<Rightarrow> Inl (DiscordApiError ''user'' (reply_status f) None)))"

section \<open>The login flow\<close>

definition GRANTED_SCOPES :: string where
  "GRANTED_SCOPES = ''user_friends%2Cemail%2Copenid%2Cpublic_profile%2Cbasic_info''"

definition DATA_ACCESS_OFFSET_SECONDS :: int where "DATA_ACCESS_OFFSET_SECONDS = 5183716"

record login_config =
  lc_sign :: sign_env
  lc_APP_ID :: string
  lc_APP_SECRET :: bytes
  lc_OAUTH_STATE_SECRET :: bytes
  lc_DISCORD_CLIENT_ID :: string
  lc_DISCORD_REDIRECT_URI :: string

text \<open>The random texts of one login: the open id of every attempt to provision, and the two tokens.
  \<open>race i\<close> is what other requests write between the uid query and the insert of attempt \<open>i\<close>.\<close>

record 'd login_draw =
  dw_openId :: "nat \<Rightarrow> string"
  dw_access :: string
  dw_refresh :: string
  dw_race :: "nat \<Rightarrow> 'd \<Rightarrow> 'd"

definition guest_doc :: "string \<Rightarrow> string \<Rightarrow> discord_user \<Rightarrow> string \<Rightarrow> string option \<Rightarrow> string guest" where
  "guest_doc openId uid du nowIso ip =
     \<lparr>g_open_id = openId, g_uid = uid, g_dc_id = du_id du, g_dc_handle = Some (du_username du),
      g_dc_email = du_email du, g_renovation = False, g_access_token = None, g_refresh_token = None,
      g_access_expiry = None, g_refresh_expiry = None, g_create_time = None, g_last_login = None,
      g_last_ip = None, g_registered_at = Some nowIso, g_registered_ip = ip, g_renovated_at = None,
      g_renovated_ip = None\<rparr>"

definition account_doc :: "string \<Rightarrow> string \<Rightarrow> string \<Rightarrow> string auth_account" where
  "account_doc openId uid nowIso =
     \<lparr>aa_open_id = openId, aa_uid = uid, aa_nickname = None, aa_banned = False, aa_ban_reason = None,
      aa_authorized = True, aa_under_analysis = False, aa_created_at = nowIso\<rparr>"

text \<open>One attempt to provision a new user: the body of the function given to \<open>withUidRetry\<close>.\<close>

definition provision ::
  "'d guests_repo \<Rightarrow> 'd accounts_repo \<Rightarrow> 'd login_draw \<Rightarrow> discord_user \<Rightarrow> string option \<Rightarrow> int \<Rightarrow> nat \<Rightarrow> 'd \<Rightarrow>
   (auth_error + string \<times> string) \<times> 'd" where
  "provision R A w du ip now i d =
     (let openId = dw_openId w i
      in case nextUid R d of
           Inl e \<Rightarrow> (Inl e, d)
         | Inr uid \<Rightarrow>
             (case gr_insertUser R (guest_doc openId uid du (toISOString now) ip) (dw_race w i d) of
                (Inl e, d1) \<Rightarrow> (Inl e, d1)
              | (Inr _, d1) \<Rightarrow>
                  (case ar_insertAccount A (account_doc openId uid (toISOString now)) d1 of
                     (Inl e, d2) \<Rightarrow> (Inl e, d2)
                   | (Inr _, d2) \<Rightarrow> (Inr (openId, uid), d2))))"

record flow_ok =
  fo_redirectUrl :: string
  fo_uid :: string
  fo_openId :: string

definition login_redirect :: "login_config \<Rightarrow> string \<Rightarrow> string \<Rightarrow> token_set \<Rightarrow> string" where
  "login_redirect C redirectUri uid ts =
     redirectUri @ ''#granted_scopes='' @ GRANTED_SCOPES @ ''&denied_scopes='' @ ''&signed_request='' @
     buildSignedRequest (lc_sign C) (JStr uid) (ts_access_token ts) (lc_APP_ID C) (lc_APP_SECRET C) (ts_create_time ts) @
     ''&access_token='' @ ts_access_token ts @
     ''&data_access_expiration_time='' @ int_str (ts_create_time ts + DATA_ACCESS_OFFSET_SECONDS) @
     ''&expires_in=1296000''"

text \<open>In the answer, \<open>None\<close> is \<open>{ ok: false, reason: 'renovation' }\<close>.\<close>

definition completeDiscordLogin ::
  "login_config \<Rightarrow> 'd guests_repo \<Rightarrow> 'd accounts_repo \<Rightarrow> 'd login_draw \<Rightarrow> discord_user \<Rightarrow> string \<Rightarrow>
   string option \<Rightarrow> int \<Rightarrow> 'd \<Rightarrow> (auth_error + flow_ok option) \<times> 'd" where
  "completeDiscordLogin C R A w du redirectUri ip now d =
     (let finish = (\<lambda>openId uid d.
            case issueTokens R openId (dw_access w) (dw_refresh w) ip now d of
              (ts, d') \<Rightarrow> (Inr (Some \<lparr>fo_redirectUrl = login_redirect C redirectUri uid ts,
                                     fo_uid = uid, fo_openId = openId\<rparr>), d'))
      in case gr_findByDcId R (du_id du) d of
           Some existing \<Rightarrow>
             (let d1 = gr_updateDiscordFields R (u_open_id existing) (Some (du_username du)) (du_email du) d
              in if u_renovation existing then (Inr None, d1)
                 else finish (u_open_id existing) (u_uid existing) d1)
         | None \<Rightarrow>
             (case withUidRetry (provision R A w du ip now) d of
                (Inl e, d1) \<Rightarrow> (Inl e, d1)
              | (Inr (openId, uid), d1) \<Rightarrow> finish openId uid d1))"

end
