(* ===== verification/LoginRoutes.thy ===== *)
theory LoginRoutes
  imports LoginFlow
begin

text \<open>
  The routes of the login service (\<open>auth/login-server/src/routes/\<close>) with their rate limiters and the
  error handler of \<open>app.js\<close>. A query value is what Express parses: a string, an array, an object or
  \<open>undefined\<close>. The clock is given in seconds and in milliseconds.
\<close>

section \<open>Requests and responses\<close>

record web_request =
  wr_ip :: "string option"
  wr_accept :: string
  wr_query :: js
  wr_body :: js

datatype page =
    ErrorPage string string
  | CompletePage string
  | LoginPage string string
  | Fake503

datatype web_response = Html int page | Json int js

definition defaultKeyer :: "web_request \<Rightarrow> string" where
  "defaultKeyer req = or_str (wr_ip req) ''unknown''"

definition str_includes :: "string \<Rightarrow> string \<Rightarrow> bool" where
  "str_includes s t \<longleftrightarrow> list_ex (\<lambda>i. take (length t) (drop i s) = t) [0..<Suc (length s)]"

text \<open>The global error handler of the login service.\<close>

definition error_handler :: "web_request \<Rightarrow> web_response" where
  "error_handler req =
     (if str_includes (wr_accept req) ''text/html''
      then Html 500 (ErrorPage ''Something went wrong'' ''An unexpected error occurred. Please try again.'')
      else Json 500 (JObj [(''error'', JStr ''internal_error'')]))"

text \<open>The limiter in front of a handler: a refusal, or nothing and the handler runs.\<close>

definition check_limit ::
  "limits \<Rightarrow> web_request \<Rightarrow> int \<Rightarrow> string limiter \<Rightarrow> web_response option \<times> string limiter" where
  "check_limit L req now st =
     (case rateLimit L (defaultKeyer req) now st of
        (Next, st') \<Rightarrow> (None, st')
      | (Limited r, st') \<Rightarrow>
          (Some (Json 429 (JObj [(''error'', JStr ''rate_limited''), (''retry_after'', JNum r)])), st'))"

record 'd login_state =
  ls_db :: 'd
  ls_pairings :: pair_db
  ls_dialog :: "string limiter"
  ls_callback :: "string limiter"
  ls_pair :: "string limiter"

section \<open>The dialog\<close>

definition dialog_limits :: limits where
  "dialog_limits = \<lparr>lm_windowMs = 60000, lm_max = 30, lm_blockMs = 5 * 60000\<rparr>"

definition PAIRING_TTL_SECONDS :: int where "PAIRING_TTL_SECONDS = 600"

definition DEFAULT_REDIRECT_URI :: string where "DEFAULT_REDIRECT_URI = ''fbconnect://success''"

definition ALLOWED_REDIRECT_URIS :: "string list" where
  "ALLOWED_REDIRECT_URIS = [''fbconnect://success'']"

text \<open>Every text gives the one allowed address, so the text of an array or an object does not matter.\<close>

definition normalizeRedirectUri :: "string \<Rightarrow> string" where
  "normalizeRedirectUri uri = (if uri \<in> set ALLOWED_REDIRECT_URIS then uri else DEFAULT_REDIRECT_URI)"

text \<open>\<open>URLSearchParams.toString()\<close> on one-byte characters.\<close>

definition hex_digit :: "nat \<Rightarrow> char" where
  "hex_digit n = ''0123456789ABCDEF'' ! n"

definition form_char :: "char \<Rightarrow> string" where
  "form_char c =
     (let n = of_char c :: nat
      in if 48 \<le> n \<and> n \<le> 57 \<or> 65 \<le> n \<and> n \<le> 90 \<or> 97 \<le> n \<and> n \<le> 122 \<or> c \<in> set ''*-._'' then [c]
         else if c = CHR '' '' then ''+''
         else [CHR ''%'', hex_digit (n div 16 mod 16), hex_digit (n mod 16)])"

definition form_encode :: "(string \<times> string) list \<Rightarrow> string" where
  "form_encode kvs =
     concat (map (\<lambda>(i, k, v). (if i = 0 then [] else ''&'') @ concat (map form_char k) @ ''='' @ concat (map form_char v))
       (zip [0..<length kvs] kvs))"

definition buildAuthorizeUrl :: "login_config \<Rightarrow> string \<Rightarrow> string" where
  "buildAuthorizeUrl C state =
     ''https://discord.com/api/oauth2/authorize?'' @
     form_encode [(''response_type'', ''code''), (''client_id'', lc_DISCORD_CLIENT_ID C),
       (''scope'', ''identify email''), (''redirect_uri'', lc_DISCORD_REDIRECT_URI C), (''state'', state),
       (''prompt'', ''none'')]"

definition dialog_handler ::
  "login_config \<Rightarrow> web_request \<Rightarrow> string \<Rightarrow> string \<Rightarrow> int \<Rightarrow> int \<Rightarrow> pair_db \<Rightarrow> web_response \<times> pair_db" where
  "dialog_handler C req pairId nonce now_s now_ms ps =
     (let clientId = fld (wr_query req) ''client_id''; redirectUriRaw = fld (wr_query req) ''redirect_uri''
      in if \<not> tru clientId \<or> \<not> tru redirectUriRaw then (Html 503 Fake503, ps)
         else let redirectUri = normalizeRedirectUri (str redirectUriRaw)
              in case createPending pairId redirectUri PAIRING_TTL_SECONDS now_ms ps of
                   (False, ps1) \<Rightarrow> (error_handler req, ps1)
                 | (True, ps1) \<Rightarrow>
                     let state = signState (lc_sign C) (lc_OAUTH_STATE_SECRET C) nonce now_s redirectUri (Some pairId)
                     in (Html 200 (LoginPage (buildAuthorizeUrl C state) pairId), ps1))"

definition get_dialog ::
  "login_config \<Rightarrow> web_request \<Rightarrow> string \<Rightarrow> string \<Rightarrow> int \<Rightarrow> int \<Rightarrow> 'd login_state \<Rightarrow> web_response \<times> 'd login_state" where
  "get_dialog C req pairId nonce now_s now_ms s =
     (case check_limit dialog_limits req now_ms (ls_dialog s) of
        (Some r, l) \<Rightarrow> (r, s\<lparr>ls_dialog := l\<rparr>)
      | (None, l) \<Rightarrow>
          (case dialog_handler C req pairId nonce now_s now_ms (ls_pairings s) of
             (r, ps) \<Rightarrow> (r, s\<lparr>ls_dialog := l, ls_pairings := ps\<rparr>)))"

section \<open>Discord's callback\<close>

definition callback_limits :: limits where
  "callback_limits = \<lparr>lm_windowMs = 60000, lm_max = 30, lm_blockMs = 5 * 60000\<rparr>"

definition string_or_empty :: "js \<Rightarrow> string" where
  "string_or_empty v = (case v of JStr s \<Rightarrow> s | _ \<Rightarrow> [])"

text \<open>\<open>tryMarkFailed\<close>; an empty pair id was refused before.\<close>

definition tryMarkFailed :: "pairings_repo \<Rightarrow> string \<Rightarrow> string \<Rightarrow> int \<Rightarrow> pair_db \<Rightarrow> pair_db" where
  "tryMarkFailed Q pairId reason now ps =
     (if pairId = [] then ps else snd (ps_markFailed Q pairId reason now ps))"

text \<open>What the handler does once the state is verified and the pairing is pending.\<close>

definition callback_login ::
  "login_config \<Rightarrow> 'd guests_repo \<Rightarrow> 'd accounts_repo \<Rightarrow> pairings_repo \<Rightarrow> 'd login_draw \<Rightarrow> fetched \<Rightarrow> fetched \<Rightarrow>
   web_request \<Rightarrow> string \<Rightarrow> string \<Rightarrow> int \<Rightarrow> int \<Rightarrow> 'd \<times> pair_db \<Rightarrow> web_response \<times> 'd \<times> pair_db" where
  "callback_login C R A Q w tokenReply userReply req redirectUri pairId now_s now_ms dp =
     (case dp of (d, ps) \<Rightarrow>
        (case (case exchangeCode tokenReply of Inl e \<Rightarrow> Inl e | Inr _ \<Rightarrow> fetchUser userReply) of
           Inl e \<Rightarrow>
             (Html 502 (ErrorPage ''Sign-in temporarily unavailable''
                ''We could not reach Discord to complete your sign-in. Please try again in a moment.''),
              d, tryMarkFailed Q pairId ''discord_api'' now_ms ps)
         | Inr du \<Rightarrow>
             (case completeDiscordLogin C R A w du redirectUri (wr_ip req) now_s d of
                (Inl e, d1) \<Rightarrow> (error_handler req, d1, ps)
              | (Inr None, d1) \<Rightarrow>
                  (Html 403 (ErrorPage ''Account blocked''
                     ''This account is currently blocked from signing in. If you believe this is a mistake, contact an administrator.''),
                   d1, tryMarkFailed Q pairId ''renovation'' now_ms ps)
              | (Inr (Some flow), d1) \<Rightarrow>
                  (case ps_markCompleted Q pairId (fo_redirectUrl flow) now_ms ps of
                     (None, ps1) \<Rightarrow>
                       (Html 400 (ErrorPage ''Sign-in session expired''
                          ''The sign-in session expired while completing. Return to the game and try again.''), d1, ps1)
                   | (Some _, ps1) \<Rightarrow> (Html 200 (CompletePage (fo_redirectUrl flow)), d1, ps1)))))"

definition callback_handler ::
  "login_config \<Rightarrow> 'd guests_repo \<Rightarrow> 'd accounts_repo \<Rightarrow> pairings_repo \<Rightarrow> 'd login_draw \<Rightarrow> fetched \<Rightarrow> fetched \<Rightarrow>
   web_request \<Rightarrow> int \<Rightarrow> int \<Rightarrow> 'd \<times> pair_db \<Rightarrow> web_response \<times> 'd \<times> pair_db" where
  "callback_handler C R A Q w tokenReply userReply req now_s now_ms dp =
     (let bad = (\<lambda>title message. (Html 400 (ErrorPage title message), dp));
          code = string_or_empty (fld (wr_query req) ''code'');
          state = string_or_empty (fld (wr_query req) ''state'')
      in if tru (fld (wr_query req) ''error'')
         then bad ''Sign-in cancelled''
                ''You did not complete the Discord authorization. Return to the game and try again.''
         else if code = [] \<or> state = []
         then bad ''Missing parameters'' ''The Discord callback did not include the expected parameters.''
         else (case verifyState (lc_sign C) (lc_OAUTH_STATE_SECRET C) DEFAULT_MAX_AGE_SECONDS now_s (JStr state) of
                 Inl _ \<Rightarrow>
                   bad ''Invalid session''
                     ''The sign-in link expired or could not be verified. Start again from the game client.''
               | Inr (redirectUri, None) \<Rightarrow>
                   bad ''Invalid session''
                     ''The sign-in link is not valid for this flow. Start again from the game client.''
               | Inr (redirectUri, Some pairId) \<Rightarrow>
                   (case ps_findByPairId Q pairId now_ms (snd dp) of
                      None \<Rightarrow>
                        bad ''Sign-in session expired''
                          ''Too much time passed between opening the sign-in page and finishing it. Return to the game and try again.''
                    | Some existing \<Rightarrow>
                        if pr_status existing \<noteq> PairPending
                        then bad ''Sign-in session expired''
                          ''Too much time passed between opening the sign-in page and finishing it. Return to the game and try again.''
                        else callback_login C R A Q w tokenReply userReply req redirectUri pairId now_s now_ms dp)))"

definition get_callback ::
  "login_config \<Rightarrow> 'd guests_repo \<Rightarrow> 'd accounts_repo \<Rightarrow> pairings_repo \<Rightarrow> 'd login_draw \<Rightarrow> fetched \<Rightarrow> fetched \<Rightarrow>
   web_request \<Rightarrow> int \<Rightarrow> int \<Rightarrow> 'd login_state \<Rightarrow> web_response \<times> 'd login_state" where
  "get_callback C R A Q w tokenReply userReply req now_s now_ms s =
     (case check_limit callback_limits req now_ms (ls_callback s) of
        (Some r, l) \<Rightarrow> (r, s\<lparr>ls_callback := l\<rparr>)
      | (None, l) \<Rightarrow>
          (case callback_handler C R A Q w tokenReply userReply req now_s now_ms (ls_db s, ls_pairings s) of
             (r, d, ps) \<Rightarrow> (r, s\<lparr>ls_callback := l, ls_db := d, ls_pairings := ps\<rparr>)))"

section \<open>The poll of the WebView\<close>

definition pair_limits :: limits where
  "pair_limits = \<lparr>lm_windowMs = 60000, lm_max = 60, lm_blockMs = 5 * 60000\<rparr>"

fun opt_js :: "string option \<Rightarrow> js" where
  "opt_js None = JNull"
| "opt_js (Some s) = JStr s"

fun poll_json :: "poll_result \<Rightarrow> js" where
  "poll_json PollExpired = JObj [(''status'', JStr ''expired'')]"
| "poll_json PollPending = JObj [(''status'', JStr ''pending'')]"
| "poll_json (PollCompleted u) = JObj [(''status'', JStr ''completed''), (''redirect_url'', opt_js u)]"
| "poll_json (PollFailed e) = JObj [(''status'', JStr ''failed''), (''error'', opt_js e)]"

definition pair_handler ::
  "pairings_repo \<Rightarrow> (pair_db \<Rightarrow> pair_db) \<Rightarrow> web_request \<Rightarrow> int \<Rightarrow> pair_db \<Rightarrow> web_response \<times> pair_db" where
  "pair_handler Q between req now_ms ps =
     (let pairId = string_or_empty (fld (wr_query req) ''id'')
      in if pairId = []
         then (Json 400 (JObj [(''status'', JStr ''invalid''), (''error'', JStr ''missing_id'')]), ps)
         else (case consumeIfCompleted Q between pairId now_ms ps of (r, ps1) \<Rightarrow> (Json 200 (poll_json r), ps1)))"

definition get_pair_status ::
  "pairings_repo \<Rightarrow> (pair_db \<Rightarrow> pair_db) \<Rightarrow> web_request \<Rightarrow> int \<Rightarrow> 'd login_state \<Rightarrow> web_response \<times> 'd login_state" where
  "get_pair_status Q between req now_ms s =
     (case check_limit pair_limits req now_ms (ls_pair s) of
        (Some r, l) \<Rightarrow> (r, s\<lparr>ls_pair := l\<rparr>)
      | (None, l) \<Rightarrow>
          (case pair_handler Q between req now_ms (ls_pairings s) of
             (r, ps) \<Rightarrow> (r, s\<lparr>ls_pair := l, ls_pairings := ps\<rparr>)))"

end
