(* ===== verification/ConnectRoutes.thy ===== *)
theory ConnectRoutes
  imports LoginRoutes
begin

text \<open>
  The connect service (\<open>auth/connect-server/src/app.js\<close> and \<open>routes/\<close>): the token endpoints the
  game and its SDK call, the Graph endpoints, and the order in which the routes are registered.
\<close>

section \<open>Error shapes\<close>

definition oauthInvalidGrant :: web_response where
  "oauthInvalidGrant = Json 200 (JObj [(''error'', JStr ''invalid_grant''), (''code'', JNum 2017)])"

definition graphOAuthError :: "int \<Rightarrow> string \<Rightarrow> int \<Rightarrow> web_response" where
  "graphOAuthError code message httpStatus =
     Json httpStatus (JObj [(''error'', JObj [(''message'', JStr message), (''type'', JStr ''OAuthException''),
       (''code'', JNum code)])])"

record 'd connect_state =
  cs_db :: 'd
  cs_oauth :: "string limiter"
  cs_debug :: "string limiter"

text \<open>\<open>JSON.stringify\<close> of the optional columns: \<open>null\<close> stays \<open>null\<close>.\<close>

fun opt_num :: "int option \<Rightarrow> js" where
  "opt_num None = JNull"
| "opt_num (Some n) = JNum n"

definition SCOPE :: js where
  "SCOPE = JArr [JStr ''get_user_info'', JStr ''get_friends'', JStr ''payment'', JStr ''send_request'']"

section \<open>OAuth endpoints\<close>

definition oauth_limits :: limits where
  "oauth_limits = \<lparr>lm_windowMs = 60000, lm_max = 60, lm_blockMs = 5 * 60000\<rparr>"

text \<open>A handler behind the limiter that the three OAuth routes share.\<close>

definition oauth_limited ::
  "web_request \<Rightarrow> int \<Rightarrow> ('d \<Rightarrow> web_response \<times> 'd) \<Rightarrow> 'd connect_state \<Rightarrow> web_response \<times> 'd connect_state" where
  "oauth_limited req now_ms h s =
     (case check_limit oauth_limits req now_ms (cs_oauth s) of
        (Some r, l) \<Rightarrow> (r, s\<lparr>cs_oauth := l\<rparr>)
      | (None, l) \<Rightarrow> (case h (cs_db s) of (r, d) \<Rightarrow> (r, s\<lparr>cs_oauth := l, cs_db := d\<rparr>)))"

definition inspect_handler :: "'d guests_repo \<Rightarrow> web_request \<Rightarrow> int \<Rightarrow> 'd \<Rightarrow> web_response \<times> 'd" where
  "inspect_handler R req now d =
     (case validateAccessToken R (fld (wr_query req) ''token'') now d of
        (Inl _, d1) \<Rightarrow> (oauthInvalidGrant, d1)
      | (Inr u, d1) \<Rightarrow>
          (Json 200 (JObj [
             (''expiry_time'', opt_num (u_access_expiry u)),
             (''uid'', jnum (JStr (u_uid u))),
             (''open_id'', JStr (u_open_id u)),
             (''main_active_platform'', JNum 4),
             (''app_id'', JNum 100067),
             (''platform'', JNum 4),
             (''create_time'', opt_num (u_create_time u)),
             (''scope'', SCOPE),
             (''login_type'', JNum 2),
             (''login_platform'', JNum 4)]), d1))"

definition get_inspect :: "'d guests_repo \<Rightarrow> web_request \<Rightarrow> int \<Rightarrow> int \<Rightarrow> 'd connect_state \<Rightarrow> web_response \<times> 'd connect_state" where
  "get_inspect R req now now_ms s = oauth_limited req now_ms (inspect_handler R req now) s"

text \<open>\<open>(req.body && req.body.refresh_token) || req.query.refresh_token\<close>.\<close>

definition token_handler :: "'d guests_repo \<Rightarrow> web_request \<Rightarrow> string \<Rightarrow> int \<Rightarrow> 'd \<Rightarrow> web_response \<times> 'd" where
  "token_handler R req access now d =
     (let refr = jor (jand (wr_body req) (fld (wr_body req) ''refresh_token'')) (fld (wr_query req) ''refresh_token'')
      in if \<not> tru refr then (oauthInvalidGrant, d)
         else (case validateRefreshToken R refr now d of
                 (Inl _, d1) \<Rightarrow> (oauthInvalidGrant, d1)
               | (Inr u, d1) \<Rightarrow>
                   (case refreshAccessToken R (u_open_id u) access now d1 of
                      ((access_token, access_expiry), d2) \<Rightarrow>
                        (Json 200 (JObj [
                           (''access_token'', JStr access_token),
                           (''expiry_time'', JNum access_expiry),
                           (''open_id'', JStr (u_open_id u)),
                           (''refresh_token'', opt_js (u_refresh_token u)),
                           (''refresh_expiry_time'', opt_num (u_refresh_expiry u)),
                           (''token_type'', JStr ''Bearer''),
                           (''uid'', jnum (JStr (u_uid u)))]), d2))))"

definition post_token ::
  "'d guests_repo \<Rightarrow> web_request \<Rightarrow> string \<Rightarrow> int \<Rightarrow> int \<Rightarrow> 'd connect_state \<Rightarrow> web_response \<times> 'd connect_state" where
  "post_token R req access now now_ms s = oauth_limited req now_ms (token_handler R req access now) s"

text \<open>\<open>/oauth/logout\<close> has no limiter and passes the query values on without a type check.\<close>

definition logout_handler :: "'d guests_repo \<Rightarrow> web_request \<Rightarrow> 'd \<Rightarrow> web_response \<times> 'd" where
  "logout_handler R req d =
     (let accessToken = fld (wr_query req) ''access_token''; refreshToken = fld (wr_query req) ''refresh_token'';
          unchanged = (Json 200 (JObj [(''success'', JStr ''true'')]), d)
      in if \<not> tru accessToken \<or> \<not> tru refreshToken then unchanged
         else (case gr_findByAccessAndRefreshToken R accessToken refreshToken d of
                 None \<Rightarrow> unchanged
               | Some u \<Rightarrow> (Json 200 (JObj [(''result'', JNum 0)]), gr_clearTokens R (u_open_id u) d)))"

definition get_logout :: "'d guests_repo \<Rightarrow> web_request \<Rightarrow> 'd connect_state \<Rightarrow> web_response \<times> 'd connect_state" where
  "get_logout R req s = (case logout_handler R req (cs_db s) of (r, d) \<Rightarrow> (r, s\<lparr>cs_db := d\<rparr>))"

definition exchange_handler :: "'d guests_repo \<Rightarrow> web_request \<Rightarrow> int \<Rightarrow> 'd \<Rightarrow> web_response \<times> 'd" where
  "exchange_handler R req now d =
     (let fbToken = jand (wr_body req) (fld (wr_body req) ''facebook_access_token'')
      in if \<not> tru fbToken then (oauthInvalidGrant, d)
         else (case validateAccessToken R fbToken now d of
                 (Inl _, d1) \<Rightarrow> (oauthInvalidGrant, d1)
               | (Inr u, d1) \<Rightarrow>
                   (Json 200 (JObj [
                      (''access_token'', opt_js (u_access_token u)),
                      (''code'', JNum 0),
                      (''create_time'', opt_num (u_create_time u)),
                      (''expires_in'', JNum 1296000),
                      (''expiry_time'', opt_num (u_access_expiry u)),
                      (''main_active_platform'', JNum 4),
                      (''open_id'', JStr (u_open_id u)),
                      (''platform'', JNum 4),
                      (''refresh_expiry_time'', opt_num (u_refresh_expiry u)),
                      (''refresh_token'', opt_js (u_refresh_token u)),
                      (''scope'', SCOPE),
                      (''token_type'', JStr ''Bearer''),
                      (''uid'', jnum (JStr (u_uid u)))]), d1)))"

definition post_exchange ::
  "'d guests_repo \<Rightarrow> web_request \<Rightarrow> int \<Rightarrow> int \<Rightarrow> 'd connect_state \<Rightarrow> web_response \<times> 'd connect_state" where
  "post_exchange R req now now_ms s = oauth_limited req now_ms (exchange_handler R req now) s"

section \<open>Graph endpoints\<close>

text \<open>The middleware \<open>withUser\<close>: a refusal, or the user for the handler.\<close>

definition withUser ::
  "'d guests_repo \<Rightarrow> web_request \<Rightarrow> int \<Rightarrow> 'd \<Rightarrow> (web_response + user) \<times> 'd" where
  "withUser R req now d =
     (let token = fld (wr_query req) ''access_token''
      in if \<not> tru token then (Inl (graphOAuthError 104 ''Missing access_token'' 400), d)
         else (case validateAccessToken R token now d of
                 (Inr u, d1) \<Rightarrow> (Inr u, d1)
               | (Inl reason, d1) \<Rightarrow>
                   if reason = TokenRenovation \<or> reason = TokenExpired then (Inl oauthInvalidGrant, d1)
                   else (Inl (graphOAuthError 190 ''Invalid OAuth access token'' 401), d1)))"

definition graph_user ::
  "'d guests_repo \<Rightarrow> web_request \<Rightarrow> int \<Rightarrow> (user \<Rightarrow> web_response) \<Rightarrow> 'd connect_state \<Rightarrow> web_response \<times> 'd connect_state" where
  "graph_user R req now h s =
     (case withUser R req now (cs_db s) of
        (Inl r, d) \<Rightarrow> (r, s\<lparr>cs_db := d\<rparr>)
      | (Inr u, d) \<Rightarrow> (h u, s\<lparr>cs_db := d\<rparr>))"

definition me_response :: "user \<Rightarrow> web_response" where
  "me_response u =
     (let name = str_or (or_str (u_dc_handle u) []) (''User'' @ u_uid u);
          email = str_or (or_str (u_dc_email u) []) (u_uid u @ ''@auth.local'')
      in Json 200 (JObj [(''id'', JStr (u_uid u)), (''name'', JStr name), (''first_name'', JStr name),
                         (''last_name'', JStr []), (''email'', JStr email)]))"

definition permission :: "string \<Rightarrow> js" where
  "permission p = JObj [(''permission'', JStr p), (''status'', JStr ''granted'')]"

definition permissions_response :: "user \<Rightarrow> web_response" where
  "permissions_response u =
     Json 200 (JObj [(''data'', JArr (map permission [''public_profile'', ''email'', ''user_friends'']))])"

definition friends_response :: "user \<Rightarrow> web_response" where
  "friends_response u = Json 200 (JObj [(''data'', JArr []), (''summary'', JObj [(''total_count'', JNum 0)])])"

definition debug_limits :: limits where
  "debug_limits = \<lparr>lm_windowMs = 60000, lm_max = 30, lm_blockMs = 5 * 60000\<rparr>"

definition debug_handler :: "'d guests_repo \<Rightarrow> web_request \<Rightarrow> int \<Rightarrow> 'd \<Rightarrow> web_response \<times> 'd" where
  "debug_handler R req now d =
     (let inputToken = fld (wr_query req) ''input_token''
      in if \<not> tru inputToken then (graphOAuthError 104 ''Missing input_token'' 400, d)
         else (case validateAccessToken R inputToken now d of
                 (Inr u, d1) \<Rightarrow>
                   (Json 200 (JObj [(''data'', JObj [
                      (''app_id'', JStr ''100067''),
                      (''type'', JStr ''USER''),
                      (''application'', JStr ''Discord OAuth Bridge''),
                      (''data_access_expires_at'', opt_num (u_access_expiry u)),
                      (''expires_at'', opt_num (u_access_expiry u)),
                      (''is_valid'', JBool True),
                      (''scopes'', JArr [JStr ''public_profile'', JStr ''email'', JStr ''user_friends'']),
                      (''user_id'', JStr (u_uid u))])]), d1)
               | (Inl reason, d1) \<Rightarrow>
                   if reason = TokenRenovation \<or> reason = TokenExpired then (oauthInvalidGrant, d1)
                   else (Json 200 (JObj [(''data'', JObj [
                      (''is_valid'', JBool False),
                      (''error'', JObj [(''message'', JStr ''Invalid OAuth access token''),
                        (''type'', JStr ''OAuthException''), (''code'', JNum 190)])])]), d1)))"

definition get_debug_token ::
  "'d guests_repo \<Rightarrow> web_request \<Rightarrow> int \<Rightarrow> int \<Rightarrow> 'd connect_state \<Rightarrow> web_response \<times> 'd connect_state" where
  "get_debug_token R req now now_ms s =
     (case check_limit debug_limits req now_ms (cs_debug s) of
        (Some r, l) \<Rightarrow> (r, s\<lparr>cs_debug := l\<rparr>)
      | (None, l) \<Rightarrow> (case debug_handler R req now (cs_db s) of (r, d) \<Rightarrow> (r, s\<lparr>cs_debug := l, cs_db := d\<rparr>)))"

definition activities_response :: web_response where
  "activities_response = Json 200 (JObj [(''success'', JBool True)])"

definition app_response :: "string \<Rightarrow> web_response" where
  "app_response app_id = Json 200 (JObj [
     (''supports_implicit_sdk_logging'', JBool True),
     (''gdpv4_nux_enabled'', JBool False),
     (''gdpv4_nux_content'', JObj []),
     (''android_dialog_configs'', JObj []),
     (''android_sdk_error_categories'', JArr []),
     (''id'', JStr app_id)])"

section \<open>The route table\<close>

text \<open>Express tries the routes in the order of their registration and compares literal segments
  without regard to case. \<open>VersionSeg\<close> is \<open>v:version\<close>, \<open>AppId\<close> is \<open>:app_id\<close>. A path is the list of
  its segments.\<close>

datatype segment = Lit string | VersionSeg | AppId

datatype verb = GET | POST

datatype endpoint =
    Health | AppInfo | Inspect | TokenRefresh | LogoutRoute | Exchange
  | Me | MePermissions | MeFriends | DebugToken | Activities | AppConfig

fun seg_matches :: "segment \<Rightarrow> string \<Rightarrow> bool" where
  "seg_matches (Lit l) s = (toLowerCase s = toLowerCase l)"
| "seg_matches VersionSeg s = (case s of c # rest \<Rightarrow> lower_char c = CHR ''v'' \<and> rest \<noteq> [] | [] \<Rightarrow> False)"
| "seg_matches AppId s = (s \<noteq> [])"

definition path_matches :: "segment list \<Rightarrow> string list \<Rightarrow> bool" where
  "path_matches pat segs \<longleftrightarrow> list_all2 seg_matches pat segs"

definition versioned :: "segment list \<Rightarrow> segment list list" where
  "versioned basePath = [basePath, VersionSeg # basePath]"

definition mount :: "verb \<Rightarrow> segment list list \<Rightarrow> endpoint \<Rightarrow> (verb \<times> segment list \<times> endpoint) list" where
  "mount m paths e = map (\<lambda>p. (m, p, e)) paths"

definition connect_routes :: "(verb \<times> segment list \<times> endpoint) list" where
  "connect_routes =
     [(GET, [Lit ''health''], Health), (GET, [Lit ''app'', Lit ''info'', Lit ''get''], AppInfo),
      (GET, [Lit ''oauth'', Lit ''token'', Lit ''inspect''], Inspect),
      (POST, [Lit ''oauth'', Lit ''token''], TokenRefresh),
      (GET, [Lit ''oauth'', Lit ''logout''], LogoutRoute),
      (POST, [Lit ''oauth'', Lit ''token'', Lit ''facebook'', Lit ''exchange''], Exchange)] @
     mount GET (versioned [Lit ''me'']) Me @
     mount GET (versioned [Lit ''me'', Lit ''permissions'']) MePermissions @
     mount GET (versioned [Lit ''me'', Lit ''friends'']) MeFriends @
     mount GET (versioned [Lit ''debug_token'']) DebugToken @
     mount POST (versioned [AppId, Lit ''activities'']) Activities @
     mount GET (versioned [AppId]) AppConfig"

definition dispatch :: "verb \<Rightarrow> string list \<Rightarrow> endpoint option" where
  "dispatch m segs =
     map_option (\<lambda>(_, _, e). e) (find (\<lambda>(m', p, _). m' = m \<and> path_matches p segs) connect_routes)"

text \<open>The whole service: the route, or the 404 fallback. \<open>access\<close> is the token text drawn by a
  refresh.\<close>

definition connect_request ::
  "'d guests_repo \<Rightarrow> verb \<Rightarrow> string list \<Rightarrow> web_request \<Rightarrow> string \<Rightarrow> int \<Rightarrow> int \<Rightarrow> 'd connect_state \<Rightarrow>
   web_response \<times> 'd connect_state" where
  "connect_request R m segs req access now now_ms s =
     (case dispatch m segs of
        None \<Rightarrow> (Json 404 (JObj [(''error'', JStr ''not_found'')]), s)
      | Some Health \<Rightarrow> (Json 200 (JObj [(''status'', JStr ''ok''), (''service'', JStr ''connect-server'')]), s)
      | Some AppInfo \<Rightarrow> (Json 200 (JObj [(''status'', JNum 0), (''client_log'', JBool False)]), s)
      | Some Inspect \<Rightarrow> get_inspect R req now now_ms s
      | Some TokenRefresh \<Rightarrow> post_token R req access now now_ms s
      | Some LogoutRoute \<Rightarrow> get_logout R req s
      | Some Exchange \<Rightarrow> post_exchange R req now now_ms s
      | Some Me \<Rightarrow> graph_user R req now me_response s
      | Some MePermissions \<Rightarrow> graph_user R req now permissions_response s
      | Some MeFriends \<Rightarrow> graph_user R req now friends_response s
      | Some DebugToken \<Rightarrow> get_debug_token R req now now_ms s
      | Some Activities \<Rightarrow> (activities_response, s)
      | Some AppConfig \<Rightarrow> (app_response (last segs), s))"

end
