(* ===== verification/DialogScript.thy ===== *)
theory DialogScript
  imports LoginRoutes
begin

text \<open>
  The polling script of the login page (\<open>auth/login-server/static/dialog.js\<close>). The i-th fetch takes
  \<open>dur i\<close> milliseconds and gives \<open>reply i\<close>; the timer adds \<open>POLL_INTERVAL_MS\<close>. The loop ends on a
  terminal answer or when the page is open for longer than \<open>POLL_TIMEOUT_MS\<close>.
\<close>

definition POLL_INTERVAL_MS :: nat where "POLL_INTERVAL_MS = 2000"
definition POLL_TIMEOUT_MS :: nat where "POLL_TIMEOUT_MS = 600000"

text \<open>\<open>fetch\<close>: a rejected promise (or a body that is no JSON), or a response.\<close>

datatype poll_reply = FetchFailed | FetchReply bool js

datatype script_end = Navigate string | SignInFailed | SessionExpired | TimedOut

fun is_string :: "js \<Rightarrow> bool" where
  "is_string (JStr s) = True"
| "is_string v = False"

text \<open>What the script does with one reply; \<open>None\<close> is the next timeout.\<close>

definition poll_once :: "poll_reply \<Rightarrow> script_end option" where
  "poll_once r =
     (case r of
        FetchFailed \<Rightarrow> None
      | FetchReply ok body \<Rightarrow>
          (let data = (if ok then body else JObj [(''status'', JStr ''error'')])
           in if tru data \<and> fld data ''status'' = JStr ''completed'' \<and> is_string (fld data ''redirect_url'')
              then Some (Navigate (string_or_empty (fld data ''redirect_url'')))
              else if tru data \<and> fld data ''status'' = JStr ''failed'' then Some SignInFailed
              else if tru data \<and> fld data ''status'' = JStr ''expired'' then Some SessionExpired
              else None))"

text \<open>\<open>poll\<close> at \<open>elapsed\<close> milliseconds since \<open>startedAt\<close>; the result has the number of fetches.\<close>

function poll_from :: "(nat \<Rightarrow> poll_reply) \<Rightarrow> (nat \<Rightarrow> nat) \<Rightarrow> nat \<Rightarrow> nat \<Rightarrow> script_end \<times> nat" where
  "poll_from reply dur i elapsed =
     (if elapsed > POLL_TIMEOUT_MS then (TimedOut, i)
      else (case poll_once (reply i) of
              Some e \<Rightarrow> (e, i + 1)
            | None \<Rightarrow> poll_from reply dur (i + 1) (elapsed + dur i + POLL_INTERVAL_MS)))"
  by pat_completeness auto
termination
  by (relation "measure (\<lambda>(_, _, _, elapsed). Suc POLL_TIMEOUT_MS - elapsed)")
    (auto simp: POLL_TIMEOUT_MS_def POLL_INTERVAL_MS_def)

declare poll_from.simps [simp del]

definition poll_script :: "(nat \<Rightarrow> poll_reply) \<Rightarrow> (nat \<Rightarrow> nat) \<Rightarrow> script_end \<times> nat" where
  "poll_script reply dur = poll_from reply dur 0 POLL_INTERVAL_MS"

text \<open>Where a run ends: at the first decisive reply, or after only undecided ones.\<close>

lemma poll_from_end:
  assumes "poll_from reply dur i elapsed = (e, n)" and "POLL_INTERVAL_MS * (i + 1) \<le> elapsed"
  shows "i \<le> n \<and> n \<le> max i 300 \<and>
    ((e = TimedOut \<and> (\<forall>j. i \<le> j \<and> j < n \<longrightarrow> poll_once (reply j) = None)) \<or>
     (i < n \<and> poll_once (reply (n - 1)) = Some e \<and> (\<forall>j. i \<le> j \<and> j < n - 1 \<longrightarrow> poll_once (reply j) = None)))"
  using assms
proof (induction reply dur i elapsed rule: poll_from.induct)
  case (1 reply dur i elapsed)
  show ?case
  proof (cases "elapsed > POLL_TIMEOUT_MS")
    case True
    with 1(2) show ?thesis
      by (subst (asm) poll_from.simps) auto
  next
    case False
    then have i: "i < 300"
      using 1(3) by (simp add: POLL_TIMEOUT_MS_def POLL_INTERVAL_MS_def)
    show ?thesis
    proof (cases "poll_once (reply i)")
      case (Some x)
      with False 1(2) i show ?thesis
        by (subst (asm) poll_from.simps) auto
    next
      case None
      let ?el = "elapsed + dur i + POLL_INTERVAL_MS"
      have r: "poll_from reply dur (i + 1) ?el = (e, n)"
        using None False 1(2) by (subst (asm) poll_from.simps) simp
      have "POLL_INTERVAL_MS * (i + 1 + 1) \<le> ?el"
        using 1(3) by simp
      note ih = 1(1) [OF False None r this]
      have "poll_once (reply j) = None" if "i \<le> j" "\<forall>j. i + 1 \<le> j \<and> j < k \<longrightarrow> poll_once (reply j) = None" "j < k" for j k
        using that None by (cases "j = i") auto
      with ih i show ?thesis
        by (metis Suc_eq_plus1 Suc_leD Suc_lessD Suc_le_eq max.absorb4 max.absorb2 le_eq_less_or_eq)
    qed
  qed
qed

text \<open>The limiter in front of \<open>/pair/status\<close> lets such a poller through: requests of one address that
  are at least \<open>POLL_INTERVAL_MS\<close> apart never exceed sixty in a window.\<close>

fun spaced :: "int \<Rightarrow> int list \<Rightarrow> bool" where
  "spaced gap [] = True"
| "spaced gap [t] = True"
| "spaced gap (t # u # ts) = (t + gap \<le> u \<and> spaced gap (u # ts))"

definition calm :: "limit_entry \<Rightarrow> int \<Rightarrow> bool" where
  "calm e t \<longleftrightarrow> le_blockedUntil e \<le> t \<and> 1 \<le> le_count e \<and>
     le_windowStart e + 2000 * (le_count e - 1) \<le> t - 2000"

lemma spaced_calm:
  assumes "spaced 2000 (t # ts)" and "e = None \<or> (\<exists>x. e = Some x \<and> calm x t)" and "0 \<le> t"
  shows "run_key pair_limits (t # ts) e = t # ts"
  using assms
proof (induction ts arbitrary: t e)
  case Nil
  then show ?case
    by (auto simp: step_entry_def pair_limits_def fresh_entry_def calm_def Let_def)
next
  case (Cons u ts)
  let ?s = "step_entry pair_limits t e"
  have s: "fst ?s = Next \<and> calm (snd ?s) u"
    using Cons.prems by (auto simp: step_entry_def pair_limits_def fresh_entry_def calm_def Let_def)
  have "run_key pair_limits (u # ts) (Some (snd ?s)) = u # ts"
    by (rule Cons.IH) (use Cons.prems s in auto)
  then show ?case
    using s by (simp del: run_key.simps(2) add: run_key.simps(2) [of _ t])
qed

end
