(* ===== verification/AuthProps.thy ===== *)
theory AuthProps
  imports GuestStore PairingRuns ConnectRoutes DialogScript
begin

text \<open>
  The properties of the authentication services: the rate limiter, the signed state, the tokens, the
  two backends, the pairings, the Discord login from the dialog to the game, and the polling script.
\<close>

section \<open>Rate limiter\<close>

text \<open>
  [C36] In every run of a limiter whose clock does not go back, the requests of a key that pass in any
  interval of the length of a window are at most twice the limit; the answers to a key depend on the
  requests of this key only; and the pruning timer has no effect on any answer.
\<close>

theorem rate_limit_bounds:
  assumes "createRateLimiter w m b = Inr (L, st)"
    and "sorted (map event_time evs)"
  shows "length (filter (\<lambda>t. t0 \<le> t \<and> t \<le> t0 + w) (passed k (run_limiter L evs st))) \<le> 2 * nat m \<and>
    passed k (run_limiter L evs st) = run_key L (request_times k evs) None \<and>
    run_limiter L evs st = run_limiter L (filter is_request evs) st"
proof -
  have L: "L = \<lparr>lm_windowMs = w, lm_max = m, lm_blockMs = b\<rparr>" "st = []" "0 < m"
    using assms(1) by (auto simp: createRateLimiter_def split: if_splits)
  have ticks: "run_limiter L evs st = run_limiter L (filter is_request evs) st"
  proof (cases evs)
    case (Cons e es)
    have "\<forall>x \<in> set evs. event_time e \<le> event_time x"
      using assms(2) Cons by auto
    then show ?thesis
      by (rule run_same_from [OF assms(2)]) (simp_all add: L(2) same_from_def)
  qed simp
  then have key: "passed k (run_limiter L evs st) = run_key L (request_times k evs) None"
    by (simp add: passed_run_key L(2))
  moreover have "length (filter (\<lambda>t. t0 \<le> t \<and> t \<le> t0 + lm_windowMs L) (run_key L (request_times k evs) None))
      \<le> 2 * nat (lm_max L)"
    by (rule any_interval) (use request_times_sorted [OF assms(2)] L in auto)
  ultimately show ?thesis
    using ticks by (simp add: L(1))
qed

theorem rate_limit_bounds_witness:
  "length (filter (\<lambda>t. 500 \<le> t \<and> t \<le> 500 + 1000)
     (passed (7::nat) (run_limiter \<lparr>lm_windowMs = 1000, lm_max = 1, lm_blockMs = 10\<rparr>
        [Request 7 0, Request 7 900, Tick 1000, Request 7 1200] []))) \<le> 2 * nat 1"
proof -
  let ?L = "\<lparr>lm_windowMs = 1000, lm_max = 1, lm_blockMs = 10\<rparr>"
    and ?evs = "[Request (7::nat) 0, Request 7 900, Tick 1000, Request 7 1200]"
  have c: "createRateLimiter 1000 1 10 = Inr (?L, [] :: nat limiter)" and s: "sorted (map event_time ?evs)"
    by (simp_all add: createRateLimiter_def)
  show ?thesis
    using rate_limit_bounds [OF c s, of 500 7] by (rule conjunct1)
qed

section \<open>The signed state\<close>

text \<open>
  [C35] The state of a dialog is accepted for ten minutes and gives back the redirect address and the
  pair id it was made for; and whatever text is accepted carries, after its first dot, the MAC of the
  part before it under the secret of the service, a body that is not older than ten minutes, and a
  non-empty redirect address.
\<close>

theorem oauth_state_binds:
  assumes "json_law G" and "redirect \<noteq> []" and "pairId \<noteq> []"
  shows "verifyState G secret DEFAULT_MAX_AGE_SECONDS now' (JStr (signState G secret nonce now redirect (Some pairId))) =
      (if now' - now > 600 then Inl StateExpired else Inr (redirect, Some pairId)) \<and>
    (\<forall>s r p. verifyState G secret DEFAULT_MAX_AGE_SECONDS now' s = Inr (r, p) \<longrightarrow>
      (\<exists>encoded sigPart body t. s = JStr (encoded @ ''.'' @ sigPart) \<and>
        base64UrlDecode sigPart = sg_hmac G secret (str_bytes encoded) \<and>
        sg_parse G (base64UrlDecode encoded) = Some body \<and> fld body ''r'' = JStr r \<and> r \<noteq> [] \<and>
        fld body ''t'' = JNum t \<and> now' - t \<le> 600))"
  using assms verify_signState [OF assms(1,2), of secret 600 now' nonce now "Some pairId"] verifyState_Inr
  unfolding DEFAULT_MAX_AGE_SECONDS_def by (auto simp: or_str_def)

theorem oauth_state_binds_witness:
  "verifyState demo_sign [1, 2] DEFAULT_MAX_AGE_SECONDS 1600
     (JStr (signState demo_sign [1, 2] ''n'' 1000 ''fbconnect://success'' (Some ''p1''))) =
   Inr (''fbconnect://success'', Some ''p1'')"
  using oauth_state_binds [OF demo_sign_law, of "''fbconnect://success''" "''p1''" "[1, 2]" 1600 "''n''" 1000]
  by simp

section \<open>Pairings\<close>

text \<open>
  [C34] In every interleaving of dialogs, callbacks, sweeps and polls on the PostgreSQL repository, each
  poll between its two queries, at most one outcome is recorded for a pair id, at most one poll ever
  gets a terminal answer for it, this answer is the recorded outcome, and afterwards the row is gone.
\<close>

theorem pairing_single_use:
  assumes "pair_reach createPairingsRepoPg s"
  shows "distinct (map fst (py_marks s)) \<and> distinct (map fst (py_log s)) \<and>
    set (py_log s) \<subseteq> set (py_marks s) \<and> fst ` set (py_log s) \<inter> pr_pair_id ` set (py_db s) = {}"
  using py_inv_reach [OF assms] by (simp add: py_inv_def)

text \<open>Two polls that have both read the completed pairing, the first one answered.\<close>

definition race_row :: pairing where
  "race_row = complete_doc ''u'' (pending_doc ''p'' ''r'' 600 0)"

definition race_state :: pair_system where
  "race_state = \<lparr>py_db = [race_row], py_used = {''p''}, py_flights = [(''p'', race_row), (''p'', race_row)],
     py_marks = [(''p'', PollCompleted (Some ''u''))], py_log = []\<rparr>"

lemmas race_simps = race_row_def pending_doc_def complete_doc_def

lemma race_steps:
  assumes sel: "ps_consume_select Q ''p'' 0 [race_row] = Inr race_row"
    and mark: "ps_markCompleted Q ''p'' ''u'' 0 [pending_doc ''p'' ''r'' 600 0] = (Some race_row, [race_row])"
  shows "pair_reach Q race_state"
proof -
  let ?p = "pending_doc ''p'' ''r'' 600 0"
  let ?s = "\<lambda>db fl mk. \<lparr>py_db = db, py_used = {''p''}, py_flights = fl, py_marks = mk, py_log = []\<rparr>"
  let ?m = "[(''p'', PollCompleted (Some ''u''))]"
  have "pair_step Q py_start (?s [?p] [] [])"
    using pair_step.dialog [of "''p''" py_start "''r''" 600 0 "[?p]" Q] by (simp add: py_start_def createPending_def)
  moreover have "pair_step Q (?s [?p] [] []) (?s [race_row] [] ?m)"
    using pair_step.completed [of Q "''p''" "''u''" 0 "?s [?p] [] []" race_row "[race_row]"] by (simp add: mark)
  moreover have "pair_step Q (?s [race_row] [] ?m) (?s [race_row] [(''p'', race_row)] ?m)"
    using pair_step.poll [of Q "''p''" 0 "?s [race_row] [] ?m" race_row] by (simp add: sel)
  moreover have "pair_step Q (?s [race_row] [(''p'', race_row)] ?m) race_state"
    using pair_step.poll [of Q "''p''" 0 "?s [race_row] [(''p'', race_row)] ?m" race_row]
    by (simp add: sel race_state_def)
  ultimately show ?thesis
    by (meson converse_rtranclp_into_rtranclp rtranclp.rtrancl_refl)
qed

lemma race_reach_pg: "pair_reach createPairingsRepoPg race_state"
  by (rule race_steps) (simp_all add: pg_consume_select_def pg_markCompleted_def pg_mark_def live_def race_simps)

theorem pairing_single_use_witness:
  "distinct (map fst (py_marks race_state)) \<and> length (py_flights race_state) = 2"
  using pairing_single_use [OF race_reach_pg] by (simp add: race_state_def)

text \<open>In MongoDB the deletion is not looked at: both polls are answered with the redirect.\<close>

theorem mongo_delivers_twice:
  "\<exists>s. pair_reach createPairingsRepoMongo s \<and>
     py_log s = [(''p'', PollCompleted (Some ''u'')), (''p'', PollCompleted (Some ''u''))] \<and> py_db s = []"
proof -
  let ?Q = createPairingsRepoMongo
  let ?s1 = "race_state\<lparr>py_db := [], py_flights := [(''p'', race_row)], py_log := [(''p'', PollCompleted (Some ''u''))]\<rparr>"
  let ?s2 = "?s1\<lparr>py_flights := [], py_log := (''p'', PollCompleted (Some ''u'')) # py_log ?s1\<rparr>"
  have q: "ps_consume_select ?Q = mongo_consume_select" "ps_markCompleted ?Q = mongo_markCompleted"
    "ps_consume_delete ?Q = mongo_consume_delete"
    by (simp_all add: createPairingsRepoMongo_def)
  have r0: "pair_reach ?Q race_state"
    by (rule race_steps) (simp_all add: q mongo_consume_select_def mongo_markCompleted_def mongo_mark_def race_simps)
  have d: "ps_consume_delete ?Q ''p'' race_row ps =
      (PollCompleted (Some ''u''), delete_first (\<lambda>p. pr_pair_id p = ''p'' \<and> pr_status p = PairCompleted) ps)" for ps
    by (simp add: q mongo_consume_delete_def terminal_result_def race_simps)
  have "pair_step ?Q race_state ?s1"
    using pair_step.finish [of 0 race_state "''p''" race_row ?Q "PollCompleted (Some ''u'')" "[]"]
    by (simp add: race_state_def d) (simp add: race_simps)
  moreover have "pair_step ?Q ?s1 ?s2"
    using pair_step.finish [of 0 ?s1 "''p''" race_row ?Q "PollCompleted (Some ''u'')" "[]"]
    by (simp add: race_state_def d)
  ultimately have "pair_reach ?Q ?s2"
    using r0 by (meson rtranclp.rtrancl_into_rtrancl)
  then show ?thesis
    by (intro exI [of _ ?s2]) (simp add: race_state_def)
qed

section \<open>The polling script\<close>

text \<open>
  [C37] The polling script of the login page always ends, after at most 300 fetches: either the
  replies up to its last one were undecided and it timed out, or the last reply decided; and a page
  that polls alone from its address is let through every time by the limiter of the poll route.
\<close>

theorem poll_script_ends:
  assumes "poll_script reply dur = (e, n)"
  shows "n \<le> 300 \<and>
    ((e = TimedOut \<and> (\<forall>j < n. poll_once (reply j) = None)) \<or>
     (0 < n \<and> poll_once (reply (n - 1)) = Some e \<and> (\<forall>j < n - 1. poll_once (reply j) = None))) \<and>
    (\<forall>t ts. spaced 2000 (t # ts) \<and> 0 \<le> t \<longrightarrow> run_key pair_limits (t # ts) None = t # ts)"
  using poll_from_end [of reply dur 0 POLL_INTERVAL_MS e n] assms spaced_calm [of _ _ None]
  by (auto simp: poll_script_def)

theorem poll_script_ends_witness:
  "poll_script (\<lambda>i. if i < 2 then FetchFailed else FetchReply True (poll_json (PollFailed None))) (\<lambda>_. 0) =
     (SignInFailed, 3) \<and> (3::nat) \<le> 300"
proof -
  have "poll_script (\<lambda>i. if i < 2 then FetchFailed else FetchReply True (poll_json (PollFailed None))) (\<lambda>_. 0) =
     (SignInFailed, 3)"
    by (simp add: poll_script_def poll_from.simps POLL_TIMEOUT_MS_def POLL_INTERVAL_MS_def poll_once_def Let_def)
  with poll_script_ends [OF this] show ?thesis
    by simp
qed

end
