(* ===== verification/AuthFlowProps.thy ===== *)
theory AuthFlowProps
  imports GuestStore ConnectRoutes
begin

text \<open>
  The properties of the two stores and of the login: the PostgreSQL repository refines the MongoDB
  one, issued tokens are accepted until they expire, and a Discord login reaches the game.
\<close>

section \<open>The two backends\<close>

text \<open>A call of the guests repository and its answer. An insert that hits a unique index answers
  \<open>Duplicate\<close>, whatever the code of the driver.\<close>

datatype repo_call =
    FindByDcId string | FindByOpenId string | FindByAccessToken string | FindByRefreshToken string
  | FindByBoth string string | InsertUser "string guest" | UpdateDiscord string "string option" "string option"
  | SetTokens string token_row | RefreshAccess string string int | ClearTokens string | CurrentMaxUid

datatype repo_reply = Found "user option" | Inserted | Duplicate | CallFailed | Done | MaxUid "int option"

definition insert_reply :: "auth_error + unit \<Rightarrow> repo_reply" where
  "insert_reply r = (case r of Inr _ \<Rightarrow> Inserted | Inl e \<Rightarrow> if is_duplicate e then Duplicate else CallFailed)"

fun guest_call :: "'d guests_repo \<Rightarrow> repo_call \<Rightarrow> 'd \<Rightarrow> repo_reply \<times> 'd" where
  "guest_call R (FindByDcId k) d = (Found (gr_findByDcId R k d), d)"
| "guest_call R (FindByOpenId k) d = (Found (gr_findByOpenId R k d), d)"
| "guest_call R (FindByAccessToken t) d = (Found (gr_findByAccessToken R t d), d)"
| "guest_call R (FindByRefreshToken t) d = (Found (gr_findByRefreshToken R t d), d)"
| "guest_call R (FindByBoth a b) d = (Found (gr_findByAccessAndRefreshToken R (JStr a) (JStr b) d), d)"
| "guest_call R (InsertUser doc) d = (case gr_insertUser R doc d of (r, d') \<Rightarrow> (insert_reply r, d'))"
| "guest_call R (UpdateDiscord k h e) d = (Done, gr_updateDiscordFields R k h e d)"
| "guest_call R (SetTokens k t) d = (Done, gr_setTokens R k t d)"
| "guest_call R (RefreshAccess k a x) d = (Done, gr_refreshAccessToken R k a x d)"
| "guest_call R (ClearTokens k) d = (Done, gr_clearTokens R k d)"
| "guest_call R CurrentMaxUid d =
     ((case gr_currentMaxUid R d of Inr m \<Rightarrow> MaxUid m | Inl _ \<Rightarrow> CallFailed), d)"

fun guest_calls :: "'d guests_repo \<Rightarrow> repo_call list \<Rightarrow> 'd \<Rightarrow> repo_reply list \<times> 'd" where
  "guest_calls R [] d = ([], d)"
| "guest_calls R (c # cs) d =
     (case guest_call R c d of (r, d1) \<Rightarrow> case guest_calls R cs d1 of (rs, d2) \<Rightarrow> (r # rs, d2))"

text \<open>The calls the services make: token texts are not empty, and a document is inserted without
  tokens and with a uid that no other document has (unless its open id or Discord id is taken).\<close>

fun proper_call :: "repo_call \<Rightarrow> string guest list \<Rightarrow> bool" where
  "proper_call (SetTokens k t) gs = valid_tokens t"
| "proper_call (RefreshAccess k a x) gs = (a \<noteq> [])"
| "proper_call (InsertUser doc) gs =
     (uid_text (g_uid doc) \<and> token_texts_ok doc \<and> (duplicate_doc doc gs \<or> g_uid doc \<notin> g_uid ` set gs))"
| "proper_call _ gs = True"

text \<open>The abstract store is the list of documents alone.\<close>

fun spec_call :: "repo_call \<Rightarrow> string guest list \<Rightarrow> repo_reply \<times> string guest list" where
  "spec_call (FindByDcId k) gs = (Found (map_option (view_guest (\<lambda>u. u)) (find (\<lambda>g. g_dc_id g = k) gs)), gs)"
| "spec_call (FindByOpenId k) gs = (Found (map_option (view_guest (\<lambda>u. u)) (find (\<lambda>g. g_open_id g = k) gs)), gs)"
| "spec_call (FindByAccessToken t) gs =
     (Found (map_option (view_guest (\<lambda>u. u)) (find (\<lambda>g. g_access_token g = Some t) gs)), gs)"
| "spec_call (FindByRefreshToken t) gs =
     (Found (map_option (view_guest (\<lambda>u. u)) (find (\<lambda>g. g_refresh_token g = Some t) gs)), gs)"
| "spec_call (FindByBoth a b) gs =
     (Found (map_option (view_guest (\<lambda>u. u))
        (find (\<lambda>g. g_access_token g = Some a \<and> g_refresh_token g = Some b) gs)), gs)"
| "spec_call (InsertUser doc) gs = (if duplicate_doc doc gs then (Duplicate, gs) else (Inserted, gs @ [doc]))"
| "spec_call (UpdateDiscord k h e) gs = (Done, upd_guest k (put_discord h e) gs)"
| "spec_call (SetTokens k t) gs = (Done, upd_guest k (put_tokens t) gs)"
| "spec_call (RefreshAccess k a x) gs = (Done, upd_guest k (put_access a x) gs)"
| "spec_call (ClearTokens k) gs = (Done, upd_guest k no_tokens gs)"
| "spec_call CurrentMaxUid gs = (MaxUid (max_opt (map (\<lambda>g. the (to_long (g_uid g))) gs)), gs)"

fun spec_calls :: "repo_call list \<Rightarrow> string guest list \<Rightarrow> repo_reply list \<times> string guest list" where
  "spec_calls [] gs = ([], gs)"
| "spec_calls (c # cs) gs =
     (case spec_call c gs of (r, gs1) \<Rightarrow> case spec_calls cs gs1 of (rs, gs2) \<Rightarrow> (r # rs, gs2))"

fun proper_calls :: "repo_call list \<Rightarrow> string guest list \<Rightarrow> bool" where
  "proper_calls [] gs = True"
| "proper_calls (c # cs) gs = (proper_call c gs \<and> proper_calls cs (snd (spec_call c gs)))"

context guest_store
begin

lemma call_refines:
  assumes "ok d" and "proper_call c (docs d)"
  shows "\<exists>d'. guest_call R c d = (fst (spec_call c (docs d)), d') \<and> ok d' \<and> docs d' = snd (spec_call c (docs d))"
proof (cases c)
  case (InsertUser doc)
  with assms have p: "uid_text (g_uid doc)" "token_texts_ok doc"
    "duplicate_doc doc (docs d) \<or> g_uid doc \<notin> g_uid ` set (docs d)"
    by simp_all
  show ?thesis
  proof (cases "duplicate_doc doc (docs d)")
    case True
    then show ?thesis
      using insert_duplicate [OF assms(1) p(1)] assms(1) InsertUser by (auto simp: insert_reply_def)
  next
    case False
    then show ?thesis
      using insert_fresh [OF assms(1) p(1,2)] p(3) InsertUser by (auto simp: insert_reply_def)
  qed
qed (use assms in \<open>simp_all add: find_dc find_open find_access find_refresh find_both upd_discord set_tokens
    refresh_access clear_tokens max_uid\<close>)

lemma calls_refine:
  assumes "ok d" and "proper_calls cs (docs d)"
  shows "\<exists>d'. guest_calls R cs d = (fst (spec_calls cs (docs d)), d') \<and> ok d' \<and> docs d' = snd (spec_calls cs (docs d))"
  using assms
proof (induction cs arbitrary: d)
  case (Cons c cs)
  from call_refines [of d c] Cons.prems obtain d1 where
    d1: "guest_call R c d = (fst (spec_call c (docs d)), d1)" "ok d1" "docs d1 = snd (spec_call c (docs d))"
    by auto
  then obtain d2 where "guest_calls R cs d1 = (fst (spec_calls cs (docs d1)), d2)" "ok d2"
      "docs d2 = snd (spec_calls cs (docs d1))"
    using Cons.IH [of d1] Cons.prems by auto
  with d1 show ?case
    by (simp split: prod.splits)
qed simp

end

text \<open>
  [C31] Both guests repositories refine the same abstract store, a list of documents: started in stores
  that stand for the same documents, every sequence of proper calls gets the same answers from
  PostgreSQL and from MongoDB, those of the abstract store, and leaves stores that again stand for the
  same documents.
\<close>

theorem guest_backends_refine:
  assumes "pg_ok p" and "mongo_ok m" and "pg_docs p = ad_guests m" and "proper_calls cs (ad_guests m)"
  shows "\<exists>p' m'. guest_calls (createGuestsRepoPg prm) cs p = (fst (spec_calls cs (ad_guests m)), p') \<and>
    guest_calls (createGuestsRepoMongo flt) cs m = (fst (spec_calls cs (ad_guests m)), m') \<and>
    pg_ok p' \<and> mongo_ok m' \<and> pg_docs p' = snd (spec_calls cs (ad_guests m)) \<and>
    ad_guests m' = snd (spec_calls cs (ad_guests m))"
  using pg_guests.calls_refine [of p cs prm] mongo_guests.calls_refine [of m cs flt] assms by metis

definition demo_doc :: "string guest" where
  "demo_doc = \<lparr>g_open_id = ''o1'', g_uid = ''7'', g_dc_id = ''d1'', g_dc_handle = None, g_dc_email = None,
     g_renovation = False, g_access_token = None, g_refresh_token = None, g_access_expiry = None,
     g_refresh_expiry = None, g_create_time = None, g_last_login = None, g_last_ip = None,
     g_registered_at = None, g_registered_ip = None, g_renovated_at = None, g_renovated_ip = None\<rparr>"

definition no_db :: "'u auth_db" where
  "no_db = \<lparr>ad_guests = [], ad_accounts = []\<rparr>"

lemma no_db_ok: "pg_ok no_db" "mongo_ok no_db" "pg_docs no_db = ad_guests (no_db :: mongo_db)"
  by (simp_all add: no_db_def pg_ok_def mongo_ok_def pg_docs_def guests_ok_def)

lemma uid_text_7: "uid_text ''7''"
proof -
  have "int_str 7 = ''7''"
    by code_simp
  then show ?thesis
    unfolding uid_text_def long_range_def by (intro exI [of _ 7]) simp
qed

theorem guest_backends_refine_witness:
  "\<exists>p' m'. guest_calls (createGuestsRepoPg (\<lambda>_. [])) [InsertUser demo_doc, InsertUser demo_doc, CurrentMaxUid] no_db =
     ([Inserted, Duplicate, MaxUid (Some 7)], p') \<and>
   guest_calls (createGuestsRepoMongo (\<lambda>_ _. False)) [InsertUser demo_doc, InsertUser demo_doc, CurrentMaxUid] no_db =
     ([Inserted, Duplicate, MaxUid (Some 7)], m')"
proof -
  let ?cs = "[InsertUser demo_doc, InsertUser demo_doc, CurrentMaxUid]"
  have p: "proper_calls ?cs (ad_guests no_db)"
    by (simp add: no_db_def uid_text_7 token_texts_ok_def duplicate_doc_def) (simp add: demo_doc_def uid_text_7)
  have s: "fst (spec_calls ?cs (ad_guests no_db)) = [Inserted, Duplicate, MaxUid (Some 7)]"
    by (simp add: no_db_def duplicate_doc_def max_opt_def)
      (simp add: demo_doc_def to_long_def all_digits_def is_digit_def digit_val_def)
  show ?thesis
    using guest_backends_refine [OF no_db_ok p, of "\<lambda>_. []" "\<lambda>_ _. False"] unfolding s by blast
qed

section \<open>Tokens\<close>

text \<open>No document but the one of the open id satisfies \<open>P\<close> after its update.\<close>

lemma find_upd_new:
  assumes "distinct (map g_open_id gs)" and "g \<in> set gs" and "P (f g)"
    and "\<forall>h \<in> set gs. g_open_id h \<noteq> g_open_id g \<longrightarrow> \<not> P h"
  shows "find P (upd_guest (g_open_id g) f gs) = Some (f g)"
  using assms
proof (induction gs)
  case (Cons h gs)
  show ?case
  proof (cases "h = g")
    case True
    with Cons.prems(3) show ?thesis
      by (simp add: upd_guest_def)
  next
    case False
    then have "g \<in> set gs" "g_open_id h \<noteq> g_open_id g"
      using Cons.prems(1,2) by (auto simp: image_iff)
    with Cons show ?thesis
      by (auto simp: upd_guest_def)
  qed
qed simp

lemma find_upd_none:
  assumes "\<not> P (f g)" and "\<forall>h \<in> set gs. g_open_id h = g_open_id g \<longrightarrow> h = g"
    and "\<forall>h \<in> set gs. g_open_id h \<noteq> g_open_id g \<longrightarrow> \<not> P h"
  shows "find P (upd_guest (g_open_id g) f gs) = None"
  using assms by (auto simp: find_None_iff upd_guest_def)

text \<open>Token texts that no document holds, and a token held by at most one document: what the random
  draws of \<open>generateToken\<close> give.\<close>

definition unused_token :: "string \<Rightarrow> string guest list \<Rightarrow> bool" where
  "unused_token t gs \<longleftrightarrow> t \<noteq> [] \<and> (\<forall>g \<in> set gs. g_access_token g \<noteq> Some t \<and> g_refresh_token g \<noteq> Some t)"

definition only_holder :: "string guest \<Rightarrow> string guest list \<Rightarrow> bool" where
  "only_holder g gs \<longleftrightarrow> (\<forall>h \<in> set gs. g_open_id h \<noteq> g_open_id g \<longrightarrow>
     (g_access_token g \<noteq> None \<longrightarrow> g_access_token h \<noteq> g_access_token g) \<and>
     (g_refresh_token g \<noteq> None \<longrightarrow> g_refresh_token h \<noteq> g_refresh_token g))"

definition issued_row :: "string \<Rightarrow> string \<Rightarrow> string option \<Rightarrow> int \<Rightarrow> token_row" where
  "issued_row access refr ip now =
     \<lparr>tr_access = access, tr_refresh = refr, tr_access_expiry = now + ACCESS_TTL_SECONDS,
      tr_refresh_expiry = now + REFRESH_TTL_SECONDS, tr_create_time = now,
      tr_last_login = toISOString now, tr_last_ip = ip\<rparr>"

lemma put_tokens_fields:
  "g_access_token (put_tokens t g) = Some (tr_access t)" "g_refresh_token (put_tokens t g) = Some (tr_refresh t)"
  "g_access_expiry (put_tokens t g) = Some (tr_access_expiry t)"
  "g_refresh_expiry (put_tokens t g) = Some (tr_refresh_expiry t)"
  "g_renovation (put_tokens t g) = g_renovation g"
  by (simp_all add: put_tokens_def)

lemma view_fields:
  "u_open_id (view_guest f g) = g_open_id g" "u_uid (view_guest f g) = f (g_uid g)"
  "u_renovation (view_guest f g) = g_renovation g" "u_access_expiry (view_guest f g) = g_access_expiry g"
  "u_refresh_expiry (view_guest f g) = g_refresh_expiry g"
  by (simp_all add: view_guest_def)

lemma unique_open_id:
  "guests_ok gs \<Longrightarrow> g \<in> set gs \<Longrightarrow> \<forall>h \<in> set gs. g_open_id h = g_open_id g \<longrightarrow> h = g"
  by (auto simp: guests_ok_def distinct_map dest: inj_onD)

context guest_store
begin

lemma issue_docs:
  assumes "ok d" and "access \<noteq> []" and "refr \<noteq> []" and "issueTokens R k access refr ip now d = (ts, d1)"
  shows "ok d1 \<and> docs d1 = upd_guest k (put_tokens (issued_row access refr ip now)) (docs d) \<and>
    ts = \<lparr>ts_access_token = access, ts_refresh_token = refr, ts_access_expiry = now + ACCESS_TTL_SECONDS,
          ts_refresh_expiry = now + REFRESH_TTL_SECONDS, ts_create_time = now\<rparr>"
proof -
  have v: "valid_tokens (issued_row access refr ip now)"
    using assms(2,3) by (simp add: valid_tokens_def issued_row_def)
  have "d1 = gr_setTokens R k (issued_row access refr ip now) d"
    using assms(4) by (simp add: issueTokens_def Let_def issued_row_def)
  then show ?thesis
    using set_tokens [OF assms(1) v] assms(4) by (simp add: issueTokens_def Let_def)
qed

lemma validate_issued:
  assumes ok: "ok d" and g: "g \<in> set (docs d)" and ren: "\<not> g_renovation g"
    and un: "unused_token access (docs d)" "unused_token refr (docs d)"
    and iss: "issueTokens R (g_open_id g) access refr ip now d = (ts, d1)"
  defines "u \<equiv> view_guest (\<lambda>u. u) (put_tokens (issued_row access refr ip now) g)"
  shows "validateAccessToken R (JStr access) t d1 =
      ((if t > now + ACCESS_TTL_SECONDS then Inl TokenExpired else Inr u), d1)"
    and "validateRefreshToken R (JStr refr) t d1 =
      ((if t > now + REFRESH_TTL_SECONDS then Inl TokenExpired else Inr u), d1)"
proof -
  let ?row = "issued_row access refr ip now"
  have ne: "access \<noteq> []" "refr \<noteq> []"
    using un by (simp_all add: unused_token_def)
  note d1 = issue_docs [OF ok ne iss]
  have dist: "distinct (map g_open_id (docs d))"
    using docs_ok [OF ok] by (simp add: guests_ok_def)
  have "find (\<lambda>h. g_access_token h = Some access) (docs d1) = Some (put_tokens ?row g)"
    using find_upd_new [OF dist g, of "\<lambda>h. g_access_token h = Some access" "put_tokens ?row"] un d1
    by (auto simp: put_tokens_fields issued_row_def unused_token_def)
  then show "validateAccessToken R (JStr access) t d1 =
      ((if t > now + ACCESS_TTL_SECONDS then Inl TokenExpired else Inr u), d1)"
    using d1 ne ren by (simp add: validateAccessToken_def find_access u_def view_fields put_tokens_fields issued_row_def)
  have "find (\<lambda>h. g_refresh_token h = Some refr) (docs d1) = Some (put_tokens ?row g)"
    using find_upd_new [OF dist g, of "\<lambda>h. g_refresh_token h = Some refr" "put_tokens ?row"] un d1
    by (auto simp: put_tokens_fields issued_row_def unused_token_def)
  then show "validateRefreshToken R (JStr refr) t d1 =
      ((if t > now + REFRESH_TTL_SECONDS then Inl TokenExpired else Inr u), d1)"
    using d1 ne ren by (simp add: validateRefreshToken_def find_refresh u_def view_fields put_tokens_fields issued_row_def)
qed

lemma old_token_unknown:
  assumes ok: "ok d" and g: "g \<in> set (docs d)" and only: "only_holder g (docs d)"
    and un: "unused_token access (docs d)" "unused_token refr (docs d)"
    and iss: "issueTokens R (g_open_id g) access refr ip now d = (ts, d1)"
    and old: "g_access_token g = Some a" "a \<noteq> []"
  shows "validateAccessToken R (JStr a) t d1 = (Inl TokenUnknown, d1)"
proof -
  let ?row = "issued_row access refr ip now"
  have ne: "access \<noteq> []" "refr \<noteq> []" "a \<noteq> access"
    using un g old by (auto simp: unused_token_def)
  note d1 = issue_docs [OF ok ne(1,2) iss]
  have "find (\<lambda>h. g_access_token h = Some a) (docs d1) = None"
    using find_upd_none [of "\<lambda>h. g_access_token h = Some a" "put_tokens ?row" g "docs d"]
      unique_open_id [OF docs_ok [OF ok] g] only old ne d1
    by (auto simp: put_tokens_fields issued_row_def only_holder_def)
  then show ?thesis
    using d1 old(2) by (simp add: validateAccessToken_def find_access)
qed

lemma cleared_unknown:
  assumes ok: "ok d" and g: "g \<in> set (docs d)" and only: "only_holder g (docs d)"
    and d1: "d1 = gr_clearTokens R (g_open_id g) d"
  shows "g_access_token g = Some a \<Longrightarrow> a \<noteq> [] \<Longrightarrow> validateAccessToken R (JStr a) t d1 = (Inl TokenUnknown, d1)"
    and "g_refresh_token g = Some b \<Longrightarrow> b \<noteq> [] \<Longrightarrow> validateRefreshToken R (JStr b) t d1 = (Inl TokenUnknown, d1)"
proof -
  have c: "ok d1" "docs d1 = upd_guest (g_open_id g) no_tokens (docs d)"
    using clear_tokens [OF ok] d1 by simp_all
  note uniq = unique_open_id [OF docs_ok [OF ok] g]
  {
    assume a: "g_access_token g = Some a" "a \<noteq> []"
    have "find (\<lambda>h. g_access_token h = Some a) (docs d1) = None"
      using find_upd_none [of "\<lambda>h. g_access_token h = Some a" no_tokens g "docs d"] uniq only a c
      by (auto simp: no_tokens_def only_holder_def)
    then show "validateAccessToken R (JStr a) t d1 = (Inl TokenUnknown, d1)"
      using c a by (simp add: validateAccessToken_def find_access)
  }
  {
    assume b: "g_refresh_token g = Some b" "b \<noteq> []"
    have "find (\<lambda>h. g_refresh_token h = Some b) (docs d1) = None"
      using find_upd_none [of "\<lambda>h. g_refresh_token h = Some b" no_tokens g "docs d"] uniq only b c
      by (auto simp: no_tokens_def only_holder_def)
    then show "validateRefreshToken R (JStr b) t d1 = (Inl TokenUnknown, d1)"
      using c b by (simp add: validateRefreshToken_def find_refresh)
  }
qed

end


section \<open>The Discord login\<close>





text \<open>What a login promises about the store after it: the guest of the Discord user has the current
  name and the tokens drawn, they are accepted for fifteen and thirty days, and every other guest is
  unchanged.\<close>

definition logged_in ::
  "'d guests_repo \<Rightarrow> ('d \<Rightarrow> string guest list) \<Rightarrow> 'd login_draw \<Rightarrow> discord_user \<Rightarrow> int \<Rightarrow> string guest list \<Rightarrow> 'd \<Rightarrow>
   string guest \<Rightarrow> bool" where
  "logged_in R docs w du now gs d1 g \<longleftrightarrow>
     g \<in> set (docs d1) \<and> g_dc_id g = du_id du \<and> g_dc_handle g = Some (du_username du) \<and> g_dc_email g = du_email du \<and>
     (\<forall>t. validateAccessToken R (JStr (dw_access w)) t d1 =
        (if t > now + 1296000 then Inl TokenExpired else Inr (view_guest (\<lambda>u. u) g), d1)) \<and>
     (\<forall>t. validateRefreshToken R (JStr (dw_refresh w)) t d1 =
        (if t > now + 2592000 then Inl TokenExpired else Inr (view_guest (\<lambda>u. u) g), d1)) \<and>
     (\<forall>h \<in> set gs. g_dc_id h \<noteq> du_id du \<longrightarrow> h \<in> set (docs d1))"

lemma put_discord_fields:
  "g_renovation (put_discord h e g) = g_renovation g" "g_dc_handle (put_discord h e g) = h"
  "g_dc_email (put_discord h e g) = e"
  "g_dc_handle (put_tokens t g) = g_dc_handle g" "g_dc_email (put_tokens t g) = g_dc_email g"
  by (simp_all add: put_discord_def put_tokens_def)

lemma in_upd_guest: "g \<in> set gs \<Longrightarrow> f g \<in> set (upd_guest (g_open_id g) f gs)"
  by (auto simp: upd_guest_def)

lemma in_upd_other: "h \<in> set gs \<Longrightarrow> g_open_id h \<noteq> k \<Longrightarrow> h \<in> set (upd_guest k f gs)"
  by (auto simp: upd_guest_def image_iff intro!: bexI [of _ h])

lemma unused_token_upd:
  "unused_token t gs \<Longrightarrow> (\<And>g. g_access_token (f g) = g_access_token g) \<Longrightarrow>
    (\<And>g. g_refresh_token (f g) = g_refresh_token g) \<Longrightarrow> unused_token t (upd_guest k f gs)"
  by (auto simp: unused_token_def upd_guest_def)

lemma find_dc_id:
  assumes "guests_ok gs" and "g \<in> set gs"
  shows "find (\<lambda>h. g_dc_id h = g_dc_id g) gs = Some g"
  using assms by (intro find_distinct_key) (simp_all add: guests_ok_def)

context guest_store
begin

text \<open>The last part of a login: tokens for a guest that is already in the store.\<close>

lemma finish_login:
  assumes ok: "ok d" and g: "g \<in> set (docs d)" and ren: "\<not> g_renovation g"
    and un: "unused_token (dw_access w) (docs d)" "unused_token (dw_refresh w) (docs d)"
    and du: "g_dc_id g = du_id du" "g_dc_handle g = Some (du_username du)" "g_dc_email g = du_email du"
    and iss: "issueTokens R (g_open_id g) (dw_access w) (dw_refresh w) ip now d = (ts, d1)"
  shows "ok d1 \<and> logged_in R docs w du now (docs d) d1 (put_tokens (issued_row (dw_access w) (dw_refresh w) ip now) g)"
proof -
  have ne: "dw_access w \<noteq> []" "dw_refresh w \<noteq> []"
    using un by (simp_all add: unused_token_def)
  note d1 = issue_docs [OF ok ne iss]
  have "h \<in> set (docs d1)" if "h \<in> set (docs d)" "g_dc_id h \<noteq> du_id du" for h
  proof -
    have "g_open_id h \<noteq> g_open_id g"
      using unique_open_id [OF docs_ok [OF ok] g] that du(1) by auto
    then show ?thesis
      using d1 that(1) in_upd_other by auto
  qed
  then show ?thesis
    using validate_issued [OF ok g ren un iss] d1 du in_upd_guest [OF g]
    by (simp add: logged_in_def put_discord_fields ACCESS_TTL_SECONDS_def REFRESH_TTL_SECONDS_def)
qed

lemma returning_login:
  assumes ok: "ok d" and g: "g \<in> set (docs d)" and ren: "\<not> g_renovation g" and dc: "g_dc_id g = du_id du"
    and un: "unused_token (dw_access w) (docs d)" "unused_token (dw_refresh w) (docs d)"
  shows "\<exists>flow d1 g'. completeDiscordLogin C R A w du uri ip now d = (Inr (Some flow), d1) \<and> ok d1 \<and>
    logged_in R docs w du now (docs d) d1 g' \<and> fo_openId flow = g_open_id g' \<and> fo_uid flow = g_uid g' \<and>
    g_open_id g' = g_open_id g \<and> g_uid g' = g_uid g"
proof -
  let ?f = "put_discord (Some (du_username du)) (du_email du)"
  let ?d = "gr_updateDiscordFields R (g_open_id g) (Some (du_username du)) (du_email du) d"
  have found: "gr_findByDcId R (du_id du) d = Some (view_guest (\<lambda>u. u) g)"
    using find_dc_id [OF docs_ok [OF ok] g] by (simp add: find_dc dc)
  have u: "ok ?d" "docs ?d = upd_guest (g_open_id g) ?f (docs d)"
    using upd_discord [OF ok] by simp_all
  obtain ts d1 where iss: "issueTokens R (g_open_id g) (dw_access w) (dw_refresh w) ip now ?d = (ts, d1)"
    by force
  have un': "unused_token (dw_access w) (docs ?d)" "unused_token (dw_refresh w) (docs ?d)"
    unfolding u(2) by (rule unused_token_upd [OF un(1)]; simp) (rule unused_token_upd [OF un(2)]; simp)
  have g': "?f g \<in> set (docs ?d)"
    unfolding u(2) by (rule in_upd_guest [OF g])
  have "ok d1 \<and> logged_in R docs w du now (docs ?d) d1 (put_tokens (issued_row (dw_access w) (dw_refresh w) ip now) (?f g))"
    by (rule finish_login [OF u(1) g' _ un']) (use ren dc iss in \<open>simp_all add: put_discord_fields\<close>)
  moreover have "h \<in> set (docs ?d)" if "h \<in> set (docs d)" "g_dc_id h \<noteq> du_id du" for h
    unfolding u(2) by (rule in_upd_other [OF that(1)]) (use unique_open_id [OF docs_ok [OF ok] g] that dc in auto)
  ultimately have "ok d1 \<and> logged_in R docs w du now (docs d) d1
      (put_tokens (issued_row (dw_access w) (dw_refresh w) ip now) (?f g))"
    unfolding logged_in_def by blast
  moreover have "completeDiscordLogin C R A w du uri ip now d =
      (Inr (Some \<lparr>fo_redirectUrl = login_redirect C uri (g_uid g) ts, fo_uid = g_uid g, fo_openId = g_open_id g\<rparr>), d1)"
    using found ren iss by (simp add: completeDiscordLogin_def Let_def view_fields)
  ultimately show ?thesis
    by (intro exI [of _ "\<lparr>fo_redirectUrl = login_redirect C uri (g_uid g) ts, fo_uid = g_uid g,
          fo_openId = g_open_id g\<rparr>"] exI [of _ d1]
        exI [of _ "put_tokens (issued_row (dw_access w) (dw_refresh w) ip now) (?f g)"]) simp
qed

end



section \<open>The properties of the tokens and of the login\<close>

text \<open>
  [C32] Whatever repository fulfils the contract: the tokens issued to a guest that is not blocked are
  accepted as that guest, the access token for fifteen days and the refresh token for thirty; the
  access token he had before is unknown from then on; and clearing his tokens makes both unknown.
\<close>

theorem issued_tokens_work:
  assumes "guest_store R docs ok" and "ok d" and "g \<in> set (docs d)" and "\<not> g_renovation g"
    and "unused_token access (docs d)" and "unused_token refr (docs d)"
    and "issueTokens R (g_open_id g) access refr ip now d = (ts, d1)"
  shows "ts_access_token ts = access \<and> ts_refresh_token ts = refr \<and>
    (\<exists>u. u_open_id u = g_open_id g \<and> u_uid u = g_uid g \<and>
      (\<forall>t. validateAccessToken R (JStr access) t d1 =
        (if t > now + 15 * 86400 then Inl TokenExpired else Inr u, d1)) \<and>
      (\<forall>t. validateRefreshToken R (JStr refr) t d1 =
        (if t > now + 30 * 86400 then Inl TokenExpired else Inr u, d1))) \<and>
    (\<forall>a t. g_access_token g = Some a \<and> only_holder g (docs d) \<longrightarrow>
      validateAccessToken R (JStr a) t d1 = (Inl TokenUnknown, d1)) \<and>
    (\<forall>t. let d2 = gr_clearTokens R (g_open_id g) d1
         in validateAccessToken R (JStr access) t d2 = (Inl TokenUnknown, d2) \<and>
            validateRefreshToken R (JStr refr) t d2 = (Inl TokenUnknown, d2))"
proof -
  let ?row = "issued_row access refr ip now" and ?d2 = "gr_clearTokens R (g_open_id g) d1"
  let ?g = "put_tokens ?row g"
  note issue = guest_store.issue_docs [OF assms(1,2) _ _ assms(7)]
    and valid = guest_store.validate_issued [OF assms(1-7)]
  have ne: "access \<noteq> []" "refr \<noteq> []"
    using assms(5,6) by (simp_all add: unused_token_def)
  note d1 = issue [OF ne]
  have gs: "guests_ok (docs d)"
    using guest_store.docs_ok [OF assms(1,2)] .
  have g: "?g \<in> set (docs d1)"
    using d1 in_upd_guest [OF assms(3)] by auto
  have "h \<in> set (docs d)" if "h \<in> set (docs d1)" "g_open_id h \<noteq> g_open_id g" for h
    using that d1 by (auto simp: upd_guest_def split: if_splits)
  then have only: "only_holder ?g (docs d1)"
    using assms(5,6) by (auto simp: only_holder_def unused_token_def put_tokens_fields issued_row_def)
  have "validateAccessToken R (JStr access) t ?d2 = (Inl TokenUnknown, ?d2)"
    and "validateRefreshToken R (JStr refr) t ?d2 = (Inl TokenUnknown, ?d2)" for t
    using guest_store.cleared_unknown [OF assms(1) _ g only, of ?d2] d1 ne
    by (simp_all add: put_tokens_fields issued_row_def)
  moreover have "validateAccessToken R (JStr a) t d1 = (Inl TokenUnknown, d1)"
    if "g_access_token g = Some a" "only_holder g (docs d)" for a t
    using guest_store.old_token_unknown [OF assms(1-3) that(2) assms(5-7) that(1)] gs assms(3) that(1)
    by (auto simp: guests_ok_def token_texts_ok_def)
  moreover have "u_open_id (view_guest (\<lambda>u. u) ?g) = g_open_id g" "u_uid (view_guest (\<lambda>u. u) ?g) = g_uid g"
    by (simp_all add: view_fields)
  ultimately show ?thesis
    using valid d1 by (auto simp: Let_def ACCESS_TTL_SECONDS_def REFRESH_TTL_SECONDS_def
        intro!: exI [of _ "view_guest (\<lambda>u. u) ?g"])
qed

definition one_guest :: mongo_db where
  "one_guest = \<lparr>ad_guests = [demo_doc], ad_accounts = []\<rparr>"

lemma one_guest_ok: "mongo_ok one_guest"
proof -
  have "uid_text (g_uid demo_doc)"
    by (simp add: demo_doc_def uid_text_7)
  then show ?thesis
    by (simp add: one_guest_def mongo_ok_def guests_ok_def) (simp add: demo_doc_def token_texts_ok_def)
qed

theorem issued_tokens_work_witness:
  "fst (validateAccessToken (createGuestsRepoMongo (\<lambda>_ _. False)) (JStr ''A'') 2000000
     (snd (issueTokens (createGuestsRepoMongo (\<lambda>_ _. False)) ''o1'' ''A'' ''B'' None 0 one_guest))) = Inl TokenExpired"
proof -
  let ?R = "createGuestsRepoMongo (\<lambda>_ _. False)"
  have o: "g_open_id demo_doc = ''o1''"
    by (simp add: demo_doc_def)
  have g: "demo_doc \<in> set (ad_guests one_guest)" "\<not> g_renovation demo_doc"
      "unused_token ''A'' (ad_guests one_guest)" "unused_token ''B'' (ad_guests one_guest)"
    by (simp_all add: one_guest_def unused_token_def) (simp_all add: demo_doc_def)
  obtain ts d1 where iss: "issueTokens ?R (g_open_id demo_doc) ''A'' ''B'' None 0 one_guest = (ts, d1)"
    by force
  show ?thesis
    using issued_tokens_work [OF mongo_guests.guest_store_axioms one_guest_ok g iss] iss by (auto simp: o)
qed









lemma find_append_new: "\<forall>x \<in> set xs. \<not> P x \<Longrightarrow> P y \<Longrightarrow> find P (xs @ [y]) = Some y"
  by (induction xs) auto











text \<open>
  Two new users that draw the same uid in MongoDB. Between the uid query and the insert of one login
  another login inserts its guest and account with this uid. Only the accounts have a unique index on
  it, so the guest is inserted, the account is not, and every further attempt meets the index on the
  Discord id: the login throws and the guest stays behind without an account. The next login of the
  user finds the guest and succeeds, and still no account is made.
\<close>

lemma retry_loop_stuck:
  assumes "\<And>i. k \<le> i \<Longrightarrow> \<exists>e. fn i d = (Inl e, d)"
  shows "\<exists>e. retry_loop fn k n le d = (Inl e, d)"
  using assms
proof (induction n arbitrary: k le)
  case (Suc n)
  obtain e where e: "fn k d = (Inl e, d)"
    using Suc.prems [of k] by auto
  have "\<exists>e. retry_loop fn (k + 1) n (Some e') d = (Inl e, d)" for e'
    by (rule Suc.IH) (use Suc.prems in auto)
  then show ?case
    using e by simp
qed simp

lemma mongo_uid_race_orphans:
  fixes flt :: "js \<Rightarrow> string option \<Rightarrow> bool"
  defines "R \<equiv> createGuestsRepoMongo flt"
  assumes "dw_openId w 0 \<notin> aa_open_id ` set (ad_accounts d)"
    and "\<forall>g \<in> set (ad_guests d). g_dc_id g \<noteq> du_id du \<and> g_open_id g \<noteq> dw_openId w 0"
    and "nextUid R d = Inr uid"
    and "dw_race w 0 d = d\<lparr>ad_guests := ad_guests d @ [g2], ad_accounts := ad_accounts d @ [a2]\<rparr>"
    and "g_dc_id g2 \<noteq> du_id du" and "g_open_id g2 \<noteq> dw_openId w 0" and "g_uid g2 = uid"
    and "aa_open_id a2 = g_open_id g2" and "aa_uid a2 = uid"
    and "\<forall>i > 0. dw_race w i = (\<lambda>x. x)"
  shows "\<exists>e d1. completeDiscordLogin C R createAccountsRepoMongo w du uri ip now d = (Inl e, d1) \<and>
    (\<exists>g \<in> set (ad_guests d1). g_dc_id g = du_id du \<and> g_open_id g = dw_openId w 0) \<and>
    dw_openId w 0 \<notin> aa_open_id ` set (ad_accounts d1) \<and>
    (\<exists>flow d2. completeDiscordLogin C R createAccountsRepoMongo w' du uri ip now' d1 = (Inr (Some flow), d2) \<and>
      fo_openId flow = dw_openId w 0 \<and> ad_accounts d2 = ad_accounts d1)"
proof -
  let ?A = createAccountsRepoMongo
  let ?g = "guest_doc (dw_openId w 0) uid du (toISOString now) ip"
  let ?d1 = "d\<lparr>ad_guests := ad_guests d @ [g2, ?g], ad_accounts := ad_accounts d @ [a2]\<rparr>"
  have first: "provision R ?A w du ip now 0 d = (Inl Code11000, ?d1)"
    using assms(3-) by (auto simp: provision_def R_def createGuestsRepoMongo_def createAccountsRepoMongo_def
        mongo_insertUser_def mongo_insertAccount_def guest_doc_def account_doc_def)
  have next_: "\<exists>e. provision R ?A w du ip now i ?d1 = (Inl e, ?d1)" if "1 \<le> i" for i
  proof -
    have ins: "gr_insertUser R = mongo_insertUser"
      by (simp add: R_def createGuestsRepoMongo_def)
    show ?thesis
      using that assms(11) by (cases "nextUid R ?d1") (simp_all add: provision_def ins mongo_insertUser_def guest_doc_def)
  qed
  obtain e where retry: "withUidRetry (provision R ?A w du ip now) d = (Inl e, ?d1)"
  proof -
    have "\<exists>e. retry_loop (provision R ?A w du ip now) 1 4 (Some Code11000) ?d1 = (Inl e, ?d1)"
      by (rule retry_loop_stuck) (rule next_)
    then show ?thesis
      using that first by (auto simp: withUidRetry_def numeral_eq_Suc)
  qed
  have unknown: "gr_findByDcId R (du_id du) d = None"
    using assms(3) by (auto simp: R_def createGuestsRepoMongo_def mongo_findByDcId_def mongo_one_def find_None_iff)
  have known: "gr_findByDcId R (du_id du) ?d1 = Some (view_guest (\<lambda>u. u) ?g)"
    using find_append_new [of "ad_guests d @ [g2]" "\<lambda>g. g_dc_id g = du_id du" ?g] assms(3,6)
    by (simp add: R_def createGuestsRepoMongo_def mongo_findByDcId_def mongo_one_def guest_doc_def)
  have r1: "completeDiscordLogin C R ?A w du uri ip now d = (Inl e, ?d1)"
    using unknown retry by (simp add: completeDiscordLogin_def Let_def)
  have r2: "\<exists>flow d2. completeDiscordLogin C R ?A w' du uri ip now' ?d1 = (Inr (Some flow), d2) \<and>
      fo_openId flow = dw_openId w 0 \<and> ad_accounts d2 = ad_accounts ?d1"
    using known by (simp add: completeDiscordLogin_def Let_def issueTokens_def view_guest_def guest_doc_def R_def
        createGuestsRepoMongo_def mongo_updateOne_def)
  show ?thesis
    using r1 r2 assms(2,7,9) by (intro exI [of _ e] exI [of _ ?d1]) (auto simp: guest_doc_def)
qed

text \<open>
  The logout route hands the query values to the repository as they are. An object, which the query
  parser makes of \<open>access_token[$ne]=x\<close>, is a filter for MongoDB: whoever is first in the collection
  with other tokens is logged out. The hypothesis is the documented meaning of \<open>$ne\<close>.
\<close>

lemma mongo_logout_injection:
  assumes "\<And>s x. flt (JObj [(''$ne'', JStr s)]) x \<longleftrightarrow> x \<noteq> Some s"
    and "ad_guests d = g # gs" and "g_access_token g \<noteq> Some ''x''" and "g_refresh_token g \<noteq> Some ''x''"
    and "fld (wr_query req) ''access_token'' = JObj [(''$ne'', JStr ''x'')]"
    and "fld (wr_query req) ''refresh_token'' = JObj [(''$ne'', JStr ''x'')]"
  shows "logout_handler (createGuestsRepoMongo flt) req d =
    (Json 200 (JObj [(''result'', JNum 0)]), d\<lparr>ad_guests := no_tokens g # gs\<rparr>)"
  using assms by (simp add: logout_handler_def Let_def createGuestsRepoMongo_def mongo_findByAccessAndRefreshToken_def
      mongo_one_def mongo_match_def view_guest_def mongo_updateOne_def)


end
