(* ===== verification/Cutover.thy ===== *)
theory Cutover
  imports AccountStore "HOL-Library.Char_ord" "HOL-Library.List_Lexorder"
begin

text \<open>
  Moving the game's store from SQLite to PostgreSQL: the migration runner (\<open>src/db/migrate.js\<close>), the
  copy of the accounts (\<open>src/db/migrate-data.js\<close>) and the backfill of the relational friend tables
  (\<open>scripts/backfill-friends.js\<close>). The last section states what the cutover keeps: every account, every
  lookup, and the friends and requests of the documents, between accounts that exist.
\<close>

section \<open>The migration runner\<close>

text \<open>\<open>exec f\<close> runs the statements of the file \<open>f\<close>, \<open>exec_error f\<close> being their error message; a failed
  transaction is rolled back. The state is the \<open>_migrations\<close> table, in the order of its rows, and the
  database.\<close>

definition ends_with :: "string \<Rightarrow> string \<Rightarrow> bool" where
  "ends_with s t \<longleftrightarrow> length t \<le> length s \<and> drop (length s - length t) s = t"

definition migration_files :: "string list \<Rightarrow> string list" where
  "migration_files names = sort (filter (\<lambda>f. ends_with f ''.sql'') names)"

fun apply_files ::
  "(string \<Rightarrow> 'd \<Rightarrow> string + 'd) \<Rightarrow> string list \<Rightarrow> string list \<Rightarrow> nat \<Rightarrow> string list \<times> 'd \<Rightarrow> (exn + nat) \<times> string list \<times> 'd" where
  "apply_files exec applied [] cnt st = (Inr cnt, st)"
| "apply_files exec applied (f # fs) cnt (tbl, d) =
     (if f \<in> set applied then apply_files exec applied fs cnt (tbl, d)
      else (case exec f d of
              Inl msg \<Rightarrow> (Inl (Thrown (''migration '' @ f @ '' failed: '' @ msg)), tbl, d)
            | Inr d' \<Rightarrow> apply_files exec applied fs (cnt + 1) (tbl @ [f], d')))"

definition migrate :: "(string \<Rightarrow> 'd \<Rightarrow> string + 'd) \<Rightarrow> string list \<Rightarrow> string list \<times> 'd \<Rightarrow> (exn + nat) \<times> string list \<times> 'd" where
  "migrate exec names st = apply_files exec (fst st) (migration_files names) 0 st"

text \<open>Files that are all applied change nothing.\<close>

lemma apply_files_done: "set fs \<subseteq> set applied \<Longrightarrow> apply_files exec applied fs cnt st = (Inr cnt, st)"
  by (cases st, induction fs) auto

lemma apply_files_log:
  assumes "apply_files exec applied fs cnt (tbl, d) = (r, tbl', d')"
  shows "\<exists>new. tbl' = tbl @ new \<and> set new \<subseteq> set fs - set applied \<and>
    (\<forall>n. r = Inr n \<longrightarrow> n = cnt + length new \<and> set fs \<subseteq> set applied \<union> set new) \<and>
    (isl r \<longrightarrow> (\<exists>f \<in> set fs. isl (exec f d')))"
  using assms
proof (induction fs arbitrary: cnt tbl d)
  case (Cons f fs)
  show ?case
  proof (cases "f \<in> set applied")
    case True
    then show ?thesis
      using Cons.IH [of cnt tbl d] Cons.prems by fastforce
  next
    case False
    show ?thesis
    proof (cases "exec f d")
      case (Inl msg)
      then show ?thesis
        using Cons.prems False by auto
    next
      case (Inr d1)
      then obtain ds where "tbl' = (tbl @ [f]) @ ds" "set ds \<subseteq> set fs - set applied"
        "\<forall>n. r = Inr n \<longrightarrow> n = cnt + 1 + length ds \<and> set fs \<subseteq> set applied \<union> set ds"
        "isl r \<longrightarrow> (\<exists>f \<in> set fs. isl (exec f d'))"
        using Cons.IH [of "cnt + 1" "tbl @ [f]" d1] Cons.prems False by auto
      then show ?thesis
        using False by (intro exI [of _ "f # ds"]) auto
    qed
  qed
qed auto

text \<open>A second run after a complete one is up to date.\<close>

lemma migrate_again:
  assumes "migrate exec names st = (Inr n, st')"
  shows "migrate exec names st' = (Inr 0, st')"
proof -
  obtain tbl d tbl' d' where st: "st = (tbl, d)" "st' = (tbl', d')"
    by (cases st; cases st')
  then have "set (migration_files names) \<subseteq> set tbl'"
    using apply_files_log [of exec tbl "migration_files names" 0 tbl d "Inr n" tbl' d'] assms
    by (auto simp: migrate_def)
  then show ?thesis
    by (simp add: migrate_def st apply_files_done)
qed

section \<open>Copying the accounts\<close>

text \<open>\<open>jsonText(r.state, '{}')\<close>: a text that parses is kept, everything else becomes the empty object.
  (The model holds \<open>raw_login\<close> parsed; it is copied.)\<close>

fun jsonText_state :: "state_col \<Rightarrow> state_col" where
  "jsonText_state (Doc a) = Doc a"
| "jsonText_state _ = Doc (JObj [])"

definition migrate_row :: "row \<Rightarrow> row" where
  "migrate_row r = r\<lparr>ro_state := jsonText_state (ro_state r)\<rparr>"

text \<open>\<open>INSERT ... ON CONFLICT (account_id) DO UPDATE\<close> of all columns; the open id is unique, and
  \<open>null\<close> equals nothing.\<close>

definition upsert_account :: "row \<Rightarrow> db \<Rightarrow> (exn + unit) \<times> db" where
  "upsert_account r d =
     (if \<exists>q \<in> set (db_rows d). ro_account_id q \<noteq> ro_account_id r \<and> ro_open_id q = ro_open_id r \<and> ro_open_id r \<noteq> JNull
      then (Inl (Thrown ''unique violation: accounts.open_id''), d)
      else (Inr (), d\<lparr>db_rows :=
              if \<exists>q \<in> set (db_rows d). ro_account_id q = ro_account_id r
              then map (\<lambda>q. if ro_account_id q = ro_account_id r then r else q) (db_rows d)
              else db_rows d @ [r]\<rparr>))"

fun upsert_rows :: "row list \<Rightarrow> nat \<Rightarrow> db \<Rightarrow> (exn + nat) \<times> db" where
  "upsert_rows [] n d = (Inr n, d)"
| "upsert_rows (r # rs) n d =
     (case upsert_account (migrate_row r) d of
        (Inl e, d1) \<Rightarrow> (Inl e, d1)
      | (Inr _, d1) \<Rightarrow> upsert_rows rs (n + 1) d1)"

text \<open>\<open>setval\<close>: the next identity is one more than the largest id, and at least 10000001.\<close>

definition advance_sequence :: "db \<Rightarrow> db" where
  "advance_sequence d = d\<lparr>db_next := foldr max (map ro_account_id (db_rows d)) 10000000 + 1\<rparr>"

definition migrateData :: "db \<Rightarrow> db \<Rightarrow> (exn + nat) \<times> db" where
  "migrateData sqlite d =
     (case upsert_rows (db_rows sqlite) 0 d of
        (Inl e, d1) \<Rightarrow> (Inl e, d1)
      | (Inr n, d1) \<Rightarrow> (Inr n, advance_sequence d1))"

text \<open>\<open>main\<close>: in one transaction, rolled back on an error.\<close>

definition migrate_data_main :: "db \<Rightarrow> db \<Rightarrow> (exn + nat) \<times> db" where
  "migrate_data_main sqlite d =
     (case migrateData sqlite d of (Inl e, _) \<Rightarrow> (Inl e, d) | (Inr n, d1) \<Rightarrow> (Inr n, d1))"

section \<open>Backfilling the friend tables\<close>

text \<open>\<open>Array.isArray(x) ? x.map(Number).filter(Boolean) : []\<close>.\<close>

definition ids_in :: "js \<Rightarrow> int list" where
  "ids_in x = List.map_filter (\<lambda>v. case num v of Some n \<Rightarrow> if n = 0 then None else Some n | None \<Rightarrow> None) (elems x)"

text \<open>\<open>insertSkippingFk\<close> for the two statements: the number of inserted rows, none when an account is
  missing.\<close>

definition insert_friendship :: "int \<Rightarrow> int \<Rightarrow> db \<Rightarrow> nat \<times> db" where
  "insert_friendship uid f d =
     (if \<not> known d uid \<or> \<not> known d f then (0, d)
      else let fs = add_pair (f, uid) (add_pair (uid, f) (db_friends d))
           in (length fs - length (db_friends d), d\<lparr>db_friends := fs\<rparr>))"

definition insert_request :: "int \<Rightarrow> int \<Rightarrow> db \<Rightarrow> nat \<times> db" where
  "insert_request uid from_id d =
     (if \<not> known d uid \<or> \<not> known d from_id then (0, d)
      else let rs = add_pair (uid, from_id) (db_requests d)
           in (length rs - length (db_requests d), d\<lparr>db_requests := rs\<rparr>))"

fun insert_all :: "(int \<Rightarrow> int \<Rightarrow> db \<Rightarrow> nat \<times> db) \<Rightarrow> int \<Rightarrow> int list \<Rightarrow> nat \<Rightarrow> db \<Rightarrow> nat \<times> db" where
  "insert_all ins uid [] n d = (n, d)"
| "insert_all ins uid (f # fs) n d =
     (if f = uid then insert_all ins uid fs n d
      else (case ins uid f d of (k, d1) \<Rightarrow> insert_all ins uid fs (n + k) d1))"

fun backfill_rows :: "row list \<Rightarrow> nat \<times> nat \<Rightarrow> db \<Rightarrow> (nat \<times> nat) \<times> db" where
  "backfill_rows [] cs d = (cs, d)"
| "backfill_rows (row # rows) (fn, rn) d =
     (let uid = ro_account_id row;
          st = (case ro_state row of Doc a \<Rightarrow> a | _ \<Rightarrow> JObj []);
          (fn1, d1) = insert_all insert_friendship uid (ids_in (fld st ''friends'')) fn d;
          (rn1, d2) = insert_all insert_request uid (ids_in (fld st ''requests'')) rn d1
      in backfill_rows rows (fn1, rn1) d2)"

definition backfill :: "db \<Rightarrow> (nat \<times> nat) \<times> db" where
  "backfill d = backfill_rows (db_rows d) (0, 0) d"

section \<open>What the copy does\<close>

lemma migrate_row_ok: "row_ok r \<Longrightarrow> migrate_row r = r"
  by (cases "ro_state r") (simp_all add: migrate_row_def row_ok_def)

text \<open>The rows of a well-formed database, copied into an empty table.\<close>

lemma upsert_fresh:
  assumes "row_ok r" and "ro_account_id r \<notin> ro_account_id ` set (db_rows d)" and "ro_open_id r \<notin> ro_open_id ` set (db_rows d)"
  shows "upsert_account (migrate_row r) d = (Inr (), d\<lparr>db_rows := db_rows d @ [r]\<rparr>)"
proof -
  have "\<forall>q \<in> set (db_rows d). ro_account_id q \<noteq> ro_account_id r \<and> ro_open_id q \<noteq> ro_open_id r"
    using assms(2,3) by (metis image_eqI)
  then show ?thesis
    by (auto simp: upsert_account_def migrate_row_ok [OF assms(1)])
qed

lemma upsert_same:
  assumes "row_ok r" and "r \<in> set (db_rows d)" and "distinct (map ro_account_id (db_rows d))"
    and "distinct (map ro_open_id (db_rows d))"
  shows "upsert_account (migrate_row r) d = (Inr (), d)"
proof -
  have one: "q = r" if "q \<in> set (db_rows d)" "ro_account_id q = ro_account_id r \<or> ro_open_id q = ro_open_id r" for q
    using that assms(2-4) by (auto simp: distinct_map dest: inj_onD)
  then have "map (\<lambda>q. if ro_account_id q = ro_account_id r then r else q) (db_rows d) = db_rows d"
    by (intro map_idI) auto
  moreover have "\<not> (\<exists>q \<in> set (db_rows d). ro_account_id q \<noteq> ro_account_id r \<and> ro_open_id q = ro_open_id r \<and> ro_open_id r \<noteq> JNull)"
    using one by blast
  moreover have "\<exists>q \<in> set (db_rows d). ro_account_id q = ro_account_id r"
    using assms(2) by blast
  ultimately show ?thesis
    by (simp add: upsert_account_def migrate_row_ok [OF assms(1)])
qed

lemma upsert_rows_append:
  assumes "list_all row_ok rs" and "distinct (map ro_account_id (db_rows d @ rs))"
    and "distinct (map ro_open_id (db_rows d @ rs))"
  shows "upsert_rows rs n d = (Inr (n + length rs), d\<lparr>db_rows := db_rows d @ rs\<rparr>)"
  using assms
proof (induction rs arbitrary: n d)
  case (Cons r rs)
  have "upsert_account (migrate_row r) d = (Inr (), d\<lparr>db_rows := db_rows d @ [r]\<rparr>)"
    using Cons.prems by (intro upsert_fresh) auto
  then show ?case
    using Cons.IH [of "d\<lparr>db_rows := db_rows d @ [r]\<rparr>" "n + 1"] Cons.prems by simp
qed simp

lemma upsert_rows_again:
  assumes "list_all row_ok rs" and "set rs \<subseteq> set (db_rows d)" and "distinct (map ro_account_id (db_rows d))"
    and "distinct (map ro_open_id (db_rows d))"
  shows "upsert_rows rs n d = (Inr (n + length rs), d)"
  using assms by (induction rs arbitrary: n) (auto simp: upsert_same)

lemma foldr_max_ge: "x \<in> set xs \<Longrightarrow> x \<le> foldr max xs b" "b \<le> foldr max xs (b :: int)"
  by (induction xs) auto

lemma db_okD:
  assumes "db_ok d"
  shows "list_all row_ok (db_rows d)" and "distinct (map ro_account_id (db_rows d))"
    and "distinct (map ro_open_id (db_rows d))"
  using assms by (simp_all add: db_ok_def)

lemma copy_ok:
  assumes "db_ok s" and "db_rows d = db_rows s"
  shows "db_ok (advance_sequence d)" and "acct (advance_sequence d) = acct s"
proof -
  have "ro_account_id r \<le> foldr max (map ro_account_id (db_rows s)) 10000000" if "r \<in> set (db_rows s)" for r
    using that by (intro foldr_max_ge(1)) simp
  moreover have "10000000 \<le> foldr max (map ro_account_id (db_rows s)) 10000000"
    by (rule foldr_max_ge(2))
  ultimately show "db_ok (advance_sequence d)"
    using assms by (simp add: db_ok_def advance_sequence_def)
  show "acct (advance_sequence d) = acct s"
    using assms(2) by (simp add: advance_sequence_def acct_def row_of_def fun_eq_iff)
qed

section \<open>What the backfill does\<close>

text \<open>A step only adds to the two tables.\<close>

definition with_tables :: "(int \<times> int) list \<Rightarrow> (int \<times> int) list \<Rightarrow> db \<Rightarrow> db" where
  "with_tables fs rs d = d\<lparr>db_friends := fs, db_requests := rs\<rparr>"

lemma with_tables_simps [simp]:
  "db_rows (with_tables fs rs d) = db_rows d" "known (with_tables fs rs d) i = known d i"
  "db_friends (with_tables fs rs d) = fs" "db_requests (with_tables fs rs d) = rs"
  "with_tables fs rs (with_tables fs' rs' d) = with_tables fs rs d" "db_next (with_tables fs rs d) = db_next d"
  "with_tables (db_friends d) (db_requests d) d = d"
  by (simp_all add: with_tables_def known_def)

lemma set_add_pair [simp]: "set (add_pair p ps) = insert p (set ps)"
  by (auto simp: add_pair_def)

lemma insert_friendship_tables:
  "\<exists>k fs. insert_friendship uid f d = (k, with_tables fs (db_requests d) d) \<and>
     set fs = set (db_friends d) \<union> (if known d uid \<and> known d f then {(uid, f), (f, uid)} else {})"
proof (cases "known d uid \<and> known d f")
  case True
  then show ?thesis
    by (auto simp: insert_friendship_def Let_def with_tables_def)
next
  case False
  then show ?thesis
    by (intro exI [of _ 0] exI [of _ "db_friends d"]) (auto simp: insert_friendship_def)
qed

lemma insert_request_tables:
  "\<exists>k rs. insert_request uid f d = (k, with_tables (db_friends d) rs d) \<and>
     set rs = set (db_requests d) \<union> (if known d uid \<and> known d f then {(uid, f)} else {})"
proof (cases "known d uid \<and> known d f")
  case True
  then show ?thesis
    by (auto simp: insert_request_def Let_def with_tables_def)
next
  case False
  then show ?thesis
    by (intro exI [of _ 0] exI [of _ "db_requests d"]) (auto simp: insert_request_def)
qed

lemma insert_all_friendships:
  "\<exists>k fs. insert_all insert_friendship uid xs n d = (k, with_tables fs (db_requests d) d) \<and>
     set fs = set (db_friends d) \<union> {(a, b). known d a \<and> known d b \<and> a \<noteq> b \<and> (a = uid \<and> b \<in> set xs \<or> b = uid \<and> a \<in> set xs)}"
proof (induction xs arbitrary: n d)
  case (Cons f xs)
  show ?case
  proof (cases "f = uid")
    case True
    then show ?thesis
      using Cons.IH [of n d] by auto
  next
    case False
    obtain k fs where k: "insert_friendship uid f d = (k, with_tables fs (db_requests d) d)"
      "set fs = set (db_friends d) \<union> (if known d uid \<and> known d f then {(uid, f), (f, uid)} else {})"
      using insert_friendship_tables [of uid f d] by blast
    obtain k2 fs2 where k2: "insert_all insert_friendship uid xs (n + k) (with_tables fs (db_requests d) d) =
        (k2, with_tables fs2 (db_requests d) d)"
      "set fs2 = set fs \<union> {(a, b). known d a \<and> known d b \<and> a \<noteq> b \<and> (a = uid \<and> b \<in> set xs \<or> b = uid \<and> a \<in> set xs)}"
      using Cons.IH [of "n + k" "with_tables fs (db_requests d) d"] by auto
    show ?thesis
      using False k k2 by (intro exI [of _ k2] exI [of _ fs2]) auto
  qed
next
  case Nil
  show ?case
    by (intro exI [of _ n] exI [of _ "db_friends d"]) simp
qed

lemma insert_all_requests:
  "\<exists>k rs. insert_all insert_request uid xs n d = (k, with_tables (db_friends d) rs d) \<and>
     set rs = set (db_requests d) \<union> {(a, b). known d a \<and> known d b \<and> a \<noteq> b \<and> a = uid \<and> b \<in> set xs}"
proof (induction xs arbitrary: n d)
  case (Cons f xs)
  show ?case
  proof (cases "f = uid")
    case True
    then show ?thesis
      using Cons.IH [of n d] by auto
  next
    case False
    obtain k rs where k: "insert_request uid f d = (k, with_tables (db_friends d) rs d)"
      "set rs = set (db_requests d) \<union> (if known d uid \<and> known d f then {(uid, f)} else {})"
      using insert_request_tables [of uid f d] by blast
    obtain k2 rs2 where k2: "insert_all insert_request uid xs (n + k) (with_tables (db_friends d) rs d) =
        (k2, with_tables (db_friends d) rs2 d)"
      "set rs2 = set rs \<union> {(a, b). known d a \<and> known d b \<and> a \<noteq> b \<and> a = uid \<and> b \<in> set xs}"
      using Cons.IH [of "n + k" "with_tables (db_friends d) rs d"] by auto
    show ?thesis
      using False k k2 by (intro exI [of _ k2] exI [of _ rs2]) auto
  qed
next
  case Nil
  show ?case
    by (intro exI [of _ n] exI [of _ "db_requests d"]) simp
qed

text \<open>The ids a row lists under a key, and the pairs the backfill makes of the rows.\<close>

definition row_ids :: "row \<Rightarrow> string \<Rightarrow> int list" where
  "row_ids r k = ids_in (fld (case ro_state r of Doc a \<Rightarrow> a | _ \<Rightarrow> JObj []) k)"

definition listed :: "row list \<Rightarrow> string \<Rightarrow> int \<Rightarrow> int \<Rightarrow> bool" where
  "listed rows k a b \<longleftrightarrow> (\<exists>r \<in> set rows. ro_account_id r = a \<and> b \<in> set (row_ids r k))"

lemma listed_Cons: "listed (r # rows) k a b \<longleftrightarrow> ro_account_id r = a \<and> b \<in> set (row_ids r k) \<or> listed rows k a b"
  by (auto simp: listed_def)

lemma backfill_rows_tables:
  "\<exists>cs' fs rs. backfill_rows rows cs d = (cs', with_tables fs rs d) \<and>
     set fs = set (db_friends d) \<union> {(a, b). known d a \<and> known d b \<and> a \<noteq> b \<and> (listed rows ''friends'' a b \<or> listed rows ''friends'' b a)} \<and>
     set rs = set (db_requests d) \<union> {(a, b). known d a \<and> known d b \<and> a \<noteq> b \<and> listed rows ''requests'' a b}"
proof (induction rows arbitrary: cs d)
  case Nil
  then show ?case
    by (intro exI [of _ cs] exI [of _ "db_friends d"] exI [of _ "db_requests d"]) (simp add: listed_def)
next
  case (Cons r rows)
  let ?u = "ro_account_id r"
  obtain fn rn where cs: "cs = (fn, rn)"
    by (cases cs)
  obtain k fs where k: "insert_all insert_friendship ?u (row_ids r ''friends'') fn d = (k, with_tables fs (db_requests d) d)"
    "set fs = set (db_friends d) \<union> {(a, b). known d a \<and> known d b \<and> a \<noteq> b \<and>
       (a = ?u \<and> b \<in> set (row_ids r ''friends'') \<or> b = ?u \<and> a \<in> set (row_ids r ''friends''))}"
    using insert_all_friendships [of ?u "row_ids r ''friends''" fn d] by blast
  obtain l rs where l: "insert_all insert_request ?u (row_ids r ''requests'') rn (with_tables fs (db_requests d) d) =
      (l, with_tables fs rs d)"
    "set rs = set (db_requests d) \<union> {(a, b). known d a \<and> known d b \<and> a \<noteq> b \<and> a = ?u \<and> b \<in> set (row_ids r ''requests'')}"
    using insert_all_requests [of ?u "row_ids r ''requests''" rn "with_tables fs (db_requests d) d"] by auto
  have step: "backfill_rows (r # rows) cs d = backfill_rows rows (k, l) (with_tables fs rs d)"
    using k(1) l(1) by (simp add: cs row_ids_def)
  obtain cs' fs' rs' where IH: "backfill_rows rows (k, l) (with_tables fs rs d) = (cs', with_tables fs' rs' d)"
    "set fs' = set fs \<union> {(a, b). known d a \<and> known d b \<and> a \<noteq> b \<and> (listed rows ''friends'' a b \<or> listed rows ''friends'' b a)}"
    "set rs' = set rs \<union> {(a, b). known d a \<and> known d b \<and> a \<noteq> b \<and> listed rows ''requests'' a b}"
    using Cons.IH [of "(k, l)" "with_tables fs rs d"] by auto
  have "(a, b) \<in> set fs' \<longleftrightarrow> (a, b) \<in> set (db_friends d) \<or> known d a \<and> known d b \<and> a \<noteq> b \<and>
      (listed (r # rows) ''friends'' a b \<or> listed (r # rows) ''friends'' b a)" for a b
    by (simp add: IH(2) k(2) listed_Cons) blast
  moreover have "(a, b) \<in> set rs' \<longleftrightarrow> (a, b) \<in> set (db_requests d) \<or> known d a \<and> known d b \<and> a \<noteq> b \<and>
      listed (r # rows) ''requests'' a b" for a b
    by (simp add: IH(3) l(2) listed_Cons) blast
  ultimately show ?case
    by (intro exI [of _ cs'] exI [of _ fs'] exI [of _ rs']) (simp add: step IH(1) set_eq_iff)
qed

text \<open>A second backfill inserts nothing.\<close>

lemma add_pair_present [simp]: "p \<in> set ps \<Longrightarrow> add_pair p ps = ps"
  by (simp add: add_pair_def)

lemma insert_all_friendships_again:
  assumes "\<forall>b \<in> set xs. known d uid \<and> known d b \<and> uid \<noteq> b \<longrightarrow> {(uid, b), (b, uid)} \<subseteq> set (db_friends d)"
  shows "insert_all insert_friendship uid xs n d = (n, d)"
  using assms by (induction xs arbitrary: n) (auto simp: insert_friendship_def)

lemma insert_all_requests_again:
  assumes "\<forall>b \<in> set xs. known d uid \<and> known d b \<and> uid \<noteq> b \<longrightarrow> (uid, b) \<in> set (db_requests d)"
  shows "insert_all insert_request uid xs n d = (n, d)"
  using assms by (induction xs arbitrary: n) (auto simp: insert_request_def)

lemma backfill_rows_again:
  assumes "\<And>a b. known d a \<Longrightarrow> known d b \<Longrightarrow> a \<noteq> b \<Longrightarrow> listed rows ''friends'' a b \<Longrightarrow> {(a, b), (b, a)} \<subseteq> set (db_friends d)"
    and "\<And>a b. known d a \<Longrightarrow> known d b \<Longrightarrow> a \<noteq> b \<Longrightarrow> listed rows ''requests'' a b \<Longrightarrow> (a, b) \<in> set (db_requests d)"
  shows "backfill_rows rows cs d = (cs, d)"
  using assms
proof (induction rows arbitrary: cs)
  case (Cons r rows)
  let ?u = "ro_account_id r"
  obtain fn rn where cs: "cs = (fn, rn)"
    by (cases cs)
  have "insert_all insert_friendship ?u (row_ids r ''friends'') fn d = (fn, d)"
    by (rule insert_all_friendships_again) (use Cons.prems(1) in \<open>simp add: listed_Cons\<close>)
  moreover have "insert_all insert_request ?u (row_ids r ''requests'') rn d = (rn, d)"
    by (rule insert_all_requests_again) (use Cons.prems(2) in \<open>simp add: listed_Cons\<close>)
  moreover have "backfill_rows rows (fn, rn) d = ((fn, rn), d)"
    by (rule Cons.IH) (use Cons.prems in \<open>simp_all add: listed_Cons\<close>)
  ultimately show ?case
    by (simp add: cs row_ids_def)
qed simp

section \<open>Both together\<close>

lemma set_map_filter: "y \<in> set (List.map_filter f xs) \<longleftrightarrow> (\<exists>x \<in> set xs. f x = Some y)"
  by (induction xs) (auto simp: map_filter_simps split: option.splits)

lemma ids_in_iff: "j \<in> set (ids_in x) \<longleftrightarrow> j \<noteq> 0 \<and> JNum j \<in> jnum ` set (elems x)"
proof -
  have "jnum v = JNum j \<longleftrightarrow> num v = Some j" for v
    by (simp add: jnum_def split: option.split)
  then have "JNum j \<in> jnum ` set (elems x) \<longleftrightarrow> (\<exists>v \<in> set (elems x). num v = Some j)"
    by (metis imageE image_eqI)
  moreover have "(case num v of Some n \<Rightarrow> if n = 0 then None else Some n | None \<Rightarrow> None) = Some j \<longleftrightarrow> num v = Some j \<and> j \<noteq> 0" for v
    by (auto split: option.split)
  ultimately show ?thesis
    by (auto simp: ids_in_def set_map_filter)
qed

text \<open>What a document lists, for an account that exists.\<close>

lemma listed_sqlite:
  assumes "db_ok s" and "known s i" and "j \<noteq> 0"
  shows "listed (db_rows s) ''friends'' i j \<longleftrightarrow> JNum j \<in> set (sqlite_getFriendIds (JNum i) s)"
    and "listed (db_rows s) ''requests'' i j \<longleftrightarrow> JNum j \<in> set (sqlite_getRequestIds (JNum i) s)"
proof -
  obtain r where r: "r \<in> set (db_rows s)" "ro_account_id r = i"
    using assms(2) by (auto simp: known_def)
  note ok = db_ok_row [OF assms(1) r(1)]
  have i: "0 < i"
    using assms(1) r by (auto simp: db_ok_def)
  have one: "q = r" if "q \<in> set (db_rows s)" "ro_account_id q = i" for q
    using that r db_okD(2) [OF assms(1)] by (auto simp: distinct_map dest: inj_onD)
  have l: "listed (db_rows s) k i j \<longleftrightarrow> JNum j \<in> jnum ` set (elems (fld (row_doc r) k))" for k
  proof -
    have "listed (db_rows s) k i j \<longleftrightarrow> j \<in> set (row_ids r k)"
      using one r by (metis listed_def)
    then show ?thesis
      using assms(3) by (simp add: row_ids_def ids_in_iff row_ok_doc(1) [OF ok])
  qed
  have "getById (JNum i) s = row_doc r"
    using row_of_mem [OF assms(1) r(1)] i by (simp add: lookups(1) [OF assms(1)] select_id_num AccountStore.doc_of_def r(2))
  then show "listed (db_rows s) ''friends'' i j \<longleftrightarrow> JNum j \<in> set (sqlite_getFriendIds (JNum i) s)"
    "listed (db_rows s) ''requests'' i j \<longleftrightarrow> JNum j \<in> set (sqlite_getRequestIds (JNum i) s)"
    by (simp_all add: sqlite_getFriendIds_def sqlite_getRequestIds_def l)
qed

text \<open>A table that holds the copied rows and the backfilled pairs.\<close>

definition cut_over :: "db \<Rightarrow> db \<Rightarrow> bool" where
  "cut_over s p \<longleftrightarrow> db_rows p = db_rows s \<and> db_ok p \<and> advance_sequence p = p \<and>
     set (db_friends p) = {(a, b). known s a \<and> known s b \<and> a \<noteq> b \<and>
       (listed (db_rows s) ''friends'' a b \<or> listed (db_rows s) ''friends'' b a)} \<and>
     set (db_requests p) = {(a, b). known s a \<and> known s b \<and> a \<noteq> b \<and> listed (db_rows s) ''requests'' a b}"

lemma known_rows: "db_rows p = db_rows s \<Longrightarrow> known p = known s"
  by (simp add: known_def fun_eq_iff)

lemma advance_tables:
  "advance_sequence (with_tables fs rs d) = with_tables fs rs (advance_sequence d)"
  "advance_sequence (advance_sequence d) = advance_sequence d"
  by (simp_all add: advance_sequence_def with_tables_def)

lemma cut_over_run:
  assumes "db_ok s" and "db_rows p = []" and "db_friends p = []" and "db_requests p = []"
    and "migrate_data_main s p = (r, p1)" and "backfill p1 = (counts, p2)"
  shows "r = Inr (length (db_rows s)) \<and> cut_over s p2"
proof -
  have m: "r = Inr (length (db_rows s))" "p1 = advance_sequence (p\<lparr>db_rows := db_rows s\<rparr>)"
    using upsert_rows_append [of "db_rows s" p 0] db_okD [OF assms(1)] assms(2,5)
    by (simp_all add: migrate_data_main_def migrateData_def)
  have p1: "db_rows p1 = db_rows s" "db_friends p1 = []" "db_requests p1 = []" "advance_sequence p1 = p1"
    using assms(3,4) by (simp_all add: m(2) advance_tables) (simp_all add: advance_sequence_def)
  have ok: "db_ok p1"
    using copy_ok(1) [OF assms(1), of "p\<lparr>db_rows := db_rows s\<rparr>"] by (simp add: m(2))
  obtain fs rs where b: "p2 = with_tables fs rs p1"
    "set fs = {(a, b). known s a \<and> known s b \<and> a \<noteq> b \<and> (listed (db_rows s) ''friends'' a b \<or> listed (db_rows s) ''friends'' b a)}"
    "set rs = {(a, b). known s a \<and> known s b \<and> a \<noteq> b \<and> listed (db_rows s) ''requests'' a b}"
    using backfill_rows_tables [of "db_rows s" "(0, 0)" p1] assms(6) p1 known_rows [OF p1(1)]
    by (auto simp: backfill_def)
  have "db_ok p2"
    using ok by (simp add: b(1) with_tables_def db_ok_def)
  then show ?thesis
    using b p1 m(1) by (simp add: cut_over_def advance_tables)
qed

lemma cut_over_again:
  assumes "db_ok s" and "cut_over s p"
  shows "migrate_data_main s p = (Inr (length (db_rows s)), p)" and "backfill p = ((0, 0), p)"
proof -
  have p: "db_rows p = db_rows s" "advance_sequence p = p"
    using assms(2) by (simp_all add: cut_over_def)
  show "migrate_data_main s p = (Inr (length (db_rows s)), p)"
    using upsert_rows_again [of "db_rows s" p 0] db_okD [OF assms(1)] p
    by (simp add: migrate_data_main_def migrateData_def)
  show "backfill p = ((0, 0), p)"
    unfolding backfill_def
    by (rule backfill_rows_again) (use assms(2) known_rows [OF p(1)] p(1) in \<open>auto simp: cut_over_def\<close>)
qed

lemma cut_over_friends:
  assumes "db_ok s" and "cut_over s p"
  shows "JNum j \<in> set (pg_getFriendIds (JNum i) p) \<longleftrightarrow> known s i \<and> known s j \<and> i \<noteq> j \<and>
      (JNum j \<in> set (sqlite_getFriendIds (JNum i) s) \<or> JNum i \<in> set (sqlite_getFriendIds (JNum j) s))"
    and "JNum j \<in> set (pg_getRequestIds (JNum i) p) \<longleftrightarrow> known s i \<and> known s j \<and> i \<noteq> j \<and>
      JNum j \<in> set (sqlite_getRequestIds (JNum i) s)"
proof -
  have pos: "i \<noteq> 0" if "known s i" for i
    using that assms(1) by (auto simp: known_def db_ok_def)
  have img: "JNum j \<in> (\<lambda>q. JNum (snd q)) ` {q \<in> S. i = fst q} \<longleftrightarrow> (i, j) \<in> S" for S :: "(int \<times> int) set" and i j
    by force
  have f: "JNum j \<in> set (pg_getFriendIds (JNum i) p) \<longleftrightarrow> i \<noteq> 0 \<and> (i, j) \<in> set (db_friends p)"
    "JNum j \<in> set (pg_getRequestIds (JNum i) p) \<longleftrightarrow> i \<noteq> 0 \<and> (i, j) \<in> set (db_requests p)" for i j
    by (simp_all add: pg_getFriendIds_def pg_getRequestIds_def img)
  show "JNum j \<in> set (pg_getFriendIds (JNum i) p) \<longleftrightarrow> known s i \<and> known s j \<and> i \<noteq> j \<and>
      (JNum j \<in> set (sqlite_getFriendIds (JNum i) s) \<or> JNum i \<in> set (sqlite_getFriendIds (JNum j) s))"
    using assms(2) listed_sqlite(1) [OF assms(1)] pos by (auto simp: f cut_over_def)
  show "JNum j \<in> set (pg_getRequestIds (JNum i) p) \<longleftrightarrow> known s i \<and> known s j \<and> i \<noteq> j \<and>
      JNum j \<in> set (sqlite_getRequestIds (JNum i) s)"
    using assms(2) listed_sqlite(2) [OF assms(1)] pos by (auto simp: f cut_over_def)
qed

end
