(* ===== verification/AuthMigration.thy ===== *)
theory AuthMigration
  imports GuestStore
begin

text \<open>
  The one-shot migration of the authentication store from MongoDB to PostgreSQL
  (\<open>auth/scripts/migrate-mongo-to-pg.js\<close>). The source documents are JavaScript objects, whose fields may
  be missing and whose uid may be a text or a number. A table is the list of its rows, a row the list
  of its cells in the order of the columns; the first column is \<open>open_id\<close>, the primary key.
\<close>

section \<open>Values\<close>

definition bool_or :: "bool \<Rightarrow> js \<Rightarrow> js" where
  "bool_or d v = (case v of JBool b \<Rightarrow> JBool b | _ \<Rightarrow> JBool d)"

definition orNull :: "js \<Rightarrow> js" where
  "orNull v = (if v = JUndef then JNull else v)"

definition uidOf :: "js \<Rightarrow> js" where
  "uidOf doc = (if is_nil (fld doc ''uid'') then JNull else JStr (str (fld doc ''uid'')))"

definition guestValues :: "js \<Rightarrow> js list" where
  "guestValues d =
     [fld d ''open_id'', uidOf d, orNull (fld d ''dc_id''), orNull (fld d ''dc_handle''), orNull (fld d ''dc_email''),
      bool_or False (fld d ''renovation''),
      orNull (fld d ''access_token''), orNull (fld d ''refresh_token''), orNull (fld d ''access_expiry''),
      orNull (fld d ''refresh_expiry''), orNull (fld d ''create_time''), orNull (fld d ''last_login''),
      orNull (fld d ''last_ip''), orNull (fld d ''registered_at''), orNull (fld d ''registered_ip''),
      orNull (fld d ''renovated_at''), orNull (fld d ''renovated_ip'')]"

definition accountValues :: "js \<Rightarrow> js list" where
  "accountValues d =
     [fld d ''open_id'', uidOf d, orNull (fld d ''nickname''), bool_or False (fld d ''banned''),
      orNull (fld d ''ban_reason''), bool_or True (fld d ''authorized''), bool_or False (fld d ''under_analysis''),
      orNull (fld d ''created_at'')]"

section \<open>Tables\<close>

datatype col = TextCol | BigintCol | BoolCol

text \<open>What a column makes of a parameter; \<open>drv\<close> is the text the driver sends for a value that is neither
  a string nor a number, \<open>None\<close> a conversion error.\<close>

definition param_text :: "(js \<Rightarrow> string) \<Rightarrow> js \<Rightarrow> string" where
  "param_text drv v = (case v of JStr s \<Rightarrow> s | JNum n \<Rightarrow> int_str n | _ \<Rightarrow> drv v)"

fun pg_cell :: "(js \<Rightarrow> string) \<Rightarrow> col \<Rightarrow> js \<Rightarrow> js option" where
  "pg_cell drv c JNull = Some JNull"
| "pg_cell drv c JUndef = Some JNull"
| "pg_cell drv TextCol v = Some (JStr (param_text drv v))"
| "pg_cell drv BigintCol v = map_option JNum (to_long (param_text drv v))"
| "pg_cell drv BoolCol v = (case v of JBool b \<Rightarrow> Some (JBool b) | _ \<Rightarrow> None)"

fun pg_row :: "(js \<Rightarrow> string) \<Rightarrow> col list \<Rightarrow> js list \<Rightarrow> js list option" where
  "pg_row drv (c # cs) (v # vs) =
     (case pg_cell drv c v of None \<Rightarrow> None | Some x \<Rightarrow> map_option (Cons x) (pg_row drv cs vs))"
| "pg_row drv _ _ = Some []"

text \<open>The columns of a table, the positions of the unique ones beside the key, and of those that are
  not null.\<close>

record table_def =
  td_cols :: "col list"
  td_unique :: "nat list"
  td_notnull :: "nat list"

definition GUESTS :: table_def where
  "GUESTS = \<lparr>td_cols = [TextCol, BigintCol, TextCol, TextCol, TextCol, BoolCol, TextCol, TextCol, BigintCol, BigintCol,
     BigintCol, TextCol, TextCol, TextCol, TextCol, TextCol, TextCol], td_unique = [1, 2], td_notnull = [0, 1, 5]\<rparr>"

definition ACCOUNTS :: table_def where
  "ACCOUNTS = \<lparr>td_cols = [TextCol, BigintCol, TextCol, BoolCol, TextCol, BoolCol, BoolCol, TextCol], td_unique = [],
     td_notnull = [0, 3, 5, 6]\<rparr>"

type_synonym pg_table = "js list list"

text \<open>Two rows with different keys clash when they agree in a unique column; \<open>null\<close> equals nothing.\<close>

definition clash :: "table_def \<Rightarrow> js list \<Rightarrow> js list \<Rightarrow> bool" where
  "clash T r x \<longleftrightarrow> x ! 0 \<noteq> r ! 0 \<and> list_ex (\<lambda>k. r ! k \<noteq> JNull \<and> x ! k = r ! k) (td_unique T)"

text \<open>\<open>INSERT ... ON CONFLICT (open_id) DO UPDATE\<close> of all other columns.\<close>

definition put_row :: "table_def \<Rightarrow> js list \<Rightarrow> pg_table \<Rightarrow> (auth_error + unit) \<times> pg_table" where
  "put_row T r tab =
     (if list_ex (\<lambda>k. r ! k = JNull) (td_notnull T) then (Inl (AuthError ''23502''), tab)
      else if list_ex (clash T r) tab then (Inl Code23505, tab)
      else (Inr (), if list_ex (\<lambda>x. x ! 0 = r ! 0) tab then map (\<lambda>x. if x ! 0 = r ! 0 then r else x) tab
                    else tab @ [r]))"

definition upsert :: "table_def \<Rightarrow> (js \<Rightarrow> string) \<Rightarrow> js list \<Rightarrow> pg_table \<Rightarrow> (auth_error + unit) \<times> pg_table" where
  "upsert T drv vs tab =
     (case pg_row drv (td_cols T) vs of
        None \<Rightarrow> (Inl (AuthError ''22P02''), tab)
      | Some r \<Rightarrow> put_row T r tab)"

section \<open>Collections\<close>

record counts =
  ct_ok :: nat
  ct_skipped :: nat
  ct_failed :: nat

definition no_counts :: counts where
  "no_counts = \<lparr>ct_ok = 0, ct_skipped = 0, ct_failed = 0\<rparr>"

fun migrateCollection ::
  "table_def \<Rightarrow> (js \<Rightarrow> string) \<Rightarrow> (js \<Rightarrow> js list) \<Rightarrow> (js \<Rightarrow> bool) \<Rightarrow> bool \<Rightarrow> js list \<Rightarrow> counts \<Rightarrow> pg_table \<Rightarrow> counts \<times> pg_table" where
  "migrateCollection T drv toValues valid dryRun [] c tab = (c, tab)"
| "migrateCollection T drv toValues valid dryRun (d # ds) c tab =
     (if \<not> valid d then migrateCollection T drv toValues valid dryRun ds (c\<lparr>ct_skipped := ct_skipped c + 1\<rparr>) tab
      else if dryRun then migrateCollection T drv toValues valid dryRun ds (c\<lparr>ct_ok := ct_ok c + 1\<rparr>) tab
      else (case upsert T drv (toValues d) tab of
              (Inr _, tab1) \<Rightarrow> migrateCollection T drv toValues valid dryRun ds (c\<lparr>ct_ok := ct_ok c + 1\<rparr>) tab1
            | (Inl _, tab1) \<Rightarrow> migrateCollection T drv toValues valid dryRun ds (c\<lparr>ct_failed := ct_failed c + 1\<rparr>) tab1))"

text \<open>The preflight: uids, as 64-bit integers, that more than one document has, with their open ids.\<close>

definition uid_long :: "js \<Rightarrow> int option" where
  "uid_long d = (case fld d ''uid'' of JStr s \<Rightarrow> to_long s | JNum n \<Rightarrow> Some n | JBool b \<Rightarrow> Some (if b then 1 else 0) | _ \<Rightarrow> None)"

definition reportDupUids :: "js list \<Rightarrow> (int \<times> js list) list" where
  "reportDupUids docs =
     (let having = (\<lambda>u. filter (\<lambda>d. uid_long d = Some u) docs);
          dups = filter (\<lambda>u. 1 < length (having u)) (remdups (List.map_filter uid_long docs))
      in map (\<lambda>u. (u, remdups (map (\<lambda>d. fld d ''open_id'') (having u)))) (sort_key (\<lambda>u. - int (length (having u))) dups))"

definition valid_guest :: "js \<Rightarrow> bool" where
  "valid_guest d \<longleftrightarrow> tru (fld d ''open_id'') \<and> uidOf d \<noteq> JNull"

definition valid_account :: "js \<Rightarrow> bool" where
  "valid_account d \<longleftrightarrow> tru (fld d ''open_id'')"

definition migrateAll ::
  "(js \<Rightarrow> string) \<Rightarrow> bool \<Rightarrow> js list \<Rightarrow> js list \<Rightarrow> pg_table \<times> pg_table \<Rightarrow> (counts \<times> counts) \<times> pg_table \<times> pg_table" where
  "migrateAll drv dryRun guests accounts tabs =
     (let (cg, gt) = migrateCollection GUESTS drv guestValues valid_guest dryRun guests no_counts (fst tabs);
          (ca, acs) = migrateCollection ACCOUNTS drv accountValues valid_account dryRun accounts no_counts (snd tabs)
      in ((cg, ca), gt, acs))"

text \<open>The exit code of the script.\<close>

definition exit_code :: "counts \<times> counts \<Rightarrow> int" where
  "exit_code cs = (if 0 < ct_failed (fst cs) + ct_failed (snd cs) then 2 else 0)"


section \<open>Running it again\<close>

text \<open>Rows with different keys that do not clash.\<close>

definition table_ok :: "table_def \<Rightarrow> pg_table \<Rightarrow> bool" where
  "table_ok T tab \<longleftrightarrow> distinct (map (\<lambda>r. r ! 0) tab) \<and> (\<forall>r \<in> set tab. \<forall>x \<in> set tab. \<not> clash T r x) \<and>
     (\<forall>r \<in> set tab. \<not> list_ex (\<lambda>k. r ! k = JNull) (td_notnull T))"

lemma clash_sym: "clash T r x \<longleftrightarrow> clash T x r"
  unfolding clash_def list_ex_iff by metis

lemma put_row_new:
  assumes "table_ok T tab" and "r ! 0 \<notin> (\<lambda>x. x ! 0) ` set tab" and "put_row T r tab = (Inr (), tab')"
  shows "tab' = tab @ [r]" and "table_ok T tab'"
proof -
  have n: "\<not> list_ex (\<lambda>x. x ! 0 = r ! 0) tab"
    using assms(2) by (auto simp: list_ex_iff image_iff)
  have ok: "\<not> list_ex (\<lambda>k. r ! k = JNull) (td_notnull T)" "\<not> list_ex (clash T r) tab"
    using assms(3) by (simp_all add: put_row_def split: if_splits)
  then show t: "tab' = tab @ [r]"
    using assms(3) n by (simp add: put_row_def)
  have "\<not> clash T r r"
    by (simp add: clash_def)
  then show "table_ok T tab'"
    using assms(1,2) ok clash_sym [of T] by (auto simp: t table_ok_def list_ex_iff)
qed

lemma put_row_present:
  assumes "table_ok T tab" and "r \<in> set tab"
  shows "put_row T r tab = (Inr (), tab)"
proof -
  have "x = r" if "x \<in> set tab" "x ! 0 = r ! 0" for x
    using that assms by (auto simp: table_ok_def distinct_map dest: inj_onD)
  then have "map (\<lambda>x. if x ! 0 = r ! 0 then r else x) tab = tab"
    by (intro map_idI) auto
  moreover have "\<not> list_ex (clash T r) tab" "\<not> list_ex (\<lambda>k. r ! k = JNull) (td_notnull T)"
    using assms by (auto simp: table_ok_def list_ex_iff)
  moreover have "list_ex (\<lambda>x. x ! 0 = r ! 0) tab"
    using assms(2) by (auto simp: list_ex_iff)
  ultimately show ?thesis
    by (simp add: put_row_def)
qed

text \<open>A row that was refused is refused by every larger table.\<close>

lemma put_row_refused:
  assumes "put_row T r tab = (Inl e, tab')"
  shows "tab' = tab" and "\<exists>e'. put_row T r (tab @ new) = (Inl e', tab @ new)"
  using assms by (auto simp: put_row_def split: if_splits)

text \<open>The key the row of a document gets.\<close>

definition key_of :: "table_def \<Rightarrow> (js \<Rightarrow> string) \<Rightarrow> (js \<Rightarrow> js list) \<Rightarrow> js \<Rightarrow> js option" where
  "key_of T drv toValues d = map_option (\<lambda>r. r ! 0) (pg_row drv (td_cols T) (toValues d))"

text \<open>What becomes of one document whose key the table does not have, now and in a larger table.\<close>

lemma upsert_cases:
  assumes "table_ok T tab" and "\<And>k. key_of T drv f d = Some k \<Longrightarrow> k \<notin> (\<lambda>x. x ! 0) ` set tab"
  obtains (refused) e where "upsert T drv (f d) tab = (Inl e, tab)"
      "\<And>more. \<exists>e'. upsert T drv (f d) (tab @ more) = (Inl e', tab @ more)"
    | (stored) r where "upsert T drv (f d) tab = (Inr (), tab @ [r])" "table_ok T (tab @ [r])"
      "key_of T drv f d = Some (r ! 0)"
      "\<And>more. table_ok T (tab @ [r] @ more) \<Longrightarrow> upsert T drv (f d) (tab @ [r] @ more) = (Inr (), tab @ [r] @ more)"
proof (cases "pg_row drv (td_cols T) (f d)")
  case None
  then show ?thesis
    by (intro refused) (simp_all add: upsert_def)
next
  case (Some r)
  then have up: "upsert T drv (f d) t = put_row T r t" for t
    by (simp add: upsert_def)
  have key: "key_of T drv f d = Some (r ! 0)"
    using Some by (simp add: key_of_def)
  obtain res tab1 where p: "put_row T r tab = (res, tab1)"
    by fastforce
  show ?thesis
  proof (cases res)
    case (Inl e)
    then show ?thesis
      using put_row_refused [of T r tab e tab1] p by (intro refused) (auto simp: up)
  next
    case (Inr u)
    note new = put_row_new [OF assms(1) assms(2) [OF key] p [unfolded Inr unit_eq [of u]]]
    show ?thesis
      using p Inr new key by (intro stored [of r]) (auto simp: up intro!: put_row_present)
  qed
qed

definition add_counts :: "counts \<Rightarrow> nat \<Rightarrow> nat \<Rightarrow> nat \<Rightarrow> counts" where
  "add_counts c k s l = \<lparr>ct_ok = ct_ok c + k, ct_skipped = ct_skipped c + s, ct_failed = ct_failed c + l\<rparr>"

lemma add_counts_simps [simp]:
  "add_counts (c\<lparr>ct_ok := Suc (ct_ok c)\<rparr>) k s l = add_counts c (Suc k) s l"
  "add_counts (c\<lparr>ct_skipped := Suc (ct_skipped c)\<rparr>) k s l = add_counts c k (Suc s) l"
  "add_counts (c\<lparr>ct_failed := Suc (ct_failed c)\<rparr>) k s l = add_counts c k s (Suc l)"
  "add_counts c 0 0 0 = c"
  by (simp_all add: add_counts_def)

text \<open>A run into a table without keys of the documents, then a run into the resulting table or a larger
  one: the second one changes nothing and counts the same.\<close>

lemma migrate_twice:
  assumes "table_ok T tab" and "distinct (List.map_filter (key_of T drv f) ds)"
    and "set (List.map_filter (key_of T drv f) ds) \<inter> (\<lambda>x. x ! 0) ` set tab = {}"
  shows "\<exists>new k s l. table_ok T (tab @ new) \<and> (\<forall>c. migrateCollection T drv f valid False ds c tab = (add_counts c k s l, tab @ new)) \<and>
    (\<forall>c more. table_ok T (tab @ new @ more) \<longrightarrow>
      migrateCollection T drv f valid False ds c (tab @ new @ more) = (add_counts c k s l, tab @ new @ more))"
  using assms
proof (induction ds arbitrary: tab)
  case Nil
  then show ?case
    by (intro exI [of _ "[]"] exI [of _ 0]) simp
next
  case (Cons d ds)
  have tl: "distinct (List.map_filter (key_of T drv f) ds)"
    "set (List.map_filter (key_of T drv f) ds) \<inter> (\<lambda>x. x ! 0) ` set tab = {}"
    "\<And>k. key_of T drv f d = Some k \<Longrightarrow> k \<notin> (\<lambda>x. x ! 0) ` set tab \<and> k \<notin> set (List.map_filter (key_of T drv f) ds)"
    using Cons.prems(2,3) by (auto simp: map_filter_simps split: option.splits)
  obtain new k s l where IH: "table_ok T (tab @ new)"
    "\<And>c. migrateCollection T drv f valid False ds c tab = (add_counts c k s l, tab @ new)"
    "\<And>c more. table_ok T (tab @ new @ more) \<Longrightarrow>
      migrateCollection T drv f valid False ds c (tab @ new @ more) = (add_counts c k s l, tab @ new @ more)"
    using Cons.IH [OF Cons.prems(1) tl(1,2)] by blast
  have fresh: "\<And>k. key_of T drv f d = Some k \<Longrightarrow> k \<notin> (\<lambda>x. x ! 0) ` set tab"
    using tl(3) by blast
  show ?case
  proof (cases "valid d")
    case False
    then show ?thesis
      using IH by (intro exI [of _ new] exI [of _ k] exI [of _ "Suc s"] exI [of _ l]) simp
  next
    case v: True
    show ?thesis
    proof (rule upsert_cases [OF Cons.prems(1) fresh])
      fix e
      assume refused: "upsert T drv (f d) tab = (Inl e, tab)"
        "\<And>more. \<exists>e'. upsert T drv (f d) (tab @ more) = (Inl e', tab @ more)"
      have "migrateCollection T drv f valid False (d # ds) c (tab @ new @ more) = (add_counts c k s (Suc l), tab @ new @ more)"
        if "table_ok T (tab @ new @ more)" for c more
        using refused(2) [of "new @ more"] IH(3) [OF that] v by auto
      then show ?thesis
        using IH(1,2) refused(1) v by (intro exI [of _ new] exI [of _ k] exI [of _ s] exI [of _ "Suc l"]) simp
    next
      fix r
      assume stored: "upsert T drv (f d) tab = (Inr (), tab @ [r])" "table_ok T (tab @ [r])"
        "key_of T drv f d = Some (r ! 0)"
        "\<And>more. table_ok T (tab @ [r] @ more) \<Longrightarrow> upsert T drv (f d) (tab @ [r] @ more) = (Inr (), tab @ [r] @ more)"
      obtain new' k s l where "table_ok T (tab @ [r] @ new')"
        "\<And>c. migrateCollection T drv f valid False ds c (tab @ [r]) = (add_counts c k s l, tab @ [r] @ new')"
        "\<And>c more. table_ok T (tab @ [r] @ new' @ more) \<Longrightarrow>
          migrateCollection T drv f valid False ds c (tab @ [r] @ new' @ more) = (add_counts c k s l, tab @ [r] @ new' @ more)"
        using Cons.IH [OF stored(2) tl(1)] tl(2,3) stored(3) by auto
      then show ?thesis
        using stored(1,4) v by (intro exI [of _ "[r] @ new'"] exI [of _ "Suc k"] exI [of _ s] exI [of _ l]) simp
    qed
  qed
qed

section \<open>The documents of the auth server\<close>

text \<open>What \<open>insertUser\<close> and \<open>setTokens\<close> leave in the collection, and a row of the table.\<close>

definition guest_js :: "string guest \<Rightarrow> js" where
  "guest_js g = JObj
     [(''renovation'', JBool (g_renovation g)), (''open_id'', JStr (g_open_id g)), (''uid'', JStr (g_uid g)),
      (''dc_id'', JStr (g_dc_id g)), (''dc_handle'', case_option JNull JStr (g_dc_handle g)),
      (''dc_email'', case_option JNull JStr (g_dc_email g)), (''access_token'', case_option JNull JStr (g_access_token g)),
      (''refresh_token'', case_option JNull JStr (g_refresh_token g)),
      (''access_expiry'', case_option JNull JNum (g_access_expiry g)),
      (''refresh_expiry'', case_option JNull JNum (g_refresh_expiry g)),
      (''create_time'', case_option JNull JNum (g_create_time g)),
      (''last_login'', case_option JNull JStr (g_last_login g)), (''last_ip'', case_option JNull JStr (g_last_ip g)),
      (''registered_at'', case_option JNull JStr (g_registered_at g)),
      (''registered_ip'', case_option JNull JStr (g_registered_ip g)),
      (''renovated_at'', case_option JNull JStr (g_renovated_at g)),
      (''renovated_ip'', case_option JNull JStr (g_renovated_ip g))]"

definition row_js :: "int guest \<Rightarrow> js list" where
  "row_js g =
     [JStr (g_open_id g), JNum (g_uid g), JStr (g_dc_id g), case_option JNull JStr (g_dc_handle g),
      case_option JNull JStr (g_dc_email g), JBool (g_renovation g), case_option JNull JStr (g_access_token g),
      case_option JNull JStr (g_refresh_token g), case_option JNull JNum (g_access_expiry g),
      case_option JNull JNum (g_refresh_expiry g), case_option JNull JNum (g_create_time g),
      case_option JNull JStr (g_last_login g), case_option JNull JStr (g_last_ip g),
      case_option JNull JStr (g_registered_at g), case_option JNull JStr (g_registered_ip g),
      case_option JNull JStr (g_renovated_at g), case_option JNull JStr (g_renovated_ip g)]"

definition times_ok :: "'u guest \<Rightarrow> bool" where
  "times_ok g \<longleftrightarrow> (\<forall>x \<in> {g_access_expiry g, g_refresh_expiry g, g_create_time g}. pred_option long_range x)"

lemma text_cell: "pg_cell drv TextCol (orNull (case_option JNull JStr x)) = Some (case_option JNull JStr x)"
  by (cases x) (simp_all add: orNull_def param_text_def)

lemma number_cell:
  "pred_option long_range x \<Longrightarrow> pg_cell drv BigintCol (orNull (case_option JNull JNum x)) = Some (case_option JNull JNum x)"
  by (cases x) (simp_all add: orNull_def param_text_def to_long_int_str)

lemma guest_js_values:
  assumes "to_long (g_uid g) = Some n" and "times_ok g"
  shows "pg_row drv (td_cols GUESTS) (guestValues (guest_js g)) = Some (row_js (with_uid n g))"
proof -
  have "guestValues (guest_js g) =
     [JStr (g_open_id g), JStr (g_uid g), JStr (g_dc_id g), orNull (case_option JNull JStr (g_dc_handle g)),
      orNull (case_option JNull JStr (g_dc_email g)), JBool (g_renovation g),
      orNull (case_option JNull JStr (g_access_token g)), orNull (case_option JNull JStr (g_refresh_token g)),
      orNull (case_option JNull JNum (g_access_expiry g)), orNull (case_option JNull JNum (g_refresh_expiry g)),
      orNull (case_option JNull JNum (g_create_time g)), orNull (case_option JNull JStr (g_last_login g)),
      orNull (case_option JNull JStr (g_last_ip g)), orNull (case_option JNull JStr (g_registered_at g)),
      orNull (case_option JNull JStr (g_registered_ip g)), orNull (case_option JNull JStr (g_renovated_at g)),
      orNull (case_option JNull JStr (g_renovated_ip g))]"
    by (simp add: guestValues_def guest_js_def uidOf_def is_nil_def bool_or_def) (simp add: orNull_def)
  then show ?thesis
    using assms by (simp add: GUESTS_def text_cell number_cell times_ok_def row_js_def with_uid_def param_text_def)
qed

lemma row_js_keys:
  "row_js g ! 0 = JStr (g_open_id g)" "row_js g ! Suc 0 = JNum (g_uid g)" "row_js g ! 2 = JStr (g_dc_id g)"
  "row_js g ! 5 = JBool (g_renovation g)"
  by (simp_all add: row_js_def)

lemma table_ok_rows:
  assumes "distinct (map g_open_id gs)" and "distinct (map g_uid gs)" and "distinct (map g_dc_id gs)"
  shows "table_ok GUESTS (map row_js gs)"
proof -
  have "distinct (map (\<lambda>r. r ! 0) (map row_js gs))"
    using assms(1) by (simp add: comp_def row_js_keys distinct_map inj_on_def)
  moreover have "\<not> clash GUESTS (row_js g) (row_js h)" if "g \<in> set gs" "h \<in> set gs" for g h
  proof -
    have "g = h" if "g_uid g = g_uid h \<or> g_dc_id g = g_dc_id h"
      using that assms(2,3) \<open>g \<in> set gs\<close> \<open>h \<in> set gs\<close> by (auto simp: distinct_map dest: inj_onD)
    then show ?thesis
      by (auto simp: clash_def GUESTS_def row_js_keys)
  qed
  ultimately show ?thesis
    by (auto simp: table_ok_def) (simp add: GUESTS_def row_js_keys)
qed

text \<open>A table that can hold all rows gets all of them.\<close>

lemma table_ok_prefix: "table_ok T (xs @ ys) \<Longrightarrow> table_ok T xs"
  by (auto simp: table_ok_def)

lemma put_row_fits:
  assumes "table_ok T (tab @ [r])"
  shows "put_row T r tab = (Inr (), tab @ [r])"
proof -
  have "\<not> list_ex (\<lambda>x. x ! 0 = r ! 0) tab"
    using assms by (auto simp: table_ok_def list_ex_iff image_iff)
  moreover have "\<not> list_ex (clash T r) tab" "\<not> list_ex (\<lambda>k. r ! k = JNull) (td_notnull T)"
    using assms by (simp_all add: table_ok_def list_ex_iff)
  ultimately show ?thesis
    by (simp add: put_row_def)
qed

lemma migrate_stores_all:
  assumes "table_ok T (tab @ map h gs)"
    and "\<forall>g \<in> set gs. valid (doc g) \<and> pg_row drv (td_cols T) (f (doc g)) = Some (h g)"
  shows "migrateCollection T drv f valid False (map doc gs) c tab = (add_counts c (length gs) 0 0, tab @ map h gs)"
  using assms
proof (induction gs arbitrary: c tab)
  case (Cons g gs)
  have "table_ok T (tab @ [h g])"
    using Cons.prems(1) table_ok_prefix [of T "tab @ [h g]" "map h gs"] by simp
  then have "upsert T drv (f (doc g)) tab = (Inr (), tab @ [h g])"
    using Cons.prems(2) by (simp add: upsert_def put_row_fits)
  then show ?case
    using Cons.IH [of "tab @ [h g]"] Cons.prems by simp
qed simp

end
