(* ===== verification/MigrationProps.thy ===== *)
theory MigrationProps
  imports Cutover AuthMigration AuthFlowProps
begin

text \<open>
  The properties of the two migrations to PostgreSQL: what the server answers afterwards is what it
  answered before, and running a migration again changes nothing.
\<close>

section \<open>The game's store\<close>



section \<open>The authentication store\<close>









text \<open>Two guests whose uids are the text \<open>7\<close> and the number \<open>7\<close>: MongoDB tells them apart, the table does
  not. The preflight names them, the second one fails, and the script exits with 2.\<close>

lemma mixed_uids_fail:
  "let docs = [JObj [(''open_id'', JStr ''a''), (''uid'', JStr ''7'')], JObj [(''open_id'', JStr ''b''), (''uid'', JNum 7)]];
       res = migrateAll (\<lambda>_. []) False docs [] ([], [])
   in reportDupUids docs = [(7, [JStr ''a'', JStr ''b''])] \<and> ct_ok (fst (fst res)) = 1 \<and> ct_failed (fst (fst res)) = 1 \<and>
      exit_code (fst res) = 2"
  by code_simp

end
