(* ===== verification/WebApps.thy ===== *)
theory WebApps
  imports HttpRouter ConnectRoutes
begin

text \<open>
  The three HTTP applications of the game server (\<open>src/apps/\<close>): the login and the main application, which
  share the protocol router between them (\<open>src/protocol/authCommands.js\<close>), the OAuth endpoints of the
  main application, and the live application with its version route (\<open>src/routes/version.js\<close>) and the
  lookup of asset bundles. Paths are lists of segments as in \<open>ConnectRoutes\<close>; logging, response headers
  and files on disk are not modelled.
\<close>

section \<open>The OAuth endpoints of the main application\<close>

text \<open>\<open>Math.floor(Math.random() * 9000000)\<close> and the two readings of the clock.\<close>

record grant_draw =
  gd_random :: int
  gd_now :: int
  gd_ms :: int

definition drawn_uid :: "grant_draw \<Rightarrow> int" where
  "drawn_uid g = 10000000 + gd_random g"

definition oauth_token :: "string \<Rightarrow> int \<Rightarrow> int \<Rightarrow> js" where
  "oauth_token kind uid ms = JStr (to_base64 (str_bytes (kind @ ''_'' @ int_str uid @ ''_'' @ int_str ms)))"

definition grant_reply :: "string \<Rightarrow> string \<Rightarrow> grant_draw \<Rightarrow> js" where
  "grant_reply kind owner g =
     (let uid = drawn_uid g; token = oauth_token kind uid (gd_ms g); now = gd_now g
      in JObj [(''access_token'', token), (''code'', JNum 0), (''create_time'', JNum now), (''expires_in'', JNum 1296000),
           (''expiry_time'', JNum (now + 1296000)), (''main_active_platform'', JNum 4),
           (''open_id'', JStr (owner @ ''-'' @ int_str uid)), (''platform'', JNum 4),
           (''refresh_expiry_time'', JNum (now + 2592000)), (''refresh_token'', token), (''scope'', SCOPE),
           (''token_type'', JStr ''Bearer''), (''uid'', JNum uid)])"

definition refresh_reply :: "grant_draw \<Rightarrow> js" where
  "refresh_reply g =
     (let uid = 10000001; token = oauth_token ''refresh'' uid (gd_ms g); now = gd_now g
      in JObj [(''access_token'', token), (''expiry_time'', JNum (now + 86400)), (''open_id'', JStr (''guest-'' @ int_str uid)),
           (''refresh_token'', token), (''refresh_expiry_time'', JNum (now + 2592000)), (''token_type'', JStr ''Bearer''),
           (''uid'', JNum uid)])"

text \<open>The search for \<open>(guest|fb|grant|refresh)_(digits)_\<close>, first at a place, then leftmost. The digits are
  all there are, since the character after them is no digit.\<close>

definition match_here :: "string \<Rightarrow> (string \<times> string) option" where
  "match_here s =
     (case find (\<lambda>k. startsWith s (k @ ''_'')) [''guest'', ''fb'', ''grant'', ''refresh''] of
        None \<Rightarrow> None
      | Some k \<Rightarrow>
          (let rest = drop (length k + 1) s; ds = takeWhile is_digit rest
           in if ds \<noteq> [] \<and> startsWith (drop (length ds) rest) ''_'' then Some (k, ds) else None))"

fun match_token :: "string \<Rightarrow> (string \<times> string) option" where
  "match_token [] = None"
| "match_token (c # cs) = (case match_here (c # cs) of Some m \<Rightarrow> Some m | None \<Rightarrow> match_token cs)"

text \<open>\<open>Buffer.from(token, 'base64').toString('utf8')\<close>: the decoder takes both base64 alphabets. A byte is
  read as one character, which decides the same matches since they are ASCII. \<open>other\<close> is the text of a
  token that is not a string, \<open>None\<close> when \<open>Buffer.from\<close> throws.\<close>

definition token_text :: "(js \<Rightarrow> string option) \<Rightarrow> js \<Rightarrow> string option" where
  "token_text other v = (case v of JStr s \<Rightarrow> Some (map (\<lambda>b. char_of (unat b)) (b64urlDecode s)) | _ \<Rightarrow> other v)"

definition inspect_owner :: "string option \<Rightarrow> string \<times> int" where
  "inspect_owner text =
     (case Option.bind text match_token of
        Some (k, ds) \<Rightarrow> (if k = ''fb'' then ''fb'' else ''guest'', the (parseInt ds))
      | None \<Rightarrow> (''guest'', 10000001))"

definition inspect_reply :: "(js \<Rightarrow> string option) \<Rightarrow> js \<Rightarrow> int \<Rightarrow> js" where
  "inspect_reply other query now =
     (let token = jor (fld query ''token'') (jor (fld query ''access_token'') (JStr []));
          (prefix, uid) = inspect_owner (token_text other token)
      in JObj [(''expiry_time'', JNum (now + 86400)), (''uid'', JNum uid), (''open_id'', JStr (prefix @ ''-'' @ int_str uid)),
           (''main_active_platform'', JNum 4), (''app_id'', JNum 100067), (''platform'', JNum 4),
           (''create_time'', JNum (now - 3600)), (''scope'', SCOPE), (''login_type'', JNum 2), (''login_platform'', JNum 4)])"

section \<open>The main and the login application\<close>

datatype app_reply = AppJson int js | AppText int string | Proto outcome

datatype main_endpoint = MainInfo | GuestRegister | GuestLogin | FacebookExchange | MainInspect | MainRefresh
  | GuestGrant | TokenGrant | OauthOther

text \<open>The literal routes in their order; \<open>OauthOther\<close> is \<open>app.all('/oauth/*')\<close>.\<close>

definition main_routes :: "(verb \<times> segment list \<times> main_endpoint) list" where
  "main_routes =
     [(GET, [Lit ''app'', Lit ''info'', Lit ''get''], MainInfo),
      (POST, [Lit ''oauth'', Lit ''guest'', Lit ''register''], GuestRegister),
      (POST, [Lit ''oauth'', Lit ''guest'', Lit ''login''], GuestLogin),
      (POST, [Lit ''oauth'', Lit ''token'', Lit ''facebook'', Lit ''exchange''], FacebookExchange),
      (GET, [Lit ''oauth'', Lit ''token'', Lit ''inspect''], MainInspect),
      (POST, [Lit ''oauth'', Lit ''token''], MainRefresh),
      (POST, [Lit ''oauth'', Lit ''guest'', Lit ''token'', Lit ''grant''], GuestGrant),
      (POST, [Lit ''oauth'', Lit ''token'', Lit ''grant''], TokenGrant)]"

definition main_endpoint_of :: "verb \<Rightarrow> string list \<Rightarrow> main_endpoint option" where
  "main_endpoint_of m segs =
     (case find (\<lambda>(m', p, _). m' = m \<and> path_matches p segs) main_routes of
        Some (_, _, e) \<Rightarrow> Some e
      | None \<Rightarrow> (case segs of a # _ # _ \<Rightarrow> if toLowerCase a = ''oauth'' then Some OauthOther else None | _ \<Rightarrow> None))"

definition main_reply :: "(js \<Rightarrow> string option) \<Rightarrow> grant_draw \<Rightarrow> js \<Rightarrow> main_endpoint \<Rightarrow> js" where
  "main_reply other g query e =
     (case e of
        MainInfo \<Rightarrow> JObj [(''status'', JNum 0), (''client_log'', JBool False)]
      | GuestRegister \<Rightarrow> grant_reply ''guest'' ''guest'' g
      | GuestLogin \<Rightarrow> grant_reply ''guest'' ''guest'' g
      | FacebookExchange \<Rightarrow> grant_reply ''fb'' ''fb'' g
      | MainInspect \<Rightarrow> inspect_reply other query (gd_now g)
      | MainRefresh \<Rightarrow> refresh_reply g
      | GuestGrant \<Rightarrow> grant_reply ''grant'' ''guest'' g
      | TokenGrant \<Rightarrow> grant_reply ''grant'' ''guest'' g
      | OauthOther \<Rightarrow> JObj [(''code'', JNum 0)])"

definition AUTH_COMMANDS :: "string list" where
  "AUTH_COMMANDS = [''MajorLogin'', ''MajorRegister'', ''Login'', ''PlatformLogin'', ''PlatformRegister'', ''ChooseRegion'']"

text \<open>\<open>router.post('/:cmd')\<close>, mounted at the root and under a prefix.\<close>

definition protocol_post :: "'d router_env \<Rightarrow> verb \<Rightarrow> string list \<Rightarrow> http_request \<Rightarrow> 'd process \<Rightarrow> outcome \<times> 'd process" where
  "protocol_post X m segs req p =
     (case segs of
        [cmd] \<Rightarrow> if m = POST \<and> cmd \<noteq> [] then handle_request X (req\<lparr>hr_cmd := cmd\<rparr>) p else (NotMine, p)
      | _ \<Rightarrow> (NotMine, p))"

definition protocol_mounts :: "'d router_env \<Rightarrow> string \<Rightarrow> verb \<Rightarrow> string list \<Rightarrow> http_request \<Rightarrow> 'd process \<Rightarrow> outcome \<times> 'd process" where
  "protocol_mounts X prefix m segs req p =
     (case protocol_post X m segs req p of
        (NotMine, p1) \<Rightarrow>
          (case segs of a # rest \<Rightarrow> if toLowerCase a = toLowerCase prefix then protocol_post X m rest req p1 else (NotMine, p1)
           | [] \<Rightarrow> (NotMine, p1))
      | r \<Rightarrow> r)"

text \<open>\<open>finalizeApp\<close>: the liveness route and the 404.\<close>

definition finalizeApp :: "string \<Rightarrow> verb \<Rightarrow> string list \<Rightarrow> app_reply" where
  "finalizeApp name m segs =
     (if m = GET \<and> path_matches [Lit ''health''] segs
      then AppJson 200 (JObj [(''status'', JStr ''ok''), (''server'', JStr name)])
      else AppText 404 ''Not implemented!!'')"

definition createLoginApp :: "'d router_env \<Rightarrow> verb \<Rightarrow> string list \<Rightarrow> http_request \<Rightarrow> 'd process \<Rightarrow> app_reply \<times> 'd process" where
  "createLoginApp X m segs req p =
     (case protocol_mounts (X\<lparr>re_owns := \<lambda>cmd. cmd \<in> set AUTH_COMMANDS\<rparr>) ''login'' m segs req p of
        (NotMine, p1) \<Rightarrow> (finalizeApp ''login'' m segs, p1)
      | (r, p1) \<Rightarrow> (Proto r, p1))"

definition createMainApp ::
  "'d router_env \<Rightarrow> (js \<Rightarrow> string option) \<Rightarrow> grant_draw \<Rightarrow> verb \<Rightarrow> string list \<Rightarrow> js \<Rightarrow> http_request \<Rightarrow> 'd process \<Rightarrow>
   app_reply \<times> 'd process" where
  "createMainApp X other g m segs query req p =
     (case main_endpoint_of m segs of
        Some e \<Rightarrow> (AppJson 200 (main_reply other g query e), p)
      | None \<Rightarrow>
          (case protocol_mounts (X\<lparr>re_owns := \<lambda>cmd. cmd \<notin> set AUTH_COMMANDS\<rparr>) ''main'' m segs req p of
             (NotMine, p1) \<Rightarrow>
               (if m = GET \<and> path_matches [Lit ''api'', Lit ''health''] segs
                then AppJson 200 (JObj [(''status'', JStr ''ok''), (''version'', JStr ''1.0.0'')])
                else finalizeApp ''main'' m segs, p1)
           | (r, p1) \<Rightarrow> (Proto r, p1)))"

section \<open>The live application\<close>

record version_env =
  ve_login_server_url :: string
  ve_login_domain :: string
  ve_login_port :: int
  ve_live_port :: int
  ve_version :: string
  ve_cdn_url :: string
  ve_remote_option :: "string option"

definition loginServerUrl :: "version_env \<Rightarrow> string \<Rightarrow> string \<Rightarrow> string" where
  "loginServerUrl V localIp host =
     (if ve_login_server_url V \<noteq> [] then ve_login_server_url V
      else if ve_login_domain V \<noteq> [] \<and> ve_login_domain V \<noteq> ''login.example.com''
      then (if startsWith (ve_login_domain V) ''http'' then ve_login_domain V
            else ''https://'' @ ve_login_domain V @ ''/login/'')
      else (let h = (if host \<noteq> [] then hd (split_on (CHR '':'') host) else if localIp \<noteq> [] then localIp else ''192.168.1.4'')
            in ''http://'' @ h @ '':'' @ int_str (ve_login_port V) @ ''/''))"

text \<open>\<open>GET /live/ver.php\<close>: \<open>forwarded\<close> is the \<open>x-forwarded-for\<close> header, \<open>ip\<close> the address of the peer.\<close>

definition ver_php :: "version_env \<Rightarrow> string \<Rightarrow> string \<Rightarrow> string \<Rightarrow> string \<Rightarrow> js" where
  "ver_php V localIp host forwarded ip =
     (let authority = (if host \<noteq> [] then host else localIp @ '':'' @ int_str (if ve_live_port V \<noteq> 0 then ve_live_port V else 19134));
          cdnUrl = (if ve_cdn_url V \<noteq> [] then ve_cdn_url V else ''http://'' @ authority @ ''/live/ABHotUpdates/'')
      in JObj [(''appstore_url'', JStr ''https://play.google.com/store/apps/details?id=com.dts.freefireth''),
           (''billboard_msg'', JStr []), (''cdn_url'', JStr cdnUrl),
           (''client_ip'', JStr (if forwarded \<noteq> [] then forwarded else ip)), (''code'', JNum 0),
           (''country_code'', JStr ''BR''), (''force_to_restart_app'', JBool False), (''gdpr_version'', JNum 2),
           (''is_firewall_open'', JBool False), (''is_review_server'', JBool False), (''is_server_open'', JBool True),
           (''maintenance_announcement'', JStr []), (''maintenance_region'', JStr []),
           (''remote_option_version'', JStr (case ve_remote_option V of Some s \<Rightarrow> s | None \<Rightarrow> ''optionaltrainingres:2'')),
           (''remote_version'', JStr (ve_version V)), (''server_url'', JStr (loginServerUrl V localIp host))])"

text \<open>The lookup of an asset bundle: the first file of the directory whose name before the first dot is
  the requested one. \<open>None\<close> as the listing: there is no such directory.\<close>

definition resolve_bundle :: "string list option \<Rightarrow> string \<Rightarrow> string option" where
  "resolve_bundle listing requestedFile =
     (case listing of
        None \<Rightarrow> None
      | Some files \<Rightarrow>
          (let baseName = hd (split_on (CHR ''.'') requestedFile) in find (\<lambda>f. startsWith f (baseName @ ''.'')) files))"

section \<open>Tokens\<close>

lemma b64_std_roundtrip: "b64urlDecode (to_base64 bs) = bs"
proof -
  let ?ss = "sextets (map unat bs)"
  have lt: "\<forall>s \<in> set ?ss. s < 64"
    by (rule sextets_bytes)
  have pad: "b64_char s \<noteq> CHR ''=''" if "s < 64" for s
    using b64_char_in [OF that] alphabet_facts(3) by auto
  have "map unurl_char (b64url bs) = map b64_char ?ss"
    using lt by (auto simp: b64url_eq b64_char_in unurl_url)
  then have plain: "from_base64 (map b64_char ?ss) = bs"
    using b64url_roundtrip [of bs] by (simp add: b64urlDecode_def)
  have "unurl_char c = c" if "c \<in> set (to_base64 bs)" for c
    using that lt alphabet_facts by (auto simp: to_base64_def unurl_char_def dest!: b64_char_in)
  then have "map unurl_char (to_base64 bs) = to_base64 bs"
    by (simp add: map_idI)
  moreover have "takeWhile (\<lambda>c. c \<noteq> CHR ''='') (to_base64 bs) = takeWhile (\<lambda>c. c \<noteq> CHR ''='') (map b64_char ?ss)"
  proof -
    have tw: "takeWhile (\<lambda>c. c \<noteq> CHR ''='') (map b64_char ?ss) = map b64_char ?ss"
      using lt pad by (auto simp: takeWhile_eq_all_conv)
    have "takeWhile (\<lambda>c. c \<noteq> CHR ''='') (replicate n (CHR ''='')) = []" for n
      by (cases n) simp_all
    moreover have "takeWhile (\<lambda>c. c \<noteq> CHR ''='') (map b64_char ?ss @ ys) = map b64_char ?ss @ takeWhile (\<lambda>c. c \<noteq> CHR ''='') ys" for ys
      by (rule takeWhile_append2) (use lt pad in auto)
    ultimately show ?thesis
      by (simp only: to_base64_def tw append_Nil2)
  qed
  ultimately show ?thesis
    using plain by (simp add: b64urlDecode_def from_base64_def)
qed

lemma text_of_bytes: "map (\<lambda>b. char_of (unat b)) (str_bytes s) = s"
proof -
  have "unat (word_of_nat (of_char c) :: byte) = of_char c" for c
    using nat_of_char_less_256 [of c] by (simp add: unat_of_nat)
  then show ?thesis
    by (simp add: str_bytes_def comp_def map_idI)
qed

lemma startsWith_cons [simp]: "startsWith (c # s) (d # p) \<longleftrightarrow> c = d \<and> startsWith s p" "startsWith s []"
  by (auto simp: startsWith_def)

text \<open>The digits of a uid, and the token they stand in.\<close>

lemma parseInt_digits:
  assumes "0 \<le> n"
  shows "takeWhile is_digit (int_str n @ CHR ''_'' # s) = int_str n" and "parseInt (int_str n) = Some n" and "int_str n \<noteq> []"
proof -
  let ?s = "int_str n"
  have s: "?s = nat_digits (nat n)"
    using assms by (simp add: int_str_def)
  have d: "list_all is_digit ?s" "?s \<noteq> []"
    using nat_digits_digits [of "nat n"] by (simp_all add: s)
  then show "?s \<noteq> []"
    by simp
  have "\<not> is_digit (CHR ''_'')"
    by (simp add: is_digit_def)
  then show "takeWhile is_digit (?s @ CHR ''_'' # s) = ?s"
    using d(1) by (simp add: takeWhile_append list_all_iff)
  obtain c cs where c: "?s = c # cs"
    using d(2) by (cases ?s) auto
  then have "is_digit c" "\<not> is_ws c" "c \<noteq> CHR ''-''" "c \<noteq> CHR ''+''"
    using d(1) digit_not_ws by auto
  moreover have "takeWhile is_digit (c # cs) = c # cs"
    using d(1) unfolding takeWhile_eq_all_conv by (simp add: c list_all_iff)
  moreover have "foldl (\<lambda>n c. 10 * n + digit_val c) 0 (c # cs) = n"
    using assms nat_digits_value [of "nat n"] by (simp only: c [symmetric] s)
  ultimately show "parseInt ?s = Some n"
    by (simp only: parseInt_def parse_digits_def c dropWhile.simps list.case Let_def if_False list.distinct)
qed

lemma match_token_kind:
  assumes "kind \<in> {''guest'', ''fb'', ''grant'', ''refresh''}" and "0 \<le> uid"
  shows "match_token (kind @ ''_'' @ int_str uid @ ''_'' @ s) = Some (kind, int_str uid)"
proof -
  have "find (\<lambda>k. startsWith (kind @ ''_'' @ x) (k @ ''_'')) [''guest'', ''fb'', ''grant'', ''refresh''] = Some kind" for x
    using assms(1) by (elim insertE emptyE) simp_all
  moreover have "drop (length kind + 1) (kind @ ''_'' @ x) = x" for x
    by simp
  ultimately have "match_here (kind @ ''_'' @ int_str uid @ ''_'' @ s) = Some (kind, int_str uid)"
    using parseInt_digits(1) [OF assms(2), of s] parseInt_digits(3) [OF assms(2)]
    by (simp only: match_here_def option.case Let_def) simp
  moreover have "\<exists>c cs. kind @ ''_'' @ int_str uid @ ''_'' @ s = c # cs"
    using assms(1) by auto
  ultimately show ?thesis
    by auto
qed

lemma inspect_own_token:
  assumes "kind \<in> {''guest'', ''fb'', ''grant'', ''refresh''}" and "0 \<le> uid"
  shows "inspect_owner (token_text other (oauth_token kind uid ms)) = (if kind = ''fb'' then ''fb'' else ''guest'', uid)"
  using match_token_kind [OF assms] parseInt_digits(2) [OF assms(2)]
  by (simp add: inspect_owner_def token_text_def oauth_token_def b64_std_roundtrip text_of_bytes)

text \<open>A file that is served has the requested name up to its first dot.\<close>

lemma resolve_bundle_name:
  assumes "resolve_bundle (Some files) f = Some g"
  shows "g \<in> set files \<and> hd (split_on (CHR ''.'') g) = hd (split_on (CHR ''.'') f)"
proof -
  let ?b = "hd (split_on (CHR ''.'') f)"
  have g: "g \<in> set files" "startsWith g (?b @ ''.'')"
    using assms by (auto simp: resolve_bundle_def find_Some_iff)
  moreover have "CHR ''.'' \<notin> set ?b"
    by (induction f) (auto split: list.split)
  moreover obtain rest where "g = ?b @ CHR ''.'' # rest"
    using g(2) by (metis append.assoc append_Cons append_Nil append_take_drop_id startsWith_def)
  ultimately show ?thesis
    by (simp add: split_on_append)
qed

section \<open>Who serves a command\<close>

lemma not_owned: "\<not> re_owns X cmd \<Longrightarrow> handle_request X (req\<lparr>hr_cmd := cmd\<rparr>) p = (NotMine, p)"
  by (simp add: handle_request_def Let_def)

lemma main_endpoint_single: "main_endpoint_of POST [cmd] = None"
  by (simp add: main_endpoint_of_def main_routes_def path_matches_def)

lemma commands_partition:
  assumes "cmd \<noteq> []"
  shows "cmd \<in> set AUTH_COMMANDS \<Longrightarrow> createMainApp X other g POST [cmd] query req p = (AppText 404 ''Not implemented!!'', p)"
    and "cmd \<notin> set AUTH_COMMANDS \<Longrightarrow> createLoginApp X POST [cmd] req p = (AppText 404 ''Not implemented!!'', p)"
  using assms
  by (simp_all add: createMainApp_def createLoginApp_def protocol_mounts_def protocol_post_def not_owned
      main_endpoint_single finalizeApp_def)

section \<open>What the tokens of the main application say\<close>

lemma inspect_fields:
  assumes "fld query ''token'' = oauth_token kind uid ms" and "kind \<in> {''guest'', ''fb'', ''grant'', ''refresh''}" and "0 \<le> uid"
  shows "fld (inspect_reply other query now) ''uid'' = JNum uid"
    and "fld (inspect_reply other query now) ''open_id'' = JStr ((if kind = ''fb'' then ''fb'' else ''guest'') @ ''-'' @ int_str uid)"
proof -
  have "to_base64 (str_bytes (kind @ ''_'' @ int_str uid @ ''_'' @ int_str ms)) \<noteq> []"
    using inspect_own_token [OF assms(2,3), of other ms] text_of_bytes [of "kind @ ''_'' @ int_str uid @ ''_'' @ int_str ms"]
      b64_std_roundtrip [of "str_bytes (kind @ ''_'' @ int_str uid @ ''_'' @ int_str ms)"]
    by (auto simp: b64urlDecode_def from_base64_def)
  then have "jor (fld query ''token'') x = oauth_token kind uid ms" for x
    by (simp add: assms(1) jor_def oauth_token_def)
  then show "fld (inspect_reply other query now) ''uid'' = JNum uid"
    "fld (inspect_reply other query now) ''open_id'' = JStr ((if kind = ''fb'' then ''fb'' else ''guest'') @ ''-'' @ int_str uid)"
    by (simp_all add: inspect_reply_def Let_def inspect_own_token [OF assms(2,3)])
qed

text \<open>
  [C40] A token that the main application grants, by any of its five granting endpoints, is inspected as
  the uid and the open id it was granted for, with nothing stored in between. A refreshed token is
  inspected as the uid of the answer too, but this uid is 10000001 whatever token was refreshed.
\<close>

theorem main_tokens_roundtrip:
  assumes "e \<in> {GuestRegister, GuestLogin, FacebookExchange, GuestGrant, TokenGrant}" and "0 \<le> gd_random g"
    and "fld query ''token'' = fld (main_reply other g q e) ''access_token''"
    and "fld query' ''token'' = fld (main_reply other g q MainRefresh) ''access_token''"
  shows "fld (main_reply other g' query MainInspect) ''uid'' = fld (main_reply other g q e) ''uid'' \<and>
    fld (main_reply other g' query MainInspect) ''open_id'' = fld (main_reply other g q e) ''open_id'' \<and>
    fld (main_reply other g q e) ''uid'' = JNum (10000000 + gd_random g) \<and>
    fld (main_reply other g' query' MainInspect) ''uid'' = JNum 10000001"
proof -
  obtain kind owner where k: "main_reply other g q e = grant_reply kind owner g"
      "(kind, owner) \<in> {(''guest'', ''guest''), (''fb'', ''fb''), (''grant'', ''guest'')}"
    using assms(1) by (auto simp: main_reply_def)
  then have "fld query ''token'' = oauth_token kind (drawn_uid g) (gd_ms g)"
    using assms(3) by (simp add: grant_reply_def Let_def)
  note own = inspect_fields [OF this _ _, where other = other and now = "gd_now g'"]
  have "fld query' ''token'' = oauth_token ''refresh'' 10000001 (gd_ms g)"
    using assms(4) by (simp add: main_reply_def refresh_reply_def Let_def)
  then have "fld (main_reply other g' query' MainInspect) ''uid'' = JNum 10000001"
    using inspect_fields(1) [of query' "''refresh''" 10000001] by (simp add: main_reply_def)
  moreover have "kind \<in> {''guest'', ''fb'', ''grant'', ''refresh''}" "0 \<le> drawn_uid g"
    using k(2) assms(2) by (auto simp: drawn_uid_def)
  ultimately show ?thesis
    using own k by (auto simp: main_reply_def grant_reply_def Let_def drawn_uid_def)
qed

theorem main_tokens_roundtrip_witness:
  "let g = \<lparr>gd_random = 5, gd_now = 100, gd_ms = 100000\<rparr>; other = (\<lambda>_. None);
       token = (\<lambda>e. JObj [(''token'', fld (main_reply other g (JObj []) e) ''access_token'')])
   in fld (main_reply other g (token FacebookExchange) MainInspect) ''uid'' = JNum 10000005 \<and>
      fld (main_reply other g (token MainRefresh) MainInspect) ''uid'' = JNum 10000001"
proof -
  let ?g = "\<lparr>gd_random = 5, gd_now = 100, gd_ms = 100000\<rparr>" and ?o = "\<lambda>_. None"
  have f: "fld (JObj [(''token'', x)]) ''token'' = x" for x
    by simp
  show ?thesis
    using main_tokens_roundtrip [of FacebookExchange ?g _ ?o "JObj []" _ ?g, OF _ _ f f] by (simp add: Let_def)
qed

end
