(* ===== verification/StoreTypes.thy ===== *)
theory StoreTypes
  imports SettlementProps
begin

text \<open>
  The store as a typed state: every operation of a repository (\<open>src/db/repo/\<close>) is a call, and a run is
  any sequence of calls by any requests. What is typed: the rows and documents (\<open>db_ok\<close>), and the
  relational tables, whose ids are accounts, whose friendships are mutual, whose rows are unique.
\<close>

section \<open>Typed tables\<close>



text \<open>An account that exists goes on existing, under its id and its open id.\<close>

definition persists :: "db \<Rightarrow> db \<Rightarrow> bool" where
  "persists d e \<longleftrightarrow> (\<forall>i a. acct d i = Some a \<longrightarrow> (\<exists>b. acct e i = Some b \<and> fld b ''open_id'' = fld a ''open_id''))"



lemma persists_refl [simp]: "persists d d"
  by (simp add: persists_def)








section \<open>Calls\<close>





section \<open>Documents\<close>




lemma snd_then_unit [simp]: "snd (then_unit q d) = snd (q d)"
  by (simp add: then_unit_def split: prod.split sum.split)







section \<open>The calls of both backends\<close>









lemma acct_tables [simp]: "acct (d\<lparr>db_friends := fs\<rparr>) = acct d" "acct (d\<lparr>db_requests := rs\<rparr>) = acct d"
  "acct (d\<lparr>db_results := ms\<rparr>) = acct d"
  by (simp_all add: acct_def row_of_def fun_eq_iff)







section \<open>What a lookup returns\<close>








end
