(* ===== verification/Pages.thy ===== *)
theory Pages
  imports LoginRoutes
begin

text \<open>
  The HTML of the login service (\<open>auth/login-server/src/views/\<close>): the escaping of inserted text and the
  three pages that insert any, as the literal parts of their templates with the escaped text between
  them. \<open>render\<close> is the body of a response of the routes. The second half reads a page the way a browser
  does, as far as attributes and text are concerned.
\<close>

section \<open>Escaping\<close>

text \<open>\<open>s.replace(/c/g, r)\<close>.\<close>

definition replace_all :: "char \<Rightarrow> string \<Rightarrow> string \<Rightarrow> string" where
  "replace_all c r s = concat (map (\<lambda>x. if x = c then r else [x]) s)"

definition escapeHtml :: "string \<Rightarrow> string" where
  "escapeHtml s =
     replace_all (CHR 0x27) ''&#39;''
      (replace_all (CHR 0x22) ''&quot;''
        (replace_all (CHR ''>'') ''&gt;''
          (replace_all (CHR ''<'') ''&lt;''
            (replace_all (CHR ''&'') ''&amp;'' s))))"

section \<open>The templates\<close>

text \<open>The lines of a literal part.\<close>

fun lines_of :: "string list \<Rightarrow> string" where
  "lines_of [] = []"
| "lines_of [l] = l"
| "lines_of (l # l' # ls) = l @ CHR 0x0A # lines_of (l' # ls)"

definition login_part1 :: string where
  "login_part1 = lines_of
     [''<!doctype html>'',
      ''<html lang=\"en\">'',
      ''<head>'',
      ''  <meta charset=\"utf-8\">'',
      ''  <meta name=\"viewport\" content=\"width=device-width, initial-scale=1\">'',
      ''  <title>Sign in</title>'',
      ''  <style>'',
      ''    html, body { margin: 0; padding: 0; min-height: 100%; }'',
      ''    body {'',
      ''      font-family: system-ui, -apple-system, \"Segoe UI\", Roboto, Helvetica, Arial, sans-serif;'',
      ''      background: linear-gradient(135deg, #1a1a1a 0%, #0d0d0d 100%);'',
      ''      color: #e0e0e0;'',
      ''      display: flex;'',
      ''      flex-direction: column;'',
      ''      min-height: 100vh;'',
      ''    }'',
      ''    .disclaimer {'',
      ''      background: rgba(0, 0, 0, 0.6);'',
      ''      color: #999;'',
      ''      font-size: 12px;'',
      ''      text-align: center;'',
      ''      padding: 10px 16px;'',
      ''      border-bottom: 1px solid #2a2a2a;'',
      ''      line-height: 1.4;'',
      ''    }'',
      ''    .disclaimer strong { color: #ff6600; }'',
      ''    main {'',
      ''      flex: 1;'',
      ''      display: flex;'',
      ''      align-items: center;'',
      ''      justify-content: center;'',
      ''      padding: 24px;'',
      ''    }'',
      ''    .card {'',
      ''      background: #1a1a1a;'',
      ''      border: 1px solid #2a2a2a;'',
      ''      border-radius: 12px;'',
      ''      padding: 40px 32px;'',
      ''      max-width: 400px;'',
      ''      width: 100%;'',
      ''      text-align: center;'',
      ''      box-shadow: 0 8px 32px rgba(0, 0, 0, 0.4);'',
      ''    }'',
      ''    h1 {'',
      ''      margin: 0 0 8px 0;'',
      ''      font-size: 22px;'',
      ''      font-weight: 700;'',
      ''      letter-spacing: 1px;'',
      ''      text-transform: uppercase;'',
      ''      color: #fff;'',
      ''    }'',
      ''    .subtitle {'',
      ''      color: #888;'',
      ''      font-size: 13px;'',
      ''      margin-bottom: 24px;'',
      ''    }'',
      ''    .btn {'',
      ''      display: inline-flex;'',
      ''      align-items: center;'',
      ''      justify-content: center;'',
      ''      gap: 12px;'',
      ''      background: #5865F2;'',
      ''      color: #fff;'',
      ''      text-decoration: none;'',
      ''      padding: 14px 24px;'',
      ''      border-radius: 8px;'',
      ''      font-size: 15px;'',
      ''      font-weight: 600;'',
      ''      width: 100%;'',
      ''      box-sizing: border-box;'',
      ''      transition: background 0.15s ease;'',
      ''    }'',
      ''    .btn:hover { background: #4752C4; }'',
      ''    .btn svg { flex-shrink: 0; }'',
      ''    .waiting {'',
      ''      margin-top: 20px;'',
      ''      display: flex;'',
      ''      align-items: center;'',
      ''      justify-content: center;'',
      ''      gap: 10px;'',
      ''      color: #666;'',
      ''      font-size: 13px;'',
      ''      min-height: 22px;'',
      ''    }'',
      ''    #spinner {'',
      ''      width: 14px;'',
      ''      height: 14px;'',
      ''      border-radius: 50%;'',
      ''      border: 2px solid #333;'',
      ''      border-top-color: #5865F2;'',
      ''      animation: spin 0.9s linear infinite;'',
      ''    }'',
      ''    @keyframes spin { to { transform: rotate(360deg); } }'',
      ''    .status.error { color: #ff6b6b; }'',
      ''    .hint {'',
      ''      margin-top: 18px;'',
      ''      color: #555;'',
      ''      font-size: 11px;'',
      ''      line-height: 1.5;'',
      ''    }'',
      ''    footer {'',
      ''      text-align: center;'',
      ''      padding: 16px 0 24px;'',
      ''      font-size: 11px;'',
      ''      color: #555;'',
      ''    }'',
      ''    footer a { color: #666; text-decoration: none; margin: 0 6px; }'',
      ''    footer a:hover { color: #ff6600; }'',
      ''  </style>'',
      ''</head>'',
      ''<body data-pair-id=\"'']"

definition login_part2 :: string where
  "login_part2 = lines_of
     [''\">'',
      ''  <div class=\"disclaimer\">'',
      ''    This is an <strong>independent community project</strong>. Not affiliated with, endorsed by, or connected to <strong>Garena</strong> or <strong>Free Fire</strong>.'',
      ''  </div>'',
      ''  <main>'',
      ''    <div class=\"card\">'',
      ''      <h1>Sign In</h1>'',
      ''      <div class=\"subtitle\">Continue with your Discord account to enter the game.</div>'',
      ''      <a class=\"btn\" href=\"'']"

definition login_part3 :: string where
  "login_part3 = lines_of
     [''\">'',
      ''        <svg width=\"20\" height=\"20\" viewBox=\"0 0 24 24\" fill=\"currentColor\" aria-hidden=\"true\">'',
      ''          <path d=\"M20.317 4.37a19.79 19.79 0 0 0-4.885-1.515.074.074 0 0 0-.079.037c-.21.375-.444.864-.608 1.25a18.27 18.27 0 0 0-5.487 0 12.64 12.64 0 0 0-.617-1.25.077.077 0 0 0-.079-.037A19.736 19.736 0 0 0 3.677 4.37a.07.07 0 0 0-.032.027C.533 9.046-.32 13.58.099 18.057a.082.082 0 0 0 .031.057 19.9 19.9 0 0 0 5.993 3.03.078.078 0 0 0 .084-.028 14.09 14.09 0 0 0 1.226-1.994.076.076 0 0 0-.041-.106 13.107 13.107 0 0 1-1.872-.892.077.077 0 0 1-.008-.128 10.2 10.2 0 0 0 .372-.292.074.074 0 0 1 .077-.01c3.928 1.793 8.18 1.793 12.062 0a.074.074 0 0 1 .078.01c.12.098.246.198.373.292a.077.077 0 0 1-.006.127 12.299 12.299 0 0 1-1.873.892.077.077 0 0 0-.041.107c.36.698.772 1.362 1.225 1.993a.076.076 0 0 0 .084.028 19.839 19.839 0 0 0 6.002-3.03.077.077 0 0 0 .032-.054c.5-5.177-.838-9.674-3.549-13.66a.061.061 0 0 0-.031-.03zM8.02 15.33c-1.183 0-2.157-1.085-2.157-2.419 0-1.333.956-2.419 2.157-2.419 1.21 0 2.176 1.096 2.157 2.42 0 1.333-.956 2.418-2.157 2.418zm7.975 0c-1.183 0-2.157-1.085-2.157-2.419 0-1.333.955-2.419 2.157-2.419 1.21 0 2.176 1.096 2.157 2.42 0 1.333-.946 2.418-2.157 2.418z\"/>'',
      ''        </svg>'',
      ''        Continue with Discord'',
      ''      </a>'',
      ''      <div class=\"waiting\">'',
      ''        <div id=\"spinner\"></div>'',
      ''        <div id=\"status\" class=\"status\">Waiting for sign-in&hellip;</div>'',
      ''      </div>'',
      ''      <div class=\"hint\">'',
      ''        Keep this page open. If Discord opens in a different browser, come back here after you finish; the game will resume automatically.'',
      ''      </div>'',
      ''    </div>'',
      ''  </main>'',
      ''  <footer>'',
      ''    <a href=\"/terms\">Terms</a> &middot; <a href=\"/privacy\">Privacy</a>'',
      ''  </footer>'',
      ''  <script src=\"/static/dialog.js\"></script>'',
      ''</body>'',
      ''</html>'']"

definition complete_part1 :: string where
  "complete_part1 = lines_of
     [''<!doctype html>'',
      ''<html lang=\"en\">'',
      ''<head>'',
      ''  <meta charset=\"utf-8\">'',
      ''  <meta name=\"viewport\" content=\"width=device-width, initial-scale=1\">'',
      ''  <meta http-equiv=\"refresh\" content=\"0; url='']"

definition complete_part2 :: string where
  "complete_part2 = lines_of
     [''\">'',
      ''  <title>Sign-in complete</title>'',
      ''  <style>'',
      ''    html, body { margin: 0; padding: 0; min-height: 100%; }'',
      ''    body {'',
      ''      font-family: system-ui, -apple-system, \"Segoe UI\", Roboto, Helvetica, Arial, sans-serif;'',
      ''      background: linear-gradient(135deg, #1a1a1a 0%, #0d0d0d 100%);'',
      ''      color: #e0e0e0;'',
      ''      display: flex;'',
      ''      align-items: center;'',
      ''      justify-content: center;'',
      ''      min-height: 100vh;'',
      ''      padding: 24px;'',
      ''    }'',
      ''    .card {'',
      ''      background: #1a1a1a;'',
      ''      border: 1px solid #2a2a2a;'',
      ''      border-radius: 12px;'',
      ''      padding: 40px 32px;'',
      ''      max-width: 400px;'',
      ''      width: 100%;'',
      ''      text-align: center;'',
      ''      box-shadow: 0 8px 32px rgba(0, 0, 0, 0.4);'',
      ''    }'',
      ''    .check {'',
      ''      display: inline-flex;'',
      ''      align-items: center;'',
      ''      justify-content: center;'',
      ''      width: 56px;'',
      ''      height: 56px;'',
      ''      border-radius: 50%;'',
      ''      background: rgba(76, 175, 80, 0.12);'',
      ''      color: #4CAF50;'',
      ''      font-size: 32px;'',
      ''      margin-bottom: 16px;'',
      ''    }'',
      ''    h1 {'',
      ''      margin: 0 0 8px 0;'',
      ''      font-size: 20px;'',
      ''      font-weight: 700;'',
      ''      color: #fff;'',
      ''    }'',
      ''    p {'',
      ''      color: #999;'',
      ''      font-size: 14px;'',
      ''      line-height: 1.5;'',
      ''      margin: 0 0 24px 0;'',
      ''    }'',
      ''    .btn {'',
      ''      display: inline-block;'',
      ''      background: #5865F2;'',
      ''      color: #fff;'',
      ''      text-decoration: none;'',
      ''      padding: 12px 22px;'',
      ''      border-radius: 8px;'',
      ''      font-size: 14px;'',
      ''      font-weight: 600;'',
      ''      width: 100%;'',
      ''      box-sizing: border-box;'',
      ''    }'',
      ''    .btn:hover { background: #4752C4; }'',
      ''    .hint {'',
      ''      margin-top: 16px;'',
      ''      color: #555;'',
      ''      font-size: 11px;'',
      ''      line-height: 1.5;'',
      ''    }'',
      ''  </style>'',
      ''</head>'',
      ''<body>'',
      ''  <div class=\"card\">'',
      ''    <div class=\"check\">&#10003;</div>'',
      ''    <h1>Sign-in complete</h1>'',
      ''    <p>You can return to the game now.</p>'',
      ''    <a class=\"btn\" href=\"'']"

definition complete_part3 :: string where
  "complete_part3 = lines_of
     [''\">Return to game</a>'',
      ''    <div class=\"hint\">'',
      ''      If the game did not resume automatically, close this tab. The game will pick up your sign-in in a moment.'',
      ''    </div>'',
      ''  </div>'',
      ''</body>'',
      ''</html>'']"

definition error_part1 :: string where
  "error_part1 = lines_of
     [''<!doctype html>'',
      ''<html lang=\"en\">'',
      ''<head>'',
      ''  <meta charset=\"utf-8\">'',
      ''  <meta name=\"viewport\" content=\"width=device-width, initial-scale=1\">'',
      ''  <title>'']"

definition error_part2 :: string where
  "error_part2 = lines_of
     [''</title>'',
      ''  <style>'',
      ''    html, body { margin: 0; padding: 0; min-height: 100%; }'',
      ''    body {'',
      ''      font-family: system-ui, -apple-system, \"Segoe UI\", Roboto, Helvetica, Arial, sans-serif;'',
      ''      background: linear-gradient(135deg, #1a1a1a 0%, #0d0d0d 100%);'',
      ''      color: #e0e0e0;'',
      ''      display: flex;'',
      ''      flex-direction: column;'',
      ''      min-height: 100vh;'',
      ''    }'',
      ''    main {'',
      ''      flex: 1;'',
      ''      display: flex;'',
      ''      align-items: center;'',
      ''      justify-content: center;'',
      ''      padding: 24px;'',
      ''    }'',
      ''    .card {'',
      ''      background: #1a1a1a;'',
      ''      border: 1px solid #2a2a2a;'',
      ''      border-radius: 12px;'',
      ''      padding: 32px;'',
      ''      max-width: 460px;'',
      ''      width: 100%;'',
      ''      text-align: center;'',
      ''      box-shadow: 0 8px 32px rgba(0, 0, 0, 0.4);'',
      ''    }'',
      ''    .badge {'',
      ''      display: inline-block;'',
      ''      width: 48px;'',
      ''      height: 48px;'',
      ''      line-height: 48px;'',
      ''      border-radius: 50%;'',
      ''      background: rgba(244, 67, 54, 0.12);'',
      ''      color: #ff6b6b;'',
      ''      font-size: 28px;'',
      ''      font-weight: 700;'',
      ''      margin-bottom: 16px;'',
      ''    }'',
      ''    h1 {'',
      ''      margin: 0 0 12px 0;'',
      ''      font-size: 20px;'',
      ''      font-weight: 700;'',
      ''      color: #fff;'',
      ''    }'',
      ''    p {'',
      ''      color: #999;'',
      ''      font-size: 14px;'',
      ''      line-height: 1.5;'',
      ''      margin: 0 0 16px 0;'',
      ''    }'',
      ''    .hint {'',
      ''      margin-top: 24px;'',
      ''      font-size: 12px;'',
      ''      color: #666;'',
      ''    }'',
      ''  </style>'',
      ''</head>'',
      ''<body>'',
      ''  <main>'',
      ''    <div class=\"card\">'',
      ''      <div class=\"badge\">!</div>'',
      ''      <h1>'']"

definition error_part3 :: string where
  "error_part3 = lines_of
     [''</h1>'',
      ''      <p>'']"

definition error_part4 :: string where
  "error_part4 = lines_of
     [''</p>'',
      ''      <div class=\"hint\">You can safely close this page.</div>'',
      ''    </div>'',
      ''  </main>'',
      ''</body>'',
      ''</html>'']"

definition renderFake503 :: string where
  "renderFake503 = lines_of
     [''<!DOCTYPE html>'',
      ''<html>'',
      ''<head><title>503 Service Unavailable</title></head>'',
      ''<body>'',
      ''<h1>503 Service Unavailable</h1>'',
      ''<p>No server is available to handle this request.</p>'',
      ''</body>'',
      ''</html>'']"

section \<open>The pages\<close>

definition renderLoginPage :: "string \<Rightarrow> string \<Rightarrow> string" where
  "renderLoginPage discordAuthorizeUrl pairId =
     (let href = escapeHtml discordAuthorizeUrl; pair = escapeHtml pairId
      in login_part1 @ pair @ login_part2 @ href @ login_part3)"

definition renderCompletePage :: "string \<Rightarrow> string" where
  "renderCompletePage redirectUrl =
     (let safeUrl = escapeHtml redirectUrl
      in complete_part1 @ safeUrl @ complete_part2 @ safeUrl @ complete_part3)"

definition renderErrorPage :: "string \<Rightarrow> string \<Rightarrow> string" where
  "renderErrorPage title message =
     (let safeTitle = escapeHtml title; safeMessage = escapeHtml message
      in error_part1 @ safeTitle @ error_part2 @ safeTitle @ error_part3 @ safeMessage @ error_part4)"

fun render :: "page \<Rightarrow> string" where
  "render (ErrorPage title message) = renderErrorPage title message"
| "render (CompletePage url) = renderCompletePage url"
| "render (LoginPage url pairId) = renderLoginPage url pairId"
| "render Fake503 = renderFake503"

section \<open>What escaping does\<close>

definition markup :: "char \<Rightarrow> bool" where
  "markup c \<longleftrightarrow> c \<in> {CHR ''<'', CHR ''>'', CHR 0x22, CHR 0x27}"

definition entity :: "char \<Rightarrow> string" where
  "entity c =
     (if c = CHR ''&'' then ''&amp;'' else if c = CHR ''<'' then ''&lt;'' else if c = CHR ''>'' then ''&gt;''
      else if c = CHR 0x22 then ''&quot;'' else if c = CHR 0x27 then ''&#39;'' else [c])"

lemma replace_all_simps [simp]:
  "replace_all c r [] = []"
  "replace_all c r (x # s) = (if x = c then r else [x]) @ replace_all c r s"
  "replace_all c r (s @ t) = replace_all c r s @ replace_all c r t"
  by (simp_all add: replace_all_def)

text \<open>The five passes do not disturb each other: each character becomes its entity.\<close>

lemma escapeHtml_simps [simp]:
  "escapeHtml [] = []"
  "escapeHtml (c # s) = entity c @ escapeHtml s"
  by (simp_all add: escapeHtml_def entity_def)

lemma escapeHtml_inert: "c \<in> set (escapeHtml s) \<Longrightarrow> \<not> markup c"
  by (induction s) (auto simp: entity_def markup_def split: if_splits)

lemma filter_markup_escape [simp]: "filter markup (escapeHtml s) = []"
  using escapeHtml_inert by (auto simp: filter_empty_conv)

text \<open>How a browser decodes the five character references.\<close>

definition ENTITIES :: "(string \<times> char) list" where
  "ENTITIES = [(''amp;'', CHR ''&''), (''lt;'', CHR ''<''), (''gt;'', CHR ''>''), (''quot;'', CHR 0x22), (''#39;'', CHR 0x27)]"

function decode :: "string \<Rightarrow> string" where
  "decode [] = []"
| "decode (c # s) =
     (if c = CHR ''&'' then
        (case find (\<lambda>(e, _). startsWith s e) ENTITIES of
           Some (e, x) \<Rightarrow> x # decode (drop (length e) s)
         | None \<Rightarrow> c # decode s)
      else c # decode s)"
  by pat_completeness auto
termination
  by (relation "measure length") auto

lemma decode_entity: "decode (entity c @ s) = c # decode s"
  by (simp add: entity_def ENTITIES_def startsWith_def)

lemma decode_escape: "decode (escapeHtml s) = s"
  by (induction s) (simp_all add: decode_entity)

section \<open>Reading a page\<close>

text \<open>The text after the first occurrence of a marker.\<close>

fun after :: "string \<Rightarrow> string \<Rightarrow> string" where
  "after m [] = []"
| "after m (c # s) = (if startsWith (c # s) m then drop (length m) (c # s) else after m s)"

text \<open>The value of the attribute a tag ends in, and the text of an element.\<close>

definition attribute :: "string \<Rightarrow> string \<Rightarrow> string" where
  "attribute m html = decode (takeWhile (\<lambda>c. c \<noteq> CHR 0x22) (after m html))"

definition text_of :: "string \<Rightarrow> string \<Rightarrow> string" where
  "text_of m html = decode (takeWhile (\<lambda>c. c \<noteq> CHR ''<'') (after m html))"

text \<open>A part of a page in which, or across whose end, no occurrence of the marker begins.\<close>

fun apart :: "string \<Rightarrow> string \<Rightarrow> bool" where
  "apart (x # xs) (y # ys) \<longleftrightarrow> x \<noteq> y \<or> apart xs ys"
| "apart _ _ \<longleftrightarrow> False"

fun free_of :: "string \<Rightarrow> string \<Rightarrow> bool" where
  "free_of m [] \<longleftrightarrow> True"
| "free_of m (c # s) \<longleftrightarrow> apart (c # s) m \<and> free_of m s"

lemma apart_starts: "apart s m \<Longrightarrow> \<not> startsWith (s @ t) m"
  by (induction s m rule: apart.induct) (auto simp: startsWith_def)

lemma after_free: "free_of m s \<Longrightarrow> after m (s @ t) = after m t"
proof (induction s)
  case (Cons c s)
  then have "\<not> startsWith (c # s @ t) m"
    using apart_starts [of "c # s" m t] by simp
  with Cons show ?case
    by simp
qed simp

lemma after_here: "m \<noteq> [] \<Longrightarrow> after m (m @ t) = t"
  by (cases m) (auto simp: startsWith_def)

lemma free_escape:
  assumes "m \<noteq> []" and "hd m = CHR ''<''"
  shows "free_of m (escapeHtml s)"
proof -
  obtain m' where m: "m = CHR ''<'' # m'"
    using assms by (cases m) auto
  have "free_of m t" if "\<forall>c \<in> set t. \<not> markup c" for t
    using that by (induction t) (auto simp: m markup_def)
  then show ?thesis
    using escapeHtml_inert by blast
qed

lemma apart_append: "apart s m \<Longrightarrow> apart (s @ t) m"
  by (induction s m rule: apart.induct) auto

lemma free_append: "free_of m s \<Longrightarrow> free_of m t \<Longrightarrow> free_of m (s @ t)"
proof (induction s)
  case (Cons c s)
  then show ?case
    using apart_append [of "c # s" m t] by simp
qed simp

text \<open>A marker without a line break is looked for line by line.\<close>

lemma after_lines:
  assumes "m \<noteq> []" and "list_all (\<lambda>l. free_of m (l @ [CHR 0x0A])) (butlast ls)" and "ls \<noteq> []" and "last ls = pad @ m"
    and "free_of m pad"
  shows "after m (lines_of ls @ t) = t"
  using assms(2-4)
proof (induction ls rule: lines_of.induct)
  case (2 l)
  then show ?case
    using after_free [OF assms(5)] after_here [OF assms(1)] by simp
next
  case (3 l l' ls)
  then show ?case
    using after_free [of m "l @ [CHR 0x0A]" "lines_of (l' # ls) @ t"] by simp
qed simp

lemma free_lines:
  "list_all (\<lambda>l. free_of m (l @ [CHR 0x0A])) (butlast ls) \<Longrightarrow> ls \<noteq> [] \<Longrightarrow> free_of m (last ls) \<Longrightarrow> free_of m (lines_of ls)"
proof (induction ls rule: lines_of.induct)
  case (3 l l' ls)
  then show ?case
    using free_append [of m "l @ [CHR 0x0A]" "lines_of (l' # ls)"] by simp
qed simp_all

lemma takeWhile_escape:
  assumes "q = CHR 0x22 \<or> q = CHR ''<''"
  shows "takeWhile (\<lambda>c. c \<noteq> q) (escapeHtml s @ q # t) = escapeHtml s"
proof -
  have "\<forall>c \<in> set (escapeHtml s). c \<noteq> q"
    using escapeHtml_inert assms by (auto simp: markup_def)
  then show ?thesis
    by (simp add: takeWhile_append2)
qed

definition PAIR_ATTR :: string where "PAIR_ATTR = ''<body data-pair-id=\"''"

definition BUTTON_ATTR :: string where "BUTTON_ATTR = ''<a class=\"btn\" href=\"''"

definition REFRESH_ATTR :: string where "REFRESH_ATTR = ''<meta http-equiv=\"refresh\" content=\"0; url=''"

lemma markers [simp]:
  "PAIR_ATTR \<noteq> []" "BUTTON_ATTR \<noteq> []" "REFRESH_ATTR \<noteq> []"
  "hd PAIR_ATTR = CHR ''<''" "hd BUTTON_ATTR = CHR ''<''" "hd REFRESH_ATTR = CHR ''<''"
  by (simp_all add: PAIR_ATTR_def BUTTON_ATTR_def REFRESH_ATTR_def)

lemmas line_by_line = butlast.simps last.simps list.pred_inject list.distinct if_False append_Nil

lemma login_parts:
  "after PAIR_ATTR (login_part1 @ t) = t"
  "free_of BUTTON_ATTR login_part1"
  "after BUTTON_ATTR (login_part2 @ t) = t"
  unfolding login_part1_def login_part2_def
    apply (rule after_lines [where pad = "[]"]; (simp only: line_by_line)?; (intro conjI)?; simp add: PAIR_ATTR_def)
   apply (rule free_lines; (simp only: line_by_line)?; (intro conjI)?; simp add: BUTTON_ATTR_def)
  apply (rule after_lines [where pad = "''      ''"]; (simp only: line_by_line)?; (intro conjI)?; simp add: BUTTON_ATTR_def)
  done

lemma complete_parts:
  "after REFRESH_ATTR (complete_part1 @ t) = t"
  "free_of BUTTON_ATTR complete_part1"
  "after BUTTON_ATTR (complete_part2 @ t) = t"
  unfolding complete_part1_def complete_part2_def
    apply (rule after_lines [where pad = "''  ''"]; (simp only: line_by_line)?; (intro conjI)?; simp add: REFRESH_ATTR_def)
   apply (rule free_lines; (simp only: line_by_line)?; (intro conjI)?; simp add: BUTTON_ATTR_def)
  apply (rule after_lines [where pad = "''    ''"]; (simp only: line_by_line)?; (intro conjI)?; simp add: BUTTON_ATTR_def)
  done

lemma error_parts:
  "after ''<h1>'' (error_part2 @ t) = t"
  "free_of ''<h1>'' error_part1" "free_of ''<p>'' error_part1" "free_of ''<p>'' error_part2"
  "after ''<p>'' (error_part3 @ t) = t"
  unfolding error_part1_def error_part2_def error_part3_def
      apply (rule after_lines [where pad = "''      ''"]; (simp only: line_by_line)?; (intro conjI)?; simp)
     apply (rule free_lines; (simp only: line_by_line)?; (intro conjI)?; simp)
    apply (rule free_lines; (simp only: line_by_line)?; (intro conjI)?; simp)
   apply (rule free_lines; (simp only: line_by_line)?; (intro conjI)?; simp)
  apply (rule after_lines [where pad = "''      ''"]; (simp only: line_by_line)?; (intro conjI)?; simp)
  done

lemma part_starts:
  "\<exists>t. login_part2 = CHR 0x22 # t" "\<exists>t. login_part3 = CHR 0x22 # t" "\<exists>t. complete_part2 = CHR 0x22 # t"
  "\<exists>t. complete_part3 = CHR 0x22 # t" "\<exists>t. error_part2 = CHR ''<'' # t" "\<exists>t. error_part3 = CHR ''<'' # t"
  "\<exists>t. error_part4 = CHR ''<'' # t"
  by (simp_all add: login_part2_def login_part3_def complete_part2_def complete_part3_def error_part2_def error_part3_def
      error_part4_def)

text \<open>What a browser reads of an escaped text up to the quote or the tag after it.\<close>

lemma read_quoted: "\<exists>t. s = CHR 0x22 # t \<Longrightarrow> decode (takeWhile (\<lambda>c. c \<noteq> CHR 0x22) (escapeHtml x @ s @ r)) = x"
  using takeWhile_escape [of "CHR 0x22" x] decode_escape by auto

lemma read_text: "\<exists>t. s = CHR ''<'' # t \<Longrightarrow> decode (takeWhile (\<lambda>c. c \<noteq> CHR ''<'') (escapeHtml x @ s @ r)) = x"
  using takeWhile_escape [of "CHR ''<''" x] decode_escape by auto

lemma after_part: "free_of m s \<Longrightarrow> m \<noteq> [] \<Longrightarrow> hd m = CHR ''<'' \<Longrightarrow> after m (s @ escapeHtml x @ t) = after m t"
  by (simp add: after_free free_escape)

text \<open>
  [C33] Whatever text a page of the login service is given, it cannot change the page's markup: the
  angle brackets and quotes of the page are those of its template, in order. And the text arrives: the
  attribute from which the polling script takes the pair id, the link to Discord, the redirection, the
  link back to the game, and the title and message of an error read as exactly what was inserted.
\<close>

theorem pages_insert_text_only:
  "filter markup (render (LoginPage url pairId)) = filter markup (render (LoginPage [] [])) \<and>
   attribute PAIR_ATTR (render (LoginPage url pairId)) = pairId \<and>
   attribute BUTTON_ATTR (render (LoginPage url pairId)) = url \<and>
   filter markup (render (CompletePage url)) = filter markup (render (CompletePage [])) \<and>
   attribute REFRESH_ATTR (render (CompletePage url)) = url \<and>
   attribute BUTTON_ATTR (render (CompletePage url)) = url \<and>
   filter markup (render (ErrorPage title message)) = filter markup (render (ErrorPage [] [])) \<and>
   text_of ''<h1>'' (render (ErrorPage title message)) = title \<and>
   text_of ''<p>'' (render (ErrorPage title message)) = message"
proof (intro conjI)
  show "attribute PAIR_ATTR (render (LoginPage url pairId)) = pairId"
    using read_quoted [OF part_starts(1)] by (simp add: attribute_def renderLoginPage_def Let_def login_parts)
  show "attribute BUTTON_ATTR (render (LoginPage url pairId)) = url"
    using read_quoted [OF part_starts(2), of url "[]"]
    by (simp add: attribute_def renderLoginPage_def Let_def after_part login_parts)
  show "attribute REFRESH_ATTR (render (CompletePage url)) = url"
    using read_quoted [OF part_starts(3)] by (simp add: attribute_def renderCompletePage_def Let_def complete_parts)
  show "attribute BUTTON_ATTR (render (CompletePage url)) = url"
    using read_quoted [OF part_starts(4), of url "[]"]
    by (simp add: attribute_def renderCompletePage_def Let_def after_part complete_parts)
  show "text_of ''<h1>'' (render (ErrorPage title message)) = title"
    using read_text [OF part_starts(6)] by (simp add: text_of_def renderErrorPage_def Let_def after_part error_parts)
  show "text_of ''<p>'' (render (ErrorPage title message)) = message"
    using read_text [OF part_starts(7), of message "[]"]
    by (simp add: text_of_def renderErrorPage_def Let_def after_part error_parts)
qed (simp_all add: renderLoginPage_def renderCompletePage_def renderErrorPage_def Let_def)

end
