(* ===== verification/Fleet.thy ===== *)
theory Fleet
  imports Matchmaker "HOL-Library.Char_ord" "HOL-Library.List_Lexorder"
begin

text \<open>
  The fleet of match servers: the sorted set \<open>matchservers\<close> of Redis, in which every server enters its
  address with the second of its heartbeat, \<open>getMatchServers\<close> of \<open>src/bus/index.js\<close>, and the cache of
  \<open>src/tcp/fleet.js\<close> from which the matchmaker picks. The refreshes of the cache are events; a refresh
  that fails keeps the list.
\<close>

section \<open>A sorted set\<close>

text \<open>Members with their scores; \<open>ZRANGEBYSCORE\<close> lists by score, then by member.\<close>

type_synonym zset = "(string \<times> int) list"

definition zadd :: "string \<Rightarrow> int \<Rightarrow> zset \<Rightarrow> zset" where
  "zadd m score z = AList.update m score z"

definition zremrangebyscore_below :: "int \<Rightarrow> zset \<Rightarrow> zset" where
  "zremrangebyscore_below cutoff z = filter (\<lambda>p. \<not> snd p < cutoff) z"

definition zrangebyscore_from :: "int \<Rightarrow> zset \<Rightarrow> string list" where
  "zrangebyscore_from cutoff z = map fst (sort_key snd (sort_key fst (filter (\<lambda>p. cutoff \<le> snd p) z)))"

definition MAX_AGE_SEC :: int where "MAX_AGE_SEC = 30"

text \<open>\<open>now\<close> is the second of the call.\<close>

definition getMatchServers :: "int \<Rightarrow> int \<Rightarrow> zset \<Rightarrow> string list \<times> zset" where
  "getMatchServers maxAgeSec now z =
     (let cutoff = now - maxAgeSec; z1 = zremrangebyscore_below cutoff z
      in (zrangebyscore_from cutoff z1, z1))"

section \<open>The cache\<close>

record fleet =
  fl_servers :: "string list"
  fl_timer :: bool

text \<open>\<open>up = None\<close>: there is no bus; \<open>Some False\<close>: Redis does not answer.\<close>

definition refresh_fleet :: "bool option \<Rightarrow> int \<Rightarrow> zset \<Rightarrow> fleet \<Rightarrow> zset \<times> fleet" where
  "refresh_fleet up now z f =
     (if up = Some True
      then (case getMatchServers MAX_AGE_SEC now z of (servers, z1) \<Rightarrow> (z1, f\<lparr>fl_servers := servers\<rparr>))
      else (z, f))"

definition start_fleet :: "bool option \<Rightarrow> int \<Rightarrow> zset \<Rightarrow> fleet \<Rightarrow> zset \<times> fleet" where
  "start_fleet up now z f =
     (if fl_timer f then (z, f)
      else (case refresh_fleet up now z f of (z1, f1) \<Rightarrow> (z1, f1\<lparr>fl_timer := True\<rparr>)))"

datatype fleet_event =
    Heartbeat string int
  | Refresh "bool option" int

fun fleet_step :: "fleet_event \<Rightarrow> zset \<times> fleet \<Rightarrow> zset \<times> fleet" where
  "fleet_step (Heartbeat addr now) (z, f) = (zadd addr now z, f)"
| "fleet_step (Refresh up now) (z, f) = refresh_fleet up now z f"

definition new_fleet :: fleet where
  "new_fleet = \<lparr>fl_servers = [], fl_timer = False\<rparr>"

definition fleet_run :: "fleet_event list \<Rightarrow> zset \<times> fleet" where
  "fleet_run es = fold fleet_step es ([], new_fleet)"

section \<open>Who is alive\<close>

fun beat :: "fleet_event \<Rightarrow> (string \<rightharpoonup> int) \<Rightarrow> string \<rightharpoonup> int" where
  "beat (Heartbeat addr now) l = l(addr \<mapsto> now)"
| "beat (Refresh up now) l = l"

definition last_beat :: "fleet_event list \<Rightarrow> string \<rightharpoonup> int" where
  "last_beat es = fold beat es Map.empty"

definition alive :: "fleet_event list \<Rightarrow> int \<Rightarrow> string set" where
  "alive es now = {addr. \<exists>t. last_beat es addr = Some t \<and> now - MAX_AGE_SEC \<le> t}"

text \<open>The times of the refreshes that reach Redis.\<close>

definition refreshes :: "fleet_event list \<Rightarrow> int list" where
  "refreshes es = List.map_filter (\<lambda>e. case e of Refresh (Some True) now \<Rightarrow> Some now | _ \<Rightarrow> None) es"

lemma run_snoc [simp]: "fleet_run (es @ [e]) = fleet_step e (fleet_run es)" "last_beat (es @ [e]) = beat e (last_beat es)"
  by (simp_all add: fleet_run_def last_beat_def)

lemma refreshes_snoc [simp]:
  "refreshes [] = []"
  "refreshes (es @ [Heartbeat a t]) = refreshes es"
  "refreshes (es @ [Refresh up t]) = refreshes es @ (if up = Some True then [t] else [])"
  by (auto simp: refreshes_def map_filter_def split: option.splits bool.splits)

lemma map_of_filter_values:
  "distinct (map fst z) \<Longrightarrow>
     map_of (filter (\<lambda>p. P (snd p)) z) m = (case map_of z m of Some t \<Rightarrow> if P t then Some t else None | None \<Rightarrow> None)"
proof (induction z)
  case (Cons p z)
  then have "fst p = m \<Longrightarrow> map_of z m = None"
    by (auto simp: map_of_eq_None_iff)
  with Cons show ?case
    by (cases p) (auto split: option.splits)
qed simp

text \<open>The set holds the last heartbeat of every server, but of those that were too old at a refresh.\<close>

lemma zset_holds:
  assumes "sorted (refreshes es)"
  shows "distinct (map fst (fst (fleet_run es))) \<and>
    (\<forall>m. map_of (fst (fleet_run es)) m = last_beat es m \<or>
       map_of (fst (fleet_run es)) m = None \<and> (\<exists>t now. last_beat es m = Some t \<and> now \<in> set (refreshes es) \<and> t < now - MAX_AGE_SEC))"
  using assms
proof (induction es rule: rev_induct)
  case Nil
  then show ?case
    by (simp add: fleet_run_def last_beat_def)
next
  case (snoc e es)
  obtain z f where zf: "fleet_run es = (z, f)"
    by fastforce
  have IH: "distinct (map fst z)"
    "\<And>m. map_of z m = last_beat es m \<or>
       map_of z m = None \<and> (\<exists>t now. last_beat es m = Some t \<and> now \<in> set (refreshes es) \<and> t < now - MAX_AGE_SEC)"
    using snoc zf by (cases e; auto simp: sorted_append split: if_splits)+
  show ?case
  proof (cases e)
    case (Heartbeat a t)
    then show ?thesis
      using IH by (auto simp: zf zadd_def distinct_update update_conv')
  next
    case (Refresh up now)
    show ?thesis
    proof (cases "up = Some True")
      case True
      let ?z = "zremrangebyscore_below (now - MAX_AGE_SEC) z"
      have "map_of ?z m = (case map_of z m of Some t \<Rightarrow> if t < now - MAX_AGE_SEC then None else Some t | None \<Rightarrow> None)" for m
        using map_of_filter_values [OF IH(1), of "\<lambda>t. \<not> t < now - MAX_AGE_SEC" m]
        by (auto simp: zremrangebyscore_below_def split: option.split)
      then have "map_of ?z m = last_beat es m \<or> map_of ?z m = None \<and>
          (\<exists>t n. last_beat es m = Some t \<and> n \<in> set (refreshes (es @ [e])) \<and> t < n - MAX_AGE_SEC)" for m
        using IH(2) [of m] Refresh True by (cases "last_beat es m"; cases "map_of z m") auto
      moreover have "distinct (map fst ?z)"
        using IH(1) by (simp add: zremrangebyscore_below_def distinct_map_filter)
      moreover have "fst (fleet_run (es @ [e])) = ?z" "last_beat (es @ [e]) = last_beat es"
        using Refresh True by (simp_all add: zf refresh_fleet_def getMatchServers_def Let_def)
      ultimately show ?thesis
        by simp
    qed (use IH Refresh zf in \<open>simp add: refresh_fleet_def\<close>)
  qed
qed

lemma quiet_events: "refreshes later = [] \<Longrightarrow> snd (fold fleet_step later st) = snd st"
proof (induction later arbitrary: st)
  case (Cons e es)
  then show ?case
    by (cases st; cases e) (auto simp: refreshes_def map_filter_simps refresh_fleet_def split: option.splits bool.splits)
qed simp

text \<open>What a range of a sorted set lists.\<close>

lemma listed:
  assumes "distinct (map fst z)" and "servers = zrangebyscore_from c z"
  shows "addr \<in> set servers \<longleftrightarrow> (\<exists>t. map_of z addr = Some t \<and> c \<le> t)" and "distinct servers"
    and "\<exists>ts. map (map_of z) servers = map Some ts \<and> sorted ts"
proof -
  let ?z = "filter (\<lambda>p. c \<le> snd p) z"
  let ?L = "sort_key snd (sort_key fst ?z)"
  have s: "servers = map fst ?L"
    by (simp add: assms(2) zrangebyscore_from_def)
  show "addr \<in> set servers \<longleftrightarrow> (\<exists>t. map_of z addr = Some t \<and> c \<le> t)"
    using assms(1) by (force simp: s map_of_eq_Some_iff)
  show "distinct servers"
    using assms(1) by (simp add: s distinct_map_filter distinct_map inj_on_def)
  have "map (map_of z) servers = map Some (map snd ?L)"
    using assms(1) by (simp add: s map_of_eq_Some_iff)
  then show "\<exists>ts. map (map_of z) servers = map Some ts \<and> sorted ts"
    using sorted_sort_key by blast
qed

text \<open>
  [C17] The cache is the fleet. After a refresh that reaches Redis, the cached list has exactly the servers
  whose last heartbeat is at most thirty seconds old, each once, the oldest first; until the next such
  refresh no event changes it. So a match is given the address of a server that was alive then,
  and no address exactly when there was none.
\<close>

theorem fleet_cache_exact:
  assumes "sorted (refreshes (es @ [Refresh (Some True) now]))" and "refreshes later = []"
    and "servers = fl_servers (snd (fleet_run (es @ Refresh (Some True) now # later)))"
  shows "set servers = alive es now \<and> distinct servers \<and>
    (\<exists>ts. map (last_beat es) servers = map Some ts \<and> sorted ts) \<and>
    pickServer servers rnd \<in> (if alive es now = {} then {[]} else alive es now)"
proof -
  obtain z f where zf: "fleet_run es = (z, f)"
    by fastforce
  let ?c = "now - MAX_AGE_SEC"
  have old: "sorted (refreshes es)" "\<forall>t \<in> set (refreshes es). t \<le> now"
    using assms(1) by (simp_all add: sorted_append)
  note holds = zset_holds [OF old(1), unfolded zf, simplified]
  have "servers = fl_servers (snd (fleet_step (Refresh (Some True) now) (z, f)))"
    using assms(3) quiet_events [OF assms(2)] zf by (simp add: fleet_run_def)
  then have "servers = zrangebyscore_from ?c z"
    by (simp add: refresh_fleet_def getMatchServers_def zrangebyscore_from_def zremrangebyscore_below_def Let_def
        not_less conj_absorb)
  note l = listed [OF conjunct1 [OF holds] this]
  have "addr \<in> set servers \<longleftrightarrow> addr \<in> alive es now" for addr
    unfolding l(1) alive_def using holds old(2) by (smt (verit) mem_Collect_eq option.distinct(1) option.inject)
  then have s: "set servers = alive es now"
    by blast
  have "map_of z addr = last_beat es addr" if "addr \<in> set servers" for addr
    using that holds unfolding l(1) by (metis option.distinct(1))
  then have same: "map (last_beat es) servers = map (map_of z) servers"
    by simp
  have "servers ! (rnd mod length servers) \<in> set servers" if "servers \<noteq> []"
    using that by simp
  then have "pickServer servers rnd \<in> (if alive es now = {} then {[]} else alive es now)"
    using s by (auto simp: pickServer_def)
  then show ?thesis
    unfolding same using s l(2,3) by blast
qed

theorem fleet_cache_exact_witness:
  "let es = [Heartbeat ''b'' 100, Heartbeat ''a'' 105, Refresh (Some True) 131, Heartbeat ''c'' 60, Heartbeat ''b'' 120];
       servers = fl_servers (snd (fleet_run (es @ Refresh (Some True) 140 # [Refresh None 141])))
   in servers = [''b''] \<and> set servers = alive es 140 \<and> pickServer servers 5 = ''b''"
proof -
  let ?es = "[Heartbeat ''b'' 100, Heartbeat ''a'' 105, Refresh (Some True) 131, Heartbeat ''c'' 60, Heartbeat ''b'' 120]"
  let ?servers = "fl_servers (snd (fleet_run (?es @ Refresh (Some True) 140 # [Refresh None 141])))"
  have "?servers = [''b'']"
    by code_simp
  moreover have "set ?servers = alive ?es 140"
    using fleet_cache_exact [of ?es 140 "[Refresh None 141]" ?servers 0] by (simp add: refreshes_def map_filter_def)
  ultimately show ?thesis
    by (simp add: pickServer_def)
qed

end
