(* ===== verification/Bus.thy ===== *)
theory Bus
  imports Redis Jwt SettlementProps
begin

text \<open>
  The messages of the bus (\<open>src/bus/index.js\<close>, \<open>src/bus/instance.js\<close>): the envelope around a payload, the
  durable streams and the lossy channels it travels on, the shared instance, and the scan of the
  presence keys. The protobuf codec of \<open>src/bus/proto.js\<close> is a parameter; a stream is the list of its
  entries, each the flat list of keys and values Redis returns. \<open>MAXLEN ~\<close> removes entries of streams
  beyond \<open>STREAM_MAXLEN\<close> only, and the model keeps to shorter ones; connections and their retries are I/O.
\<close>

section \<open>Envelopes\<close>

record envelope =
  en_type :: string
  en_source :: string
  en_correlation_id :: string
  en_ts_unix_ms :: int
  en_payload :: bytes

record bus_codec =
  bc_verify :: "string \<Rightarrow> js \<Rightarrow> string option"
  bc_encode :: "string \<Rightarrow> js \<Rightarrow> bytes"
  bc_decode :: "string \<Rightarrow> bytes \<Rightarrow> js option"
  bc_envelope :: "envelope \<Rightarrow> bytes"
  bc_open :: "bytes \<Rightarrow> envelope option"

record bus =
  bu_url :: string
  bu_source :: string
  bu_node :: string

definition new_bus :: "string \<Rightarrow> string \<Rightarrow> string \<Rightarrow> exn + bus" where
  "new_bus url source node =
     (if url = [] then Inl (Thrown ''bus: url (REDIS_URL) is required'')
      else if source = [] then Inl (Thrown ''bus: source (this layer name) is required'')
      else Inr \<lparr>bu_url = url, bu_source = source, bu_node = str_or node source\<rparr>)"

definition bus_encode :: "bus_codec \<Rightarrow> string \<Rightarrow> js \<Rightarrow> exn + bytes" where
  "bus_encode C typeName obj =
     (case bc_verify C typeName obj of
        Some bad \<Rightarrow> Inl (Thrown (''bus encode '' @ typeName @ '': '' @ bad))
      | None \<Rightarrow> Inr (bc_encode C typeName obj))"

definition wrap :: "bus_codec \<Rightarrow> bus \<Rightarrow> string \<Rightarrow> string \<Rightarrow> js \<Rightarrow> int \<Rightarrow> exn + bytes" where
  "wrap C b type payloadType obj now =
     (case bus_encode C payloadType obj of
        Inl e \<Rightarrow> Inl e
      | Inr payload \<Rightarrow>
          Inr (bc_envelope C \<lparr>en_type = type, en_source = bu_source b, en_correlation_id = [], en_ts_unix_ms = now,
                              en_payload = payload\<rparr>))"

section \<open>Streams\<close>

definition STREAM_MAXLEN :: nat where "STREAM_MAXLEN = 100000"

type_synonym raw_stream = "bytes list list"

definition publish_stream :: "bus_codec \<Rightarrow> bus \<Rightarrow> string \<Rightarrow> string \<Rightarrow> js \<Rightarrow> int \<Rightarrow> raw_stream \<Rightarrow> (exn + unit) \<times> raw_stream" where
  "publish_stream C b type payloadType obj now es =
     (case wrap C b type payloadType obj now of
        Inl e \<Rightarrow> (Inl e, es)
      | Inr env \<Rightarrow> (Inr (), es @ [[str_bytes ''env'', env]]))"

fun envFromFields :: "bus_codec \<Rightarrow> bytes list \<Rightarrow> envelope option" where
  "envFromFields C (k # v # rest) = (if k = str_bytes ''env'' then bc_open C v else envFromFields C rest)"
| "envFromFields C _ = None"

text \<open>\<open>Bus.payload\<close> in a handler: a payload that does not decode makes the handler throw.\<close>

definition payload :: "bus_codec \<Rightarrow> envelope \<Rightarrow> string \<Rightarrow> exn + js" where
  "payload C env payloadType =
     (case bc_decode C payloadType (en_payload env) of None \<Rightarrow> Inl (Thrown ''decode'') | Some x \<Rightarrow> Inr x)"

definition on_payload :: "bus_codec \<Rightarrow> string \<Rightarrow> (js \<Rightarrow> ('d, 'a) query) \<Rightarrow> envelope \<Rightarrow> ('d, 'a) query" where
  "on_payload C payloadType handler env d =
     (case payload C env payloadType of Inl e \<Rightarrow> (Inl e, d) | Inr x \<Rightarrow> handler x d)"

text \<open>The loop of \<open>subscribeStream\<close> is \<open>poll\<close>, on the entries as \<open>envFromFields\<close> reads them.\<close>

definition subscribeStream :: "bus_codec \<Rightarrow> (envelope \<Rightarrow> ('d, 'a) query) \<Rightarrow> nat \<Rightarrow> raw_stream \<Rightarrow> 'd \<Rightarrow> envelope stream \<times> 'd" where
  "subscribeStream C handler n es d = (poll handler ^^ n) (new_stream (map (envFromFields C) es), d)"

section \<open>Channels\<close>

text \<open>A message of a channel: dropped when it does not decode; an error of the handler is logged.\<close>

definition on_ps :: "bus_codec \<Rightarrow> (envelope \<Rightarrow> ('d, 'a) query) \<Rightarrow> bytes \<Rightarrow> 'd \<Rightarrow> 'd" where
  "on_ps C handler message d = (case bc_open C message of None \<Rightarrow> d | Some env \<Rightarrow> snd (handler env d))"

section \<open>The shared instance\<close>

record bus_slot =
  bs_created :: bool
  bs_bus :: "bus option"

record bus_config =
  bg_url :: string
  bg_source :: string
  bg_nodeId :: string

definition getBus :: "bus_config \<Rightarrow> bus_slot \<Rightarrow> bus option \<times> bus_slot" where
  "getBus G s =
     (if bs_created s then (bs_bus s, s)
      else if bg_url G = [] then (None, \<lparr>bs_created = True, bs_bus = None\<rparr>)
      else (case new_bus (bg_url G) (str_or (str_or (bg_source G) (bg_nodeId G)) ''node'') (bg_nodeId G) of
              Inl _ \<Rightarrow> (None, \<lparr>bs_created = True, bs_bus = None\<rparr>)
            | Inr b \<Rightarrow> (Some b, \<lparr>bs_created = True, bs_bus = Some b\<rparr>)))"

text \<open>There is a bus exactly when a URL is configured, and it is the same one ever after.\<close>

lemma getBus_once:
  assumes "getBus G \<lparr>bs_created = False, bs_bus = None\<rparr> = (b, s)"
  shows "(b \<noteq> None \<longleftrightarrow> bg_url G \<noteq> []) \<and> getBus G' s = (b, s)"
  using assms by (auto simp: getBus_def new_bus_def str_or_def split: if_splits)

section \<open>Presence\<close>

text \<open>\<open>scanned\<close> are the accounts of the keys the scan returned, which may repeat; the values are read
  afterwards.\<close>

definition scanPresence :: "'r redis \<Rightarrow> int list \<Rightarrow> 'r \<Rightarrow> (int \<times> string) list" where
  "scanPresence R scanned r =
     fold (\<lambda>i out. case getNode R i r of Some n \<Rightarrow> if n = [] then out else AList.update i n out | None \<Rightarrow> out) scanned []"

lemma scanPresence_nodes: "map_of (scanPresence R scanned r) = getNodes R scanned r"
proof -
  have "map_of (fold (\<lambda>i out. case getNode R i r of Some n \<Rightarrow> if n = [] then out else AList.update i n out | None \<Rightarrow> out) is out) j =
      (if j \<in> set is \<and> getNodes R is r j \<noteq> None then getNodes R is r j else map_of out j)" for "is" out j
    by (induction "is" arbitrary: out) (auto simp: getNodes_def update_conv' split: option.split)
  then show ?thesis
    by (auto simp: scanPresence_def getNodes_def fun_eq_iff)
qed

section \<open>What is published is handled\<close>

fun publish_all :: "bus_codec \<Rightarrow> bus \<Rightarrow> string \<Rightarrow> string \<Rightarrow> (js \<times> int) list \<Rightarrow> raw_stream \<Rightarrow> raw_stream" where
  "publish_all C b type payloadType [] es = es"
| "publish_all C b type payloadType ((obj, now) # objs) es =
     publish_all C b type payloadType objs (snd (publish_stream C b type payloadType obj now es))"

text \<open>Two streams whose messages the handlers treat alike, position by position.\<close>

lemma feed_alike:
  assumes "\<forall>i \<in> set is. \<exists>x y. es ! i = Some x \<and> fs ! i = Some y \<and> h x = g y"
  shows "feed h (map (\<lambda>i. (i, es ! i)) is) d = feed g (map (\<lambda>i. (i, fs ! i)) is) d"
  using assms
proof (induction "is" arbitrary: d)
  case (Cons i "is")
  then obtain x y where "es ! i = Some x" "fs ! i = Some y" "h x = g y"
    by auto
  with Cons show ?case
    by (simp split: prod.split sum.split)
qed simp

lemma published_opens:
  assumes "\<And>e. bc_open C (bc_envelope C e) = Some e" and "\<forall>x \<in> set objs. bc_verify C payloadType (fst x) = None"
  shows "map (envFromFields C) (publish_all C b type payloadType objs es) =
    map (envFromFields C) es @
    map (\<lambda>x. Some \<lparr>en_type = type, en_source = bu_source b, en_correlation_id = [], en_ts_unix_ms = snd x,
                   en_payload = bc_encode C payloadType (fst x)\<rparr>) objs"
  using assms(2)
proof (induction objs arbitrary: es)
  case (Cons x objs)
  then show ?case
    by (cases x) (simp add: publish_stream_def wrap_def bus_encode_def assms(1))
qed simp

theorem published_is_handled:
  assumes "\<And>e. bc_open C (bc_envelope C e) = Some e" and "\<forall>x \<in> set objs. bc_verify C payloadType (fst x) = None"
    and "\<forall>x \<in> set objs. bc_decode C payloadType (bc_encode C payloadType (fst x)) = Some (fst x)"
    and "length objs \<le> COUNT * n" and "length objs \<le> STREAM_MAXLEN"
  shows "snd (subscribeStream C (on_payload C payloadType handler) n (publish_all C b type payloadType objs []) d) =
      snd (feed handler (entries (map (\<lambda>x. Some (fst x)) objs)) d)"
proof -
  define es where "es = map (envFromFields C) (publish_all C b type payloadType objs [])"
  let ?h = "on_payload C payloadType handler"
  have opens: "es = map (\<lambda>x. Some \<lparr>en_type = type, en_source = bu_source b, en_correlation_id = [], en_ts_unix_ms = snd x,
                   en_payload = bc_encode C payloadType (fst x)\<rparr>) objs"
    unfolding es_def by (simp only: published_opens [OF assms(1,2)]) simp
  then have len: "length es = length objs"
    by simp
  have "feed ?h (entries es) d = feed handler (entries (map (\<lambda>x. Some (fst x)) objs)) d"
    unfolding entries_def len length_map
  proof (rule feed_alike, intro ballI)
    fix i
    assume "i \<in> set [0..<length objs]"
    then have i: "i < length objs"
      by simp
    let ?e = "\<lparr>en_type = type, en_source = bu_source b, en_correlation_id = [], en_ts_unix_ms = snd (objs ! i),
      en_payload = bc_encode C payloadType (fst (objs ! i))\<rparr>"
    have "es ! i = Some ?e"
      using i by (simp add: opens)
    moreover have "?h ?e = handler (fst (objs ! i))"
      using i assms(3) by (simp add: on_payload_def payload_def fun_eq_iff)
    ultimately show "\<exists>x y. es ! i = Some x \<and> map (\<lambda>x. Some (fst x)) objs ! i = Some y \<and> ?h x = handler y"
      using i by simp
  qed
  moreover have "take (COUNT * n) (entries es) = entries es"
    using assms(4) len by (simp add: entries_def)
  ultimately show ?thesis
    by (simp add: subscribeStream_def polls_feed Let_def es_def)
qed

end
