(* ===== verification/AdminCli.thy ===== *)
theory AdminCli
  imports AdminCore
begin

text \<open>
  The admin console (\<open>scripts/admin.js\<close>): the command line, the dispatch of a command to the core and the
  text it prints, one command or one line of the console after the other. \<open>pretty\<close> is
  \<open>JSON.stringify(obj, null, 2)\<close>.
\<close>

section \<open>The command line\<close>

definition newline :: string where "newline = [CHR 0x0A]"

definition join_with :: "string \<Rightarrow> string list \<Rightarrow> string" where
  "join_with sep xs = (case xs of [] \<Rightarrow> [] | y # ys \<Rightarrow> y @ concat (map (\<lambda>x. sep @ x) ys))"

text \<open>\<open>--actor NAME\<close> anywhere; a flag at the end, or before an empty argument, is no flag.\<close>

fun extractActor :: "string list \<Rightarrow> string option \<times> string list" where
  "extractActor [] = (None, [])"
| "extractActor (a # rest) =
     (if a = ''--actor''
      then (case rest of n # others \<Rightarrow> if n \<noteq> [] then (Some n, others) else (None, a # rest) | [] \<Rightarrow> (None, [a]))
      else (case extractActor rest of (actor, left) \<Rightarrow> (actor, a # left)))"

section \<open>Output\<close>

definition HELP :: string where
  "HELP = join_with newline
     [''commands:'',
      ''  whois <id>              show a player (nickname, role, banned, online node)'',
      ''  nick  <id> <name...>    set nickname'',
      ''  role  <id> <n>          set role (integer)'',
      ''  kick  <id> [reason...]  TCP + match kick (drops lobby socket + ejects match)'',
      ''  ban   <id> [reason...]  set ban flags (game + auth) and kick'',
      ''  unban <id>              clear ban flags'',
      ''  online                  list online players (uid -> node)'',
      ''  stats                   online count, matchmaking queue, match fleet, redis/pg'',
      ''  find  <name...>         search players by nickname'',
      ''  help                    this text'',
      ''  quit                    exit (REPL only)'']"

definition fmtWhois :: "js \<Rightarrow> string" where
  "fmtWhois w =
     (if \<not> tru (fld w ''found'')
      then ''not found'' @ (if tru (fld w ''error'') then '' ('' @ str (fld w ''error'') @ '')'' else []) @
           (if tru (fld w ''uid'') then '' uid='' @ str (fld w ''uid'') else [])
      else join_with newline
        [''uid       '' @ str (fld w ''uid''),
         ''nickname  '' @ str (fld w ''nickname''),
         ''open_id   '' @ str (jor (fld w ''open_id'') (JStr ''-'')),
         ''role      '' @ str (fld w ''role''),
         ''level     '' @ str (fld w ''level''),
         ''banned    '' @ str (fld w ''banned'') @
           (if tru (fld w ''auth'') \<and> tru (fld (fld w ''auth'') ''ban_reason'')
            then '' ('' @ str (fld (fld w ''auth'') ''ban_reason'') @ '')'' else []),
         ''online    '' @ (if tru (fld w ''online'') then ''yes @ '' @ str (fld w ''node'') else ''no'')])"

definition fmtOnline :: "js \<Rightarrow> string" where
  "fmtOnline l =
     (let ps = elems l in
      if ps = [] then ''(nobody online)''
      else int_str (int (length ps)) @ '' online:'' @ newline @
        join_with newline (map (\<lambda>p. ''  '' @ str (fld p ''uid'') @ ''  @ '' @ str (fld p ''node'')) ps))"

definition fmtStats :: "js \<Rightarrow> string" where
  "fmtStats s =
     join_with newline
       [''online         '' @ str (fld s ''online''),
        ''mm queue       '' @ str (fld s ''queue''),
        ''match servers  '' @ (let ms = elems (fld s ''matchServers'')
                              in if ms \<noteq> [] then join_with '', '' (map str ms) else ''(none)''),
        ''redis          '' @ (if tru (fld s ''redis'') then ''up'' else ''down''),
        ''postgres       '' @ (if tru (fld s ''postgres'') then ''up'' else ''down'')]"

definition fmtFind :: "js \<Rightarrow> string" where
  "fmtFind l =
     (let ps = elems l in
      if ps = [] then ''(no matches)''
      else join_with newline
        (map (\<lambda>p. ''  '' @ str (fld p ''uid'') @ ''  '' @ str (fld p ''nickname'') @ ''  (lvl '' @ str (fld p ''level'') @ '')'') ps))"

section \<open>Commands\<close>

text \<open>\<open>rest[i]\<close>, and \<open>rest.slice(1).join(' ') || undefined\<close>.\<close>

definition arg :: "string list \<Rightarrow> nat \<Rightarrow> js" where
  "arg rest i = (if i < length rest then JStr (rest ! i) else JUndef)"

definition reason_arg :: "string list \<Rightarrow> js" where
  "reason_arg rest = (let r = join_with '' '' (drop 1 rest) in if r = [] then JUndef else JStr r)"

definition printed :: "(js \<Rightarrow> string) \<Rightarrow> (exn + js) \<times> 'd admin \<Rightarrow> (exn + string) \<times> 'd admin" where
  "printed f r = (case r of (Inl e, s) \<Rightarrow> (Inl e, s) | (Inr x, s) \<Rightarrow> (Inr (f x), s))"

definition dispatch_command ::
  "(js \<Rightarrow> string) \<Rightarrow> 'd admin_env \<Rightarrow> string list \<Rightarrow> 'd admin \<Rightarrow> (exn + string) \<times> 'd admin" where
  "dispatch_command pretty A args s =
     (case args of
        [] \<Rightarrow> (Inr [], s)
      | verb # rest \<Rightarrow>
          (let i = arg rest 0 in
           if verb = [] then (Inr [], s)
           else if verb = ''whois'' then (Inr (fmtWhois (whois A i s)), s)
           else if verb = ''nick'' \<or> verb = ''nickname''
             then printed pretty (setNickname A i (JStr (join_with '' '' (drop 1 rest))) s)
           else if verb = ''role'' then printed pretty (setRole A i (arg rest 1) s)
           else if verb = ''kick'' then printed pretty (kick A i (reason_arg rest) s)
           else if verb = ''ban'' then printed pretty (ban A i (reason_arg rest) s)
           else if verb = ''unban'' then printed pretty (unban A i s)
           else if verb = ''online'' then (Inr (fmtOnline (online_players A)), s)
           else if verb = ''stats'' then (Inr (fmtStats (stats A)), s)
           else if verb = ''find'' then (Inr (fmtFind (find_players A (JStr (join_with '' '' rest)) s)), s)
           else if verb = ''help'' \<or> verb = ''?'' then (Inr HELP, s)
           else (Inr (''unknown command: '' @ verb @ '' (try '' @ [CHR 0x27] @ ''help'' @ [CHR 0x27] @ '')''), s)))"

text \<open>\<open>line.trim().split(/\s+/).filter(Boolean)\<close>.\<close>

function words_of :: "string \<Rightarrow> string list" where
  "words_of s =
     (let t = dropWhile is_ws s
      in if t = [] then [] else takeWhile (\<lambda>c. \<not> is_ws c) t # words_of (dropWhile (\<lambda>c. \<not> is_ws c) t))"
  by pat_completeness auto
termination
proof (relation "measure length")
  fix s t
  assume t: "t = dropWhile is_ws s" "t \<noteq> []"
  then have "\<not> is_ws (hd t)"
    by (simp add: hd_dropWhile)
  then have "length (dropWhile (\<lambda>c. \<not> is_ws c) t) < length t"
    using t(2) by (cases t) (simp_all add: le_imp_less_Suc length_dropWhile_le)
  also have "\<dots> \<le> length s"
    by (simp add: t(1) length_dropWhile_le)
  finally show "(dropWhile (\<lambda>c. \<not> is_ws c) t, s) \<in> measure length"
    by simp
qed simp

declare words_of.simps [simp del]

lemma words_of_nil [simp]: "words_of [] = []"
  by (subst words_of.simps) simp

definition message_of :: "exn \<Rightarrow> string" where
  "message_of e = (case e of Thrown m \<Rightarrow> m | RoomErr _ \<Rightarrow> [])"

datatype console = Out string | Err string

text \<open>The console: its lines until \<open>quit\<close>, an error of a command does not end it.\<close>

fun runRepl :: "(js \<Rightarrow> string) \<Rightarrow> 'd admin_env \<Rightarrow> string list \<Rightarrow> 'd admin \<Rightarrow> console list \<times> 'd admin" where
  "runRepl pretty A [] s = ([], s)"
| "runRepl pretty A (line # lines) s =
     (case words_of line of
        [] \<Rightarrow> runRepl pretty A lines s
      | verb # rest \<Rightarrow>
          if verb = ''quit'' \<or> verb = ''exit'' then ([], s)
          else (case dispatch_command pretty A (verb # rest) s of
                  (res, s1) \<Rightarrow>
                    (case runRepl pretty A lines s1 of
                       (out, s2) \<Rightarrow> ((case res of Inr t \<Rightarrow> Out t | Inl e \<Rightarrow> Err (''error: '' @ message_of e)) # out, s2))))"

text \<open>\<open>main\<close>: what is printed, the exit code and the new state. Of the stack of an error only its message is kept;
  the greeting and the prompts of the console are left out, and the actor only enters the audit lines.\<close>

definition admin_main ::
  "(js \<Rightarrow> string) \<Rightarrow> 'd admin_env \<Rightarrow> string list \<Rightarrow> string list \<Rightarrow> 'd admin \<Rightarrow> console list \<times> int \<times> 'd admin" where
  "admin_main pretty A argv0 lines s =
     (let argv = snd (extractActor argv0) in
      if argv = [] then (case runRepl pretty A lines s of (out, s1) \<Rightarrow> (out, 0, s1))
      else (case dispatch_command pretty A argv s of
              (Inl e, s1) \<Rightarrow> ([Err (''error: '' @ message_of e)], 1, s1)
            | (Inr t, s1) \<Rightarrow> (if t = [] then [] else [Out t], 0, s1)))"

end
