(* ===== verification/AdminProps.thy ===== *)
theory AdminProps
  imports AdminCli HttpProps
begin

text \<open>
  Properties of the admin console: a command typed at the prompt is the command given on the command
  line, and what a ban does to a player, from the console to the login handlers of the HTTP tier, until
  it is lifted.
\<close>

section \<open>The prompt\<close>

lemma words_of_space: "is_ws c \<Longrightarrow> words_of (c # s) = words_of s"
  by (subst (1 2) words_of.simps) simp

lemma words_of_word:
  assumes "w \<noteq> []" and "\<forall>c \<in> set w. \<not> is_ws c" and "s = [] \<or> is_ws (hd s)"
  shows "words_of (w @ s) = w # words_of s"
proof -
  have "dropWhile is_ws (w @ s) = w @ s"
    using assms(1,2) by (cases w) auto
  moreover have "takeWhile (\<lambda>c. \<not> is_ws c) (w @ s) = w" "dropWhile (\<lambda>c. \<not> is_ws c) (w @ s) = s"
    using assms(2,3) by (cases s; simp add: takeWhile_append2 dropWhile_append2)+
  ultimately show ?thesis
    using assms(1) by (subst words_of.simps) simp
qed

lemma space_cons: "(@) '' '' = (#) (CHR '' '')"
  by (simp add: fun_eq_iff)

lemma words_of_join:
  assumes "\<forall>w \<in> set ws. w \<noteq> [] \<and> (\<forall>c \<in> set w. \<not> is_ws c)"
  shows "words_of (join_with '' '' ws) = ws"
proof -
  have sp: "is_ws CHR '' ''"
    by (simp add: is_ws_def)
  then have sep: "concat (map (\<lambda>x. '' '' @ x) vs) = [] \<or> is_ws (hd (concat (map (\<lambda>x. '' '' @ x) vs)))" for vs
    by (cases vs) simp_all
  have tail: "words_of (concat (map (\<lambda>x. '' '' @ x) ws)) = ws" if "\<forall>w \<in> set ws. w \<noteq> [] \<and> (\<forall>c \<in> set w. \<not> is_ws c)" for ws
    using that
  proof (induction ws)
    case (Cons w ws)
    have "words_of (w @ concat (map (\<lambda>x. '' '' @ x) ws)) = w # words_of (concat (map (\<lambda>x. '' '' @ x) ws))"
      using Cons.prems by (intro words_of_word sep) simp_all
    with Cons sp show ?case
      by (simp add: words_of_space)
  qed simp
  show ?thesis
  proof (cases ws)
    case (Cons w vs)
    have "join_with '' '' ws = w @ concat (map (\<lambda>x. '' '' @ x) vs)"
      by (simp add: Cons join_with_def space_cons)
    then have "words_of (join_with '' '' ws) = w # words_of (concat (map (\<lambda>x. '' '' @ x) vs))"
      using assms Cons words_of_word [OF _ _ sep, of w vs] by simp
    with Cons tail [of vs] assms show ?thesis
      by simp
  qed (simp add: join_with_def)
qed

text \<open>One line at the prompt, and the same words as arguments.\<close>

lemma prompt_is_command_line:
  assumes "\<forall>w \<in> set (verb # rest). w \<noteq> [] \<and> (\<forall>c \<in> set w. \<not> is_ws c)" and "verb \<notin> {''quit'', ''exit''}"
    and "''--actor'' \<notin> set (verb # rest)"
  shows "snd (runRepl pretty A [join_with '' '' (verb # rest)] s) = snd (snd (admin_main pretty A (verb # rest) [] s))"
proof -
  have "extractActor ws = (None, ws)" if "''--actor'' \<notin> set ws" for ws
    using that by (induction ws) auto
  from this [OF assms(3)] words_of_join [OF assms(1)] assms(2) show ?thesis
    by (simp add: admin_main_def split: prod.split sum.split)
qed

section \<open>A ban\<close>

lemma admin_frames:
  "setAuthBan A oid uid b reason s = (r, s') \<Longrightarrow> ad_db s' = ad_db s \<and> ad_events s' = ad_events s"
  "admin_revoke A uid why s = (kvs, s') \<Longrightarrow>
     ad_db s' = ad_db s \<and> ad_events s' = ad_events s @ (if ae_bus A then [SessionRevoke uid why] else [])"
  "ad_db (audit A action uid args s) = ad_db s" "ad_events (audit A action uid args s) = ad_events s"
  "ad_db (publishUpdated A uid s) = ad_db s"
  by (auto simp: setAuthBan_def admin_revoke_def ad_publish_def audit_def publishUpdated_def Let_def
      split: if_splits option.splits)

definition with_ban :: "bool \<Rightarrow> js \<Rightarrow> js \<Rightarrow> js" where
  "with_ban banned reason a = put ''ban_reason'' reason (put ''banned'' (JBool banned) a)"

lemma with_ban_ok:
  assumes "doc_ok a" and "json_ok reason"
  shows "doc_ok (with_ban b reason a)" and "fld (with_ban b reason a) ''uid'' = fld a ''uid''"
    and "fld (with_ban b reason a) ''open_id'' = fld a ''open_id''" and "fld (with_ban b reason a) ''banned'' = JBool b"
    and "k \<notin> {''banned'', ''ban_reason''} \<Longrightarrow> fld (with_ban b reason a) k = fld a k"
  using assms by (auto simp: with_ban_def doc_ok_def intro!: json_ok_put)

text \<open>Reading an account and saving it with other flags, on either backend.\<close>

lemma repo_reads:
  assumes "db_ok d" and "acct d i = Some a"
  shows "rp_getById (getRepo url guest) (JNum i) d = a" and "tru a" and "i \<noteq> 0"
proof -
  show "i \<noteq> 0" "tru a"
    using acct_docs_ok [OF assms] by (auto simp: doc_ok_def is_obj_tru)
  then show "rp_getById (getRepo url guest) (JNum i) d = a"
    using assms pg.by_id [of d i guest] sqlite.by_id [of d i guest] by (simp add: getRepo_def)
qed

lemma flag_saved:
  assumes "db_ok (ad_db s)" and "ae_repo A = getRepo url guest" and "acct (ad_db s) i = Some a" and "json_ok reason"
  obtains s' where "ad_save A (with_ban b reason a) s = (Inr (stamp (ae_now A) (with_ban b reason a)), s')" "db_ok (ad_db s')"
    "acct (ad_db s') = (acct (ad_db s))(i \<mapsto> stamp (ae_now A) (with_ban b reason a))" "ad_events s' = ad_events s"
proof -
  have a: "doc_ok a" "fld a ''uid'' = JNum i"
    using acct_docs_ok [OF assms(1,3)] by simp_all
  have q: "rp_save (ae_repo A) = save"
    using assms(2) by (simp add: getRepo_def pg_repo_def sqlite_repo_def)
  obtain d' where d': "save (ae_now A) (with_ban b reason a) (ad_db s) = (Inr (stamp (ae_now A) (with_ban b reason a)), d')"
      "db_ok d'" "acct d' = (acct (ad_db s))(i \<mapsto> stamp (ae_now A) (with_ban b reason a))"
    using acct_saves [OF assms(1,3) with_ban_ok(1) [OF a(1) assms(4), of b], of "ae_now A"]
      with_ban_ok(2,3) [OF a(1) assms(4), of b] a(2) by fastforce
  show thesis
    by (rule that [of "s\<lparr>ad_db := d'\<rparr>"]) (simp_all add: ad_save_def q d')
qed

lemma ban_known:
  assumes "db_ok (ad_db s)" and "ae_repo A = getRepo url guest" and "num v = Some i" and "acct (ad_db s) i = Some a"
    and "ban A v reason s = (res, s1)"
  shows "db_ok (ad_db s1) \<and>
    acct (ad_db s1) = (acct (ad_db s))(i \<mapsto> stamp (ae_now A) (with_ban True (JStr (str (jor reason (JStr ''banned by admin'')))) a)) \<and>
    (\<exists>r. res = Inr r \<and> fld r ''ok'' = JBool True) \<and>
    (ae_bus A \<longrightarrow> SessionRevoke i (str (jor reason (JStr ''banned by admin''))) \<in> set (ad_events s1))"
proof -
  let ?why = "jor reason (JStr ''banned by admin'')"
  let ?a = "with_ban True (JStr (str ?why)) a"
  note r = repo_reads(1) [OF assms(1,4), of url guest] repo_reads(2,3) [OF assms(1,4)]
  obtain s2 where s2: "ad_save A ?a s = (Inr (stamp (ae_now A) ?a), s2)" "db_ok (ad_db s2)"
    "acct (ad_db s2) = (acct (ad_db s))(i \<mapsto> stamp (ae_now A) ?a)" "ad_events s2 = ad_events s"
    by (rule flag_saved [OF assms(1,2,4), of "JStr (str ?why)" True]) simp
  obtain af s3 where s3: "setAuthBan A (fld a ''open_id'') i True ?why s2 = (af, s3)"
    by fastforce
  obtain kvs s4 where s4: "admin_revoke A i (str ?why) s3 = (kvs, s4)"
    by fastforce
  show ?thesis
    using assms(2,3,5) r s2 s3 s4 admin_frames(1) [OF s3] admin_frames(2) [OF s4]
    by (auto simp: ban_def Let_def num0_def with_ban_def admin_frames(3,4))
qed

lemma unban_known:
  assumes "db_ok (ad_db s)" and "ae_repo A = getRepo url guest" and "num v = Some i" and "acct (ad_db s) i = Some a"
    and "fld a ''banned'' = JBool True" and "unban A v s = (res, s1)"
  shows "db_ok (ad_db s1) \<and> acct (ad_db s1) = (acct (ad_db s))(i \<mapsto> stamp (ae_now A) (with_ban False JNull a))"
proof -
  let ?a = "with_ban False JNull a"
  note r = repo_reads(1) [OF assms(1,4), of url guest] repo_reads(2,3) [OF assms(1,4)]
  obtain s2 where s2: "ad_save A ?a s = (Inr (stamp (ae_now A) ?a), s2)" "db_ok (ad_db s2)"
    "acct (ad_db s2) = (acct (ad_db s))(i \<mapsto> stamp (ae_now A) ?a)" "ad_events s2 = ad_events s"
    by (rule flag_saved [OF assms(1,2,4), of JNull False]) simp
  obtain af s3 where s3: "setAuthBan A (fld a ''open_id'') i False JNull (publishUpdated A i s2) = (af, s3)"
    by fastforce
  show ?thesis
    using assms(2,3,5,6) r s2 s3 admin_frames(1) [OF s3]
    by (auto simp: unban_def Let_def num0_def with_ban_def admin_frames(3,5))
qed

text \<open>The document of the account while it is banned and after, for every field but those of the ban
  and of the stamp.\<close>

lemma stamped_ban:
  assumes "doc_ok a" and "fld a ''uid'' = JNum i" and "i \<noteq> 0" and "json_ok reason"
  shows "doc_ok (stamp now (with_ban b reason a))" and "fld (stamp now (with_ban b reason a)) ''uid'' = JNum i"
    and "fld (stamp now (with_ban b reason a)) ''banned'' = JBool b"
    and "k \<notin> {''uid'', ''account_id'', ''last_login_at'', ''banned'', ''ban_reason''} \<Longrightarrow>
      fld (stamp now (with_ban b reason a)) k = fld a k"
  using doc_ok_stamp [where now = now and i = i, OF with_ban_ok(1) [OF assms(1,4), of b]]
    with_ban_ok [where b = b, OF assms(1,4)] assms(2,3)
  by simp_all

text \<open>
  [C27] What a ban from the console does. The account, on either backend, is flagged and nobody else's is
  touched; its sessions on the gateways and match servers are told to end; and as long as the flag
  stands, with bans enforced, \<open>MajorLogin\<close> and \<open>PlatformLogin\<close> refuse it and change nothing. Its token,
  however, goes on leading to the account, so a player who is logged in keeps using the HTTP endpoints.
  Lifting the ban restores every field of the document but those of the ban and the login stamp.
\<close>

theorem admin_ban_cycle:
  assumes "db_ok (ad_db s)" and "ae_repo A = getRepo url guest" and "num v = Some i" and "acct (ad_db s) i = Some a"
    and "ban A v reason s = (res, s1)" and "unban A v s1 = (res', s2)"
    and "he_repo E = getRepo url guest" and "cf_enforceBans (he_cfg E)" and "hc_sent c = None" and "hc_db c = ad_db s1"
    and "fld a ''open_id'' = JStr (deriveOpenId (he_guest E) q)" and "gated_login agora E q c = (out, c')"
  shows "(\<exists>r. res = Inr r \<and> fld r ''ok'' = JBool True) \<and>
    (\<forall>j. j \<noteq> i \<longrightarrow> acct (ad_db s1) j = acct (ad_db s) j \<and> acct (ad_db s2) j = acct (ad_db s) j) \<and>
    (ae_bus A \<longrightarrow> SessionRevoke i (str (jor reason (JStr ''banned by admin''))) \<in> set (ad_events s1)) \<and>
    hc_sent c' \<noteq> None \<and> hc_db c' = hc_db c \<and>
    (fld a ''token'' = JStr t \<and> t \<noteq> [] \<and> fresh_token acct (ad_db s) t i \<longrightarrow>
       fld (rp_getByToken (getRepo url guest) (JStr t) (ad_db s1)) ''uid'' = JNum i) \<and>
    (\<exists>d. acct (ad_db s2) i = Some d \<and> fld d ''banned'' = JBool False \<and>
       (\<forall>k. k \<notin> {''uid'', ''account_id'', ''last_login_at'', ''banned'', ''ban_reason''} \<longrightarrow> fld d k = fld a k))"
proof -
  let ?b = "stamp (ae_now A) (with_ban True (JStr (str (jor reason (JStr ''banned by admin'')))) a)"
  let ?d = "stamp (ae_now A) (with_ban False JNull ?b)"
  have a: "doc_ok a" "fld a ''uid'' = JNum i" "i \<noteq> 0"
    using acct_docs_ok [OF assms(1,4)] by auto
  note s1 = ban_known [OF assms(1-5)]
  have db1: "db_ok (ad_db s1)" and acct1: "acct (ad_db s1) i = Some ?b"
    using s1 by simp_all
  have b: "doc_ok ?b" "fld ?b ''uid'' = JNum i" "fld ?b ''banned'' = JBool True"
    "k \<notin> {''uid'', ''account_id'', ''last_login_at'', ''banned'', ''ban_reason''} \<Longrightarrow> fld ?b k = fld a k" for k
    by (rule stamped_ban [OF a], simp)+
  note s2 = unban_known [OF db1 assms(2,3) acct1 b(3) assms(6)]
  have d: "fld ?d ''banned'' = JBool False"
    "k \<notin> {''uid'', ''account_id'', ''last_login_at'', ''banned'', ''ban_reason''} \<Longrightarrow> fld ?d k = fld a k" for k
    using stamped_ban(3,4) [OF b(1,2) a(3), of JNull] b(4) by simp_all
  have oid: "fld ?b ''open_id'' = JStr (deriveOpenId (he_guest E) q)"
    using b(4) [of "''open_id''"] assms(11) by simp
  have "rp_getByOpenId (he_repo E) (JStr (deriveOpenId (he_guest E) q)) (hc_db c) = ?b"
    using pg.by_open_id [where guest = guest, OF db1 acct1 oid deriveOpenId_nonempty] assms(7,10)
      sqlite.by_open_id [where guest = guest, OF db1 acct1 oid deriveOpenId_nonempty] getRepo_cases [of url guest] by auto
  from banned_refused [OF assms(8,9) this repo_reads(2) [OF db1 acct1] b(3) assms(12)]
  have "hc_sent c' \<noteq> None \<and> hc_db c' = hc_db c" .
  moreover have "rp_getByToken (getRepo url guest) (JStr t) (ad_db s1) = ?b"
    if "fld a ''token'' = JStr t" "t \<noteq> []" "fresh_token acct (ad_db s) t i"
  proof -
    have tok: "fld ?b ''token'' = JStr t"
      using b(4) [of "''token''"] that(1) by simp
    have only: "j = i" if "acct (ad_db s1) j = Some x" "fld x ''token'' = JStr t" for j x
      using that s1 \<open>fresh_token acct (ad_db s) t i\<close> by (auto simp: fresh_token_def split: if_splits)
    show ?thesis
      using pg.by_token [where guest = guest, OF db1 that(2) acct1 tok only]
        sqlite.by_token [where guest = guest, OF db1 that(2) acct1 tok only]
        getRepo_cases [of url guest] by auto
  qed
  ultimately show ?thesis
    using s1 s2 d b(2) by auto
qed

definition demo_admin_env :: "db admin_env" where
  "demo_admin_env = \<lparr>ae_repo = getRepo ''url'' ''g'', ae_now = 9, ae_bus = True, ae_pool = False, ae_node = (\<lambda>_. JNull),
     ae_presence = [], ae_queue = 0, ae_fleet = [], ae_redis = True, ae_postgres = False, ae_authError = None\<rparr>"

definition demo_admin :: "db admin" where
  "demo_admin = \<lparr>ad_db = demo_db, ad_auth = [], ad_events = [], ad_audit = []\<rparr>"

theorem admin_ban_cycle_witness:
  "\<exists>res s1 res' s2. ban demo_admin_env (JNum 1) JUndef demo_admin = (res, s1) \<and> unban demo_admin_env (JNum 1) s1 = (res', s2) \<and>
     SessionRevoke 1 ''banned by admin'' \<in> set (ad_events s1) \<and>
     hc_sent (snd (gated_login ''live'' demo_henv (demo_reg ''ann'') (demo_ctx\<lparr>hc_db := ad_db s1\<rparr>))) \<noteq> None \<and>
     (\<exists>d. acct (ad_db s2) 1 = Some d \<and> fld d ''banned'' = JBool False \<and> fld d ''open_id'' = JStr ''ann'')"
proof -
  obtain res s1 where b: "ban demo_admin_env (JNum 1) JUndef demo_admin = (res, s1)" by fastforce
  obtain res' s2 where u: "unban demo_admin_env (JNum 1) s1 = (res', s2)" by fastforce
  let ?c = "demo_ctx\<lparr>hc_db := ad_db s1\<rparr>"
  obtain out c' where g: "gated_login ''live'' demo_henv (demo_reg ''ann'') ?c = (out, c')" by fastforce
  have "jor JUndef (JStr ''banned by admin'') = JStr ''banned by admin''"
    by (simp add: jor_def)
  with admin_ban_cycle [OF _ _ _ _ b u _ _ _ _ _ g, of "''url''" "''g''" 1 "demo_doc 1 ''ann''" "[]"] b u g show ?thesis
    by (auto simp: demo_admin_def demo_admin_env_def demo_ctx_def demo_cfg_def demo_db_facts demo_doc_facts getRepo_def)
qed

end
