(* ===== verification/Accounts.thy ===== *)
theory Accounts
  imports Repo
begin

text \<open>
  The SQLite accounts file (\<open>src/db/accounts.js\<close>): the table as the file creates it, the columns added to an
  older table, the seeded identity, and \<open>upsertByOpenId\<close>, which creates or updates an account from a
  login request. A row has the columns of the first schema; those that are added belong to the document
  store. The text of a fraction is not modelled.
\<close>

section \<open>The table\<close>

record login_row =
  lr_account_id :: int
  lr_open_id :: js
  lr_open_id_type :: js
  lr_nickname :: js
  lr_plat_id :: js
  lr_region :: js
  lr_language :: js
  lr_device_id :: js
  lr_client_version :: js
  lr_level :: js
  lr_clan_id :: js
  lr_created_at :: js
  lr_last_login_at :: js
  lr_raw_login :: js

record account_file =
  af_rows :: "login_row list"
  af_seq :: "int option"
  af_columns :: "string list"

definition ACCOUNT_ID_BASE :: int where "ACCOUNT_ID_BASE = 10000000"

definition MIGRATION_COLUMNS :: "string list" where
  "MIGRATION_COLUMNS = [''token'', ''token_created_at'', ''state'']"

text \<open>\<open>ALTER TABLE\<close> for the columns that are missing, and the seed of the sequence.\<close>

definition migrateAccounts :: "account_file \<Rightarrow> account_file" where
  "migrateAccounts f = f\<lparr>af_columns := af_columns f @ filter (\<lambda>c. c \<notin> set (af_columns f)) MIGRATION_COLUMNS\<rparr>"

definition seed_sequence :: "account_file \<Rightarrow> account_file" where
  "seed_sequence f = (if af_seq f = None then f\<lparr>af_seq := Some ACCOUNT_ID_BASE\<rparr> else f)"

definition open_file :: "account_file \<Rightarrow> account_file" where
  "open_file f = seed_sequence (migrateAccounts f)"

section \<open>Login requests\<close>

definition absent :: "js \<Rightarrow> bool" where
  "absent v \<longleftrightarrow> is_nil v \<or> v = JStr []"

definition login_str :: "js \<Rightarrow> js" where
  "login_str v = (if absent v then JNull else JStr (str v))"

definition login_num :: "js \<Rightarrow> js" where
  "login_num v =
     (if absent v then JNull
      else (case v of JFrac q \<Rightarrow> JFrac q | _ \<Rightarrow> (case num v of Some n \<Rightarrow> JNum n | None \<Rightarrow> JNull)))"

text \<open>\<open>uuid\<close> is \<open>crypto.randomUUID()\<close>.\<close>

definition login_open_id :: "string \<Rightarrow> js \<Rightarrow> js" where
  "login_open_id uuid obj =
     jor (login_str (fld obj ''open_id'')) (jor (login_str (fld obj ''external_id''))
       (jor (login_str (fld obj ''device_id'')) (JStr (''anon-'' @ uuid))))"

definition toRow :: "string \<Rightarrow> js \<Rightarrow> int \<Rightarrow> login_row" where
  "toRow uuid obj now = \<lparr>
     lr_account_id = 0,
     lr_open_id = login_open_id uuid obj,
     lr_open_id_type = jor (login_str (fld obj ''open_id_type'')) (login_str (fld obj ''platform_type'')),
     lr_nickname = login_str (fld obj ''nickname''),
     lr_plat_id = jnil (login_num (fld obj ''plat_id'')) (login_num (fld obj ''platform_sdk_id'')),
     lr_region = login_str (fld obj ''region''),
     lr_language = login_str (fld obj ''language''),
     lr_device_id = login_str (fld obj ''device_id''),
     lr_client_version = login_str (fld obj ''client_version''),
     lr_level = login_num (fld obj ''level''),
     lr_clan_id = login_num (fld obj ''clan_id''),
     lr_created_at = JNum now,
     lr_last_login_at = JNum now,
     lr_raw_login = jsonify (jor obj (JObj []))\<rparr>"

section \<open>Statements\<close>

definition row_by_id :: "int \<Rightarrow> account_file \<Rightarrow> login_row option" where
  "row_by_id i f = find (\<lambda>r. lr_account_id r = i) (af_rows f)"

definition row_by_open_id :: "js \<Rightarrow> account_file \<Rightarrow> login_row option" where
  "row_by_open_id oid f = find (\<lambda>r. lr_open_id r = oid) (af_rows f)"

text \<open>\<open>COALESCE(new, old)\<close> for all but the two columns every login writes.\<close>

definition coalesce :: "js \<Rightarrow> js \<Rightarrow> js" where
  "coalesce new old = (if new = JNull then old else new)"

definition update_login :: "login_row \<Rightarrow> login_row \<Rightarrow> login_row" where
  "update_login n r = r\<lparr>
     lr_open_id_type := coalesce (lr_open_id_type n) (lr_open_id_type r),
     lr_nickname := coalesce (lr_nickname n) (lr_nickname r),
     lr_plat_id := coalesce (lr_plat_id n) (lr_plat_id r),
     lr_region := coalesce (lr_region n) (lr_region r),
     lr_language := coalesce (lr_language n) (lr_language r),
     lr_device_id := coalesce (lr_device_id n) (lr_device_id r),
     lr_client_version := coalesce (lr_client_version n) (lr_client_version r),
     lr_level := coalesce (lr_level n) (lr_level r),
     lr_clan_id := coalesce (lr_clan_id n) (lr_clan_id r),
     lr_last_login_at := lr_last_login_at n,
     lr_raw_login := lr_raw_login n\<rparr>"

text \<open>\<open>AUTOINCREMENT\<close>: one more than the sequence and than every id there is. All columns of the
  statement are given, so the defaults of the table do not apply.\<close>

definition next_rowid :: "account_file \<Rightarrow> int" where
  "next_rowid f = foldr max (map lr_account_id (af_rows f)) (case af_seq f of Some n \<Rightarrow> n | None \<Rightarrow> 0) + 1"

definition insert_login :: "login_row \<Rightarrow> account_file \<Rightarrow> int \<times> account_file" where
  "insert_login n f =
     (let i = next_rowid f
      in (i, f\<lparr>af_rows := af_rows f @ [n\<lparr>lr_account_id := i\<rparr>], af_seq := Some i\<rparr>))"

definition upsertByOpenId :: "string \<Rightarrow> int \<Rightarrow> js \<Rightarrow> account_file \<Rightarrow> login_row option \<times> account_file" where
  "upsertByOpenId uuid now loginReqObj f =
     (let row = toRow uuid (jor loginReqObj (JObj [])) now
      in case row_by_open_id (lr_open_id row) f of
           Some _ \<Rightarrow>
             (let f1 = f\<lparr>af_rows := map (\<lambda>r. if lr_open_id r = lr_open_id row then update_login row r else r) (af_rows f)\<rparr>
              in (row_by_open_id (lr_open_id row) f1, f1))
         | None \<Rightarrow> (case insert_login row f of (i, f1) \<Rightarrow> (row_by_id i f1, f1)))"

section \<open>One account per open id\<close>

definition file_ok :: "account_file \<Rightarrow> bool" where
  "file_ok f \<longleftrightarrow>
     distinct (map lr_open_id (af_rows f)) \<and> distinct (map lr_account_id (af_rows f)) \<and>
     (\<forall>r \<in> set (af_rows f). ACCOUNT_ID_BASE < lr_account_id r)"

lemma open_file_twice: "open_file (open_file f) = open_file f"
  by (auto simp: open_file_def migrateAccounts_def seed_sequence_def MIGRATION_COLUMNS_def)

lemma update_login_ids [simp]:
  "lr_account_id (update_login n r) = lr_account_id r" "lr_open_id (update_login n r) = lr_open_id r"
  "lr_created_at (update_login n r) = lr_created_at r"
  by (simp_all add: update_login_def)

lemma next_rowid_fresh:
  "\<forall>r \<in> set (af_rows f). lr_account_id r < next_rowid f" "af_seq f = Some n \<Longrightarrow> n < next_rowid f"
proof -
  have "x \<le> foldr max xs n" if "x \<in> set xs" for x n :: int and xs
    using that by (induction xs) (auto simp: le_max_iff_disj)
  then show "\<forall>r \<in> set (af_rows f). lr_account_id r < next_rowid f"
    by (fastforce simp: next_rowid_def)
  have "n \<le> foldr max xs n" for n :: int and xs
    by (induction xs) (auto simp: le_max_iff_disj)
  then show "af_seq f = Some n \<Longrightarrow> n < next_rowid f"
    by (simp add: next_rowid_def add.commute zle_add1_eq_le [symmetric])
qed

lemma find_key: "distinct (map key xs) \<Longrightarrow> x \<in> set xs \<Longrightarrow> find (\<lambda>y. key y = key x) xs = Some x"
  by (induction xs) auto

definition seeded :: "account_file \<Rightarrow> bool" where
  "seeded f \<longleftrightarrow> (\<exists>n. af_seq f = Some n \<and> ACCOUNT_ID_BASE \<le> n)"

text \<open>One login: the row it returns, which is new or the update of the one there was.\<close>

lemma upsert_step:
  assumes "file_ok f" and "seeded f" and "upsertByOpenId uuid now q f = (res, f')"
  shows "file_ok f' \<and> seeded f' \<and> (\<exists>a. res = Some a \<and> a \<in> set (af_rows f') \<and>
      lr_open_id a = login_open_id uuid (jor q (JObj [])) \<and>
      (\<forall>b \<in> set (af_rows f). lr_open_id b = lr_open_id a \<longrightarrow> a = update_login (toRow uuid (jor q (JObj [])) now) b) \<and>
      (\<forall>b \<in> set (af_rows f). lr_account_id b \<noteq> lr_account_id a \<longrightarrow> b \<in> set (af_rows f')))"
proof -
  let ?n = "toRow uuid (jor q (JObj [])) now"
  have oid: "lr_open_id ?n = login_open_id uuid (jor q (JObj []))"
    by (simp add: toRow_def)
  show ?thesis
  proof (cases "row_by_open_id (lr_open_id ?n) f")
    case None
    let ?a = "?n\<lparr>lr_account_id := next_rowid f\<rparr>"
    have new: "\<forall>r \<in> set (af_rows f). lr_open_id r \<noteq> lr_open_id ?n"
      using None by (simp add: row_by_open_id_def find_None_iff)
    have f': "f' = f\<lparr>af_rows := af_rows f @ [?a], af_seq := Some (next_rowid f)\<rparr>" "res = row_by_id (next_rowid f) f'"
      using assms(3) None by (auto simp: upsertByOpenId_def insert_login_def Let_def)
    have base: "ACCOUNT_ID_BASE < next_rowid f"
      using assms(2) next_rowid_fresh(2) by (fastforce simp: seeded_def)
    have fresh: "next_rowid f \<notin> lr_account_id ` set (af_rows f)"
      using next_rowid_fresh(1) [of f] by auto
    have ok: "file_ok f'"
      using assms(1) new base fresh by (auto simp: file_ok_def f'(1))
    then have "res = Some ?a"
      using find_key [of lr_account_id "af_rows f'" ?a] by (simp add: f' row_by_id_def file_ok_def)
    with ok base new oid show ?thesis
      by (auto simp: f'(1) seeded_def)
  next
    case (Some b)
    then have b: "b \<in> set (af_rows f)" "lr_open_id b = lr_open_id ?n"
      by (auto simp: row_by_open_id_def find_Some_iff)
    let ?upd = "\<lambda>r. if lr_open_id r = lr_open_id ?n then update_login ?n r else r"
    have f': "f' = f\<lparr>af_rows := map ?upd (af_rows f)\<rparr>" "res = row_by_open_id (lr_open_id ?n) f'"
      using assms(3) Some by (auto simp: upsertByOpenId_def Let_def)
    have keys: "map lr_open_id (af_rows f') = map lr_open_id (af_rows f)"
      "map lr_account_id (af_rows f') = map lr_account_id (af_rows f)"
      by (simp_all add: f'(1))
    have mem: "update_login ?n b \<in> set (af_rows f')"
      using b by (force simp: f'(1))
    have ok: "file_ok f'"
      using assms(1) unfolding file_ok_def keys by (auto simp: f'(1))
    have "find (\<lambda>r. lr_open_id r = lr_open_id (update_login ?n b)) (af_rows f') = Some (update_login ?n b)"
      by (rule find_key [OF _ mem]) (use ok in \<open>simp add: file_ok_def\<close>)
    then have res: "res = Some (update_login ?n b)"
      using b(2) by (simp add: f'(2) row_by_open_id_def)
    have one: "r = b" if "r \<in> set (af_rows f)" "lr_open_id r = lr_open_id ?n" for r
      using find_key [of lr_open_id "af_rows f"] that b assms(1) by (metis file_ok_def option.inject)
    have others: "r \<in> set (af_rows f')" if "r \<in> set (af_rows f)" "lr_account_id r \<noteq> lr_account_id b" for r
      using that one by (force simp: f'(1))
    have "seeded f'"
      using assms(2) by (simp add: f'(1) seeded_def)
    moreover have "lr_open_id (update_login ?n b) = login_open_id uuid (jor q (JObj []))" "lr_account_id (update_login ?n b) = lr_account_id b"
      using b(2) oid by simp_all
    moreover have "\<forall>c \<in> set (af_rows f). lr_open_id c = lr_open_id (update_login ?n b) \<longrightarrow> update_login ?n b = update_login ?n c"
      using one b(2) by simp
    ultimately show ?thesis
      using ok res mem others by metis
  qed
qed

text \<open>A login text has one account, the same at every login, above the base; a login keeps what the
  request omits, and touches no other account.\<close>

theorem upsert_one_account:
  assumes "file_ok f" and "seeded f" and "upsertByOpenId uuid now q f = (r1, f1)"
    and "login_open_id uuid' (jor q' (JObj [])) = login_open_id uuid (jor q (JObj []))"
    and "upsertByOpenId uuid' now' q' f1 = (r2, f2)"
  shows "file_ok f2 \<and> (\<exists>a b. r1 = Some a \<and> r2 = Some b \<and> lr_account_id b = lr_account_id a \<and>
      ACCOUNT_ID_BASE < lr_account_id a \<and>
      lr_open_id a = login_open_id uuid (jor q (JObj [])) \<and> lr_open_id b = lr_open_id a \<and>
      lr_created_at b = lr_created_at a \<and>
      (absent (fld (jor q' (JObj [])) ''nickname'') \<longrightarrow> lr_nickname b = lr_nickname a) \<and>
      (\<forall>r \<in> set (af_rows f). lr_account_id r \<noteq> lr_account_id a \<longrightarrow> r \<in> set (af_rows f2)))"
proof -
  obtain a where a: "file_ok f1" "seeded f1" "r1 = Some a" "a \<in> set (af_rows f1)" "lr_open_id a = login_open_id uuid (jor q (JObj []))"
    "\<forall>b \<in> set (af_rows f). lr_account_id b \<noteq> lr_account_id a \<longrightarrow> b \<in> set (af_rows f1)"
    using upsert_step [OF assms(1-3)] by blast
  obtain b where b: "file_ok f2" "r2 = Some b" "lr_open_id b = login_open_id uuid' (jor q' (JObj []))"
    "\<forall>c \<in> set (af_rows f1). lr_open_id c = lr_open_id b \<longrightarrow> b = update_login (toRow uuid' (jor q' (JObj [])) now') c"
    "\<forall>c \<in> set (af_rows f1). lr_account_id c \<noteq> lr_account_id b \<longrightarrow> c \<in> set (af_rows f2)"
    using upsert_step [OF a(1,2) assms(5)] by blast
  have "b = update_login (toRow uuid' (jor q' (JObj [])) now') a"
    using b(3,4) a(4,5) assms(4) by simp
  moreover have "ACCOUNT_ID_BASE < lr_account_id a"
    using a(1,4) by (simp add: file_ok_def)
  moreover have "lr_nickname (update_login (toRow uuid' (jor q' (JObj [])) now') a) = lr_nickname a"
    if "absent (fld (jor q' (JObj [])) ''nickname'')"
    using that by (simp add: update_login_def toRow_def coalesce_def login_str_def)
  moreover have "lr_account_id b = lr_account_id a" "lr_open_id b = lr_open_id a" "lr_created_at b = lr_created_at a"
    using calculation(1) by simp_all
  moreover have "\<forall>r \<in> set (af_rows f). lr_account_id r \<noteq> lr_account_id a \<longrightarrow> r \<in> set (af_rows f2)"
    using a(6) b(5) \<open>lr_account_id b = lr_account_id a\<close> by simp
  ultimately show ?thesis
    using a(3,5) b(1,2) by metis
qed

text \<open>A request without any identity gets an account of its own, and a request without a level stores
  \<open>null\<close>, not the default of the column, which applies only to columns an insert leaves out.\<close>

lemma anonymous_level:
  "\<exists>a f'. upsertByOpenId ''x'' 7 (JObj []) (open_file \<lparr>af_rows = [], af_seq = None, af_columns = []\<rparr>) = (Some a, f') \<and>
     lr_account_id a = 10000001 \<and> lr_open_id a = JStr ''anon-x'' \<and> lr_level a = JNull"
  by (simp add: upsertByOpenId_def open_file_def migrateAccounts_def seed_sequence_def row_by_open_id_def row_by_id_def
      insert_login_def next_rowid_def toRow_def login_open_id_def login_str_def login_num_def absent_def is_nil_def jor_def
      Let_def ACCOUNT_ID_BASE_def)

end
