(* ===== verification/Settings.thy ===== *)
theory Settings
  imports HttpRouter
begin

text \<open>
  The settings of the processes: \<open>config/default.js\<close> of the game server and \<open>auth/shared/src/config.js\<close> of the
  authentication services, as functions of the environment variables. A variable is unset or a text;
  a number that does not parse is \<open>NaN\<close>, here \<open>None\<close> (\<open>Number\<close> is modelled on decimal integers).
\<close>

type_synonym environment = "string \<Rightarrow> string option"

text \<open>\<open>process.env.K || d\<close>.\<close>

definition env_or :: "environment \<Rightarrow> string \<Rightarrow> string \<Rightarrow> string" where
  "env_or V k d = or_str (V k) d"

definition env_num :: "environment \<Rightarrow> string \<Rightarrow> int \<Rightarrow> int option" where
  "env_num V k d = (case V k of Some s \<Rightarrow> if s = [] then Some d else str_num s | None \<Rightarrow> Some d)"

section \<open>The game server\<close>

record server_settings =
  sv_live :: "int option"
  sv_login :: "int option"
  sv_main :: "int option"
  sv_tcp :: "int option"
  sv_bodyEncoding :: string
  sv_realtimeHost :: string
  sv_defaultRegion :: string
  sv_dbFile :: string
  sv_jwtSecret :: string
  sv_jwtTtlSec :: "int option"
  sv_redis :: string
  sv_postgres :: string
  sv_pgSchema :: string
  sv_domain_live :: string
  sv_domain_login :: string
  sv_domain_main :: string
  sv_nodeId :: string

definition server_settings_of :: "environment \<Rightarrow> string \<Rightarrow> server_settings" where
  "server_settings_of V hostname = \<lparr>
     sv_live = (case V ''LIVE_PORT'' of
                  Some (c # cs) \<Rightarrow> str_num (c # cs)
                | _ \<Rightarrow> env_num V ''PORT'' 3000),
     sv_login = env_num V ''LOGIN_PORT'' 3001,
     sv_main = env_num V ''MAIN_PORT'' 3002,
     sv_tcp = env_num V ''TCP_PORT'' 10300,
     sv_bodyEncoding = env_or V ''BODY_ENCODING'' ''raw'',
     sv_realtimeHost = env_or V ''REALTIME_HOST'' [],
     sv_defaultRegion = env_or V ''DEFAULT_REGION'' ''US'',
     sv_dbFile = env_or V ''DB_FILE'' [],
     sv_jwtSecret = env_or V ''MATCH_JWT_SECRET'' ''dev-match-secret-change-me'',
     sv_jwtTtlSec = env_num V ''MATCH_JWT_TTL_SEC'' 600,
     sv_redis = env_or V ''REDIS_URL'' ''redis://127.0.0.1:6379'',
     sv_postgres = env_or V ''DATABASE_URL'' (env_or V ''DB_URL'' []),
     sv_pgSchema = env_or V ''AUTH_PG_SCHEMA'' ''auth'',
     sv_domain_live = env_or V ''LIVE_DOMAIN'' [],
     sv_domain_login = env_or V ''LOGIN_DOMAIN'' [],
     sv_domain_main = env_or V ''MAIN_DOMAIN'' [],
     sv_nodeId = env_or V ''NODE_ID'' hostname\<rparr>"

text \<open>The part the handlers read, when the ports are numbers.\<close>

definition http_config_of :: "environment \<Rightarrow> http_config option" where
  "http_config_of V =
     (case (env_num V ''MAIN_PORT'' 3002, env_num V ''TCP_PORT'' 10300) of
        (Some main, Some tcp) \<Rightarrow> Some \<lparr>
          cf_serverUrl = env_or V ''SERVER_URL'' [],
          cf_mainPort = main,
          cf_tcpPort = tcp,
          cf_gameServerPort = env_or V ''GAME_SERVER_PORT'' ''10100'',
          cf_chatPort = env_or V ''CHAT_PORT'' ''10200'',
          cf_notificationPort = env_or V ''NOTI_PORT'' ''10300'',
          cf_domain_tcp = env_or V ''TCP_PUBLIC_HOST'' [],
          cf_domain_match = env_or V ''MATCH_PUBLIC_HOST'' [],
          cf_enforceRegistration = env_bool (V ''AUTH_ENFORCE_REGISTRATION'') False,
          cf_enforceLoginToken = env_bool (V ''AUTH_ENFORCE_LOGIN_TOKEN'') False,
          cf_allowGuest = env_bool (V ''AUTH_ALLOW_GUEST'') True,
          cf_guestOpenId = env_or V ''GUEST_OPEN_ID'' ''guest-default'',
          cf_allowedVersions = env_list (V ''ALLOWED_CLIENT_VERSIONS''),
          cf_allowedSignatures = env_list (V ''ALLOWED_SIGNATURE_MD5''),
          cf_enforceBans = env_bool (V ''AUTH_ENFORCE_BANS'') True\<rparr>
      | _ \<Rightarrow> None)"

definition replay_config_of :: "environment \<Rightarrow> replay_config option" where
  "replay_config_of V =
     (case (env_num V ''REPLAY_WINDOW_MS'' 30000, env_num V ''REPLAY_MAX_ENTRIES'' 100000) of
        (Some w, Some m) \<Rightarrow> Some \<lparr>
          rc_enabled = env_bool (V ''REPLAY_GUARD'') False,
          rc_window = w,
          rc_max = nat m,
          rc_exclude = env_list (Some (env_or V ''REPLAY_EXCLUDE'' ''LogEvent,NetworkLogEvent''))\<rparr>
      | _ \<Rightarrow> None)"

text \<open>Out of the box every gate but the ban is open, and the replay guard is off.\<close>

lemma defaults:
  "\<exists>C R. http_config_of (\<lambda>_. None) = Some C \<and> replay_config_of (\<lambda>_. None) = Some R \<and>
     checkVersion (E\<lparr>he_cfg := C\<rparr>) q = None \<and> checkSignature (E\<lparr>he_cfg := C\<rparr>) q = None \<and>
     checkRegistration (E\<lparr>he_cfg := C\<rparr>) oid tok c = (None, c) \<and> cf_enforceBans C \<and> \<not> rc_enabled R \<and>
     rc_exclude R = [''LogEvent'', ''NetworkLogEvent'']"
  by (simp add: http_config_of_def replay_config_of_def env_num_def env_or_def env_bool_def env_list_def or_str_def
      checkVersion_def checkSignature_def checkRegistration_def trim_def is_ws_def)

section \<open>The authentication services\<close>

record auth_settings =
  as_backend_pg :: bool
  as_DATABASE_URL :: string
  as_PG_SCHEMA :: string
  as_TRUST_PROXY :: bool
  as_CONNECT_PORT :: int
  as_LOGIN_PORT :: int
  as_PAIRING_SWEEP_INTERVAL_MS :: int
  as_DISCORD_CALLBACK_PATH :: string
  as_isProduction :: bool

definition BASE_REQUIRED :: "string list" where
  "BASE_REQUIRED = [''APP_ID'', ''APP_SECRET'', ''DISCORD_CLIENT_ID'', ''DISCORD_CLIENT_SECRET'', ''DISCORD_REDIRECT_URI'',
     ''OAUTH_STATE_SECRET'']"

definition database_url :: "environment \<Rightarrow> string" where
  "database_url V = env_or V ''DATABASE_URL'' (env_or V ''DB_URL'' [])"

definition REQUIRED :: "environment \<Rightarrow> string list" where
  "REQUIRED V = BASE_REQUIRED @ (if database_url V \<noteq> [] then [] else [''MONGO_URI'', ''DB_NAME''])"

text \<open>\<open>Inl\<close> is the message the process exits with.\<close>

definition readNumber :: "environment \<Rightarrow> string \<Rightarrow> int \<Rightarrow> string + int" where
  "readNumber V name fallback =
     (let raw = or_str (V name) [] in
      if raw = [] then Inr fallback
      else (case str_num raw of
              Some n \<Rightarrow> Inr n
            | None \<Rightarrow> Inl (name @ '' must be an integer, got: '' @ raw)))"

definition readBool :: "environment \<Rightarrow> string \<Rightarrow> bool \<Rightarrow> bool" where
  "readBool V name fallback =
     (let raw = or_str (V name) [] in if raw = [] then fallback else toLowerCase raw = ''true'' \<or> raw = ''1'')"

definition missing :: "environment \<Rightarrow> string \<Rightarrow> bool" where
  "missing V name \<longleftrightarrow> trim (or_str (V name) []) = []"

text \<open>\<open>pathname\<close> of \<open>new URL\<close>; an error is the message of an address that does not parse.\<close>

definition callback_path :: "(string \<Rightarrow> string + string) \<Rightarrow> environment \<Rightarrow> string + string" where
  "callback_path pathname V =
     (let uri = or_str (V ''DISCORD_REDIRECT_URI'') [] in
      case pathname uri of
        Inl e \<Rightarrow> Inl (''DISCORD_REDIRECT_URI is not a valid URL: '' @ e)
      | Inr p \<Rightarrow> if p = [] \<or> p = ''/'' then Inl (''DISCORD_REDIRECT_URI must contain a path component, got: '' @ uri) else Inr p)"

definition auth_settings_of :: "(string \<Rightarrow> string + string) \<Rightarrow> environment \<Rightarrow> string + auth_settings" where
  "auth_settings_of pathname V =
     (case find (missing V) (REQUIRED V) of
        Some name \<Rightarrow> Inl (''required environment variable is missing: '' @ name)
      | None \<Rightarrow>
          (case callback_path pathname V of
             Inl e \<Rightarrow> Inl e
           | Inr path \<Rightarrow>
               (case readNumber V ''CONNECT_PORT'' 5000 of
                  Inl e \<Rightarrow> Inl e
                | Inr connect \<Rightarrow>
                    (case readNumber V ''LOGIN_PORT'' 25565 of
                       Inl e \<Rightarrow> Inl e
                     | Inr login \<Rightarrow>
                         (case readNumber V ''AUTH_PAIRING_SWEEP_MS'' 60000 of
                            Inl e \<Rightarrow> Inl e
                          | Inr sweepMs \<Rightarrow> Inr \<lparr>
                              as_backend_pg = (database_url V \<noteq> []), as_DATABASE_URL = database_url V,
                              as_PG_SCHEMA = env_or V ''AUTH_PG_SCHEMA'' ''auth'',
                              as_TRUST_PROXY = readBool V ''TRUST_PROXY'' False,
                              as_CONNECT_PORT = connect, as_LOGIN_PORT = login,
                              as_PAIRING_SWEEP_INTERVAL_MS = sweepMs, as_DISCORD_CALLBACK_PATH = path,
                              as_isProduction = (env_or V ''NODE_ENV'' ''development'' = ''production'')\<rparr>)))))"

text \<open>A service that starts has all its required variables and a path for the callback, and both tiers
  use the same database.\<close>

lemma auth_settings_complete:
  assumes "auth_settings_of pathname V = Inr S"
  shows "(\<forall>k \<in> set (REQUIRED V). \<not> missing V k) \<and> as_DISCORD_CALLBACK_PATH S \<notin> {[], ''/''} \<and>
    (as_backend_pg S \<longleftrightarrow> sv_postgres (server_settings_of V hostname) \<noteq> []) \<and>
    as_PG_SCHEMA S = sv_pgSchema (server_settings_of V hostname)"
  using assms
  by (auto simp: auth_settings_of_def callback_path_def server_settings_of_def database_url_def Let_def find_None_iff
      split: option.splits sum.splits if_splits)

end
