(* ===== verification/AuthApps.thy ===== *)
theory AuthApps
  imports ConnectRoutes LegalPages
begin

text \<open>
  The two authentication services as a request meets them (\<open>auth/login-server/src/app.js\<close> with
  \<open>routes/misc.js\<close> and \<open>routes/legal.js\<close>, \<open>auth/connect-server/src/app.js\<close>, \<open>auth/shared/src/security-headers.js\<close>):
  the parsing of the body, the middleware that sets headers, the route table, the fallback and the error
  handler. Express's body parser is a parameter, the flag of a request that says whether its body
  parses; so is the directory behind \<open>/static\<close>. The headers are those the services set themselves.
\<close>

section \<open>Headers\<close>

type_synonym headers = "(string \<times> string) list"

definition setHeader :: "string \<Rightarrow> string \<Rightarrow> headers \<Rightarrow> headers" where
  "setHeader k v hs = AList.update k v hs"

definition securityHeaders :: "bool \<Rightarrow> headers \<Rightarrow> headers" where
  "securityHeaders isProduction hs =
     (let hs1 = setHeader ''Pragma'' ''no-cache''
            (setHeader ''Cache-Control'' ''no-store, no-cache, must-revalidate, max-age=0''
              (setHeader ''Referrer-Policy'' ''strict-origin-when-cross-origin''
                (setHeader ''X-Frame-Options'' ''DENY'' (setHeader ''X-Content-Type-Options'' ''nosniff'' hs))))
      in if isProduction then setHeader ''Strict-Transport-Security'' ''max-age=31536000; includeSubDomains'' hs1 else hs1)"

definition CSP_DIRECTIVES :: "string list" where
  "CSP_DIRECTIVES =
     [''default-src '' @ [CHR 0x27] @ ''self'' @ [CHR 0x27],
      ''base-uri '' @ [CHR 0x27] @ ''self'' @ [CHR 0x27],
      ''frame-ancestors '' @ [CHR 0x27] @ ''none'' @ [CHR 0x27],
      ''img-src '' @ [CHR 0x27] @ ''self'' @ [CHR 0x27] @ '' data:'',
      ''style-src '' @ [CHR 0x27] @ ''self'' @ [CHR 0x27] @ '' '' @ [CHR 0x27] @ ''unsafe-inline'' @ [CHR 0x27],
      ''font-src '' @ [CHR 0x27] @ ''self'' @ [CHR 0x27],
      ''script-src '' @ [CHR 0x27] @ ''self'' @ [CHR 0x27],
      ''form-action '' @ [CHR 0x27] @ ''self'' @ [CHR 0x27],
      ''object-src '' @ [CHR 0x27] @ ''none'' @ [CHR 0x27]]"

definition CSP_HEADER :: string where
  "CSP_HEADER = hd CSP_DIRECTIVES @ concat (map (\<lambda>d. ''; '' @ d) (tl CSP_DIRECTIVES))"

section \<open>Requests and replies\<close>

record app_request =
  aq_verb :: verb
  aq_path :: "string list"
  aq_reqId :: "string option"
  aq_body_ok :: bool
  aq_web :: web_request

datatype content = HtmlText string | JsonValue js | FileText string | RedirectTo string

record auth_reply =
  hr_headers :: headers
  hr_status :: int
  hr_content :: content

definition with_headers :: "headers \<Rightarrow> int \<times> content \<Rightarrow> auth_reply" where
  "with_headers hs r = \<lparr>hr_headers = hs, hr_status = fst r, hr_content = snd r\<rparr>"

fun sent :: "web_response \<Rightarrow> int \<times> content" where
  "sent (Html status p) = (status, HtmlText (render p))"
| "sent (Json status j) = (status, JsonValue j)"

definition request_id :: "string \<Rightarrow> app_request \<Rightarrow> string" where
  "request_id uuid q = or_str (aq_reqId q) uuid"

definition not_found :: "int \<times> content" where
  "not_found = (404, JsonValue (JObj [(''error'', JStr ''not_found'')]))"

section \<open>The login service\<close>

datatype login_endpoint = LoginHealth | Root | Terms | Privacy | PairStatus | Dialog | Callback

definition login_routes :: "string list \<Rightarrow> (verb \<times> segment list \<times> login_endpoint) list" where
  "login_routes callback =
     [(GET, [Lit ''health''], LoginHealth), (GET, [], Root), (GET, [Lit ''terms''], Terms), (GET, [Lit ''privacy''], Privacy),
      (GET, [Lit ''pair'', Lit ''status''], PairStatus),
      (GET, [Lit ''dialog'', Lit ''oauth''], Dialog), (GET, [VersionSeg, Lit ''dialog'', Lit ''oauth''], Dialog),
      (GET, map Lit callback, Callback)]"

definition login_dispatch :: "string list \<Rightarrow> verb \<Rightarrow> string list \<Rightarrow> login_endpoint option" where
  "login_dispatch callback m segs =
     map_option (\<lambda>(_, _, e). e) (find (\<lambda>(m', p, _). m' = m \<and> path_matches p segs) (login_routes callback))"

definition root_page :: string where
  "root_page =
     ''<!doctype html><html><head><meta charset=\"utf-8\"><title>Auth server</title></head>'' @
     ''<body style=\"font-family:sans-serif;color:#999;background:#0d0d0d;padding:32px;\">'' @
     ''<p>This is the authentication endpoint. It is reached by the game client, not by browsers directly.</p>'' @
     ''<p><a style=\"color:#ff6600;\" href=\"/terms\">Terms</a> &middot; '' @
     ''<a style=\"color:#ff6600;\" href=\"/privacy\">Privacy</a></p>'' @
     ''</body></html>''"

text \<open>What one request draws and meets. A static path is a file, a redirection of the directory, or,
  as the mount does not fall through, an error.\<close>

record 'd login_world =
  lw_config :: login_config
  lw_guests :: "'d guests_repo"
  lw_accounts :: "'d accounts_repo"
  lw_pairings :: pairings_repo
  lw_draw :: "'d login_draw"
  lw_tokenReply :: fetched
  lw_userReply :: fetched
  lw_between :: "pair_db \<Rightarrow> pair_db"
  lw_pairId :: string
  lw_nonce :: string
  lw_now_s :: int
  lw_now_ms :: int
  lw_callback :: "string list"
  lw_static :: "verb \<Rightarrow> string list \<Rightarrow> content option"
  lw_production :: bool
  lw_uuid :: string

definition login_endpoint_reply ::
  "'d login_world \<Rightarrow> web_request \<Rightarrow> login_endpoint \<Rightarrow> 'd login_state \<Rightarrow> (int \<times> content) \<times> 'd login_state" where
  "login_endpoint_reply W req e s =
     (case e of
        LoginHealth \<Rightarrow> ((200, JsonValue (JObj [(''status'', JStr ''ok''), (''service'', JStr ''login-server'')])), s)
      | Root \<Rightarrow> ((200, HtmlText root_page), s)
      | Terms \<Rightarrow> ((200, HtmlText renderTerms), s)
      | Privacy \<Rightarrow> ((200, HtmlText renderPrivacy), s)
      | PairStatus \<Rightarrow> apfst sent (get_pair_status (lw_pairings W) (lw_between W) req (lw_now_ms W) s)
      | Dialog \<Rightarrow> apfst sent (get_dialog (lw_config W) req (lw_pairId W) (lw_nonce W) (lw_now_s W) (lw_now_ms W) s)
      | Callback \<Rightarrow>
          apfst sent (get_callback (lw_config W) (lw_guests W) (lw_accounts W) (lw_pairings W) (lw_draw W)
            (lw_tokenReply W) (lw_userReply W) req (lw_now_s W) (lw_now_ms W) s))"

definition static_reply :: "'d login_world \<Rightarrow> app_request \<Rightarrow> string list \<Rightarrow> int \<times> content" where
  "static_reply W q segs =
     (case lw_static W (aq_verb q) segs of
        Some (RedirectTo l) \<Rightarrow> (301, RedirectTo l)
      | Some x \<Rightarrow> (200, x)
      | None \<Rightarrow> sent (error_handler (aq_web q)))"

text \<open>A body that does not parse skips the middleware behind the parsers, and the routes.\<close>

definition login_app :: "'d login_world \<Rightarrow> app_request \<Rightarrow> 'd login_state \<Rightarrow> auth_reply \<times> 'd login_state" where
  "login_app W q s =
     (if \<not> aq_body_ok q then (with_headers [] (sent (error_handler (aq_web q))), s)
      else let hs = setHeader ''X-Request-Id'' (request_id (lw_uuid W) q)
                      (setHeader ''Content-Security-Policy'' CSP_HEADER (securityHeaders (lw_production W) []))
           in if aq_path q \<noteq> [] \<and> toLowerCase (hd (aq_path q)) = ''static''
              then (with_headers hs (static_reply W q (tl (aq_path q))), s)
              else (case login_dispatch (lw_callback W) (aq_verb q) (aq_path q) of
                      None \<Rightarrow> (with_headers hs not_found, s)
                    | Some e \<Rightarrow> apfst (with_headers hs) (login_endpoint_reply W (aq_web q) e s)))"

section \<open>The connect service\<close>

definition connect_app ::
  "bool \<Rightarrow> string \<Rightarrow> 'd guests_repo \<Rightarrow> app_request \<Rightarrow> string \<Rightarrow> int \<Rightarrow> int \<Rightarrow> 'd connect_state \<Rightarrow>
   auth_reply \<times> 'd connect_state" where
  "connect_app isProduction uuid R q access now now_ms s =
     (if \<not> aq_body_ok q
      then (with_headers [] (500, JsonValue (JObj [(''error'', JStr ''internal_error'')])), s)
      else apfst (\<lambda>r. with_headers (setHeader ''X-Request-Id'' (request_id uuid q) (securityHeaders isProduction [])) (sent r))
             (connect_request R (aq_verb q) (aq_path q) (aq_web q) access now now_ms s))"

section \<open>Every reply but one kind is hardened\<close>

definition hardened :: "bool \<Rightarrow> headers \<Rightarrow> bool" where
  "hardened isProduction hs \<longleftrightarrow>
     map_of hs ''X-Content-Type-Options'' = Some ''nosniff'' \<and> map_of hs ''X-Frame-Options'' = Some ''DENY'' \<and>
     map_of hs ''Referrer-Policy'' = Some ''strict-origin-when-cross-origin'' \<and>
     map_of hs ''Cache-Control'' = Some ''no-store, no-cache, must-revalidate, max-age=0'' \<and>
     map_of hs ''Pragma'' = Some ''no-cache'' \<and>
     (map_of hs ''Strict-Transport-Security'' \<noteq> None \<longleftrightarrow> isProduction)"

lemma map_of_setHeader [simp]: "map_of (setHeader k v hs) = (map_of hs)(k \<mapsto> v)"
  by (simp add: setHeader_def update_conv')

lemma hardened_other:
  "k \<notin> {''X-Content-Type-Options'', ''X-Frame-Options'', ''Referrer-Policy'', ''Cache-Control'', ''Pragma'',
     ''Strict-Transport-Security''} \<Longrightarrow> hardened b (setHeader k v hs) = hardened b hs"
  by (auto simp: hardened_def)

lemma securityHeaders_hardened: "hardened b (securityHeaders b [])"
  by (simp add: hardened_def securityHeaders_def Let_def)

lemma with_headers_simps [simp]: "hr_headers (with_headers hs r) = hs" "hr_status (with_headers hs r) = fst r"
  by (simp_all add: with_headers_def)

lemma login_app_headers:
  "hr_headers (fst (login_app W q s)) =
     (if aq_body_ok q
      then setHeader ''X-Request-Id'' (request_id (lw_uuid W) q)
             (setHeader ''Content-Security-Policy'' CSP_HEADER (securityHeaders (lw_production W) []))
      else [])"
  by (simp add: login_app_def Let_def split: option.split)

lemma connect_app_headers:
  "hr_headers (fst (connect_app b uuid R q access now now_ms s)) =
     (if aq_body_ok q then setHeader ''X-Request-Id'' (request_id uuid q) (securityHeaders b []) else [])"
  by (simp add: connect_app_def)

text \<open>The comments promise the headers on every response; a body that does not parse gets a reply
  without any of them, and the status 500 for what is the client's error.\<close>

theorem hardened_unless_malformed:
  "(if aq_body_ok q
    then hardened (lw_production W) (hr_headers (fst (login_app W q s))) \<and>
         map_of (hr_headers (fst (login_app W q s))) ''Content-Security-Policy'' = Some CSP_HEADER \<and>
         map_of (hr_headers (fst (login_app W q s))) ''X-Request-Id'' = Some (or_str (aq_reqId q) (lw_uuid W)) \<and>
         hardened b (hr_headers (fst (connect_app b uuid R q access now now_ms c)))
    else hr_headers (fst (login_app W q s)) = [] \<and> hr_status (fst (login_app W q s)) = 500 \<and> snd (login_app W q s) = s \<and>
         hr_headers (fst (connect_app b uuid R q access now now_ms c)) = [] \<and>
         hr_status (fst (connect_app b uuid R q access now now_ms c)) = 500)"
  unfolding login_app_headers connect_app_headers
  by (simp add: hardened_other securityHeaders_hardened request_id_def)
    (simp add: login_app_def connect_app_def error_handler_def)

section \<open>What a request can change\<close>

text \<open>Each stateful route has its own limiter; all others leave the state alone.\<close>

lemma login_app_frame:
  assumes "login_app W q s = (r, s')"
  shows "(ls_dialog s' = ls_dialog s \<or> login_dispatch (lw_callback W) (aq_verb q) (aq_path q) = Some Dialog) \<and>
    (ls_callback s' = ls_callback s \<or> login_dispatch (lw_callback W) (aq_verb q) (aq_path q) = Some Callback) \<and>
    (ls_pair s' = ls_pair s \<or> login_dispatch (lw_callback W) (aq_verb q) (aq_path q) = Some PairStatus) \<and>
    (ls_db s' = ls_db s \<or> login_dispatch (lw_callback W) (aq_verb q) (aq_path q) = Some Callback) \<and>
    (ls_pairings s' = ls_pairings s \<or>
       login_dispatch (lw_callback W) (aq_verb q) (aq_path q) \<in> {Some Dialog, Some Callback, Some PairStatus})"
  using assms
  by (auto simp: login_app_def login_endpoint_reply_def get_dialog_def get_callback_def get_pair_status_def Let_def apfst_def
      map_prod_def split: if_splits option.splits login_endpoint.splits prod.splits)

text \<open>The configured callback is reached unless an earlier route has its path.\<close>

lemma callback_reached:
  assumes "\<forall>(_, p, e) \<in> set (login_routes callback). e \<noteq> Callback \<longrightarrow> \<not> path_matches p callback"
  shows "login_dispatch callback GET callback = Some Callback"
proof -
  have "path_matches (map Lit callback) callback"
    by (simp add: path_matches_def list_all2_conv_all_nth)
  with assms show ?thesis
    by (simp add: login_dispatch_def login_routes_def)
qed

end
