(* ===== verification/TcpProtocol.thy ===== *)
theory TcpProtocol
  imports HttpRouter
begin

text \<open>
  The names of the protocol (\<open>src/protocol/protos.js\<close>, \<open>src/tcp/protocol.js\<close>): how an unqualified type or enum
  is found among the packages, where \<open>pool\<close> is what the loaded definitions have under a name; and the names
  of the TCP enums. The generator prefixes a value with the name of its enum, some twice; \<open>enumValues\<close>
  offers each value under its clean name and its raw one.
\<close>

datatype 'k definition_kind = MessageType 'k | EnumType "(string \<times> int) list" | OtherObject

definition PACKAGES :: "string list" where
  "PACKAGES = [''proto'', ''tcp'', ''message'', ''COW'']"

definition candidates :: "string \<Rightarrow> string list" where
  "candidates typeName =
     (if CHR ''.'' \<in> set typeName then [typeName] else []) @ map (\<lambda>pkg. pkg @ ''.'' @ typeName) PACKAGES @ [typeName]"

fun first_type :: "(string \<Rightarrow> 'k definition_kind option) \<Rightarrow> string list \<Rightarrow> 'k option" where
  "first_type pool [] = None"
| "first_type pool (n # ns) = (case pool n of Some (MessageType t) \<Rightarrow> Some t | _ \<Rightarrow> first_type pool ns)"

fun first_enum :: "(string \<Rightarrow> 'k definition_kind option) \<Rightarrow> string list \<Rightarrow> (string \<times> int) list option" where
  "first_enum pool [] = None"
| "first_enum pool (n # ns) = (case pool n of Some (EnumType vs) \<Rightarrow> Some vs | _ \<Rightarrow> first_enum pool ns)"

definition lookup_type :: "(string \<Rightarrow> 'k definition_kind option) \<Rightarrow> string \<Rightarrow> 'k option" where
  "lookup_type pool typeName = (if typeName = [] then None else first_type pool (candidates typeName))"

definition lookupEnum :: "(string \<Rightarrow> 'k definition_kind option) \<Rightarrow> string \<Rightarrow> (string \<times> int) list option" where
  "lookupEnum pool typeName = (if typeName = [] then None else first_enum pool (candidates typeName))"

text \<open>A type of package \<open>proto\<close> hides those of the same name elsewhere, a qualified name comes first, and an
  enum of that name hides nothing.\<close>

lemma lookup_order:
  "typeName \<noteq> [] \<Longrightarrow> CHR ''.'' \<notin> set typeName \<Longrightarrow> pool (''proto.'' @ typeName) = Some (MessageType t) \<Longrightarrow>
     lookup_type pool typeName = Some t"
  "CHR ''.'' \<in> set typeName \<Longrightarrow> pool typeName = Some (MessageType t) \<Longrightarrow> lookup_type pool typeName = Some t"
  "typeName \<noteq> [] \<Longrightarrow> CHR ''.'' \<notin> set typeName \<Longrightarrow> pool (''proto.'' @ typeName) = Some (EnumType vs) \<Longrightarrow>
     pool (''tcp.'' @ typeName) = Some (MessageType t) \<Longrightarrow> lookup_type pool typeName = Some t"
  by (auto simp: lookup_type_def candidates_def PACKAGES_def)

definition strip_prefix :: "string \<Rightarrow> string \<Rightarrow> string" where
  "strip_prefix pfx s = (if startsWith s pfx then drop (length pfx) s else s)"

text \<open>\<open>fqn.split('.').pop()\<close>.\<close>

definition simple_name :: "string \<Rightarrow> string" where
  "simple_name fqn = rev (takeWhile (\<lambda>c. c \<noteq> CHR ''.'') (rev fqn))"

definition clean_name :: "string \<Rightarrow> string \<Rightarrow> string" where
  "clean_name fqn name = (let pfx = simple_name fqn @ ''_'' in strip_prefix pfx (strip_prefix pfx name))"

definition enumValues :: "(string \<Rightarrow> 'k definition_kind option) \<Rightarrow> string \<Rightarrow> exn + (string \<times> int) list" where
  "enumValues pool fqn =
     (case lookupEnum pool fqn of
        None \<Rightarrow> Inl (Thrown (''[tcp] enum not found: '' @ fqn))
      | Some values \<Rightarrow>
          Inr (fold (\<lambda>(name, n) out. AList.update name n (AList.update (clean_name fqn name) n out)) values []))"

lemma find_append_cases: "find P (xs @ ys) = (case find P xs of None \<Rightarrow> find P ys | Some x \<Rightarrow> Some x)"
  by (induction xs) auto

lemma find_hit: "find P xs = Some x \<Longrightarrow> x \<in> set xs \<and> P x"
  by (induction xs) (auto split: if_splits)

lemma fold_names:
  "map_of (fold (\<lambda>(name, n) out. AList.update name n (AList.update (f name) n out)) vs out) k =
     (case find (\<lambda>(name, n). k = name \<or> k = f name) (rev vs) of Some (_, n) \<Rightarrow> Some n | None \<Rightarrow> map_of out k)"
proof (induction vs arbitrary: out)
  case (Cons v vs)
  then show ?case
    by (cases v) (auto simp: update_conv' find_append_cases split: option.split)
qed simp

text \<open>When no clean name is another value's name, every value is found under both of its names, and
  there are no other names.\<close>

theorem enum_names:
  assumes "lookupEnum pool fqn = Some values" and "distinct (map fst values)"
    and "inj_on (clean_name fqn) (fst ` set values)"
    and "\<forall>x \<in> fst ` set values. \<forall>y \<in> fst ` set values. clean_name fqn x = y \<longrightarrow> x = y"
  shows "\<exists>out. enumValues pool fqn = Inr out \<and>
    (\<forall>(name, n) \<in> set values. map_of out name = Some n \<and> map_of out (clean_name fqn name) = Some n) \<and>
    fst ` set out = fst ` set values \<union> clean_name fqn ` fst ` set values"
proof -
  let ?f = "clean_name fqn"
  define out where "out = fold (\<lambda>(name, n) out. AList.update name n (AList.update (?f name) n out)) values []"
  have val: "map_of out k = Some n" if v: "(name, n) \<in> set values" and k: "k = name \<or> k = ?f name" for k name n
  proof -
    have "name' = name" if "(name', n') \<in> set values" "k = name' \<or> k = ?f name'" for name' n'
    proof -
      have in1: "name \<in> fst ` set values" "name' \<in> fst ` set values"
        using v that(1) by force+
      show ?thesis
        using that(2) k assms(4) in1 inj_onD [OF assms(3) _ in1] by metis
    qed
    note names = this
    have one: "x = (name, n)" if "x \<in> set values" "case x of (name, n) \<Rightarrow> k = name \<or> k = ?f name" for x
    proof (cases x)
      case (Pair name' n')
      then have "name' = name"
        using that names [of name' n'] by simp
      with Pair that(1) v eq_key_imp_eq_value [OF assms(2)] show ?thesis
        by blast
    qed
    obtain x where x: "find (\<lambda>(name, n). k = name \<or> k = ?f name) (rev values) = Some x"
      using v k by (cases "find (\<lambda>(name, n). k = name \<or> k = ?f name) (rev values)") (auto simp: find_None_iff)
    then have "x = (name, n)"
      using one find_hit [OF x] by simp
    with x show ?thesis
      by (simp add: out_def fold_names)
  qed
  have "fst ` set (fold (\<lambda>(name, n) out. AList.update name n (AList.update (f name) n out)) vs o') =
      fst ` set o' \<union> fst ` set vs \<union> f ` fst ` set vs" for f vs and o' :: "(string \<times> int) list"
  proof (induction vs arbitrary: o')
    case (Cons x vs)
    then show ?case
      by (cases x) (simp add: dom_update Un_ac insert_commute)
  qed simp
  then have "fst ` set out = fst ` set values \<union> ?f ` fst ` set values"
    by (simp add: out_def)
  with val show ?thesis
    using assms(1) by (auto simp: enumValues_def out_def)
qed

lemma clean_doubled: "clean_name ''tcp.EProtocol.Proto'' ''Proto_Proto_ROOM'' = ''ROOM''"
  by (simp add: clean_name_def simple_name_def strip_prefix_def startsWith_def)

end
