(* ===== verification/Launcher.thy ===== *)
theory Launcher
  imports HttpRouter
begin

text \<open>
  The processes of the game server: the launcher (\<open>src/server.js\<close>), which runs four servers as children and
  takes the group down when one of them ends, and the shutdown of an HTTP server (\<open>src/servers/_start.js\<close>).
  What happens to a process is a sequence of events. A process whose timers are unreferenced ends with
  code 0 as soon as nothing else is left to wait for, as Node documents for \<open>unref\<close>; and \<open>server.close\<close>
  on a server that is not listening calls back with an error, as it documents there.
\<close>

section \<open>The launcher\<close>

definition SERVERS :: "string list" where
  "SERVERS = [''live'', ''login'', ''main'', ''tcp'']"

record launcher =
  la_running :: "string list"
  la_terminated :: "string list"
  la_shutdown :: "int option"
  la_ended :: "int option"

definition new_launcher :: launcher where
  "new_launcher = \<lparr>la_running = SERVERS, la_terminated = [], la_shutdown = None, la_ended = None\<rparr>"

text \<open>\<open>la_shutdown\<close> is the code the timer of the first call ends with; a signal to a child that is gone is
  caught.\<close>

definition shutdownAll :: "int \<Rightarrow> launcher \<Rightarrow> launcher" where
  "shutdownAll exitCode l =
     (if la_shutdown l \<noteq> None then l
      else l\<lparr>la_shutdown := Some exitCode, la_terminated := la_running l\<rparr>)"

definition on_exit :: "string \<Rightarrow> launcher \<Rightarrow> launcher" where
  "on_exit child l =
     (let l1 = l\<lparr>la_running := filter (\<lambda>c. c \<noteq> child) (la_running l)\<rparr>
      in if la_shutdown l1 = None then shutdownAll 1 l1 else l1)"

datatype launcher_event = ChildExit string | StopSignal | Elapsed

text \<open>\<open>Elapsed\<close> is the end of the 1500 ms.\<close>

fun launcher_step :: "launcher_event \<Rightarrow> launcher \<Rightarrow> launcher" where
  "launcher_step e l =
     (if la_ended l \<noteq> None then l
      else let l1 = (case e of
               ChildExit child \<Rightarrow> if child \<in> set (la_running l) then on_exit child l else l
             | StopSignal \<Rightarrow> shutdownAll 0 l
             | Elapsed \<Rightarrow> l\<lparr>la_ended := la_shutdown l\<rparr>)
           in if la_ended l1 = None \<and> la_running l1 = [] then l1\<lparr>la_ended := Some 0\<rparr> else l1)"

definition launcher_run :: "launcher_event list \<Rightarrow> launcher" where
  "launcher_run es = fold launcher_step es new_launcher"

definition launcher_inv :: "launcher \<Rightarrow> bool" where
  "launcher_inv l \<longleftrightarrow>
     distinct (la_running l) \<and>
     (la_shutdown l = None \<longrightarrow> la_running l = SERVERS \<and> la_ended l = None) \<and>
     (la_shutdown l \<noteq> None \<longrightarrow> set (la_running l) \<subseteq> set (la_terminated l)) \<and>
     (la_ended l = None \<longrightarrow> la_running l \<noteq> []) \<and>
     (\<forall>c. la_ended l = Some c \<longrightarrow> (if la_running l = [] then c = 0 else la_shutdown l = Some c))"

declare launcher_step.simps [simp del]

lemma servers [simp]: "distinct SERVERS" "SERVERS \<noteq> []"
  by (simp_all add: SERVERS_def)

lemma shutdownAll_inv: "launcher_inv l \<Longrightarrow> launcher_inv (shutdownAll c l)"
  by (auto simp: launcher_inv_def shutdownAll_def)

text \<open>What remains when the last child has gone.\<close>

definition settle :: "launcher \<Rightarrow> launcher" where
  "settle l = (if la_ended l = None \<and> la_running l = [] then l\<lparr>la_ended := Some 0\<rparr> else l)"

lemma settle_id: "launcher_inv l \<Longrightarrow> settle l = l"
  by (auto simp: launcher_inv_def settle_def)

lemma on_exit_inv:
  assumes "launcher_inv l" and "la_ended l = None"
  shows "launcher_inv (settle (on_exit child l))"
proof (cases "la_shutdown l")
  case None
  then show ?thesis
    using assms by (simp add: launcher_inv_def settle_def on_exit_def shutdownAll_def Let_def)
next
  case (Some c)
  then have "set (filter (\<lambda>c. c \<noteq> child) (la_running l)) \<subseteq> set (la_terminated l)"
    using assms by (auto simp: launcher_inv_def)
  with Some show ?thesis
    using assms by (simp add: launcher_inv_def settle_def on_exit_def Let_def)
qed

lemma launcher_step_inv:
  assumes "launcher_inv l"
  shows "launcher_inv (launcher_step e l)"
proof (cases "la_ended l")
  case None
  have step: "launcher_step e l = settle (case e of
      ChildExit child \<Rightarrow> if child \<in> set (la_running l) then on_exit child l else l
    | StopSignal \<Rightarrow> shutdownAll 0 l
    | Elapsed \<Rightarrow> l\<lparr>la_ended := la_shutdown l\<rparr>)"
    using None by (simp add: launcher_step.simps settle_def Let_def)
  have "launcher_inv (l\<lparr>la_ended := la_shutdown l\<rparr>)"
    using assms None by (auto simp: launcher_inv_def)
  with assms None show ?thesis
    unfolding step by (cases e) (simp_all add: on_exit_inv shutdownAll_inv settle_id)
next
  case (Some c)
  with assms show ?thesis
    by (simp add: launcher_step.simps)
qed

lemma launcher_run_inv: "launcher_inv (launcher_run es)"
proof -
  have "launcher_inv l \<Longrightarrow> launcher_inv (fold launcher_step es l)" for l
    by (induction es arbitrary: l) (simp_all only: fold_simps launcher_step_inv)
  moreover have "launcher_inv new_launcher"
    by (simp add: launcher_inv_def new_launcher_def)
  ultimately show ?thesis
    by (simp only: launcher_run_def)
qed

text \<open>When one child has ended, every other has been told to; the launcher ends with code 0 when they do
  within the timeout, even after a crash, and the code of the failure is left for a child that does not.\<close>

theorem launcher_takes_group_down:
  assumes "l = launcher_run es"
  shows "(la_running l \<noteq> SERVERS \<longrightarrow> la_shutdown l \<noteq> None \<and> set (la_running l) \<subseteq> set (la_terminated l)) \<and>
    (la_ended l = Some c \<longrightarrow> (if la_running l = [] then c = 0 else la_shutdown l = Some c)) \<and>
    (la_running l = [] \<longrightarrow> la_ended l \<noteq> None)"
  using launcher_run_inv [of es] assms unfolding launcher_inv_def by blast

lemma crash_ends_with_success:
  "la_ended (launcher_run (map ChildExit [''main'', ''live'', ''tcp'', ''login''])) = Some 0"
  by (simp add: launcher_run_def launcher_step.simps new_launcher_def on_exit_def shutdownAll_def SERVERS_def Let_def)

section \<open>An HTTP server\<close>

record http_process =
  hp_listening :: bool
  hp_connections :: nat
  hp_ended :: "int option"

datatype http_event = Opened | Closed | Stop

text \<open>\<open>server.close\<close>: no new connections; the callback comes when the last one has gone.\<close>

fun http_step :: "http_event \<Rightarrow> http_process \<Rightarrow> http_process" where
  "http_step e p =
     (if hp_ended p \<noteq> None then p
      else case e of
        Opened \<Rightarrow> if hp_listening p then p\<lparr>hp_connections := Suc (hp_connections p)\<rparr> else p
      | Closed \<Rightarrow>
          (let n = hp_connections p - 1
           in p\<lparr>hp_connections := n, hp_ended := (if \<not> hp_listening p \<and> n = 0 then Some 0 else None)\<rparr>)
      | Stop \<Rightarrow>
          if \<not> hp_listening p then p\<lparr>hp_ended := Some 1\<rparr>
          else p\<lparr>hp_listening := False, hp_ended := (if hp_connections p = 0 then Some 0 else None)\<rparr>)"

lemma http_ended: "hp_ended q = Some c \<Longrightarrow> fold http_step es q = q"
  by (induction es) simp_all

declare http_step.simps [simp del]

lemma drain_part:
  "\<not> hp_listening q \<Longrightarrow> hp_ended q = None \<Longrightarrow> k < hp_connections q \<Longrightarrow>
     fold http_step (replicate k Closed) q = q\<lparr>hp_connections := hp_connections q - k\<rparr>"
  by (induction k arbitrary: q) (simp_all add: http_step.simps Let_def del: fold_replicate)

lemma drain_all:
  "\<not> hp_listening q \<Longrightarrow> hp_ended q = None \<Longrightarrow> 0 < hp_connections q \<Longrightarrow> hp_connections q \<le> k \<Longrightarrow>
     hp_ended (fold http_step (replicate k Closed) q) = Some 0"
proof (induction k arbitrary: q)
  case (Suc k)
  have step: "http_step Closed q = q\<lparr>hp_connections := hp_connections q - 1,
      hp_ended := (if hp_connections q = 1 then Some 0 else None)\<rparr>"
    using Suc.prems by (auto simp: http_step.simps Let_def)
  show ?case
  proof (cases "hp_connections q = 1")
    case True
    then show ?thesis
      using http_ended [of "http_step Closed q" 0] step by (simp del: fold_replicate)
  next
    case False
    then show ?thesis
      using Suc.prems Suc.IH [of "http_step Closed q"] step by (simp del: fold_replicate)
  qed
qed simp

text \<open>One signal drains the connections; a second one before they are drained cuts them, with code 1.\<close>

theorem one_stop_drains:
  assumes "hp_listening p" and "hp_ended p = None" and "n = hp_connections p"
  shows "hp_ended (fold http_step (Stop # replicate k Closed) p) = (if n \<le> k then Some 0 else None)"
    and "k < n \<Longrightarrow> hp_ended (fold http_step (Stop # replicate k Closed @ [Stop]) p) = Some 1 \<and>
       hp_connections (fold http_step (Stop # replicate k Closed @ [Stop]) p) = n - k"
proof -
  let ?p = "http_step Stop p"
  have p: "?p = p\<lparr>hp_listening := False, hp_ended := (if n = 0 then Some 0 else None)\<rparr>"
    using assms by (simp add: http_step.simps)
  show "hp_ended (fold http_step (Stop # replicate k Closed) p) = (if n \<le> k then Some 0 else None)"
  proof (cases "n = 0")
    case True
    then show ?thesis
      using http_ended [of ?p 0] p by (simp del: fold_replicate)
  next
    case False
    then show ?thesis
      using drain_all [of ?p k] drain_part [of ?p k] assms p by (simp del: fold_replicate)
  qed
  show "hp_ended (fold http_step (Stop # replicate k Closed @ [Stop]) p) = Some 1 \<and>
     hp_connections (fold http_step (Stop # replicate k Closed @ [Stop]) p) = n - k" if "k < n"
    using drain_part [of ?p k] assms p that by (simp add: http_step.simps del: fold_replicate)
qed

end
