(* ===== verification/Spec2Isabelle.thy ===== *)
theory Spec2Isabelle
  imports RoomProps CodecProps MatchmakerProps GatewayProps SettlementProps HttpProps AuthProps
    AuthFlowProps MigrationProps WebApps StoreTypes Pages Fleet Bus AdminProps Accounts Settings
    AuthApps TcpProtocol Launcher
begin

text \<open>
  Verification of the Free Fire 1.70 private server.

  \<^bold>\<open>The program.\<close> A game client logs in over HTTP, keeps a TCP connection to a gateway for lobby, rooms and
  matchmaking, and plays on a match server (a separate Go process). The Node processes share a database,
  SQLite or PostgreSQL behind one repository interface, and a Redis bus with presence keys, hashes, a lease,
  durable streams and lossy channels. Two more services, login and connect, give the game Discord accounts
  over an OAuth dialect of their own, on PostgreSQL or MongoDB. A definition has the name of the function
  it translates (suffixed or prefixed where HOL has that name already), and paths below are relative to the
  repository's root.

  \<^bold>\<open>Foundations.\<close> \<open>Prelude\<close> has the JavaScript idioms and the shared lemmas, \<open>Text\<close> the string functions, \<open>Js\<close>
  the dynamic values (an object is the list of its properties; \<open>fld\<close>, \<open>put\<close>, \<open>tru\<close>, \<open>num\<close>, \<open>str\<close> read and
  write them as the language does), \<open>Documents\<close> the stored records, \<open>Demo\<close> the inputs of witnesses. A function
  that may throw returns \<open>exn + 'a\<close>, a query on a database \<open>'d\<close> returns its result with the new database.

  \<^bold>\<open>Lobby tier, \<open>src/tcp\<close>.\<close>
  \<^item> \<open>Redis\<close>: the operations of \<open>src/bus/index.js\<close> over a record of Redis commands; locale \<open>redis_laws\<close> states
    what Redis documents, interpreted on \<open>map_redis\<close>. \<open>Bus\<close>: envelopes, streams, channels, the shared instance.
  \<^item> \<open>Rooms\<close>, \<open>RoomWire\<close>: \<open>rooms.js\<close>. Between the commands of one node others may act: that is the function
    \<open>nd_env\<close> of the node. \<open>RoomInvariant\<close> and \<open>RoomProps\<close> show that every store reached by any interleaving of
    nodes is consistent, that the lock excludes, what each operation does, and that failures write nothing.
    The lock gives up after the 50 attempts of the code; its answer is an error of the model as well.
  \<^item> \<open>RoomSettings\<close>, \<open>CsAdvanced\<close>, \<open>Jwt\<close> with \<open>CodecProps\<close>: the decoders \<open>roomsettings.js\<close> (32-bit words) and
    \<open>csadvanced.js\<close> and the token of \<open>src/utils/jwt.js\<close>; round trips, bounds, safety on any bytes.
  \<^item> \<open>Matchmaker\<close>, \<open>MatchmakerProps\<close>, \<open>Fleet\<close>: \<open>matchmaker.js\<close> and \<open>fleet.js\<close>. At most one leader, what a tick
    takes from the queue and whom it tells what; the cache is the set of servers heard of in the last 30 s.
  \<^item> \<open>TcpHandlers\<close>: \<open>handlers/\<close> and \<open>router.js\<close>. \<open>TcpProtocol\<close>: the names of types and enums.
  \<^item> \<open>Framing\<close>, \<open>Gateway\<close>, \<open>GatewayProps\<close>: \<open>framing.js\<close> and \<open>gateway.js\<close> as events on one state (connections,
    session objects, sessions); frames survive any chunking, nothing runs before authentication, the session
    table is consistent in every reachable state.

  \<^bold>\<open>Accounts and HTTP tier.\<close>
  \<^item> \<open>DefaultPlayer\<close>, \<open>Repo\<close>, \<open>Friends\<close>: \<open>src/db/player.js\<close> and \<open>src/db/repo/\<close>, with SQL written out on tables.
    \<open>AccountStore\<close> states the contract as the locale \<open>account_store\<close> over the view \<open>acct\<close> from ids to documents
    and interprets it on both backends. \<open>StoreTypes\<close>: every sequence of calls keeps the store typed.
    \<open>Accounts\<close>: the SQLite file of \<open>src/db/accounts.js\<close>.
  \<^item> \<open>Shared\<close>, \<open>AuthGate\<close>, \<open>LoginHandlers\<close>, \<open>LoginDescData\<close>, \<open>ProfileHandlers\<close>, \<open>SocialHandlers\<close>, \<open>ShopHandlers\<close>,
    \<open>StaticHandlers\<close>: \<open>src/handlers/\<close>, each handler with what its module exports. \<open>HttpRouter\<close>, \<open>ReplayGuard\<close>:
    \<open>src/protocol/\<close>. \<open>WebApps\<close>: \<open>src/apps/\<close> and \<open>src/routes/\<close>. \<open>HttpProps\<close>: tokens lead to their account, the gates
    and the bearer check hold, on whichever backend.
  \<^item> \<open>Settlement\<close>, \<open>SettlementProps\<close>: \<open>src/servers/settlement.js\<close>, \<open>src/tcp/matchstats.js\<close> and the stream loop
    of the bus; a match is paid once, an entry is delivered once. A read takes up to \<open>COUNT = 32\<close> entries, and \<open>n\<close>
    reads take \<open>32 * n\<close>, the bound of the theorems about \<open>n\<close> reads. Streams are kept below \<open>STREAM_MAXLEN\<close>.
  \<^item> \<open>AdminCore\<close>, \<open>AdminCli\<close>, \<open>AdminProps\<close>: \<open>src/admin/core.js\<close> and \<open>scripts/admin.js\<close>, and what a ban does
    to a player in the rest of the system.
  \<^item> \<open>Cutover\<close>, \<open>MigrationProps\<close>: \<open>src/db/migrate.js\<close>, \<open>src/db/migrate-data.js\<close>, \<open>scripts/backfill-friends.js\<close>;
    the store answers after the cutover as it did before.
  \<^item> \<open>Settings\<close>: \<open>config/default.js\<close> and \<open>auth/shared/src/config.js\<close>. \<open>Launcher\<close>: \<open>src/server.js\<close> and
    \<open>src/servers/_start.js\<close> as state machines over process events.

  \<^bold>\<open>Authentication services, \<open>auth/\<close>.\<close>
  \<^item> \<open>AuthRepos\<close>, \<open>AuthTokens\<close>, \<open>GuestStore\<close>: the repositories on both stores, uids and tokens; the locales
    \<open>guest_store\<close> and \<open>auth_store\<close> are interpreted on both. The uid retry makes the 5 attempts of the code.
  \<^item> \<open>RateLimit\<close>, \<open>SignedState\<close>, \<open>Pairings\<close>, \<open>PairingRuns\<close>: the limiter, the signed texts, and every interleaving
    of the requests on a pairing, in which a poll is two queries.
  \<^item> \<open>LoginFlow\<close>, \<open>LoginRoutes\<close>, \<open>Pages\<close>, \<open>LegalPages\<close>, \<open>DialogScript\<close>, \<open>ConnectRoutes\<close>, \<open>AuthApps\<close>: both services
    up to the bytes of their pages. The script of the login page polls every 2 s for 10 minutes; its recursion
    ends because the time left shrinks, and the theorem bounds it by 300 fetches whatever they return.
  \<^item> \<open>AuthProps\<close>, \<open>AuthFlowProps\<close>: limits, single use, a Discord login from the dialog to the game, and the
    refinement between the two stores. \<open>AuthMigration\<close>: \<open>auth/scripts/migrate-mongo-to-pg.js\<close>.

  \<^bold>\<open>Parameters.\<close> Code outside the repository is an argument: Redis commands, the protobuf codec, AES, HMAC and
  hashes, JSON text, Discord's answers, Express's parsing of bodies and of query values, random draws and the
  clock. What is assumed of them (a decoder inverts its encoder, a lease is granted to one caller) are
  hypotheses of the theorems or laws of a locale, and each theorem with hypotheses has a witness in which they hold.

  \<^bold>\<open>Not modelled.\<close> Opening and retrying connections, log output, the DNS lookup of \<open>src/utils/address.js\<close>, static
  file mounts, and the entry scripts that only call modelled functions: they have no state of their own. The
  smoke scripts and \<open>tools/\<close> exercise or inspect the system from outside. The match server is written in Go
  and reached through the bus and the token only. Floating-point numbers are integers or, where the code
  divides, rationals; a string is the list of its bytes (UTF-8
  where a text is not ASCII), and the string functions are exact on ASCII.
\<close>

end
